(* ===== verification/Py_Prelude.thy ===== *)
theory Py_Prelude
  imports
    Complex_Main
    "HOL-Library.AList"
    "HOL-Library.Char_ord"
    "HOL-Library.List_Lexorder"
    "HOL-Library.Product_Lexorder"
begin

section \<open>Python values, strings and exceptions\<close>

text \<open>
  The vocabulary every component of the development is written in: Python strings with the
  methods the source calls on them, JSON values, exceptions as values, and the result and
  state-exception combinators.

  Strings are HOL strings and hold ASCII text: \<open>strip\<close>, \<open>isdigit\<close>, \<open>lower\<close> and
  \<open>upper\<close> below are Python's methods on ASCII characters. A float is kept with its exact
  rational value and the text Python prints for it, so that the model never computes a
  decimal expansion; the two special values NaN and infinity have no counterpart here.
  Python dictionaries keep insertion order, so they are association lists, read with
  \<open>map_of\<close> and written with \<open>AList.update\<close> (in place, or at the end) and
  \<open>AList.delete\<close> of the library.
\<close>

named_theorems py_simps \<open>unfolding rules of the Python vocabulary\<close>
named_theorems norm_simps \<open>idempotence and shape facts of the normalisers\<close>

subsection \<open>Exceptions and results\<close>

text \<open>
  \<open>AppError\<close> is \<open>exceptions.app_exception.QsmithAppException\<close>; \<open>ValidationError\<close> is
  pydantic's (a subclass of \<open>ValueError\<close>), carrying the message of the validator that
  raised it; \<open>IntegrityError\<close> is the database's answer to a second row with the same key.
\<close>

datatype exc =
    ValueError string
  | ValidationError string
  | TypeError string
  | KeyError string
  | AttributeError string
  | AppError string
  | IntegrityError string
  | RuntimeError string
  | OverflowError string

fun exc_message :: "exc \<Rightarrow> string" where
  "exc_message (ValueError m) = m"
| "exc_message (ValidationError m) = m"
| "exc_message (TypeError m) = m"
| "exc_message (KeyError m) = m"
| "exc_message (AttributeError m) = m"
| "exc_message (AppError m) = m"
| "exc_message (IntegrityError m) = m"
| "exc_message (RuntimeError m) = m"
| "exc_message (OverflowError m) = m"

fun is_value_error :: "exc \<Rightarrow> bool" where
  "is_value_error (ValueError m) = True"
| "is_value_error (ValidationError m) = True"
| "is_value_error e = False"

type_synonym 'a result = "exc + 'a"

definition rbind :: "'a result \<Rightarrow> ('a \<Rightarrow> 'b result) \<Rightarrow> 'b result" where
  "rbind m f = (case m of Inl e \<Rightarrow> Inl e | Inr x \<Rightarrow> f x)"

lemma rbind_simps [simp]:
  "rbind (Inl e) f = Inl e"
  "rbind (Inr x) f = f x"
  by (simp_all add: rbind_def)

lemma rbind_Inr_iff: "rbind m f = Inr y \<longleftrightarrow> (\<exists>x. m = Inr x \<and> f x = Inr y)"
  by (cases m) simp_all

lemma rbindE:
  assumes "rbind m f = Inr y"
  obtains x where "m = Inr x" and "f x = Inr y"
  using assms by (auto simp: rbind_Inr_iff)

lemma rbind_Inl_iff: "rbind m f = Inl e \<longleftrightarrow> m = Inl e \<or> (\<exists>x. m = Inr x \<and> f x = Inl e)"
  by (cases m) simp_all

lemma rbind_cong [fundef_cong]:
  "m = m' \<Longrightarrow> (\<And>x. m' = Inr x \<Longrightarrow> f x = f' x) \<Longrightarrow> rbind m f = rbind m' f'"
  by (cases m') auto

text \<open>\<open>if not c: raise e\<close>, the guard of every validator.\<close>

definition guard :: "bool \<Rightarrow> exc \<Rightarrow> unit result" where
  "guard c e = (if c then Inr () else Inl e)"

lemma guard_Inr [simp]: "guard c e = Inr u \<longleftrightarrow> c"
  by (simp add: guard_def)

lemma guard_True [simp]: "guard True e = Inr ()"
  by (simp add: guard_def)

lemma guard_False [simp]: "guard False e = Inl e"
  by (simp add: guard_def)

lemma rbind_guard_Inr: "rbind (guard c e) f = Inr y \<longleftrightarrow> c \<and> f () = Inr y"
  by (cases c) simp_all

text \<open>A comprehension whose element expression may raise: the first error wins.\<close>

fun map_result :: "('a \<Rightarrow> 'b result) \<Rightarrow> 'a list \<Rightarrow> 'b list result" where
  "map_result f [] = Inr []"
| "map_result f (x # xs) = rbind (f x) (\<lambda>y. rbind (map_result f xs) (\<lambda>ys. Inr (y # ys)))"

lemma map_result_cong [fundef_cong]:
  "xs = ys \<Longrightarrow> (\<And>x. x \<in> set ys \<Longrightarrow> f x = g x) \<Longrightarrow> map_result f xs = map_result g ys"
proof (induction xs arbitrary: ys)
  case (Cons x xs)
  then show ?case by (cases ys) (auto intro!: rbind_cong)
qed simp

lemma map_result_list_all2:
  "map_result f xs = Inr ys \<Longrightarrow> list_all2 (\<lambda>x y. f x = Inr y) xs ys"
proof (induction xs arbitrary: ys)
  case (Cons x xs)
  then show ?case by (auto simp: rbind_Inr_iff)
qed simp

lemma map_result_length: "map_result f xs = Inr ys \<Longrightarrow> length ys = length xs"
  by (auto dest!: map_result_list_all2 list_all2_lengthD)

subsection \<open>Sequencing of effects\<close>

text \<open>
  A stateful call is a function from the state to a result and the next state; what it wrote
  before it raised stays written.
\<close>

type_synonym ('s, 'a) eff = "'s \<Rightarrow> 'a result \<times> 's"

definition ereturn :: "'a \<Rightarrow> ('s, 'a) eff" where
  "ereturn x = (\<lambda>s. (Inr x, s))"

definition eraise :: "exc \<Rightarrow> ('s, 'a) eff" where
  "eraise e = (\<lambda>s. (Inl e, s))"

definition ebind :: "('s, 'a) eff \<Rightarrow> ('a \<Rightarrow> ('s, 'b) eff) \<Rightarrow> ('s, 'b) eff" where
  "ebind m f = (\<lambda>s. case m s of (Inl e, t) \<Rightarrow> (Inl e, t) | (Inr x, t) \<Rightarrow> f x t)"

definition elift :: "'a result \<Rightarrow> ('s, 'a) eff" where
  "elift r = (\<lambda>s. (r, s))"

definition emodify :: "('s \<Rightarrow> 's) \<Rightarrow> ('s, unit) eff" where
  "emodify f = (\<lambda>s. (Inr (), f s))"

lemma ereturn_apply [simp]: "ereturn x s = (Inr x, s)"
  by (simp add: ereturn_def)

lemma eraise_apply [simp]: "eraise e s = (Inl e, s)"
  by (simp add: eraise_def)

lemma elift_apply [simp]: "elift r s = (r, s)"
  by (simp add: elift_def)

lemma emodify_apply [simp]: "emodify f s = (Inr (), f s)"
  by (simp add: emodify_def)

lemma ebind_Inl: "m s = (Inl e, t) \<Longrightarrow> ebind m f s = (Inl e, t)"
  by (simp add: ebind_def)

lemma ebind_Inr: "m s = (Inr x, t) \<Longrightarrow> ebind m f s = f x t"
  by (simp add: ebind_def)

lemma ebind_eq_Inr_iff:
  "ebind m f s = (Inr y, u) \<longleftrightarrow> (\<exists>x t. m s = (Inr x, t) \<and> f x t = (Inr y, u))"
  by (auto simp: ebind_def split: prod.splits sum.splits)

subsection \<open>Characters and string methods\<close>

definition code_of :: "char \<Rightarrow> nat" where
  "code_of c = of_char c"

definition is_ws :: "char \<Rightarrow> bool" where
  "is_ws c = (let n = code_of c in (9 \<le> n \<and> n \<le> 13) \<or> (28 \<le> n \<and> n \<le> 32))"

definition is_digit :: "char \<Rightarrow> bool" where
  "is_digit c = (let n = code_of c in 48 \<le> n \<and> n \<le> 57)"

definition lower_char :: "char \<Rightarrow> char" where
  "lower_char c = (let n = code_of c in if 65 \<le> n \<and> n \<le> 90 then char_of (n + 32) else c)"

definition upper_char :: "char \<Rightarrow> char" where
  "upper_char c = (let n = code_of c in if 97 \<le> n \<and> n \<le> 122 then char_of (n - 32) else c)"

definition lstrip :: "string \<Rightarrow> string" where
  "lstrip s = dropWhile is_ws s"

definition rstrip :: "string \<Rightarrow> string" where
  "rstrip s = rev (dropWhile is_ws (rev s))"

definition strip :: "string \<Rightarrow> string" where
  "strip s = lstrip (rstrip s)"

text \<open>\<open>s.lstrip(c)\<close>, \<open>s.rstrip(c)\<close> and \<open>s.strip(c)\<close> with a one-character argument.\<close>

definition lstrip_char :: "char \<Rightarrow> string \<Rightarrow> string" where
  "lstrip_char c s = dropWhile (\<lambda>x. x = c) s"

definition rstrip_char :: "char \<Rightarrow> string \<Rightarrow> string" where
  "rstrip_char c s = rev (dropWhile (\<lambda>x. x = c) (rev s))"

definition strip_char :: "char \<Rightarrow> string \<Rightarrow> string" where
  "strip_char c s = lstrip_char c (rstrip_char c s)"

definition lower :: "string \<Rightarrow> string" where
  "lower s = map lower_char s"

definition upper :: "string \<Rightarrow> string" where
  "upper s = map upper_char s"

definition isdigit :: "string \<Rightarrow> bool" where
  "isdigit s = (s \<noteq> [] \<and> list_all is_digit s)"

definition startswith :: "string \<Rightarrow> string \<Rightarrow> bool" where
  "startswith s p = (take (length p) s = p)"

definition endswith :: "string \<Rightarrow> string \<Rightarrow> bool" where
  "endswith s p = (length p \<le> length s \<and> drop (length s - length p) s = p)"

definition replace_char :: "char \<Rightarrow> char \<Rightarrow> string \<Rightarrow> string" where
  "replace_char a b s = map (\<lambda>c. if c = a then b else c) s"

text \<open>\<open>sub in s\<close> on strings.\<close>

fun str_in :: "string \<Rightarrow> string \<Rightarrow> bool" where
  "str_in p [] = (p = [])"
| "str_in p (c # s) = (startswith (c # s) p \<or> str_in p s)"

text \<open>\<open>s.split(c)\<close>: never empty; adjacent separators give empty parts.\<close>

fun split_on :: "char \<Rightarrow> string \<Rightarrow> string list" where
  "split_on d [] = [[]]"
| "split_on d (c # s) =
     (if c = d then [] # split_on d s
      else (case split_on d s of [] \<Rightarrow> [[c]] | p # ps \<Rightarrow> (c # p) # ps))"

fun join :: "string \<Rightarrow> string list \<Rightarrow> string" where
  "join sep [] = []"
| "join sep [s] = s"
| "join sep (s # t # ss) = s @ sep @ join sep (t # ss)"

definition quoted :: "string \<Rightarrow> string" where
  "quoted s = [CHR 0x27] @ s @ [CHR 0x27]"

text \<open>Decimal text of an integer, and \<open>int(text)\<close> on a string of digits.\<close>

definition digit_char :: "nat \<Rightarrow> char" where
  "digit_char n = char_of (48 + n)"

definition digit_val :: "char \<Rightarrow> nat" where
  "digit_val c = code_of c - 48"

fun show_nat :: "nat \<Rightarrow> string" where
  "show_nat n = (if n < 10 then [digit_char n] else show_nat (n div 10) @ [digit_char (n mod 10)])"

declare show_nat.simps [simp del]

definition show_int :: "int \<Rightarrow> string" where
  "show_int i = (if i < 0 then CHR ''-'' # show_nat (nat (- i)) else show_nat (nat i))"

definition digits_val :: "string \<Rightarrow> nat" where
  "digits_val s = foldl (\<lambda>n c. 10 * n + digit_val c) 0 s"

subsection \<open>Laws of the string methods\<close>

lemma lstrip_idem [norm_simps]: "lstrip (lstrip s) = lstrip s"
  by (simp add: lstrip_def)

lemma dropWhile_hd: "dropWhile P s \<noteq> [] \<Longrightarrow> \<not> P (hd (dropWhile P s))"
  by (simp add: hd_dropWhile)

lemma dropWhile_id_iff: "dropWhile P s = s \<longleftrightarrow> (s = [] \<or> \<not> P (hd s))"
proof (cases s)
  case (Cons c t)
  have "length (dropWhile P t) \<le> length t" by (rule length_dropWhile_le)
  then have "dropWhile P t \<noteq> c # t" by auto
  with Cons show ?thesis by simp
qed simp

lemma rstrip_lstrip_id:
  assumes "s = [] \<or> \<not> P (last s)"
  shows "rev (dropWhile P (rev s)) = s"
proof -
  have "dropWhile P (rev s) = rev s"
    using assms by (simp add: dropWhile_id_iff hd_rev)
  then show ?thesis by simp
qed

lemma last_dropWhile: "dropWhile P s \<noteq> [] \<Longrightarrow> last (dropWhile P s) = last s"
  by (induction s) auto

lemma rstrip_last: "rstrip s \<noteq> [] \<Longrightarrow> \<not> is_ws (last (rstrip s))"
  unfolding rstrip_def by (metis Nil_is_rev_conv dropWhile_hd last_rev)

lemma strip_ends:
  assumes "strip s \<noteq> []"
  shows "\<not> is_ws (hd (strip s))" and "\<not> is_ws (last (strip s))"
proof -
  show "\<not> is_ws (hd (strip s))"
    using assms unfolding strip_def lstrip_def by (rule dropWhile_hd)
  have "rstrip s \<noteq> []" using assms by (auto simp: strip_def lstrip_def)
  then have "\<not> is_ws (last (rstrip s))" by (rule rstrip_last)
  then show "\<not> is_ws (last (strip s))"
    using assms by (simp add: strip_def lstrip_def last_dropWhile)
qed

lemma strip_id:
  assumes "s = [] \<or> (\<not> is_ws (hd s) \<and> \<not> is_ws (last s))"
  shows "strip s = s"
proof -
  have "rstrip s = s" unfolding rstrip_def using assms by (intro rstrip_lstrip_id) auto
  then show ?thesis using assms by (auto simp: strip_def lstrip_def dropWhile_id_iff)
qed

lemma strip_idem [norm_simps, simp]: "strip (strip s) = strip s"
  by (rule strip_id) (use strip_ends in blast)

lemma strip_Nil [simp]: "strip [] = []"
  by (simp add: strip_def lstrip_def rstrip_def)

lemma code_of_lower: "code_of (lower_char c) =
  (if 65 \<le> code_of c \<and> code_of c \<le> 90 then code_of c + 32 else code_of c)"
proof -
  have "(of_char (char_of (of_char c + 32 :: nat)) :: nat) = of_char c + 32"
    if "of_char c \<le> (90 :: nat)" using that by simp
  then show ?thesis by (auto simp: lower_char_def code_of_def Let_def simp del: of_char_of)
qed

lemma code_of_upper: "code_of (upper_char c) =
  (if 97 \<le> code_of c \<and> code_of c \<le> 122 then code_of c - 32 else code_of c)"
proof -
  have "(of_char (char_of (of_char c - 32 :: nat)) :: nat) = of_char c - 32"
    if "of_char c \<le> (122 :: nat)" using that by simp
  then show ?thesis by (auto simp: upper_char_def code_of_def Let_def simp del: of_char_of)
qed

lemma lower_char_idem [simp]: "lower_char (lower_char c) = lower_char c"
proof -
  have "\<not> (65 \<le> code_of (lower_char c) \<and> code_of (lower_char c) \<le> 90)"
    by (simp add: code_of_lower)
  then show ?thesis unfolding lower_char_def [of "lower_char c"] Let_def by (rule if_not_P)
qed

lemma upper_char_idem [simp]: "upper_char (upper_char c) = upper_char c"
proof -
  have "\<not> (97 \<le> code_of (upper_char c) \<and> code_of (upper_char c) \<le> 122)"
    by (auto simp: code_of_upper)
  then show ?thesis unfolding upper_char_def [of "upper_char c"] Let_def by (rule if_not_P)
qed

lemma lower_idem [norm_simps, simp]: "lower (lower s) = lower s"
  by (simp add: lower_def)

lemma upper_idem [norm_simps, simp]: "upper (upper s) = upper s"
  by (simp add: upper_def)

lemma is_ws_lower [simp]: "is_ws (lower_char c) = is_ws c"
  by (auto simp: is_ws_def code_of_lower Let_def)

lemma is_ws_upper [simp]: "is_ws (upper_char c) = is_ws c"
  by (auto simp: is_ws_def code_of_upper Let_def)

lemma strip_map:
  assumes "\<And>c. is_ws (f c) = is_ws c"
  shows "strip (map f s) = map f (strip s)"
  using assms
  by (simp add: strip_def lstrip_def rstrip_def rev_map dropWhile_map o_def)

lemma strip_lower: "strip (lower s) = lower (strip s)"
  by (simp add: lower_def strip_map)

lemma strip_upper: "strip (upper s) = upper (strip s)"
  by (simp add: upper_def strip_map)

lemma lower_strip_idem [norm_simps, simp]: "lower (strip (lower (strip s))) = lower (strip s)"
  by (simp add: strip_lower)

lemma upper_strip_idem [norm_simps, simp]: "upper (strip (upper (strip s))) = upper (strip s)"
  by (simp add: strip_upper)

lemma lower_Nil_iff [simp]: "lower s = [] \<longleftrightarrow> s = []"
  by (simp add: lower_def)

lemma upper_Nil_iff [simp]: "upper s = [] \<longleftrightarrow> s = []"
  by (simp add: upper_def)

lemma split_on_not_Nil [simp]: "split_on d s \<noteq> []"
  by (cases s) (auto split: list.splits)

lemma split_on_single: "d \<notin> set s \<Longrightarrow> split_on d s = [s]"
  by (induction s) auto

lemma split_on_append: "d \<notin> set s \<Longrightarrow> split_on d (s @ d # t) = s # split_on d t"
  by (induction s) auto

lemma split_on_join: "join [d] (split_on d s) = s"
proof (induction s)
  case (Cons c s)
  obtain p ps where ps: "split_on d s = p # ps"
    by (metis list.exhaust split_on_not_Nil)
  show ?case
  proof (cases "c = d")
    case True
    then show ?thesis using Cons ps by simp
  next
    case False
    then show ?thesis using Cons ps by (cases ps) simp_all
  qed
qed simp

lemma startswith_append [simp]: "startswith (p @ s) p"
  by (simp add: startswith_def)

lemma endswith_append [simp]: "endswith (s @ p) p"
  by (simp add: endswith_def)

lemma startswith_iff: "startswith s p \<longleftrightarrow> (\<exists>t. s = p @ t)"
  by (metis append_eq_conv_conj append_take_drop_id startswith_def)

lemma endswith_iff: "endswith s p \<longleftrightarrow> (\<exists>t. s = t @ p)"
proof
  assume "endswith s p"
  then have "s = take (length s - length p) s @ p"
    unfolding endswith_def by (metis append_take_drop_id)
  then show "\<exists>t. s = t @ p" by blast
qed auto

end
