(* ===== verification/Py_Value.thy ===== *)
theory Py_Value
  imports Py_Prelude
begin

section \<open>JSON values as the Python code sees them\<close>

text \<open>
  The value type every configuration, payload and result of the program is made of, with
  Python's truth test, \<open>str\<close>, \<open>==\<close> and \<open>int\<close> on it. Equality follows Python:
  \<open>True == 1 == 1.0\<close>, lists compare element by element, dictionaries by key whatever
  their order.
\<close>

datatype pyval =
    PNone
  | PBool bool
  | PInt int
  | PFloat rat string
  | PStr string
  | PList "pyval list"
  | PDict "(string \<times> pyval) list"

type_synonym pydict = "(string \<times> pyval) list"

lemma size_dict_entry [termination_simp]:
  "(k, v) \<in> set d \<Longrightarrow> size v < Suc (size_list (size_prod (\<lambda>_. 0) size) d)"
  by (induction d) auto

lemma size_list_entry [termination_simp]:
  "v \<in> set xs \<Longrightarrow> size v < Suc (size_list size xs)"
  by (induction xs) auto

lemma size_zip_entry [termination_simp]:
  "(x, y) \<in> set (zip xs ys) \<Longrightarrow> size x < Suc (size_list size xs)"
  by (rule size_list_entry) (rule set_zip_leftD)

subsection \<open>Kinds, truth and dictionary access\<close>

fun is_dict :: "pyval \<Rightarrow> bool" where
  "is_dict (PDict d) = True"
| "is_dict v = False"

fun is_list :: "pyval \<Rightarrow> bool" where
  "is_list (PList xs) = True"
| "is_list v = False"

fun is_str :: "pyval \<Rightarrow> bool" where
  "is_str (PStr s) = True"
| "is_str v = False"

text \<open>\<open>v if isinstance(v, dict) else {}\<close> and \<open>v if isinstance(v, list) else []\<close>.\<close>

fun dict_or_empty :: "pyval \<Rightarrow> pydict" where
  "dict_or_empty (PDict d) = d"
| "dict_or_empty v = []"

fun list_or_empty :: "pyval \<Rightarrow> pyval list" where
  "list_or_empty (PList xs) = xs"
| "list_or_empty v = []"

fun truthy :: "pyval \<Rightarrow> bool" where
  "truthy PNone = False"
| "truthy (PBool b) = b"
| "truthy (PInt i) = (i \<noteq> 0)"
| "truthy (PFloat q s) = (q \<noteq> 0)"
| "truthy (PStr s) = (s \<noteq> [])"
| "truthy (PList xs) = (xs \<noteq> [])"
| "truthy (PDict d) = (d \<noteq> [])"

text \<open>\<open>a or b\<close>, \<open>d.get(k)\<close>, \<open>d.get(k, v)\<close> and \<open>k in d\<close>.\<close>

definition py_or :: "pyval \<Rightarrow> pyval \<Rightarrow> pyval" where
  "py_or a b = (if truthy a then a else b)"

definition dget_default :: "pydict \<Rightarrow> string \<Rightarrow> pyval \<Rightarrow> pyval" where
  "dget_default d k v = (case map_of d k of None \<Rightarrow> v | Some x \<Rightarrow> x)"

definition dget :: "pydict \<Rightarrow> string \<Rightarrow> pyval" where
  "dget d k = dget_default d k PNone"

definition dhas :: "pydict \<Rightarrow> string \<Rightarrow> bool" where
  "dhas d k = (map_of d k \<noteq> None)"

abbreviation dset :: "string \<Rightarrow> 'a \<Rightarrow> (string \<times> 'a) list \<Rightarrow> (string \<times> 'a) list" where
  "dset \<equiv> AList.update"

abbreviation ddel :: "string \<Rightarrow> (string \<times> 'a) list \<Rightarrow> (string \<times> 'a) list" where
  "ddel \<equiv> AList.delete"

text \<open>\<open>d.update(e)\<close>.\<close>

definition dupdate :: "(string \<times> 'a) list \<Rightarrow> (string \<times> 'a) list \<Rightarrow> (string \<times> 'a) list" where
  "dupdate d e = fold (\<lambda>(k, v) acc. dset k v acc) e d"

subsection \<open>Text of a value\<close>

definition hex_digit :: "nat \<Rightarrow> char" where
  "hex_digit n = (if n < 10 then char_of (48 + n) else char_of (87 + n))"

definition repr_char :: "char \<Rightarrow> char \<Rightarrow> string" where
  "repr_char qc c =
     (let n = code_of c in
      if c = qc \<or> n = 92 then [CHR 0x5C, c]
      else if n = 10 then [CHR 0x5C, CHR ''n'']
      else if n = 13 then [CHR 0x5C, CHR ''r'']
      else if n = 9 then [CHR 0x5C, CHR ''t'']
      else if n < 32 \<or> 127 \<le> n then [CHR 0x5C, CHR ''x'', hex_digit (n div 16), hex_digit (n mod 16)]
      else [c])"

definition str_repr :: "string \<Rightarrow> string" where
  "str_repr s =
     (let qc = (if CHR 0x27 \<in> set s \<and> CHR 0x22 \<notin> set s then CHR 0x22 else CHR 0x27)
      in [qc] @ concat (map (repr_char qc) s) @ [qc])"

fun py_repr :: "pyval \<Rightarrow> string" where
  "py_repr PNone = ''None''"
| "py_repr (PBool b) = (if b then ''True'' else ''False'')"
| "py_repr (PInt i) = show_int i"
| "py_repr (PFloat q s) = s"
| "py_repr (PStr s) = str_repr s"
| "py_repr (PList xs) = ''['' @ join '', '' (map py_repr xs) @ '']''"
| "py_repr (PDict d) =
     ''{'' @ join '', '' (map (\<lambda>(k, v). str_repr k @ '': '' @ py_repr v) d) @ ''}''"

fun py_str :: "pyval \<Rightarrow> string" where
  "py_str (PStr s) = s"
| "py_str v = py_repr v"

text \<open>
  \<open>str(v or "").strip()\<close>, the idiom by which the program normalises almost every
  identifier it reads.
\<close>

definition text_of :: "pyval \<Rightarrow> string" where
  "text_of v = py_str (py_or v (PStr []))"

definition token :: "pyval \<Rightarrow> string" where
  "token v = strip (text_of v)"

lemma token_PStr [simp]: "token (PStr s) = strip s"
  by (simp add: token_def text_of_def py_or_def)

lemma token_PNone [simp]: "token PNone = []"
  by (simp add: token_def text_of_def py_or_def)

lemma strip_token [simp, norm_simps]: "strip (token v) = token v"
  by (simp add: token_def)

lemma token_idem [norm_simps]: "token (PStr (token v)) = token v"
  by simp

text \<open>The same on an optional string (\<open>None\<close> or a \<open>str\<close>).\<close>

definition opt_token :: "string option \<Rightarrow> string" where
  "opt_token so = (case so of None \<Rightarrow> [] | Some s \<Rightarrow> strip s)"

definition nonempty :: "string \<Rightarrow> string option" where
  "nonempty s = (if s = [] then None else Some s)"

lemma opt_token_simps [simp]: "opt_token None = []" "opt_token (Some s) = strip s"
  by (simp_all add: opt_token_def)

lemma nonempty_eq_Some [simp]: "nonempty s = Some t \<longleftrightarrow> s = t \<and> t \<noteq> []"
  by (auto simp: nonempty_def)

lemma nonempty_eq_None [simp]: "nonempty s = None \<longleftrightarrow> s = []"
  by (auto simp: nonempty_def)

subsection \<open>Equality\<close>

fun num_of :: "pyval \<Rightarrow> rat option" where
  "num_of (PBool b) = Some (if b then 1 else 0)"
| "num_of (PInt i) = Some (of_int i)"
| "num_of (PFloat q s) = Some q"
| "num_of v = None"

fun py_eq :: "pyval \<Rightarrow> pyval \<Rightarrow> bool" where
  "py_eq PNone w = (w = PNone)"
| "py_eq (PStr s) w = (w = PStr s)"
| "py_eq (PList xs) w =
     (case w of PList ys \<Rightarrow>
        length xs = length ys \<and> list_all (\<lambda>(x, y). py_eq x y) (zip xs ys)
      | _ \<Rightarrow> False)"
| "py_eq (PDict d) w =
     (case w of PDict e \<Rightarrow>
        length d = length e \<and>
        list_all (\<lambda>(k, v). case map_of e k of None \<Rightarrow> False | Some u \<Rightarrow> py_eq v u) d
      | _ \<Rightarrow> False)"
| "py_eq (PBool b) w = (num_of w = Some (if b then 1 else 0))"
| "py_eq (PInt i) w = (num_of w = Some (of_int i))"
| "py_eq (PFloat q s) w = (num_of w = Some q)"

text \<open>A JSON value: no dictionary binds a key twice.\<close>

fun wf_val :: "pyval \<Rightarrow> bool" where
  "wf_val (PList xs) = list_all wf_val xs"
| "wf_val (PDict d) = (distinct (map fst d) \<and> list_all (\<lambda>(k, v). wf_val v) d)"
| "wf_val v = True"

lemma py_eq_refl: "wf_val v \<Longrightarrow> py_eq v v"
proof (induction v rule: wf_val.induct)
  case (1 xs)
  then show ?case by (auto simp: list_all_iff zip_same_conv_map)
next
  case (2 d)
  have "map_of d k = Some v \<and> py_eq v v" if "(k, v) \<in> set d" for k v
    using that 2 by (auto simp: list_all_iff)
  then show ?case by (auto simp: list_all_iff split: option.splits)
qed auto

subsection \<open>Conversion to an integer\<close>

definition int_literal_error :: "string \<Rightarrow> exc" where
  "int_literal_error s = ValueError (''invalid literal for int() with base 10: '' @ str_repr s)"

definition parse_digits :: "string \<Rightarrow> nat option" where
  "parse_digits s =
     (let parts = split_on (CHR ''_'') s
      in if list_all isdigit parts then Some (digits_val (concat parts)) else None)"

definition int_of_str :: "string \<Rightarrow> int result" where
  "int_of_str s =
     (let t = strip s;
          neg = startswith t ''-'';
          body = (if neg \<or> startswith t ''+'' then drop 1 t else t)
      in case parse_digits body of
           None \<Rightarrow> Inl (int_literal_error s)
         | Some n \<Rightarrow> Inr (if neg then - int n else int n))"

fun py_int :: "pyval \<Rightarrow> int result" where
  "py_int (PBool b) = Inr (if b then 1 else 0)"
| "py_int (PInt i) = Inr i"
| "py_int (PFloat q s) = Inr (if 0 \<le> q then floor q else ceiling q)"
| "py_int (PStr s) = int_of_str s"
| "py_int v = Inl (TypeError
     ''int() argument must be a string, a bytes-like object or a real number'')"

text \<open>Rules that evaluate the string methods on literals.\<close>

lemmas py_eval =
  lower_def lower_char_def upper_def upper_char_def code_of_def char_of_eq_iff Let_def
  strip_def lstrip_def rstrip_def lstrip_char_def rstrip_char_def strip_char_def
  is_ws_def is_digit_def isdigit_def startswith_def endswith_def replace_char_def
  token_def text_of_def py_or_def opt_token_def nonempty_def

subsection \<open>Round trip of the decimal text of an integer\<close>

lemma code_of_digit_char [simp]: "n < 10 \<Longrightarrow> code_of (digit_char n) = 48 + n"
  by (simp add: code_of_def digit_char_def)

lemma digit_char_laws [simp]:
  assumes "n < 10"
  shows "is_digit (digit_char n)" and "digit_val (digit_char n) = n"
  using assms by (simp_all add: is_digit_def digit_val_def)

lemma show_nat_digits: "isdigit (show_nat n)"
proof (induction n rule: show_nat.induct)
  case (1 n)
  then show ?case by (subst show_nat.simps) (auto simp: isdigit_def)
qed

lemma digits_val_snoc: "digits_val (s @ [c]) = 10 * digits_val s + digit_val c"
  by (simp add: digits_val_def)

lemma digits_val_show_nat: "digits_val (show_nat n) = n"
proof (induction n rule: show_nat.induct)
  case (1 n)
  show ?case
  proof (cases "n < 10")
    case True
    then show ?thesis by (subst show_nat.simps) (simp add: digits_val_def)
  next
    case False
    then have "digits_val (show_nat n) = 10 * digits_val (show_nat (n div 10)) + n mod 10"
      by (subst show_nat.simps) (simp add: digits_val_snoc)
    with False "1.IH" show ?thesis by simp
  qed
qed

lemma is_digit_not_ws: "is_digit c \<Longrightarrow> \<not> is_ws c"
  by (auto simp: is_digit_def is_ws_def Let_def)

lemma isdigit_ends: "isdigit s \<Longrightarrow> is_digit (hd s) \<and> is_digit (last s)"
  by (auto simp: isdigit_def list_all_iff)

lemma is_digit_consts [simp]:
  "\<not> is_digit (CHR ''_'')" "\<not> is_digit (CHR ''-'')" "\<not> is_digit (CHR ''+'')"
  "\<not> is_digit (CHR ''.'')" "\<not> is_digit (CHR ''['')" "\<not> is_digit (CHR '']'')"
  by (simp_all add: is_digit_def code_of_def)

lemma parse_digits_isdigit: "isdigit s \<Longrightarrow> parse_digits s = Some (digits_val s)"
proof -
  assume s: "isdigit s"
  then have "CHR ''_'' \<notin> set s" by (auto simp: isdigit_def list_all_iff)
  then show ?thesis using s by (simp add: parse_digits_def split_on_single)
qed

lemma int_of_str_digits: "isdigit s \<Longrightarrow> int_of_str s = Inr (int (digits_val s))"
proof -
  assume s: "isdigit s"
  then have ends: "is_digit (hd s)" "is_digit (last s)" and ne: "s \<noteq> []"
    using isdigit_ends by (auto simp: isdigit_def)
  have st: "strip s = s" using ends by (intro strip_id) (auto dest: is_digit_not_ws)
  have hd: "hd s \<noteq> CHR ''-''" "hd s \<noteq> CHR ''+''" using ends(1) by auto
  then show ?thesis using s st ne
    by (cases s) (auto simp: int_of_str_def Let_def startswith_def parse_digits_isdigit)
qed

lemma int_of_str_neg:
  assumes "isdigit s"
  shows "int_of_str (CHR ''-'' # s) = Inr (- int (digits_val s))"
proof -
  have ne: "s \<noteq> []" and last: "is_digit (last s)"
    using assms isdigit_ends by (auto simp: isdigit_def)
  have "strip (CHR ''-'' # s) = CHR ''-'' # s"
    using ne last by (intro strip_id) (auto dest: is_digit_not_ws simp: is_ws_def code_of_def)
  then show ?thesis using assms
    by (simp add: int_of_str_def Let_def startswith_def parse_digits_isdigit)
qed

text \<open>Python's \<open>int(str(i)) == i\<close>.\<close>

lemma py_int_show_int: "py_int (PStr (show_int i)) = Inr i"
  by (cases "i < 0")
    (simp_all add: show_int_def int_of_str_digits int_of_str_neg show_nat_digits digits_val_show_nat)

subsection \<open>Dictionary laws\<close>

lemma dget_dset [simp]: "dget (dset k v d) k' = (if k' = k then v else dget d k')"
  by (simp add: dget_def dget_default_def update_conv')

lemma dhas_dset [simp]: "dhas (dset k v d) k' = (k' = k \<or> dhas d k')"
  by (simp add: dhas_def update_conv')

lemma map_of_dupdate: "map_of (dupdate d e) k =
  (case map_of (rev e) k of None \<Rightarrow> map_of d k | Some v \<Rightarrow> Some v)"
proof (induction e arbitrary: d)
  case (Cons p e)
  then show ?case
    by (cases p) (auto simp: dupdate_def update_conv' map_add_def split: option.splits)
qed (simp add: dupdate_def)

lemma distinct_dset: "distinct (map fst d) \<Longrightarrow> distinct (map fst (dset k v d))"
  by (rule distinct_update)

end
