(* ===== verification/Command_Dto.thy ===== *)
theory Command_Dto
  imports Py_Value
begin

section \<open>Command configurations\<close>

text \<open>
  \<open>app/elaborations/models/dtos/configuration_command_dto.py\<close>: the command classes, their
  validators and \<open>convert_to_config_command_type\<close>, which turns a stored JSON object into
  one of them. A class is a record that extends \<open>command_base\<close> as the source's classes
  extend \<open>ConfigurationCommandDto\<close>; an instance of any of them is a \<open>command_dto\<close>. A field
  annotation (\<open>str\<close>, \<open>str | None\<close>, \<open>dict | None\<close>, \<open>list[str]\<close>) is the check of the value
  given for it, run before the class's validators. Pydantic collects the errors of all
  fields; the model stops at the first one.
\<close>

subsection \<open>Enumerations\<close>

abbreviation "INIT_CONSTANT \<equiv> ''initConstant''"
abbreviation "DELETE_CONSTANT \<equiv> ''deleteConstant''"
abbreviation "SLEEP \<equiv> ''sleep''"
abbreviation "SEND_MESSAGE_QUEUE \<equiv> ''sendMessageQueue''"
abbreviation "SAVE_TABLE \<equiv> ''saveTable''"
abbreviation "DROP_TABLE \<equiv> ''dropTable''"
abbreviation "CLEAN_TABLE \<equiv> ''cleanTable''"
abbreviation "EXPORT_DATASET \<equiv> ''exportDataset''"
abbreviation "DROP_DATASET \<equiv> ''dropDataset''"
abbreviation "CLEAN_DATASET \<equiv> ''cleanDataset''"
abbreviation "RUN_SUITE \<equiv> ''runSuite''"
abbreviation "JSON_EQUALS \<equiv> ''jsonEquals''"
abbreviation "JSON_EMPTY \<equiv> ''jsonEmpty''"
abbreviation "JSON_NOT_EMPTY \<equiv> ''jsonNotEmpty''"
abbreviation "JSON_CONTAINS \<equiv> ''jsonContains''"
abbreviation "JSON_ARRAY_EQUALS \<equiv> ''jsonArrayEquals''"
abbreviation "JSON_ARRAY_EMPTY \<equiv> ''jsonArrayEmpty''"
abbreviation "JSON_ARRAY_NOT_EMPTY \<equiv> ''jsonArrayNotEmpty''"
abbreviation "JSON_ARRAY_CONTAINS \<equiv> ''jsonArrayContains''"

definition command_types :: "string list" where
  "command_types = [''context'', ''action'', ''assert'']"

definition assert_codes :: "string list" where
  "assert_codes =
     [JSON_EQUALS, JSON_EMPTY, JSON_NOT_EMPTY, JSON_CONTAINS,
      JSON_ARRAY_EQUALS, JSON_ARRAY_EMPTY, JSON_ARRAY_NOT_EMPTY, JSON_ARRAY_CONTAINS]"

definition command_codes :: "string list" where
  "command_codes =
     [INIT_CONSTANT, DELETE_CONSTANT, SLEEP, SEND_MESSAGE_QUEUE, SAVE_TABLE, DROP_TABLE,
      CLEAN_TABLE, EXPORT_DATASET, DROP_DATASET, CLEAN_DATASET, RUN_SUITE] @ assert_codes"

definition constant_contexts :: "string list" where
  "constant_contexts = [''runEnvelope'', ''global'', ''local'', ''result'']"

definition constant_source_types :: "string list" where
  "constant_source_types = [''raw'', ''json'', ''jsonArray'', ''dataset'', ''sqsQueue'']"

definition built_in_resolvers :: "string list" where
  "built_in_resolvers = [''$now'', ''$today'']"

subsection \<open>Field annotations\<close>

definition field_error :: "string \<Rightarrow> string \<Rightarrow> exc" where
  "field_error f m = ValidationError (f @ '': '' @ m)"

fun field_str :: "string \<Rightarrow> pyval \<Rightarrow> string result" where
  "field_str f (PStr s) = Inr s"
| "field_str f v = Inl (field_error f ''Input should be a valid string'')"

fun field_opt_str :: "string \<Rightarrow> pyval \<Rightarrow> string option result" where
  "field_opt_str f PNone = Inr None"
| "field_opt_str f v = rbind (field_str f v) (\<lambda>s. Inr (Some s))"

fun field_opt_dict :: "string \<Rightarrow> pyval \<Rightarrow> pydict option result" where
  "field_opt_dict f PNone = Inr None"
| "field_opt_dict f (PDict d) = Inr (Some d)"
| "field_opt_dict f v = Inl (field_error f ''Input should be a valid dictionary'')"

fun field_list :: "string \<Rightarrow> pyval \<Rightarrow> pyval list result" where
  "field_list f (PList xs) = Inr xs"
| "field_list f v = Inl (field_error f ''Input should be a valid list'')"

definition field_required :: "pydict \<Rightarrow> string \<Rightarrow> pyval result" where
  "field_required d f =
     (case map_of d f of None \<Rightarrow> Inl (field_error f ''Field required'') | Some v \<Rightarrow> Inr v)"

subsection \<open>Constant references and result constants\<close>

type_synonym const_ref = string

record result_constant =
  rc_definitionId :: string
  rc_name :: string
  rc_valueType :: string

definition validate_definition_id :: "string \<Rightarrow> const_ref result" where
  "validate_definition_id s =
     rbind (guard (strip s \<noteq> []) (ValidationError ''definitionId is required.''))
       (\<lambda>_. Inr (strip s))"

definition field_const_ref_item :: "string \<Rightarrow> pyval \<Rightarrow> const_ref result" where
  "field_const_ref_item f v =
     (case v of
        PDict d \<Rightarrow>
          rbind (field_required d ''definitionId'')
            (\<lambda>x. rbind (field_str ''definitionId'' x) validate_definition_id)
      | _ \<Rightarrow> Inl (field_error f ''Input should be a valid dictionary or instance of ConstantRefDto''))"

definition field_const_ref :: "string \<Rightarrow> pyval \<Rightarrow> const_ref option result" where
  "field_const_ref f v =
     (if v = PNone then Inr None else rbind (field_const_ref_item f v) (\<lambda>r. Inr (Some r)))"

definition validate_result_constant ::
  "string \<Rightarrow> string \<Rightarrow> string \<Rightarrow> result_constant result" where
  "validate_result_constant definition_id name value_type =
     (let vt = (if strip value_type = [] then ''json'' else strip value_type) in
      rbind (guard (strip definition_id \<noteq> [])
               (ValidationError ''resultConstant.definitionId is required.'')) (\<lambda>_.
      rbind (guard (strip name \<noteq> []) (ValidationError ''resultConstant.name is required.'')) (\<lambda>_.
      rbind (guard (vt \<in> set constant_source_types)
               (ValidationError ''Unsupported resultConstant.valueType.'')) (\<lambda>_.
      Inr \<lparr>rc_definitionId = strip definition_id, rc_name = strip name, rc_valueType = vt\<rparr>))))"

definition field_result_constant :: "string \<Rightarrow> pyval \<Rightarrow> result_constant option result" where
  "field_result_constant f v =
     (case v of
        PNone \<Rightarrow> Inr None
      | PDict d \<Rightarrow>
          rbind (field_required d ''definitionId'') (\<lambda>x.
          rbind (field_str ''definitionId'' x) (\<lambda>i.
          rbind (field_required d ''name'') (\<lambda>y.
          rbind (field_str ''name'' y) (\<lambda>n.
          rbind (field_str ''valueType'' (dget_default d ''valueType'' (PStr ''json''))) (\<lambda>t.
          rbind (validate_result_constant i n t) (\<lambda>r. Inr (Some r)))))))
      | _ \<Rightarrow> Inl (field_error f
               ''Input should be a valid dictionary or instance of ResultConstantDto''))"

subsection \<open>Token normalisers\<close>

text \<open>\<open>_normalize_token\<close> is \<open>token\<close> of the value theory.\<close>

definition normalize_path_token :: "pyval \<Rightarrow> string" where
  "normalize_path_token v =
     (let raw = token v in if raw = [] then [] else replace_char (CHR ''_'') (CHR ''-'') raw)"

definition is_blank :: "pyval \<Rightarrow> bool" where
  "is_blank v = (case v of PNone \<Rightarrow> True | PStr s \<Rightarrow> strip s = [] | _ \<Rightarrow> False)"

fun first_non_empty :: "pydict \<Rightarrow> string list \<Rightarrow> pyval" where
  "first_non_empty d [] = PNone"
| "first_non_empty d (k # ks) = (if is_blank (dget d k) then first_non_empty d ks else dget d k)"

definition dto_target_path :: "pyval \<Rightarrow> string option" where
  "dto_target_path v =
     (let raw = token v in
      if raw = [] then None
      else if startswith raw ''$.'' then Some raw
      else if startswith raw ''$'' then Some (''$.'' @ lstrip_char (CHR ''.'') (drop 1 raw))
      else Some (''$.'' @ lstrip_char (CHR ''.'') raw))"

definition normalize_compare_keys :: "pyval \<Rightarrow> string list" where
  "normalize_compare_keys v =
     (case v of
        PStr s \<Rightarrow>
          filter (\<lambda>t. t \<noteq> [])
            (map strip (split_on (CHR '','')
               (replace_char (CHR 0x0A) (CHR '','') (replace_char (CHR '';'') (CHR '','') s))))
      | PList xs \<Rightarrow> filter (\<lambda>t. t \<noteq> []) (map token xs)
      | _ \<Rightarrow> [])"

definition normalize_command_type :: "pyval \<Rightarrow> string" where
  "normalize_command_type v = lower (token v)"

definition legacy_mapping :: "(string \<times> string) list" where
  "legacy_mapping =
     [(''data'', INIT_CONSTANT),
      (''data-from-json-array'', INIT_CONSTANT),
      (''data-from-db'', INIT_CONSTANT),
      (''data-from-queue'', INIT_CONSTANT),
      (''publish'', SEND_MESSAGE_QUEUE),
      (''save-internal-db'', SAVE_TABLE),
      (''save-external-db'', EXPORT_DATASET),
      (''run-suite'', RUN_SUITE),
      (''set-var'', INIT_CONSTANT)]"

definition normalize_command_code :: "pyval \<Rightarrow> string" where
  "normalize_command_code v =
     (let raw = token v in
      if raw = [] then []
      else case map_of legacy_mapping (lower (replace_char (CHR ''_'') (CHR ''-'') raw)) of
             Some code \<Rightarrow> code
           | None \<Rightarrow> raw)"

definition derive_assert_command_code :: "pydict \<Rightarrow> string" where
  "derive_assert_command_code d =
     (let assert_type = lower (replace_char (CHR ''_'') (CHR ''-'')
            (token (first_non_empty d [''assert_type'', ''assertType''])));
          array = truthy (first_non_empty d
            [''expected_json_array_id'', ''expectedJsonArrayId'', ''json_array_id''])
      in
      if assert_type = ''equals'' then JSON_EQUALS
      else if assert_type = ''empty'' then (if array then JSON_ARRAY_EMPTY else JSON_EMPTY)
      else if assert_type = ''not-empty'' then (if array then JSON_ARRAY_NOT_EMPTY else JSON_NOT_EMPTY)
      else if assert_type = ''contains'' then (if array then JSON_ARRAY_CONTAINS else JSON_CONTAINS)
      else if assert_type = ''json-array-equals'' then JSON_ARRAY_EQUALS
      else JSON_EQUALS)"

subsection \<open>Message templates\<close>

record template_constant =
  tc_name :: string
  tc_kind :: string
  tc_value :: pyval

record message_template =
  mt_forEach :: "string option"
  mt_fields :: "string list"
  mt_constants :: "template_constant list"

definition template_kinds :: "string list" where
  "template_kinds =
     [''string'', ''number'', ''date'', ''datetime'', ''boolean'', ''variable'', ''function'']"

definition validate_template_constant ::
  "string \<Rightarrow> string \<Rightarrow> pyval \<Rightarrow> template_constant result" where
  "validate_template_constant name kind v =
     (let k0 = lower (strip kind);
          k1 = (if k0 = ''str'' then ''string'' else k0);
          k = (if k1 = ''booleano'' then ''boolean'' else k1)
      in
      rbind (guard (strip name \<noteq> [])
               (ValidationError ''messageTemplate.constants[].name is required.'')) (\<lambda>_.
      rbind (guard (k \<in> set template_kinds)
               (ValidationError (''messageTemplate.constants[].kind must be one of: '' @
                  ''string, number, date, datetime, boolean, variable, function.''))) (\<lambda>_.
      if k = ''variable'' then
        rbind (guard (token v \<noteq> []) (ValidationError
                 ''messageTemplate.constants[].value is required for variable constants.''))
          (\<lambda>_. Inr \<lparr>tc_name = strip name, tc_kind = k, tc_value = PStr (token v)\<rparr>)
      else if k = ''function'' then
        rbind (guard (lower (token v) \<in> {''now'', ''today''}) (ValidationError
                 ''messageTemplate.constants[].value must be one of: now, today.''))
          (\<lambda>_. Inr \<lparr>tc_name = strip name, tc_kind = k, tc_value = PStr (lower (token v))\<rparr>)
      else Inr \<lparr>tc_name = strip name, tc_kind = k, tc_value = v\<rparr>)))"

definition field_template_constant :: "pyval \<Rightarrow> template_constant result" where
  "field_template_constant v =
     (case v of
        PDict d \<Rightarrow>
          rbind (field_required d ''name'') (\<lambda>x.
          rbind (field_str ''name'' x) (\<lambda>n.
          rbind (field_required d ''kind'') (\<lambda>y.
          rbind (field_str ''kind'' y) (\<lambda>k.
          validate_template_constant n k (dget d ''value'')))))
      | _ \<Rightarrow> Inl (field_error ''constants''
               ''Input should be a valid dictionary or instance of SendMessageTemplateConstantDto''))"

text \<open>The loop that strips the field names and drops blanks and repetitions.\<close>

definition add_template_field :: "string \<Rightarrow> string list \<Rightarrow> string list" where
  "add_template_field f acc =
     (if strip f \<noteq> [] \<and> strip f \<notin> set acc then acc @ [strip f] else acc)"

definition normalize_template_fields :: "string list \<Rightarrow> string list" where
  "normalize_template_fields fs = fold add_template_field fs []"

definition validate_template ::
  "string option \<Rightarrow> string list \<Rightarrow> template_constant list \<Rightarrow> message_template result" where
  "validate_template for_each fnames consts =
     (let fs = normalize_template_fields fnames in
      rbind (guard (fs \<noteq> [] \<or> consts \<noteq> [])
               (ValidationError ''messageTemplate requires at least one field or constant.''))
        (\<lambda>_. Inr \<lparr>mt_forEach = nonempty (opt_token for_each), mt_fields = fs, mt_constants = consts\<rparr>))"

definition field_message_template :: "string \<Rightarrow> pyval \<Rightarrow> message_template option result" where
  "field_message_template f v =
     (case v of
        PNone \<Rightarrow> Inr None
      | PDict d \<Rightarrow>
          rbind (field_opt_str ''forEach'' (dget d ''forEach'')) (\<lambda>fe.
          rbind (field_list ''fields'' (dget_default d ''fields'' (PList []))) (\<lambda>raw_fields.
          rbind (map_result (field_str ''fields'') raw_fields) (\<lambda>fnames.
          rbind (field_list ''constants'' (dget_default d ''constants'' (PList []))) (\<lambda>raw_consts.
          rbind (map_result field_template_constant raw_consts) (\<lambda>consts.
          rbind (validate_template fe fnames consts) (\<lambda>t. Inr (Some t)))))))
      | _ \<Rightarrow> Inl (field_error f
               ''Input should be a valid dictionary or instance of SendMessageTemplateDto''))"

declare field_str.simps [simp del] field_opt_str.simps [simp del] field_opt_dict.simps [simp del]
  field_list.simps [simp del] first_non_empty.simps [simp del]

end
