(* ===== verification/Command_Convert.thy ===== *)
theory Command_Convert
  imports Command_Dto
begin

section \<open>Command classes and their construction\<close>

text \<open>
  The command classes of \<open>configuration_command_dto.py\<close> with their validators, and
  \<open>convert_to_config_command_type\<close>.
\<close>

record command_base =
  commandCode :: string
  commandType :: string

record init_constant_dto = command_base +
  ic_definitionId :: string
  ic_name :: string
  ic_context :: string
  ic_sourceType :: string
  ic_value :: pyval
  ic_json_array_id :: "string option"
  ic_dataset_id :: "string option"
  ic_queue_id :: "string option"
  ic_retry :: int
  ic_wait_time_seconds :: int
  ic_max_messages :: int
  ic_target :: "string option"
  ic_parameters :: "pydict option"

record delete_constant_dto = command_base +
  dc_targetConstantRef :: const_ref

record sleep_dto = command_base +
  sl_duration :: int

record send_message_dto = command_base +
  sm_queue_id :: string
  sm_sourceConstantRef :: const_ref
  sm_message_template :: "message_template option"
  sm_template_id :: "string option"
  sm_template_params :: "pydict option"
  sm_resultConstant :: "result_constant option"

record save_table_dto = command_base +
  st_table_name :: string
  st_sourceConstantRef :: const_ref
  st_resultConstant :: "result_constant option"

record table_dto = command_base +
  tb_table_name :: string

record export_dataset_dto = command_base +
  ed_connection_id :: "string option"
  ed_table_name :: "string option"
  ed_sourceConstantRef :: const_ref
  ed_mode :: string
  ed_mapping_keys :: "string list option"
  ed_dataset_description :: "string option"
  ed_dataset_id :: "string option"
  ed_resultConstant :: "result_constant option"

record dataset_dto = command_base +
  ds_dataset_id :: string

record run_suite_dto = command_base +
  rs_suite_id :: string
  rs_constantRefs :: "const_ref list"
  rs_resultConstant :: "result_constant option"

record assert_dto = command_base +
  as_error_message :: "string option"
  as_evaluated_object_type :: string
  as_actualConstantRef :: const_ref
  as_expected :: pyval
  as_expected_json_array_id :: "string option"
  as_compare_keys :: "string list option"
  as_json_schema :: "pydict option"

datatype command_dto =
    InitConstantDto init_constant_dto
  | DeleteConstantDto delete_constant_dto
  | SleepDto sleep_dto
  | SendMessageQueueDto send_message_dto
  | SaveTableDto save_table_dto
  | DropTableDto table_dto
  | CleanTableDto table_dto
  | ExportDatasetDto export_dataset_dto
  | DropDatasetDto dataset_dto
  | CleanDatasetDto dataset_dto
  | RunSuiteDto run_suite_dto
  | AssertDto assert_dto

fun dto_commandCode :: "command_dto \<Rightarrow> string" where
  "dto_commandCode (InitConstantDto c) = commandCode c"
| "dto_commandCode (DeleteConstantDto c) = commandCode c"
| "dto_commandCode (SleepDto c) = commandCode c"
| "dto_commandCode (SendMessageQueueDto c) = commandCode c"
| "dto_commandCode (SaveTableDto c) = commandCode c"
| "dto_commandCode (DropTableDto c) = commandCode c"
| "dto_commandCode (CleanTableDto c) = commandCode c"
| "dto_commandCode (ExportDatasetDto c) = commandCode c"
| "dto_commandCode (DropDatasetDto c) = commandCode c"
| "dto_commandCode (CleanDatasetDto c) = commandCode c"
| "dto_commandCode (RunSuiteDto c) = commandCode c"
| "dto_commandCode (AssertDto c) = commandCode c"

fun dto_commandType :: "command_dto \<Rightarrow> string" where
  "dto_commandType (InitConstantDto c) = commandType c"
| "dto_commandType (DeleteConstantDto c) = commandType c"
| "dto_commandType (SleepDto c) = commandType c"
| "dto_commandType (SendMessageQueueDto c) = commandType c"
| "dto_commandType (SaveTableDto c) = commandType c"
| "dto_commandType (DropTableDto c) = commandType c"
| "dto_commandType (CleanTableDto c) = commandType c"
| "dto_commandType (ExportDatasetDto c) = commandType c"
| "dto_commandType (DropDatasetDto c) = commandType c"
| "dto_commandType (CleanDatasetDto c) = commandType c"
| "dto_commandType (RunSuiteDto c) = commandType c"
| "dto_commandType (AssertDto c) = commandType c"

text \<open>\<open>getattr(cfg, "resultConstant", None)\<close>.\<close>

fun dto_resultConstant :: "command_dto \<Rightarrow> result_constant option" where
  "dto_resultConstant (SendMessageQueueDto c) = sm_resultConstant c"
| "dto_resultConstant (SaveTableDto c) = st_resultConstant c"
| "dto_resultConstant (ExportDatasetDto c) = ed_resultConstant c"
| "dto_resultConstant (RunSuiteDto c) = rs_resultConstant c"
| "dto_resultConstant _ = None"

subsection \<open>Validators\<close>

definition validate_command_keys :: "string \<Rightarrow> string \<Rightarrow> (string \<times> string) result" where
  "validate_command_keys code type =
     (let c = normalize_command_code (PStr code);
          t = normalize_command_type (PStr type)
      in
      rbind (guard (c \<noteq> []) (ValidationError ''commandCode is required.'')) (\<lambda>_.
      rbind (guard (t \<in> set command_types)
               (ValidationError ''commandType must be one of: context, action, assert.'')) (\<lambda>_.
      Inr (c, t))))"

text \<open>\<open>DatasetParameterBindingDto\<close>, on the two kinds its only caller passes to it.\<close>

definition binding_payload :: "pydict \<Rightarrow> string \<Rightarrow> pydict result" where
  "binding_payload raw kind =
     (let did = first_non_empty raw [''definitionId'', ''definition_id''];
          res = first_non_empty raw [''resolver'']
      in
      rbind (field_opt_str ''definitionId'' did) (\<lambda>d.
      rbind (field_opt_str ''resolver'' res) (\<lambda>r.
      if kind = ''constant_ref'' then
        rbind (guard (opt_token d \<noteq> []) (ValidationError
                 ''definitionId is required for dataset parameter constant_ref bindings.''))
          (\<lambda>_. Inr [(''kind'', PStr kind), (''definitionId'', PStr (opt_token d))])
      else
        rbind (guard (opt_token r \<in> set built_in_resolvers) (ValidationError
                 (''resolver must be one of: '' @ join '', '' built_in_resolvers @ ''.'')))
          (\<lambda>_. Inr [(''kind'', PStr kind), (''resolver'', PStr (opt_token r))]))))"

fun coerce_bindings :: "pydict \<Rightarrow> pydict \<Rightarrow> pydict result" where
  "coerce_bindings acc [] = Inr acc"
| "coerce_bindings acc ((raw_name, raw_binding) # rest) =
     rbind (guard (strip raw_name \<noteq> [])
              (ValidationError ''parameters keys must be non-empty strings.'')) (\<lambda>_.
     (case raw_binding of
        PDict b \<Rightarrow>
          (let kind = lower (token (dget b ''kind'')) in
           if kind \<in> {''constant_ref'', ''built_in''} then
             rbind (binding_payload b kind)
               (\<lambda>p. coerce_bindings (dset (strip raw_name) (PDict p) acc) rest)
           else coerce_bindings (dset (strip raw_name) raw_binding acc) rest)
      | _ \<Rightarrow> coerce_bindings (dset (strip raw_name) raw_binding acc) rest))"

definition coerce_dataset_parameter_bindings :: "pydict option \<Rightarrow> pydict option result" where
  "coerce_dataset_parameter_bindings v =
     (case v of
        None \<Rightarrow> Inr None
      | Some d \<Rightarrow> rbind (coerce_bindings [] d) (\<lambda>n. Inr (if n = [] then None else Some n)))"

definition context_alias :: "string \<Rightarrow> string" where
  "context_alias c =
     (if c = ''run'' then ''runEnvelope''
      else if c = ''vars'' then ''global''
      else if c = ''auto'' then ''local''
      else c)"

text \<open>\<open>a or b\<close> on optional strings: the empty string falls through as \<open>None\<close> does.\<close>

definition opt_or :: "string option \<Rightarrow> string option \<Rightarrow> string option" where
  "opt_or a b = (case a of Some s \<Rightarrow> (if s = [] then b else a) | None \<Rightarrow> b)"

text \<open>A path target of three segments or more supplies the missing context and name.\<close>

definition target_defaults ::
  "string option \<Rightarrow> string option \<Rightarrow> string option \<Rightarrow> string option \<times> string option" where
  "target_defaults target ctx name =
     (case target of
        None \<Rightarrow> (ctx, name)
      | Some t \<Rightarrow>
          (let tokens = filter (\<lambda>x. x \<noteq> []) (split_on (CHR ''.'') t)
           in if 3 \<le> length tokens
              then (opt_or ctx (Some (tokens ! 1)), opt_or name (Some (last tokens)))
              else (ctx, name)))"

definition is_json_container :: "pyval \<Rightarrow> bool" where
  "is_json_container v = (is_dict v \<or> is_list v)"

text \<open>The source type of a constant, and the value it keeps.\<close>

definition detect_source_type ::
  "string \<Rightarrow> string option \<Rightarrow> string option \<Rightarrow> string option \<Rightarrow> pyval \<Rightarrow> pyval \<Rightarrow> string \<times> pyval" where
  "detect_source_type declared queue_id dataset_id json_array_id data v =
     (if declared \<noteq> [] then (declared, v)
      else if opt_or queue_id None \<noteq> None then (''sqsQueue'', v)
      else if opt_or dataset_id None \<noteq> None then (''dataset'', v)
      else if opt_or json_array_id None \<noteq> None then (''jsonArray'', v)
      else if data \<noteq> PNone then (if is_json_container data then ''json'' else ''raw'', data)
      else (if is_json_container v then ''json'' else ''raw'', v))"

definition build_init_constant :: "pydict \<Rightarrow> string \<Rightarrow> string \<Rightarrow> command_dto result" where
  "build_init_constant d code type =
     rbind (py_int (py_or (first_non_empty d [''retry'']) (PInt 3))) (\<lambda>retry.
     rbind (py_int (py_or (first_non_empty d [''wait_time_seconds'', ''waitTimeSeconds'']) (PInt 20))) (\<lambda>wait.
     rbind (py_int (py_or (first_non_empty d [''max_messages'', ''maxMessages'']) (PInt 1000))) (\<lambda>maxm.
     rbind (field_opt_str ''definitionId'' (first_non_empty d [''definitionId'', ''definition_id''])) (\<lambda>did.
     rbind (field_opt_str ''name'' (first_non_empty d [''name'', ''key''])) (\<lambda>name0.
     rbind (field_opt_str ''context'' (first_non_empty d [''context'', ''scope''])) (\<lambda>ctx0.
     rbind (field_opt_str ''sourceType'' (first_non_empty d [''sourceType'', ''source_type''])) (\<lambda>src.
     rbind (field_opt_str ''json_array_id'' (first_non_empty d [''json_array_id'', ''jsonArrayId''])) (\<lambda>jid.
     rbind (field_opt_str ''dataset_id''
              (first_non_empty d [''dataset_id'', ''datasetId'', ''data_source_id''])) (\<lambda>dsid.
     rbind (field_opt_str ''queue_id'' (first_non_empty d [''queue_id'', ''queueId''])) (\<lambda>qid.
     rbind (field_opt_str ''target'' (first_non_empty d [''target''])) (\<lambda>tgt0.
     rbind (field_opt_str ''key'' (first_non_empty d [''key''])) (\<lambda>key.
     rbind (field_opt_str ''scope'' (first_non_empty d [''scope''])) (\<lambda>scope.
     rbind (field_opt_dict ''parameters'' (first_non_empty d [''parameters''])) (\<lambda>params.
     rbind (validate_command_keys code type) (\<lambda>(c, t).
     rbind (guard (opt_token did \<noteq> [])
              (ValidationError ''definitionId is required for initConstant.'')) (\<lambda>_.
     let tgt = dto_target_path (PStr (case tgt0 of None \<Rightarrow> [] | Some s \<Rightarrow> s));
         (ctx1, name1) = target_defaults tgt ctx0 name0;
         name = opt_token (opt_or name1 key);
         ctx = context_alias (opt_token (opt_or (opt_or ctx1 scope) (Some ''local'')));
         (st, v) = detect_source_type (opt_token src) qid dsid jid
                     (first_non_empty d [''data'']) (first_non_empty d [''value'', ''data''])
     in
     rbind (guard (name \<noteq> []) (ValidationError ''name is required for initConstant.'')) (\<lambda>_.
     rbind (guard (ctx \<in> set constant_contexts)
              (ValidationError ''context must be one of: runEnvelope, global, local, result.'')) (\<lambda>_.
     rbind (guard (st \<in> set constant_source_types)
              (ValidationError ''Unsupported sourceType for initConstant.'')) (\<lambda>_.
     rbind (coerce_dataset_parameter_bindings params) (\<lambda>ps.
     Inr (InitConstantDto
       \<lparr>commandCode = c, commandType = t, ic_definitionId = opt_token did, ic_name = name,
        ic_context = ctx, ic_sourceType = st, ic_value = v, ic_json_array_id = jid,
        ic_dataset_id = dsid, ic_queue_id = qid, ic_retry = retry, ic_wait_time_seconds = wait,
        ic_max_messages = maxm, ic_target = tgt, ic_parameters = ps\<rparr>)))))))))))))))))))))"

definition build_delete_constant :: "pydict \<Rightarrow> string \<Rightarrow> string \<Rightarrow> command_dto result" where
  "build_delete_constant d code type =
     rbind (field_const_ref ''targetConstantRef''
              (first_non_empty d [''targetConstantRef'', ''target_constant_ref''])) (\<lambda>r.
     rbind (validate_command_keys code type) (\<lambda>(c, t).
     case r of
       None \<Rightarrow> Inl (ValidationError ''targetConstantRef is required for deleteConstant.'')
     | Some target \<Rightarrow>
         Inr (DeleteConstantDto
           \<lparr>commandCode = c, commandType = t, dc_targetConstantRef = target\<rparr>)))"

definition build_sleep :: "pydict \<Rightarrow> string \<Rightarrow> string \<Rightarrow> command_dto result" where
  "build_sleep d code type =
     rbind (py_int (py_or (first_non_empty d [''duration'']) (PInt 0))) (\<lambda>n.
     rbind (validate_command_keys code type) (\<lambda>(c, t).
     Inr (SleepDto \<lparr>commandCode = c, commandType = t, sl_duration = n\<rparr>)))"

text \<open>A \<open>sourceConstantRef\<close> that the class requires after coercion.\<close>

definition required_source :: "string \<Rightarrow> const_ref option \<Rightarrow> const_ref result" where
  "required_source cmd r =
     (case r of
        None \<Rightarrow> Inl (ValidationError (''sourceConstantRef is required for '' @ cmd @ ''.''))
      | Some x \<Rightarrow> Inr x)"

definition build_send_message :: "pydict \<Rightarrow> string \<Rightarrow> string \<Rightarrow> command_dto result" where
  "build_send_message d code type =
     rbind (field_str ''queue_id'' (first_non_empty d [''queue_id'', ''queueId''])) (\<lambda>qid.
     rbind (field_const_ref ''sourceConstantRef''
              (first_non_empty d [''sourceConstantRef'', ''source_constant_ref''])) (\<lambda>src.
     rbind (field_message_template ''message_template''
              (first_non_empty d [''message_template'', ''messageTemplate''])) (\<lambda>tmpl.
     rbind (field_opt_str ''template_id'' (first_non_empty d [''template_id'', ''templateId''])) (\<lambda>tid.
     rbind (field_opt_dict ''template_params''
              (first_non_empty d [''template_params'', ''templateParams''])) (\<lambda>tp.
     rbind (field_result_constant ''resultConstant''
              (first_non_empty d [''resultConstant'', ''result_constant''])) (\<lambda>res.
     rbind (validate_command_keys code type) (\<lambda>(c, t).
     rbind (required_source ''sendMessageQueue'' src) (\<lambda>s.
     Inr (SendMessageQueueDto
       \<lparr>commandCode = c, commandType = t, sm_queue_id = qid, sm_sourceConstantRef = s,
        sm_message_template = tmpl, sm_template_id = tid, sm_template_params = tp,
        sm_resultConstant = res\<rparr>)))))))))"

definition build_save_table :: "pydict \<Rightarrow> string \<Rightarrow> string \<Rightarrow> command_dto result" where
  "build_save_table d code type =
     rbind (field_str ''table_name'' (first_non_empty d [''table_name'', ''tableName''])) (\<lambda>tn.
     rbind (field_const_ref ''sourceConstantRef''
              (first_non_empty d [''sourceConstantRef'', ''source_constant_ref''])) (\<lambda>src.
     rbind (field_result_constant ''resultConstant''
              (first_non_empty d [''resultConstant'', ''result_constant''])) (\<lambda>res.
     rbind (validate_command_keys code type) (\<lambda>(c, t).
     rbind (required_source ''saveTable'' src) (\<lambda>s.
     Inr (SaveTableDto
       \<lparr>commandCode = c, commandType = t, st_table_name = tn, st_sourceConstantRef = s,
        st_resultConstant = res\<rparr>))))))"

definition build_table :: "(table_dto \<Rightarrow> command_dto) \<Rightarrow> pydict \<Rightarrow> string \<Rightarrow> string \<Rightarrow> command_dto result" where
  "build_table mk d code type =
     rbind (field_str ''table_name'' (first_non_empty d [''table_name'', ''tableName''])) (\<lambda>tn.
     rbind (validate_command_keys code type) (\<lambda>(c, t).
     Inr (mk \<lparr>commandCode = c, commandType = t, tb_table_name = tn\<rparr>)))"

definition build_dataset :: "(dataset_dto \<Rightarrow> command_dto) \<Rightarrow> pydict \<Rightarrow> string \<Rightarrow> string \<Rightarrow> command_dto result" where
  "build_dataset mk d code type =
     rbind (field_str ''dataset_id'' (first_non_empty d [''dataset_id'', ''datasetId''])) (\<lambda>i.
     rbind (validate_command_keys code type) (\<lambda>(c, t).
     Inr (mk \<lparr>commandCode = c, commandType = t, ds_dataset_id = i\<rparr>)))"

definition export_modes :: "string list" where
  "export_modes = [''append'', ''drop-create'', ''insert-update'']"

definition normalize_export_mode :: "string \<Rightarrow> string" where
  "normalize_export_mode m =
     (let n = lower (replace_char (CHR ''_'') (CHR ''-'') (strip m))
      in if n = [] then ''append'' else n)"

definition build_export_dataset :: "pydict \<Rightarrow> string \<Rightarrow> string \<Rightarrow> command_dto result" where
  "build_export_dataset d code type =
     rbind (field_opt_str ''connection_id''
              (first_non_empty d [''connection_id'', ''connectionId'', ''dataset_id'', ''datasetId''])) (\<lambda>cid.
     rbind (field_opt_str ''table_name'' (first_non_empty d [''table_name'', ''tableName''])) (\<lambda>tn.
     rbind (field_const_ref ''sourceConstantRef''
              (first_non_empty d [''sourceConstantRef'', ''source_constant_ref''])) (\<lambda>src.
     rbind (field_str ''mode'' (py_or (first_non_empty d [''mode'', ''export_mode'', ''exportMode''])
              (PStr ''append''))) (\<lambda>mode.
     rbind (field_opt_str ''dataset_description''
              (first_non_empty d [''dataset_description'', ''datasetDescription''])) (\<lambda>dd.
     rbind (field_opt_str ''dataset_id'' (first_non_empty d [''dataset_id'', ''datasetId''])) (\<lambda>did.
     rbind (field_result_constant ''resultConstant''
              (first_non_empty d [''resultConstant'', ''result_constant''])) (\<lambda>res.
     rbind (validate_command_keys code type) (\<lambda>(c, t).
     rbind (required_source ''exportDataset'' src) (\<lambda>s.
     rbind (guard (normalize_export_mode mode \<in> set export_modes)
              (ValidationError ''mode must be one of: append, drop-create, insert-update.'')) (\<lambda>_.
     let keys = normalize_compare_keys (first_non_empty d [''mapping_keys'', ''mappingKeys''])
     in Inr (ExportDatasetDto
       \<lparr>commandCode = c, commandType = t, ed_connection_id = cid, ed_table_name = tn,
        ed_sourceConstantRef = s, ed_mode = normalize_export_mode mode,
        ed_mapping_keys = (if keys = [] then None else Some keys),
        ed_dataset_description = dd, ed_dataset_id = did, ed_resultConstant = res\<rparr>)))))))))))"

definition build_run_suite :: "pydict \<Rightarrow> string \<Rightarrow> string \<Rightarrow> command_dto result" where
  "build_run_suite d code type =
     rbind (field_str ''suite_id'' (first_non_empty d [''suite_id'', ''suiteId''])) (\<lambda>sid.
     rbind (field_list ''constantRefs''
              (py_or (first_non_empty d [''constantRefs'', ''constant_refs'']) (PList []))) (\<lambda>raws.
     rbind (map_result (field_const_ref_item ''constantRefs'') raws) (\<lambda>refs.
     rbind (field_result_constant ''resultConstant''
              (first_non_empty d [''resultConstant'', ''result_constant''])) (\<lambda>res.
     rbind (validate_command_keys code type) (\<lambda>(c, t).
     rbind (guard (strip sid \<noteq> []) (ValidationError ''suite_id is required for runSuite.'')) (\<lambda>_.
     Inr (RunSuiteDto
       \<lparr>commandCode = c, commandType = t, rs_suite_id = strip sid, rs_constantRefs = refs,
        rs_resultConstant = res\<rparr>)))))))"

text \<open>The cross-field rules of the assert commands.\<close>

definition check_assert_fields ::
  "string \<Rightarrow> string option \<Rightarrow> string list option \<Rightarrow> pyval \<Rightarrow> unit result" where
  "check_assert_fields code eid keys expd =
     rbind (guard (code \<in> {JSON_ARRAY_EQUALS, JSON_ARRAY_CONTAINS} \<longrightarrow> eid \<noteq> None)
              (ValidationError ''expected_json_array_id is required for jsonArray assert commands.'')) (\<lambda>_.
     rbind (guard (code \<in> {JSON_ARRAY_EQUALS, JSON_ARRAY_CONTAINS} \<longrightarrow> keys \<noteq> None)
              (ValidationError ''compare_keys is required for jsonArray assert commands.'')) (\<lambda>_.
     rbind (guard (code = JSON_CONTAINS \<longrightarrow> expd \<noteq> PNone)
              (ValidationError ''expected is required for jsonContains.'')) (\<lambda>_.
     rbind (guard (code = JSON_CONTAINS \<longrightarrow> keys \<noteq> None)
              (ValidationError ''compare_keys is required for jsonContains.'')) (\<lambda>_.
     guard (code = JSON_EQUALS \<longrightarrow> expd \<noteq> PNone)
       (ValidationError ''expected is required for jsonEquals.'')))))"

definition build_assert :: "pydict \<Rightarrow> string \<Rightarrow> string \<Rightarrow> command_dto result" where
  "build_assert d code type =
     rbind (field_opt_str ''error_message'' (first_non_empty d [''error_message'', ''errorMessage''])) (\<lambda>em.
     rbind (field_str ''evaluated_object_type''
              (py_or (first_non_empty d
                 [''evaluated_object_type'', ''evaluetedObjectType'', ''evaluatedObjectType''])
                 (PStr ''json-data''))) (\<lambda>eot.
     rbind (field_const_ref ''actualConstantRef''
              (first_non_empty d [''actualConstantRef'', ''actual_constant_ref''])) (\<lambda>act.
     rbind (field_opt_str ''expected_json_array_id''
              (first_non_empty d
                 [''expected_json_array_id'', ''expectedJsonArrayId'', ''json_array_id''])) (\<lambda>eid0.
     rbind (field_opt_dict ''json_schema'' (first_non_empty d [''json_schema'', ''jsonSchema''])) (\<lambda>js.
     rbind (validate_command_keys code type) (\<lambda>(c, t).
     rbind (guard (normalize_command_code (PStr c) \<in> set assert_codes)
              (ValidationError ''Unsupported assert commandCode.'')) (\<lambda>_.
     let expd = first_non_empty d [''expected''];
         keys0 = normalize_compare_keys (first_non_empty d [''compare_keys'', ''compareKeys'']);
         keys = (if keys0 = [] then None else Some keys0);
         eid = nonempty (opt_token eid0)
     in
     (case act of
        None \<Rightarrow> Inl (ValidationError ''actualConstantRef is required for assert commands.'')
      | Some a \<Rightarrow>
          rbind (check_assert_fields (normalize_command_code (PStr c)) eid keys expd) (\<lambda>_.
          Inr (AssertDto
            \<lparr>commandCode = normalize_command_code (PStr c), commandType = t,
             as_error_message = em,
             as_evaluated_object_type = lower (normalize_path_token (PStr eot)),
             as_actualConstantRef = a, as_expected = expd, as_expected_json_array_id = eid,
             as_compare_keys = keys, as_json_schema = js\<rparr>))))))))))"

definition assert_type_mapping :: "(string \<times> string) list" where
  "assert_type_mapping =
     [(JSON_EQUALS, ''equals''),
      (JSON_EMPTY, ''empty''),
      (JSON_NOT_EMPTY, ''not-empty''),
      (JSON_CONTAINS, ''contains''),
      (JSON_ARRAY_EQUALS, ''json-array-equals''),
      (JSON_ARRAY_EMPTY, ''empty''),
      (JSON_ARRAY_NOT_EMPTY, ''not-empty''),
      (JSON_ARRAY_CONTAINS, ''json-array-contains'')]"

definition assert_type :: "assert_dto \<Rightarrow> string result" where
  "assert_type cfg =
     (case map_of assert_type_mapping (commandCode cfg) of
        None \<Rightarrow> Inl (KeyError (commandCode cfg))
      | Some t \<Rightarrow> Inr t)"

subsection \<open>Dispatch on the command code\<close>

definition command_code_of :: "pydict \<Rightarrow> string" where
  "command_code_of d =
     (let c = normalize_command_code (first_non_empty d
            [''commandCode'', ''command_code'', ''operationType'', ''operation_type'', ''type''])
      in if c = ''assert'' then derive_assert_command_code d else c)"

definition build_dto :: "pydict \<Rightarrow> string \<Rightarrow> string \<Rightarrow> command_dto result" where
  "build_dto d code ty =
     (let typed = (\<lambda>dflt. if ty = [] then dflt else ty) in
      if code = INIT_CONSTANT then build_init_constant d code (typed ''context'')
      else if code = DELETE_CONSTANT then build_delete_constant d code (typed ''context'')
      else if code = SLEEP then build_sleep d code (typed ''action'')
      else if code = SEND_MESSAGE_QUEUE then build_send_message d code (typed ''action'')
      else if code = SAVE_TABLE then build_save_table d code (typed ''action'')
      else if code = DROP_TABLE then build_table DropTableDto d code (typed ''action'')
      else if code = CLEAN_TABLE then build_table CleanTableDto d code (typed ''action'')
      else if code = EXPORT_DATASET then build_export_dataset d code (typed ''action'')
      else if code = DROP_DATASET then build_dataset DropDatasetDto d code (typed ''action'')
      else if code = CLEAN_DATASET then build_dataset CleanDatasetDto d code (typed ''action'')
      else if code = RUN_SUITE then build_run_suite d code (typed ''action'')
      else if code \<in> set assert_codes then build_assert d code (typed ''assert'')
      else Inl (ValueError (''Unsupported command code: '' @ code)))"

definition convert_to_config_command_type :: "pydict \<Rightarrow> command_dto result" where
  "convert_to_config_command_type d =
     build_dto d (command_code_of d)
       (normalize_command_type (first_non_empty d [''commandType'', ''command_type'']))"

end
