(* ===== verification/Command_Facts.thy ===== *)
theory Command_Facts
  imports Command_Convert
begin

section \<open>What a converted command satisfies\<close>

text \<open>
  The class invariants of the command records, the fact that every result of
  \<open>convert_to_config_command_type\<close> satisfies them, and the laws of the code normaliser.
\<close>

subsection \<open>Class invariants\<close>

definition clean_token :: "string \<Rightarrow> bool" where
  "clean_token s = (s \<noteq> [] \<and> strip s = s)"

definition wf_result_constant :: "result_constant option \<Rightarrow> bool" where
  "wf_result_constant r =
     (case r of
        None \<Rightarrow> True
      | Some c \<Rightarrow> clean_token (rc_definitionId c) \<and> clean_token (rc_name c) \<and>
          rc_valueType c \<in> set constant_source_types)"

definition wf_template :: "message_template option \<Rightarrow> bool" where
  "wf_template t =
     (case t of
        None \<Rightarrow> True
      | Some m \<Rightarrow>
          (mt_fields m \<noteq> [] \<or> mt_constants m \<noteq> []) \<and>
          distinct (mt_fields m) \<and> list_all clean_token (mt_fields m) \<and>
          list_all (\<lambda>c. clean_token (tc_name c) \<and> tc_kind c \<in> set template_kinds) (mt_constants m))"

definition wf_base :: "string list \<Rightarrow> 'a command_base_scheme \<Rightarrow> bool" where
  "wf_base codes c = (commandCode c \<in> set codes \<and> commandType c \<in> set command_types)"

fun wf_command :: "command_dto \<Rightarrow> bool" where
  "wf_command (InitConstantDto c) =
     (wf_base [INIT_CONSTANT] c \<and> clean_token (ic_definitionId c) \<and> clean_token (ic_name c) \<and>
      ic_context c \<in> set constant_contexts \<and> ic_sourceType c \<in> set constant_source_types \<and>
      ic_parameters c \<noteq> Some [])"
| "wf_command (DeleteConstantDto c) =
     (wf_base [DELETE_CONSTANT] c \<and> clean_token (dc_targetConstantRef c))"
| "wf_command (SleepDto c) = wf_base [SLEEP] c"
| "wf_command (SendMessageQueueDto c) =
     (wf_base [SEND_MESSAGE_QUEUE] c \<and> clean_token (sm_sourceConstantRef c) \<and>
      wf_template (sm_message_template c) \<and> wf_result_constant (sm_resultConstant c))"
| "wf_command (SaveTableDto c) =
     (wf_base [SAVE_TABLE] c \<and> clean_token (st_sourceConstantRef c) \<and>
      wf_result_constant (st_resultConstant c))"
| "wf_command (DropTableDto c) = wf_base [DROP_TABLE] c"
| "wf_command (CleanTableDto c) = wf_base [CLEAN_TABLE] c"
| "wf_command (ExportDatasetDto c) =
     (wf_base [EXPORT_DATASET] c \<and> clean_token (ed_sourceConstantRef c) \<and>
      ed_mode c \<in> set export_modes \<and> ed_mapping_keys c \<noteq> Some [] \<and>
      wf_result_constant (ed_resultConstant c))"
| "wf_command (DropDatasetDto c) = wf_base [DROP_DATASET] c"
| "wf_command (CleanDatasetDto c) = wf_base [CLEAN_DATASET] c"
| "wf_command (RunSuiteDto c) =
     (wf_base [RUN_SUITE] c \<and> clean_token (rs_suite_id c) \<and>
      list_all clean_token (rs_constantRefs c) \<and> wf_result_constant (rs_resultConstant c))"
| "wf_command (AssertDto c) =
     (wf_base assert_codes c \<and> clean_token (as_actualConstantRef c) \<and>
      as_compare_keys c \<noteq> Some [] \<and>
      (commandCode c \<in> {JSON_ARRAY_EQUALS, JSON_ARRAY_CONTAINS} \<longrightarrow>
         as_expected_json_array_id c \<noteq> None \<and> as_compare_keys c \<noteq> None) \<and>
      (commandCode c = JSON_CONTAINS \<longrightarrow> as_expected c \<noteq> PNone \<and> as_compare_keys c \<noteq> None) \<and>
      (commandCode c = JSON_EQUALS \<longrightarrow> as_expected c \<noteq> PNone))"

subsection \<open>The code normaliser\<close>

lemma normalize_known_codes: "list_all (\<lambda>c. normalize_command_code (PStr c) = c) command_codes"
  by code_simp

lemma normalize_known_code:
  "c \<in> set command_codes \<Longrightarrow> normalize_command_code (PStr c) = c"
  using normalize_known_codes by (simp add: list_all_iff)

lemma legacy_targets_known: "list_all (\<lambda>(k, c). c \<in> set command_codes) legacy_mapping"
  by code_simp

lemma normalize_legacy_target:
  "map_of legacy_mapping k = Some c \<Longrightarrow> normalize_command_code (PStr c) = c"
  using legacy_targets_known by (auto simp: list_all_iff normalize_known_code dest!: map_of_SomeD)

lemma normalize_command_code_idem [norm_simps, simp]:
  "normalize_command_code (PStr (normalize_command_code v)) = normalize_command_code v"
proof (cases "token v = []")
  case True
  then show ?thesis by (simp add: normalize_command_code_def)
next
  case False
  show ?thesis
  proof (cases "map_of legacy_mapping (lower (replace_char (CHR ''_'') (CHR ''-'') (token v)))")
    case None
    then have "normalize_command_code v = token v"
      using False by (simp add: normalize_command_code_def)
    then show ?thesis using None False by (simp add: normalize_command_code_def)
  next
    case (Some c)
    then have "normalize_command_code v = c"
      using False by (simp add: normalize_command_code_def)
    then show ?thesis using normalize_legacy_target [OF Some] by simp
  qed
qed

subsection \<open>Fields\<close>

lemma clean_strip: "strip s \<noteq> [] \<Longrightarrow> clean_token (strip s)"
  by (simp add: clean_token_def)

lemma field_const_ref_item_clean: "field_const_ref_item f v = Inr r \<Longrightarrow> clean_token r"
  by (auto simp: field_const_ref_item_def validate_definition_id_def rbind_Inr_iff rbind_guard_Inr
      clean_strip split: pyval.splits)

lemma field_const_ref_clean: "field_const_ref f v = Inr (Some r) \<Longrightarrow> clean_token r"
  by (auto simp: field_const_ref_def rbind_Inr_iff split: if_splits dest: field_const_ref_item_clean)

lemma map_result_refs_clean:
  "map_result (field_const_ref_item f) vs = Inr rs \<Longrightarrow> list_all clean_token rs"
  by (induction vs arbitrary: rs) (auto simp: rbind_Inr_iff dest: field_const_ref_item_clean)

lemma validate_result_constant_wf:
  "validate_result_constant i n t = Inr r \<Longrightarrow> wf_result_constant (Some r)"
  by (auto simp: validate_result_constant_def wf_result_constant_def Let_def rbind_guard_Inr
      clean_strip split: if_splits)

lemma field_result_constant_wf: "field_result_constant f v = Inr r \<Longrightarrow> wf_result_constant r"
proof (cases r)
  case None
  then show ?thesis by (simp add: wf_result_constant_def)
next
  case (Some c)
  assume "field_result_constant f v = Inr r"
  with Some show ?thesis
    by (auto simp: field_result_constant_def rbind_Inr_iff split: pyval.splits
        dest: validate_result_constant_wf)
qed

lemma validate_template_constant_wf:
  "validate_template_constant n k v = Inr c \<Longrightarrow>
     clean_token (tc_name c) \<and> tc_kind c \<in> set template_kinds"
  by (auto simp: validate_template_constant_def Let_def rbind_guard_Inr clean_strip split: if_splits)

lemma normalize_template_fields_wf:
  "distinct (normalize_template_fields fs) \<and> list_all clean_token (normalize_template_fields fs)"
proof -
  have "distinct acc \<and> list_all clean_token acc \<Longrightarrow>
      distinct (fold add_template_field fs acc) \<and> list_all clean_token (fold add_template_field fs acc)"
    for acc
    by (induction fs arbitrary: acc) (auto simp: add_template_field_def clean_strip)
  then show ?thesis by (simp add: normalize_template_fields_def)
qed

lemma map_result_constants_wf:
  "map_result field_template_constant vs = Inr cs \<Longrightarrow>
     list_all (\<lambda>c. clean_token (tc_name c) \<and> tc_kind c \<in> set template_kinds) cs"
proof (induction vs arbitrary: cs)
  case (Cons v vs)
  then obtain c cs' where c: "field_template_constant v = Inr c"
    and cs': "map_result field_template_constant vs = Inr cs'" and "cs = c # cs'"
    by (auto simp: rbind_Inr_iff)
  have "clean_token (tc_name c) \<and> tc_kind c \<in> set template_kinds"
    using c by (auto simp: field_template_constant_def rbind_Inr_iff split: pyval.splits
        dest: validate_template_constant_wf)
  with Cons.IH [OF cs'] \<open>cs = c # cs'\<close> show ?case by simp
qed simp

lemma field_message_template_wf: "field_message_template f v = Inr t \<Longrightarrow> wf_template t"
  using normalize_template_fields_wf
  by (fastforce simp: field_message_template_def wf_template_def validate_template_def Let_def
      rbind_Inr_iff rbind_guard_Inr split: pyval.splits option.splits dest: map_result_constants_wf)

lemma validate_command_keys_Inr:
  "validate_command_keys code ty = Inr (c, t) \<Longrightarrow>
     c = normalize_command_code (PStr code) \<and> t \<in> set command_types"
  by (auto simp: validate_command_keys_def Let_def rbind_guard_Inr)

lemmas build_simps = rbind_Inr_iff rbind_guard_Inr Let_def required_source_def

lemma wf_baseI:
  "validate_command_keys code ty = Inr (commandCode c, commandType c) \<Longrightarrow> code \<in> set codes \<Longrightarrow>
     code \<in> set command_codes \<Longrightarrow> wf_base codes c"
  by (auto simp: wf_base_def normalize_known_code dest: validate_command_keys_Inr)

lemma coerce_bindings_nonempty:
  "coerce_dataset_parameter_bindings p = Inr q \<Longrightarrow> q \<noteq> Some []"
  by (auto simp: coerce_dataset_parameter_bindings_def rbind_Inr_iff split: option.splits if_splits)

subsection \<open>Every builder establishes its class invariant\<close>

lemma validate_keys_base:
  "validate_command_keys code ty = Inr (c, t) \<Longrightarrow> code \<in> set command_codes \<Longrightarrow>
     c = code \<and> t \<in> set command_types"
  by (auto simp: normalize_known_code dest: validate_command_keys_Inr)

lemma keysE:
  assumes "validate_command_keys code ty = Inr ct" and "code \<in> set command_codes"
  shows "fst ct = code \<and> snd ct \<in> set command_types"
  using assms validate_keys_base by (cases ct) auto

lemmas build_unfold = Let_def split_def

abbreviation built :: "string \<Rightarrow> command_dto \<Rightarrow> bool" where
  "built code cfg \<equiv> wf_command cfg \<and> dto_commandCode cfg = code"

lemma build_table_wf:
  assumes "code = DROP_TABLE \<and> mk = DropTableDto \<or> code = CLEAN_TABLE \<and> mk = CleanTableDto"
    and "build_table mk d code ty = Inr cfg"
  shows "built code cfg"
proof -
  have code: "code \<in> set command_codes" using assms(1) by (auto simp: command_codes_def)
  from assms(2) show ?thesis
    unfolding build_table_def build_unfold
    by (elim rbindE) (use assms(1) keysE [OF _ code] in \<open>auto simp: wf_base_def\<close>)
qed

lemma build_dataset_wf:
  assumes "code = DROP_DATASET \<and> mk = DropDatasetDto \<or> code = CLEAN_DATASET \<and> mk = CleanDatasetDto"
    and "build_dataset mk d code ty = Inr cfg"
  shows "built code cfg"
proof -
  have code: "code \<in> set command_codes" using assms(1) by (auto simp: command_codes_def)
  from assms(2) show ?thesis
    unfolding build_dataset_def build_unfold
    by (elim rbindE) (use assms(1) keysE [OF _ code] in \<open>auto simp: wf_base_def\<close>)
qed

lemma known_codes:
  "INIT_CONSTANT \<in> set command_codes" "DELETE_CONSTANT \<in> set command_codes"
  "SLEEP \<in> set command_codes" "SEND_MESSAGE_QUEUE \<in> set command_codes"
  "SAVE_TABLE \<in> set command_codes" "EXPORT_DATASET \<in> set command_codes"
  "RUN_SUITE \<in> set command_codes" "code \<in> set assert_codes \<Longrightarrow> code \<in> set command_codes"
  by (simp_all add: command_codes_def)

lemma opt_token_clean: "opt_token v \<noteq> [] \<Longrightarrow> clean_token (opt_token v)"
  by (auto simp: clean_token_def opt_token_def split: option.splits)

lemma required_source_Inr: "required_source cmd r = Inr s \<longleftrightarrow> r = Some s"
  by (simp add: required_source_def split: option.splits)

lemma build_init_constant_wf:
  assumes "build_init_constant d INIT_CONSTANT ty = Inr cfg"
  shows "built INIT_CONSTANT cfg"
  using assms unfolding build_init_constant_def build_unfold guard_Inr
  by (elim rbindE)
    (use keysE [OF _ known_codes(1)] in
      \<open>auto simp: wf_base_def opt_token_clean dest: coerce_bindings_nonempty\<close>)

lemma build_delete_constant_wf:
  assumes "build_delete_constant d DELETE_CONSTANT ty = Inr cfg"
  shows "built DELETE_CONSTANT cfg"
  using assms unfolding build_delete_constant_def build_unfold
  by (elim rbindE)
    (use keysE [OF _ known_codes(2)] field_const_ref_clean in
      \<open>auto simp: wf_base_def split: option.splits\<close>)

lemma build_sleep_wf:
  assumes "build_sleep d SLEEP ty = Inr cfg"
  shows "built SLEEP cfg"
  using assms unfolding build_sleep_def build_unfold
  by (elim rbindE) (use keysE [OF _ known_codes(3)] in \<open>auto simp: wf_base_def\<close>)

lemma build_send_message_wf:
  assumes "build_send_message d SEND_MESSAGE_QUEUE ty = Inr cfg"
  shows "built SEND_MESSAGE_QUEUE cfg"
  using assms unfolding build_send_message_def build_unfold
  by (elim rbindE)
    (use keysE [OF _ known_codes(4)] field_const_ref_clean field_message_template_wf
      field_result_constant_wf in \<open>auto simp: wf_base_def required_source_Inr\<close>)

lemma build_save_table_wf:
  assumes "build_save_table d SAVE_TABLE ty = Inr cfg"
  shows "built SAVE_TABLE cfg"
  using assms unfolding build_save_table_def build_unfold
  by (elim rbindE)
    (use keysE [OF _ known_codes(5)] field_const_ref_clean field_result_constant_wf in
      \<open>auto simp: wf_base_def required_source_Inr\<close>)

lemma build_export_dataset_wf:
  assumes "build_export_dataset d EXPORT_DATASET ty = Inr cfg"
  shows "built EXPORT_DATASET cfg"
  using assms unfolding build_export_dataset_def build_unfold
  by (elim rbindE)
    (use keysE [OF _ known_codes(6)] field_const_ref_clean field_result_constant_wf in
      \<open>auto simp: wf_base_def required_source_Inr\<close>)

lemma build_run_suite_wf:
  assumes "build_run_suite d RUN_SUITE ty = Inr cfg"
  shows "built RUN_SUITE cfg"
  using assms unfolding build_run_suite_def build_unfold
  by (elim rbindE)
    (use keysE [OF _ known_codes(7)] map_result_refs_clean field_result_constant_wf in
      \<open>auto simp: wf_base_def clean_strip\<close>)

lemma check_assert_fields_Inr:
  "check_assert_fields code eid keys expd = Inr u \<longleftrightarrow>
     (code \<in> {JSON_ARRAY_EQUALS, JSON_ARRAY_CONTAINS} \<longrightarrow> eid \<noteq> None \<and> keys \<noteq> None) \<and>
     (code = JSON_CONTAINS \<longrightarrow> expd \<noteq> PNone \<and> keys \<noteq> None) \<and>
     (code = JSON_EQUALS \<longrightarrow> expd \<noteq> PNone)"
  unfolding check_assert_fields_def rbind_guard_Inr guard_Inr by argo

lemma build_assert_wf:
  assumes "build_assert d code ty = Inr cfg" and "code \<in> set assert_codes"
  shows "built code cfg"
proof -
  have code: "code \<in> set command_codes" using assms(2) by (rule known_codes)
  then have norm: "normalize_command_code (PStr code) = code" by (rule normalize_known_code)
  from assms(1) show ?thesis
    unfolding build_assert_def build_unfold
    apply (elim rbindE)
    subgoal premises prems for em eot act eid js ct u
    proof -
      have ct: "fst ct = code" "snd ct \<in> set command_types"
        using keysE [OF prems(6) code] by auto
      obtain a where act: "act = Some a" using prems(8) by (cases act) auto
      then have a: "clean_token a" using prems(3) field_const_ref_clean by blast
      show ?thesis
        using prems(8) unfolding act option.case ct(1) norm
        by (elim rbindE) (use a ct assms(2) in \<open>auto simp: wf_base_def check_assert_fields_Inr split: if_splits\<close>)
    qed
    done
qed

lemma wf_command_base: "wf_command cfg \<Longrightarrow>
  dto_commandCode cfg \<in> set command_codes \<and> dto_commandType cfg \<in> set command_types"
  by (cases cfg) (auto simp: wf_base_def command_codes_def)

lemmas build_wf =
  build_init_constant_wf build_delete_constant_wf build_sleep_wf build_send_message_wf
  build_save_table_wf build_export_dataset_wf build_run_suite_wf

lemmas build_table_wfs =
  build_table_wf [of DROP_TABLE DropTableDto, simplified]
  build_table_wf [of CLEAN_TABLE CleanTableDto, simplified]
  build_dataset_wf [of DROP_DATASET DropDatasetDto, simplified]
  build_dataset_wf [of CLEAN_DATASET CleanDatasetDto, simplified]

lemma if_eqE:
  assumes "(if c then a else b) = x"
  obtains "c" and "a = x" | "\<not> c" and "b = x"
  using assms by (cases c) auto

lemma build_dto_wf:
  assumes "build_dto d code ty = Inr cfg"
  shows "built code cfg"
  using assms unfolding build_dto_def Let_def
  apply (elim if_eqE)
  apply (hypsubst, erule build_wf build_table_wfs)+
  apply (erule build_assert_wf, assumption)
  apply (erule sum.distinct(1) [THEN notE])
  done


definition example_init :: pydict where
  "example_init =
     [(''operationType'', PStr '' set-var ''), (''definition_id'', PStr '' d1 ''),
      (''key'', PStr ''token''), (''scope'', PStr ''run''), (''value'', PDict [(''a'', PInt 1)])]"


end
