(* ===== verification/Object_Heap.thy ===== *)
theory Object_Heap
  imports Py_Value
begin

section \<open>Mutable dictionaries and lists\<close>

text \<open>
  The run context of the program is a graph of mutable dictionaries and lists that several
  names share: the run envelope is an entry of the global scope, which is an entry of the
  local scope. This theory gives the store those objects live in. A value is a scalar or a
  reference; an object is a list or a dictionary of values; \<open>hp_next\<close> is the address of the
  next object. \<open>hext\<close> relates a store to a later one: objects are never freed and never
  change between list and dictionary.
\<close>

type_synonym addr = nat

datatype hval =
    HNone
  | HBool bool
  | HInt int
  | HFloat rat string
  | HStr string
  | HRef addr

type_synonym hdict = "(string \<times> hval) list"

datatype hobj = HList "hval list" | HDict hdict

record heap =
  hp_store :: "addr \<Rightarrow> hobj option"
  hp_next :: addr

definition empty_heap :: heap where
  "empty_heap = \<lparr>hp_store = (\<lambda>_. None), hp_next = 0\<rparr>"

subsection \<open>Reading\<close>

fun obj_at :: "heap \<Rightarrow> hval \<Rightarrow> hobj option" where
  "obj_at h (HRef a) = hp_store h a"
| "obj_at h v = None"

definition dict_at :: "heap \<Rightarrow> hval \<Rightarrow> hdict option" where
  "dict_at h v = (case obj_at h v of Some (HDict d) \<Rightarrow> Some d | _ \<Rightarrow> None)"

definition list_at :: "heap \<Rightarrow> hval \<Rightarrow> hval list option" where
  "list_at h v = (case obj_at h v of Some (HList xs) \<Rightarrow> Some xs | _ \<Rightarrow> None)"

text \<open>\<open>d.get(k)\<close> on a dictionary; a value that is no dictionary has no entries.\<close>

definition hget :: "heap \<Rightarrow> hval \<Rightarrow> string \<Rightarrow> hval" where
  "hget h v k =
     (case dict_at h v of None \<Rightarrow> HNone
      | Some d \<Rightarrow> (case map_of d k of None \<Rightarrow> HNone | Some x \<Rightarrow> x))"

subsection \<open>Writing\<close>

definition put_obj :: "addr \<Rightarrow> hobj \<Rightarrow> heap \<Rightarrow> heap" where
  "put_obj a ob h = h\<lparr>hp_store := (hp_store h)(a \<mapsto> ob)\<rparr>"

definition alloc :: "hobj \<Rightarrow> heap \<Rightarrow> hval \<times> heap" where
  "alloc ob h =
     (HRef (hp_next h), h\<lparr>hp_store := (hp_store h)(hp_next h \<mapsto> ob), hp_next := Suc (hp_next h)\<rparr>)"

text \<open>
  \<open>d[k] = v\<close> on a dictionary held in a variable the code knows to be one (the scopes of a
  run context); nothing happens on another value.
\<close>

definition dict_put :: "hval \<Rightarrow> string \<Rightarrow> hval \<Rightarrow> heap \<Rightarrow> heap" where
  "dict_put r k v h =
     (case (r, dict_at h r) of (HRef a, Some d) \<Rightarrow> put_obj a (HDict (dset k v d)) h | _ \<Rightarrow> h)"

text \<open>A fresh object graph for a JSON value.\<close>

fun alloc_val :: "pyval \<Rightarrow> heap \<Rightarrow> hval \<times> heap"
and alloc_list :: "pyval list \<Rightarrow> heap \<Rightarrow> hval list \<times> heap"
and alloc_dict :: "(string \<times> pyval) list \<Rightarrow> heap \<Rightarrow> hdict \<times> heap" where
  "alloc_val PNone h = (HNone, h)"
| "alloc_val (PBool b) h = (HBool b, h)"
| "alloc_val (PInt i) h = (HInt i, h)"
| "alloc_val (PFloat q s) h = (HFloat q s, h)"
| "alloc_val (PStr s) h = (HStr s, h)"
| "alloc_val (PList xs) h = (case alloc_list xs h of (vs, h1) \<Rightarrow> alloc (HList vs) h1)"
| "alloc_val (PDict d) h = (case alloc_dict d h of (e, h1) \<Rightarrow> alloc (HDict e) h1)"
| "alloc_list [] h = ([], h)"
| "alloc_list (x # xs) h =
     (case alloc_val x h of (v, h1) \<Rightarrow> case alloc_list xs h1 of (vs, h2) \<Rightarrow> (v # vs, h2))"
| "alloc_dict [] h = ([], h)"
| "alloc_dict ((k, x) # d) h =
     (case alloc_val x h of (v, h1) \<Rightarrow> case alloc_dict d h1 of (e, h2) \<Rightarrow> ((k, v) # e, h2))"

text \<open>
  The JSON value behind a reference, read to depth \<open>n\<close>: \<open>None\<close> when the graph is deeper or
  cyclic, which is where \<open>json.dumps\<close> fails too.
\<close>

fun opt_seq :: "'a option list \<Rightarrow> 'a list option" where
  "opt_seq [] = Some []"
| "opt_seq (x # xs) =
     (case x of None \<Rightarrow> None
      | Some y \<Rightarrow> (case opt_seq xs of None \<Rightarrow> None | Some ys \<Rightarrow> Some (y # ys)))"

fun reify :: "nat \<Rightarrow> heap \<Rightarrow> hval \<Rightarrow> pyval option" where
  "reify n h HNone = Some PNone"
| "reify n h (HBool b) = Some (PBool b)"
| "reify n h (HInt i) = Some (PInt i)"
| "reify n h (HFloat q s) = Some (PFloat q s)"
| "reify n h (HStr s) = Some (PStr s)"
| "reify 0 h (HRef a) = None"
| "reify (Suc n) h (HRef a) =
     (case hp_store h a of
        None \<Rightarrow> None
      | Some (HList xs) \<Rightarrow> map_option PList (opt_seq (map (reify n h) xs))
      | Some (HDict d) \<Rightarrow>
          map_option (\<lambda>vs. PDict (zip (map fst d) vs)) (opt_seq (map (\<lambda>(k, v). reify n h v) d)))"

subsection \<open>Later stores\<close>

fun same_kind :: "hobj \<Rightarrow> hobj \<Rightarrow> bool" where
  "same_kind (HList xs) (HList ys) = True"
| "same_kind (HDict d) (HDict e) = True"
| "same_kind x y = False"

definition hext :: "heap \<Rightarrow> heap \<Rightarrow> bool" where
  "hext h h' \<longleftrightarrow> hp_next h \<le> hp_next h' \<and>
     (\<forall>a ob. hp_store h a = Some ob \<longrightarrow> (\<exists>ob'. hp_store h' a = Some ob' \<and> same_kind ob ob'))"

text \<open>\<open>fresh_from n h\<close>: no object at or above \<open>n\<close>; \<open>wf_heap\<close>: all addresses in use are below the next one.\<close>

definition wf_heap :: "heap \<Rightarrow> bool" where
  "wf_heap h \<longleftrightarrow> (\<forall>a. hp_next h \<le> a \<longrightarrow> hp_store h a = None)"

text \<open>\<open>only_changes A h h'\<close>: every object outside \<open>A\<close> is in the later store as it was.\<close>

definition only_changes :: "addr set \<Rightarrow> heap \<Rightarrow> heap \<Rightarrow> bool" where
  "only_changes A h h' \<longleftrightarrow>
     (\<forall>a. a < hp_next h \<longrightarrow> a \<notin> A \<longrightarrow> hp_store h' a = hp_store h a)"

lemma same_kind_refl [simp]: "same_kind x x"
  by (cases x) simp_all

lemma same_kind_trans: "same_kind x y \<Longrightarrow> same_kind y z \<Longrightarrow> same_kind x z"
  by (cases x; cases y; cases z) simp_all

lemma hext_refl [simp]: "hext h h"
  by (simp add: hext_def)

lemma hext_trans: "hext h1 h2 \<Longrightarrow> hext h2 h3 \<Longrightarrow> hext h1 h3"
  unfolding hext_def by (meson le_trans same_kind_trans)

lemma only_changes_refl [simp]: "only_changes A h h"
  by (simp add: only_changes_def)

lemma only_changes_mono: "only_changes A h h' \<Longrightarrow> A \<subseteq> B \<Longrightarrow> only_changes B h h'"
  by (auto simp: only_changes_def)

lemma only_changes_trans:
  "only_changes A h1 h2 \<Longrightarrow> only_changes A h2 h3 \<Longrightarrow> hp_next h1 \<le> hp_next h2 \<Longrightarrow>
   only_changes A h1 h3"
  by (simp add: only_changes_def)

lemma hext_next: "hext h h' \<Longrightarrow> hp_next h \<le> hp_next h'"
  by (simp add: hext_def)

lemma wf_empty_heap [simp]: "wf_heap empty_heap"
  by (simp add: wf_heap_def empty_heap_def)

subsection \<open>Effect of the primitive operations\<close>

lemma dict_at_HRef [simp]:
  "dict_at h (HRef a) = Some d \<longleftrightarrow> hp_store h a = Some (HDict d)"
  by (auto simp: dict_at_def split: option.splits hobj.splits)

lemma list_at_HRef [simp]:
  "list_at h (HRef a) = Some xs \<longleftrightarrow> hp_store h a = Some (HList xs)"
  by (auto simp: list_at_def split: option.splits hobj.splits)

lemma at_stored [simp]:
  "hp_store h a = Some (HDict d) \<Longrightarrow> dict_at h (HRef a) = Some d"
  "hp_store h a = Some (HList xs) \<Longrightarrow> list_at h (HRef a) = Some xs"
  by simp_all

lemma dict_atE:
  assumes "dict_at h v = Some d"
  obtains a where "v = HRef a" and "hp_store h a = Some (HDict d)"
  using assms by (cases v) (auto simp: dict_at_def split: option.splits hobj.splits)

lemma list_atE:
  assumes "list_at h v = Some xs"
  obtains a where "v = HRef a" and "hp_store h a = Some (HList xs)"
  using assms by (cases v) (auto simp: list_at_def split: option.splits hobj.splits)

lemma put_obj_store [simp]:
  "hp_store (put_obj a ob h) b = (if b = a then Some ob else hp_store h b)"
  "hp_next (put_obj a ob h) = hp_next h"
  by (simp_all add: put_obj_def)

lemma alloc_store [simp]:
  "fst (alloc ob h) = HRef (hp_next h)"
  "hp_store (snd (alloc ob h)) b = (if b = hp_next h then Some ob else hp_store h b)"
  "hp_next (snd (alloc ob h)) = Suc (hp_next h)"
  by (simp_all add: alloc_def)

lemma hext_put_obj:
  "hp_store h a = Some ob \<Longrightarrow> same_kind ob ob' \<Longrightarrow> hext h (put_obj a ob' h)"
  by (simp add: hext_def)

lemma wf_put_obj: "wf_heap h \<Longrightarrow> hp_store h a = Some ob \<Longrightarrow> wf_heap (put_obj a ob' h)"
  by (auto simp: wf_heap_def)

lemma hext_alloc: "wf_heap h \<Longrightarrow> hext h (snd (alloc ob h))"
  by (auto simp: hext_def wf_heap_def)

lemma wf_alloc: "wf_heap h \<Longrightarrow> wf_heap (snd (alloc ob h))"
  by (auto simp: wf_heap_def)

lemma only_changes_alloc: "only_changes A h (snd (alloc ob h))"
  by (auto simp: only_changes_def)

lemma only_changes_put: "a \<in> A \<Longrightarrow> only_changes A h (put_obj a ob h)"
  by (auto simp: only_changes_def)

lemma wf_heap_below: "wf_heap h \<Longrightarrow> hp_store h a = Some ob \<Longrightarrow> a < hp_next h"
  by (metis linorder_not_less option.distinct(1) wf_heap_def)

lemma hext_dict:
  assumes "hext h h'" and "dict_at h v = Some d"
  obtains d' where "dict_at h' v = Some d'"
proof -
  obtain a where v: "v = HRef a" and s: "hp_store h a = Some (HDict d)"
    using assms(2) by (rule dict_atE)
  then obtain ob' where "hp_store h' a = Some ob'" "same_kind (HDict d) ob'"
    using assms(1) unfolding hext_def by blast
  then show ?thesis using v by (cases ob') (auto intro: that)
qed

lemma hext_dict_ne: "hext h h' \<Longrightarrow> dict_at h v \<noteq> None \<Longrightarrow> dict_at h' v \<noteq> None"
  by (auto elim: hext_dict)

lemma dict_put_dict:
  "hp_store h a = Some (HDict d) \<Longrightarrow> dict_put (HRef a) k v h = put_obj a (HDict (dset k v d)) h"
  by (simp add: dict_put_def dict_at_def)

lemma hext_dict_put: "hext h (dict_put r k v h)"
  by (auto simp: dict_put_def dict_at_def hext_put_obj split: hval.splits option.splits hobj.splits)

lemma wf_dict_put: "wf_heap h \<Longrightarrow> wf_heap (dict_put r k v h)"
  by (auto simp: dict_put_def dict_at_def intro: wf_put_obj
      split: hval.splits option.splits hobj.splits)

lemma dict_put_next [simp]: "hp_next (dict_put r k v h) = hp_next h"
  by (auto simp: dict_put_def split: hval.splits option.splits)

subsection \<open>Fresh object graphs\<close>

definition grows :: "heap \<Rightarrow> heap \<Rightarrow> bool" where
  "grows h h' \<longleftrightarrow> wf_heap h' \<and> hext h h' \<and> only_changes {} h h'"

lemma grows_refl: "wf_heap h \<Longrightarrow> grows h h"
  by (simp add: grows_def)

lemma grows_trans: "grows h1 h2 \<Longrightarrow> grows h2 h3 \<Longrightarrow> grows h1 h3"
  unfolding grows_def using hext_trans only_changes_trans hext_next by blast

lemma grows_wf: "grows h h' \<Longrightarrow> wf_heap h'"
  by (simp add: grows_def)

lemma grows_alloc: "wf_heap h \<Longrightarrow> grows h (snd (alloc ob h))"
  by (simp add: grows_def wf_alloc hext_alloc only_changes_alloc)

lemma alloc_grows:
  "wf_heap h \<Longrightarrow> grows h (snd (alloc_val x h))"
  "wf_heap h \<Longrightarrow> grows h (snd (alloc_list xs h))"
  "wf_heap h \<Longrightarrow> grows h (snd (alloc_dict d h))"
proof (induction x h and xs h and d h rule: alloc_val_alloc_list_alloc_dict.induct)
  case (6 xs h)
  then show ?case
    by (auto simp: split_def intro: grows_trans grows_alloc grows_wf)
next
  case (7 d h)
  then show ?case
    by (auto simp: split_def intro: grows_trans grows_alloc grows_wf)
next
  case (9 x xs h)
  show ?case
    using 9(1) [OF 9(3)] 9(2) [OF prod.collapse grows_wf [OF 9(1) [OF 9(3)]]]
    by (auto simp: split_def intro: grows_trans)
next
  case (11 k x d h)
  show ?case
    using 11(1) [OF 11(3)] 11(2) [OF prod.collapse grows_wf [OF 11(1) [OF 11(3)]]]
    by (auto simp: split_def intro: grows_trans)
qed (simp_all add: grows_refl)

lemma alloc_keys: "map fst (fst (alloc_dict d h)) = map fst d"
  by (induction d arbitrary: h) (auto simp: split_def)

lemma alloc_ref_stored:
  "hp_store h' a = Some ob \<Longrightarrow> only_changes {} h' h'' \<Longrightarrow> a < hp_next h' \<Longrightarrow> hp_store h'' a = Some ob"
  by (simp add: only_changes_def)

lemma reify_alloc_later:
  "wf_heap h \<Longrightarrow> size x \<le> n \<Longrightarrow> only_changes {} (snd (alloc_val x h)) h2 \<Longrightarrow>
     reify n h2 (fst (alloc_val x h)) = Some x"
  "wf_heap h \<Longrightarrow> size_list size xs \<le> n \<Longrightarrow> only_changes {} (snd (alloc_list xs h)) h2 \<Longrightarrow>
     opt_seq (map (reify n h2) (fst (alloc_list xs h))) = Some xs"
  "wf_heap h \<Longrightarrow> size_list (size_prod (\<lambda>_. 0) size) d \<le> n \<Longrightarrow>
     only_changes {} (snd (alloc_dict d h)) h2 \<Longrightarrow>
     opt_seq (map (\<lambda>(k, v). reify n h2 v) (fst (alloc_dict d h))) = Some (map snd d)"
proof (induction x h and xs h and d h arbitrary: n and n and n
    rule: alloc_val_alloc_list_alloc_dict.induct)
  case (6 xs h)
  obtain m where n: "n = Suc m" and m: "size_list size xs \<le> m"
    using 6(3) by (cases n) auto
  let ?h1 = "snd (alloc_list xs h)"
  have "only_changes {} ?h1 h2"
    by (rule only_changes_trans [OF only_changes_alloc]) (use 6(4) in \<open>auto simp: split_def\<close>)
  then have rec: "opt_seq (map (reify m h2) (fst (alloc_list xs h))) = Some xs"
    using 6(1) 6(2) m by blast
  have "hp_store h2 (hp_next ?h1) = Some (HList (fst (alloc_list xs h)))"
    by (rule alloc_ref_stored [of "snd (alloc_val (PList xs) h)"]) (use 6(4) in \<open>auto simp: split_def\<close>)
  with rec show ?case by (simp add: n split_def)
next
  case (7 d h)
  obtain m where n: "n = Suc m" and m: "size_list (size_prod (\<lambda>_. 0) size) d \<le> m"
    using 7(3) by (cases n) auto
  let ?h1 = "snd (alloc_dict d h)"
  have "only_changes {} ?h1 h2"
    by (rule only_changes_trans [OF only_changes_alloc]) (use 7(4) in \<open>auto simp: split_def\<close>)
  then have rec: "opt_seq (map (\<lambda>(k, v). reify m h2 v) (fst (alloc_dict d h))) = Some (map snd d)"
    using 7(1) 7(2) m by blast
  have "hp_store h2 (hp_next ?h1) = Some (HDict (fst (alloc_dict d h)))"
    by (rule alloc_ref_stored [of "snd (alloc_val (PDict d) h)"]) (use 7(4) in \<open>auto simp: split_def\<close>)
  with rec show ?case by (simp add: n split_def alloc_keys zip_map_fst_snd)
next
  case (9 x xs h)
  let ?h1 = "snd (alloc_val x h)"
  have g: "grows h ?h1" "grows ?h1 (snd (alloc_list xs ?h1))"
    using 9(3) alloc_grows grows_wf by blast+
  have o2: "only_changes {} (snd (alloc_list xs ?h1)) h2" using 9(5) by (simp add: split_def)
  then have o1: "only_changes {} ?h1 h2"
    using g(2) only_changes_trans hext_next unfolding grows_def by blast
  show ?case
    using 9(1) [OF 9(3) _ o1, of n] 9(2) [OF prod.collapse grows_wf [OF g(1)] _ o2, of n] 9(4)
    by (simp add: split_def)
next
  case (11 k x d h)
  let ?h1 = "snd (alloc_val x h)"
  have g: "grows h ?h1" "grows ?h1 (snd (alloc_dict d ?h1))"
    using 11(3) alloc_grows grows_wf by blast+
  have o2: "only_changes {} (snd (alloc_dict d ?h1)) h2" using 11(5) by (simp add: split_def)
  then have o1: "only_changes {} ?h1 h2"
    using g(2) only_changes_trans hext_next unfolding grows_def by blast
  show ?case
    using 11(1) [OF 11(3) _ o1, of n] 11(2) [OF prod.collapse grows_wf [OF g(1)] _ o2, of n] 11(4)
    by (simp add: split_def)
qed simp_all

lemma reify_alloc_val: "wf_heap h \<Longrightarrow> reify (size x) (snd (alloc_val x h)) (fst (alloc_val x h)) = Some x"
  by (rule reify_alloc_later) simp_all

end
