(* ===== verification/Run_Context.thy ===== *)
theory Run_Context
  imports Object_Heap
begin

section \<open>The run context\<close>

text \<open>
  The state every command of a run works on (\<open>elaborations/services/suite_runs/run_context.py\<close>).
  Its four scopes are dictionaries of the object store, nested as the code nests them: the
  envelope inside the global scope, the global scope inside the local one. The context
  variable \<open>_RUN_CONTEXT\<close> of the running thread is \<open>s_ctx\<close>, which is \<open>None\<close> outside a run.
  An operation is a state-exception function; the store keeps what was written before an
  exception.
\<close>

record run_context =
  rx_run_id :: string
  run_envelope :: hval
  global_scope :: hval
  local_scope :: hval
  result_scope :: hval
  invocation_id :: "string option"
  current_item_kind :: string
  current_hook_phase :: "string option"
  rx_last :: hval

record session =
  s_heap :: heap
  s_ctx :: "run_context option"

definition on_heap :: "(heap, 'a) eff \<Rightarrow> (session, 'a) eff" where
  "on_heap m = (\<lambda>s. case m (s_heap s) of (r, h) \<Rightarrow> (r, s\<lparr>s_heap := h\<rparr>))"

text \<open>The entries of a value that should be a dictionary, and the value or a fresh \<open>{}\<close>.\<close>

definition entries :: "heap \<Rightarrow> hval \<Rightarrow> hdict" where
  "entries h v = (case dict_at h v of None \<Rightarrow> [] | Some d \<Rightarrow> d)"

definition dict_or_new :: "hval \<Rightarrow> heap \<Rightarrow> hval \<times> heap" where
  "dict_or_new v h = (if dict_at h v = None then alloc (HDict []) h else (v, h))"

subsection \<open>Creation\<close>

definition build_run_context_payload ::
  "string \<Rightarrow> hval \<Rightarrow> hval \<Rightarrow> heap \<Rightarrow> (hval \<times> hval \<times> hval \<times> hval) \<times> heap" where
  "build_run_context_payload run_id event initial_vars h =
     (let (ev, h1) = dict_or_new event h;
          (vs, h2) = dict_or_new initial_vars h1;
          (envelope, h3) = alloc (HDict [(''run_id'', HStr (strip run_id)), (''event'', ev),
                                         (''constants'', vs)]) h2;
          (gc, h4) = alloc (HDict []) h3;
          (gs, h5) = alloc (HDict [(''runEnvelope'', envelope), (''constants'', gc)]) h4;
          (lc, h6) = alloc (HDict []) h5;
          (ls, h7) = alloc (HDict [(''global'', gs), (''constants'', lc)]) h6;
          (ra, h8) = alloc (HDict []) h7;
          (rm, h9) = alloc (HDict []) h8;
          (rc, h10) = alloc (HDict []) h9;
          (rs, h11) = alloc (HDict [(''artifacts'', ra), (''commands'', rm), (''constants'', rc)]) h10
      in ((envelope, gs, ls, rs), h11))"

definition new_last :: "string \<Rightarrow> hval \<Rightarrow> heap \<Rightarrow> hval \<times> heap" where
  "new_last item_id data = alloc (HDict [(''item_id'', HStr item_id), (''data'', data)])"

definition create_run_context ::
  "string \<Rightarrow> hval \<Rightarrow> hval \<Rightarrow> string option \<Rightarrow> heap \<Rightarrow> run_context \<times> heap" where
  "create_run_context run_id event initial_vars invocation h =
     (case build_run_context_payload run_id event initial_vars h of
        ((envelope, gs, ls, rs), h1) \<Rightarrow>
          (case new_last [] HNone h1 of
             (l, h2) \<Rightarrow>
               (\<lparr>rx_run_id = strip run_id, run_envelope = envelope, global_scope = gs,
                 local_scope = ls, result_scope = rs,
                 invocation_id = nonempty (opt_token invocation),
                 current_item_kind = ''hook'', current_hook_phase = None, rx_last = l\<rparr>, h2)))"

subsection \<open>Binding\<close>

text \<open>
  \<open>with bind_run_context(c): body\<close>: the variable is reset when the body leaves, normally or
  not. The context object outlives the block, so its final fields are part of the result.
\<close>

definition bind_run_context ::
  "run_context \<Rightarrow> (session, 'a) eff \<Rightarrow> session \<Rightarrow> 'a result \<times> run_context option \<times> session" where
  "bind_run_context c body s =
     (case body (s\<lparr>s_ctx := Some c\<rparr>) of (r, t) \<Rightarrow> (r, s_ctx t, t\<lparr>s_ctx := s_ctx s\<rparr>))"

definition enter_suite_item ::
  "string \<Rightarrow> string option \<Rightarrow> hval option \<Rightarrow> run_context \<Rightarrow> heap \<Rightarrow> run_context \<times> heap" where
  "enter_suite_item item_kind hook_phase local_vars c h =
     (c\<lparr>current_item_kind :=
          lower (strip (if item_kind = [] then current_item_kind c else item_kind)),
        current_hook_phase := nonempty (lower (opt_token hook_phase))\<rparr>,
      (case local_vars of None \<Rightarrow> h | Some v \<Rightarrow> dict_put (local_scope c) ''constants'' v h))"

definition leave_suite_item :: "run_context \<Rightarrow> hval \<Rightarrow> run_context \<Rightarrow> heap \<Rightarrow> run_context \<times> heap" where
  "leave_suite_item previous previous_vars c h =
     (case dict_or_new previous_vars h of
        (vs, h1) \<Rightarrow>
          (c\<lparr>current_item_kind := current_item_kind previous,
             current_hook_phase := current_hook_phase previous\<rparr>,
           dict_put (local_scope c) ''constants'' vs h1))"

definition bind_suite_item_context ::
  "string \<Rightarrow> string option \<Rightarrow> hval option \<Rightarrow> (session, 'a) eff \<Rightarrow> (session, 'a) eff" where
  "bind_suite_item_context item_kind hook_phase local_vars body = (\<lambda>s.
     case s_ctx s of
       None \<Rightarrow> body s
     | Some c \<Rightarrow>
         (case enter_suite_item item_kind hook_phase local_vars c (s_heap s) of
            (c1, h1) \<Rightarrow>
              (case body (s\<lparr>s_ctx := Some c1, s_heap := h1\<rparr>) of
                 (r, t) \<Rightarrow>
                   (case s_ctx t of
                      None \<Rightarrow> (r, t)
                    | Some c2 \<Rightarrow>
                        (case leave_suite_item c (hget (s_heap s) (local_scope c) ''constants'')
                                c2 (s_heap t) of
                           (c3, h3) \<Rightarrow> (r, t\<lparr>s_ctx := Some c3, s_heap := h3\<rparr>))))))"

definition reset_local_context :: "session \<Rightarrow> session" where
  "reset_local_context s =
     (case s_ctx s of
        None \<Rightarrow> s
      | Some c \<Rightarrow>
          (let (fresh, h1) = alloc (HDict []) (s_heap s);
               h2 = dict_put (local_scope c) ''constants'' fresh h1;
               (l, h3) = new_last [] HNone h2
           in s\<lparr>s_ctx := Some (c\<lparr>rx_last := l\<rparr>), s_heap := h3\<rparr>))"

definition set_context_last :: "string \<Rightarrow> hval \<Rightarrow> session \<Rightarrow> session" where
  "set_context_last item_id data s =
     (case s_ctx s of
        None \<Rightarrow> s
      | Some c \<Rightarrow>
          (case new_last (strip item_id) data (s_heap s) of
             (l, h) \<Rightarrow> s\<lparr>s_ctx := Some (c\<lparr>rx_last := l\<rparr>), s_heap := h\<rparr>))"

text \<open>
  \<open>v = d.get(k)\<close>, replaced in place by a fresh empty object when it is not of the kind of
  \<open>ob\<close> (the \<open>isinstance\<close> test).
\<close>

definition child_or_new :: "hobj \<Rightarrow> hval \<Rightarrow> string \<Rightarrow> heap \<Rightarrow> hval \<times> heap" where
  "child_or_new ob r k h =
     (let v = hget h r k in
      if (case obj_at h v of None \<Rightarrow> False | Some x \<Rightarrow> same_kind x ob) then (v, h)
      else (case alloc ob h of (w, h1) \<Rightarrow> (w, dict_put r k w h1)))"

definition append_item :: "hval \<Rightarrow> hval \<Rightarrow> heap \<Rightarrow> heap" where
  "append_item items v h =
     (case (items, list_at h items) of
        (HRef a, Some xs) \<Rightarrow> put_obj a (HList (xs @ [v])) h | _ \<Rightarrow> h)"

definition append_assert_artifact :: "hval \<Rightarrow> session \<Rightarrow> session" where
  "append_assert_artifact artifact s =
     (case s_ctx s of
        None \<Rightarrow> s
      | Some c \<Rightarrow>
          (case child_or_new (HDict []) (result_scope c) ''artifacts'' (s_heap s) of
             (arts, h1) \<Rightarrow>
               (case child_or_new (HList []) arts ''asserts'' h1 of
                  (items, h2) \<Rightarrow> s\<lparr>s_heap := append_item items artifact h2\<rparr>)))"

end
