(* ===== verification/Context_Path.thy ===== *)
theory Context_Path
  imports Py_Value
begin

section \<open>Context paths\<close>

text \<open>
  A path such as \<open>$.local.constants.orders[0].id\<close> is read by two parsers: the writer's
  (\<open>_path_tokens\<close> of \<open>run_context.py\<close>, where a token of digits is an index wherever it
  stands) and the resolver's (\<open>_split_path\<close> and \<open>_segment_tokens\<close> of
  \<open>run_context_resolver.py\<close>, where only a bracket gives an index). Both are modelled, and
  the last section shows that they agree on plain dotted paths.
\<close>

subsection \<open>The writer's tokens\<close>

definition normalize_target_path :: "string \<Rightarrow> string result" where
  "normalize_target_path path =
     (let p = strip path in
      if p = [] then Inl (ValueError ''Target path is required.'')
      else if startswith p ''$.'' then Inr (drop 2 p)
      else if startswith p ''$'' then
        (let r = drop 1 p in Inr (if startswith r ''.'' then drop 1 r else r))
      else Inr p)"

fun segment_loop :: "string \<Rightarrow> string list \<Rightarrow> string \<Rightarrow> bool \<Rightarrow> string list" where
  "segment_loop [] res buf im =
     (if buf = [] then res else res @ [if im then strip buf else buf])"
| "segment_loop (c # cs) res buf im =
     (if c = CHR ''['' then segment_loop cs (if buf = [] then res else res @ [buf]) [] True
      else if c = CHR '']'' then
        segment_loop cs (if strip buf = [] then res else res @ [strip buf]) [] False
      else segment_loop cs res (buf @ [c]) im)"

definition segment_tokens :: "string \<Rightarrow> string list" where
  "segment_tokens segment =
     (let src = strip segment in
      if src = [] then [] else filter (\<lambda>t. t \<noteq> []) (segment_loop src [] [] False))"

definition path_tokens :: "string \<Rightarrow> string list result" where
  "path_tokens path =
     rbind (normalize_target_path path) (\<lambda>p.
     Inr (concat (map segment_tokens (filter (\<lambda>x. x \<noteq> []) (split_on (CHR ''.'') p)))))"

definition root_of_token :: "string \<Rightarrow> string option" where
  "root_of_token t =
     (let rt = strip t in
      if rt = ''vars'' then Some ''global''
      else if rt = ''response'' then Some ''response''
      else if rt \<in> {''runEnvelope'', ''global'', ''local'', ''result''} then Some rt
      else None)"

definition extract_context_root :: "string \<Rightarrow> string option result" where
  "extract_context_root path =
     rbind (path_tokens path) (\<lambda>ts.
     Inr (case ts of [] \<Rightarrow> None | t # _ \<Rightarrow> root_of_token t))"

definition to_index :: "string \<Rightarrow> nat option" where
  "to_index t = (let raw = strip t in if isdigit raw then Some (digits_val raw) else None)"

text \<open>
  The tokens below the root, with \<open>constants\<close> inserted unless the path names one of the
  entries a scope has besides.
\<close>

definition scope_entries :: "string list" where
  "scope_entries = [''constants'', ''event'', ''run_id'', ''runEnvelope'', ''global'']"

definition target_tokens :: "string \<Rightarrow> string list \<Rightarrow> string list" where
  "target_tokens rt ts =
     (case tl ts of
        [] \<Rightarrow> []
      | t # rest \<Rightarrow>
          if rt \<in> {''runEnvelope'', ''global'', ''local''} \<and> t \<notin> set scope_entries
          then ''constants'' # t # rest else t # rest)"

subsection \<open>The resolver's tokens\<close>

datatype rtoken = RIndex nat | RKey string

fun split_loop :: "string \<Rightarrow> string list \<Rightarrow> string \<Rightarrow> nat \<Rightarrow> string list" where
  "split_loop [] parts buf level = parts @ [buf]"
| "split_loop (c # cs) parts buf level =
     (if c = CHR ''.'' \<and> level = 0 then split_loop cs (parts @ [buf]) [] level
      else split_loop cs parts (buf @ [c])
        (if c = CHR ''['' then level + 1 else if c = CHR '']'' then level - 1 else level))"

definition split_path :: "string \<Rightarrow> string list" where
  "split_path p = filter (\<lambda>x. x \<noteq> []) (split_loop p [] [] 0)"

lemma dropWhile_less: "xs \<noteq> [] \<Longrightarrow> P (hd xs) \<Longrightarrow> length (dropWhile P xs) < length xs"
  by (cases xs) (auto simp: le_imp_less_Suc length_dropWhile_le)

lemma tl_dropWhile_less: "xs \<noteq> [] \<Longrightarrow> length (tl (dropWhile P xs)) < length xs"
  by (metis diff_less length_dropWhile_le length_greater_0_conv length_tl less_le_trans
      less_nat_zero_code less_numeral_extra(1) linorder_neqE_nat not_less zero_diff)

function ref_tokens :: "string \<Rightarrow> string \<Rightarrow> rtoken list result" where
  "ref_tokens seg rem =
     (if rem = [] then Inr []
      else if hd rem = CHR ''['' then
        (if CHR '']'' \<notin> set rem
         then Inl (ValueError (''Invalid $ref segment '' @ quoted seg))
         else
           (let ix = strip (takeWhile (\<lambda>c. c \<noteq> CHR '']'') (tl rem)) in
            if \<not> isdigit ix
            then Inl (ValueError (''Invalid list index '' @ quoted ix @ '' in $ref segment '' @
                        quoted seg))
            else rbind (ref_tokens seg (tl (dropWhile (\<lambda>c. c \<noteq> CHR '']'') rem))) (\<lambda>ts.
                   Inr (RIndex (digits_val ix) # ts))))
      else if CHR ''['' \<notin> set rem then Inr [RKey rem]
      else rbind (ref_tokens seg (dropWhile (\<lambda>c. c \<noteq> CHR ''['') rem)) (\<lambda>ts.
             Inr (RKey (takeWhile (\<lambda>c. c \<noteq> CHR ''['') rem) # ts)))"
  by pat_completeness auto

termination
  by (relation "measure (\<lambda>(seg, rem). length rem)") (auto simp: dropWhile_less tl_dropWhile_less simp del: length_tl)

declare ref_tokens.simps [simp del]

subsection \<open>Plain names\<close>

text \<open>
  A plain name is one the path syntax leaves alone: no dot, no bracket, no surrounding blanks,
  and not a number (the writer would take it for an index).
\<close>

definition plain_char :: "char \<Rightarrow> bool" where
  "plain_char c = (c \<noteq> CHR ''.'' \<and> c \<noteq> CHR ''['' \<and> c \<noteq> CHR '']'')"

definition plain_name :: "string \<Rightarrow> bool" where
  "plain_name n = (n \<noteq> [] \<and> strip n = n \<and> list_all plain_char n \<and> \<not> isdigit n)"

lemma plain_char_simps [simp]:
  "\<not> plain_char (CHR ''.'')" "\<not> plain_char (CHR ''['')" "\<not> plain_char (CHR '']'')"
  by (simp_all add: plain_char_def)

lemma plain_name_chars:
  assumes "plain_name n"
  shows "CHR ''.'' \<notin> set n" and "CHR ''['' \<notin> set n" and "CHR '']'' \<notin> set n"
  using assms by (auto simp: plain_name_def list_all_iff plain_char_def)

lemma segment_loop_plain:
  "CHR ''['' \<notin> set s \<Longrightarrow> CHR '']'' \<notin> set s \<Longrightarrow>
   segment_loop s res buf False = (if buf @ s = [] then res else res @ [buf @ s])"
  by (induction s arbitrary: buf) auto

lemma segment_tokens_plain:
  "plain_name n \<Longrightarrow> segment_tokens n = [n]"
  using plain_name_chars segment_loop_plain [of n "[]" "[]"]
  by (auto simp: segment_tokens_def plain_name_def Let_def)

lemma to_index_plain: "plain_name n \<Longrightarrow> to_index n = None"
  by (simp add: to_index_def plain_name_def)

lemma split_loop_plain:
  "CHR ''.'' \<notin> set s \<Longrightarrow> CHR ''['' \<notin> set s \<Longrightarrow> CHR '']'' \<notin> set s \<Longrightarrow>
   split_loop (s @ CHR ''.'' # t) parts buf 0 = split_loop t (parts @ [buf @ s]) [] 0"
  "CHR ''.'' \<notin> set s \<Longrightarrow> CHR ''['' \<notin> set s \<Longrightarrow> CHR '']'' \<notin> set s \<Longrightarrow>
   split_loop s parts buf 0 = parts @ [buf @ s]"
  by (induction s arbitrary: buf) auto

lemma join_dot: "ns \<noteq> [] \<Longrightarrow> join ''.'' (n # ns) = n @ CHR ''.'' # join ''.'' ns"
  by (cases ns) simp_all

lemma split_loop_join:
  "list_all plain_name ns \<Longrightarrow> ns \<noteq> [] \<Longrightarrow> split_loop (join ''.'' ns) parts [] 0 = parts @ ns"
proof (induction ns arbitrary: parts)
  case (Cons n ns)
  show ?case
  proof (cases "ns = []")
    case True
    then show ?thesis using Cons.prems plain_name_chars [of n] by (simp add: split_loop_plain)
  next
    case False
    then show ?thesis
      using Cons plain_name_chars [of n] by (simp add: join_dot split_loop_plain)
  qed
qed simp

lemma plain_names_filter: "list_all plain_name ns \<Longrightarrow> filter (\<lambda>x. x \<noteq> []) ns = ns"
  by (induction ns) (auto simp: plain_name_def)

text \<open>On a dotted path of plain names the two parsers read the same names.\<close>

lemma split_path_join:
  "list_all plain_name ns \<Longrightarrow> ns \<noteq> [] \<Longrightarrow> split_path (join ''.'' ns) = ns"
  unfolding split_path_def by (subst split_loop_join) (simp_all add: plain_names_filter)

lemma ref_tokens_plain: "plain_name n \<Longrightarrow> ref_tokens seg n = Inr [RKey n]"
proof -
  assume n: "plain_name n"
  then have "n \<noteq> []" "CHR ''['' \<notin> set n" "hd n \<noteq> CHR ''[''"
    using plain_name_chars(2) [OF n] by (cases n; auto simp: plain_name_def)+
  then show ?thesis by (subst ref_tokens.simps) simp
qed

lemma segment_tokens_concat:
  "list_all plain_name ns \<Longrightarrow> concat (map segment_tokens ns) = ns"
  by (induction ns) (auto simp: segment_tokens_plain)

lemma split_on_names:
  "list_all plain_name ns \<Longrightarrow> ns \<noteq> [] \<Longrightarrow> split_on (CHR ''.'') (join ''.'' ns) = ns"
proof (induction ns)
  case (Cons n ns)
  then show ?case
    using plain_name_chars(1) [of n]
    by (cases "ns = []") (auto simp: join_dot split_on_single split_on_append)
qed simp

lemma plain_last_not_ws:
  assumes "list_all plain_name ns" and "ns \<noteq> []"
  shows "join ''.'' ns \<noteq> [] \<and> \<not> is_ws (last (join ''.'' ns))"
  using assms
proof (induction ns)
  case (Cons n ns)
  have n: "n \<noteq> []" "strip n = n" using Cons.prems by (auto simp: plain_name_def)
  then have "\<not> is_ws (last n)" using strip_ends(2) [of n] by simp
  then show ?case using Cons n by (cases "ns = []") (auto simp: join_dot)
qed simp

lemma strip_path:
  assumes "list_all plain_name ns" and "ns \<noteq> []"
  shows "strip (''$.'' @ join ''.'' ns) = ''$.'' @ join ''.'' ns"
proof (rule strip_id)
  have "\<not> is_ws (CHR ''$'')" by (simp add: is_ws_def code_of_def)
  then show "''$.'' @ join ''.'' ns = [] \<or>
      \<not> is_ws (hd (''$.'' @ join ''.'' ns)) \<and> \<not> is_ws (last (''$.'' @ join ''.'' ns))"
    using plain_last_not_ws [OF assms] by simp
qed

lemma path_tokens_plain:
  assumes "list_all plain_name ns" and "ns \<noteq> []"
  shows "path_tokens (''$.'' @ join ''.'' ns) = Inr ns"
proof -
  have "split_on (CHR ''.'') (join ''.'' ns) = ns" using assms by (rule split_on_names)
  then show ?thesis
    unfolding path_tokens_def normalize_target_path_def Let_def strip_path [OF assms]
    using assms by (simp add: startswith_def plain_names_filter segment_tokens_concat)
qed

lemma plain_consts [simp]:
  "plain_name ''local''" "plain_name ''global''" "plain_name ''result''"
  "plain_name ''runEnvelope''" "plain_name ''constants''" "plain_name ''response''"
  by code_simp+

end
