(* ===== verification/Context_Store.thy ===== *)
theory Context_Store
  imports Run_Context Context_Path
begin

section \<open>Reading and writing context paths\<close>

text \<open>
  The path operations of \<open>run_context.py\<close> (assignment and removal with creation of the
  missing containers, the immutability guards of a running test) and the reference resolver of
  \<open>run_context_resolver.py\<close>, on the object store.
\<close>

subsection \<open>Assignment\<close>

text \<open>\<open>_ensure_list_size\<close>: one fresh \<open>{}\<close> for every missing position.\<close>

fun alloc_dicts :: "nat \<Rightarrow> heap \<Rightarrow> hval list \<times> heap" where
  "alloc_dicts 0 h = ([], h)"
| "alloc_dicts (Suc n) h =
     (case alloc (HDict []) h of (r, h1) \<Rightarrow> case alloc_dicts n h1 of (rs, h2) \<Rightarrow> (r # rs, h2))"

definition ensure_list_size :: "addr \<Rightarrow> hval list \<Rightarrow> nat \<Rightarrow> heap \<Rightarrow> hval list \<times> heap" where
  "ensure_list_size a items idx h =
     (case alloc_dicts (Suc idx - length items) h of
        (rs, h1) \<Rightarrow> (items @ rs, put_obj a (HList (items @ rs)) h1))"

definition fresh_container :: "string \<Rightarrow> heap \<Rightarrow> hval \<times> heap" where
  "fresh_container next_token h =
     alloc (if to_index next_token \<noteq> None then HList [] else HDict []) h"

fun assign_loop :: "hval \<Rightarrow> string list \<Rightarrow> hval \<Rightarrow> (heap, unit) eff" where
  "assign_loop current [] v h = (Inr (), h)"
| "assign_loop current (t # ts) v h =
     (case to_index t of
        Some i \<Rightarrow>
          (case (current, list_at h current) of
             (HRef a, Some items) \<Rightarrow>
               (case ensure_list_size a items i h of
                  (items1, h1) \<Rightarrow>
                    (case ts of
                       [] \<Rightarrow> (Inr (), put_obj a (HList (items1[i := v])) h1)
                     | t1 # _ \<Rightarrow>
                         if items1 ! i = HNone then
                           (case fresh_container t1 h1 of
                              (r, h2) \<Rightarrow>
                                assign_loop r ts v (put_obj a (HList (items1[i := r])) h2))
                         else assign_loop (items1 ! i) ts v h1))
           | _ \<Rightarrow> (Inl (ValueError ''Target path expects a list segment.''), h))
      | None \<Rightarrow>
          (case (current, dict_at h current) of
             (HRef a, Some d) \<Rightarrow>
               (case ts of
                  [] \<Rightarrow> (Inr (), put_obj a (HDict (dset t v d)) h)
                | t1 # _ \<Rightarrow>
                    if hget h current t = HNone then
                      (case fresh_container t1 h of
                         (r, h1) \<Rightarrow> assign_loop r ts v (put_obj a (HDict (dset t r d)) h1))
                    else assign_loop (hget h current t) ts v h)
           | _ \<Rightarrow> (Inl (ValueError ''Target path expects an object segment.''), h)))"

definition assign_nested_value :: "hval \<Rightarrow> string list \<Rightarrow> hval \<Rightarrow> (heap, unit) eff" where
  "assign_nested_value target ts v =
     (if ts = [] then eraise (ValueError ''Target path must include at least one segment.'')
      else assign_loop target ts v)"

subsection \<open>Removal\<close>

fun remove_nested_value :: "hval \<Rightarrow> string list \<Rightarrow> heap \<Rightarrow> heap" where
  "remove_nested_value current [] h = h"
| "remove_nested_value current (t # ts) h =
     (case to_index t of
        Some i \<Rightarrow>
          (case (current, list_at h current) of
             (HRef a, Some items) \<Rightarrow>
               if length items \<le> i then h
               else if ts = [] then put_obj a (HList (take i items @ drop (Suc i) items)) h
               else remove_nested_value (items ! i) ts h
           | _ \<Rightarrow> h)
      | None \<Rightarrow>
          (case (current, dict_at h current) of
             (HRef a, Some d) \<Rightarrow>
               (case map_of d t of
                  None \<Rightarrow> h
                | Some x \<Rightarrow> if ts = [] then put_obj a (HDict (ddel t d)) h
                            else remove_nested_value x ts h)
           | _ \<Rightarrow> h))"

subsection \<open>The path operations\<close>

definition target_from_root :: "run_context \<Rightarrow> string \<Rightarrow> (heap, hval) eff" where
  "target_from_root c rt = (\<lambda>h.
     if rt = ''runEnvelope'' then (Inr (run_envelope c), h)
     else if rt = ''global'' then (Inr (global_scope c), h)
     else if rt = ''local'' then (Inr (local_scope c), h)
     else if rt = ''result'' then (Inr (result_scope c), h)
     else if rt = ''response'' then
       (case child_or_new (HDict []) (result_scope c) ''commands'' h of (r, h1) \<Rightarrow> (Inr r, h1))
     else (Inl (ValueError (''Unsupported context root '' @ quoted rt @ ''.'')), h))"

definition check_mutable :: "string \<Rightarrow> string \<Rightarrow> unit result" where
  "check_mutable rt item_kind =
     rbind (guard (\<not> (rt = ''global'' \<and> item_kind = ''test''))
              (ValueError ''Global context is immutable during test execution.'')) (\<lambda>_.
     guard (\<not> (rt = ''runEnvelope'' \<and> item_kind = ''test''))
              (ValueError ''RunEnvelope context is immutable during test execution.''))"

definition assign_root :: "hval \<Rightarrow> hval \<Rightarrow> (heap, unit) eff" where
  "assign_root target v = (\<lambda>h.
     if dict_at h v = None
     then (Inl (ValueError ''Root assignment requires a JSON object value.''), h)
     else (case target of
             HRef a \<Rightarrow>
               (let h1 = put_obj a (HDict []) h
                in (Inr (), put_obj a (HDict (dupdate [] (entries h1 v))) h1))
           | _ \<Rightarrow> (Inr (), h)))"

definition write_path :: "run_context \<Rightarrow> string \<Rightarrow> hval \<Rightarrow> (heap, unit) eff" where
  "write_path c path v =
     ebind (elift (extract_context_root path)) (\<lambda>ro.
     case ro of
       None \<Rightarrow> eraise (ValueError
         ''Unsupported target path. Use $.runEnvelope, $.global, $.local or $.result.'')
     | Some rt \<Rightarrow>
         ebind (elift (check_mutable rt (current_item_kind c))) (\<lambda>_.
         ebind (elift (path_tokens path)) (\<lambda>ts.
         ebind (target_from_root c rt) (\<lambda>target.
         (let tts = target_tokens rt ts in
          if tts = [] then assign_root target v else assign_nested_value target tts v)))))"

definition write_context_path :: "string \<Rightarrow> hval \<Rightarrow> (session, unit) eff" where
  "write_context_path path v = (\<lambda>s.
     case s_ctx s of None \<Rightarrow> (Inr (), s) | Some c \<Rightarrow> on_heap (write_path c path v) s)"

definition remove_path :: "run_context \<Rightarrow> string \<Rightarrow> (heap, unit) eff" where
  "remove_path c path =
     ebind (elift (extract_context_root path)) (\<lambda>ro.
     case ro of
       None \<Rightarrow> ereturn ()
     | Some rt \<Rightarrow>
         ebind (elift (check_mutable rt (current_item_kind c))) (\<lambda>_.
         ebind (elift (path_tokens path)) (\<lambda>ts.
         ebind (target_from_root c rt) (\<lambda>target.
         emodify (remove_nested_value target (target_tokens rt ts))))))"

definition remove_context_path :: "string \<Rightarrow> (session, unit) eff" where
  "remove_context_path path = (\<lambda>s.
     case s_ctx s of None \<Rightarrow> (Inr (), s) | Some c \<Rightarrow> on_heap (remove_path c path) s)"

definition set_context_var :: "string \<Rightarrow> hval \<Rightarrow> string \<Rightarrow> (session, unit) eff" where
  "set_context_var key v scope = (\<lambda>s.
     case s_ctx s of
       None \<Rightarrow> (Inr (), s)
     | Some c \<Rightarrow>
         if strip key = [] then (Inl (ValueError ''Context variable key is required.''), s)
         else
           (let sc = strip (if scope = [] then ''local'' else scope);
                target = (if sc = ''auto''
                          then (if current_item_kind c = ''test'' then ''local'' else ''global'')
                          else sc)
            in write_context_path (''$.'' @ target @ ''.constants.'' @ strip key) v s))"

subsection \<open>Reading\<close>

definition scope_constants :: "heap \<Rightarrow> hval \<Rightarrow> hdict" where
  "scope_constants h scope = entries h (hget h scope ''constants'')"

fun first_binding :: "string \<Rightarrow> hdict list \<Rightarrow> hval" where
  "first_binding n [] = HNone"
| "first_binding n (d # ds) = (case map_of d n of Some v \<Rightarrow> v | None \<Rightarrow> first_binding n ds)"

definition resolve_constant_value :: "string \<Rightarrow> session \<Rightarrow> hval" where
  "resolve_constant_value name s =
     (case s_ctx s of
        None \<Rightarrow> HNone
      | Some c \<Rightarrow>
          if strip name = [] then HNone
          else first_binding (strip name)
            (map (scope_constants (s_heap s))
               [local_scope c, global_scope c, run_envelope c, result_scope c]))"

definition empty_scope_value :: pyval where
  "empty_scope_value =
     (let envelope = PDict [(''run_id'', PStr []), (''event'', PDict []), (''constants'', PDict [])];
          glob = PDict [(''runEnvelope'', envelope), (''constants'', PDict [])]
      in PDict [(''runEnvelope'', envelope), (''global'', glob),
                (''local'', PDict [(''global'', glob), (''constants'', PDict [])]),
                (''result'', PDict [(''artifacts'', PDict []), (''commands'', PDict []),
                                    (''constants'', PDict [])]),
                (''response'', PDict [])])"

definition build_run_context_scope :: "run_context option \<Rightarrow> heap \<Rightarrow> hval \<times> heap" where
  "build_run_context_scope co h =
     (case co of
        None \<Rightarrow> alloc_val empty_scope_value h
      | Some c \<Rightarrow>
          (let (vs, h1) = dict_or_new (hget h (global_scope c) ''constants'') h;
               (rsp, h2) = dict_or_new (hget h1 (result_scope c) ''commands'') h1
           in alloc (HDict [(''runEnvelope'', run_envelope c), (''global'', global_scope c),
                            (''local'', local_scope c), (''result'', result_scope c),
                            (''vars'', vs), (''response'', rsp)]) h2))"

subsection \<open>References\<close>

text \<open>\<open>None\<close> is the code's \<open>_MISSING\<close>.\<close>

fun step_token :: "heap \<Rightarrow> hval \<Rightarrow> rtoken \<Rightarrow> hval option" where
  "step_token h v (RIndex i) =
     (case list_at h v of None \<Rightarrow> None | Some xs \<Rightarrow> if i < length xs then Some (xs ! i) else None)"
| "step_token h v (RKey k) = (case dict_at h v of None \<Rightarrow> None | Some d \<Rightarrow> map_of d k)"

fun walk_tokens :: "heap \<Rightarrow> hval \<Rightarrow> rtoken list \<Rightarrow> hval option" where
  "walk_tokens h v [] = Some v"
| "walk_tokens h v (t # ts) =
     (case step_token h v t of None \<Rightarrow> None | Some w \<Rightarrow> walk_tokens h w ts)"

fun walk_segments :: "heap \<Rightarrow> hval \<Rightarrow> string list \<Rightarrow> hval option result" where
  "walk_segments h v [] = Inr (Some v)"
| "walk_segments h v (seg # segs) =
     rbind (ref_tokens seg seg) (\<lambda>ts.
       case walk_tokens h v ts of None \<Rightarrow> Inr None | Some w \<Rightarrow> walk_segments h w segs)"

definition resolve_ref :: "heap \<Rightarrow> hval \<Rightarrow> string \<Rightarrow> hval option result" where
  "resolve_ref h scope expression =
     (let r = strip expression in
      if r = ''$'' then Inr (Some scope)
      else if \<not> startswith r ''$.'' then
        Inl (ValueError (''Unsupported $ref '' @ quoted r @ ''. Expected '' @ quoted ''$.<path>'' @ ''.''))
      else if drop 2 r = [] then Inr (Some scope)
      else walk_segments h scope (split_path (drop 2 r)))"

text \<open>
  \<open>resolve_dynamic_value\<close> on a JSON configuration value: references yield the very object of
  the context, the literal parts are fresh objects.
\<close>

fun resolve_dynamic_value :: "pyval \<Rightarrow> hval \<Rightarrow> (heap, hval) eff"
and resolve_dynamic_list :: "pyval list \<Rightarrow> hval \<Rightarrow> (heap, hval list) eff"
and resolve_dynamic_dict :: "(string \<times> pyval) list \<Rightarrow> hval \<Rightarrow> (heap, hdict) eff"
and resolve_dynamic_key :: "string \<Rightarrow> (string \<times> pyval) list \<Rightarrow> hval \<Rightarrow> (heap, hval) eff" where
  "resolve_dynamic_value (PList xs) scope h =
     (case resolve_dynamic_list xs scope h of
        (Inl e, h1) \<Rightarrow> (Inl e, h1)
      | (Inr vs, h1) \<Rightarrow> (case alloc (HList vs) h1 of (r, h2) \<Rightarrow> (Inr r, h2)))"
| "resolve_dynamic_value (PStr s) scope h =
     (if strip s = ''$'' \<or> startswith (strip s) ''$.'' then
        (case resolve_ref h scope (strip s) of
           Inl e \<Rightarrow> (Inl e, h)
         | Inr None \<Rightarrow> (Inr (HStr s), h)
         | Inr (Some v) \<Rightarrow> (Inr v, h))
      else (Inr (HStr s), h))"
| "resolve_dynamic_value (PDict d) scope h =
     (if dhas d ''$const'' \<and> \<not> dhas d ''$ref'' then resolve_dynamic_key ''$const'' d scope h
      else if dhas d ''$ref'' then
        (case resolve_ref h scope (text_of (dget d ''$ref'')) of
           Inl e \<Rightarrow> (Inl e, h)
         | Inr (Some v) \<Rightarrow> (Inr v, h)
         | Inr None \<Rightarrow>
             if dhas d ''$default'' then resolve_dynamic_key ''$default'' d scope h
             else if truthy (dget d ''$required'') then
               (Inl (ValueError (''Required reference not found: '' @ py_str (dget d ''$ref''))), h)
             else (Inr HNone, h))
      else
        (case resolve_dynamic_dict d scope h of
           (Inl e, h1) \<Rightarrow> (Inl e, h1)
         | (Inr e, h1) \<Rightarrow> (case alloc (HDict e) h1 of (r, h2) \<Rightarrow> (Inr r, h2))))"
| "resolve_dynamic_value v scope h = (case alloc_val v h of (r, h1) \<Rightarrow> (Inr r, h1))"
| "resolve_dynamic_list [] scope h = (Inr [], h)"
| "resolve_dynamic_list (x # xs) scope h =
     (case resolve_dynamic_value x scope h of
        (Inl e, h1) \<Rightarrow> (Inl e, h1)
      | (Inr v, h1) \<Rightarrow>
          (case resolve_dynamic_list xs scope h1 of
             (Inl e, h2) \<Rightarrow> (Inl e, h2)
           | (Inr vs, h2) \<Rightarrow> (Inr (v # vs), h2)))"
| "resolve_dynamic_dict [] scope h = (Inr [], h)"
| "resolve_dynamic_dict ((k, x) # d) scope h =
     (case resolve_dynamic_value x scope h of
        (Inl e, h1) \<Rightarrow> (Inl e, h1)
      | (Inr v, h1) \<Rightarrow>
          (case resolve_dynamic_dict d scope h1 of
             (Inl e, h2) \<Rightarrow> (Inl e, h2)
           | (Inr vs, h2) \<Rightarrow> (Inr ((k, v) # vs), h2)))"
| "resolve_dynamic_key k [] scope h = (Inr HNone, h)"
| "resolve_dynamic_key k ((k1, x) # d) scope h =
     (if k1 = k then resolve_dynamic_value x scope h else resolve_dynamic_key k d scope h)"

subsection \<open>Saving and restoring\<close>

definition serialize_run_context :: "run_context \<Rightarrow> heap \<Rightarrow> hval \<times> heap" where
  "serialize_run_context c h =
     alloc (HDict [(''run_id'', HStr (strip (rx_run_id c))),
                   (''runEnvelope'', run_envelope c), (''global'', global_scope c),
                   (''local'', local_scope c), (''result'', result_scope c),
                   (''invocation_id'',
                     (case nonempty (opt_token (invocation_id c)) of None \<Rightarrow> HNone | Some i \<Rightarrow> HStr i)),
                   (''last'', rx_last c)]) h"

text \<open>
  \<open>str(v)\<close> and the truth of a stored value. A graph deeper than the number of objects is
  cyclic; Python then prints the repeated part as dots.
\<close>

definition htext :: "heap \<Rightarrow> hval \<Rightarrow> string" where
  "htext h v = (case reify (hp_next h) h v of Some x \<Rightarrow> py_str x | None \<Rightarrow> ''{...}'')"

definition htruthy :: "heap \<Rightarrow> hval \<Rightarrow> bool" where
  "htruthy h v =
     (case obj_at h v of
        Some (HList xs) \<Rightarrow> xs \<noteq> []
      | Some (HDict d) \<Rightarrow> d \<noteq> []
      | None \<Rightarrow> (case reify 0 h v of Some x \<Rightarrow> truthy x | None \<Rightarrow> True))"

definition first_text :: "heap \<Rightarrow> hval list \<Rightarrow> string" where
  "first_text h vs = (case filter (htruthy h) vs of [] \<Rightarrow> [] | v # _ \<Rightarrow> strip (htext h v))"

definition deserialize_run_context :: "hval \<Rightarrow> heap \<Rightarrow> run_context \<times> heap" where
  "deserialize_run_context payload h =
     (let (source, h0) = dict_or_new payload h;
          (envelope, h1) = dict_or_new (hget h0 source ''runEnvelope'') h0;
          (c, h2) = create_run_context
              (first_text h1 [hget h1 source ''run_id'', hget h1 envelope ''run_id''])
              (hget h1 envelope ''event'') (hget h1 envelope ''constants'')
              (nonempty (first_text h1 [hget h1 source ''invocation_id''])) h1;
          (gc, h3) = dict_or_new (hget h2 (hget h2 source ''global'') ''constants'') h2;
          h4 = dict_put (global_scope c) ''constants'' gc h3;
          (lc, h5) = dict_or_new (hget h4 (hget h4 source ''local'') ''constants'') h4;
          h6 = dict_put (local_scope c) ''constants'' lc h5;
          (rs, h7) = (let r = hget h6 source ''result'' in
             if entries h6 r = []
             then alloc_val (PDict [(''artifacts'', PDict []), (''commands'', PDict []),
                                    (''constants'', PDict [])]) h6
             else (r, h6));
          (l, h8) = (let r = hget h7 source ''last'' in
             if dict_at h7 r = None then new_last [] HNone h7 else (r, h7))
      in (c\<lparr>result_scope := rs, rx_last := l\<rparr>, h8))"

end
