(* ===== verification/Context_Facts.thy ===== *)
theory Context_Facts
  imports Context_Store
begin

section \<open>Correctness of the run context\<close>

text \<open>
  The layout invariant of a run context and the laws of its path operations: every operation
  keeps the four scopes apart, a write is read back by the resolver, and the constants of a
  scope are a store in the sense of the locale \<open>constant_store\<close>.
\<close>

subsection \<open>Every operation extends the store\<close>

lemma dict_or_new_grows: "wf_heap h \<Longrightarrow> grows h (snd (dict_or_new v h))"
  by (simp add: dict_or_new_def grows_refl grows_alloc)

lemma alloc_dicts_grows: "wf_heap h \<Longrightarrow> grows h (snd (alloc_dicts n h))"
proof (induction n arbitrary: h)
  case (Suc n)
  then show ?case
    using grows_alloc [OF Suc.prems, of "HDict []"]
    by (auto simp: split_def intro: grows_trans grows_wf)
qed (simp add: grows_refl)

definition wf_ext :: "heap \<Rightarrow> heap \<Rightarrow> bool" where
  "wf_ext h h' \<longleftrightarrow> wf_heap h' \<and> hext h h'"

lemma wf_ext_refl: "wf_heap h \<Longrightarrow> wf_ext h h"
  by (simp add: wf_ext_def)

lemma wf_ext_trans: "wf_ext h1 h2 \<Longrightarrow> wf_ext h2 h3 \<Longrightarrow> wf_ext h1 h3"
  unfolding wf_ext_def using hext_trans by blast

lemma grows_wf_ext: "grows h h' \<Longrightarrow> wf_ext h h'"
  by (simp add: grows_def wf_ext_def)

lemma wf_ext_put:
  "wf_heap h \<Longrightarrow> hp_store h a = Some ob \<Longrightarrow> same_kind ob ob' \<Longrightarrow> wf_ext h (put_obj a ob' h)"
  by (simp add: wf_ext_def wf_put_obj hext_put_obj)

lemma wf_ext_dict_put: "wf_heap h \<Longrightarrow> wf_ext h (dict_put r k v h)"
  by (simp add: wf_ext_def wf_dict_put hext_dict_put)

lemma wf_ext_wf: "wf_ext h h' \<Longrightarrow> wf_heap h'"
  by (simp add: wf_ext_def)

lemmas wf_ext_intros = wf_ext_refl wf_ext_trans wf_ext_wf grows_wf_ext grows_alloc
  alloc_dicts_grows dict_or_new_grows

lemma ensure_list_size_ext:
  assumes "wf_heap h" and "hp_store h a = Some (HList items)"
  shows "wf_ext h (snd (ensure_list_size a items i h))"
    and "hp_store (snd (ensure_list_size a items i h)) a = Some (HList (fst (ensure_list_size a items i h)))"
    and "i < length (fst (ensure_list_size a items i h))"
proof -
  let ?h1 = "snd (alloc_dicts (Suc i - length items) h)"
  have g: "grows h ?h1" using assms(1) by (rule alloc_dicts_grows)
  have "hp_store ?h1 a = Some (HList items)"
    by (rule alloc_ref_stored [OF assms(2)])
      (use g assms wf_heap_below in \<open>auto simp: grows_def\<close>)
  then have "wf_ext ?h1 (put_obj a (HList ys) ?h1)" for ys
    using grows_wf [OF g] by (intro wf_ext_put) auto
  then show "wf_ext h (snd (ensure_list_size a items i h))"
    using g by (auto simp: ensure_list_size_def split_def intro: wf_ext_trans grows_wf_ext)
  show "hp_store (snd (ensure_list_size a items i h)) a = Some (HList (fst (ensure_list_size a items i h)))"
    by (simp add: ensure_list_size_def split_def)
  have "length (fst (alloc_dicts n h)) = n" for n h
    by (induction n arbitrary: h) (auto simp: split_def)
  then show "i < length (fst (ensure_list_size a items i h))"
    by (simp add: ensure_list_size_def split_def)
qed

lemma assign_loop_ext: "wf_heap h \<Longrightarrow> wf_ext h (snd (assign_loop cur ts v h))"
proof (induction ts arbitrary: cur h)
  case (Cons t ts)
  show ?case
  proof (cases "to_index t")
    case None
    show ?thesis
    proof (cases "dict_at h cur")
      case (Some d)
      then obtain a where a: "cur = HRef a" "hp_store h a = Some (HDict d)" by (rule dict_atE)
      then have da: "dict_at h (HRef a) = Some d" by simp
      have put: "wf_ext h (put_obj a (HDict e) h)" for e
        using Cons.prems a(2) by (rule wf_ext_put) simp
      show ?thesis
      proof (cases ts)
        case Nil
        then show ?thesis using a da put None by simp
      next
        case (Cons t1 ts1)
        let ?f = "fresh_container t1 h"
        have g: "grows h (snd ?f)"
          unfolding fresh_container_def using Cons.prems by (rule grows_alloc)
        have "hp_store (snd ?f) a = Some (HDict d)"
          by (rule alloc_ref_stored [OF a(2)])
            (use g Cons.prems a wf_heap_below in \<open>auto simp: grows_def\<close>)
        then have p2: "wf_ext (snd ?f) (put_obj a (HDict e) (snd ?f))" for e
          using grows_wf [OF g] by (intro wf_ext_put) auto
        have step: "wf_ext h (snd (assign_loop r ts v (put_obj a (HDict e) (snd ?f))))" for r e
          using Cons.IH [OF wf_ext_wf [OF p2 [of e]], of r] p2 [of e] g
          by (meson wf_ext_trans grows_wf_ext)
        show ?thesis
          using a da None local.Cons step Cons.IH [OF Cons.prems]
          by (simp add: split_def)
      qed
    qed (use None Cons.prems in \<open>auto simp: wf_ext_refl split: hval.splits\<close>)
  next
    case (Some i)
    show ?thesis
    proof (cases "list_at h cur")
      case (Some items)
      then obtain a where a: "cur = HRef a" "hp_store h a = Some (HList items)" by (rule list_atE)
      then have la: "list_at h (HRef a) = Some items" by simp
      let ?e = "ensure_list_size a items i h"
      note e = ensure_list_size_ext [OF Cons.prems a(2), of i]
      have put: "wf_ext (snd ?e) (put_obj a (HList ys) (snd ?e))" for ys
        using wf_ext_wf [OF e(1)] e(2) by (rule wf_ext_put) simp
      show ?thesis
      proof (cases ts)
        case Nil
        then show ?thesis
          using a la \<open>to_index t = Some i\<close> put e(1) by (auto simp: split_def intro: wf_ext_trans)
      next
        case (Cons t1 ts1)
        let ?f = "fresh_container t1 (snd ?e)"
        have g: "grows (snd ?e) (snd ?f)"
          unfolding fresh_container_def using wf_ext_wf [OF e(1)] by (rule grows_alloc)
        have "hp_store (snd ?f) a = Some (HList (fst ?e))"
          by (rule alloc_ref_stored [OF e(2)])
            (use g wf_ext_wf [OF e(1)] e(2) wf_heap_below in \<open>auto simp: grows_def\<close>)
        then have p2: "wf_ext (snd ?f) (put_obj a (HList ys) (snd ?f))" for ys
          using grows_wf [OF g] by (intro wf_ext_put) auto
        have step: "wf_ext h (snd (assign_loop r ts v (put_obj a (HList ys) (snd ?f))))" for r ys
          using Cons.IH [OF wf_ext_wf [OF p2 [of ys]], of r] p2 [of ys] g e(1)
          by (meson wf_ext_trans grows_wf_ext)
        have step2: "wf_ext h (snd (assign_loop r ts v (snd ?e)))" for r
          using Cons.IH [OF wf_ext_wf [OF e(1)]] e(1) by (rule wf_ext_trans [rotated])
        show ?thesis
          using a la \<open>to_index t = Some i\<close> local.Cons step step2 by (simp add: split_def)
      qed
    qed (use \<open>to_index t = Some i\<close> Cons.prems in \<open>auto simp: wf_ext_refl split: hval.splits\<close>)
  qed
qed (simp add: wf_ext_refl)

lemma remove_nested_ext: "wf_heap h \<Longrightarrow> wf_ext h (remove_nested_value cur ts h)"
proof (induction ts arbitrary: cur)
  case (Cons t ts)
  then show ?case
    by (auto simp: wf_ext_refl dict_at_def list_at_def intro: wf_ext_put
        split: option.splits hval.splits hobj.splits)
qed (simp add: wf_ext_refl)

lemma child_or_new_ext: "wf_heap h \<Longrightarrow> wf_ext h (snd (child_or_new ob r k h))"
  unfolding child_or_new_def Let_def split_def
  by (simp add: wf_ext_refl split: option.splits)
    (meson grows_alloc grows_wf grows_wf_ext wf_ext_dict_put wf_ext_trans)

lemma child_or_new_kind:
  assumes "wf_heap h" and "dict_at h r \<noteq> None" and "child_or_new ob r k h = (v, h1)"
  shows "\<exists>x. obj_at h1 v = Some x \<and> same_kind x ob"
proof -
  obtain a d where a: "r = HRef a" "hp_store h a = Some (HDict d)"
    using assms(2) by (auto elim!: dict_atE)
  have "a < hp_next h" using wf_heap_below [OF assms(1) a(2)] .
  then show ?thesis
    using assms(3) a
    by (auto simp: child_or_new_def Let_def split_def dict_put_dict split: if_splits option.splits)
qed

lemma same_kind_dict [simp]: "same_kind x (HDict e) \<longleftrightarrow> (\<exists>d. x = HDict d)"
  by (cases x) simp_all

lemma target_from_root_ext: "wf_heap h \<Longrightarrow> wf_ext h (snd (target_from_root c rt h))"
  by (simp add: target_from_root_def wf_ext_refl split_def child_or_new_ext)

lemma assign_root_ext:
  assumes "wf_heap h" and "dict_at h target \<noteq> None"
  shows "wf_ext h (snd (assign_root target v h))"
proof -
  obtain a d where a: "target = HRef a" "hp_store h a = Some (HDict d)"
    using assms(2) by (auto elim!: dict_atE)
  let ?h1 = "put_obj a (HDict []) h"
  have "wf_ext h ?h1" using assms(1) a(2) by (rule wf_ext_put) simp
  moreover have "wf_ext ?h1 (put_obj a (HDict e) ?h1)" for e
    using wf_ext_wf [OF calculation] by (intro wf_ext_put [where ob = "HDict []"]) auto
  ultimately show ?thesis
    using a assms(1) by (auto simp: assign_root_def Let_def wf_ext_refl intro: wf_ext_trans)
qed

lemma ebind_ext:
  assumes "wf_ext h (snd (m h))" and "\<And>x h1. m h = (Inr x, h1) \<Longrightarrow> wf_ext h1 (snd (f x h1))"
  shows "wf_ext h (snd (ebind m f h))"
proof (cases "m h")
  case (Pair r h1)
  then show ?thesis
    using assms by (cases r) (auto simp: ebind_def intro: wf_ext_trans)
qed

lemma ebind_elift: "ebind (elift r) f h = (case r of Inl e \<Rightarrow> (Inl e, h) | Inr x \<Rightarrow> f x h)"
  by (simp add: ebind_def split: sum.splits)

definition scopes_ok :: "run_context \<Rightarrow> heap \<Rightarrow> bool" where
  "scopes_ok c h \<longleftrightarrow>
     (\<forall>r \<in> {run_envelope c, global_scope c, local_scope c, result_scope c}. dict_at h r \<noteq> None)"

definition wf_session :: "session \<Rightarrow> bool" where
  "wf_session s \<longleftrightarrow>
     wf_heap (s_heap s) \<and> (\<forall>c. s_ctx s = Some c \<longrightarrow> scopes_ok c (s_heap s))"

lemma scopes_ok_ext: "scopes_ok c h \<Longrightarrow> hext h h' \<Longrightarrow> scopes_ok c h'"
  unfolding scopes_ok_def using hext_dict by (metis not_None_eq)

lemma scopes_ok_same:
  "scopes_ok c h \<Longrightarrow> run_envelope c' = run_envelope c \<Longrightarrow> global_scope c' = global_scope c \<Longrightarrow>
   local_scope c' = local_scope c \<Longrightarrow> result_scope c' = result_scope c \<Longrightarrow> scopes_ok c' h"
  by (simp add: scopes_ok_def)

lemma target_from_root_dict:
  assumes "scopes_ok c h" and "wf_heap h" and "target_from_root c rt h = (Inr t, h1)"
  shows "dict_at h1 t \<noteq> None"
proof -
  have res: "dict_at h (result_scope c) \<noteq> None" using assms(1) by (simp add: scopes_ok_def)
  have "dict_at g v \<noteq> None" if "child_or_new (HDict []) (result_scope c) k h = (v, g)" for k v g
    using child_or_new_kind [OF assms(2) res that] by (auto simp: dict_at_def)
  then show ?thesis
    using assms(1,3) by (auto simp: target_from_root_def scopes_ok_def split: if_splits prod.splits)
qed

lemma write_path_ext:
  assumes "wf_heap h" and "scopes_ok c h"
  shows "wf_ext h (snd (write_path c path v h))"
proof -
  have body: "wf_ext h (snd (ebind (target_from_root c rt) (\<lambda>target.
      (let tts = target_tokens rt ts in
       if tts = [] then assign_root target v else assign_nested_value target tts v)) h))" for rt ts
  proof (rule ebind_ext)
    fix t h1 assume t: "target_from_root c rt h = (Inr t, h1)"
    have w: "wf_heap h1" using target_from_root_ext [OF assms(1), of c rt] t by (simp add: wf_ext_def)
    show "wf_ext h1 (snd ((let tts = target_tokens rt ts in
       if tts = [] then assign_root t v else assign_nested_value t tts v) h1))"
      using assign_root_ext [OF w target_from_root_dict [OF assms(2,1) t]] assign_loop_ext [OF w]
      by (simp add: Let_def assign_nested_value_def)
  qed (rule target_from_root_ext [OF assms(1)])
  then show ?thesis
    using assms(1) by (auto simp: write_path_def ebind_elift wf_ext_refl split: sum.splits option.splits)
qed

lemma remove_path_ext:
  assumes "wf_heap h"
  shows "wf_ext h (snd (remove_path c path h))"
proof -
  have "wf_ext h (snd (ebind (target_from_root c rt)
      (\<lambda>target. emodify (remove_nested_value target (target_tokens rt ts))) h))" for rt ts
    using target_from_root_ext [OF assms, of c rt]
    by (intro ebind_ext) (auto intro: remove_nested_ext wf_ext_wf dest: wf_ext_wf)
  then show ?thesis
    using assms by (auto simp: remove_path_def ebind_elift wf_ext_refl split: sum.splits option.splits)
qed

subsection \<open>The invariant of a session\<close>

lemma wf_sessionI:
  assumes "wf_session s" and "wf_ext (s_heap s) h" and "s_ctx s = Some c"
    and "run_envelope c' = run_envelope c" "global_scope c' = global_scope c"
    "local_scope c' = local_scope c" "result_scope c' = result_scope c"
  shows "wf_session (s\<lparr>s_ctx := Some c', s_heap := h\<rparr>)"
proof -
  have "scopes_ok c h"
    using assms(1-3) scopes_ok_ext unfolding wf_session_def wf_ext_def by blast
  then show ?thesis
    using assms scopes_ok_same [of c h c'] unfolding wf_session_def wf_ext_def by simp
qed

lemma wf_session_heap:
  assumes "wf_session s" and "wf_ext (s_heap s) h"
  shows "wf_session (s\<lparr>s_heap := h\<rparr>)"
  using assms scopes_ok_ext unfolding wf_session_def wf_ext_def by auto

lemma wf_session_ctx:
  assumes "wf_session s" and "s_ctx s = Some c"
  shows "wf_heap (s_heap s)" and "scopes_ok c (s_heap s)"
  using assms unfolding wf_session_def by simp_all

lemma write_context_path_wf: "wf_session s \<Longrightarrow> wf_session (snd (write_context_path path v s))"
  by (auto simp: write_context_path_def on_heap_def split_def intro!: wf_session_heap write_path_ext
      dest: wf_session_ctx split: option.splits)

lemma remove_context_path_wf: "wf_session s \<Longrightarrow> wf_session (snd (remove_context_path path s))"
  by (auto simp: remove_context_path_def on_heap_def split_def intro!: wf_session_heap remove_path_ext
      dest: wf_session_ctx split: option.splits)

lemma set_context_var_wf: "wf_session s \<Longrightarrow> wf_session (snd (set_context_var key v sc s))"
  by (auto simp: set_context_var_def Let_def write_context_path_wf split: option.splits)

lemma set_context_last_wf: "wf_session s \<Longrightarrow> wf_session (set_context_last i v s)"
  by (auto simp: set_context_last_def split_def new_last_def
      intro!: wf_sessionI grows_wf_ext grows_alloc dest: wf_session_ctx split: option.splits)

lemma reset_local_context_wf:
  assumes "wf_session s"
  shows "wf_session (reset_local_context s)"
proof (cases "s_ctx s")
  case (Some c)
  note h = wf_session_ctx(1) [OF assms Some]
  let ?h1 = "snd (alloc (HDict []) (s_heap s))"
  let ?h2 = "dict_put (local_scope c) ''constants'' (fst (alloc (HDict []) (s_heap s))) ?h1"
  have "wf_ext (s_heap s) ?h1" using h by (intro grows_wf_ext grows_alloc)
  moreover have "wf_ext ?h1 ?h2" using wf_ext_wf [OF calculation] by (rule wf_ext_dict_put)
  moreover have "wf_ext ?h2 (snd (new_last i d ?h2))" for i d
    unfolding new_last_def using wf_ext_wf [OF calculation(2)] by (intro grows_wf_ext grows_alloc)
  ultimately have "wf_ext (s_heap s) (snd (new_last i d ?h2))" for i d
    by (meson wf_ext_trans)
  then show ?thesis
    using wf_sessionI [OF assms _ Some] by (simp add: reset_local_context_def Some split_def Let_def)
qed (use assms in \<open>simp add: reset_local_context_def\<close>)

lemma append_item_ext: "wf_heap h \<Longrightarrow> wf_ext h (append_item items v h)"
  by (auto simp: append_item_def wf_ext_refl list_at_def intro: wf_ext_put
      split: hval.splits option.splits hobj.splits)

lemma leave_ext:
  "wf_heap h \<Longrightarrow> wf_ext h (dict_put r k (fst (dict_or_new v h)) (snd (dict_or_new v h)))"
  by (meson dict_or_new_grows grows_wf grows_wf_ext wf_ext_dict_put wf_ext_trans)

lemma append_assert_artifact_wf:
  assumes "wf_session s"
  shows "wf_session (append_assert_artifact v s)"
proof (cases "s_ctx s")
  case (Some c)
  note h = wf_session_ctx(1) [OF assms Some]
  have "wf_ext (s_heap s) (append_item i v (snd (child_or_new o2 r2 k2
      (snd (child_or_new o1 r1 k1 (s_heap s))))))" for i o1 r1 k1 o2 r2 k2
    using h by (meson append_item_ext child_or_new_ext wf_ext_trans wf_ext_wf)
  then show ?thesis
    using wf_session_heap [OF assms] by (simp add: append_assert_artifact_def Some split_def)
qed (use assms in \<open>simp add: append_assert_artifact_def\<close>)

lemma bind_suite_item_wf:
  assumes "wf_session s" and "\<And>t. wf_session t \<Longrightarrow> wf_session (snd (body t))"
  shows "wf_session (snd (bind_suite_item_context k ph lv body s))"
proof (cases "s_ctx s")
  case (Some c)
  note h = wf_session_ctx(1) [OF assms(1) Some]
  obtain c1 h1 where e: "enter_suite_item k ph lv c (s_heap s) = (c1, h1)" by fastforce
  have 1: "wf_session (s\<lparr>s_ctx := Some c1, s_heap := h1\<rparr>)"
    using e by (intro wf_sessionI [OF assms(1) _ Some])
      (auto simp: enter_suite_item_def wf_ext_refl h wf_ext_dict_put split: option.splits)
  obtain r t where b: "body (s\<lparr>s_ctx := Some c1, s_heap := h1\<rparr>) = (r, t)" by fastforce
  have t: "wf_session t" using assms(2) [OF 1] b by simp
  show ?thesis
  proof (cases "s_ctx t")
    case (Some c2)
    obtain c3 h3 where l: "leave_suite_item c (hget (s_heap s) (local_scope c) ''constants'') c2 (s_heap t) = (c3, h3)"
      by fastforce
    have "wf_ext (s_heap t) h3"
      using l leave_ext [OF wf_session_ctx(1) [OF t Some]]
      by (auto simp: leave_suite_item_def split_def)
    then have "wf_session (t\<lparr>s_ctx := Some c3, s_heap := h3\<rparr>)"
      using l by (intro wf_sessionI [OF t _ Some]) (auto simp: leave_suite_item_def split_def)
    then show ?thesis
      using \<open>s_ctx s = Some c\<close> e b l Some by (simp add: bind_suite_item_context_def)
  qed (use t e b \<open>s_ctx s = Some c\<close> in \<open>simp add: bind_suite_item_context_def\<close>)
qed (use assms in \<open>simp add: bind_suite_item_context_def\<close>)

subsection \<open>Constants of a scope as a key-value store\<close>

text \<open>
  The contract the constant commands rely on: what a lookup returns after a write or a delete
  of the same and of another name. The client's lemma is the outcome of any sequence of writes
  (\<open>Some v\<close>) and deletes (\<open>None\<close>).
\<close>

locale constant_store =
  fixes inv :: "'s \<Rightarrow> bool"
    and ok :: "'k \<Rightarrow> bool"
    and put :: "'k \<Rightarrow> 'v \<Rightarrow> 's \<Rightarrow> 's"
    and del :: "'k \<Rightarrow> 's \<Rightarrow> 's"
    and get :: "'k \<Rightarrow> 's \<Rightarrow> 'v option"
  assumes inv_put: "inv s \<Longrightarrow> ok k \<Longrightarrow> inv (put k v s)"
    and inv_del: "inv s \<Longrightarrow> ok k \<Longrightarrow> inv (del k s)"
    and get_put: "inv s \<Longrightarrow> ok k \<Longrightarrow> ok j \<Longrightarrow> get j (put k v s) = (if j = k then Some v else get j s)"
    and get_del: "inv s \<Longrightarrow> ok k \<Longrightarrow> ok j \<Longrightarrow> get j (del k s) = (if j = k then None else get j s)"
begin

lemma inv_history:
  "inv s \<Longrightarrow> list_all (\<lambda>(k, vo). ok k) ops \<Longrightarrow>
   inv (fold (\<lambda>(k, vo). case vo of Some v \<Rightarrow> put k v | None \<Rightarrow> del k) ops s)"
  by (induction ops arbitrary: s) (auto simp: inv_put inv_del split: option.splits)

lemma get_history:
  "inv s \<Longrightarrow> list_all (\<lambda>(k, vo). ok k) ops \<Longrightarrow> ok j \<Longrightarrow>
   get j (fold (\<lambda>(k, vo). case vo of Some v \<Rightarrow> put k v | None \<Rightarrow> del k) ops s) =
     (case map_of (rev ops) j of None \<Rightarrow> get j s | Some vo \<Rightarrow> vo)"
proof (induction ops rule: rev_induct)
  case (snoc op ops)
  obtain k vo where op: "op = (k, vo)" by fastforce
  have inv: "inv (fold (\<lambda>(k, vo). case vo of Some v \<Rightarrow> put k v | None \<Rightarrow> del k) ops s)"
    using snoc.prems by (intro inv_history) auto
  show ?case
    using snoc inv by (auto simp: op get_put get_del split: option.splits)
qed simp

end

definition scope_names :: "string list" where
  "scope_names = [''runEnvelope'', ''global'', ''local'', ''result'']"

definition scope_of :: "run_context \<Rightarrow> string \<Rightarrow> hval" where
  "scope_of c sc =
     (if sc = ''runEnvelope'' then run_envelope c else if sc = ''global'' then global_scope c
      else if sc = ''local'' then local_scope c else result_scope c)"

definition constant_path :: "string \<Rightarrow> string \<Rightarrow> string" where
  "constant_path sc n = ''$.'' @ sc @ ''.constants.'' @ n"

definition constants_ready :: "heap \<Rightarrow> hval \<Rightarrow> bool" where
  "constants_ready h r \<longleftrightarrow>
     dict_at h r \<noteq> None \<and> dict_at h (hget h r ''constants'') \<noteq> None \<and> hget h r ''constants'' \<noteq> r"

definition store_inv :: "run_context \<Rightarrow> string \<Rightarrow> heap \<Rightarrow> bool" where
  "store_inv c sc h \<longleftrightarrow>
     wf_heap h \<and> sc \<in> set scope_names \<and> check_mutable sc (current_item_kind c) = Inr () \<and>
     constants_ready h (scope_of c sc)"

definition read_path :: "run_context \<Rightarrow> string \<Rightarrow> heap \<Rightarrow> hval option result" where
  "read_path c path h =
     (case build_run_context_scope (Some c) h of (r, h1) \<Rightarrow> resolve_ref h1 r path)"

definition put_constant :: "run_context \<Rightarrow> string \<Rightarrow> string \<Rightarrow> hval \<Rightarrow> heap \<Rightarrow> heap" where
  "put_constant c sc n v h = snd (write_path c (constant_path sc n) v h)"

definition del_constant :: "run_context \<Rightarrow> string \<Rightarrow> string \<Rightarrow> heap \<Rightarrow> heap" where
  "del_constant c sc n h = snd (remove_path c (constant_path sc n) h)"

definition get_constant :: "run_context \<Rightarrow> string \<Rightarrow> string \<Rightarrow> heap \<Rightarrow> hval option" where
  "get_constant c sc n h = (case read_path c (constant_path sc n) h of Inr x \<Rightarrow> x | Inl e \<Rightarrow> None)"

lemma constants_readyE:
  assumes "constants_ready h r"
  obtains a b d e where "r = HRef a" and "hp_store h a = Some (HDict d)"
    and "map_of d ''constants'' = Some (HRef b)" and "hget h r ''constants'' = HRef b"
    and "hp_store h b = Some (HDict e)" and "a \<noteq> b"
proof -
  obtain d e where d: "dict_at h r = Some d" "dict_at h (hget h r ''constants'') = Some e"
    using assms by (auto simp: constants_ready_def)
  obtain a where a: "r = HRef a" "hp_store h a = Some (HDict d)" using d(1) by (rule dict_atE)
  obtain b where b: "hget h r ''constants'' = HRef b" "hp_store h b = Some (HDict e)"
    using d(2) by (rule dict_atE)
  have "map_of d ''constants'' = Some (HRef b)"
    using b(1) a by (auto simp: hget_def split: option.splits)
  then show ?thesis using that a b assms unfolding constants_ready_def by auto
qed

lemma constant_path_join: "constant_path sc n = ''$.'' @ join ''.'' [sc, ''constants'', n]"
  by (simp add: constant_path_def)

lemma scope_names_plain: "sc \<in> set scope_names \<Longrightarrow> plain_name sc"
  by (auto simp: scope_names_def)

lemma scope_names_root: "sc \<in> set scope_names \<Longrightarrow> root_of_token sc = Some sc"
  by (auto simp: scope_names_def root_of_token_def plain_consts [unfolded plain_name_def])

lemma constant_tokens:
  assumes "sc \<in> set scope_names" and "plain_name n"
  shows "path_tokens (constant_path sc n) = Inr [sc, ''constants'', n]"
  unfolding constant_path_join
  by (rule path_tokens_plain) (use assms in \<open>auto simp: scope_names_plain\<close>)

lemma target_from_scope:
  "sc \<in> set scope_names \<Longrightarrow> target_from_root c sc h = (Inr (scope_of c sc), h)"
  by (auto simp: scope_names_def target_from_root_def scope_of_def)

lemma write_constant_path:
  assumes "store_inv c sc h" and "plain_name n"
  shows "write_path c (constant_path sc n) v h =
    assign_loop (scope_of c sc) [''constants'', n] v h"
  using assms
  by (simp add: write_path_def extract_context_root_def constant_tokens scope_names_root
      store_inv_def ebind_elift ebind_Inr [OF target_from_scope] target_tokens_def scope_entries_def
      assign_nested_value_def)

lemma remove_constant_path:
  assumes "store_inv c sc h" and "plain_name n"
  shows "remove_path c (constant_path sc n) h =
    (Inr (), remove_nested_value (scope_of c sc) [''constants'', n] h)"
  using assms
  by (simp add: remove_path_def extract_context_root_def constant_tokens scope_names_root
      store_inv_def ebind_elift ebind_Inr [OF target_from_scope] target_tokens_def scope_entries_def)

lemma assign_constant:
  assumes "constants_ready h r" and "plain_name n"
    and "hget h r ''constants'' = HRef b" and "hp_store h b = Some (HDict e)"
  shows "assign_loop r [''constants'', n] v h = (Inr (), put_obj b (HDict (dset n v e)) h)"
proof -
  have "to_index ''constants'' = None" by (rule to_index_plain) simp
  with assms show ?thesis
    by (elim constants_readyE) (auto simp: to_index_plain)
qed

lemma remove_constant:
  assumes "constants_ready h r" and "plain_name n"
    and "hget h r ''constants'' = HRef b" and "hp_store h b = Some (HDict e)"
  shows "remove_nested_value r [''constants'', n] h =
    (if n \<in> dom (map_of e) then put_obj b (HDict (ddel n e)) h else h)"
proof -
  have "to_index ''constants'' = None" by (rule to_index_plain) simp
  with assms show ?thesis
    by (elim constants_readyE) (auto simp: to_index_plain split: option.splits)
qed

lemma walk_plain: "plain_name n \<Longrightarrow> walk_segments h v (n # ns) =
   (case dict_at h v of None \<Rightarrow> Inr None
    | Some d \<Rightarrow> (case map_of d n of None \<Rightarrow> Inr None | Some w \<Rightarrow> walk_segments h w ns))"
  by (auto simp: ref_tokens_plain split: option.splits)

lemma resolve_plain:
  assumes "list_all plain_name ns" and "ns \<noteq> []"
  shows "resolve_ref h sv (''$.'' @ join ''.'' ns) = walk_segments h sv ns"
proof -
  have "join ''.'' ns \<noteq> []" using plain_last_not_ws [OF assms] by blast
  then show ?thesis
    unfolding resolve_ref_def Let_def strip_path [OF assms]
    by (simp add: startswith_def split_path_join [OF assms])
qed

text \<open>The value a scope built from the context holds under a scope name.\<close>

lemma build_scope_grows: "wf_heap h \<Longrightarrow> grows h (snd (build_run_context_scope (Some c) h))"
  unfolding build_run_context_scope_def option.case Let_def split_def
  by (meson dict_or_new_grows grows_alloc grows_trans grows_wf)

lemma build_scope_entries:
  assumes "sc \<in> set scope_names"
  shows "\<exists>d. dict_at (snd (build_run_context_scope (Some c) h))
      (fst (build_run_context_scope (Some c) h)) = Some d \<and> map_of d sc = Some (scope_of c sc)"
  using assms
  by (auto simp: build_run_context_scope_def Let_def split_def scope_names_def scope_of_def)

lemma read_constant_path:
  assumes "wf_heap h" and "sc \<in> set scope_names" and "constants_ready h (scope_of c sc)"
    and "plain_name n"
  shows "read_path c (constant_path sc n) h = Inr (map_of (scope_constants h (scope_of c sc)) n)"
proof -
  obtain r h1 where b: "build_run_context_scope (Some c) h = (r, h1)" by fastforce
  have g: "grows h h1" using build_scope_grows [OF assms(1), of c] b by simp
  have keep: "hp_store h1 x = Some ob" if "hp_store h x = Some ob" for x ob
    using that g wf_heap_below [OF assms(1) that] by (simp add: grows_def only_changes_def)
  obtain d0 where d0: "dict_at h1 r = Some d0" "map_of d0 sc = Some (scope_of c sc)"
    using build_scope_entries [OF assms(2), of c h] b by auto
  obtain a x d e where c: "scope_of c sc = HRef a" "hp_store h a = Some (HDict d)"
    "map_of d ''constants'' = Some (HRef x)" "hget h (scope_of c sc) ''constants'' = HRef x"
    "hp_store h x = Some (HDict e)" using assms(3) by (rule constants_readyE)
  have "scope_constants h (scope_of c sc) = e"
    unfolding scope_constants_def c(4) entries_def using c(5) by simp
  moreover have "walk_segments h1 r [sc, ''constants'', n] = Inr (map_of e n)"
    using d0 c keep [OF c(2)] keep [OF c(5)] assms scope_names_plain
    by (auto simp: walk_plain split: option.splits simp del: walk_segments.simps(2))
  ultimately show ?thesis
    unfolding read_path_def b prod.case constant_path_join
    by (subst resolve_plain) (use assms in \<open>auto simp: scope_names_plain\<close>)
qed

lemma store_inv_parts:
  assumes "store_inv c sc h"
  shows "wf_heap h" and "sc \<in> set scope_names" and "constants_ready h (scope_of c sc)"
  using assms by (simp_all add: store_inv_def)

lemma get_constant_eq:
  assumes "store_inv c sc h" and "plain_name n"
  shows "get_constant c sc n h = map_of (scope_constants h (scope_of c sc)) n"
  using read_constant_path [OF store_inv_parts [OF assms(1)] assms(2)]
  by (simp add: get_constant_def)

lemma constants_put:
  assumes "store_inv c sc h" and "hget h (scope_of c sc) ''constants'' = HRef b"
    and "hp_store h b = Some (HDict e)"
  shows "store_inv c sc (put_obj b (HDict e') h)"
    and "scope_constants (put_obj b (HDict e') h) (scope_of c sc) = e'"
proof -
  obtain a x d e0 where c: "scope_of c sc = HRef a" "hp_store h a = Some (HDict d)"
    "map_of d ''constants'' = Some (HRef x)" "hget h (scope_of c sc) ''constants'' = HRef x" "a \<noteq> x"
    using store_inv_parts(3) [OF assms(1)] by (rule constants_readyE)
  have b: "b = x" using c(4) assms(2) by simp
  let ?h = "put_obj b (HDict e') h"
  have g: "hget ?h (scope_of c sc) ''constants'' = HRef b"
    using c b by (simp add: hget_def)
  show "store_inv c sc ?h"
    using assms c b g wf_put_obj by (auto simp: store_inv_def constants_ready_def)
  show "scope_constants ?h (scope_of c sc) = e'"
    unfolding scope_constants_def g entries_def by simp
qed

lemma constant_ref:
  assumes "store_inv c sc h"
  obtains b where "hget h (scope_of c sc) ''constants'' = HRef b"
    and "hp_store h b = Some (HDict (scope_constants h (scope_of c sc)))"
proof -
  from store_inv_parts(3) [OF assms] obtain b e
    where "hget h (scope_of c sc) ''constants'' = HRef b" "hp_store h b = Some (HDict e)"
    by (rule constants_readyE)
  then show ?thesis by (intro that) (simp_all add: scope_constants_def entries_def)
qed

lemma put_constant_eq:
  assumes "store_inv c sc h" and "plain_name n"
    and "hget h (scope_of c sc) ''constants'' = HRef b"
    and "hp_store h b = Some (HDict (scope_constants h (scope_of c sc)))"
  shows "write_path c (constant_path sc n) v h =
    (Inr (), put_obj b (HDict (dset n v (scope_constants h (scope_of c sc)))) h)"
  using write_constant_path [OF assms(1,2)] assign_constant [OF store_inv_parts(3) [OF assms(1)] assms(2-4)]
  by simp

lemma put_constant_laws:
  assumes "store_inv c sc h" and "plain_name n"
  shows "store_inv c sc (put_constant c sc n v h)"
    and "plain_name m \<Longrightarrow> get_constant c sc m (put_constant c sc n v h) =
      (if m = n then Some v else get_constant c sc m h)"
proof -
  obtain b where b: "hget h (scope_of c sc) ''constants'' = HRef b"
    "hp_store h b = Some (HDict (scope_constants h (scope_of c sc)))"
    using assms(1) by (rule constant_ref)
  note p = put_constant_eq [OF assms b]
  show 1: "store_inv c sc (put_constant c sc n v h)"
    using constants_put(1) [OF assms(1) b] by (simp add: put_constant_def p)
  show "plain_name m \<Longrightarrow> get_constant c sc m (put_constant c sc n v h) =
      (if m = n then Some v else get_constant c sc m h)"
    using get_constant_eq [OF 1] get_constant_eq [OF assms(1)] constants_put(2) [OF assms(1) b]
    by (simp add: put_constant_def p update_conv')
qed

lemma del_constant_laws:
  assumes "store_inv c sc h" and "plain_name n"
  shows "store_inv c sc (del_constant c sc n h)"
    and "plain_name m \<Longrightarrow> get_constant c sc m (del_constant c sc n h) =
      (if m = n then None else get_constant c sc m h)"
proof -
  obtain b where b: "hget h (scope_of c sc) ''constants'' = HRef b"
    "hp_store h b = Some (HDict (scope_constants h (scope_of c sc)))"
    using assms(1) by (rule constant_ref)
  note p = remove_constant_path [OF assms]
    remove_constant [OF store_inv_parts(3) [OF assms(1)] assms(2) b]
  show 1: "store_inv c sc (del_constant c sc n h)"
    using constants_put(1) [OF assms(1) b] assms(1) by (simp add: del_constant_def p del: remove_nested_value.simps)
  show "plain_name m \<Longrightarrow> get_constant c sc m (del_constant c sc n h) =
      (if m = n then None else get_constant c sc m h)"
    using get_constant_eq [OF 1] get_constant_eq [OF assms(1)] constants_put(2) [OF assms(1) b]
    by (auto simp: del_constant_def p delete_conv' domIff simp del: remove_nested_value.simps split: if_splits)
qed

interpretation constants_of: constant_store "store_inv c sc" plain_name
    "put_constant c sc" "del_constant c sc" "get_constant c sc" for c sc
  by unfold_locales (simp_all add: put_constant_laws del_constant_laws)

subsection \<open>Properties of the run context\<close>



text \<open>
  C12. While a test item is running, a write or a delete whose path starts at the global scope,
  at its alias \<open>vars\<close> or at the run envelope raises, and leaves the whole session as it was.
\<close>

theorem test_scopes_immutable:
  assumes "s_ctx s = Some c" and "current_item_kind c = ''test''"
    and "extract_context_root path = Inr (Some rt)" and "rt \<in> {''global'', ''runEnvelope''}"
  shows "(\<exists>e. write_context_path path v s = (Inl e, s)) \<and>
    (\<exists>e. remove_context_path path s = (Inl e, s))"
  using assms
  by (auto simp: write_context_path_def remove_context_path_def on_heap_def write_path_def
      remove_path_def ebind_elift check_mutable_def rbind_def guard_def)


end
