(* ===== verification/Context_Props.thy ===== *)
theory Context_Props
  imports Context_Facts
begin

section \<open>Creation, nesting and references of a run context\<close>

text \<open>
  What commands may rely on of a run context: fresh contexts are ready, writes are read back,
  the scopes a test must not change stay as they are (but for the alias \<open>local.global\<close>), and the
  two path parsers agree on plain paths.
\<close>

subsection \<open>A fresh context\<close>

lemma dict_or_new_dict: "wf_heap h \<Longrightarrow> dict_or_new v h = (w, h1) \<Longrightarrow> dict_at h1 w \<noteq> None \<and> wf_heap h1"
  using dict_or_new_grows [of h v]
  by (auto simp: dict_or_new_def alloc_def grows_def split: if_splits)

lemma alloc_step:
  "alloc ob h = (r, h') \<Longrightarrow> r = HRef (hp_next h) \<and> hp_next h' = Suc (hp_next h) \<and>
     hp_store h' = (hp_store h)(hp_next h \<mapsto> ob)"
  by (auto simp: alloc_def)

text \<open>What \<open>create_run_context\<close> builds, from the envelope's address on.\<close>

definition fresh_layout :: "run_context \<Rightarrow> addr \<Rightarrow> heap \<Rightarrow> bool" where
  "fresh_layout c k h \<longleftrightarrow>
     run_envelope c = HRef k \<and> global_scope c = HRef (k + 2) \<and> local_scope c = HRef (k + 4) \<and>
     result_scope c = HRef (k + 8) \<and> current_item_kind c = ''hook'' \<and> wf_heap h \<and>
     (\<exists>r ev vs d. hp_store h k =
         Some (HDict [(''run_id'', HStr r), (''event'', ev), (''constants'', HRef vs)]) \<and>
       hp_store h vs = Some (HDict d) \<and> vs < k) \<and>
     hp_store h (k + 1) = Some (HDict []) \<and>
     hp_store h (k + 2) = Some (HDict [(''runEnvelope'', HRef k), (''constants'', HRef (k + 1))]) \<and>
     hp_store h (k + 3) = Some (HDict []) \<and>
     hp_store h (k + 4) = Some (HDict [(''global'', HRef (k + 2)), (''constants'', HRef (k + 3))]) \<and>
     hp_store h (k + 5) = Some (HDict []) \<and>
     hp_store h (k + 6) = Some (HDict []) \<and>
     hp_store h (k + 7) = Some (HDict []) \<and>
     hp_store h (k + 8) = Some (HDict [(''artifacts'', HRef (k + 5)), (''commands'', HRef (k + 6)),
         (''constants'', HRef (k + 7))])"

lemma create_layout:
  assumes "wf_heap h" and "create_run_context i ev vs iv h = (c, h')"
  shows "\<exists>k. fresh_layout c k h' \<and>
    (dict_at h vs \<noteq> None \<longrightarrow> hget h' (run_envelope c) ''constants'' = vs)"
proof -
  obtain w1 h1 where 1: "dict_or_new ev h = (w1, h1)" by fastforce
  then have wf1: "wf_heap h1" using dict_or_new_dict assms(1) by blast
  obtain w2 h2 where 2: "dict_or_new vs h1 = (w2, h2)" by fastforce
  then have wf2: "wf_heap h2" "dict_at h2 w2 \<noteq> None" using dict_or_new_dict wf1 by blast+
  then obtain a d where a: "w2 = HRef a" "hp_store h2 a = Some (HDict d)" by (auto elim!: dict_atE)
  have lt: "a < hp_next h2" using wf_heap_below [OF wf2(1) a(2)] .
  have wf: "hp_store h2 b = None" if "hp_next h2 \<le> b" for b using wf2(1) that by (simp add: wf_heap_def)
  obtain r1 g1 r2 g2 r3 g3 r4 g4 r5 g5 where
    al: "alloc (HDict [(''run_id'', HStr (strip i)), (''event'', w1), (''constants'', w2)]) h2 = (r1, g1)"
    "alloc (HDict []) g1 = (r2, g2)"
    "alloc (HDict [(''runEnvelope'', r1), (''constants'', r2)]) g2 = (r3, g3)"
    "alloc (HDict []) g3 = (r4, g4)"
    "alloc (HDict [(''global'', r3), (''constants'', r4)]) g4 = (r5, g5)" by fastforce
  obtain r6 g6 r7 g7 r8 g8 r9 g9 r10 g10 where
    al2: "alloc (HDict []) g5 = (r6, g6)" "alloc (HDict []) g6 = (r7, g7)"
    "alloc (HDict []) g7 = (r8, g8)"
    "alloc (HDict [(''artifacts'', r6), (''commands'', r7), (''constants'', r8)]) g8 = (r9, g9)"
    "new_last [] HNone g9 = (r10, g10)" by fastforce
  have c: "c = \<lparr>rx_run_id = strip i, run_envelope = r1, global_scope = r3, local_scope = r5,
      result_scope = r9, invocation_id = nonempty (opt_token iv), current_item_kind = ''hook'',
      current_hook_phase = None, rx_last = r10\<rparr>" "h' = g10"
    using assms(2) by (simp_all add: create_run_context_def build_run_context_payload_def 1 2 al al2)
  note steps = al [THEN alloc_step] al2(1-4) [THEN alloc_step] al2(5) [unfolded new_last_def, THEN alloc_step]
  have st: "r1 = HRef (hp_next h2)" "r2 = HRef (hp_next h2 + 1)" "r3 = HRef (hp_next h2 + 2)"
    "r4 = HRef (hp_next h2 + 3)" "r5 = HRef (hp_next h2 + 4)" "r6 = HRef (hp_next h2 + 5)"
    "r7 = HRef (hp_next h2 + 6)" "r8 = HRef (hp_next h2 + 7)" "r9 = HRef (hp_next h2 + 8)"
    "r10 = HRef (hp_next h2 + 9)" "hp_next g10 = hp_next h2 + 10"
    using steps by simp_all
  have store: "hp_store g10 = (hp_store h2)(
      hp_next h2 \<mapsto> HDict [(''run_id'', HStr (strip i)), (''event'', w1), (''constants'', w2)],
      hp_next h2 + 1 \<mapsto> HDict [],
      hp_next h2 + 2 \<mapsto> HDict [(''runEnvelope'', r1), (''constants'', r2)],
      hp_next h2 + 3 \<mapsto> HDict [],
      hp_next h2 + 4 \<mapsto> HDict [(''global'', r3), (''constants'', r4)],
      hp_next h2 + 5 \<mapsto> HDict [], hp_next h2 + 6 \<mapsto> HDict [], hp_next h2 + 7 \<mapsto> HDict [],
      hp_next h2 + 8 \<mapsto> HDict [(''artifacts'', r6), (''commands'', r7), (''constants'', r8)],
      hp_next h2 + 9 \<mapsto> HDict [(''item_id'', HStr []), (''data'', HNone)])"
    using steps by (simp add: numeral_eq_Suc)
  have "fresh_layout c (hp_next h2) h'"
    using lt a wf unfolding fresh_layout_def wf_heap_def c store st by auto
  moreover have "hget h' (run_envelope c) ''constants'' = vs" if v: "dict_at h vs \<noteq> None"
  proof -
    have "hext h h1" using dict_or_new_grows [OF assms(1), of ev] 1 by (simp add: grows_def)
    then have "dict_at h1 vs \<noteq> None" using v by (rule hext_dict_ne)
    then have "w2 = vs" using 2 by (auto simp: dict_or_new_def)
    then show ?thesis unfolding c hget_def using store st(1) by simp
  qed
  ultimately show ?thesis by blast
qed

lemma constants_readyI:
  "hp_store h a = Some (HDict d) \<Longrightarrow> map_of d ''constants'' = Some (HRef b) \<Longrightarrow>
   hp_store h b = Some (HDict e) \<Longrightarrow> a \<noteq> b \<Longrightarrow> constants_ready h (HRef a)"
  by (simp add: constants_ready_def hget_def)

lemma scope_of_simps [simp]:
  "scope_of c ''runEnvelope'' = run_envelope c" "scope_of c ''global'' = global_scope c"
  "scope_of c ''local'' = local_scope c" "scope_of c ''result'' = result_scope c"
  by (simp_all add: scope_of_def)

lemma scope_namesE:
  assumes "sc \<in> set scope_names"
  obtains "sc = ''runEnvelope''" | "sc = ''global''" | "sc = ''local''" | "sc = ''result''"
  using assms by (auto simp: scope_names_def)

lemma layout_facts:
  assumes "fresh_layout c k h"
  shows "wf_heap h" and "scopes_ok c h" and "sc \<in> set scope_names \<Longrightarrow> constants_ready h (scope_of c sc)"
proof -
  show "wf_heap h" "scopes_ok c h"
    using assms unfolding fresh_layout_def scopes_ok_def by auto
  have "constants_ready h (run_envelope c)" "constants_ready h (global_scope c)"
    "constants_ready h (local_scope c)" "constants_ready h (result_scope c)"
    using assms unfolding fresh_layout_def by (auto intro: constants_readyI)
  then show "sc \<in> set scope_names \<Longrightarrow> constants_ready h (scope_of c sc)"
    by (elim scope_namesE) simp_all
qed

lemma create_store_inv:
  assumes "wf_heap h" and "create_run_context i ev vs iv h = (c, h')" and "sc \<in> set scope_names"
  shows "store_inv (c\<lparr>current_item_kind := kd\<rparr>) sc h' \<longleftrightarrow> check_mutable sc kd = Inr ()"
proof -
  obtain k where "fresh_layout c k h'" using create_layout [OF assms(1,2)] by blast
  then have "wf_heap h'" "constants_ready h' (scope_of c sc)"
    using layout_facts assms(3) by blast+
  moreover have "scope_of (c\<lparr>current_item_kind := kd\<rparr>) sc = scope_of c sc" by (simp add: scope_of_def)
  ultimately show ?thesis using assms(3) by (simp add: store_inv_def)
qed

subsection \<open>Properties\<close>

text \<open>
  A context made by \<open>create_run_context\<close> satisfies the session invariant, each of its
  four scopes is a constant store (outside a test), the envelope is the \<open>runEnvelope\<close> entry of
  the global scope and the global scope the \<open>global\<close> entry of the local one, the three inner
  scopes start without constants, and the dictionary of initial variables is the envelope's
  constants dictionary itself, not a copy.
\<close>

theorem create_context_ready:
  assumes "wf_heap h" and "create_run_context i ev vs iv h = (c, h')"
  shows "wf_session \<lparr>s_heap = h', s_ctx = Some c\<rparr> \<and>
    list_all (\<lambda>sc. store_inv c sc h') scope_names \<and>
    hget h' (local_scope c) ''global'' = global_scope c \<and>
    hget h' (global_scope c) ''runEnvelope'' = run_envelope c \<and>
    scope_constants h' (local_scope c) = [] \<and> scope_constants h' (global_scope c) = [] \<and>
    scope_constants h' (result_scope c) = [] \<and>
    (dict_at h vs = None \<or> hget h' (run_envelope c) ''constants'' = vs)"
proof -
  obtain k where k: "fresh_layout c k h'"
      "dict_at h vs \<noteq> None \<longrightarrow> hget h' (run_envelope c) ''constants'' = vs"
    using create_layout [OF assms] by blast
  have kind: "current_item_kind c = ''hook''" using k(1) by (simp add: fresh_layout_def)
  have "store_inv c sc h'" if "sc \<in> set scope_names" for sc
    using layout_facts [OF k(1)] that kind by (simp add: check_mutable_def store_inv_def)
  then show ?thesis
    using k layout_facts(1,2) [OF k(1)]
    by (auto simp: fresh_layout_def wf_session_def list_all_iff hget_def scope_constants_def entries_def)
qed

text \<open>
  A suite-item block gives back what it changed: whatever its body did to the context (as
  long as the body keeps the invariant and does not replace the local scope), the item kind, the
  hook phase and the constants dictionary of the local scope are afterwards the ones from before
  the block, also when the body raised.
\<close>

theorem suite_item_restores:
  assumes "wf_session s" and "s_ctx s = Some c"
    and "dict_at (s_heap s) (hget (s_heap s) (local_scope c) ''constants'') \<noteq> None"
    and body: "\<And>t. wf_session t \<Longrightarrow> wf_session (snd (body t)) \<and>
      hext (s_heap t) (s_heap (snd (body t))) \<and>
      map_option local_scope (s_ctx (snd (body t))) = map_option local_scope (s_ctx t)"
    and "bind_suite_item_context kd ph lv body s = (r, t)"
  shows "\<exists>c'. s_ctx t = Some c' \<and> current_item_kind c' = current_item_kind c \<and>
    current_hook_phase c' = current_hook_phase c \<and>
    hget (s_heap t) (local_scope c') ''constants'' = hget (s_heap s) (local_scope c) ''constants''"
proof -
  note h = wf_session_ctx [OF assms(1,2)]
  obtain c1 h1 where e: "enter_suite_item kd ph lv c (s_heap s) = (c1, h1)" by fastforce
  have c1: "local_scope c1 = local_scope c" and ext1: "wf_ext (s_heap s) h1"
    using e h by (auto simp: enter_suite_item_def wf_ext_refl wf_ext_dict_put split: option.splits)
  let ?s1 = "s\<lparr>s_ctx := Some c1, s_heap := h1\<rparr>"
  have s1: "wf_session ?s1"
    using e by (intro wf_sessionI [OF assms(1) ext1 assms(2)]) (auto simp: enter_suite_item_def)
  obtain r1 t1 where b: "body ?s1 = (r1, t1)" by fastforce
  with body [OF s1] c1 obtain c2 where t1: "wf_session t1" "hext h1 (s_heap t1)"
    "s_ctx t1 = Some c2" "local_scope c2 = local_scope c" by auto
  let ?vs = "hget (s_heap s) (local_scope c) ''constants''"
  have "hext (s_heap s) (s_heap t1)" using ext1 t1(2) hext_trans by (auto simp: wf_ext_def)
  then have "dict_at (s_heap t1) ?vs \<noteq> None" using assms(3) by (rule hext_dict_ne)
  then have vs: "dict_or_new ?vs (s_heap t1) = (?vs, s_heap t1)" by (auto simp: dict_or_new_def)
  have "dict_at (s_heap t1) (local_scope c) \<noteq> None"
    using wf_session_ctx(2) [OF t1(1,3)] t1(4) by (simp add: scopes_ok_def)
  then obtain a d where a: "local_scope c = HRef a" "hp_store (s_heap t1) a = Some (HDict d)"
    by (auto elim!: dict_atE)
  have "hget (dict_put (local_scope c) ''constants'' v (s_heap t1)) (local_scope c) ''constants'' = v" for v
    using a by (simp add: dict_put_dict hget_def update_conv')
  then show ?thesis
    using assms(5) e b t1 vs
    by (auto simp: bind_suite_item_context_def assms(2) leave_suite_item_def)
qed

text \<open>
  \<open>resolve_constant_value\<close> looks a name up in the local, then the global, then the envelope
  and last the result constants, whichever of them has it first.
\<close>

theorem constant_precedence:
  assumes "s_ctx s = Some c" and "strip n = n" and "n \<noteq> []"
  shows "resolve_constant_value n s =
    (let look = (\<lambda>r. map_of (scope_constants (s_heap s) r) n) in
     case look (local_scope c) of Some v \<Rightarrow> v
     | None \<Rightarrow> (case look (global_scope c) of Some v \<Rightarrow> v
       | None \<Rightarrow> (case look (run_envelope c) of Some v \<Rightarrow> v
         | None \<Rightarrow> (case look (result_scope c) of Some v \<Rightarrow> v | None \<Rightarrow> HNone))))"
  using assms by (simp add: resolve_constant_value_def Let_def split: option.splits)

text \<open>
  On dotted paths of plain names the writer's tokeniser and the resolver's tokeniser read the
  same names, so that a path written by one is found by the other.
\<close>

theorem path_parsers_agree:
  assumes "list_all plain_name ns" and "ns \<noteq> []"
  shows "path_tokens (''$.'' @ join ''.'' ns) = Inr ns \<and>
    map_result (\<lambda>sg. ref_tokens sg sg) (split_path (join ''.'' ns)) = Inr (map (\<lambda>n. [RKey n]) ns)"
proof -
  have "map_result (\<lambda>sg. ref_tokens sg sg) ns = Inr (map (\<lambda>n. [RKey n]) ns)"
    using assms(1) by (induction ns) (auto simp: ref_tokens_plain)
  then show ?thesis
    using path_tokens_plain [OF assms] split_path_join [OF assms] by simp
qed

text \<open>
  C18. The guard on the global scope has a hole: the local scope's \<open>global\<close> entry is the global
  scope object, so a test that writes \<open>$.local.global.constants.<name>\<close> changes the global
  constant, which the same write through \<open>$.global\<close> is refused.
\<close>

theorem alias_write_reaches_global:
  assumes "s_ctx s = Some c" and "current_item_kind c = ''test''" and "plain_name n"
    and "wf_heap (s_heap s)" and "hget (s_heap s) (local_scope c) ''global'' = global_scope c"
    and "dict_at (s_heap s) (local_scope c) \<noteq> None"
    and "constants_ready (s_heap s) (global_scope c)"
  shows "\<exists>h. write_context_path (''$.local.global.constants.'' @ n) v s = (Inr (), s\<lparr>s_heap := h\<rparr>) \<and>
    map_of (scope_constants h (global_scope c)) n = Some v \<and>
    (\<exists>e. write_context_path (''$.global.constants.'' @ n) v s = (Inl e, s))"
proof -
  let ?h = "s_heap s"
  obtain a x d e where g: "global_scope c = HRef a" "hp_store ?h a = Some (HDict d)"
    "map_of d ''constants'' = Some (HRef x)" "hget ?h (global_scope c) ''constants'' = HRef x"
    "hp_store ?h x = Some (HDict e)" "a \<noteq> x" using assms(7) by (rule constants_readyE)
  obtain l dl where l: "local_scope c = HRef l" "hp_store ?h l = Some (HDict dl)"
    using assms(6) by (auto elim!: dict_atE)
  let ?h' = "put_obj x (HDict (dset n v e)) ?h"
  have ts: "path_tokens (''$.local.global.constants.'' @ n) = Inr [''local'', ''global'', ''constants'', n]"
    using path_tokens_plain [of "[''local'', ''global'', ''constants'', n]"] assms(3) by simp
  have "to_index ''global'' = None" by (rule to_index_plain) simp
  then have "assign_loop (local_scope c) [''global'', ''constants'', n] v ?h =
      assign_loop (global_scope c) [''constants'', n] v ?h"
    using l g assms(5) by (simp add: hget_def)
  also have "\<dots> = (Inr (), ?h')" by (rule assign_constant [OF assms(7,3) g(4,5)])
  finally have w: "write_path c (''$.local.global.constants.'' @ n) v ?h = (Inr (), ?h')"
    using scope_names_root [of "''local''"] target_from_scope [of "''local''" c ?h]
    unfolding write_path_def extract_context_root_def ts
    by (simp add: ebind_elift check_mutable_def scope_names_def ebind_Inr target_tokens_def
        scope_entries_def assign_nested_value_def)
  have c': "scope_constants ?h' (global_scope c) = dset n v e"
    using g by (simp add: scope_constants_def entries_def hget_def)
  have ts2: "path_tokens (''$.global.constants.'' @ n) = Inr [''global'', ''constants'', n]"
    using path_tokens_plain [of "[''global'', ''constants'', n]"] assms(3) by simp
  have "\<exists>e. write_context_path (''$.global.constants.'' @ n) v s = (Inl e, s)"
    using scope_names_root [of "''global''"] assms(1,2)
    unfolding write_context_path_def write_path_def extract_context_root_def ts2
    by (simp add: on_heap_def ebind_elift check_mutable_def scope_names_def rbind_def guard_def)
  then show ?thesis
    using w c' assms(1) by (intro exI [of _ ?h']) (simp add: write_context_path_def on_heap_def update_conv')
qed

subsection \<open>Witnesses\<close>

definition example_created :: "run_context \<times> heap" where
  "example_created = create_run_context ''r1'' HNone HNone None empty_heap"

definition example_session :: "string \<Rightarrow> session" where
  "example_session kd =
     \<lparr>s_heap = snd example_created, s_ctx = Some ((fst example_created)\<lparr>current_item_kind := kd\<rparr>)\<rparr>"

lemma example_create:
  "create_run_context ''r1'' HNone HNone None empty_heap = (fst example_created, snd example_created)"
  by (simp add: example_created_def)

lemma example_store_inv:
  "store_inv ((fst example_created)\<lparr>current_item_kind := kd\<rparr>) sc (snd example_created) \<longleftrightarrow>
     sc \<in> set scope_names \<and> check_mutable sc kd = Inr ()"
  using create_store_inv [OF wf_empty_heap example_create, of sc kd] by (auto simp: store_inv_def)

lemma example_wf: "wf_session (example_session kd)"
proof -
  obtain k where "fresh_layout (fst example_created) k (snd example_created)"
    using create_layout [OF wf_empty_heap example_create] by blast
  from layout_facts(1,2) [OF this] show ?thesis
    by (simp add: wf_session_def example_session_def scopes_ok_def)
qed

lemma example_names [simp]: "plain_name ''token''" "plain_name ''user''"
  by code_simp+

lemma example_local: "store_inv ((fst example_created)\<lparr>current_item_kind := ''test''\<rparr>) ''local''
    (snd example_created)"
  by (simp add: example_store_inv scope_names_def check_mutable_def)



lemma test_scopes_immutable_witness:
  "\<exists>e. write_context_path ''$.vars.token'' (HInt 1) (example_session ''test'') =
     (Inl e, example_session ''test'')"
proof -
  have "extract_context_root ''$.vars.token'' = Inr (Some ''global'')" by code_simp
  then show ?thesis
    using test_scopes_immutable [of "example_session ''test''"
        "(fst example_created)\<lparr>current_item_kind := ''test''\<rparr>" "''$.vars.token''" "''global''"]
    by (auto simp: example_session_def)
qed


lemma create_context_ready_witness:
  "scope_constants (snd example_created) (local_scope (fst example_created)) = []"
  using create_context_ready [OF wf_empty_heap example_create] by blast

lemma suite_item_restores_witness:
  "\<exists>c'. s_ctx (snd (bind_suite_item_context ''test'' None None (ereturn ()) (example_session ''hook''))) =
     Some c' \<and> current_item_kind c' = ''hook''"
proof -
  let ?c = "(fst example_created)\<lparr>current_item_kind := ''hook''\<rparr>"
  have "store_inv ?c ''local'' (snd example_created)"
    by (simp add: example_store_inv scope_names_def check_mutable_def)
  then have "constants_ready (s_heap (example_session ''hook'')) (local_scope ?c)"
    by (simp add: store_inv_def example_session_def scope_of_def)
  then show ?thesis
    using suite_item_restores [OF example_wf, of "''hook''" ?c "ereturn ()" "''test''" None None
        "fst (bind_suite_item_context ''test'' None None (ereturn ()) (example_session ''hook''))"
        "snd (bind_suite_item_context ''test'' None None (ereturn ()) (example_session ''hook''))"]
    by (auto simp: constants_ready_def example_session_def)
qed

lemma create_context_ready_lists:
  "scope_constants (snd example_created) (local_scope (fst example_created)) = []"
  "scope_constants (snd example_created) (global_scope (fst example_created)) = []"
  "scope_constants (snd example_created) (result_scope (fst example_created)) = []"
proof -
  obtain k where "fresh_layout (fst example_created) k (snd example_created)"
    using create_layout [OF wf_empty_heap example_create] by blast
  then show "scope_constants (snd example_created) (local_scope (fst example_created)) = []"
    "scope_constants (snd example_created) (global_scope (fst example_created)) = []"
    "scope_constants (snd example_created) (result_scope (fst example_created)) = []"
    by (simp_all add: fresh_layout_def scope_constants_def entries_def hget_def)
qed

lemma constant_precedence_witness:
  "resolve_constant_value ''token'' (example_session ''hook'') =
     (case map_of (scope_constants (snd example_created) (run_envelope (fst example_created))) ''token''
      of Some v \<Rightarrow> v | None \<Rightarrow> HNone)"
proof -
  let ?c = "(fst example_created)\<lparr>current_item_kind := ''hook''\<rparr>"
  have c: "s_ctx (example_session ''hook'') = Some ?c" by (simp add: example_session_def)
  have n: "strip ''token'' = ''token''" using example_names(1) by (simp only: plain_name_def)
  have h: "s_heap (example_session ''hook'') = snd example_created" by (simp add: example_session_def)
  show ?thesis
    unfolding constant_precedence [OF c n list.distinct(2)] h
    by (simp add: create_context_ready_lists split: option.splits)
qed

lemma path_parsers_agree_witness:
  "path_tokens (''$.'' @ join ''.'' [''token'', ''user'']) = Inr [''token'', ''user'']"
  using path_parsers_agree [of "[''token'', ''user'']"] by simp

lemma ex_conj_first: "\<exists>x. P x \<and> Q x \<Longrightarrow> \<exists>x. P x"
  by blast

lemma alias_write_reaches_global_witness:
  "\<exists>h. write_context_path (''$.local.global.constants.'' @ ''token'') (HInt 1) (example_session ''test'') =
     (Inr (), (example_session ''test'')\<lparr>s_heap := h\<rparr>)"
proof -
  obtain k where k: "fresh_layout (fst example_created) k (snd example_created)"
    using create_layout [OF wf_empty_heap example_create] by blast
  then have "constants_ready (snd example_created) (global_scope (fst example_created))"
    "hget (snd example_created) (local_scope (fst example_created)) ''global'' =
      global_scope (fst example_created)"
    "dict_at (snd example_created) (local_scope (fst example_created)) \<noteq> None"
    using layout_facts(3) [OF k, of "''global''"]
    by (auto simp: scope_names_def fresh_layout_def hget_def)
  note facts = this
  let ?c = "(fst example_created)\<lparr>current_item_kind := ''test''\<rparr>"
  have "s_ctx (example_session ''test'') = Some ?c" "wf_heap (s_heap (example_session ''test''))"
    "hget (s_heap (example_session ''test'')) (local_scope ?c) ''global'' = global_scope ?c"
    "dict_at (s_heap (example_session ''test'')) (local_scope ?c) \<noteq> None"
    "constants_ready (s_heap (example_session ''test'')) (global_scope ?c)"
    using facts layout_facts(1) [OF k] by (simp_all add: example_session_def)
  note facts2 = this
  have kind: "current_item_kind ?c = ''test''" by simp
  show ?thesis
    using alias_write_reaches_global [OF facts2(1) kind example_names(1) facts2(2-5), of "HInt 1"]
    by (rule ex_conj_first)
qed

end
