(* ===== verification/Command_Policy.thy ===== *)
theory Command_Policy
  imports Command_Convert Context_Store
begin

section \<open>Operation contracts and the execution policy\<close>

text \<open>
  The contract table of \<open>operations/command_contract_registry.py\<close>, the execution scopes of
  \<open>operations/command_scope.py\<close> and the policy check every executor makes before it runs a
  command (\<open>operations/command_policy_validator.py\<close>).
\<close>

record operation_contract =
  oc_family :: string
  oc_name :: string
  oc_supported_scopes :: "string list"
  oc_reads_from :: "string list"
  oc_writes_to :: "string list"
  oc_produces_result :: bool
  oc_side_effects :: bool
  oc_async_allowed :: bool
  oc_failure_mode :: string

abbreviation "SCOPE_TEST \<equiv> ''test''"
abbreviation "SCOPE_MOCK_PRE_RESPONSE \<equiv> ''mock.preResponse''"
abbreviation "SCOPE_MOCK_POST_RESPONSE \<equiv> ''mock.postResponse''"

definition hook_scopes :: "string list" where
  "hook_scopes = [''hook.beforeAll'', ''hook.beforeEach'', ''hook.afterEach'', ''hook.afterAll'']"

definition hook_and_test_scopes :: "string list" where
  "hook_and_test_scopes = SCOPE_TEST # hook_scopes"

definition context_contracts :: "operation_contract list" where
  "context_contracts =
     [\<lparr>oc_family = ''context'', oc_name = INIT_CONSTANT,
       oc_supported_scopes = SCOPE_TEST # hook_scopes @ [SCOPE_MOCK_PRE_RESPONSE],
       oc_reads_from = [''runEnvelope'', ''global'', ''local''],
       oc_writes_to = [''runEnvelope'', ''global'', ''local'', ''result''],
       oc_produces_result = True, oc_side_effects = False, oc_async_allowed = False,
       oc_failure_mode = ''fail-fast''\<rparr>,
      \<lparr>oc_family = ''context'', oc_name = DELETE_CONSTANT,
       oc_supported_scopes = hook_and_test_scopes,
       oc_reads_from = [''runEnvelope'', ''global'', ''local''],
       oc_writes_to = [''global'', ''local'', ''result''],
       oc_produces_result = True, oc_side_effects = False, oc_async_allowed = False,
       oc_failure_mode = ''fail-fast''\<rparr>]"

text \<open>The actions with side effects differ in the name and in what they read.\<close>

definition side_effect_contract :: "string list \<Rightarrow> string \<Rightarrow> operation_contract" where
  "side_effect_contract reads name =
     \<lparr>oc_family = ''action'', oc_name = name,
      oc_supported_scopes = SCOPE_TEST # hook_scopes @ [SCOPE_MOCK_POST_RESPONSE],
      oc_reads_from = reads, oc_writes_to = [''result''],
      oc_produces_result = True, oc_side_effects = True, oc_async_allowed = True,
      oc_failure_mode = ''fail-fast''\<rparr>"

definition action_contracts :: "operation_contract list" where
  "action_contracts =
     (let ctx = [''runEnvelope'', ''global'', ''local''] in
      [\<lparr>oc_family = ''action'', oc_name = SLEEP,
        oc_supported_scopes = hook_and_test_scopes,
        oc_reads_from = [''local''], oc_writes_to = [''result''],
        oc_produces_result = True, oc_side_effects = False, oc_async_allowed = False,
        oc_failure_mode = ''fail-fast''\<rparr>,
       side_effect_contract ctx SEND_MESSAGE_QUEUE,
       side_effect_contract ctx SAVE_TABLE,
       side_effect_contract [] DROP_TABLE,
       side_effect_contract [] CLEAN_TABLE,
       side_effect_contract ctx EXPORT_DATASET,
       side_effect_contract [] DROP_DATASET,
       side_effect_contract [] CLEAN_DATASET,
       side_effect_contract ctx RUN_SUITE])"

definition assert_contract :: "string \<Rightarrow> operation_contract" where
  "assert_contract name =
     \<lparr>oc_family = ''assert'', oc_name = name,
      oc_supported_scopes = [SCOPE_TEST, SCOPE_MOCK_PRE_RESPONSE],
      oc_reads_from = [''runEnvelope'', ''global'', ''local'', ''result''],
      oc_writes_to = [''result''],
      oc_produces_result = True, oc_side_effects = False, oc_async_allowed = False,
      oc_failure_mode = ''fail-fast''\<rparr>"

definition assert_contracts :: "operation_contract list" where
  "assert_contracts =
     [assert_contract JSON_EQUALS, assert_contract JSON_EMPTY, assert_contract JSON_NOT_EMPTY,
      assert_contract JSON_CONTAINS, assert_contract JSON_ARRAY_EQUALS,
      assert_contract JSON_ARRAY_EMPTY, assert_contract JSON_ARRAY_NOT_EMPTY,
      assert_contract JSON_ARRAY_CONTAINS]"

definition contract_table :: "(string \<times> operation_contract) list" where
  "contract_table =
     map (\<lambda>c. (oc_name c, c)) (context_contracts @ action_contracts @ assert_contracts)"

definition get_operation_contract :: "string \<Rightarrow> operation_contract option" where
  "get_operation_contract operation_type = map_of contract_table (strip operation_type)"

subsection \<open>Execution scope\<close>

definition hook_phase_to_scope :: "(string \<times> string) list" where
  "hook_phase_to_scope =
     [(''before-all'', ''hook.beforeAll''), (''before-each'', ''hook.beforeEach''),
      (''after-each'', ''hook.afterEach''), (''after-all'', ''hook.afterAll'')]"

definition normalize_scope :: "string option \<Rightarrow> string option" where
  "normalize_scope scope = nonempty (opt_token scope)"

definition resolve_execution_scope :: "string option \<Rightarrow> session \<Rightarrow> string option" where
  "resolve_execution_scope explicit_scope s =
     (case normalize_scope explicit_scope of
        Some sc \<Rightarrow> Some sc
      | None \<Rightarrow>
          (case s_ctx s of
             None \<Rightarrow> None
           | Some c \<Rightarrow>
               (let kd = lower (strip (current_item_kind c)) in
                if kd = ''test'' then Some SCOPE_TEST
                else if kd = ''hook'' then
                  map_of hook_phase_to_scope (lower (opt_token (current_hook_phase c)))
                else None)))"

subsection \<open>The policy\<close>

definition collect_target_paths :: "command_dto \<Rightarrow> string list" where
  "collect_target_paths cfg =
     (case cfg of
        InitConstantDto c \<Rightarrow>
          (case ic_target c of None \<Rightarrow> [] | Some t \<Rightarrow> if strip t = [] then [] else [t]) @
          (if strip (ic_context c) \<noteq> [] \<and> strip (ic_name c) \<noteq> []
           then [''$.'' @ ic_context c @ ''.constants.'' @ ic_name c] else [])
      | _ \<Rightarrow> []) @
     (case dto_resultConstant cfg of
        None \<Rightarrow> []
      | Some rc \<Rightarrow> if rc_name rc = [] then [] else [''$.result.constants.'' @ rc_name rc])"

definition validate_scope_rules :: "operation_contract \<Rightarrow> string option \<Rightarrow> unit result" where
  "validate_scope_rules ct scope =
     (case scope of
        None \<Rightarrow> Inr ()
      | Some sc \<Rightarrow>
          if sc = [] then Inr ()
          else
            rbind (guard (sc \<in> set (oc_supported_scopes ct))
                     (ValueError (''Operation '' @ quoted (oc_name ct) @
                        '' is not allowed in scope '' @ quoted sc @ ''.''))) (\<lambda>_.
            if sc = SCOPE_MOCK_PRE_RESPONSE then
              rbind (guard (\<not> oc_side_effects ct)
                       (ValueError (''Operation '' @ quoted (oc_name ct) @
                          '' has side effects and cannot run in mock.preResponse.''))) (\<lambda>_.
              guard (\<not> oc_async_allowed ct)
                (ValueError (''Operation '' @ quoted (oc_name ct) @
                   '' is async-enabled and cannot run in mock.preResponse.'')))
            else Inr ()))"

fun validate_target_roots :: "string list \<Rightarrow> string option \<Rightarrow> unit result" where
  "validate_target_roots [] scope = Inr ()"
| "validate_target_roots (t # ts) scope =
     rbind (extract_context_root t) (\<lambda>ro.
     case ro of
       None \<Rightarrow> Inl (ValueError (''Unsupported target path '' @ quoted t @
                 ''. Use $.runEnvelope, $.global, $.local or $.result.''))
     | Some rt \<Rightarrow>
         rbind (guard (\<not> (scope = Some SCOPE_TEST \<and> rt = ''global''))
                  (ValueError ''Global context is immutable during test execution.'')) (\<lambda>_.
         rbind (guard (\<not> (scope = Some SCOPE_TEST \<and> rt = ''runEnvelope''))
                  (ValueError ''RunEnvelope context is immutable during test execution.'')) (\<lambda>_.
         validate_target_roots ts scope)))"

definition validate_operation_policy ::
  "command_dto \<Rightarrow> string option \<Rightarrow> operation_contract result" where
  "validate_operation_policy cfg scope =
     (let code = strip (dto_commandCode cfg) in
      case get_operation_contract code of
        None \<Rightarrow> Inl (ValueError (''No command contract found for commandCode '' @ quoted code @ ''.''))
      | Some ct \<Rightarrow>
          rbind (validate_scope_rules ct scope) (\<lambda>_.
          rbind (validate_target_roots (collect_target_paths cfg) scope) (\<lambda>_. Inr ct)))"

end
