(* ===== verification/Policy_Facts.thy ===== *)
theory Policy_Facts
  imports Command_Facts Command_Policy
begin

section \<open>What the execution policy guarantees\<close>

text \<open>
  The policy accepts before a response only what has no side effects, and in a test only
  commands whose target the run context then lets them write; every command that converts has
  a contract.
\<close>

lemma contract_of_known [simp]:
  "code \<in> set command_codes \<Longrightarrow> strip code = code"
proof -
  have "list_all (\<lambda>c. strip c = c) command_codes" by code_simp
  then show "code \<in> set command_codes \<Longrightarrow> strip code = code" by (simp add: list_all_iff)
qed

lemma contract_names: "map fst contract_table = command_codes"
  by code_simp

lemma contract_table_names: "map_of contract_table code = Some ct \<Longrightarrow> oc_name ct = code"
  by (auto simp: contract_table_def dest!: map_of_SomeD)

lemma contract_exists:
  assumes "code \<in> set command_codes"
  shows "\<exists>ct. get_operation_contract code = Some ct \<and> oc_name ct = code"
proof -
  have "code \<in> fst ` set contract_table"
    using assms by (metis contract_names list.set_map)
  then obtain ct where "map_of contract_table code = Some ct"
    by (metis domIff dom_map_of_conv_image_fst not_None_eq)
  then show ?thesis
    using assms contract_table_names by (auto simp: get_operation_contract_def)
qed

lemma get_contract_member:
  assumes "get_operation_contract code = Some ct"
  shows "ct \<in> set (context_contracts @ action_contracts @ assert_contracts) \<and> oc_name ct = strip code"
  using assms by (auto simp: get_operation_contract_def contract_table_def dest!: map_of_SomeD)

lemma effect_free_contracts:
  "list_all (\<lambda>ct. SCOPE_MOCK_PRE_RESPONSE \<in> set (oc_supported_scopes ct) \<longrightarrow>
      \<not> oc_side_effects ct \<and> \<not> oc_async_allowed ct \<and> (oc_name ct = INIT_CONSTANT \<or> oc_name ct \<in> set assert_codes))
    (context_contracts @ action_contracts @ assert_contracts)"
  by code_simp

lemma pre_response_supported:
  "list_all (\<lambda>ct. oc_name ct = INIT_CONSTANT \<or> oc_name ct \<in> set assert_codes \<longrightarrow>
      SCOPE_MOCK_PRE_RESPONSE \<in> set (oc_supported_scopes ct))
    (context_contracts @ action_contracts @ assert_contracts)"
  by code_simp

lemma scope_rules_Inr:
  assumes "sc \<noteq> []"
  shows "validate_scope_rules ct (Some sc) = Inr u \<longleftrightarrow>
    sc \<in> set (oc_supported_scopes ct) \<and>
    (sc = SCOPE_MOCK_PRE_RESPONSE \<longrightarrow> \<not> oc_side_effects ct \<and> \<not> oc_async_allowed ct)"
  using assms unfolding validate_scope_rules_def
  by (cases "sc = SCOPE_MOCK_PRE_RESPONSE") (simp_all add: rbind_guard_Inr)

lemma policy_Inr_iff:
  "validate_operation_policy cfg scope = Inr ct \<longleftrightarrow>
     get_operation_contract (dto_commandCode cfg) = Some ct \<and>
     validate_scope_rules ct scope = Inr () \<and>
     validate_target_roots (collect_target_paths cfg) scope = Inr ()"
  by (auto simp: validate_operation_policy_def Let_def rbind_Inr_iff get_operation_contract_def
      split: option.splits)

lemma target_roots_Inr:
  "validate_target_roots ts scope = Inr u \<longleftrightarrow>
     list_all (\<lambda>t. \<exists>rt. extract_context_root t = Inr (Some rt) \<and>
        (scope = Some SCOPE_TEST \<longrightarrow> rt \<noteq> ''global'' \<and> rt \<noteq> ''runEnvelope'')) ts"
  by (induction ts) (auto simp: rbind_Inr_iff rbind_guard_Inr split: option.splits)


text \<open>
  A command the policy accepts in the scope \<open>test\<close> writes no constant the run context would
  refuse: every path it targets has a root, and the context's own immutability guard lets that
  root through while a test item is running.
\<close>

theorem test_policy_targets_writable:
  assumes "validate_operation_policy cfg (Some SCOPE_TEST) = Inr ct"
    and "t \<in> set (collect_target_paths cfg)"
  shows "\<exists>rt. extract_context_root t = Inr (Some rt) \<and> check_mutable rt ''test'' = Inr ()"
  using assms by (auto simp: policy_Inr_iff target_roots_Inr list_all_iff check_mutable_def)

text \<open>
  Every configuration that converts has a contract: its command code has exactly one entry
  in the registry, under its own name, in the family of the command's kind.
\<close>

theorem converted_has_contract:
  assumes "convert_to_config_command_type d = Inr cfg"
  shows "\<exists>ct. get_operation_contract (dto_commandCode cfg) = Some ct \<and>
    oc_name ct = dto_commandCode cfg \<and> length (filter (\<lambda>k. k = dto_commandCode cfg) (map fst contract_table)) = 1"
proof -
  have "build_dto d (command_code_of d)
      (normalize_command_type (first_non_empty d [''commandType'', ''command_type''])) = Inr cfg"
    using assms by (simp add: convert_to_config_command_type_def)
  then have "dto_commandCode cfg \<in> set command_codes" using build_dto_wf wf_command_base by blast
  moreover have "list_all (\<lambda>c. length (filter (\<lambda>k. k = c) command_codes) = 1) command_codes"
    by code_simp
  ultimately show ?thesis
    using contract_exists unfolding contract_names by (auto simp: list_all_iff)
qed

definition example_sleep :: pydict where
  "example_sleep = [(''commandCode'', PStr ''sleep''), (''duration'', PInt 5)]"

lemma converted_has_contract_witness:
  "\<exists>cfg. convert_to_config_command_type example_sleep = Inr cfg \<and>
     (\<exists>ct. get_operation_contract (dto_commandCode cfg) = Some ct)"
proof -
  have c: "convert_to_config_command_type example_sleep =
      Inr (SleepDto \<lparr>commandCode = SLEEP, commandType = ''action'', sl_duration = 5\<rparr>)"
    by code_simp
  then show ?thesis using converted_has_contract [OF c] by blast
qed

definition example_local_init :: command_dto where
  "example_local_init =
     InitConstantDto \<lparr>commandCode = INIT_CONSTANT, commandType = ''context'', ic_definitionId = ''d1'',
       ic_name = ''token'', ic_context = ''local'', ic_sourceType = ''json'', ic_value = PNone,
       ic_json_array_id = None, ic_dataset_id = None, ic_queue_id = None, ic_retry = 3,
       ic_wait_time_seconds = 20, ic_max_messages = 1000, ic_target = None, ic_parameters = None\<rparr>"

lemma test_policy_targets_writable_witness:
  "\<exists>rt. extract_context_root ''$.local.constants.token'' = Inr (Some rt) \<and>
     check_mutable rt ''test'' = Inr ()"
proof -
  obtain ct where "validate_operation_policy example_local_init (Some SCOPE_TEST) = Inr ct"
  proof -
    have "(case validate_operation_policy example_local_init (Some SCOPE_TEST) of Inr _ \<Rightarrow> True | Inl _ \<Rightarrow> False)"
      by code_simp
    then show ?thesis using that by (auto split: sum.splits)
  qed
  moreover have "''$.local.constants.token'' \<in> set (collect_target_paths example_local_init)"
    by code_simp
  ultimately show ?thesis by (rule test_policy_targets_writable)
qed

end
