(* ===== verification/Constant_Planner.thy ===== *)
theory Constant_Planner
  imports Command_Convert
begin

section \<open>Planning the constants of a command list\<close>

text \<open>
  The static check of \<open>constants/command_constant_definition_registry.py\<close>: the commands of a
  section are replayed in order over the definitions visible so far; every reference must point
  at a visible definition of a readable scope and a compatible type, every declaration must be
  in a writable scope and not repeat a name. A dictionary of definitions is an association list
  in insertion order. Identifiers that \<open>uuid4\<close> would draw are the supply \<open>uid\<close>, read at the
  next position.
\<close>

abbreviation "SECTION_TEST \<equiv> ''test''"
abbreviation "SECTION_BEFORE_ALL \<equiv> ''beforeAll''"
abbreviation "SECTION_BEFORE_EACH \<equiv> ''beforeEach''"
abbreviation "SECTION_AFTER_EACH \<equiv> ''afterEach''"
abbreviation "SECTION_AFTER_ALL \<equiv> ''afterAll''"
abbreviation "SECTION_MOCK_PRE \<equiv> ''mock.preResponse''"
abbreviation "SECTION_MOCK_POST \<equiv> ''mock.postResponse''"
abbreviation "SECTION_MOCK_QUEUE \<equiv> ''mock.queue''"

definition type_compatibility :: "(string \<times> string list) list" where
  "type_compatibility =
     [(SEND_MESSAGE_QUEUE, [''raw'', ''json'', ''jsonArray'', ''dataset'']),
      (SAVE_TABLE, [''json'', ''jsonArray'', ''dataset'']),
      (EXPORT_DATASET, [''json'', ''jsonArray'', ''dataset'']),
      (JSON_EQUALS, [''json'', ''raw'']),
      (JSON_EMPTY, [''json'', ''raw'']),
      (JSON_NOT_EMPTY, [''json'', ''raw'']),
      (JSON_CONTAINS, [''json'', ''raw'']),
      (JSON_ARRAY_EQUALS, [''jsonArray'']),
      (JSON_ARRAY_EMPTY, [''jsonArray'']),
      (JSON_ARRAY_NOT_EMPTY, [''jsonArray'']),
      (JSON_ARRAY_CONTAINS, [''jsonArray''])]"

definition readable_scopes_table :: "(string \<times> string list) list" where
  "readable_scopes_table =
     [(SECTION_BEFORE_ALL, [''runEnvelope'', ''result'']),
      (SECTION_BEFORE_EACH, [''runEnvelope'', ''global'', ''result'']),
      (SECTION_TEST, [''runEnvelope'', ''global'', ''local'', ''result'']),
      (SECTION_AFTER_EACH, [''runEnvelope'', ''global'', ''local'', ''result'']),
      (SECTION_AFTER_ALL, [''runEnvelope'', ''global'', ''result'']),
      (SECTION_MOCK_PRE, [''runEnvelope'', ''result'']),
      (SECTION_MOCK_POST, [''runEnvelope'', ''result'']),
      (SECTION_MOCK_QUEUE, [''runEnvelope'', ''result''])]"

definition writable_scopes_table :: "(string \<times> string list) list" where
  "writable_scopes_table =
     [(SECTION_BEFORE_ALL, [''global'', ''result'']),
      (SECTION_BEFORE_EACH, [''local'', ''result'']),
      (SECTION_TEST, [''local'', ''result'']),
      (SECTION_AFTER_EACH, [''local'', ''result'']),
      (SECTION_AFTER_ALL, [''global'', ''result'']),
      (SECTION_MOCK_PRE, [''runEnvelope'', ''result'']),
      (SECTION_MOCK_POST, [''result'']),
      (SECTION_MOCK_QUEUE, [''result''])]"

definition lookup_scopes :: "(string \<times> string list) list \<Rightarrow> string \<Rightarrow> string list" where
  "lookup_scopes table sec = (case map_of table sec of None \<Rightarrow> [] | Some xs \<Rightarrow> xs)"

abbreviation "readable_scopes \<equiv> lookup_scopes readable_scopes_table"
abbreviation "writable_scopes \<equiv> lookup_scopes writable_scopes_table"

definition result_type_by_command :: "(string \<times> string) list" where
  "result_type_by_command =
     map (\<lambda>c. (c, ''json''))
       ([SEND_MESSAGE_QUEUE, SAVE_TABLE, EXPORT_DATASET, RUN_SUITE, SLEEP] @ assert_codes)"

record command_input =
  ci_command_id :: string
  ci_command_order :: int
  ci_cfg :: pydict

record planned_definition =
  pd_definition_id :: string
  pd_command_id :: string
  pd_command_order :: int
  pd_section_type :: string
  pd_name :: string
  pd_context_scope :: string
  pd_value_type :: string
  pd_deleted_at_order :: "int option"

type_synonym def_map = "(string \<times> planned_definition) list"

subsection \<open>Command inputs\<close>

text \<open>\<open>ensure_command_id\<close>: the id and the supply's next position.\<close>

definition ensure_command_id :: "(nat \<Rightarrow> string) \<Rightarrow> pydict \<Rightarrow> nat \<Rightarrow> string \<times> nat" where
  "ensure_command_id uid raw n =
     (let i = token (dget raw ''id'') in if i \<noteq> [] then (i, n) else (uid n, Suc n))"

definition command_input_of ::
  "(nat \<Rightarrow> string) \<Rightarrow> pydict \<Rightarrow> int \<Rightarrow> nat \<Rightarrow> (command_input \<times> nat) result" where
  "command_input_of uid raw default_order n =
     (let cfg = dict_or_empty (py_or (dget raw ''cfg'') (dget raw ''configuration_json''));
          (i, n1) = ensure_command_id uid raw n
      in rbind (py_int (py_or (dget raw ''order'') (PInt default_order))) (\<lambda>ord.
         Inr (\<lparr>ci_command_id = i, ci_command_order = ord, ci_cfg = cfg\<rparr>, n1)))"

fun command_inputs ::
  "(nat \<Rightarrow> string) \<Rightarrow> pydict list \<Rightarrow> int \<Rightarrow> nat \<Rightarrow> command_input list result" where
  "command_inputs uid [] k n = Inr []"
| "command_inputs uid (raw # raws) k n =
     rbind (command_input_of uid raw k n) (\<lambda>(c, n1).
     rbind (command_inputs uid raws (k + 1) n1) (\<lambda>cs. Inr (c # cs)))"

subsection \<open>Visible definitions\<close>

definition carry_over_visible_map :: "def_map \<Rightarrow> def_map" where
  "carry_over_visible_map source =
     map (\<lambda>(k, d). (k, d\<lparr>pd_command_order := 0\<rparr>))
       (filter (\<lambda>(k, d). pd_deleted_at_order d = None) source)"

definition is_active :: "string list \<Rightarrow> int \<Rightarrow> planned_definition \<Rightarrow> bool" where
  "is_active scopes ord d \<longleftrightarrow>
     pd_context_scope d \<in> set scopes \<and> pd_command_order d < ord \<and>
     (case pd_deleted_at_order d of None \<Rightarrow> True | Some k \<Rightarrow> ord < k)"

definition active_definitions :: "def_map \<Rightarrow> string list \<Rightarrow> int \<Rightarrow> def_map" where
  "active_definitions defs scopes ord = filter (\<lambda>(k, d). is_active scopes ord d) defs"

definition validate_duplicate_name :: "def_map \<Rightarrow> string \<Rightarrow> string \<Rightarrow> unit result" where
  "validate_duplicate_name active name scope =
     guard (\<not> list_ex (\<lambda>(k, d). pd_name d = name \<and> pd_context_scope d = scope) active)
       (ValueError (''Constant '' @ quoted name @ '' is already defined in scope '' @
          quoted scope @ ''.''))"

text \<open>The references of a command, with the role the code tags them with.\<close>

fun definition_refs :: "command_dto \<Rightarrow> (string \<times> const_ref) list" where
  "definition_refs (DeleteConstantDto c) = [(''target'', dc_targetConstantRef c)]"
| "definition_refs (SendMessageQueueDto c) = [(''source'', sm_sourceConstantRef c)]"
| "definition_refs (SaveTableDto c) = [(''source'', st_sourceConstantRef c)]"
| "definition_refs (ExportDatasetDto c) = [(''source'', ed_sourceConstantRef c)]"
| "definition_refs (AssertDto c) = [(''actual'', as_actualConstantRef c)]"
| "definition_refs (RunSuiteDto c) = map (\<lambda>r. (''constant'', r)) (rs_constantRefs c)"
| "definition_refs _ = []"

definition check_ref ::
  "string \<Rightarrow> string \<Rightarrow> def_map \<Rightarrow> string \<times> const_ref \<Rightarrow> unit result" where
  "check_ref code sec active rr =
     (case map_of active (snd rr) of
        None \<Rightarrow> Inl (ValueError (''Constant reference '' @ quoted (snd rr) @
                  '' is not visible for command '' @ quoted code @ ''.''))
      | Some d \<Rightarrow>
          rbind (guard (\<not> (lookup_scopes type_compatibility code \<noteq> [] \<and>
                          pd_value_type d \<notin> set (lookup_scopes type_compatibility code)))
                   (ValueError (''Constant '' @ quoted (pd_name d) @ '' has incompatible type '' @
                      quoted (pd_value_type d) @ '' for command '' @ quoted code @ ''.''))) (\<lambda>_.
          guard (\<not> (fst rr = ''target'' \<and> pd_context_scope d \<notin> set (writable_scopes sec)))
            (ValueError (''Constant '' @ quoted (pd_name d) @ '' in scope '' @
               quoted (pd_context_scope d) @ '' cannot be deleted in section '' @ quoted sec @ ''.''))))"

fun check_refs :: "string \<Rightarrow> string \<Rightarrow> def_map \<Rightarrow> (string \<times> const_ref) list \<Rightarrow> unit result" where
  "check_refs code sec active [] = Inr ()"
| "check_refs code sec active (rr # rrs) =
     rbind (check_ref code sec active rr) (\<lambda>_. check_refs code sec active rrs)"

definition validate_ref_visibility ::
  "command_dto \<Rightarrow> string \<Rightarrow> int \<Rightarrow> def_map \<Rightarrow> unit result" where
  "validate_ref_visibility cfg sec ord defs =
     check_refs (dto_commandCode cfg) sec
       (active_definitions defs (readable_scopes sec) ord) (definition_refs cfg)"

subsection \<open>Declarations\<close>

definition or_else :: "string \<Rightarrow> string \<Rightarrow> string" where
  "or_else s t = (if s = [] then t else s)"

definition planned_declarations ::
  "command_dto \<Rightarrow> string \<Rightarrow> int \<Rightarrow> string \<Rightarrow> planned_definition list" where
  "planned_declarations cfg cid ord sec =
     (case cfg of
        InitConstantDto c \<Rightarrow>
          [\<lparr>pd_definition_id = ic_definitionId c, pd_command_id = cid, pd_command_order = ord,
            pd_section_type = sec, pd_name = ic_name c,
            pd_context_scope = or_else (ic_context c) ''local'',
            pd_value_type = or_else (ic_sourceType c) ''raw'', pd_deleted_at_order = None\<rparr>]
      | _ \<Rightarrow> []) @
     (case dto_resultConstant cfg of
        None \<Rightarrow> []
      | Some rc \<Rightarrow>
          [\<lparr>pd_definition_id = rc_definitionId rc, pd_command_id = cid, pd_command_order = ord,
            pd_section_type = sec, pd_name = rc_name rc, pd_context_scope = ''result'',
            pd_value_type = or_else (rc_valueType rc)
              (case map_of result_type_by_command (dto_commandCode cfg) of
                 None \<Rightarrow> ''json'' | Some t \<Rightarrow> t),
            pd_deleted_at_order = None\<rparr>])"

fun check_declarations :: "string \<Rightarrow> def_map \<Rightarrow> planned_definition list \<Rightarrow> unit result" where
  "check_declarations sec active [] = Inr ()"
| "check_declarations sec active (d # ds) =
     rbind (guard (pd_context_scope d \<in> set (writable_scopes sec))
              (ValueError (''Scope '' @ quoted (pd_context_scope d) @
                 '' is not writable in section '' @ quoted sec @ ''.''))) (\<lambda>_.
     rbind (validate_duplicate_name active (pd_name d) (pd_context_scope d)) (\<lambda>_.
     check_declarations sec (dset (pd_definition_id d) d active) ds))"

definition validate_declarations ::
  "command_dto \<Rightarrow> string \<Rightarrow> int \<Rightarrow> def_map \<Rightarrow> string \<Rightarrow> planned_definition list result" where
  "validate_declarations cfg sec ord defs cid =
     (let ds = planned_declarations cfg cid ord sec;
          active = active_definitions defs [''runEnvelope'', ''global'', ''local'', ''result''] (ord + 1)
      in rbind (check_declarations sec active ds) (\<lambda>_. Inr ds))"

subsection \<open>The plan\<close>

definition add_definitions :: "planned_definition list \<Rightarrow> def_map \<Rightarrow> def_map" where
  "add_definitions ds defs = fold (\<lambda>d m. dset (pd_definition_id d) d m) ds defs"

text \<open>One command: what it declares and the definitions after it.\<close>

definition plan_step ::
  "string \<Rightarrow> command_input \<Rightarrow> def_map \<Rightarrow> (planned_definition list \<times> def_map) result" where
  "plan_step sec c defs =
     rbind (convert_to_config_command_type (ci_cfg c)) (\<lambda>cfg.
     rbind (validate_ref_visibility cfg sec (ci_command_order c) defs) (\<lambda>_.
     case cfg of
       DeleteConstantDto dc \<Rightarrow>
         (case map_of defs (dc_targetConstantRef dc) of
            None \<Rightarrow> Inl (ValueError (''Constant reference '' @ quoted (dc_targetConstantRef dc) @
                      '' is not visible for deleteConstant.''))
          | Some d \<Rightarrow>
              Inr ([], dset (dc_targetConstantRef dc)
                         (d\<lparr>pd_deleted_at_order := Some (ci_command_order c)\<rparr>) defs))
     | _ \<Rightarrow>
         rbind (validate_declarations cfg sec (ci_command_order c) defs (ci_command_id c)) (\<lambda>ds.
         Inr (ds, add_definitions ds defs))))"

fun plan_loop ::
  "string \<Rightarrow> command_input list \<Rightarrow> def_map \<Rightarrow> (planned_definition list \<times> def_map) result" where
  "plan_loop sec [] defs = Inr ([], defs)"
| "plan_loop sec (c # cs) defs =
     rbind (plan_step sec c defs) (\<lambda>(ds, defs1).
     rbind (plan_loop sec cs defs1) (\<lambda>(ds2, defs2). Inr (ds @ ds2, defs2)))"

definition sort_commands :: "command_input list \<Rightarrow> command_input list" where
  "sort_commands cs = sort_key (\<lambda>c. (ci_command_order c, ci_command_id c)) cs"

definition plan_definitions_for_commands ::
  "(nat \<Rightarrow> string) \<Rightarrow> pydict list \<Rightarrow> string \<Rightarrow> def_map \<Rightarrow> (planned_definition list \<times> def_map) result" where
  "plan_definitions_for_commands uid raws sec initial_visible =
     rbind (command_inputs uid raws 1 0) (\<lambda>cs.
     plan_loop sec (sort_commands cs) (carry_over_visible_map initial_visible))"

end
