(* ===== verification/Entity_Store.thy ===== *)
theory Entity_Store
  imports Py_Prelude
begin

section \<open>Tables of entities\<close>

text \<open>
  The contract of \<open>_alembic/services/base_id_service.py\<close>, through which every component reads
  and writes its table: a table is the list of its rows in insertion order, a row an id with
  its columns. A second row with an existing id is refused by the database. The transaction of
  \<open>managed_session\<close> commits the whole block or, when the block raises, nothing.
\<close>

type_synonym 'r table = "(string \<times> 'r) list"

definition get_by_id :: "string \<Rightarrow> 'r table \<Rightarrow> 'r option" where
  "get_by_id i t = map_of t i"

definition insert_row :: "string \<Rightarrow> 'r \<Rightarrow> 'r table \<Rightarrow> 'r table result" where
  "insert_row i r t =
     (if get_by_id i t \<noteq> None then Inl (IntegrityError ''duplicate key value'') else Inr (t @ [(i, r)]))"

fun inserts :: "(string \<times> 'r) list \<Rightarrow> 'r table \<Rightarrow> 'r table result" where
  "inserts [] t = Inr t"
| "inserts ((i, r) # rs) t = rbind (insert_row i r t) (inserts rs)"

definition update_row :: "string \<Rightarrow> ('r \<Rightarrow> 'r) \<Rightarrow> 'r table \<Rightarrow> 'r table" where
  "update_row i f t = map (\<lambda>(j, r). (j, if j = i then f r else r)) t"

definition delete_by_id :: "string \<Rightarrow> 'r table \<Rightarrow> nat \<times> 'r table" where
  "delete_by_id i t =
     (case get_by_id i t of None \<Rightarrow> (0, t) | Some r \<Rightarrow> (1, filter (\<lambda>(j, r). j \<noteq> i) t))"

text \<open>The loops \<open>for entity in query.filter(...).all(): session.delete(entity)\<close>.\<close>

definition delete_where :: "('r \<Rightarrow> bool) \<Rightarrow> 'r table \<Rightarrow> nat \<times> 'r table" where
  "delete_where p t = (length (filter (\<lambda>(j, r). p r) t), filter (\<lambda>(j, r). \<not> p r) t)"

definition rows_where :: "('r \<Rightarrow> bool) \<Rightarrow> 'r table \<Rightarrow> 'r table" where
  "rows_where p t = filter (\<lambda>(j, r). p r) t"

text \<open>\<open>with managed_session() as session: body\<close>.\<close>

definition managed_session :: "('t \<Rightarrow> ('a \<times> 't) result) \<Rightarrow> 't \<Rightarrow> 'a result \<times> 't" where
  "managed_session body t = (case body t of Inl e \<Rightarrow> (Inl e, t) | Inr (x, u) \<Rightarrow> (Inr x, u))"

definition wf_table :: "'r table \<Rightarrow> bool" where
  "wf_table t = distinct (map fst t)"

locale entity_service =
  fixes wf :: "'t \<Rightarrow> bool"
    and get :: "string \<Rightarrow> 't \<Rightarrow> 'r option"
    and ins :: "string \<Rightarrow> 'r \<Rightarrow> 't \<Rightarrow> 't result"
    and upd :: "string \<Rightarrow> ('r \<Rightarrow> 'r) \<Rightarrow> 't \<Rightarrow> 't"
    and del :: "string \<Rightarrow> 't \<Rightarrow> nat \<times> 't"
  assumes ins_dup: "get i t \<noteq> None \<Longrightarrow> ins i r t \<noteq> Inr u"
    and ins_fresh: "get i t = None \<Longrightarrow> \<exists>u. ins i r t = Inr u"
    and get_ins: "ins i r t = Inr u \<Longrightarrow> get j u = (if j = i then Some r else get j t)"
    and wf_ins: "wf t \<Longrightarrow> ins i r t = Inr u \<Longrightarrow> wf u"
    and get_upd: "get j (upd i f t) = (if j = i then map_option f (get j t) else get j t)"
    and wf_upd: "wf t \<Longrightarrow> wf (upd i f t)"
    and get_del: "wf t \<Longrightarrow> get j (snd (del i t)) = (if j = i then None else get j t)"
    and wf_del: "wf t \<Longrightarrow> wf (snd (del i t))"
begin

fun ins_all :: "(string \<times> 'r) list \<Rightarrow> 't \<Rightarrow> 't result" where
  "ins_all [] t = Inr t"
| "ins_all ((i, r) # rs) t = rbind (ins i r t) (ins_all rs)"

text \<open>A batch goes in exactly when its ids are distinct and new.\<close>

lemma ins_all_iff:
  "(\<exists>u. ins_all rs t = Inr u) \<longleftrightarrow> distinct (map fst rs) \<and> (\<forall>i \<in> fst ` set rs. get i t = None)"
proof (induction rs arbitrary: t)
  case (Cons p rs)
  obtain i r where p: "p = (i, r)" by fastforce
  show ?case
  proof (cases "get i t")
    case None
    then obtain u where u: "ins i r t = Inr u" using ins_fresh by blast
    have "(\<forall>j \<in> fst ` set rs. get j u = None) \<longleftrightarrow>
        i \<notin> fst ` set rs \<and> (\<forall>j \<in> fst ` set rs. get j t = None)"
      by (auto simp: get_ins [OF u])
    then show ?thesis using Cons [of u] None by (auto simp: p u)
  next
    case (Some x)
    then have "ins i r t \<noteq> Inr u" for u using ins_dup by blast
    then show ?thesis using Some by (auto simp: p rbind_Inr_iff)
  qed
qed simp

lemma get_ins_all:
  "ins_all rs t = Inr u \<Longrightarrow> get j u = (case map_of rs j of None \<Rightarrow> get j t | Some r \<Rightarrow> Some r)"
proof (induction rs arbitrary: t)
  case (Cons p rs)
  obtain i r where p: "p = (i, r)" by fastforce
  from Cons.prems obtain v where v: "ins i r t = Inr v" "ins_all rs v = Inr u"
    by (auto simp: p rbind_Inr_iff)
  have "\<exists>w. ins_all rs v = Inr w" using v(2) by blast
  then have "i \<notin> fst ` set rs" using get_ins [OF v(1), of i] unfolding ins_all_iff by auto
  then have "map_of rs i = None" by (simp add: map_of_eq_None_iff)
  then show ?case using Cons.IH [OF v(2)] get_ins [OF v(1)] by (auto simp: p split: option.splits)
qed simp

lemma wf_ins_all: "wf t \<Longrightarrow> ins_all rs t = Inr u \<Longrightarrow> wf u"
  by (induction rs t rule: ins_all.induct) (auto simp: rbind_Inr_iff intro: wf_ins)

end

lemma insert_row_Inr: "insert_row i r t = Inr u \<longleftrightarrow> i \<notin> fst ` set t \<and> u = t @ [(i, r)]"
  by (auto simp: insert_row_def get_by_id_def map_of_eq_None_iff)

lemma map_of_snoc:
  "map_of (t @ [(i, r)]) j = (case map_of t j of None \<Rightarrow> if j = i then Some r else None | Some x \<Rightarrow> Some x)"
  by (induction t) auto

lemma map_of_del: "map_of (filter (\<lambda>(k, r). k \<noteq> i) t) j = (if j = i then None else map_of t j)"
  by (induction t) auto

lemma fst_update_row [simp]: "map fst (update_row i f t) = map fst t"
  by (simp add: update_row_def split_def comp_def)

lemma wf_table_filter: "wf_table t \<Longrightarrow> wf_table (filter p t)"
  by (simp add: wf_table_def distinct_map_filter)

lemma map_of_update_row:
  "map_of (update_row i f t) j = (if j = i then map_option f (map_of t j) else map_of t j)"
  by (induction t) (auto simp: update_row_def)

interpretation table_service: entity_service wf_table get_by_id insert_row update_row delete_by_id
proof (unfold_locales, goal_cases)
  case (3 i r t u j)
  then have "map_of t i = None" by (simp add: insert_row_Inr map_of_eq_None_iff)
  with 3 show ?case by (auto simp: insert_row_Inr get_by_id_def map_of_snoc simp del: map_of_append split: option.splits)
next
  case (7 t j i)
  show ?case by (auto simp: delete_by_id_def get_by_id_def map_of_del split: option.splits)
next
  case (4 t i r u)
  then show ?case by (auto simp: insert_row_Inr wf_table_def)
next
  case (8 t i)
  then show ?case by (simp add: delete_by_id_def wf_table_filter split: option.splits)
qed (auto simp: insert_row_def get_by_id_def map_of_update_row wf_table_def)

lemma inserts_ins_all: "inserts rs t = table_service.ins_all rs t"
  by (induction rs t rule: inserts.induct) (simp_all add: rbind_def split: sum.splits)

lemmas inserts_iff = table_service.ins_all_iff [folded inserts_ins_all]
lemmas get_inserts = table_service.get_ins_all [folded inserts_ins_all]
lemmas wf_inserts = table_service.wf_ins_all [folded inserts_ins_all]

lemma inserts_append: "inserts rs t = Inr u \<Longrightarrow> u = t @ rs"
  by (induction rs t rule: inserts.induct) (auto simp: rbind_Inr_iff insert_row_Inr)

lemma rows_where_append [simp]: "rows_where p (t @ u) = rows_where p t @ rows_where p u"
  by (simp add: rows_where_def)

lemma rows_where_deleted:
  "rows_where p (snd (delete_where q t)) = filter (\<lambda>(j, r). p r \<and> \<not> q r) t"
  by (simp add: rows_where_def delete_where_def split_def conj_commute)

end
