(* ===== verification/Constant_Registry.thy ===== *)
theory Constant_Registry
  imports Constant_Planner Entity_Store
begin

section \<open>Constant definitions of suites and mock servers\<close>

text \<open>
  The graph checks made when a test suite or a mock server is saved, and the rebuild of the
  stored definitions (\<open>constants/command_constant_definition_registry.py\<close>, with the request
  objects of \<open>test_suite_dto.py\<close> and \<open>mock_server_dto.py\<close>). A command of a request is its order,
  its description (\<open>str(dto.description or "")\<close>) and the dictionary of its validated configuration, the
  empty one when it has none; the tables are those of the entity services, a query is a filter
  followed by a stable sort.
\<close>

subsection \<open>Suite requests\<close>

record command_req =
  cr_order :: int
  cr_description :: string
  cr_cfg :: pydict

record suite_item_dto =
  si_kind :: string
  si_hook_phase :: "string option"
  si_description :: string
  si_on_failure :: string
  si_commands :: "command_req list"

record test_suite_dto =
  ts_description :: string
  ts_tests :: "suite_item_dto list"
  ts_hooks :: "suite_item_dto list"

definition hook_phases :: "string list" where
  "hook_phases = [''before-all'', ''before-each'', ''after-each'', ''after-all'']"

definition validate_item ::
  "string \<Rightarrow> string option \<Rightarrow> string option \<Rightarrow> string option \<Rightarrow> command_req list \<Rightarrow> suite_item_dto result" where
  "validate_item kind hook_phase description on_failure commands =
     (let kd = lower (strip (if kind = [] then ''test'' else kind));
          ph = nonempty (lower (opt_token hook_phase));
          f0 = (case on_failure of None \<Rightarrow> ''ABORT'' | Some s \<Rightarrow> upper (strip (if s = [] then ''ABORT'' else s)));
          f = (if f0 \<in> {''ABORT'', ''CONTINUE''} then f0 else ''ABORT'')
      in
      rbind (guard (kd \<in> {''test'', ''hook''})
               (ValidationError (''Unsupported suite item kind: '' @ kind))) (\<lambda>_.
      rbind (guard (\<not> (kd = ''hook'' \<and> (case ph of None \<Rightarrow> True | Some p \<Rightarrow> p \<notin> set hook_phases)))
               (ValidationError ''hook_phase is required for hook suite items.'')) (\<lambda>_.
      Inr \<lparr>si_kind = kd, si_hook_phase = (if kd = ''hook'' then ph else None),
           si_description = (case description of None \<Rightarrow> [] | Some s \<Rightarrow> s),
           si_on_failure = f, si_commands = commands\<rparr>)))"

text \<open>\<open>_suite_item_commands\<close>: the raw commands the planner reads.\<close>

fun suite_item_commands :: "(nat \<Rightarrow> string) \<Rightarrow> command_req list \<Rightarrow> int \<Rightarrow> nat \<Rightarrow> pydict list" where
  "suite_item_commands uid [] k n = []"
| "suite_item_commands uid (c # cs) k n =
     (let given = py_or (dget (cr_cfg c) ''commandId'') (PInt (cr_order c));
          (i, n1) = (if truthy given then (given, n) else (PStr (uid n), Suc n))
      in [(''id'', i), (''order'', PInt (if cr_order c = 0 then k else cr_order c)),
          (''cfg'', PDict (cr_cfg c))] # suite_item_commands uid cs (k + 1) n1)"

definition plan_item ::
  "(nat \<Rightarrow> string) \<Rightarrow> suite_item_dto \<Rightarrow> string \<Rightarrow> def_map \<Rightarrow> (planned_definition list \<times> def_map) result" where
  "plan_item uid item sec visible =
     plan_definitions_for_commands (\<lambda>n. uid (n + length (si_commands item)))
       (suite_item_commands uid (si_commands item) 1 0) sec visible"

text \<open>\<open>hooks_by_phase.get(phase)\<close>: the last item of a phase wins.\<close>

definition hook_of :: "suite_item_dto list \<Rightarrow> string \<Rightarrow> suite_item_dto option" where
  "hook_of items phase = map_of (rev (map (\<lambda>i. (opt_token (si_hook_phase i), i)) items)) phase"

definition plan_hook ::
  "(nat \<Rightarrow> string) \<Rightarrow> suite_item_dto option \<Rightarrow> string \<Rightarrow> def_map \<Rightarrow> def_map \<Rightarrow> def_map result" where
  "plan_hook uid item sec visible otherwise =
     (case item of
        None \<Rightarrow> Inr otherwise
      | Some i \<Rightarrow> rbind (plan_item uid i sec visible) (\<lambda>(ds, defs). Inr defs))"

fun plan_tests :: "(nat \<Rightarrow> string) \<Rightarrow> suite_item_dto list \<Rightarrow> def_map \<Rightarrow> unit result" where
  "plan_tests uid [] visible = Inr ()"
| "plan_tests uid (t # ts) visible =
     rbind (plan_item uid t SECTION_TEST visible) (\<lambda>_. plan_tests uid ts visible)"

definition validate_suite_constant_graph :: "(nat \<Rightarrow> string) \<Rightarrow> test_suite_dto \<Rightarrow> unit result" where
  "validate_suite_constant_graph uid dto =
     (let hook = hook_of (ts_hooks dto) in
      rbind (plan_hook uid (hook ''before-all'') SECTION_BEFORE_ALL [] []) (\<lambda>before_all.
      rbind (plan_hook uid (hook ''before-each'') SECTION_BEFORE_EACH before_all before_all) (\<lambda>before_each.
      rbind (plan_tests uid (ts_tests dto) before_each) (\<lambda>_.
      rbind (plan_hook uid (hook ''after-each'') SECTION_AFTER_EACH before_each []) (\<lambda>_.
      rbind (plan_hook uid (hook ''after-all'') SECTION_AFTER_ALL before_all []) (\<lambda>_.
      Inr ()))))))"

subsection \<open>Mock server requests\<close>

record mock_api_req =
  ar_cfg :: pydict
  ar_commands :: "command_req list"

record mock_server_req =
  mr_apis :: "mock_api_req list"
  mr_queues :: "command_req list list"

definition dict_items :: "pyval list \<Rightarrow> pydict list" where
  "dict_items xs = map dict_or_empty (filter is_dict xs)"

fun fresh_commands :: "(nat \<Rightarrow> string) \<Rightarrow> command_req list \<Rightarrow> int \<Rightarrow> nat \<Rightarrow> pydict list" where
  "fresh_commands uid [] k n = []"
| "fresh_commands uid (c # cs) k n =
     [(''id'', PStr (uid n)), (''order'', PInt (if cr_order c = 0 then k else cr_order c)),
      (''cfg'', PDict (cr_cfg c))] # fresh_commands uid cs (k + 1) (Suc n)"

definition validate_mock_api :: "(nat \<Rightarrow> string) \<Rightarrow> mock_api_req \<Rightarrow> unit result" where
  "validate_mock_api uid a =
     rbind (plan_definitions_for_commands uid
              (dict_items (list_or_empty (dget (ar_cfg a) ''pre_response_commands'')))
              SECTION_MOCK_PRE []) (\<lambda>_.
     rbind (plan_definitions_for_commands (\<lambda>n. uid (n + length (ar_commands a)))
              (fresh_commands uid (ar_commands a) 1 0) SECTION_MOCK_POST []) (\<lambda>_. Inr ()))"

definition validate_mock_queue :: "(nat \<Rightarrow> string) \<Rightarrow> command_req list \<Rightarrow> unit result" where
  "validate_mock_queue uid cs =
     rbind (plan_definitions_for_commands (\<lambda>n. uid (n + length cs))
              (fresh_commands uid cs 1 0) SECTION_MOCK_QUEUE []) (\<lambda>_. Inr ())"

definition validate_mock_server_constant_graph :: "(nat \<Rightarrow> string) \<Rightarrow> mock_server_req \<Rightarrow> unit result" where
  "validate_mock_server_constant_graph uid dto =
     rbind (map_result (validate_mock_api uid) (mr_apis dto)) (\<lambda>_.
     rbind (map_result (validate_mock_queue uid) (mr_queues dto)) (\<lambda>_. Inr ()))"

subsection \<open>Stored definitions\<close>

record definition_row =
  df_owner_type :: string
  df_suite_id :: "string option"
  df_suite_item_id :: "string option"
  df_mock_server_api_id :: "string option"
  df_mock_server_queue_id :: "string option"
  df_command_id :: string
  df_command_order :: int
  df_section_type :: string
  df_name :: string
  df_context_scope :: string
  df_value_type :: string
  df_declared_at_order :: int
  df_deleted_at_order :: "int option"

record suite_item_row =
  sr_test_suite_id :: string
  sr_kind :: string
  sr_hook_phase :: "string option"
  sr_position :: int
  sr_on_failure :: string
  sr_description :: string

record command_row =
  cw_owner_id :: string
  cw_order :: int
  cw_command_code :: string
  cw_command_type :: string
  cw_configuration :: pyval
  cw_description :: string

record constant_db =
  cd_definitions :: "definition_row table"
  cd_items :: "suite_item_row table"
  cd_item_commands :: "command_row table"

definition definition_entity ::
  "string \<Rightarrow> string option \<Rightarrow> string option \<Rightarrow> string option \<Rightarrow> string option \<Rightarrow> planned_definition \<Rightarrow>
     string \<times> definition_row" where
  "definition_entity owner sid item api queue d =
     (pd_definition_id d,
      \<lparr>df_owner_type = owner, df_suite_id = sid, df_suite_item_id = item,
       df_mock_server_api_id = api, df_mock_server_queue_id = queue,
       df_command_id = pd_command_id d, df_command_order = pd_command_order d,
       df_section_type = pd_section_type d, df_name = pd_name d,
       df_context_scope = pd_context_scope d, df_value_type = pd_value_type d,
       df_declared_at_order = pd_command_order d, df_deleted_at_order = pd_deleted_at_order d\<rparr>)"

definition delete_by_suite_id :: "string \<Rightarrow> definition_row table \<Rightarrow> nat \<times> definition_row table" where
  "delete_by_suite_id sid t = delete_where (\<lambda>r. df_suite_id r = Some sid) t"

definition persist_definition_entities ::
  "(string \<times> definition_row) list \<Rightarrow> definition_row table \<Rightarrow> definition_row table result" where
  "persist_definition_entities es t = (if es = [] then Inr t else inserts es t)"

definition get_all_by_suite_id :: "string \<Rightarrow> suite_item_row table \<Rightarrow> suite_item_row table" where
  "get_all_by_suite_id sid t =
     sort_key (\<lambda>(i, r). (sr_position r, i)) (rows_where (\<lambda>r. sr_test_suite_id r = sid) t)"

definition get_all_by_owner_id :: "string \<Rightarrow> command_row table \<Rightarrow> command_row table" where
  "get_all_by_owner_id owner t =
     sort_key (\<lambda>(i, r). cw_order r) (rows_where (\<lambda>r. cw_owner_id r = owner) t)"

text \<open>The raw commands of stored rows: id, order or position, configuration.\<close>

fun stored_commands :: "command_row table \<Rightarrow> int \<Rightarrow> pydict list" where
  "stored_commands [] k = []"
| "stored_commands ((i, r) # rs) k =
     [(''id'', PStr i), (''order'', PInt (if cw_order r = 0 then k else cw_order r)),
      (''cfg'', PDict (dict_or_empty (cw_configuration r)))] # stored_commands rs (k + 1)"

definition plan_stored_item ::
  "(nat \<Rightarrow> string) \<Rightarrow> constant_db \<Rightarrow> string \<Rightarrow> string \<times> suite_item_row \<Rightarrow> string \<Rightarrow> def_map \<Rightarrow>
     ((string \<times> definition_row) list \<times> def_map) result" where
  "plan_stored_item uid db sid item sec visible =
     rbind (plan_definitions_for_commands uid
              (stored_commands (get_all_by_owner_id (fst item) (cd_item_commands db)) 1) sec visible)
       (\<lambda>(ds, defs).
     Inr (map (definition_entity ''suite'' (Some sid) (Some (fst item)) None None) ds, defs))"

definition stored_phase :: "string \<times> suite_item_row \<Rightarrow> string" where
  "stored_phase item = opt_token (sr_hook_phase (snd item))"

definition stored_hook :: "(string \<times> suite_item_row) list \<Rightarrow> string \<Rightarrow> (string \<times> suite_item_row) option" where
  "stored_hook items phase =
     map_of (rev (map (\<lambda>i. (stored_phase i, i)) (filter (\<lambda>i. stored_phase i \<noteq> []) items))) phase"

definition plan_stored_hook ::
  "(nat \<Rightarrow> string) \<Rightarrow> constant_db \<Rightarrow> string \<Rightarrow> (string \<times> suite_item_row) option \<Rightarrow> string \<Rightarrow> def_map \<Rightarrow> def_map \<Rightarrow>
     ((string \<times> definition_row) list \<times> def_map) result" where
  "plan_stored_hook uid db sid item sec visible otherwise =
     (case item of None \<Rightarrow> Inr ([], otherwise) | Some i \<Rightarrow> plan_stored_item uid db sid i sec visible)"

fun plan_stored_tests ::
  "(nat \<Rightarrow> string) \<Rightarrow> constant_db \<Rightarrow> string \<Rightarrow> (string \<times> suite_item_row) list \<Rightarrow> def_map \<Rightarrow>
     (string \<times> definition_row) list result" where
  "plan_stored_tests uid db sid [] visible = Inr []"
| "plan_stored_tests uid db sid (t # ts) visible =
     rbind (plan_stored_item uid db sid t SECTION_TEST visible) (\<lambda>(es, _).
     rbind (plan_stored_tests uid db sid ts visible) (\<lambda>es2. Inr (es @ es2)))"

definition suite_entities ::
  "(nat \<Rightarrow> string) \<Rightarrow> constant_db \<Rightarrow> string \<Rightarrow> (string \<times> definition_row) list result" where
  "suite_entities uid db sid =
     (let items = get_all_by_suite_id sid (cd_items db);
          hook = stored_hook items;
          tests = filter (\<lambda>i. stored_phase i = []) items
      in
      rbind (plan_stored_hook uid db sid (hook ''before-all'') SECTION_BEFORE_ALL [] []) (\<lambda>(e1, before_all).
      rbind (plan_stored_hook uid db sid (hook ''before-each'') SECTION_BEFORE_EACH before_all before_all)
        (\<lambda>(e2, before_each).
      rbind (plan_stored_tests uid db sid tests before_each) (\<lambda>e3.
      rbind (plan_stored_hook uid db sid (hook ''after-each'') SECTION_AFTER_EACH before_each []) (\<lambda>(e4, _).
      rbind (plan_stored_hook uid db sid (hook ''after-all'') SECTION_AFTER_ALL before_all []) (\<lambda>(e5, _).
      Inr (e1 @ e2 @ e3 @ e4 @ e5)))))))"

definition rebuild_suite_constant_definitions ::
  "(nat \<Rightarrow> string) \<Rightarrow> string \<Rightarrow> constant_db \<Rightarrow> constant_db result" where
  "rebuild_suite_constant_definitions uid sid db =
     (let t = snd (delete_by_suite_id sid (cd_definitions db)) in
      rbind (suite_entities uid db sid) (\<lambda>es.
      rbind (persist_definition_entities es t) (\<lambda>t1. Inr (db\<lparr>cd_definitions := t1\<rparr>))))"

definition resolve_definition_path ::
  "constant_db \<Rightarrow> string \<Rightarrow> (definition_row \<times> string) result" where
  "resolve_definition_path db i =
     (case get_by_id i (cd_definitions db) of
        None \<Rightarrow> Inl (ValueError (''Constant definition '' @ quoted i @ '' not found.''))
      | Some r \<Rightarrow> Inr (r, ''$.'' @ df_context_scope r @ ''.constants.'' @ df_name r))"

definition section_scope_to_execution_scope :: "(string \<times> string) list" where
  "section_scope_to_execution_scope =
     [(SECTION_BEFORE_ALL, ''hook.beforeAll''), (SECTION_BEFORE_EACH, ''hook.beforeEach''),
      (SECTION_TEST, ''test''), (SECTION_AFTER_EACH, ''hook.afterEach''),
      (SECTION_AFTER_ALL, ''hook.afterAll''), (SECTION_MOCK_PRE, ''mock.preResponse''),
      (SECTION_MOCK_POST, ''mock.postResponse'')]"

definition resolve_execution_scope_for_section :: "string \<Rightarrow> string option" where
  "resolve_execution_scope_for_section sec = map_of section_scope_to_execution_scope sec"

end
