(* ===== verification/Planner_Facts.thy ===== *)
theory Planner_Facts
  imports Constant_Planner
begin

section \<open>What an accepted plan guarantees\<close>

text \<open>
  \<open>lifetime\<close> is the abstract view of a section: which definition an id denotes after a
  prefix of the commands, when a declaration binds its id and a delete unbinds it. The planner's
  dictionary, with its deleted entries and its order numbers, refines it.
\<close>

definition declare_all :: "planned_definition list \<Rightarrow> (string \<rightharpoonup> planned_definition) \<Rightarrow> string \<rightharpoonup> planned_definition" where
  "declare_all ds m = fold (\<lambda>d m. m(pd_definition_id d \<mapsto> d)) ds m"

definition lifetime_step ::
  "string \<Rightarrow> command_input \<Rightarrow> (string \<rightharpoonup> planned_definition) \<Rightarrow> string \<rightharpoonup> planned_definition" where
  "lifetime_step sec c m =
     (case convert_to_config_command_type (ci_cfg c) of
        Inl e \<Rightarrow> m
      | Inr cfg \<Rightarrow>
          (case cfg of
             DeleteConstantDto dc \<Rightarrow> m(dc_targetConstantRef dc := None)
           | _ \<Rightarrow> declare_all (planned_declarations cfg (ci_command_id c) (ci_command_order c) sec) m))"

fun lifetime ::
  "string \<Rightarrow> command_input list \<Rightarrow> (string \<rightharpoonup> planned_definition) \<Rightarrow> string \<rightharpoonup> planned_definition" where
  "lifetime sec [] m = m"
| "lifetime sec (c # cs) m = lifetime sec cs (lifetime_step sec c m)"

definition live_map :: "def_map \<Rightarrow> string \<rightharpoonup> planned_definition" where
  "live_map defs r =
     (case map_of defs r of None \<Rightarrow> None
      | Some d \<Rightarrow> if pd_deleted_at_order d = None then Some d else None)"

definition all_scopes :: "string list" where
  "all_scopes = [''runEnvelope'', ''global'', ''local'', ''result'']"

definition bounded_by :: "int \<Rightarrow> def_map \<Rightarrow> bool" where
  "bounded_by n defs \<longleftrightarrow> distinct (map fst defs) \<and>
     (\<forall>(k, d) \<in> set defs. pd_command_order d \<le> n \<and> pd_context_scope d \<in> set all_scopes \<and>
        (\<forall>x. pd_deleted_at_order d = Some x \<longrightarrow> x \<le> n))"

definition unique_names :: "(string \<rightharpoonup> planned_definition) \<Rightarrow> bool" where
  "unique_names m \<longleftrightarrow>
     (\<forall>i j d e. m i = Some d \<longrightarrow> m j = Some e \<longrightarrow> i \<noteq> j \<longrightarrow>
        (pd_name d, pd_context_scope d) \<noteq> (pd_name e, pd_context_scope e))"

subsection \<open>Single steps\<close>

lemma planned_declarations_cases:
  obtains "planned_declarations cfg cid ord sec = []"
  | d where "planned_declarations cfg cid ord sec = [d]" and "pd_deleted_at_order d = None"
    and "pd_command_order d = ord" and "pd_command_id d = cid" and "pd_section_type d = sec"
  by (cases cfg) (force simp: planned_declarations_def split: option.splits)+

lemma live_map_dset_live:
  "pd_deleted_at_order d = None \<Longrightarrow> live_map (dset k d defs) = (live_map defs)(k \<mapsto> d)"
  by (rule ext) (simp add: live_map_def update_conv')

lemma live_map_dset_dead:
  "pd_deleted_at_order d \<noteq> None \<Longrightarrow> live_map (dset k d defs) = (live_map defs)(k := None)"
  by (rule ext) (auto simp: live_map_def update_conv')

lemma map_of_filter_value:
  "distinct (map fst xs) \<Longrightarrow> map_of (filter (\<lambda>(k, d). P d) xs) r =
     (case map_of xs r of None \<Rightarrow> None | Some d \<Rightarrow> if P d then Some d else None)"
  by (induction xs) (auto simp: map_of_eq_None_iff split: option.splits)

lemma active_lookup:
  assumes "distinct (map fst defs)"
  shows "map_of (active_definitions defs scopes ord) r =
    (case map_of defs r of None \<Rightarrow> None | Some d \<Rightarrow> if is_active scopes ord d then Some d else None)"
  using assms by (simp add: active_definitions_def map_of_filter_value)

lemma check_refs_Inr:
  "check_refs code sec active rrs = Inr u \<longleftrightarrow> list_all (\<lambda>rr. check_ref code sec active rr = Inr ()) rrs"
  by (induction rrs) (auto simp: rbind_Inr_iff)

lemma check_ref_Inr:
  "check_ref code sec active rr = Inr u \<longleftrightarrow>
     (\<exists>d. map_of active (snd rr) = Some d \<and>
       (lookup_scopes type_compatibility code = [] \<or>
         pd_value_type d \<in> set (lookup_scopes type_compatibility code)) \<and>
       (fst rr = ''target'' \<longrightarrow> pd_context_scope d \<in> set (writable_scopes sec)))"
  by (auto simp: check_ref_def rbind_guard_Inr split: option.splits)

lemma plan_stepE:
  assumes "plan_step sec c defs = Inr (ds, defs1)"
  obtains (delete) cfg dc d where "convert_to_config_command_type (ci_cfg c) = Inr cfg"
      and "validate_ref_visibility cfg sec (ci_command_order c) defs = Inr ()"
      and "cfg = DeleteConstantDto dc" and "map_of defs (dc_targetConstantRef dc) = Some d"
      and "ds = []"
      and "defs1 = dset (dc_targetConstantRef dc) (d\<lparr>pd_deleted_at_order := Some (ci_command_order c)\<rparr>) defs"
  | (binding) cfg where "convert_to_config_command_type (ci_cfg c) = Inr cfg"
      and "validate_ref_visibility cfg sec (ci_command_order c) defs = Inr ()"
      and "\<And>dc. cfg \<noteq> DeleteConstantDto dc"
      and "ds = planned_declarations cfg (ci_command_id c) (ci_command_order c) sec"
      and "check_declarations sec (active_definitions defs all_scopes (ci_command_order c + 1)) ds = Inr ()"
      and "defs1 = add_definitions ds defs"
proof -
  from assms obtain cfg where c: "convert_to_config_command_type (ci_cfg c) = Inr cfg"
      "validate_ref_visibility cfg sec (ci_command_order c) defs = Inr ()"
    and r: "(case cfg of
       DeleteConstantDto dc \<Rightarrow>
         (case map_of defs (dc_targetConstantRef dc) of
            None \<Rightarrow> Inl (ValueError (''Constant reference '' @ quoted (dc_targetConstantRef dc) @
                      '' is not visible for deleteConstant.''))
          | Some d \<Rightarrow>
              Inr ([], dset (dc_targetConstantRef dc)
                         (d\<lparr>pd_deleted_at_order := Some (ci_command_order c)\<rparr>) defs))
     | _ \<Rightarrow>
         rbind (validate_declarations cfg sec (ci_command_order c) defs (ci_command_id c)) (\<lambda>ds.
         Inr (ds, add_definitions ds defs))) = Inr (ds, defs1)"
    unfolding plan_step_def by (elim rbindE) simp
  show ?thesis
  proof (cases "\<exists>dc. cfg = DeleteConstantDto dc")
    case True
    then show ?thesis using delete c r by (auto split: option.splits)
  next
    case False
    then have "rbind (validate_declarations cfg sec (ci_command_order c) defs (ci_command_id c)) (\<lambda>ds.
         Inr (ds, add_definitions ds defs)) = Inr (ds, defs1)"
      using r by (cases cfg) auto
    then have "ds = planned_declarations cfg (ci_command_id c) (ci_command_order c) sec"
      "check_declarations sec (active_definitions defs all_scopes (ci_command_order c + 1)) ds = Inr ()"
      "defs1 = add_definitions ds defs"
      by (auto simp: validate_declarations_def Let_def all_scopes_def rbind_Inr_iff)
    then show ?thesis using binding c False by blast
  qed
qed

lemma plan_step_refines:
  assumes "plan_step sec c defs = Inr (ds, defs1)"
  shows "live_map defs1 = lifetime_step sec c (live_map defs)"
  using assms
proof (cases rule: plan_stepE)
  case (delete cfg dc d)
  then show ?thesis by (simp add: lifetime_step_def live_map_dset_dead)
next
  case (binding cfg)
  have "lifetime_step sec c (live_map defs) = declare_all ds (live_map defs)"
    using binding by (cases cfg) (auto simp: lifetime_step_def)
  then show ?thesis
    using binding
    by (cases rule: planned_declarations_cases [of cfg "ci_command_id c" "ci_command_order c" sec])
      (auto simp: declare_all_def add_definitions_def live_map_dset_live)
qed

lemma plan_loop_refines:
  "plan_loop sec cs defs = Inr (ds, defs1) \<Longrightarrow> live_map defs1 = lifetime sec cs (live_map defs)"
proof (induction cs arbitrary: defs ds)
  case (Cons c cs)
  then show ?case by (auto elim!: rbindE dest: plan_step_refines)
qed simp

lemma plan_loop_append:
  "plan_loop sec (as @ bs) defs =
     rbind (plan_loop sec as defs) (\<lambda>(ds, defs1).
     rbind (plan_loop sec bs defs1) (\<lambda>(ds2, defs2). Inr (ds @ ds2, defs2)))"
proof (induction as arbitrary: defs)
  case Nil
  show ?case by (cases "plan_loop sec bs defs") auto
next
  case (Cons c cs)
  then show ?case by (auto simp: rbind_def split: sum.splits)
qed

subsection \<open>Bounds and names\<close>

lemma set_dset: "distinct (map fst xs) \<Longrightarrow> set (dset k v xs) = {(k, v)} \<union> {p \<in> set xs. fst p \<noteq> k}"
  by (induction xs) force+

lemma bounded_byD:
  assumes "bounded_by n defs" and "map_of defs r = Some d"
  shows "pd_command_order d \<le> n" and "pd_context_scope d \<in> set all_scopes"
    and "pd_deleted_at_order d = Some x \<Longrightarrow> x \<le> n"
  using assms(1) map_of_SomeD [OF assms(2)] unfolding bounded_by_def by fastforce+

lemma bounded_by_mono: "bounded_by n defs \<Longrightarrow> n \<le> m \<Longrightarrow> bounded_by m defs"
  unfolding bounded_by_def by force

lemma bounded_by_dset:
  assumes "bounded_by n defs" and "pd_command_order d \<le> n" and "pd_context_scope d \<in> set all_scopes"
    and "\<And>x. pd_deleted_at_order d = Some x \<Longrightarrow> x \<le> n"
  shows "bounded_by n (dset k d defs)"
  using assms unfolding bounded_by_def by (auto simp: set_dset distinct_update)

lemma writable_all: "s \<in> set (writable_scopes sec) \<Longrightarrow> s \<in> set all_scopes"
  by (auto simp: lookup_scopes_def writable_scopes_table_def all_scopes_def split: option.splits if_splits)

lemma check_single:
  "check_declarations sec active [d] = Inr u \<longleftrightarrow>
     pd_context_scope d \<in> set (writable_scopes sec) \<and>
     \<not> list_ex (\<lambda>(k, e). pd_name e = pd_name d \<and> pd_context_scope e = pd_context_scope d) active"
  by (simp add: rbind_guard_Inr validate_duplicate_name_def)

text \<open>With everything at most at the current order, what is active one order later is what is alive.\<close>

lemma active_is_live:
  assumes "bounded_by n defs"
  shows "map_of (active_definitions defs all_scopes (n + 1)) r = live_map defs r"
proof -
  have "distinct (map fst defs)" using assms by (simp add: bounded_by_def)
  then show ?thesis
    using bounded_byD [OF assms]
    by (subst active_lookup) (fastforce simp: live_map_def is_active_def split: option.splits)+
qed

lemma active_distinct:
  "distinct (map fst defs) \<Longrightarrow> distinct (map fst (active_definitions defs scopes ord))"
  by (simp add: active_definitions_def distinct_map_filter)

lemma unique_names_upd:
  assumes "unique_names m"
    and "\<And>k e. m k = Some e \<Longrightarrow> (pd_name e, pd_context_scope e) \<noteq> (pd_name d, pd_context_scope d)"
  shows "unique_names (m(i \<mapsto> d))"
  unfolding unique_names_def
proof (intro allI impI)
  fix j k x y
  assume m: "(m(i \<mapsto> d)) j = Some x" "(m(i \<mapsto> d)) k = Some y" "j \<noteq> k"
  show "(pd_name x, pd_context_scope x) \<noteq> (pd_name y, pd_context_scope y)"
  proof (cases "j = i \<or> k = i")
    case True
    then show ?thesis using m assms(2) by (elim disjE) force+
  next
    case False
    then show ?thesis using m assms(1) unfolding unique_names_def by (metis fun_upd_other)
  qed
qed

lemma plan_step_invariant:
  assumes "plan_step sec c defs = Inr (ds, defs1)" and "bounded_by (ci_command_order c) defs"
    and "unique_names (live_map defs)"
  shows "bounded_by (ci_command_order c) defs1 \<and> unique_names (live_map defs1)"
  using assms(1)
proof (cases rule: plan_stepE)
  case (delete cfg dc d)
  have "unique_names ((live_map defs)(dc_targetConstantRef dc := None))"
    using assms(3) by (auto simp: unique_names_def)
  then show ?thesis
    using delete bounded_byD [OF assms(2) delete(4)]
    by (auto simp: live_map_dset_dead intro!: bounded_by_dset [OF assms(2)])
next
  case (binding cfg)
  show ?thesis
  proof (cases rule: planned_declarations_cases [of cfg "ci_command_id c" "ci_command_order c" sec])
    case 1
    then show ?thesis using binding assms by (simp add: add_definitions_def)
  next
    case (2 d)
    let ?act = "active_definitions defs all_scopes (ci_command_order c + 1)"
    have ds: "ds = [d]" using binding(4) 2(1) by (simp only:)
    then have w: "pd_context_scope d \<in> set (writable_scopes sec)"
      and new: "\<not> list_ex (\<lambda>(k, e). pd_name e = pd_name d \<and> pd_context_scope e = pd_context_scope d) ?act"
      using binding(5) unfolding ds check_single by blast+
    have defs1: "defs1 = dset (pd_definition_id d) d defs"
      using binding(6) ds by (simp add: add_definitions_def)
    have "(pd_name e, pd_context_scope e) \<noteq> (pd_name d, pd_context_scope d)"
      if "live_map defs k = Some e" for k e
      using new that active_is_live [OF assms(2), of k] map_of_SomeD [of ?act k e]
      by (auto simp: list_ex_iff)
    with assms(3) have "unique_names ((live_map defs)(pd_definition_id d \<mapsto> d))"
      by (rule unique_names_upd)
    then show ?thesis
      using 2 defs1 w writable_all assms(2)
      by (auto simp: live_map_dset_live intro!: bounded_by_dset)
  qed
qed

lemma plan_loop_invariant:
  assumes "plan_loop sec cs defs = Inr (ds, defs1)" and "sorted (map ci_command_order cs)"
    and "bounded_by n defs" and "\<And>c. c \<in> set cs \<Longrightarrow> n \<le> ci_command_order c"
    and "unique_names (live_map defs)"
  shows "unique_names (live_map defs1) \<and> (\<exists>m. bounded_by m defs1 \<and>
    (\<forall>k. (\<forall>c \<in> set cs. ci_command_order c \<le> k) \<longrightarrow> n \<le> k \<longrightarrow> m \<le> k))"
  using assms
proof (induction cs arbitrary: defs ds n)
  case Nil
  then show ?case by auto
next
  case (Cons c cs)
  from Cons.prems(1) obtain ds1 d1 ds2 where
    s: "plan_step sec c defs = Inr (ds1, d1)" and l: "plan_loop sec cs d1 = Inr (ds2, defs1)"
    by (auto elim!: rbindE)
  have b: "bounded_by (ci_command_order c) defs"
    using bounded_by_mono [OF Cons.prems(3)] Cons.prems(4) by simp
  from plan_step_invariant [OF s b Cons.prems(5)]
  have i: "bounded_by (ci_command_order c) d1" "unique_names (live_map d1)" by auto
  from Cons.IH [OF l _ i(1) _ i(2)] Cons.prems(2) show ?case by (auto simp: sorted_wrt_map)
qed

lemma sorted_commands: "sorted (map ci_command_order (sort_commands cs))"
proof -
  have s: "sorted_wrt (\<lambda>c d. (ci_command_order c, ci_command_id c) \<le> (ci_command_order d, ci_command_id d))
      (sort_commands cs)"
    using sorted_sort_key [of "\<lambda>c. (ci_command_order c, ci_command_id c)" cs]
    unfolding sort_commands_def sorted_wrt_map .
  have le: "(a, b) \<le> (c, d) \<Longrightarrow> a \<le> c" for a c :: int and b d :: string
    unfolding less_eq_prod_simp by linarith
  show ?thesis
    unfolding sorted_wrt_map by (rule sorted_wrt_mono_rel [OF _ s]) (erule le)
qed

lemma carried_live:
  "distinct (map fst init) \<Longrightarrow> live_map (carry_over_visible_map init) r =
     map_option (\<lambda>d. d\<lparr>pd_command_order := 0\<rparr>) (live_map init r)"
  by (auto simp: live_map_def carry_over_visible_map_def map_of_map map_of_filter_value
      split: option.splits)

definition visible_scopes :: "def_map \<Rightarrow> bool" where
  "visible_scopes defs \<longleftrightarrow> distinct (map fst defs) \<and>
     list_all (\<lambda>(k, d). pd_context_scope d \<in> set all_scopes) defs"

lemma carried_bounded: "visible_scopes init \<Longrightarrow> bounded_by 0 (carry_over_visible_map init)"
  unfolding bounded_by_def carry_over_visible_map_def visible_scopes_def
  by (auto simp: list_all_iff comp_def split_def distinct_map_filter)

lemma carried_unique:
  assumes "visible_scopes init" and "unique_names (live_map init)"
  shows "unique_names (live_map (carry_over_visible_map init))"
  using assms unfolding unique_names_def visible_scopes_def
  by (fastforce simp: carried_live)

lemma accepted_plan:
  assumes "plan_definitions_for_commands uid raws sec init = Inr (ds, defs)"
    and "visible_scopes init" and "unique_names (live_map init)"
    and "command_inputs uid raws 1 0 = Inr cs" and "list_all (\<lambda>c. 0 \<le> ci_command_order c) cs"
    and "sort_commands cs = before @ rest"
  shows "\<exists>ds1 d1 ds2. plan_loop sec before (carry_over_visible_map init) = Inr (ds1, d1) \<and>
    plan_loop sec rest d1 = Inr (ds2, defs) \<and> ds = ds1 @ ds2 \<and>
    unique_names (live_map d1) \<and> (\<forall>c \<in> set rest. bounded_by (ci_command_order c) d1)"
proof -
  have sc: "set (sort_commands cs) = set cs" by (simp add: sort_commands_def)
  then have in_cs: "c \<in> set before \<union> set rest \<Longrightarrow> c \<in> set cs" for c
    using assms(6) by (metis set_append)
  have so: "sorted (map ci_command_order (before @ rest))"
    using sorted_commands [of cs] unfolding assms(6) .
  have "plan_loop sec (before @ rest) (carry_over_visible_map init) = Inr (ds, defs)"
    using assms(1,4,6) by (simp add: plan_definitions_for_commands_def)
  then obtain ds1 d1 ds2 where l: "plan_loop sec before (carry_over_visible_map init) = Inr (ds1, d1)"
    "plan_loop sec rest d1 = Inr (ds2, defs)" "ds = ds1 @ ds2"
    unfolding plan_loop_append by (auto elim!: rbindE)
  have nn: "0 \<le> ci_command_order c" if "c \<in> set before \<union> set rest" for c
    using in_cs [OF that] assms(5) by (simp add: list_all_iff)
  from plan_loop_invariant [OF l(1) _ carried_bounded [OF assms(2)] _ carried_unique [OF assms(2,3)]] so nn
  obtain m where m: "unique_names (live_map d1)" "bounded_by m d1"
    "\<forall>k. (\<forall>c \<in> set before. ci_command_order c \<le> k) \<longrightarrow> 0 \<le> k \<longrightarrow> m \<le> k"
    by (auto simp: sorted_append)
  have "bounded_by (ci_command_order c) d1" if "c \<in> set rest" for c
    using bounded_by_mono [OF m(2)] m(3) so that nn by (auto simp: sorted_append)
  with l m(1) show ?thesis by blast
qed

subsection \<open>Properties\<close>

text \<open>
  C20. Soundness of the static check: when the planner accepts a section, every reference of
  every command denotes, at that point of the ordered commands, a definition that an earlier
  command declared (or that was carried over) and that no command deleted since; it was declared
  at a strictly smaller order, its scope is readable in the section, its type suits the command,
  and the target of a delete is in a writable scope.
\<close>

theorem plan_refs_sound:
  assumes "plan_definitions_for_commands uid raws sec init = Inr (ds, defs)"
    and "visible_scopes init" and "unique_names (live_map init)"
    and "command_inputs uid raws 1 0 = Inr cs" and "list_all (\<lambda>c. 0 \<le> ci_command_order c) cs"
    and "sort_commands cs = before @ c # after"
    and "convert_to_config_command_type (ci_cfg c) = Inr cfg"
    and "(role, r) \<in> set (definition_refs cfg)"
  shows "\<exists>d. lifetime sec before (live_map (carry_over_visible_map init)) r = Some d \<and>
    pd_command_order d < ci_command_order c \<and>
    pd_context_scope d \<in> set (readable_scopes sec) \<and>
    (lookup_scopes type_compatibility (dto_commandCode cfg) = [] \<or>
      pd_value_type d \<in> set (lookup_scopes type_compatibility (dto_commandCode cfg))) \<and>
    (role = ''target'' \<longrightarrow> pd_context_scope d \<in> set (writable_scopes sec))"
proof -
  from accepted_plan [OF assms(1-6)] obtain ds1 d1 ds2 where
    l: "plan_loop sec before (carry_over_visible_map init) = Inr (ds1, d1)"
      "plan_loop sec (c # after) d1 = Inr (ds2, defs)"
    and b: "bounded_by (ci_command_order c) d1" by auto
  from l(2) obtain s where "plan_step sec c d1 = Inr s" by (auto elim!: rbindE)
  then have v: "validate_ref_visibility cfg sec (ci_command_order c) d1 = Inr ()"
    using assms(7) by (cases s) (auto elim: plan_stepE)
  have dist: "distinct (map fst d1)" using b by (simp add: bounded_by_def)
  from v assms(8) obtain d where
    d: "map_of (active_definitions d1 (readable_scopes sec) (ci_command_order c)) r = Some d"
    "lookup_scopes type_compatibility (dto_commandCode cfg) = [] \<or>
      pd_value_type d \<in> set (lookup_scopes type_compatibility (dto_commandCode cfg))"
    "role = ''target'' \<longrightarrow> pd_context_scope d \<in> set (writable_scopes sec)"
    unfolding validate_ref_visibility_def check_refs_Inr list_all_iff check_ref_Inr by fastforce
  then have a: "map_of d1 r = Some d" "is_active (readable_scopes sec) (ci_command_order c) d"
    unfolding active_lookup [OF dist] by (auto split: option.splits if_splits)
  have "pd_deleted_at_order d = None"
    using a bounded_byD(3) [OF b a(1)] by (force simp: is_active_def split: option.splits)
  then have "live_map d1 r = Some d" using a(1) by (simp add: live_map_def)
  then show ?thesis
    using a(2) d plan_loop_refines [OF l(1)] by (auto simp: is_active_def)
qed

text \<open>
  After an accepted section no two live definitions have the same name in the same scope, so
  a constant path denotes one definition.
\<close>

theorem plan_unique_names:
  assumes "plan_definitions_for_commands uid raws sec init = Inr (ds, defs)"
    and "visible_scopes init" and "unique_names (live_map init)"
    and "command_inputs uid raws 1 0 = Inr cs" and "list_all (\<lambda>c. 0 \<le> ci_command_order c) cs"
  shows "unique_names (live_map defs) \<and>
    live_map defs = lifetime sec (sort_commands cs) (live_map (carry_over_visible_map init))"
proof -
  from accepted_plan [OF assms, of "sort_commands cs" "[]"] show ?thesis
    using plan_loop_refines by auto
qed

lemma check_declarations_writable:
  "check_declarations sec active ds = Inr u \<Longrightarrow>
     list_all (\<lambda>d. pd_context_scope d \<in> set (writable_scopes sec)) ds"
  by (induction sec active ds rule: check_declarations.induct) (auto simp: rbind_guard_Inr rbind_Inr_iff)

lemma plan_step_planned:
  assumes "plan_step sec c defs = Inr (ds, defs1)"
  shows "list_all (\<lambda>d. pd_context_scope d \<in> set (writable_scopes sec) \<and> pd_section_type d = sec \<and>
    pd_command_id d = ci_command_id c \<and> pd_command_order d = ci_command_order c \<and>
    pd_deleted_at_order d = None) ds"
  using assms
proof (cases rule: plan_stepE)
  case (binding cfg)
  from check_declarations_writable [OF binding(5)] binding(4) show ?thesis
    by (cases rule: planned_declarations_cases [of cfg "ci_command_id c" "ci_command_order c" sec]) auto
qed simp

text \<open>
  Everything an accepted section plans to persist is a declaration of one of its commands,
  carries that command's id and order, and lies in a scope the section may write. None of it
  carries a deletion order: the delete command marks a copy, so \<open>deleted_at_order\<close> of the stored
  definition is always empty.
\<close>

theorem planned_declarations_persisted:
  assumes "plan_definitions_for_commands uid raws sec init = Inr (ds, defs)"
    and "command_inputs uid raws 1 0 = Inr cs"
  shows "list_all (\<lambda>d. pd_context_scope d \<in> set (writable_scopes sec) \<and> pd_section_type d = sec \<and>
    pd_deleted_at_order d = None \<and>
    list_ex (\<lambda>c. pd_command_id d = ci_command_id c \<and> pd_command_order d = ci_command_order c) cs) ds"
proof -
  have loop: "plan_loop sec xs defs0 = Inr (ds, defs) \<Longrightarrow>
      list_all (\<lambda>d. pd_context_scope d \<in> set (writable_scopes sec) \<and> pd_section_type d = sec \<and>
        pd_deleted_at_order d = None \<and>
        list_ex (\<lambda>c. pd_command_id d = ci_command_id c \<and> pd_command_order d = ci_command_order c) xs) ds"
    for xs defs0 ds
  proof (induction xs arbitrary: defs0 ds)
    case (Cons c xs)
    from Cons.prems obtain a d1 b where s: "plan_step sec c defs0 = Inr (a, d1)"
      "plan_loop sec xs d1 = Inr (b, defs)" "ds = a @ b" by (auto elim!: rbindE)
    from plan_step_planned [OF s(1)] Cons.IH [OF s(2)] s(3) show ?case
      by (auto simp: list_all_iff)
  qed simp
  have "set (sort_commands cs) = set cs" by (simp add: sort_commands_def)
  then have "list_ex P (sort_commands cs) = list_ex P cs" for P by (simp add: list_ex_iff)
  then show ?thesis
    using loop [of "sort_commands cs" "carry_over_visible_map init" ds] assms
    by (simp add: plan_definitions_for_commands_def)
qed

subsection \<open>Witnesses\<close>

definition example_uid :: "nat \<Rightarrow> string" where
  "example_uid n = ''uid-'' @ show_nat n"

definition example_commands :: "pydict list" where
  "example_commands =
     [[(''id'', PStr ''c2''), (''order'', PInt 2), (''cfg'', PDict
         [(''commandCode'', PStr ''jsonEmpty''),
          (''actualConstantRef'', PDict [(''definitionId'', PStr ''d1'')])])],
      [(''id'', PStr ''c1''), (''order'', PInt 1), (''cfg'', PDict
         [(''commandCode'', PStr ''initConstant''), (''definitionId'', PStr ''d1''),
          (''name'', PStr ''orders''), (''context'', PStr ''local''), (''value'', PDict [])])]]"

definition example_d1 :: planned_definition where
  "example_d1 = \<lparr>pd_definition_id = ''d1'', pd_command_id = ''c1'', pd_command_order = 1,
     pd_section_type = ''test'', pd_name = ''orders'', pd_context_scope = ''local'',
     pd_value_type = ''json'', pd_deleted_at_order = None\<rparr>"

lemma example_plan:
  "plan_definitions_for_commands example_uid example_commands ''test'' [] =
     Inr ([example_d1], [(''d1'', example_d1)])"
  by code_simp

definition example_c1 :: command_input where
  "example_c1 = \<lparr>ci_command_id = ''c1'', ci_command_order = 1,
     ci_cfg = [(''commandCode'', PStr ''initConstant''), (''definitionId'', PStr ''d1''),
          (''name'', PStr ''orders''), (''context'', PStr ''local''), (''value'', PDict [])]\<rparr>"

definition example_c2 :: command_input where
  "example_c2 = \<lparr>ci_command_id = ''c2'', ci_command_order = 2,
     ci_cfg = [(''commandCode'', PStr ''jsonEmpty''),
          (''actualConstantRef'', PDict [(''definitionId'', PStr ''d1'')])]\<rparr>"

lemma example_inputs: "command_inputs example_uid example_commands 1 0 = Inr [example_c2, example_c1]"
  by code_simp

lemma example_sorted: "sort_commands [example_c2, example_c1] = [example_c1] @ example_c2 # []"
  by (simp add: sort_commands_def example_c1_def example_c2_def insort_key.simps)

lemma example_init: "visible_scopes []" "unique_names (live_map [])"
  by (simp_all add: visible_scopes_def unique_names_def live_map_def)

lemma example_orders: "list_all (\<lambda>c. 0 \<le> ci_command_order c) [example_c2, example_c1]"
  by (simp add: example_c1_def example_c2_def)

lemma example_c2_cfg:
  "\<exists>cfg. convert_to_config_command_type (ci_cfg example_c2) = Inr cfg \<and>
     definition_refs cfg = [(''actual'', ''d1'')]"
proof -
  have "(case convert_to_config_command_type (ci_cfg example_c2) of
      Inr cfg \<Rightarrow> definition_refs cfg = [(''actual'', ''d1'')] | Inl e \<Rightarrow> False)"
    by code_simp
  then show ?thesis by (auto split: sum.splits)
qed

lemma plan_refs_sound_witness:
  "\<exists>d. lifetime ''test'' [example_c1] (live_map (carry_over_visible_map [])) ''d1'' = Some d \<and>
     pd_command_order d < ci_command_order example_c2"
proof -
  obtain cfg where cfg: "convert_to_config_command_type (ci_cfg example_c2) = Inr cfg"
    "definition_refs cfg = [(''actual'', ''d1'')]" using example_c2_cfg by blast
  show ?thesis
    using plan_refs_sound [OF example_plan example_init example_inputs example_orders
        example_sorted cfg(1), of "''actual''" "''d1''"] cfg(2) by auto
qed

lemma plan_unique_names_witness: "unique_names (live_map [(''d1'', example_d1)])"
  using plan_unique_names [OF example_plan example_init example_inputs example_orders] by blast

lemma planned_declarations_persisted_witness:
  "pd_context_scope example_d1 \<in> set (writable_scopes ''test'')"
  using planned_declarations_persisted [OF example_plan example_inputs] by simp

end
