(* ===== verification/Registry_Facts.thy ===== *)
theory Registry_Facts
  imports Constant_Registry Planner_Facts
begin

section \<open>Rebuilding the definitions of a suite\<close>

text \<open>
  Rebuilding the stored definitions of a suite replaces exactly that suite's rows, gives every
  command the path the planner computed, and succeeds exactly when planning does and the ids
  are new.
\<close>

lemma entity_suite: "(i, r) \<in> set (map (definition_entity ow (Some sid) it ap qu) ds) \<Longrightarrow> df_suite_id r = Some sid"
  by (auto simp: definition_entity_def)

definition all_of_suite :: "string \<Rightarrow> (string \<times> definition_row) list \<Rightarrow> bool" where
  "all_of_suite sid es = list_all (\<lambda>(i, r). df_suite_id r = Some sid) es"

lemma all_of_suite_append [simp]:
  "all_of_suite sid (xs @ ys) \<longleftrightarrow> all_of_suite sid xs \<and> all_of_suite sid ys"
  "all_of_suite sid []"
  by (simp_all add: all_of_suite_def)

lemma plan_stored_item_suite: "plan_stored_item uid db sid it sec v = Inr (es, d) \<Longrightarrow> all_of_suite sid es"
  by (auto simp: plan_stored_item_def all_of_suite_def list_all_iff definition_entity_def elim!: rbindE)

lemma plan_stored_hook_suite: "plan_stored_hook uid db sid it sec v w = Inr (es, d) \<Longrightarrow> all_of_suite sid es"
  by (auto simp: plan_stored_hook_def plan_stored_item_suite split: option.splits)

lemma plan_stored_tests_suite: "plan_stored_tests uid db sid ts v = Inr es \<Longrightarrow> all_of_suite sid es"
  by (induction ts arbitrary: es) (auto simp: plan_stored_item_suite elim!: rbindE)

lemma suite_entities_suite: "suite_entities uid db sid = Inr es \<Longrightarrow> all_of_suite sid es"
  unfolding suite_entities_def Let_def
  by (elim rbindE) (auto elim!: rbindE simp: plan_stored_hook_suite plan_stored_tests_suite)

lemma suite_entities_definitions:
  "suite_entities uid (db\<lparr>cd_definitions := t\<rparr>) sid = suite_entities uid db sid"
proof -
  have i: "plan_stored_item uid (db\<lparr>cd_definitions := t\<rparr>) sid it sec v = plan_stored_item uid db sid it sec v"
    for it sec v by (simp add: plan_stored_item_def)
  then have h: "plan_stored_hook uid (db\<lparr>cd_definitions := t\<rparr>) sid it sec v w =
      plan_stored_hook uid db sid it sec v w" for it sec v w
    by (simp add: plan_stored_hook_def split: option.splits)
  have "plan_stored_tests uid (db\<lparr>cd_definitions := t\<rparr>) sid ts v = plan_stored_tests uid db sid ts v" for ts v
    by (induction ts) (simp_all add: i)
  then show ?thesis by (simp add: suite_entities_def h)
qed

lemma persist_eq: "persist_definition_entities es t = inserts es t"
  by (simp add: persist_definition_entities_def)

lemma rebuild_Inr:
  "rebuild_suite_constant_definitions uid sid db = Inr db' \<longleftrightarrow>
     (\<exists>es t. suite_entities uid db sid = Inr es \<and>
       inserts es (snd (delete_by_suite_id sid (cd_definitions db))) = Inr t \<and>
       db' = db\<lparr>cd_definitions := t\<rparr>)"
  by (auto simp: rebuild_suite_constant_definitions_def Let_def persist_eq rbind_Inr_iff)

lemma kept_rows:
  "snd (delete_by_suite_id sid t) = filter (\<lambda>(i, r). df_suite_id r \<noteq> Some sid) t"
  by (simp add: delete_by_suite_id_def delete_where_def)

lemma filter_suite:
  assumes "all_of_suite sid es"
  shows "filter (\<lambda>(i, r). df_suite_id r \<noteq> Some sid) es = []"
    and "filter (\<lambda>(i, r). df_suite_id r = Some sid) es = es"
  using assms by (auto simp: all_of_suite_def list_all_iff filter_empty_conv intro!: filter_True)

text \<open>
  C22. A rebuild replaces exactly the rows of its suite: afterwards the definitions of the suite
  are those planned from its stored items, in that order, the rows of every other owner are
  untouched, and each planned definition resolves to the path of its scope and name.
\<close>

theorem rebuild_replaces_suite:
  assumes "rebuild_suite_constant_definitions uid sid db = Inr db'"
  shows "\<exists>es. suite_entities uid db sid = Inr es \<and>
    rows_where (\<lambda>r. df_suite_id r = Some sid) (cd_definitions db') = es \<and>
    rows_where (\<lambda>r. df_suite_id r \<noteq> Some sid) (cd_definitions db') =
      rows_where (\<lambda>r. df_suite_id r \<noteq> Some sid) (cd_definitions db) \<and>
    list_all (\<lambda>(i, r). resolve_definition_path db' i =
      Inr (r, ''$.'' @ df_context_scope r @ ''.constants.'' @ df_name r)) es"
proof -
  from assms obtain es t where e: "suite_entities uid db sid = Inr es"
    and t: "inserts es (snd (delete_by_suite_id sid (cd_definitions db))) = Inr t"
    and db': "db' = db\<lparr>cd_definitions := t\<rparr>"
    by (auto simp: rebuild_Inr)
  have app: "t = filter (\<lambda>(i, r). df_suite_id r \<noteq> Some sid) (cd_definitions db) @ es"
    using inserts_append [OF t] by (simp add: kept_rows)
  note f = filter_suite [OF suite_entities_suite [OF e]]
  have "\<exists>u. inserts es (snd (delete_by_suite_id sid (cd_definitions db))) = Inr u" using t by blast
  then have "distinct (map fst es)" unfolding inserts_iff by blast
  then have "get_by_id i t = Some r" if "(i, r) \<in> set es" for i r
    using get_inserts [OF t, of i] that by simp
  then show ?thesis
    using e f by (auto simp: db' app rows_where_def list_all_iff resolve_definition_path_def
        filter_empty_conv)
qed

text \<open>
  A rebuild succeeds exactly when every section of the suite is accepted by the planner and
  the definition ids are distinct and used by no other owner; and rebuilding again changes
  nothing.
\<close>

theorem rebuild_succeeds_iff:
  "(\<exists>db'. rebuild_suite_constant_definitions uid sid db = Inr db' \<and>
      rebuild_suite_constant_definitions uid sid db' = Inr db') =
   (\<exists>es. suite_entities uid db sid = Inr es \<and> distinct (map fst es) \<and>
      list_all (\<lambda>i. get_by_id i (rows_where (\<lambda>r. df_suite_id r \<noteq> Some sid) (cd_definitions db)) = None)
        (map fst es))"
  (is "?L = ?R")
proof -
  let ?kept = "filter (\<lambda>(i, r). df_suite_id r \<noteq> Some sid) (cd_definitions db)"
  have idem: "rebuild_suite_constant_definitions uid sid db' = Inr db'"
    if "rebuild_suite_constant_definitions uid sid db = Inr db'" for db'
  proof -
    from that obtain es t where e: "suite_entities uid db sid = Inr es"
      and t: "inserts es ?kept = Inr t" and db': "db' = db\<lparr>cd_definitions := t\<rparr>"
      by (auto simp: rebuild_Inr kept_rows)
    have "filter (\<lambda>(i, r). df_suite_id r \<noteq> Some sid) t = ?kept"
      using filter_suite(1) [OF suite_entities_suite [OF e]]
      by (simp add: inserts_append [OF t] split_def)
    then show ?thesis
      using e t by (auto simp: rebuild_Inr kept_rows db' suite_entities_definitions)
  qed
  have "?L = (\<exists>es. suite_entities uid db sid = Inr es \<and> (\<exists>t. inserts es ?kept = Inr t))"
    using idem by (auto simp: rebuild_Inr kept_rows)
  also have "\<dots> = ?R"
    unfolding inserts_iff by (auto simp: list_all_iff rows_where_def)
  finally show ?thesis .
qed

definition example_db :: constant_db where
  "example_db =
     \<lparr>cd_definitions = [],
      cd_items = [(''i1'', \<lparr>sr_test_suite_id = ''s1'', sr_kind = ''test'', sr_hook_phase = None,
                   sr_position = 1, sr_on_failure = ''ABORT'', sr_description = []\<rparr>)],
      cd_item_commands = [(''c1'', \<lparr>cw_owner_id = ''i1'', cw_order = 1,
        cw_command_code = ''initConstant'', cw_command_type = ''context'', cw_configuration = PDict [(''commandCode'', PStr ''initConstant''),
          (''definitionId'', PStr ''d1''), (''name'', PStr ''orders''), (''context'', PStr ''local''),
          (''value'', PDict [])], cw_description = []\<rparr>)]\<rparr>"

lemma rebuild_replaces_suite_witness:
  "\<exists>db'. rebuild_suite_constant_definitions example_uid ''s1'' example_db = Inr db' \<and>
     map fst (rows_where (\<lambda>r. df_suite_id r = Some ''s1'') (cd_definitions db')) = [''d1'']"
proof -
  have "(case rebuild_suite_constant_definitions example_uid ''s1'' example_db of
      Inr db' \<Rightarrow> True | Inl e \<Rightarrow> False)" by code_simp
  then obtain db' where db': "rebuild_suite_constant_definitions example_uid ''s1'' example_db = Inr db'"
    by (auto split: sum.splits)
  have "map_result id [suite_entities example_uid example_db ''s1''] =
      Inr [[(''d1'', snd (definition_entity ''suite'' (Some ''s1'') (Some ''i1'') None None example_d1))]]"
    by code_simp
  then have "suite_entities example_uid example_db ''s1'' =
      Inr [(''d1'', snd (definition_entity ''suite'' (Some ''s1'') (Some ''i1'') None None example_d1))]"
    by (auto elim!: rbindE)
  with rebuild_replaces_suite [OF db'] db' show ?thesis by auto
qed

end
