(* ===== verification/Asserts.thy ===== *)
theory Asserts
  imports Command_Convert Entity_Store "HOL-Library.Multiset"
begin

section \<open>Asserts on JSON data\<close>

text \<open>
  The evaluators of \<open>elaborations/services/asserts\<close>. An evaluator returns or raises; what it
  compares are JSON values. The stored json-arrays are the table of \<open>JsonPayloadEntity\<close>; the
  third-party validator of JSON schemas is the parameter \<open>schema_check\<close>, which answers with the
  message of a failed validation or of an invalid schema.
\<close>

datatype schema_verdict = SchemaOk | SchemaMismatch string | SchemaInvalid string

type_synonym schema_checker = "pydict \<Rightarrow> pydict \<Rightarrow> schema_verdict"

record json_payload_row =
  jp_json_type :: string
  jp_payload :: pyval

record assert_context =
  ax_payloads :: "json_payload_row table"
  ax_cfg :: assert_dto
  ax_data :: "pyval list"
  ax_actual :: pyval
  ax_expected :: pyval

subsection \<open>\<open>json.dumps\<close> with sorted keys\<close>

definition json_char :: "char \<Rightarrow> string" where
  "json_char c =
     (let n = code_of c in
      if n = 34 \<or> n = 92 then [CHR 0x5C, c]
      else if n = 8 then [CHR 0x5C, CHR ''b'']
      else if n = 9 then [CHR 0x5C, CHR ''t'']
      else if n = 10 then [CHR 0x5C, CHR ''n'']
      else if n = 12 then [CHR 0x5C, CHR ''f'']
      else if n = 13 then [CHR 0x5C, CHR ''r'']
      else if n < 32 \<or> 127 < n
      then [CHR 0x5C, CHR ''u'', CHR ''0'', CHR ''0'', hex_digit (n div 16), hex_digit (n mod 16)]
      else [c])"

definition json_string :: "string \<Rightarrow> string" where
  "json_string s = [CHR 0x22] @ concat (map json_char s) @ [CHR 0x22]"

fun serialize_value :: "pyval \<Rightarrow> string" where
  "serialize_value PNone = ''null''"
| "serialize_value (PBool b) = (if b then ''true'' else ''false'')"
| "serialize_value (PInt i) = show_int i"
| "serialize_value (PFloat q s) = s"
| "serialize_value (PStr s) = json_string s"
| "serialize_value (PList xs) = ''['' @ join '', '' (map serialize_value xs) @ '']''"
| "serialize_value (PDict d) =
     ''{'' @ join '', '' (map snd (sort_key fst
        (map (\<lambda>(k, v). (k, json_string k @ '': '' @ serialize_value v)) d))) @ ''}''"

subsection \<open>Shapes\<close>

fun rows_from :: "nat \<Rightarrow> string \<Rightarrow> pyval list \<Rightarrow> pydict list result" where
  "rows_from k label [] = Inr []"
| "rows_from k label (PDict d # xs) = rbind (rows_from (Suc k) label xs) (\<lambda>ds. Inr (d # ds))"
| "rows_from k label (x # xs) =
     Inl (ValueError (label @ '' item at index '' @ show_nat k @ '' must be a JSON object.''))"

definition normalize_rows :: "pyval \<Rightarrow> string \<Rightarrow> pydict list result" where
  "normalize_rows v label =
     (case v of PList xs \<Rightarrow> rows_from 0 label xs
      | _ \<Rightarrow> Inl (ValueError (label @ '' must be a JSON array.'')))"

definition normalize_json_object :: "pyval \<Rightarrow> string \<Rightarrow> pydict result" where
  "normalize_json_object v label =
     (case v of PDict d \<Rightarrow> Inr d | _ \<Rightarrow> Inl (ValueError (label @ '' must be a JSON object.'')))"

fun is_empty_json_value :: "pyval \<Rightarrow> bool" where
  "is_empty_json_value PNone = True"
| "is_empty_json_value (PDict d) = (d = [])"
| "is_empty_json_value (PList xs) = (xs = [])"
| "is_empty_json_value (PStr s) = (s = [])"
| "is_empty_json_value v = False"

definition missing_keys :: "string list \<Rightarrow> pydict \<Rightarrow> string list" where
  "missing_keys ks d = filter (\<lambda>k. \<not> dhas d k) ks"

definition row_key :: "string list \<Rightarrow> pydict \<Rightarrow> string list" where
  "row_key ks row = map (\<lambda>k. serialize_value (dget row k)) ks"

text \<open>\<open>_build_multiset\<close>: the keys counted by the \<open>Counter\<close>, as a multiset.\<close>

fun build_multiset :: "nat \<Rightarrow> pydict list \<Rightarrow> string list \<Rightarrow> string \<Rightarrow> string list multiset result" where
  "build_multiset k [] keys label = Inr {#}"
| "build_multiset k (row # rows) keys label =
     (if missing_keys keys row \<noteq> []
      then Inl (ValueError (label @ '' item at index '' @ show_nat k @ '' is missing compare_keys: '' @
                  py_repr (PList (map PStr (missing_keys keys row)))))
      else rbind (build_multiset (Suc k) rows keys label) (\<lambda>m. Inr (add_mset (row_key keys row) m)))"

definition load_expected_json_array_rows :: "assert_context \<Rightarrow> pydict list result" where
  "load_expected_json_array_rows cx =
     (let i = opt_token (as_expected_json_array_id (ax_cfg cx)) in
      rbind (guard (i \<noteq> []) (ValueError ''expected_json_array_id is required.'')) (\<lambda>_.
      case get_by_id i (ax_payloads cx) of
        None \<Rightarrow> Inl (ValueError (''Expected json-array '' @ quoted i @ '' not found.''))
      | Some e \<Rightarrow>
          rbind (guard (strip (jp_json_type e) = ''json-array'')
                   (ValueError (''Datasource '' @ quoted i @ '' is not of type '' @
                      quoted ''json-array'' @ ''.''))) (\<lambda>_.
          case jp_payload e of
            PDict d \<Rightarrow> Inr [d]
          | p \<Rightarrow> normalize_rows p ''Expected json-array payload'')))"

subsection \<open>Evaluators\<close>

definition fail_assert :: "string \<Rightarrow> exc" where
  "fail_assert m = ValueError (''Assert failed: '' @ m)"

definition required_compare_keys :: "assert_context \<Rightarrow> string list result" where
  "required_compare_keys cx =
     (let ks = (case as_compare_keys (ax_cfg cx) of None \<Rightarrow> [] | Some ks \<Rightarrow> ks)
      in rbind (guard (ks \<noteq> []) (fail_assert ''compare_keys is required.'')) (\<lambda>_. Inr ks))"

definition eval_not_empty :: "assert_context \<Rightarrow> unit result" where
  "eval_not_empty cx =
     guard (\<not> is_empty_json_value (ax_actual cx))
       (fail_assert ''expected actual value to be not empty.'')"

definition eval_empty :: "assert_context \<Rightarrow> unit result" where
  "eval_empty cx =
     guard (is_empty_json_value (ax_actual cx)) (fail_assert ''expected actual value to be empty.'')"

fun check_schema_rows :: "schema_checker \<Rightarrow> nat \<Rightarrow> pydict \<Rightarrow> pydict list \<Rightarrow> unit result" where
  "check_schema_rows sch k schema [] = Inr ()"
| "check_schema_rows sch k schema (row # rows) =
     (case sch schema row of
        SchemaMismatch m \<Rightarrow>
          Inl (fail_assert (''row '' @ show_nat k @ '' does not match json schema ('' @ m @ '').''))
      | SchemaInvalid m \<Rightarrow> Inl (fail_assert (''invalid json schema ('' @ m @ '').''))
      | SchemaOk \<Rightarrow> check_schema_rows sch (Suc k) schema rows)"

definition eval_schema_validation :: "schema_checker \<Rightarrow> assert_context \<Rightarrow> unit result" where
  "eval_schema_validation sch cx =
     (case as_json_schema (ax_cfg cx) of
        None \<Rightarrow> Inl (fail_assert ''json_schema is required.'')
      | Some schema \<Rightarrow>
          rbind (normalize_rows (PList (ax_data cx)) ''Actual data'') (check_schema_rows sch 0 schema))"

definition eval_contains :: "assert_context \<Rightarrow> unit result" where
  "eval_contains cx =
     rbind (required_compare_keys cx) (\<lambda>ks.
     rbind (normalize_json_object (ax_actual cx) ''Actual value'') (\<lambda>actual.
     rbind (normalize_json_object (ax_expected cx) ''Expected value'') (\<lambda>expd.
     rbind (guard (missing_keys ks expd = [])
              (ValueError (''Expected value is missing compare_keys: '' @
                 py_repr (PList (map PStr (missing_keys ks expd)))))) (\<lambda>_.
     rbind (guard (missing_keys ks actual = [])
              (ValueError (''Actual value is missing compare_keys: '' @
                 py_repr (PList (map PStr (missing_keys ks actual)))))) (\<lambda>_.
     guard (list_all (\<lambda>k. py_eq (dget actual k) (dget expd k)) ks)
       (fail_assert ''actual value does not contain expected values.''))))))"

definition array_multisets :: "assert_context \<Rightarrow> (string list multiset \<times> string list multiset) result" where
  "array_multisets cx =
     rbind (required_compare_keys cx) (\<lambda>ks.
     rbind (normalize_rows (PList (ax_data cx)) ''Actual data'') (\<lambda>actual_rows.
     rbind (load_expected_json_array_rows cx) (\<lambda>expected_rows.
     rbind (build_multiset 0 actual_rows ks ''Actual data'') (\<lambda>am.
     rbind (build_multiset 0 expected_rows ks ''Expected json-array payload'') (\<lambda>em.
     Inr (am, em))))))"

definition eval_json_array_contains :: "assert_context \<Rightarrow> unit result" where
  "eval_json_array_contains cx =
     rbind (array_multisets cx) (\<lambda>(am, em).
     guard (am \<subseteq># em) (fail_assert ''actual data is not contained in expected json-array.''))"

definition eval_json_array_equals :: "assert_context \<Rightarrow> unit result" where
  "eval_json_array_equals cx =
     rbind (array_multisets cx) (\<lambda>(am, em).
     guard (am = em) (fail_assert ''actual data is not equal to expected json-array.''))"

definition eval_equals :: "assert_context \<Rightarrow> unit result" where
  "eval_equals cx =
     guard (py_eq (ax_actual cx) (ax_expected cx))
       (fail_assert ''actual value is not equal to expected value.'')"

subsection \<open>Dispatch\<close>

definition evaluator_for :: "schema_checker \<Rightarrow> string \<Rightarrow> string \<Rightarrow> (assert_context \<Rightarrow> unit result) option" where
  "evaluator_for sch object_type atype =
     (if object_type \<noteq> ''json-data'' then None
      else map_of
        [(''not-empty'', eval_not_empty), (''empty'', eval_empty),
         (''schema-validation'', eval_schema_validation sch), (''contains'', eval_contains),
         (''json-array-equals'', eval_json_array_equals),
         (''json-array-contains'', eval_json_array_contains), (''equals'', eval_equals)] atype)"

definition normalize_kind :: "string \<Rightarrow> string" where
  "normalize_kind s = lower (replace_char (CHR ''_'') (CHR ''-'') (strip s))"

definition evaluate_assert ::
  "schema_checker \<Rightarrow> json_payload_row table \<Rightarrow> assert_dto \<Rightarrow> pyval \<Rightarrow> pyval \<Rightarrow> pyval \<Rightarrow> unit result" where
  "evaluate_assert sch payloads cfg data actual expd =
     rbind (assert_type cfg) (\<lambda>t.
     (let ot = normalize_kind (as_evaluated_object_type cfg); ak = normalize_kind t in
      case evaluator_for sch ot ak of
        None \<Rightarrow> Inl (ValueError (''Unsupported assert evaluator for object_type='' @ quoted ot @
                  '', assert_type='' @ quoted ak @ ''.''))
      | Some ev \<Rightarrow>
          ev \<lparr>ax_payloads = payloads, ax_cfg = cfg, ax_data = list_or_empty data,
              ax_actual = actual, ax_expected = expd\<rparr>))"

end
