(* ===== verification/Assert_Facts.thy ===== *)
theory Assert_Facts
  imports Asserts
begin

section \<open>What the asserts decide\<close>

text \<open>
  The array asserts compare multisets of serialised keys, so neither the order of rows nor the
  order of keys matters; every assert command reaches its evaluator.
\<close>

lemma rows_from_Inr:
  "rows_from k label xs = Inr rows \<longleftrightarrow> list_all is_dict xs \<and> rows = map dict_or_empty xs"
proof (induction xs arbitrary: k rows)
  case (Cons x xs)
  then show ?case by (cases x) (auto simp: rbind_Inr_iff)
qed auto

lemma normalize_rows_Inr:
  "normalize_rows (PList xs) label = Inr rows \<longleftrightarrow> list_all is_dict xs \<and> rows = map dict_or_empty xs"
  by (simp add: normalize_rows_def rows_from_Inr)

lemma build_multiset_Inr:
  "build_multiset k rows keys label = Inr m \<longleftrightarrow>
     list_all (\<lambda>r. missing_keys keys r = []) rows \<and> m = mset (map (row_key keys) rows)"
  by (induction rows arbitrary: k m) (auto simp: rbind_Inr_iff)

definition comparable :: "assert_context \<Rightarrow> string list \<Rightarrow> pydict list \<Rightarrow> bool" where
  "comparable cx ks expd \<longleftrightarrow>
     required_compare_keys cx = Inr ks \<and> load_expected_json_array_rows cx = Inr expd \<and>
     list_all is_dict (ax_data cx) \<and>
     list_all (\<lambda>r. missing_keys ks r = []) (map dict_or_empty (ax_data cx)) \<and>
     list_all (\<lambda>r. missing_keys ks r = []) expd"

lemma array_multisets_Inr:
  "array_multisets cx = Inr (am, em) \<longleftrightarrow>
     (\<exists>ks expd. comparable cx ks expd \<and>
       am = mset (map (row_key ks) (map dict_or_empty (ax_data cx))) \<and>
       em = mset (map (row_key ks) expd))"
  unfolding array_multisets_def comparable_def rbind_Inr_iff normalize_rows_Inr build_multiset_Inr
  by (auto simp: multiset.map_comp)

lemma array_contains_Inr:
  "eval_json_array_contains cx = Inr u \<longleftrightarrow>
     (\<exists>ks expd. comparable cx ks expd \<and>
       mset (map (row_key ks) (map dict_or_empty (ax_data cx))) \<subseteq># mset (map (row_key ks) expd))"
  unfolding eval_json_array_contains_def rbind_Inr_iff split_paired_Ex array_multisets_Inr prod.case guard_Inr
  by blast

lemma array_equals_Inr:
  "eval_json_array_equals cx = Inr u \<longleftrightarrow>
     (\<exists>ks expd. comparable cx ks expd \<and>
       mset (map (row_key ks) (map dict_or_empty (ax_data cx))) = mset (map (row_key ks) expd))"
  unfolding eval_json_array_equals_def rbind_Inr_iff split_paired_Ex array_multisets_Inr prod.case guard_Inr
  by blast

lemma comparable_det: "comparable cx ks expd \<Longrightarrow> comparable cx ks' expd' \<Longrightarrow> ks' = ks \<and> expd' = expd"
  by (simp add: comparable_def)

text \<open>
  C23. The two array asserts compare multisets of key tuples: \<open>jsonArrayContains\<close> passes exactly
  when the data is an array of objects that all have the compare keys, the stored array exists
  with the same property, and the multiset of the rows' keys is included in that of the stored
  rows; \<open>jsonArrayEquals\<close> passes exactly when moreover both have the same number of rows.
\<close>

theorem array_asserts_compare_multisets:
  "(eval_json_array_contains cx = Inr () \<longleftrightarrow>
      (\<exists>ks expd. comparable cx ks expd \<and>
        image_mset (row_key ks) (mset (map dict_or_empty (ax_data cx))) \<subseteq>#
        image_mset (row_key ks) (mset expd))) \<and>
   (eval_json_array_equals cx = Inr () \<longleftrightarrow>
      eval_json_array_contains cx = Inr () \<and>
      (\<exists>ks expd. comparable cx ks expd \<and> length (ax_data cx) = length expd))"
proof (intro conjI)
  show "eval_json_array_contains cx = Inr () \<longleftrightarrow>
      (\<exists>ks expd. comparable cx ks expd \<and>
        image_mset (row_key ks) (mset (map dict_or_empty (ax_data cx))) \<subseteq>#
        image_mset (row_key ks) (mset expd))"
    by (simp add: array_contains_Inr multiset.map_comp)
  have sub_eq: "A = B \<longleftrightarrow> A \<subseteq># B \<and> size A = size B" for A B :: "string list multiset"
    by (metis mset_subset_size nless_le subset_mset.le_less subset_mset.order_refl)
  show "eval_json_array_equals cx = Inr () \<longleftrightarrow>
      eval_json_array_contains cx = Inr () \<and>
      (\<exists>ks expd. comparable cx ks expd \<and> length (ax_data cx) = length expd)"
    unfolding array_contains_Inr array_equals_Inr sub_eq size_mset length_map
    using comparable_det by metis
qed

text \<open>
  The order of the rows does not matter: permuting the actual data changes the verdict of
  neither array assert.
\<close>

theorem array_asserts_order_independent:
  assumes "mset data = mset (ax_data cx)"
  shows "(eval_json_array_contains (cx\<lparr>ax_data := data\<rparr>) = Inr () \<longleftrightarrow>
      eval_json_array_contains cx = Inr ()) \<and>
    (eval_json_array_equals (cx\<lparr>ax_data := data\<rparr>) = Inr () \<longleftrightarrow> eval_json_array_equals cx = Inr ())"
proof -
  have s: "set data = set (ax_data cx)" using assms by (rule mset_eq_setD)
  have c: "comparable (cx\<lparr>ax_data := data\<rparr>) ks expd = comparable cx ks expd" for ks expd
    by (auto simp: comparable_def required_compare_keys_def load_expected_json_array_rows_def
        list_all_iff s)
  have "mset (map f data) = mset (map f (ax_data cx))" for f :: "pyval \<Rightarrow> string list"
    using assms by simp
  then show ?thesis
    unfolding array_contains_Inr array_equals_Inr c by (simp add: comp_def)
qed

text \<open>
  Two objects with the same entries in another order have the same serialised key, so key
  order never makes two rows different.
\<close>

theorem serialized_key_order:
  assumes "mset d = mset e" and "distinct (map fst d)"
  shows "serialize_value (PDict d) = serialize_value (PDict e)"
proof -
  let ?f = "\<lambda>(k, v). (k, json_string k @ '': '' @ serialize_value v)"
  have fst_f: "map fst (map ?f xs) = map fst xs" for xs by (simp add: comp_def split_def)
  have "mset (map ?f d) = mset (map ?f e)" using assms(1) by simp
  moreover have "inj_on fst (set (map ?f d))"
    using assms(2) unfolding fst_f [symmetric] distinct_map by blast
  ultimately have "sort_key fst (map ?f d) = sort_key fst (map ?f e)"
    by (intro sort_key_inj_key_eq) simp_all
  then show ?thesis by simp
qed

text \<open>
  Every assert command finds its evaluator: for the eight codes and data of kind json-data
  the dispatch never reports an unsupported assert; the schema evaluator is selected by none of
  them.
\<close>

theorem assert_dispatch_total:
  assumes "commandCode cfg \<in> set assert_codes" and "as_evaluated_object_type cfg = ''json-data''"
  shows "\<exists>t ev. assert_type cfg = Inr t \<and> normalize_kind t \<noteq> ''schema-validation'' \<and>
    evaluator_for sch (normalize_kind (as_evaluated_object_type cfg)) (normalize_kind t) = Some ev"
proof -
  have "list_all (\<lambda>c. case map_of assert_type_mapping c of None \<Rightarrow> False
      | Some t \<Rightarrow> normalize_kind t \<noteq> ''schema-validation'' \<and>
          list_ex (\<lambda>k. k = normalize_kind t) [''not-empty'', ''empty'', ''contains'',
            ''json-array-equals'', ''json-array-contains'', ''equals'']) assert_codes"
    by code_simp
  then obtain t where t: "map_of assert_type_mapping (commandCode cfg) = Some t"
    "normalize_kind t \<noteq> ''schema-validation''"
    "normalize_kind t \<in> {''not-empty'', ''empty'', ''contains'',
            ''json-array-equals'', ''json-array-contains'', ''equals''}"
    using assms(1) by (fastforce simp: list_all_iff split: option.splits)
  have "normalize_kind ''json-data'' = ''json-data''" by code_simp
  moreover have "\<exists>ev. evaluator_for sch ''json-data'' (normalize_kind t) = Some ev"
    using t(3) by (elim insertE emptyE) (simp_all add: evaluator_for_def)
  ultimately show ?thesis
    using t assms(2) by (simp add: assert_type_def)
qed

subsection \<open>Witnesses\<close>

definition example_row :: "int \<Rightarrow> pyval" where
  "example_row i = PDict [(''id'', PInt i), (''ok'', PBool True)]"

definition example_assert :: "string \<Rightarrow> assert_dto" where
  "example_assert code =
     \<lparr>commandCode = code, commandType = ''assert'', as_error_message = None,
      as_evaluated_object_type = ''json-data'', as_actualConstantRef = ''d1'', as_expected = PNone,
      as_expected_json_array_id = Some ''j1'', as_compare_keys = Some [''id''], as_json_schema = None\<rparr>"

definition example_context :: assert_context where
  "example_context =
     \<lparr>ax_payloads = [(''j1'', \<lparr>jp_json_type = ''json-array'', jp_payload = PList [example_row 1, example_row 2]\<rparr>)],
      ax_cfg = example_assert ''jsonArrayEquals'',
      ax_data = [example_row 1, example_row 2], ax_actual = PNone, ax_expected = PNone\<rparr>"

lemma array_asserts_order_independent_witness:
  "eval_json_array_equals (example_context\<lparr>ax_data := [example_row 2, example_row 1]\<rparr>) = Inr ()"
proof -
  have "eval_json_array_equals example_context = Inr ()" by code_simp
  moreover have "mset [example_row 2, example_row 1] = mset (ax_data example_context)"
    by (simp add: example_context_def)
  ultimately show ?thesis using array_asserts_order_independent by blast
qed

lemma serialized_key_order_witness:
  "serialize_value (PDict [(''b'', PInt 2), (''a'', PInt 1)]) =
     serialize_value (PDict [(''a'', PInt 1), (''b'', PInt 2)])"
  by (rule serialized_key_order) simp_all

lemma assert_dispatch_total_witness:
  "\<exists>t. assert_type (example_assert ''jsonEmpty'') = Inr t"
  using assert_dispatch_total [of "example_assert ''jsonEmpty''"]
  by (auto simp: example_assert_def assert_codes_def)

end
