(* ===== verification/Event_Bus.thy ===== *)
theory Event_Bus
  imports Asserts
begin

section \<open>The execution event bus\<close>

text \<open>
  \<open>suite_runs/execution_event_bus.py\<close> and the context variables of
  \<open>suite_runs/execution_runtime_context.py\<close>. Publishers of an execution append a frame to its
  bounded history and hand it to the bounded queue of every subscriber; a stream replays the
  history and then its queue. The publisher snapshots the subscribers under the lock and fills
  their queues after releasing it, so a step of the interleaving relation is one locked region
  or one queue operation.
\<close>

subsection \<open>Execution variables\<close>

record runtime_vars =
  rv_execution_id :: "string option"
  rv_suite_id :: "string option"
  rv_suite_test_id :: "string option"
  rv_suite_execution_id :: "string option"
  rv_suite_test_execution_id :: "string option"
  rv_test_suite_id :: "string option"
  rv_suite_item_id :: "string option"
  rv_test_suite_execution_id :: "string option"
  rv_suite_item_execution_id :: "string option"

definition no_vars :: runtime_vars where
  "no_vars =
     \<lparr>rv_execution_id = None, rv_suite_id = None, rv_suite_test_id = None,
      rv_suite_execution_id = None, rv_suite_test_execution_id = None, rv_test_suite_id = None,
      rv_suite_item_id = None, rv_test_suite_execution_id = None, rv_suite_item_execution_id = None\<rparr>"

definition zip_vars ::
  "(string option \<Rightarrow> string option \<Rightarrow> string option) \<Rightarrow> runtime_vars \<Rightarrow> runtime_vars \<Rightarrow> runtime_vars" where
  "zip_vars f a b =
     \<lparr>rv_execution_id = f (rv_execution_id a) (rv_execution_id b),
      rv_suite_id = f (rv_suite_id a) (rv_suite_id b),
      rv_suite_test_id = f (rv_suite_test_id a) (rv_suite_test_id b),
      rv_suite_execution_id = f (rv_suite_execution_id a) (rv_suite_execution_id b),
      rv_suite_test_execution_id = f (rv_suite_test_execution_id a) (rv_suite_test_execution_id b),
      rv_test_suite_id = f (rv_test_suite_id a) (rv_test_suite_id b),
      rv_suite_item_id = f (rv_suite_item_id a) (rv_suite_item_id b),
      rv_test_suite_execution_id = f (rv_test_suite_execution_id a) (rv_test_suite_execution_id b),
      rv_suite_item_execution_id = f (rv_suite_item_execution_id a) (rv_suite_item_execution_id b)\<rparr>"

text \<open>The variables named in the call are set for the block; the others keep their value.\<close>

definition enter_vars :: "runtime_vars \<Rightarrow> runtime_vars \<Rightarrow> runtime_vars" where
  "enter_vars named old = zip_vars (\<lambda>n v. case n of None \<Rightarrow> v | Some x \<Rightarrow> Some x) named old"

definition reset_vars :: "runtime_vars \<Rightarrow> runtime_vars \<Rightarrow> runtime_vars \<Rightarrow> runtime_vars" where
  "reset_vars named old now =
     (let keep = (\<lambda>get. case get named of None \<Rightarrow> get now | Some x \<Rightarrow> get old)
      in \<lparr>rv_execution_id = keep rv_execution_id, rv_suite_id = keep rv_suite_id,
          rv_suite_test_id = keep rv_suite_test_id,
          rv_suite_execution_id = keep rv_suite_execution_id,
          rv_suite_test_execution_id = keep rv_suite_test_execution_id,
          rv_test_suite_id = keep rv_test_suite_id, rv_suite_item_id = keep rv_suite_item_id,
          rv_test_suite_execution_id = keep rv_test_suite_execution_id,
          rv_suite_item_execution_id = keep rv_suite_item_execution_id\<rparr>)"

definition bind_execution_context ::
  "runtime_vars \<Rightarrow> (runtime_vars \<Rightarrow> 'a result \<times> runtime_vars) \<Rightarrow> runtime_vars \<Rightarrow> 'a result \<times> runtime_vars" where
  "bind_execution_context named body old =
     (case body (enter_vars named old) of (r, now) \<Rightarrow> (r, reset_vars named old now))"

subsection \<open>Frames\<close>

fun json_text :: "pyval \<Rightarrow> string" where
  "json_text PNone = ''null''"
| "json_text (PBool b) = (if b then ''true'' else ''false'')"
| "json_text (PInt i) = show_int i"
| "json_text (PFloat q s) = s"
| "json_text (PStr s) = json_string s"
| "json_text (PList xs) = ''['' @ join '', '' (map json_text xs) @ '']''"
| "json_text (PDict d) =
     ''{'' @ join '', '' (map (\<lambda>(k, v). json_string k @ '': '' @ json_text v) d) @ ''}''"

definition newline :: string where
  "newline = [CHR 0x0A]"

definition serialize_sse_frame :: "string \<Rightarrow> pydict \<Rightarrow> string" where
  "serialize_sse_frame event_name data =
     ''event: '' @ event_name @ newline @ ''data: '' @ json_text (PDict data) @ newline @ newline"

definition event_frame :: "string \<Rightarrow> string \<Rightarrow> string \<Rightarrow> pydict \<Rightarrow> string" where
  "event_frame now execution_id event_name payload =
     serialize_sse_frame event_name
       (dupdate [(''execution_id'', PStr execution_id), (''event'', PStr event_name),
                 (''timestamp'', PStr now)] payload)"

definition log_payload ::
  "runtime_vars \<Rightarrow> string \<Rightarrow> string \<Rightarrow> string \<Rightarrow> string \<Rightarrow> pyval \<Rightarrow> pydict" where
  "log_payload vars subject_type subject level message payload =
     (let opt = (\<lambda>v. case v of None \<Rightarrow> PNone | Some s \<Rightarrow> PStr s) in
      [(''subject_type'', PStr subject_type), (''subject'', PStr subject), (''level'', PStr level),
       (''message'', PStr message), (''payload'', payload),
       (''suite_id'', opt (rv_suite_id vars)), (''suite_test_id'', opt (rv_suite_test_id vars))])"

subsection \<open>The bus\<close>

definition event_history_size :: nat where
  "event_history_size = 500"

definition queue_size :: nat where
  "queue_size = 1000"

record event_bus =
  eb_history :: "string \<Rightarrow> string list"
  eb_subscribers :: "string \<Rightarrow> nat list"
  eb_queues :: "nat \<Rightarrow> string list"
  eb_next :: nat

definition empty_bus :: event_bus where
  "empty_bus = \<lparr>eb_history = (\<lambda>_. []), eb_subscribers = (\<lambda>_. []), eb_queues = (\<lambda>_. []), eb_next = 0\<rparr>"

definition push_bounded :: "nat \<Rightarrow> 'a list \<Rightarrow> 'a \<Rightarrow> 'a list" where
  "push_bounded n xs x = drop (Suc (length xs) - n) (xs @ [x])"

text \<open>The locked region of \<open>publish_execution_event\<close>: history and snapshot.\<close>

definition publish_locked :: "string \<Rightarrow> string \<Rightarrow> event_bus \<Rightarrow> nat list \<times> event_bus" where
  "publish_locked e frame b =
     (eb_subscribers b e,
      b\<lparr>eb_history := (eb_history b)(e := push_bounded event_history_size (eb_history b e) frame)\<rparr>)"

definition put_nowait :: "nat \<Rightarrow> string \<Rightarrow> event_bus \<Rightarrow> event_bus" where
  "put_nowait q frame b =
     (if length (eb_queues b q) < queue_size
      then b\<lparr>eb_queues := (eb_queues b)(q := eb_queues b q @ [frame])\<rparr> else b)"

definition publish_execution_event ::
  "string \<Rightarrow> string \<Rightarrow> string \<Rightarrow> pydict \<Rightarrow> event_bus \<Rightarrow> event_bus" where
  "publish_execution_event now e event_name payload b =
     (if e = [] then b
      else (case publish_locked e (event_frame now e event_name payload) b of
              (subs, b1) \<Rightarrow> fold (\<lambda>q. put_nowait q (event_frame now e event_name payload)) subs b1))"

definition publish_runtime_log_event ::
  "string \<Rightarrow> runtime_vars \<Rightarrow> string \<Rightarrow> string \<Rightarrow> string \<Rightarrow> string \<Rightarrow> pyval \<Rightarrow> event_bus \<Rightarrow> event_bus" where
  "publish_runtime_log_event now vars subject_type subject level message payload b =
     (case rv_execution_id vars of
        None \<Rightarrow> b
      | Some e \<Rightarrow> publish_execution_event now e ''execution_log''
                   (log_payload vars subject_type subject level message payload) b)"

definition subscribe_to_execution :: "string \<Rightarrow> event_bus \<Rightarrow> (nat \<times> string list) \<times> event_bus" where
  "subscribe_to_execution e b =
     ((eb_next b, eb_history b e),
      b\<lparr>eb_subscribers := (eb_subscribers b)(e := eb_subscribers b e @ [eb_next b]),
        eb_queues := (eb_queues b)(eb_next b := []), eb_next := Suc (eb_next b)\<rparr>)"

definition unsubscribe_from_execution :: "string \<Rightarrow> nat \<Rightarrow> event_bus \<Rightarrow> event_bus" where
  "unsubscribe_from_execution e q b =
     b\<lparr>eb_subscribers := (eb_subscribers b)(e := remove1 q (eb_subscribers b e))\<rparr>"

subsection \<open>A stream\<close>

definition is_final_frame :: "string \<Rightarrow> bool" where
  "is_final_frame frame = str_in ''event: execution_finished'' frame"

text \<open>
  What the generator yields for a sequence of queue reads (\<open>None\<close> is a read that timed out),
  and whether it has ended; the second component is false while it waits for another read.
\<close>

fun stream_live :: "string \<Rightarrow> string option list \<Rightarrow> string list \<times> bool" where
  "stream_live hb [] = ([], False)"
| "stream_live hb (None # gs) = (case stream_live hb gs of (ys, c) \<Rightarrow> (hb # ys, c))"
| "stream_live hb (Some f # gs) =
     (if is_final_frame f then ([f], True)
      else (case stream_live hb gs of (ys, c) \<Rightarrow> (f # ys, c)))"

definition stream_execution_events :: "string \<Rightarrow> string list \<Rightarrow> string option list \<Rightarrow> string list \<times> bool" where
  "stream_execution_events hb history gets =
     (if list_ex is_final_frame history then (history, True)
      else (case stream_live hb gets of (ys, c) \<Rightarrow> (history @ ys, c)))"

end
