(* ===== verification/Event_Facts.thy ===== *)
theory Event_Facts
  imports Event_Bus
begin

section \<open>Interleavings of publishers and subscribers\<close>

text \<open>
  A run of the bus: the bus itself, the publishers that have released the lock and still have
  queues to fill, and what is recorded of the past (the frames published per execution, the
  history each subscriber was given, the frames it took from its queue, the execution it
  subscribed to).
\<close>

record bus_run =
  br_bus :: event_bus
  br_pending :: "(string \<times> nat list) list"
  br_published :: "string \<Rightarrow> string list"
  br_snapshot :: "nat \<Rightarrow> string list"
  br_got :: "nat \<Rightarrow> string list"
  br_owner :: "nat \<Rightarrow> string"

definition initial_run :: bus_run where
  "initial_run =
     \<lparr>br_bus = empty_bus, br_pending = [], br_published = (\<lambda>_. []), br_snapshot = (\<lambda>_. []),
      br_got = (\<lambda>_. []), br_owner = (\<lambda>_. [])\<rparr>"

inductive bus_step :: "bus_run \<Rightarrow> bus_run \<Rightarrow> bool" where
  step_publish: "publish_locked e f (br_bus s) = (subs, b) \<Longrightarrow>
     bus_step s (s\<lparr>br_bus := b, br_pending := br_pending s @ [(f, subs)],
       br_published := (br_published s)(e := br_published s e @ [f])\<rparr>)"
| step_deliver: "br_pending s = ps @ (f, q # qs) # rs \<Longrightarrow>
     bus_step s (s\<lparr>br_bus := put_nowait q f (br_bus s), br_pending := ps @ (f, qs) # rs\<rparr>)"
| step_subscribe: "subscribe_to_execution e (br_bus s) = ((q, h), b) \<Longrightarrow>
     bus_step s (s\<lparr>br_bus := b, br_snapshot := (br_snapshot s)(q := h),
       br_got := (br_got s)(q := []), br_owner := (br_owner s)(q := e)\<rparr>)"
| step_get: "eb_queues (br_bus s) q = f # fs \<Longrightarrow>
     bus_step s (s\<lparr>br_bus := (br_bus s)\<lparr>eb_queues := (eb_queues (br_bus s))(q := fs)\<rparr>,
       br_got := (br_got s)(q := br_got s q @ [f])\<rparr>)"
| step_unsubscribe: "bus_step s (s\<lparr>br_bus := unsubscribe_from_execution e q (br_bus s)\<rparr>)"

inductive_cases bus_stepE: "bus_step s t"

abbreviation bus_reachable :: "bus_run \<Rightarrow> bool" where
  "bus_reachable s \<equiv> bus_step\<^sup>*\<^sup>* initial_run s"

definition pending_for :: "nat \<Rightarrow> (string \<times> nat list) list \<Rightarrow> string multiset" where
  "pending_for q ps = mset (concat (map (\<lambda>(f, qs). replicate (count_list qs q) f) ps))"

definition accounted :: "bus_run \<Rightarrow> nat \<Rightarrow> string multiset" where
  "accounted s q =
     mset (br_snapshot s q) + mset (br_got s q) + mset (eb_queues (br_bus s) q) +
     pending_for q (br_pending s)"

definition bus_inv :: "bus_run \<Rightarrow> bool" where
  "bus_inv s \<longleftrightarrow>
     (\<forall>e. length (br_published s e) \<le> event_history_size \<longrightarrow>
        eb_history (br_bus s) e = br_published s e) \<and>
     (\<forall>e q. q \<in> set (eb_subscribers (br_bus s) e) \<longrightarrow> q < eb_next (br_bus s) \<and> br_owner s q = e) \<and>
     (\<forall>e. distinct (eb_subscribers (br_bus s) e)) \<and>
     (\<forall>(f, qs) \<in> set (br_pending s). \<forall>q \<in> set qs. q < eb_next (br_bus s)) \<and>
     (\<forall>e q. q \<in> set (eb_subscribers (br_bus s) e) \<longrightarrow>
        length (br_published s e) \<le> event_history_size \<longrightarrow>
        accounted s q = mset (br_published s e))"

lemma bus_invD:
  assumes "bus_inv s"
  shows "length (br_published s e) \<le> event_history_size \<Longrightarrow> eb_history (br_bus s) e = br_published s e"
    and "q \<in> set (eb_subscribers (br_bus s) e) \<Longrightarrow> q < eb_next (br_bus s)"
    and "q \<in> set (eb_subscribers (br_bus s) e) \<Longrightarrow> br_owner s q = e"
    and "distinct (eb_subscribers (br_bus s) e)"
    and "(f, qs) \<in> set (br_pending s) \<Longrightarrow> q \<in> set qs \<Longrightarrow> q < eb_next (br_bus s)"
    and "q \<in> set (eb_subscribers (br_bus s) e) \<Longrightarrow> length (br_published s e) \<le> event_history_size \<Longrightarrow>
      accounted s q = mset (br_published s e)"
  using assms unfolding bus_inv_def by auto

lemma pending_for_append [simp]:
  "pending_for q (ps @ rs) = pending_for q ps + pending_for q rs"
  "pending_for q [] = {#}"
  "pending_for q ((f, qs) # rs) = replicate_mset (count_list qs q) f + pending_for q rs"
  by (simp_all add: pending_for_def)

lemma pending_for_fresh:
  "\<forall>(f, qs) \<in> set ps. q \<notin> set qs \<Longrightarrow> pending_for q ps = {#}"
  by (induction ps) auto

lemma count_list_distinct: "distinct xs \<Longrightarrow> count_list xs x = (if x \<in> set xs then 1 else 0)"
  by (induction xs) auto

lemma initial_inv: "bus_inv initial_run"
  by (simp add: bus_inv_def initial_run_def empty_bus_def)

lemma publish_inv:
  assumes i: "bus_inv s" and p: "publish_locked e f (br_bus s) = (subs, b)"
  shows "bus_inv (s\<lparr>br_bus := b, br_pending := br_pending s @ [(f, subs)],
       br_published := (br_published s)(e := br_published s e @ [f])\<rparr>)"
    (is "bus_inv ?t")
proof -
  have b: "subs = eb_subscribers (br_bus s) e" "eb_subscribers b = eb_subscribers (br_bus s)"
    "eb_next b = eb_next (br_bus s)" "eb_queues b = eb_queues (br_bus s)"
    "eb_history b = (eb_history (br_bus s))(e := push_bounded event_history_size (eb_history (br_bus s) e) f)"
    using p by (auto simp: publish_locked_def)
  have hist: "eb_history b x = br_published ?t x" if "length (br_published ?t x) \<le> event_history_size" for x
    using that bus_invD(1) [OF i, of x] by (auto simp: b push_bounded_def)
  have acc: "accounted ?t q = mset (br_published ?t x)"
    if q: "q \<in> set (eb_subscribers b x)" and l: "length (br_published ?t x) \<le> event_history_size" for q x
  proof -
    have q': "q \<in> set (eb_subscribers (br_bus s) x)" using q b by simp
    have c: "count_list subs q = (if x = e then 1 else 0)"
      using count_list_distinct [OF bus_invD(4) [OF i, of e], of q] q' bus_invD(3) [OF i] by (auto simp: b)
    have "length (br_published s x) \<le> event_history_size" using l by (auto split: if_splits)
    then show ?thesis
      using bus_invD(6) [OF i q'] c by (auto simp: accounted_def b)
  qed
  show ?thesis
    unfolding bus_inv_def using hist acc bus_invD [OF i] b by auto
qed

lemma deliver_inv:
  assumes i: "bus_inv s" and p: "br_pending s = ps @ (f, q # qs) # rs"
  shows "bus_inv (s\<lparr>br_bus := put_nowait q f (br_bus s), br_pending := ps @ (f, qs) # rs\<rparr>)"
    (is "bus_inv ?t")
proof -
  have b: "eb_subscribers (put_nowait q f (br_bus s)) = eb_subscribers (br_bus s)"
    "eb_next (put_nowait q f (br_bus s)) = eb_next (br_bus s)"
    "eb_history (put_nowait q f (br_bus s)) = eb_history (br_bus s)"
    "x \<noteq> q \<Longrightarrow> eb_queues (put_nowait q f (br_bus s)) x = eb_queues (br_bus s) x" for x
    by (simp_all add: put_nowait_def)
  have acc: "accounted ?t x = mset (br_published s e)"
    if x: "x \<in> set (eb_subscribers (br_bus s) e)" and l: "length (br_published s e) \<le> event_history_size" for x e
  proof (cases "x = q")
    case False
    then show ?thesis using bus_invD(6) [OF i x l] by (simp add: accounted_def b p)
  next
    case True
    have a: "accounted s q = mset (br_published s e)" using bus_invD(6) [OF i x l] True by simp
    have "length (eb_queues (br_bus s) q) \<le> size (accounted s q)" by (simp add: accounted_def)
    also have "\<dots> \<le> event_history_size" using a l by simp
    finally have "length (eb_queues (br_bus s) q) < queue_size"
      by (simp add: event_history_size_def queue_size_def)
    then have "eb_queues (put_nowait q f (br_bus s)) q = eb_queues (br_bus s) q @ [f]"
      by (simp add: put_nowait_def)
    then show ?thesis using a True by (simp add: accounted_def p)
  qed
  have "y < eb_next (br_bus s)" if "(g, ys) \<in> set (ps @ (f, qs) # rs)" "y \<in> set ys" for g ys y
  proof (cases "(g, ys) = (f, qs)")
    case True
    then have "(f, q # qs) \<in> set (br_pending s)" "y \<in> set (q # qs)" using that p by auto
    then show ?thesis using bus_invD(5) [OF i] by blast
  next
    case False
    then show ?thesis using that p bus_invD(5) [OF i, of g ys y] by auto
  qed
  then show ?thesis
    unfolding bus_inv_def using acc bus_invD(1-4) [OF i] b by auto
qed

lemma subscribe_inv:
  assumes i: "bus_inv s" and p: "subscribe_to_execution e (br_bus s) = ((q, h), b)"
  shows "bus_inv (s\<lparr>br_bus := b, br_snapshot := (br_snapshot s)(q := h),
       br_got := (br_got s)(q := []), br_owner := (br_owner s)(q := e)\<rparr>)"
    (is "bus_inv ?t")
proof -
  have b: "q = eb_next (br_bus s)" "h = eb_history (br_bus s) e" "eb_next b = Suc q"
    "eb_subscribers b = (eb_subscribers (br_bus s))(e := eb_subscribers (br_bus s) e @ [q])"
    "eb_queues b = (eb_queues (br_bus s))(q := [])" "eb_history b = eb_history (br_bus s)"
    using p by (auto simp: subscribe_to_execution_def)
  have new: "q \<notin> set (eb_subscribers (br_bus s) x)" for x
    using bus_invD(2) [OF i, of q x] b(1) by auto
  have "pending_for q (br_pending s) = {#}"
    using bus_invD(5) [OF i] b(1) by (intro pending_for_fresh) auto
  then have accq: "accounted ?t q = mset (br_published s e)"
    if "length (br_published s e) \<le> event_history_size"
    using bus_invD(1) [OF i that] by (simp add: accounted_def b)
  have acc: "accounted ?t x = mset (br_published s y)"
    if "x \<in> set (eb_subscribers (br_bus s) y)" "length (br_published s y) \<le> event_history_size" for x y
    using bus_invD(6) [OF i that] new [of y] that(1) by (auto simp: accounted_def b)
  have old: "x < Suc q" if "x \<in> set (eb_subscribers (br_bus s) y)" for x y
    using bus_invD(2) [OF i that] b(1) by simp
  show ?thesis
    unfolding bus_inv_def
    using accq acc old new bus_invD(1,3-4) [OF i] bus_invD(5) [OF i]
    by (auto simp: b less_Suc_eq)
qed

lemma get_inv:
  assumes i: "bus_inv s" and p: "eb_queues (br_bus s) q = f # fs"
  shows "bus_inv (s\<lparr>br_bus := (br_bus s)\<lparr>eb_queues := (eb_queues (br_bus s))(q := fs)\<rparr>,
       br_got := (br_got s)(q := br_got s q @ [f])\<rparr>)"
    (is "bus_inv ?t")
proof -
  have "accounted ?t x = accounted s x" for x
    using p by (auto simp: accounted_def)
  then show ?thesis using i unfolding bus_inv_def by simp
qed

lemma unsubscribe_inv:
  assumes i: "bus_inv s"
  shows "bus_inv (s\<lparr>br_bus := unsubscribe_from_execution e q (br_bus s)\<rparr>)"
proof -
  let ?b = "unsubscribe_from_execution e q (br_bus s)"
  have b: "eb_history ?b = eb_history (br_bus s)" "eb_next ?b = eb_next (br_bus s)"
    "eb_queues ?b = eb_queues (br_bus s)"
    by (simp_all add: unsubscribe_from_execution_def)
  have sub: "x \<in> set (eb_subscribers (br_bus s) y)" if "x \<in> set (eb_subscribers ?b y)" for x y
    using that set_remove1_subset [of q "eb_subscribers (br_bus s) y"]
    by (simp add: unsubscribe_from_execution_def split: if_splits) blast
  have dist: "distinct (eb_subscribers ?b y)" for y
    using bus_invD(4) [OF i] by (simp add: unsubscribe_from_execution_def)
  have acc: "accounted (s\<lparr>br_bus := ?b\<rparr>) x = accounted s x" for x
    by (simp add: accounted_def b)
  have pend: "\<forall>(f, qs) \<in> set (br_pending s). \<forall>q \<in> set qs. q < eb_next (br_bus s)"
    using i by (simp add: bus_inv_def)
  show ?thesis
    unfolding bus_inv_def
    by (simp add: acc b dist pend bus_invD(1) [OF i])
      (use sub bus_invD(2,3,6) [OF i] in blast)
qed

lemma bus_step_inv: "bus_step s t \<Longrightarrow> bus_inv s \<Longrightarrow> bus_inv t"
  by (erule bus_step.cases)
    (auto intro: publish_inv deliver_inv subscribe_inv get_inv unsubscribe_inv)

lemma bus_reachable_inv: "bus_reachable s \<Longrightarrow> bus_inv s"
  by (induction rule: rtranclp_induct) (auto simp: initial_inv dest: bus_step_inv)

subsection \<open>Properties\<close>

text \<open>
  C24. No event is lost or duplicated, whatever the interleaving of publishers and subscribers:
  for a subscriber that is still registered, and an execution with at most 500 events so far,
  the history it was given, the frames it has taken, those in its queue and those that
  publishers are about to put there are together exactly the frames published, each as often as
  it was published.
\<close>

theorem no_event_lost:
  assumes "bus_reachable s" and "q \<in> set (eb_subscribers (br_bus s) e)"
    and "length (br_published s e) \<le> event_history_size"
  shows "mset (br_snapshot s q) + mset (br_got s q) + mset (eb_queues (br_bus s) q) +
      pending_for q (br_pending s) = mset (br_published s e) \<and> br_owner s q = e"
  using bus_reachable_inv [OF assms(1)] assms(2,3) bus_invD(3,6)
  by (auto simp: accounted_def)

lemma stream_live_closed:
  "snd (stream_live hb gs) = list_ex (\<lambda>g. case g of None \<Rightarrow> False | Some f \<Rightarrow> is_final_frame f) gs"
  by (induction hb gs rule: stream_live.induct) (auto simp: split_def)

lemma stream_live_prefix:
  "fst (stream_live hb gs) = map (\<lambda>g. case g of None \<Rightarrow> hb | Some f \<Rightarrow> f)
     (take (length (fst (stream_live hb gs))) gs)"
  by (induction hb gs rule: stream_live.induct) (auto simp: split_def)

text \<open>
  A stream yields the whole history first and then its queue in order, a heartbeat for every
  read that timed out; it ends exactly when the history or a frame it read contains the marker
  \<open>event: execution_finished\<close>. An execution whose publishers use another final event never ends
  the stream.
\<close>

theorem stream_ends_on_marker_only:
  "snd (stream_execution_events hb history gets) =
     (list_ex is_final_frame history \<or>
      list_ex (\<lambda>g. case g of None \<Rightarrow> False | Some f \<Rightarrow> is_final_frame f) gets) \<and>
   (\<exists>n. fst (stream_execution_events hb history gets) =
     history @ map (\<lambda>g. case g of None \<Rightarrow> hb | Some f \<Rightarrow> f) (take n gets))"
proof -
  obtain ys c where s: "stream_live hb gets = (ys, c)" by fastforce
  have "ys = map (\<lambda>g. case g of None \<Rightarrow> hb | Some f \<Rightarrow> f) (take (length ys) gets)"
    using stream_live_prefix [of hb gets] s by simp
  then have "\<exists>n. history @ ys = history @ map (\<lambda>g. case g of None \<Rightarrow> hb | Some f \<Rightarrow> f) (take n gets)"
    by metis
  moreover have "\<exists>n. history = history @ map (\<lambda>g. case g of None \<Rightarrow> hb | Some f \<Rightarrow> f) (take n gets)"
    by (rule exI [of _ 0]) simp
  ultimately show ?thesis
    using stream_live_closed [of hb gets] by (auto simp: stream_execution_events_def s)
qed

definition runtime_getters :: "(runtime_vars \<Rightarrow> string option) list" where
  "runtime_getters =
     [rv_execution_id, rv_suite_id, rv_suite_test_id, rv_suite_execution_id,
      rv_suite_test_execution_id, rv_test_suite_id, rv_suite_item_id, rv_test_suite_execution_id,
      rv_suite_item_execution_id]"

text \<open>
  Inside an execution-context block each of the nine variables has the value the block names
  for it, or its old value when the block does not name it; after the block the named ones have
  their old value again, also when the body raised, and the others what the body left in them.
\<close>

theorem execution_context_restored:
  assumes "bind_execution_context named body old = (r, now)"
  shows "list_all (\<lambda>get.
    get (enter_vars named old) = (case get named of None \<Rightarrow> get old | Some x \<Rightarrow> Some x) \<and>
    get now = (case get named of None \<Rightarrow> get (snd (body (enter_vars named old))) | Some x \<Rightarrow> get old))
    runtime_getters"
proof -
  obtain q v where b: "body (enter_vars named old) = (q, v)" by fastforce
  then have now: "now = reset_vars named old v" using assms by (simp add: bind_execution_context_def)
  have "list_all (\<lambda>get. get (enter_vars named old) =
      (case get named of None \<Rightarrow> get old | Some x \<Rightarrow> Some x)) runtime_getters"
    by (simp add: runtime_getters_def enter_vars_def zip_vars_def)
  moreover have "list_all (\<lambda>get. get (reset_vars named old v) =
      (case get named of None \<Rightarrow> get v | Some x \<Rightarrow> get old)) runtime_getters"
    by (simp add: runtime_getters_def reset_vars_def Let_def)
  ultimately show ?thesis unfolding now b snd_conv by (simp add: list_all_iff)
qed

subsection \<open>Witnesses\<close>

definition example_run :: bus_run where
  "example_run =
     \<lparr>br_bus = \<lparr>eb_history = (\<lambda>_. []), eb_subscribers = (\<lambda>_. [])(''e1'' := [0]),
        eb_queues = (\<lambda>_. []), eb_next = 1\<rparr>,
      br_pending = [], br_published = (\<lambda>_. []), br_snapshot = (\<lambda>_. []), br_got = (\<lambda>_. []),
      br_owner = (\<lambda>_. [])(0 := ''e1'')\<rparr>"

lemma no_event_lost_witness:
  "mset (br_snapshot example_run 0) + mset (br_got example_run 0) +
     mset (eb_queues (br_bus example_run) 0) + pending_for 0 (br_pending example_run) =
     mset (br_published example_run ''e1'')"
proof -
  have sub: "subscribe_to_execution ''e1'' (br_bus initial_run) = ((0, []), br_bus example_run)"
    by (simp add: subscribe_to_execution_def initial_run_def empty_bus_def example_run_def fun_eq_iff)
  have upd: "initial_run\<lparr>br_bus := br_bus example_run, br_snapshot := (br_snapshot initial_run)(0 := []),
       br_got := (br_got initial_run)(0 := []), br_owner := (br_owner initial_run)(0 := ''e1'')\<rparr> = example_run"
    by (simp add: initial_run_def example_run_def fun_eq_iff)
  have "bus_step initial_run example_run" using step_subscribe [OF sub] unfolding upd .
  then have "bus_reachable example_run" by (rule r_into_rtranclp)
  moreover have "0 \<in> set (eb_subscribers (br_bus example_run) ''e1'')"
    "length (br_published example_run ''e1'') \<le> event_history_size"
    by (simp_all add: example_run_def)
  ultimately show ?thesis using no_event_lost by blast
qed

lemma execution_context_restored_witness:
  "rv_execution_id (snd (bind_execution_context (no_vars\<lparr>rv_execution_id := Some ''e1''\<rparr>)
     (\<lambda>v. (Inr (), v)) no_vars)) = None"
proof -
  obtain r now where b: "bind_execution_context (no_vars\<lparr>rv_execution_id := Some ''e1''\<rparr>)
     (\<lambda>v. (Inr (), v)) no_vars = (r, now)" by fastforce
  then have "rv_execution_id now = rv_execution_id no_vars"
    using execution_context_restored [OF b] by (simp add: runtime_getters_def)
  then show ?thesis unfolding b by (simp add: no_vars_def)
qed

end
