(* ===== verification/Send_Message_Template.thy ===== *)
theory Send_Message_Template
  imports Command_Convert Context_Store
begin

section \<open>Message templates\<close>

text \<open>
  \<open>send_message_template_service.py\<close>: the rows a source value gives for a \<open>forEach\<close> path, with
  the fields of every object passed on the way under their dotted names, and the payloads the
  fields and constants of a template make of the rows. The current day, the current instant and
  the parser of a decimal literal are arguments (\<open>clock\<close>); a \<open>variable\<close> constant is read from
  the run context, and a cyclic value fails there as it would when the message is encoded.
\<close>

subsection \<open>Paths\<close>

definition normalize_template_path :: "string option \<Rightarrow> string list" where
  "normalize_template_path value =
     (let raw = opt_token value in
      if raw = [] \<or> raw = ''$'' then []
      else
        (let raw1 = (if startswith raw ''$.'' then drop 2 raw
                     else if startswith raw ''$'' then drop 1 raw else raw);
             raw2 = strip_char (CHR ''.'') raw1
         in if raw2 = [] then [] else filter (\<lambda>segment. segment \<noteq> []) (split_on (CHR ''.'') raw2)))"

definition segment_parts :: "string \<Rightarrow> string \<times> bool" where
  "segment_parts segment =
     (let normalized = strip segment in
      if endswith normalized ''[*]'' then (take (length normalized - 3) normalized, True)
      else (normalized, False))"

definition dotted :: "string \<Rightarrow> string \<Rightarrow> string" where
  "dotted prefix key = (if prefix = [] then key else prefix @ ''.'' @ key)"

subsection \<open>Flattening\<close>

fun flatten_template_value :: "pyval \<Rightarrow> string \<Rightarrow> pydict"
and flatten_children :: "(string \<times> pyval) list \<Rightarrow> string \<Rightarrow> pydict \<Rightarrow> pydict" where
  "flatten_template_value value prefix =
     (let base = (if prefix = [] then [] else [(prefix, value)])
      in case value of PDict d \<Rightarrow> flatten_children d prefix base | _ \<Rightarrow> base)"
| "flatten_children [] prefix acc = acc"
| "flatten_children ((raw_key, child) # d) prefix acc =
     (let key = strip raw_key in
      if key = [] then flatten_children d prefix acc
      else flatten_children d prefix
             (dupdate acc (flatten_template_value child (dotted prefix key))))"

subsection \<open>Matches\<close>

fun append_match :: "pydict list \<Rightarrow> pyval \<Rightarrow> pydict \<Rightarrow> pydict list"
and append_matches :: "pydict list \<Rightarrow> pyval list \<Rightarrow> pydict \<Rightarrow> pydict list" where
  "append_match matches (PList items) ancestors = append_matches matches items ancestors"
| "append_match matches (PDict d) ancestors =
     matches @ [dupdate ancestors (flatten_template_value (PDict d) [])]"
| "append_match matches current ancestors = matches @ [dset ''value'' current ancestors]"
| "append_matches matches [] ancestors = matches"
| "append_matches matches (item # items) ancestors =
     append_matches (append_match matches item ancestors) items ancestors"

fun walk :: "string list \<Rightarrow> pyval \<Rightarrow> pydict \<Rightarrow> string \<Rightarrow> pydict list \<Rightarrow> pydict list"
and walk_items :: "string list \<Rightarrow> pyval list \<Rightarrow> pydict \<Rightarrow> string \<Rightarrow> pydict list \<Rightarrow> pydict list" where
  "walk [] current ancestors path_prefix matches = append_match matches current ancestors"
| "walk (segment # segments) current ancestors path_prefix matches =
     (case segment_parts segment of
        (segment_name, is_array) \<Rightarrow>
          (case current of
             PDict d \<Rightarrow>
               (case map_of d segment_name of
                  None \<Rightarrow> matches
                | Some next_value \<Rightarrow>
                    (let next_prefix = dotted path_prefix segment_name in
                     if is_array then
                       (case next_value of
                          PList items \<Rightarrow> walk_items segments items ancestors next_prefix matches
                        | _ \<Rightarrow> matches)
                     else
                       walk segments next_value
                         (if segments \<noteq> []
                          then dupdate ancestors (flatten_template_value next_value next_prefix)
                          else ancestors)
                         next_prefix matches))
           | _ \<Rightarrow> matches))"
| "walk_items segments [] ancestors next_prefix matches = matches"
| "walk_items segments (item # items) ancestors next_prefix matches =
     walk_items segments items ancestors next_prefix
       (walk segments item
          (if segments \<noteq> [] then dupdate ancestors (flatten_template_value item next_prefix)
           else ancestors)
          next_prefix matches)"

definition extract_template_matches :: "pyval \<Rightarrow> string option \<Rightarrow> pydict list" where
  "extract_template_matches data for_each =
     (let segments = normalize_template_path for_each in
      if segments = [] then append_match [] data [] else walk segments data [] [] [])"

definition preview_send_message_template_rows ::
  "pyval \<Rightarrow> string \<Rightarrow> string option \<Rightarrow> pydict list" where
  "preview_send_message_template_rows input_data source_type for_each =
     (if strip source_type = ''dataset'' then
        (case input_data of
           PList items \<Rightarrow>
             filter (\<lambda>row. row \<noteq> []) (map (\<lambda>item. flatten_template_value item []) items)
         | PDict d \<Rightarrow> [flatten_template_value (PDict d) []]
         | _ \<Rightarrow> [])
      else if strip source_type = ''jsonArray'' \<or> is_list input_data then
        concat (map (\<lambda>item. extract_template_matches item for_each) (list_or_empty input_data))
      else extract_template_matches input_data for_each)"

subsection \<open>Constants and payloads\<close>

record clock =
  ck_today :: string
  ck_now :: string
  ck_float :: "string \<Rightarrow> pyval result"

definition variable_value :: "string \<Rightarrow> (session, pyval) eff" where
  "variable_value path = (\<lambda>s.
     case build_run_context_scope (s_ctx s) (s_heap s) of
       (scope, h1) \<Rightarrow>
         (case resolve_dynamic_value (PStr path) scope h1 of
            (Inl e, h2) \<Rightarrow> (Inl e, s\<lparr>s_heap := h2\<rparr>)
          | (Inr v, h2) \<Rightarrow>
              ((case reify (hp_next h2) h2 v of
                  None \<Rightarrow> Inl (ValueError ''Circular reference detected'')
                | Some x \<Rightarrow> Inr x), s\<lparr>s_heap := h2\<rparr>)))"

definition evaluate_template_constant :: "clock \<Rightarrow> template_constant \<Rightarrow> (session, pyval) eff" where
  "evaluate_template_constant ck constant =
     (let kind = lower (strip (tc_kind constant)); value = tc_value constant in
      if kind = ''number'' then
        (case value of
           PInt i \<Rightarrow> ereturn value
         | PFloat q t \<Rightarrow> ereturn value
         | PBool b \<Rightarrow> ereturn value
         | _ \<Rightarrow> (let numeric_value = token value in
                if CHR ''.'' \<in> set numeric_value then elift (ck_float ck numeric_value)
                else elift (map_sum id PInt (int_of_str numeric_value))))
      else if kind = ''boolean'' then
        (case value of
           PBool b \<Rightarrow> ereturn value
         | _ \<Rightarrow> ereturn (PBool (lower (token value) \<in>
                  {''true'', ''1'', ''yes'', ''y'', ''on''})))
      else if kind = ''variable'' then variable_value (token value)
      else if kind = ''function'' then
        ereturn (PStr (if lower (token value) = ''today'' then ck_today ck else ck_now ck))
      else ereturn value)"

definition select_fields :: "pydict \<Rightarrow> string list \<Rightarrow> pydict" where
  "select_fields row fs =
     fold (\<lambda>f payload. case map_of row (strip f) of
             Some v \<Rightarrow> if strip f = [] then payload else dset (strip f) v payload
           | None \<Rightarrow> payload) fs []"

fun put_constants :: "clock \<Rightarrow> template_constant list \<Rightarrow> pydict \<Rightarrow> (session, pydict) eff" where
  "put_constants ck [] payload = ereturn payload"
| "put_constants ck (c # cs) payload =
     ebind (evaluate_template_constant ck c)
       (\<lambda>v. put_constants ck cs (dset (strip (tc_name c)) v payload))"

fun build_payloads :: "clock \<Rightarrow> message_template \<Rightarrow> pydict list \<Rightarrow> (session, pyval list) eff" where
  "build_payloads ck t [] = ereturn []"
| "build_payloads ck t (row # rows) =
     ebind (put_constants ck (mt_constants t) (select_fields row (mt_fields t))) (\<lambda>payload.
     ebind (build_payloads ck t rows) (\<lambda>payloads. ereturn (PDict payload # payloads)))"

definition build_send_message_payloads ::
  "clock \<Rightarrow> pyval \<Rightarrow> string \<Rightarrow> message_template option \<Rightarrow> (session, pyval list) eff" where
  "build_send_message_payloads ck input_data source_type template =
     (case template of
        None \<Rightarrow> ereturn (case input_data of PList items \<Rightarrow> items | _ \<Rightarrow> [input_data])
      | Some t \<Rightarrow> build_payloads ck t
                    (preview_send_message_template_rows input_data source_type (mt_forEach t)))"

end
