(* ===== verification/Template_Facts.thy ===== *)
theory Template_Facts
  imports Send_Message_Template
begin

section \<open>What a message template sends\<close>

text \<open>
  Flattening against path lookup: on objects whose keys are plain (no dot, no blank border) the
  column named by a dotted path holds the value at that path and every other name is unbound.
  Payloads against their rows: one object per row, its keys the requested fields the row has
  and the constants.
\<close>

subsection \<open>Dotted names\<close>

definition plain_key :: "string \<Rightarrow> bool" where
  "plain_key k = (k \<noteq> [] \<and> strip k = k \<and> CHR ''.'' \<notin> set k)"

fun plain_value :: "pyval \<Rightarrow> bool" where
  "plain_value (PDict d) =
     (distinct (map fst d) \<and> list_all (\<lambda>(k, v). plain_key k \<and> plain_value v) d)"
| "plain_value v = True"

fun lookup_path :: "pyval \<Rightarrow> string list \<Rightarrow> pyval option" where
  "lookup_path v [] = Some v"
| "lookup_path (PDict d) (k # ks) =
     (case map_of d k of None \<Rightarrow> None | Some x \<Rightarrow> lookup_path x ks)"
| "lookup_path v (k # ks) = None"

fun after_prefix :: "'a list \<Rightarrow> 'a list \<Rightarrow> 'a list option" where
  "after_prefix [] qs = Some qs"
| "after_prefix (p # ps) (q # qs) = (if p = q then after_prefix ps qs else None)"
| "after_prefix (p # ps) [] = None"

lemma after_prefix_snoc: "after_prefix (ps @ [k]) qs =
  (case after_prefix ps qs of
     Some (k' # ks) \<Rightarrow> if k' = k then Some ks else None | _ \<Rightarrow> None)"
  by (induction ps qs rule: after_prefix.induct) (auto split: list.splits)

lemma after_prefix_Nil_iff: "after_prefix ps qs = Some [] \<longleftrightarrow> ps = qs"
  by (induction ps qs rule: after_prefix.induct) auto

lemma after_prefix_self [simp]: "after_prefix qs qs = Some []"
  by (simp add: after_prefix_Nil_iff)

lemma split_on_join_plain:
  "list_all plain_key (k # ks) \<Longrightarrow> split_on (CHR ''.'') (join ''.'' (k # ks)) = k # ks"
proof (induction ks arbitrary: k)
  case Nil
  then show ?case by (simp add: plain_key_def split_on_single)
next
  case (Cons k' ks)
  then have "CHR ''.'' \<notin> set k" by (simp add: plain_key_def)
  with Cons show ?case by (simp add: split_on_append)
qed

lemma join_plain_Nil: "list_all plain_key ks \<Longrightarrow> join ''.'' ks = [] \<longleftrightarrow> ks = []"
  by (induction "''.''" ks rule: join.induct) (auto simp: plain_key_def)

lemma join_plain_inject:
  "list_all plain_key ps \<Longrightarrow> list_all plain_key qs \<Longrightarrow> join ''.'' ps = join ''.'' qs \<longleftrightarrow> ps = qs"
  by (metis join_plain_Nil list.exhaust split_on_join_plain)

lemma join_snoc: "join d (ps @ [k]) = (if ps = [] then k else join d ps @ d @ k)"
  by (induction d ps rule: join.induct) auto

lemma dotted_join:
  "list_all plain_key ps \<Longrightarrow> dotted (join ''.'' ps) k = join ''.'' (ps @ [k])"
  by (simp add: dotted_def join_plain_Nil join_snoc)

subsection \<open>Flattening\<close>

lemma distinct_dupdate: "distinct (map fst d) \<Longrightarrow> distinct (map fst (dupdate d e))"
  unfolding dupdate_def
  by (induction e arbitrary: d) (auto intro: distinct_update)

lemma flatten_distinct:
  "distinct (map fst (flatten_template_value v p))"
  "distinct (map fst acc) \<Longrightarrow> distinct (map fst (flatten_children d p acc))"
  by (induction v p and d p acc rule: flatten_template_value_flatten_children.induct)
    (auto simp: Let_def distinct_dupdate split: pyval.splits)

lemma map_of_rev_distinct: "distinct (map fst d) \<Longrightarrow> map_of (rev d) = map_of d"
  by (subst map_of_inject_set) (simp_all add: rev_map[symmetric])

declare flatten_template_value.simps [simp del]

lemma map_of_dupdate_flatten:
  "map_of (dupdate acc (flatten_template_value v p)) k =
     (case map_of (flatten_template_value v p) k of None \<Rightarrow> map_of acc k | Some x \<Rightarrow> Some x)"
  by (simp add: map_of_dupdate map_of_rev_distinct flatten_distinct)

text \<open>What the columns of a flattened value are, by path.\<close>

definition child_at :: "pydict \<Rightarrow> string list \<Rightarrow> string list \<Rightarrow> pyval option" where
  "child_at d ps qs =
     (case after_prefix ps qs of Some (k # ks) \<Rightarrow> lookup_path (PDict d) (k # ks) | _ \<Rightarrow> None)"

definition value_at :: "pyval \<Rightarrow> string list \<Rightarrow> string list \<Rightarrow> pyval option" where
  "value_at v ps qs =
     (case after_prefix ps qs of None \<Rightarrow> None | Some ks \<Rightarrow> lookup_path v ks)"

lemma child_at_Nil [simp]: "child_at [] ps qs = None"
  by (simp add: child_at_def split: option.splits list.splits)

lemma child_at_Cons:
  assumes "k \<notin> fst ` set d"
  shows "child_at ((k, x) # d) ps qs =
    (case value_at x (ps @ [k]) qs of
       None \<Rightarrow> child_at d ps qs | Some y \<Rightarrow>
         (case child_at d ps qs of None \<Rightarrow> Some y | Some z \<Rightarrow> Some z))"
proof -
  have "map_of d k = None" using assms by (simp add: map_of_eq_None_iff)
  then show ?thesis
  by (auto simp: child_at_def value_at_def after_prefix_snoc
      split: option.splits list.splits)
qed

lemma flatten_columns:
  "plain_value v \<Longrightarrow> list_all plain_key ps \<Longrightarrow> list_all plain_key qs \<Longrightarrow> qs \<noteq> [] \<Longrightarrow>
   p = join ''.'' ps \<Longrightarrow> map_of (flatten_template_value v p) (join ''.'' qs) = value_at v ps qs"
  "plain_value (PDict d) \<Longrightarrow> list_all plain_key ps \<Longrightarrow> list_all plain_key qs \<Longrightarrow> qs \<noteq> [] \<Longrightarrow>
   p = join ''.'' ps \<Longrightarrow> map_of (flatten_children d p acc) (join ''.'' qs) =
     (case child_at d ps qs of None \<Rightarrow> map_of acc (join ''.'' qs) | Some x \<Rightarrow> Some x)"
proof (induction v p and d p acc arbitrary: ps and ps
    rule: flatten_template_value_flatten_children.induct)
  case (1 v p)
  define b where "b = (if p = [] then [] else [(p, v)])"
  have base: "map_of b (join ''.'' qs) = (if ps = qs then Some v else None)"
    using 1(2-) by (auto simp: b_def join_plain_Nil join_plain_inject)
  show ?case
  proof (cases "\<exists>d. v = PDict d")
    case True
    then obtain d where v: "v = PDict d" by blast
    have "flatten_template_value v p = flatten_children d p b"
      by (simp add: flatten_template_value.simps v b_def Let_def)
    moreover have "map_of (flatten_children d p b) (join ''.'' qs) =
        (case child_at d ps qs of None \<Rightarrow> map_of b (join ''.'' qs) | Some x \<Rightarrow> Some x)"
      using 1(2-) unfolding v by (intro "1.IH"[OF b_def v]) (simp_all add: v)
    ultimately have "map_of (flatten_template_value v p) (join ''.'' qs) =
        (case child_at d ps qs of None \<Rightarrow> (if ps = qs then Some v else None) | Some x \<Rightarrow> Some x)"
      by (simp only: base)
    then show ?thesis
      by (auto simp: value_at_def child_at_def v after_prefix_Nil_iff split: option.splits list.splits)
  next
    case False
    then have "flatten_template_value v p = b"
      by (cases v) (simp_all add: Let_def b_def flatten_template_value.simps)
    then have "map_of (flatten_template_value v p) (join ''.'' qs) = (if ps = qs then Some v else None)"
      by (simp only: base)
    moreover have "lookup_path v ks = (if ks = [] then Some v else None)" for ks
      using False by (cases v; cases ks) simp_all
    ultimately show ?thesis
      by (auto simp: value_at_def after_prefix_Nil_iff[symmetric] split: option.splits)
  qed
next
  case (2 p acc)
  then show ?case by simp
next
  case (3 k x d p acc)
  then have k: "plain_key k" "strip k = k" "k \<noteq> []" "k \<notin> fst ` set d" and d: "plain_value (PDict d)"
    and x: "plain_value x"
    by (simp_all add: plain_key_def)
  have snoc: "dotted p k = join ''.'' (ps @ [k])" "list_all plain_key (ps @ [k])"
    using 3 k by (simp_all add: dotted_join)
  have child: "map_of (flatten_template_value x (dotted p k)) (join ''.'' qs) = value_at x (ps @ [k]) qs"
    using "3.IH"(2)[of _ "ps @ [k]"] 3(6,7) k x snoc by simp
  show ?case
    using "3.IH"(3)[of _ ps] "3.prems" k d child
    by (simp add: Let_def child_at_Cons map_of_dupdate_flatten split: option.splits)
qed

text \<open>
  Flattening reads paths: for an object whose keys are plain at every level, the column a
  flattened value has under a dotted name is the value at that path of the object, nested
  objects included, and a name that is no path of the object has no column.
\<close>

theorem flatten_reads_paths:
  assumes "plain_value v" and "list_all plain_key ks" and "ks \<noteq> []"
  shows "map_of (flatten_template_value v []) (join ''.'' ks) = lookup_path v ks"
  using flatten_columns(1)[of v "[]" ks "[]"] assms by (simp add: value_at_def)

lemma flatten_reads_paths_witness:
  "map_of (flatten_template_value
     (PDict [(''order'', PDict [(''id'', PInt 7), (''buyer'', PDict [(''name'', PStr ''x'')])])]) [])
     (join ''.'' [''order'', ''buyer'', ''name'']) = Some (PStr ''x'')"
  by (subst flatten_reads_paths) code_simp+

subsection \<open>Payloads\<close>

lemma select_fields_snoc: "select_fields row (fs @ [f]) =
  (case map_of row (strip f) of
     Some v \<Rightarrow> if strip f = [] then select_fields row fs else dset (strip f) v (select_fields row fs)
   | None \<Rightarrow> select_fields row fs)"
  by (simp add: select_fields_def split: option.split)

lemma map_of_select_fields: "map_of (select_fields row fs) k =
  (if k \<noteq> [] \<and> k \<in> strip ` set fs then map_of row k else None)"
proof (induction fs rule: rev_induct)
  case Nil
  then show ?case by (simp add: select_fields_def)
next
  case (snoc f fs)
  then show ?case by (auto simp: select_fields_snoc update_conv' split: option.splits)
qed

definition constant_names :: "template_constant list \<Rightarrow> string set" where
  "constant_names cs = (\<lambda>c. strip (tc_name c)) ` set cs"

lemma put_constants_keys:
  "put_constants ck cs payload s = (Inr d, t) \<Longrightarrow>
   (\<forall>k. k \<in> constant_names cs \<longrightarrow> dhas d k) \<and>
   (\<forall>k. k \<notin> constant_names cs \<longrightarrow> map_of d k = map_of payload k)"
proof (induction cs arbitrary: payload s)
  case Nil
  then show ?case by (simp add: constant_names_def)
next
  case (Cons c cs)
  then obtain v u where "put_constants ck cs (dset (strip (tc_name c)) v payload) u = (Inr d, t)"
    by (auto simp: ebind_eq_Inr_iff)
  from Cons.IH[OF this] show ?case
    by (cases "strip (tc_name c) \<in> constant_names cs")
      (auto simp: constant_names_def update_conv' dhas_def)
qed

lemma row_payload:
  assumes "put_constants ck cs (select_fields row fs) s = (Inr d, u)"
  shows "(\<forall>k. dhas d k \<longleftrightarrow> k \<in> constant_names cs \<or> k \<noteq> [] \<and> k \<in> strip ` set fs \<and> dhas row k) \<and>
     (\<forall>k. dhas d k \<and> k \<notin> constant_names cs \<longrightarrow> map_of d k = map_of row k)"
proof -
  have "dhas d k" if "k \<in> constant_names cs" for k
    using put_constants_keys[OF assms] that by blast
  moreover have "map_of d k = (if k \<noteq> [] \<and> k \<in> strip ` set fs then map_of row k else None)"
    if "k \<notin> constant_names cs" for k
    using put_constants_keys[OF assms] that map_of_select_fields[of row fs k] by simp
  ultimately show ?thesis by (metis dhas_def)
qed

lemma build_payloads_rows:
  "build_payloads ck t rows s = (Inr ps, s') \<Longrightarrow>
   list_all2 (\<lambda>row p. \<exists>d. p = PDict d \<and>
     (\<forall>k. dhas d k \<longleftrightarrow> k \<in> constant_names (mt_constants t) \<or>
        k \<noteq> [] \<and> k \<in> strip ` set (mt_fields t) \<and> dhas row k) \<and>
     (\<forall>k. dhas d k \<and> k \<notin> constant_names (mt_constants t) \<longrightarrow> map_of d k = map_of row k)) rows ps"
proof (induction rows arbitrary: ps s)
  case (Cons row rows)
  then obtain d u qs w where d: "put_constants ck (mt_constants t)
        (select_fields row (mt_fields t)) s = (Inr d, u)"
      and qs: "build_payloads ck t rows u = (Inr qs, w)" and ps: "ps = PDict d # qs" and "w = s'"
    by (auto simp: ebind_eq_Inr_iff)
  show ?case unfolding ps list_all2_Cons
    using Cons.IH[of u qs] qs \<open>w = s'\<close> row_payload[OF d] by blast
qed simp

text \<open>
  What a template sends: when a message template is rendered without an error, there is
  exactly one payload per row of the preview, in order, and each payload is an object whose keys
  are the constants of the template and those requested fields the row has; every key that is
  not a constant holds the row's value.
\<close>

theorem template_payloads:
  assumes "build_send_message_payloads ck data st (Some t) s = (Inr ps, s')"
  shows "list_all2 (\<lambda>row p. \<exists>d. p = PDict d \<and>
     (\<forall>k. dhas d k \<longleftrightarrow> k \<in> constant_names (mt_constants t) \<or>
        k \<noteq> [] \<and> k \<in> strip ` set (mt_fields t) \<and> dhas row k) \<and>
     (\<forall>k. dhas d k \<and> k \<notin> constant_names (mt_constants t) \<longrightarrow> map_of d k = map_of row k))
     (preview_send_message_template_rows data st (mt_forEach t)) ps"
  using assms by (simp add: build_send_message_payloads_def build_payloads_rows)

definition example_template :: message_template where
  "example_template =
     \<lparr>mt_forEach = Some ''$.lines[*]'', mt_fields = [''sku'', ''missing''],
       mt_constants = [\<lparr>tc_name = ''n'', tc_kind = ''number'', tc_value = PStr ''12''\<rparr>]\<rparr>"

definition example_order :: pyval where
  "example_order = PDict [(''lines'', PList [PDict [(''sku'', PStr ''a'')], PDict [(''sku'', PStr ''b'')]])]"

definition example_clock :: clock where
  "example_clock = \<lparr>ck_today = ''2024-01-01'', ck_now = ''2024-01-01T00:00:00+00:00'',
     ck_float = (\<lambda>s. Inl (int_literal_error s))\<rparr>"

definition idle_session :: session where
  "idle_session = \<lparr>s_heap = empty_heap, s_ctx = None\<rparr>"

lemma example_payloads:
  "fst (build_send_message_payloads example_clock example_order ''json'' (Some example_template)
      idle_session) =
   Inr [PDict [(''sku'', PStr ''a''), (''n'', PInt 12)], PDict [(''sku'', PStr ''b''), (''n'', PInt 12)]]"
  by code_simp

lemma template_payloads_witness:
  "length (preview_send_message_template_rows example_order ''json'' (Some ''$.lines[*]'')) = 2"
proof -
  have "build_send_message_payloads example_clock example_order ''json'' (Some example_template)
      idle_session =
    (Inr [PDict [(''sku'', PStr ''a''), (''n'', PInt 12)], PDict [(''sku'', PStr ''b''), (''n'', PInt 12)]],
     snd (build_send_message_payloads example_clock example_order ''json'' (Some example_template)
      idle_session))"
    using example_payloads by (metis prod.collapse)
  from list_all2_lengthD[OF template_payloads[OF this]] show ?thesis
    by (simp add: example_template_def)
qed

end
