(* ===== verification/Machine.thy ===== *)
theory Machine
  imports Constant_Registry Event_Bus Send_Message_Template
begin

section \<open>What a command runs on\<close>

text \<open>
  The state a command executor can reach: the run context of its thread, the tables it reads
  and writes through the entity services, the event bus, the log and the execution variables.
  Whatever lies outside the program (message brokers, database engines, the clock, the threads
  it starts) is the world \<open>mc_world\<close>, which the functions of \<open>environment\<close> read and change. An
  operation is a state-exception function, so what was done before an exception stays done.
\<close>

subsection \<open>Tables\<close>

record queue_row =
  qr_code :: string
  qr_broker_id :: string
  qr_configuration :: pyval

record dataset_row =
  dr_description :: string
  dr_configuration :: pyval
  dr_perimeter :: pyval

record execution_row =
  xr_run_id :: string
  xr_item_execution_id :: string
  xr_item_id :: "string option"
  xr_command_id :: "string option"
  xr_description :: string
  xr_order :: int
  xr_status :: string
  xr_error_message :: "string option"
  xr_finished_at :: "string option"

record log_row =
  lr_subject_type :: string
  lr_subject :: string
  lr_level :: string
  lr_message :: string
  lr_payload :: pyval

subsection \<open>The outside\<close>

text \<open>
  A request to a database engine. \<open>ReplaceRows\<close> is the transaction of an insert-update: for each
  row the rows that agree with it on the mapping keys are deleted, then all rows are inserted.
\<close>

datatype db_request =
    DropTable string
  | EnsureTable string pydict
  | InsertRows string "pydict list"
  | DeleteRows string
  | ReplaceRows string "string list" "pydict list"

text \<open>\<open>None\<close> is the engine of the application's own database, \<open>Some\<close> a configured connection.\<close>

type_synonym engine = "pydict option"

record 'w environment =
  en_clock :: clock
  en_local_now :: string
  en_uid :: "nat \<Rightarrow> string"
  en_stamp :: "nat \<Rightarrow> string"
  en_schema :: schema_checker
  en_loads :: "string \<Rightarrow> pyval result"
  en_broker :: "pydict \<Rightarrow> unit result"
  en_connection :: "pydict \<Rightarrow> pydict result"
  en_receive :: "pydict \<Rightarrow> string \<Rightarrow> int \<Rightarrow> 'w \<Rightarrow> pyval list result \<times> 'w"
  en_publish :: "pydict \<Rightarrow> string \<Rightarrow> pyval list \<Rightarrow> 'w \<Rightarrow> unit result \<times> 'w"
  en_sleep :: "int \<Rightarrow> 'w \<Rightarrow> unit result \<times> 'w"
  en_db :: "engine \<Rightarrow> db_request \<Rightarrow> 'w \<Rightarrow> unit result \<times> 'w"
  en_rows :: "string \<Rightarrow> dataset_row \<Rightarrow> pyval \<Rightarrow> 'w \<Rightarrow> pyval list result \<times> 'w"
  en_start_suite :: "string \<Rightarrow> pyval \<Rightarrow> pyval \<Rightarrow> string option \<Rightarrow> 'w \<Rightarrow> string result \<times> 'w"

record 'w machine =
  mc_session :: session
  mc_db :: constant_db
  mc_payloads :: "json_payload_row table"
  mc_queues :: "queue_row table"
  mc_datasets :: "dataset_row table"
  mc_test_runs :: "execution_row table"
  mc_item_runs :: "execution_row table"
  mc_logs :: "log_row list"
  mc_bus :: event_bus
  mc_vars :: runtime_vars
  mc_ticks :: nat
  mc_world :: 'w

subsection \<open>Access\<close>

definition eget :: "('s \<Rightarrow> 'a) \<Rightarrow> ('s, 'a) eff" where
  "eget f = (\<lambda>s. (Inr (f s), s))"

definition on_session :: "(session, 'a) eff \<Rightarrow> ('w machine, 'a) eff" where
  "on_session m = (\<lambda>s. case m (mc_session s) of (r, t) \<Rightarrow> (r, s\<lparr>mc_session := t\<rparr>))"

definition on_world :: "('w \<Rightarrow> 'a result \<times> 'w) \<Rightarrow> ('w machine, 'a) eff" where
  "on_world m = (\<lambda>s. case m (mc_world s) of (r, w) \<Rightarrow> (r, s\<lparr>mc_world := w\<rparr>))"

definition next_tick :: "('w machine, nat) eff" where
  "next_tick = (\<lambda>s. (Inr (mc_ticks s), s\<lparr>mc_ticks := Suc (mc_ticks s)\<rparr>))"

text \<open>A fresh object for a JSON value, and the JSON value of an object (cyclic values have none).\<close>

definition new_value :: "pyval \<Rightarrow> ('w machine, hval) eff" where
  "new_value v = on_session (on_heap (\<lambda>h. case alloc_val v h of (r, h1) \<Rightarrow> (Inr r, h1)))"

definition new_object :: "hobj \<Rightarrow> ('w machine, hval) eff" where
  "new_object ob = on_session (on_heap (\<lambda>h. case alloc ob h of (r, h1) \<Rightarrow> (Inr r, h1)))"

definition json_value :: "heap \<Rightarrow> hval \<Rightarrow> pyval result" where
  "json_value h v =
     (case reify (hp_next h) h v of
        None \<Rightarrow> Inl (ValueError ''Circular reference detected'') | Some x \<Rightarrow> Inr x)"

definition value_of :: "hval \<Rightarrow> ('w machine, pyval) eff" where
  "value_of v = (\<lambda>s. (json_value (s_heap (mc_session s)) v, s))"

definition open_scope :: "('w machine, hval) eff" where
  "open_scope = on_session (\<lambda>s.
     case build_run_context_scope (s_ctx s) (s_heap s) of (r, h) \<Rightarrow> (Inr r, s\<lparr>s_heap := h\<rparr>))"

definition resolve_in :: "hval \<Rightarrow> pyval \<Rightarrow> ('w machine, hval) eff" where
  "resolve_in scope v = on_session (on_heap (resolve_dynamic_value v scope))"

definition definition_path :: "string \<Rightarrow> ('w machine, definition_row \<times> string) eff" where
  "definition_path i = (\<lambda>s. (resolve_definition_path (mc_db s) i, s))"

subsection \<open>Log and events\<close>

definition publish_event ::
  "'w environment \<Rightarrow> string \<Rightarrow> string \<Rightarrow> pydict \<Rightarrow> ('w machine, unit) eff" where
  "publish_event en e name payload =
     ebind next_tick (\<lambda>k. emodify (\<lambda>s. s\<lparr>mc_bus :=
       publish_execution_event (en_stamp en k) e name payload (mc_bus s)\<rparr>))"

definition write_log ::
  "'w environment \<Rightarrow> string \<Rightarrow> string \<Rightarrow> string \<Rightarrow> pyval \<Rightarrow> ('w machine, unit) eff" where
  "write_log en subject message level payload =
     ebind next_tick (\<lambda>k. emodify (\<lambda>s. s\<lparr>
       mc_logs := mc_logs s @ [\<lparr>lr_subject_type = ''OPERATION_EXECUTION'', lr_subject = subject,
                                lr_level = level, lr_message = message, lr_payload = payload\<rparr>],
       mc_bus := publish_runtime_log_event (en_stamp en k) (mc_vars s) ''OPERATION_EXECUTION''
                   subject level message payload (mc_bus s)\<rparr>))"

subsection \<open>Lemmas\<close>

lemma eget_apply [simp]: "eget f s = (Inr (f s), s)"
  by (simp add: eget_def)

lemma next_tick_apply [simp]: "next_tick s = (Inr (mc_ticks s), s\<lparr>mc_ticks := Suc (mc_ticks s)\<rparr>)"
  by (simp add: next_tick_def)

lemma definition_path_apply [simp]: "definition_path i s = (resolve_definition_path (mc_db s) i, s)"
  by (simp add: definition_path_def)

lemma value_of_apply [simp]: "value_of v s = (json_value (s_heap (mc_session s)) v, s)"
  by (simp add: value_of_def)

end
