(* ===== verification/Command_Executors.thy ===== *)
theory Command_Executors
  imports Machine Command_Convert
begin

section \<open>The command executors\<close>

text \<open>
  One function per executor class of \<open>elaborations/services/operations\<close>, and the helpers of
  \<open>command_data_resolver.py\<close> they share. An executor returns the data handed to the next
  command and the rows of its result, both objects of the store.
\<close>

record exec_result =
  er_data :: hval
  er_result :: "hval list"

definition log_info :: "'w environment \<Rightarrow> string \<Rightarrow> string \<Rightarrow> pyval \<Rightarrow> ('w machine, unit) eff" where
  "log_info en i message payload = write_log en i message ''INFO'' payload"

text \<open>\<open>ExecutionResultDto(data=data, result=[{"message": message, ...}])\<close>.\<close>

definition result_row :: "hval \<Rightarrow> pydict \<Rightarrow> ('w machine, exec_result) eff" where
  "result_row data row =
     ebind (new_value (PDict row)) (\<lambda>r. ereturn \<lparr>er_data = data, er_result = [r]\<rparr>)"

definition none_text :: "string option \<Rightarrow> string" where
  "none_text so = (case so of None \<Rightarrow> ''None'' | Some s \<Rightarrow> s)"

subsection \<open>Input and output constants\<close>

definition find_dataset :: "string \<Rightarrow> ('w machine, string \<times> dataset_row) eff" where
  "find_dataset i = (\<lambda>s.
     (case get_by_id (strip i) (mc_datasets s) of
        None \<Rightarrow> Inl (ValueError (''Database datasource '' @ quoted i @ '' not found''))
      | Some r \<Rightarrow> Inr (strip i, r), s))"

definition dataset_constant_error :: "definition_row \<Rightarrow> exc" where
  "dataset_constant_error d =
     ValueError (''Dataset constant '' @ quoted (df_name d) @
       '' must resolve to a dataset id string or object.'')"

definition dataset_reference :: "definition_row \<Rightarrow> pyval \<Rightarrow> (string \<times> pyval) result" where
  "dataset_reference d v =
     (case v of
        PStr s \<Rightarrow> if strip s = [] then Inl (dataset_constant_error d) else Inr (strip s, PNone)
      | PDict e \<Rightarrow>
          (let i = token (py_or (dget e ''dataset_id'') (dget e ''datasetId''));
               ps = dget e ''parameters''
           in if i = [] \<or> \<not> is_dict ps then Inl (dataset_constant_error d) else Inr (i, ps))
      | _ \<Rightarrow> Inl (dataset_constant_error d))"

definition resolve_dataset_rows ::
  "'w environment \<Rightarrow> definition_row \<Rightarrow> hval \<Rightarrow> ('w machine, hval) eff" where
  "resolve_dataset_rows en d v =
     ebind (value_of v) (\<lambda>x.
     ebind (elift (dataset_reference d x)) (\<lambda>(i, ps).
     ebind (find_dataset i) (\<lambda>(k, row).
     ebind (on_world (en_rows en k row ps)) (\<lambda>rows. new_value (PList rows)))))"

definition resolve_definition_input_data ::
  "'w environment \<Rightarrow> string \<Rightarrow> hval \<Rightarrow> ('w machine, hval) eff" where
  "resolve_definition_input_data en i data =
     (if i = [] then ereturn data
      else
        ebind (definition_path i) (\<lambda>(d, path).
        ebind open_scope (\<lambda>scope.
        ebind (resolve_in scope (PStr path)) (\<lambda>v.
        if v = HStr path then ereturn HNone
        else if strip (df_value_type d) = ''dataset'' then resolve_dataset_rows en d v
        else ereturn v))))"

definition write_result_constant :: "result_constant option \<Rightarrow> hval \<Rightarrow> ('w machine, unit) eff" where
  "write_result_constant rc v =
     (case rc of
        None \<Rightarrow> ereturn ()
      | Some c \<Rightarrow>
          ebind (definition_path (rc_definitionId c)) (\<lambda>(d, path).
          on_session (write_context_path path v)))"

definition write_result_row :: "result_constant option \<Rightarrow> pydict \<Rightarrow> ('w machine, unit) eff" where
  "write_result_row rc row =
     (if rc = None then ereturn ()
      else ebind (new_value (PDict row)) (\<lambda>v. write_result_constant rc v))"

definition coerce_rows :: "pyval \<Rightarrow> pydict list" where
  "coerce_rows v =
     (case v of
        PList xs \<Rightarrow> map dict_or_empty (filter is_dict xs)
      | PDict d \<Rightarrow> [d]
      | _ \<Rightarrow> [])"

text \<open>The last value of every column over all rows: the shape a missing table is created with.\<close>

definition sample_row :: "pydict list \<Rightarrow> pydict" where
  "sample_row rows = fold (\<lambda>row acc. dupdate acc row) rows []"

subsection \<open>\<open>init_constant_command_executor.py\<close>\<close>

definition load_json_array :: "string option \<Rightarrow> ('w machine, hval) eff" where
  "load_json_array i =
     ebind (eget (\<lambda>s. get_by_id (opt_token i) (mc_payloads s))) (\<lambda>found.
     case found of
       None \<Rightarrow> eraise (ValueError (''Json array '' @ quoted (none_text i) @ '' not found''))
     | Some e \<Rightarrow>
         (case jp_payload e of
            PList xs \<Rightarrow> new_value (PList xs) | p \<Rightarrow> new_value (PList [p])))"

definition resolve_builtin :: "'w environment \<Rightarrow> string \<Rightarrow> pyval result" where
  "resolve_builtin en name =
     (let n = strip name in
      if n \<notin> set built_in_resolvers
      then Inl (ValueError (''Unsupported dataset built-in resolver '' @ quoted n @ ''.''))
      else if n = ''$now'' then Inr (PStr (en_local_now en))
      else Inr (PStr (ck_today (en_clock en))))"

definition resolve_binding ::
  "'w environment \<Rightarrow> string \<Rightarrow> pyval \<Rightarrow> ('w machine, hval) eff" where
  "resolve_binding en name raw =
     (case raw of
        PDict b \<Rightarrow>
          (let kind = lower (token (dget b ''kind'')) in
           if kind = ''constant_ref'' then
             ebind (definition_path (token (dget b ''definitionId''))) (\<lambda>(d, path).
             ebind open_scope (\<lambda>scope.
             ebind (resolve_in scope (PStr path)) (\<lambda>v.
             if v = HStr path
             then eraise (ValueError (''Dataset parameter '' @ quoted name @
                    '' constant reference is not resolved.''))
             else ereturn v)))
           else if kind = ''built_in'' then
             ebind (elift (resolve_builtin en (token (dget b ''resolver'')))) new_value
           else new_value raw)
      | _ \<Rightarrow> new_value raw)"

fun resolve_dataset_parameter_bindings ::
  "'w environment \<Rightarrow> pydict \<Rightarrow> hdict \<Rightarrow> ('w machine, hdict) eff" where
  "resolve_dataset_parameter_bindings en [] acc = ereturn acc"
| "resolve_dataset_parameter_bindings en ((name, raw) # ps) acc =
     ebind (resolve_binding en name raw) (\<lambda>v.
     resolve_dataset_parameter_bindings en ps (dset name v acc))"

definition load_dataset :: "'w environment \<Rightarrow> init_constant_dto \<Rightarrow> ('w machine, hval) eff" where
  "load_dataset en cfg =
     ebind (find_dataset (opt_token (ic_dataset_id cfg))) (\<lambda>(i, row).
     case ic_parameters cfg of
       None \<Rightarrow> new_value (PStr i)
     | Some ps \<Rightarrow>
         if ps = [] then new_value (PStr i)
         else
           ebind (resolve_dataset_parameter_bindings en ps []) (\<lambda>bs.
           ebind (new_object (HDict bs)) (\<lambda>b.
           new_object (HDict [(''dataset_id'', HStr i), (''parameters'', b)]))))"

text \<open>
  The polling loop. Every read either spends a retry or adds a message, so it ends after at
  most \<open>retry + max_messages\<close> reads, whatever the broker answers.
\<close>

function receive_loop ::
  "(int \<Rightarrow> 'w \<Rightarrow> pyval list result \<times> 'w) \<Rightarrow> ('w \<Rightarrow> unit result \<times> 'w) \<Rightarrow> int \<Rightarrow> int \<Rightarrow>
     pyval list \<Rightarrow> 'w \<Rightarrow> pyval list result \<times> 'w" where
  "receive_loop recv pause max_messages retry all_msgs w =
     (if 0 < retry \<and> int (length all_msgs) < max_messages then
        (case recv (max_messages - int (length all_msgs)) w of
           (Inl e, w1) \<Rightarrow> (Inl e, w1)
         | (Inr msgs, w1) \<Rightarrow>
             if msgs = [] then
               (case pause w1 of
                  (Inl e, w2) \<Rightarrow> (Inl e, w2)
                | (Inr u, w2) \<Rightarrow> receive_loop recv pause max_messages (retry - 1) all_msgs w2)
             else receive_loop recv pause max_messages retry (all_msgs @ msgs) w1)
      else (Inr all_msgs, w))"
  by pat_completeness auto

termination
  by (relation "measure (\<lambda>(recv, pause, mx, retry, msgs, w). nat retry + nat (mx - int (length msgs)))")
    (auto simp: neq_Nil_conv)

declare receive_loop.simps [simp del]

definition message_body :: "'w environment \<Rightarrow> nat \<Rightarrow> pyval \<Rightarrow> pyval result" where
  "message_body en n message =
     (case message of
        PDict m \<Rightarrow>
          (case (if dhas m ''Body'' then dget m ''Body'' else message) of
             PStr s \<Rightarrow>
               (case en_loads en s of
                  Inl e \<Rightarrow> Inl (ValueError (''Invalid body in message '' @ show_nat n @ '': '' @
                             exc_message e))
                | Inr v \<Rightarrow> Inr v)
           | v \<Rightarrow> Inr v)
      | _ \<Rightarrow> Inl (ValueError (''Message '' @ show_nat n @ '' is not valid JSON.'')))"

fun message_bodies :: "'w environment \<Rightarrow> nat \<Rightarrow> pyval list \<Rightarrow> pyval list result" where
  "message_bodies en n [] = Inr []"
| "message_bodies en n (m # ms) =
     rbind (message_body en n m) (\<lambda>b. rbind (message_bodies en (Suc n) ms) (\<lambda>bs. Inr (b # bs)))"

text \<open>\<open>QueueService().get_by_id\<close>, \<open>load_broker_connection\<close> and the connection service of it.\<close>

definition find_queue :: "string option \<Rightarrow> ('w machine, queue_row) eff" where
  "find_queue i =
     ebind (eget (\<lambda>s. case i of None \<Rightarrow> None | Some k \<Rightarrow> get_by_id k (mc_queues s))) (\<lambda>found.
     case found of
       None \<Rightarrow> eraise (ValueError (''Queue '' @ quoted (none_text i) @ '' not found''))
     | Some r \<Rightarrow> ereturn r)"

definition load_broker_connection :: "'w environment \<Rightarrow> string \<Rightarrow> ('w machine, pydict) eff" where
  "load_broker_connection en i =
     ebind (eget (\<lambda>s. get_by_id i (mc_payloads s))) (\<lambda>found.
     case found of
       None \<Rightarrow> eraise (ValueError (''Broker connection '' @ quoted i @ '' not found''))
     | Some e \<Rightarrow>
         (case jp_payload e of
            PDict d \<Rightarrow>
              if dget d ''sourceType'' \<in> {PStr ''amazon-sqs'', PStr ''elasticmq''}
              then ebind (elift (en_broker en d)) (\<lambda>_. ereturn d)
              else eraise (ValueError (''Unsupported sourceType: '' @ py_str (dget d ''sourceType'')))
          | _ \<Rightarrow> eraise (AttributeError ''object has no attribute get'')))"

definition load_queue_messages :: "'w environment \<Rightarrow> init_constant_dto \<Rightarrow> ('w machine, hval) eff" where
  "load_queue_messages en cfg =
     ebind (find_queue (ic_queue_id cfg)) (\<lambda>q.
     ebind (load_broker_connection en (qr_broker_id q)) (\<lambda>conn.
     ebind (on_world (receive_loop (en_receive en conn (none_text (ic_queue_id cfg)))
              (en_sleep en (ic_wait_time_seconds cfg)) (ic_max_messages cfg) (ic_retry cfg) [])) (\<lambda>msgs.
     ebind (elift (message_bodies en 1 msgs)) (\<lambda>rows. new_value (PList rows)))))"

definition load_value :: "'w environment \<Rightarrow> init_constant_dto \<Rightarrow> hval \<Rightarrow> ('w machine, hval) eff" where
  "load_value en cfg data =
     (if ic_sourceType cfg = ''raw'' then new_value (ic_value cfg)
      else if ic_sourceType cfg = ''json'' then new_value (ic_value cfg)
      else if ic_sourceType cfg = ''jsonArray'' then load_json_array (ic_json_array_id cfg)
      else if ic_sourceType cfg = ''dataset'' then load_dataset en cfg
      else if ic_sourceType cfg = ''sqsQueue'' then load_queue_messages en cfg
      else ereturn data)"

definition execute_init_constant ::
  "'w environment \<Rightarrow> string \<Rightarrow> init_constant_dto \<Rightarrow> hval \<Rightarrow> ('w machine, exec_result) eff" where
  "execute_init_constant en i cfg data =
     ebind (load_value en cfg data) (\<lambda>v.
     ebind (on_session (write_context_path
              (''$.'' @ ic_context cfg @ ''.constants.'' @ ic_name cfg) v)) (\<lambda>_.
     (let message = ''Initialized constant '' @ quoted (ic_name cfg) @ '' in context '' @
                      quoted (ic_context cfg) @ ''.'' in
      ebind (log_info en i message
               (PDict [(''name'', PStr (ic_name cfg)), (''context'', PStr (ic_context cfg)),
                       (''source_type'', PStr (ic_sourceType cfg))])) (\<lambda>_.
      result_row v [(''message'', PStr message), (''name'', PStr (ic_name cfg)),
                    (''context'', PStr (ic_context cfg)),
                    (''sourceType'', PStr (ic_sourceType cfg))]))))"

subsection \<open>\<open>delete_constant_command_executor.py\<close>, \<open>sleep_command_executor.py\<close>\<close>

definition execute_delete_constant ::
  "'w environment \<Rightarrow> string \<Rightarrow> delete_constant_dto \<Rightarrow> hval \<Rightarrow> ('w machine, exec_result) eff" where
  "execute_delete_constant en i cfg data =
     ebind (definition_path (dc_targetConstantRef cfg)) (\<lambda>(d, path).
     ebind (on_session (remove_context_path path)) (\<lambda>_.
     (let message = ''Deleted constant '' @ quoted (df_name d) @ '' from context '' @
                      quoted (df_context_scope d) @ ''.'' in
      ebind (log_info en i message PNone) (\<lambda>_.
      result_row data [(''message'', PStr message), (''name'', PStr (df_name d)),
                       (''context'', PStr (df_context_scope d))]))))"

definition execute_sleep ::
  "'w environment \<Rightarrow> string \<Rightarrow> sleep_dto \<Rightarrow> hval \<Rightarrow> ('w machine, exec_result) eff" where
  "execute_sleep en i cfg data =
     ebind (on_world (en_sleep en (sl_duration cfg))) (\<lambda>_.
     (let message = ''Slept for '' @ show_int (sl_duration cfg) @ '' second(s).'' in
      ebind (log_info en i message PNone) (\<lambda>_. result_row data [(''message'', PStr message)])))"

end
