(* ===== verification/Action_Executors.thy ===== *)
theory Action_Executors
  imports Command_Executors
begin

section \<open>The executors with side effects, and the asserts\<close>

subsection \<open>\<open>send_message_queue_command_executor.py\<close>\<close>

text \<open>On JSON values \<open>make_json_safe\<close> of \<open>json_utils/services/json_service.py\<close> only copies.\<close>

fun make_json_safe :: "pyval \<Rightarrow> pyval" where
  "make_json_safe (PList xs) = PList (map make_json_safe xs)"
| "make_json_safe (PDict d) = PDict (map (\<lambda>(k, v). (k, make_json_safe v)) d)"
| "make_json_safe v = v"

definition execute_send_message ::
  "'w environment \<Rightarrow> string \<Rightarrow> send_message_dto \<Rightarrow> hval \<Rightarrow> ('w machine, exec_result) eff" where
  "execute_send_message en i cfg data =
     ebind (find_queue (Some (sm_queue_id cfg))) (\<lambda>q.
     ebind (load_broker_connection en (qr_broker_id q)) (\<lambda>conn.
     ebind (definition_path (sm_sourceConstantRef cfg)) (\<lambda>(d, path).
     ebind (resolve_definition_input_data en (sm_sourceConstantRef cfg) data) (\<lambda>input.
     ebind (value_of input) (\<lambda>v.
     ebind (on_session (build_send_message_payloads (en_clock en) v (df_value_type d)
              (sm_message_template cfg))) (\<lambda>payload.
     (let msg = map make_json_safe payload in
      ebind (on_world (en_publish en conn (sm_queue_id cfg) msg)) (\<lambda>_.
      (let message = ''Published '' @ show_nat (length payload) @ '' message(s) to queue '' @
                       quoted (qr_code q) in
       ebind (write_result_row (sm_resultConstant cfg)
                [(''queue_id'', PStr (sm_queue_id cfg)), (''queue_code'', PStr (qr_code q)),
                 (''published'', PInt (int (length payload))), (''renderedPayloads'', PList msg)]) (\<lambda>_.
       ebind (log_info en i message PNone) (\<lambda>_.
       result_row input [(''message'', PStr message)])))))))))))"

subsection \<open>Tables of the application database\<close>

definition execute_save_table ::
  "'w environment \<Rightarrow> string \<Rightarrow> save_table_dto \<Rightarrow> hval \<Rightarrow> ('w machine, exec_result) eff" where
  "execute_save_table en i cfg data =
     ebind (resolve_definition_input_data en (st_sourceConstantRef cfg) data) (\<lambda>input.
     ebind (value_of input) (\<lambda>v.
     (let rows = coerce_rows v; table = st_table_name cfg in
      if rows = [] then
        (let message = ''No data to insert into '' @ table @ '' table'' in
         ebind (log_info en i message PNone) (\<lambda>_. result_row input [(''message'', PStr message)]))
      else
        ebind (on_world (en_db en None (EnsureTable table (sample_row rows)))) (\<lambda>_.
        ebind (on_world (en_db en None (InsertRows table rows))) (\<lambda>_.
        (let message = ''Created '' @ show_nat (length rows) @ '' rows in '' @ table @ '' table'' in
         ebind (write_result_row (st_resultConstant cfg)
                  [(''table_name'', PStr table), (''inserted_rows'', PInt (int (length rows)))]) (\<lambda>_.
         ebind (log_info en i message PNone) (\<lambda>_.
         result_row input [(''message'', PStr message)]))))))))"

definition execute_drop_table ::
  "'w environment \<Rightarrow> string \<Rightarrow> table_dto \<Rightarrow> hval \<Rightarrow> ('w machine, exec_result) eff" where
  "execute_drop_table en i cfg data =
     ebind (on_world (en_db en None (DropTable (tb_table_name cfg)))) (\<lambda>_.
     (let message = ''Dropped internal table '' @ quoted (tb_table_name cfg) @ ''.'' in
      ebind (log_info en i message PNone) (\<lambda>_.
      result_row data [(''message'', PStr message), (''table_name'', PStr (tb_table_name cfg))])))"

definition execute_clean_table ::
  "'w environment \<Rightarrow> string \<Rightarrow> table_dto \<Rightarrow> hval \<Rightarrow> ('w machine, exec_result) eff" where
  "execute_clean_table en i cfg data =
     ebind (on_world (en_db en None (DeleteRows (tb_table_name cfg)))) (\<lambda>_.
     (let message = ''Cleaned internal table '' @ quoted (tb_table_name cfg) @ ''.'' in
      ebind (log_info en i message PNone) (\<lambda>_.
      result_row data [(''message'', PStr message), (''table_name'', PStr (tb_table_name cfg))])))"

subsection \<open>Datasets\<close>

definition supported_databases :: "string list" where
  "supported_databases = [''postgres'', ''oracle'', ''sqlserver'']"

text \<open>
  The two readers of a connection: the one of the export executor normalises the database type,
  the other compares it as stored.
\<close>

definition export_connection :: "'w environment \<Rightarrow> string \<Rightarrow> ('w machine, pydict) eff" where
  "export_connection en i =
     ebind (eget (\<lambda>s. get_by_id i (mc_payloads s))) (\<lambda>found.
     case found of
       None \<Rightarrow> eraise (ValueError (''Database connection '' @ quoted i @ '' not found''))
     | Some e \<Rightarrow>
         (case jp_payload e of
            PDict d \<Rightarrow>
              (let t = lower (token (dget d ''database_type'')) in
               if t \<in> set supported_databases then elift (en_connection en d)
               else eraise (ValueError (''Unsupported database connection type: '' @ t)))
          | _ \<Rightarrow> eraise (AttributeError ''object has no attribute get'')))"

definition load_database_connection :: "'w environment \<Rightarrow> string \<Rightarrow> ('w machine, pydict) eff" where
  "load_database_connection en i =
     ebind (eget (\<lambda>s. get_by_id i (mc_payloads s))) (\<lambda>found.
     case found of
       None \<Rightarrow> eraise (ValueError (''Database connection '' @ quoted i @ '' not found''))
     | Some e \<Rightarrow>
         (case jp_payload e of
            PDict d \<Rightarrow>
              if dget d ''database_type'' \<in> PStr ` set supported_databases
              then elift (en_connection en d)
              else eraise (ValueError (''Unsupported database connection type: '' @
                     py_str (dget d ''database_type'')))
          | _ \<Rightarrow> eraise (AttributeError ''object has no attribute get'')))"

definition split_table_name :: "string \<Rightarrow> string option \<times> string" where
  "split_table_name t =
     (if CHR ''.'' \<in> set t
      then (Some (takeWhile (\<lambda>c. c \<noteq> CHR ''.'') t), tl (dropWhile (\<lambda>c. c \<noteq> CHR ''.'') t))
      else (None, t))"

definition export_payload :: "string \<Rightarrow> string \<Rightarrow> pydict \<Rightarrow> pydict" where
  "export_payload connection_id table connection =
     (let (schema, only) =
            (case split_table_name table of
               (Some sc, t) \<Rightarrow> (sc, t)
             | (None, t) \<Rightarrow> (text_of (dget connection ''db_schema''), t))
      in [(''connection_id'', PStr connection_id), (''object_name'', PStr only),
          (''object_type'', PStr ''table'')] @
         (if schema = [] then [] else [(''schema'', PStr schema)]))"

definition insert_dataset :: "'w environment \<Rightarrow> dataset_row \<Rightarrow> ('w machine, string) eff" where
  "insert_dataset en row =
     ebind next_tick (\<lambda>n s.
       case insert_row (en_uid en n) row (mc_datasets s) of
         Inl e \<Rightarrow> (Inl e, s)
       | Inr t \<Rightarrow> (Inr (en_uid en n), s\<lparr>mc_datasets := t\<rparr>))"

definition save_export_dataset ::
  "'w environment \<Rightarrow> string option \<Rightarrow> string \<Rightarrow> pydict \<Rightarrow> ('w machine, string) eff" where
  "save_export_dataset en i description payload =
     (let k = (case i of None \<Rightarrow> [] | Some k \<Rightarrow> k) in
      if k \<noteq> [] then
        ebind (emodify (\<lambda>s. s\<lparr>mc_datasets := update_row k
            (\<lambda>r. r\<lparr>dr_description := description, dr_configuration := PDict payload\<rparr>)
            (mc_datasets s)\<rparr>)) (\<lambda>_. ereturn k)
      else insert_dataset en \<lparr>dr_description = description, dr_configuration = PDict payload,
                              dr_perimeter = PNone\<rparr>)"

definition export_rows ::
  "'w environment \<Rightarrow> export_dataset_dto \<Rightarrow> pydict \<Rightarrow> string \<Rightarrow> pydict list \<Rightarrow> ('w machine, unit) eff" where
  "export_rows en cfg connection table rows =
     (let db = (\<lambda>q. on_world (en_db en (Some connection) q));
          ensure = db (EnsureTable table (sample_row rows));
          keys = (case ed_mapping_keys cfg of None \<Rightarrow> [] | Some ks \<Rightarrow> ks)
      in
      ebind (if ed_mode cfg = ''drop-create'' then db (DropTable table) else ereturn ()) (\<lambda>_.
      ebind ensure (\<lambda>_.
      if ed_mode cfg = ''insert-update'' \<and> keys \<noteq> [] then db (ReplaceRows table keys rows)
      else
        ebind (if ed_mode cfg = ''drop-create'' then ensure else ereturn ()) (\<lambda>_.
        db (InsertRows table rows)))))"

definition execute_export_dataset ::
  "'w environment \<Rightarrow> string \<Rightarrow> export_dataset_dto \<Rightarrow> hval \<Rightarrow> ('w machine, exec_result) eff" where
  "execute_export_dataset en i cfg data =
     (let connection_id = opt_token (ed_connection_id cfg); table = opt_token (ed_table_name cfg) in
      ebind (resolve_definition_input_data en (ed_sourceConstantRef cfg) data) (\<lambda>input.
      ebind (value_of input) (\<lambda>v.
      (let rows = coerce_rows v in
       ebind (elift (guard (connection_id \<noteq> [])
                (ValueError ''exportDataset requires connection_id.''))) (\<lambda>_.
       ebind (elift (guard (table \<noteq> []) (ValueError ''exportDataset requires table_name.''))) (\<lambda>_.
       ebind (export_connection en connection_id) (\<lambda>connection.
       if rows = [] then
         (let message = ''No data to insert into '' @ table @ '' table'' in
          ebind (log_info en i message PNone) (\<lambda>_. result_row input [(''message'', PStr message)]))
       else
         ebind (export_rows en cfg connection table rows) (\<lambda>_.
         ebind (save_export_dataset en (ed_dataset_id cfg)
                  (case nonempty (case ed_dataset_description cfg of None \<Rightarrow> [] | Some t \<Rightarrow> t) of
                     None \<Rightarrow> table | Some t \<Rightarrow> t)
                  (export_payload connection_id table connection)) (\<lambda>dataset_id.
         (let message = ''Created '' @ show_nat (length rows) @ '' rows in '' @ table @ '' table'' in
          ebind (write_result_row (ed_resultConstant cfg)
                   [(''table_name'', PStr table), (''inserted_rows'', PInt (int (length rows))),
                    (''connection_id'', PStr connection_id), (''dataset_id'', PStr dataset_id),
                    (''mode'', PStr (ed_mode cfg))]) (\<lambda>_.
          ebind (log_info en i message PNone) (\<lambda>_.
          result_row input [(''message'', PStr message)]))))))))))))"

definition table_name_from_payload :: "pydict \<Rightarrow> string" where
  "table_name_from_payload payload =
     (let object_name = token (dget payload ''object_name''); schema = token (dget payload ''schema'')
      in if schema = [] \<or> CHR ''.'' \<in> set object_name then object_name
         else schema @ ''.'' @ object_name)"

definition execute_drop_dataset ::
  "'w environment \<Rightarrow> string \<Rightarrow> dataset_dto \<Rightarrow> hval \<Rightarrow> ('w machine, exec_result) eff" where
  "execute_drop_dataset en i cfg data =
     ebind (find_dataset (ds_dataset_id cfg)) (\<lambda>(k, row).
     (let payload = dict_or_empty (dr_configuration row);
          table = table_name_from_payload payload in
      ebind (load_database_connection en (token (dget payload ''connection_id''))) (\<lambda>connection.
      ebind (on_world (en_db en (Some connection) (DropTable table))) (\<lambda>_.
      ebind (emodify (\<lambda>s. s\<lparr>mc_datasets := snd (delete_by_id (ds_dataset_id cfg) (mc_datasets s))\<rparr>)) (\<lambda>_.
      (let message = ''Dropped dataset '' @ quoted (ds_dataset_id cfg) @ '' and table '' @
                       quoted table @ ''.'' in
       ebind (log_info en i message PNone) (\<lambda>_.
       result_row data [(''message'', PStr message), (''dataset_id'', PStr (ds_dataset_id cfg))])))))))"

definition execute_clean_dataset ::
  "'w environment \<Rightarrow> string \<Rightarrow> dataset_dto \<Rightarrow> hval \<Rightarrow> ('w machine, exec_result) eff" where
  "execute_clean_dataset en i cfg data =
     ebind (find_dataset (ds_dataset_id cfg)) (\<lambda>(k, row).
     (let payload = dict_or_empty (dr_configuration row);
          table = table_name_from_payload payload in
      ebind (load_database_connection en (token (dget payload ''connection_id''))) (\<lambda>connection.
      ebind (on_world (en_db en (Some connection) (DeleteRows table))) (\<lambda>_.
      (let message = ''Cleaned dataset '' @ quoted (ds_dataset_id cfg) @ '' table '' @
                       quoted table @ ''.'' in
       ebind (log_info en i message PNone) (\<lambda>_.
       result_row data [(''message'', PStr message), (''dataset_id'', PStr (ds_dataset_id cfg))]))))))"

subsection \<open>\<open>run_suite_command_executor.py\<close>\<close>

fun collect_constants :: "hval \<Rightarrow> const_ref list \<Rightarrow> hdict \<Rightarrow> ('w machine, hdict) eff" where
  "collect_constants scope [] acc = ereturn acc"
| "collect_constants scope (r # rs) acc =
     ebind (definition_path r) (\<lambda>(d, path).
     ebind (resolve_in scope (PStr path)) (\<lambda>v.
     collect_constants scope rs (if v = HNone then acc else dset (df_name d) v acc)))"

text \<open>\<open>RunContext.event\<close>, or \<open>{}\<close> outside a run.\<close>

definition run_event :: "('w machine, hval) eff" where
  "run_event = on_session (\<lambda>s.
     (let (v, h) = dict_or_new (case s_ctx s of None \<Rightarrow> HNone
                                | Some c \<Rightarrow> hget (s_heap s) (run_envelope c) ''event'') (s_heap s)
      in (Inr v, s\<lparr>s_heap := h\<rparr>)))"

definition opt_json :: "string option \<Rightarrow> pyval" where
  "opt_json so = (case so of None \<Rightarrow> PNone | Some t \<Rightarrow> PStr t)"

definition execute_run_suite ::
  "'w environment \<Rightarrow> string \<Rightarrow> run_suite_dto \<Rightarrow> hval \<Rightarrow> ('w machine, exec_result) eff" where
  "execute_run_suite en i cfg data =
     (let suite_id = strip (rs_suite_id cfg) in
      ebind open_scope (\<lambda>scope.
      ebind (collect_constants scope (rs_constantRefs cfg) []) (\<lambda>cs.
      ebind (new_object (HDict cs)) (\<lambda>constants.
      ebind run_event (\<lambda>event.
      ebind (value_of event) (\<lambda>event_value.
      ebind (value_of constants) (\<lambda>constants_value.
      ebind (eget (\<lambda>s. case s_ctx (mc_session s) of None \<Rightarrow> None | Some c \<Rightarrow> invocation_id c)) (\<lambda>inv_id.
      ebind (on_world (en_start_suite en suite_id event_value constants_value inv_id)) (\<lambda>execution_id.
      (let message = ''Test suite '' @ quoted suite_id @ '' started with execution_id '' @
                       quoted execution_id in
       ebind (log_info en i message
                (PDict [(''suite_id'', PStr suite_id), (''execution_id'', PStr execution_id),
                        (''constants'', constants_value), (''invocation_id'', opt_json inv_id)])) (\<lambda>_.
       ebind (if rs_resultConstant cfg = None then ereturn ()
              else ebind (new_object (HDict [(''suite_id'', HStr suite_id),
                           (''execution_id'', HStr execution_id), (''constants'', constants)]))
                     (write_result_constant (rs_resultConstant cfg))) (\<lambda>_.
       ebind (new_object (HDict [(''message'', HStr message), (''suite_id'', HStr suite_id),
                (''execution_id'', HStr execution_id), (''constants'', constants)])) (\<lambda>row.
       ereturn \<lparr>er_data = data, er_result = [row]\<rparr>)))))))))))))"

subsection \<open>\<open>assert_command_executor.py\<close>\<close>

definition assert_artifact ::
  "string \<Rightarrow> string \<Rightarrow> string \<Rightarrow> hval \<Rightarrow> hval \<Rightarrow> string option \<Rightarrow> ('w machine, unit) eff" where
  "assert_artifact i atype status actual expd err =
     ebind (new_object (HDict ([(''command_id'', HStr i), (''assert_type'', HStr atype),
              (''status'', HStr status), (''actual'', actual), (''expected'', expd)] @
              (case err of None \<Rightarrow> [] | Some m \<Rightarrow> [(''error'', HStr m)])))) (\<lambda>artifact.
     emodify (\<lambda>s. s\<lparr>mc_session := append_assert_artifact artifact (mc_session s)\<rparr>))"

text \<open>
  The body of the \<open>try\<close>: the assert on the JSON values, or the error. Comparing a cyclic value
  exhausts the stack.
\<close>

definition evaluate_on ::
  "'w environment \<Rightarrow> assert_dto \<Rightarrow> hval \<Rightarrow> hval \<Rightarrow> hval \<Rightarrow> 'w machine \<Rightarrow> unit result" where
  "evaluate_on en cfg data actual expd s =
     (let h = s_heap (mc_session s) in
      case (reify (hp_next h) h data, reify (hp_next h) h actual, reify (hp_next h) h expd) of
        (Some d, Some a, Some e) \<Rightarrow> evaluate_assert (en_schema en) (mc_payloads s) cfg d a e
      | _ \<Rightarrow> Inl (RuntimeError ''maximum recursion depth exceeded''))"

definition execute_assert ::
  "'w environment \<Rightarrow> string \<Rightarrow> assert_dto \<Rightarrow> hval \<Rightarrow> ('w machine, exec_result) eff" where
  "execute_assert en i cfg data =
     ebind open_scope (\<lambda>scope.
     ebind (definition_path (as_actualConstantRef cfg)) (\<lambda>(d, path).
     ebind (resolve_in scope (PStr path)) (\<lambda>actual.
     ebind (if as_expected cfg = PNone then ereturn HNone else resolve_in scope (as_expected cfg)) (\<lambda>expd.
     ebind (elift (assert_type cfg)) (\<lambda>atype.
     ebind (eget (\<lambda>s. evaluate_on en cfg
              (if list_at (s_heap (mc_session s)) actual = None then data else actual) actual expd s)) (\<lambda>verdict.
     case verdict of
       Inr u \<Rightarrow>
         ebind (assert_artifact i atype ''passed'' actual expd None) (\<lambda>_.
         (let message = ''Assert '' @ quoted (commandCode cfg) @ '' passed for '' @
                          quoted (as_evaluated_object_type cfg) @ '' data.'' in
          ebind (log_info en i message PNone) (\<lambda>_. result_row data [(''message'', PStr message)])))
     | Inl e \<Rightarrow>
         (let technical_message = exc_message e;
              configured_message = opt_token (as_error_message cfg);
              error_message = (if configured_message = [] then technical_message
                               else configured_message)
          in
          ebind (assert_artifact i atype ''failed'' actual expd (Some technical_message)) (\<lambda>_.
          ebind (write_log en i error_message ''ERROR''
                   (PDict [(''error'', PStr technical_message)])) (\<lambda>_.
          eraise (ValueError error_message))))))))))"

end
