(* ===== verification/Command_Composite.thy ===== *)
theory Command_Composite
  imports Action_Executors Command_Policy
begin

section \<open>Running a list of commands\<close>

text \<open>
  \<open>command_executor_composite.py\<close>: the dispatch of a command to its executor, and
  \<open>execute_operations\<close>, which records every command in the execution tables of the run it
  belongs to, publishes its outcome and stops at the first exception.
\<close>

text \<open>\<open>execute_operation\<close>: \<open>_EXECUTOR_MAPPING\<close> has an executor for every command class.\<close>

definition execute_operation ::
  "'w environment \<Rightarrow> string \<Rightarrow> command_dto \<Rightarrow> hval \<Rightarrow> ('w machine, exec_result) eff" where
  "execute_operation en i cfg data =
     (case cfg of
        InitConstantDto c \<Rightarrow> execute_init_constant en i c data
      | DeleteConstantDto c \<Rightarrow> execute_delete_constant en i c data
      | SleepDto c \<Rightarrow> execute_sleep en i c data
      | SendMessageQueueDto c \<Rightarrow> execute_send_message en i c data
      | SaveTableDto c \<Rightarrow> execute_save_table en i c data
      | DropTableDto c \<Rightarrow> execute_drop_table en i c data
      | CleanTableDto c \<Rightarrow> execute_clean_table en i c data
      | ExportDatasetDto c \<Rightarrow> execute_export_dataset en i c data
      | DropDatasetDto c \<Rightarrow> execute_drop_dataset en i c data
      | CleanDatasetDto c \<Rightarrow> execute_clean_dataset en i c data
      | RunSuiteDto c \<Rightarrow> execute_run_suite en i c data
      | AssertDto c \<Rightarrow> execute_assert en i c data)"

subsection \<open>Execution rows\<close>

record run_ids =
  ri_suite_execution :: string
  ri_suite_test_execution :: string
  ri_suite_test :: string
  ri_test_suite_execution :: string
  ri_suite_item_execution :: string
  ri_suite_item :: string

definition run_ids_of :: "runtime_vars \<Rightarrow> run_ids" where
  "run_ids_of v =
     \<lparr>ri_suite_execution = opt_token (rv_suite_execution_id v),
      ri_suite_test_execution = opt_token (rv_suite_test_execution_id v),
      ri_suite_test = opt_token (rv_suite_test_id v),
      ri_test_suite_execution = opt_token (rv_test_suite_execution_id v),
      ri_suite_item_execution = opt_token (rv_suite_item_execution_id v),
      ri_suite_item = opt_token (rv_suite_item_id v)\<rparr>"

definition records_test :: "run_ids \<Rightarrow> bool" where
  "records_test r \<longleftrightarrow> ri_suite_execution r \<noteq> [] \<and> ri_suite_test_execution r \<noteq> []"

definition records_item :: "run_ids \<Rightarrow> bool" where
  "records_item r \<longleftrightarrow> ri_test_suite_execution r \<noteq> [] \<and> ri_suite_item_execution r \<noteq> []"

definition running_row :: "string \<Rightarrow> string \<Rightarrow> string \<Rightarrow> string \<times> command_row \<Rightarrow> execution_row" where
  "running_row run item_execution item op =
     \<lparr>xr_run_id = run, xr_item_execution_id = item_execution, xr_item_id = nonempty item,
      xr_command_id = nonempty (fst op), xr_description = cw_description (snd op),
      xr_order = cw_order (snd op), xr_status = ''running'', xr_error_message = None,
      xr_finished_at = None\<rparr>"

text \<open>The ids of the rows a command has in the two execution tables, empty where it has none.\<close>

definition insert_test_run ::
  "'w environment \<Rightarrow> run_ids \<Rightarrow> string \<times> command_row \<Rightarrow> ('w machine, string) eff" where
  "insert_test_run en r op =
     (if \<not> records_test r then ereturn []
      else ebind next_tick (\<lambda>n s.
        case insert_row (en_uid en n)
               (running_row (ri_suite_execution r) (ri_suite_test_execution r) (ri_suite_test r) op)
               (mc_test_runs s) of
          Inl e \<Rightarrow> (Inl e, s)
        | Inr t \<Rightarrow> (Inr (en_uid en n), s\<lparr>mc_test_runs := t\<rparr>)))"

definition insert_item_run ::
  "'w environment \<Rightarrow> run_ids \<Rightarrow> string \<times> command_row \<Rightarrow> ('w machine, string) eff" where
  "insert_item_run en r op =
     (if \<not> records_item r then ereturn []
      else ebind next_tick (\<lambda>n s.
        case insert_row (en_uid en n)
               (running_row (ri_test_suite_execution r) (ri_suite_item_execution r) (ri_suite_item r) op)
               (mc_item_runs s) of
          Inl e \<Rightarrow> (Inl e, s)
        | Inr t \<Rightarrow> (Inr (en_uid en n), s\<lparr>mc_item_runs := t\<rparr>)))"

text \<open>\<open>update\<close> writes the columns whose new value is not \<open>None\<close>.\<close>

definition finish_row :: "string \<Rightarrow> string option \<Rightarrow> string \<Rightarrow> execution_row \<Rightarrow> execution_row" where
  "finish_row status err at_time row =
     row\<lparr>xr_status := status,
         xr_error_message := (case err of None \<Rightarrow> xr_error_message row | Some m \<Rightarrow> Some m),
         xr_finished_at := Some at_time\<rparr>"

definition finish_runs ::
  "'w environment \<Rightarrow> string \<Rightarrow> string \<Rightarrow> string \<Rightarrow> string option \<Rightarrow> ('w machine, unit) eff" where
  "finish_runs en ti ii status err =
     ebind next_tick (\<lambda>n. emodify (\<lambda>s. s\<lparr>
       mc_test_runs := (if ti = [] then mc_test_runs s
                        else update_row ti (finish_row status err (en_stamp en n)) (mc_test_runs s)),
       mc_item_runs := (if ii = [] then mc_item_runs s
                        else update_row ii (finish_row status err (en_stamp en n)) (mc_item_runs s))\<rparr>))"

subsection \<open>The outcome event\<close>

definition or_null :: "string \<Rightarrow> pyval" where
  "or_null s = (if s = [] then PNone else PStr s)"

definition command_event ::
  "run_ids \<Rightarrow> string \<Rightarrow> string \<Rightarrow> string \<times> command_row \<Rightarrow> string option \<Rightarrow> operation_contract option \<Rightarrow>
     string \<Rightarrow> string \<times> pyval \<Rightarrow> pydict" where
  "command_event r ti ii op scope contract status outcome =
     [(''suite_test_id'', PStr (ri_suite_test r)),
      (''suite_test_execution_id'', or_null (ri_suite_test_execution r)),
      (''test_operation_execution_id'', or_null ti),
      (''suite_item_id'', or_null (ri_suite_item r)),
      (''suite_item_execution_id'', or_null (ri_suite_item_execution r)),
      (''suite_item_operation_execution_id'', or_null ii),
      (''command_id'', PStr (fst op)),
      (''command_description'', PStr (cw_description (snd op))),
      (''command_scope'', opt_json scope),
      (''command_family'', (case contract of None \<Rightarrow> PNone | Some c \<Rightarrow> PStr (oc_family c))),
      (''status'', PStr status), outcome]"

definition publish_finished :: "'w environment \<Rightarrow> pydict \<Rightarrow> ('w machine, unit) eff" where
  "publish_finished en payload =
     ebind (eget (\<lambda>s. rv_execution_id (mc_vars s))) (\<lambda>eo.
     case eo of
       None \<Rightarrow> ereturn ()
     | Some e \<Rightarrow> if e = [] then ereturn () else publish_event en e ''command_finished'' payload)"

subsection \<open>One command\<close>

definition fail_command ::
  "'w environment \<Rightarrow> run_ids \<Rightarrow> string \<Rightarrow> string \<Rightarrow> string \<times> command_row \<Rightarrow> string option \<Rightarrow>
     operation_contract option \<Rightarrow> exc \<Rightarrow> ('w machine, 'a) eff" where
  "fail_command en r ti ii op scope contract e =
     ebind (finish_runs en ti ii ''error'' (Some (exc_message e))) (\<lambda>_.
     ebind (publish_finished en
              (command_event r ti ii op scope contract ''error'' (''error'', PStr (exc_message e)))) (\<lambda>_.
     eraise e))"

definition succeed_command ::
  "'w environment \<Rightarrow> run_ids \<Rightarrow> string \<Rightarrow> string \<Rightarrow> string \<times> command_row \<Rightarrow> string option \<Rightarrow>
     operation_contract \<Rightarrow> exec_result \<Rightarrow> ('w machine, exec_result) eff" where
  "succeed_command en r ti ii op scope contract res =
     ebind (finish_runs en ti ii ''success'' None) (\<lambda>_.
     ebind (eget (\<lambda>s. if rv_execution_id (mc_vars s) \<in> {None, Some []} then Inr []
              else map_result (json_value (s_heap (mc_session s))) (er_result res))) (\<lambda>rows.
     ebind (elift rows) (\<lambda>xs.
     ebind (publish_finished en
              (command_event r ti ii op scope (Some contract) ''success'' (''result'', PList xs))) (\<lambda>_.
     ereturn res))))"

text \<open>\<open>try: body except Exception as e: handler\<close>.\<close>

definition etry :: "('s, 'a) eff \<Rightarrow> (exc \<Rightarrow> ('s, 'a) eff) \<Rightarrow> ('s, 'a) eff" where
  "etry body handler = (\<lambda>s. case body s of (Inl e, t) \<Rightarrow> handler e t | (Inr x, t) \<Rightarrow> (Inr x, t))"

definition run_command ::
  "'w environment \<Rightarrow> string option \<Rightarrow> string \<times> command_row \<Rightarrow> hval \<Rightarrow> ('w machine, exec_result) eff" where
  "run_command en scope op data =
     ebind (eget (\<lambda>s. run_ids_of (mc_vars s))) (\<lambda>r.
     ebind (insert_test_run en r op) (\<lambda>ti.
     ebind (insert_item_run en r op) (\<lambda>ii.
     ebind (elift (convert_to_config_command_type (dict_or_empty (cw_configuration (snd op))))) (\<lambda>cfg.
     case validate_operation_policy cfg scope of
       Inl e \<Rightarrow> fail_command en r ti ii op scope None e
     | Inr contract \<Rightarrow>
         etry (ebind (execute_operation en (fst op) cfg data)
                 (succeed_command en r ti ii op scope contract))
              (fail_command en r ti ii op scope (Some contract))))))"

subsection \<open>The list\<close>

fun run_commands ::
  "'w environment \<Rightarrow> string option \<Rightarrow> (string \<times> command_row) list \<Rightarrow> exec_result \<Rightarrow>
     ('w machine, exec_result) eff" where
  "run_commands en scope [] acc = ereturn acc"
| "run_commands en scope (op # ops) acc =
     ebind (run_command en scope op (er_data acc)) (\<lambda>res.
     run_commands en scope ops
       \<lparr>er_data = er_data res, er_result = er_result acc @ er_result res\<rparr>)"

definition execute_operations ::
  "'w environment \<Rightarrow> (string \<times> command_row) list \<Rightarrow> hval \<Rightarrow> string option \<Rightarrow> ('w machine, exec_result) eff" where
  "execute_operations en ops data execution_scope =
     ebind (eget (\<lambda>s. resolve_execution_scope execution_scope (mc_session s))) (\<lambda>scope.
     ebind (write_log en ''N/A'' (''Starting execution '' @ show_nat (length ops) @ '' commands'')
              ''INFO'' PNone) (\<lambda>_.
     run_commands en scope ops \<lparr>er_data = data, er_result = []\<rparr>))"

end
