(* ===== verification/Executor_Frame.thy ===== *)
theory Executor_Frame
  imports Command_Composite Context_Facts
begin

section \<open>What an executor may change\<close>

text \<open>
  The interface between the executors and everything said of a machine across a command: a
  relation that is reflexive and transitive and holds across the atomic steps an executor is
  made of (a tick of the clock, the log, the bus, the outside, a grown store, a path write or
  delete, an assert artifact) holds across every command.
\<close>

named_theorems frame_intros \<open>steps and compositions that keep a frame relation\<close>

subsection \<open>Steps that only allocate\<close>

definition allocates :: "(session, 'a) eff \<Rightarrow> bool" where
  "allocates m \<longleftrightarrow> (\<forall>s. \<exists>h. snd (m s) = s\<lparr>s_heap := h\<rparr> \<and> (wf_heap (s_heap s) \<longrightarrow> grows (s_heap s) h))"

lemma allocatesI:
  "(\<And>s. \<exists>h. snd (m s) = s\<lparr>s_heap := h\<rparr> \<and> (wf_heap (s_heap s) \<longrightarrow> grows (s_heap s) h)) \<Longrightarrow> allocates m"
  by (simp add: allocates_def)

lemma allocates_heap:
  assumes "\<And>h. wf_heap h \<Longrightarrow> grows h (snd (m h))"
  shows "allocates (on_heap m)"
  using assms by (intro allocatesI) (auto simp: on_heap_def split_def)

lemma allocates_pure:
  "allocates (ereturn x)" "allocates (elift r)" "allocates (eraise e)"
proof -
  have "\<exists>h. s = s\<lparr>s_heap := h\<rparr> \<and> (wf_heap (s_heap s) \<longrightarrow> grows (s_heap s) h)" for s
    by (intro exI [of _ "s_heap s"]) (simp add: grows_refl)
  then show "allocates (ereturn x)" "allocates (elift r)" "allocates (eraise e)"
    unfolding allocates_def ereturn_apply elift_apply eraise_apply snd_conv by blast+
qed

lemma allocates_bind:
  assumes "allocates m" and "\<And>x. allocates (f x)"
  shows "allocates (ebind m f)"
proof (rule allocatesI)
  fix s
  obtain r t where m: "m s = (r, t)" by fastforce
  then obtain h where t: "t = s\<lparr>s_heap := h\<rparr>" and h: "wf_heap (s_heap s) \<longrightarrow> grows (s_heap s) h"
    using assms(1) unfolding allocates_def by (metis snd_conv)
  show "\<exists>h. snd (ebind m f s) = s\<lparr>s_heap := h\<rparr> \<and> (wf_heap (s_heap s) \<longrightarrow> grows (s_heap s) h)"
  proof (cases r)
    case (Inl e)
    then show ?thesis using m t h by (auto simp: ebind_def)
  next
    case (Inr x)
    obtain h2 where "snd (f x t) = t\<lparr>s_heap := h2\<rparr>" "wf_heap h \<longrightarrow> grows h h2"
      using assms(2) [of x] t unfolding allocates_def
      by (metis session.select_convs(1) session.surjective session.update_convs(1))
    then show ?thesis using m t h Inr by (auto simp: ebind_def intro: grows_trans grows_wf)
  qed
qed

lemma grows_alloc_eq: "wf_heap h \<Longrightarrow> alloc ob h = (r, h1) \<Longrightarrow> grows h h1"
  using grows_alloc [of h ob] by simp

lemma alloc_val_grows_eq: "wf_heap h \<Longrightarrow> alloc_val x h = (r, h1) \<Longrightarrow> grows h h1"
  using alloc_grows(1) [of h x] by simp

lemma grows_then: "grows h h1 \<Longrightarrow> (wf_heap h1 \<Longrightarrow> grows h1 h2) \<Longrightarrow> grows h h2"
  using grows_trans grows_wf by blast

lemma resolve_grows:
  "wf_heap h \<Longrightarrow> grows h (snd (resolve_dynamic_value v scope h))"
  "wf_heap h \<Longrightarrow> grows h (snd (resolve_dynamic_list xs scope h))"
  "wf_heap h \<Longrightarrow> grows h (snd (resolve_dynamic_dict d scope h))"
  "wf_heap h \<Longrightarrow> grows h (snd (resolve_dynamic_key k d scope h))"
proof (induction v scope h and xs scope h and d scope h and k d scope h
    rule: resolve_dynamic_value_resolve_dynamic_list_resolve_dynamic_dict_resolve_dynamic_key.induct)
qed (auto simp: grows_refl split: sum.splits option.splits prod.splits
      intro: grows_then grows_alloc_eq alloc_val_grows_eq)

lemma scope_grows: "wf_heap h \<longrightarrow> grows h (snd (build_run_context_scope co h))"
proof (cases co)
  case None
  have "build_run_context_scope None h = alloc_val empty_scope_value h"
    by (simp only: build_run_context_scope_def option.case)
  then show ?thesis using None alloc_grows(1) by simp
next
  case (Some c)
  then show ?thesis using build_scope_grows by simp
qed

lemma open_scope_allocates: "allocates (\<lambda>s.
     case build_run_context_scope (s_ctx s) (s_heap s) of (r, h) \<Rightarrow> (Inr r, s\<lparr>s_heap := h\<rparr>))"
proof (rule allocatesI)
  fix s :: session
  have "wf_heap (s_heap s) \<longrightarrow> grows (s_heap s) (snd (build_run_context_scope (s_ctx s) (s_heap s)))"
    by (rule scope_grows)
  then show "\<exists>h. snd (case build_run_context_scope (s_ctx s) (s_heap s) of
        (r, h) \<Rightarrow> (Inr r, s\<lparr>s_heap := h\<rparr>)) = s\<lparr>s_heap := h\<rparr> \<and> (wf_heap (s_heap s) \<longrightarrow> grows (s_heap s) h)"
    by (intro exI [of _ "snd (build_run_context_scope (s_ctx s) (s_heap s))"]) (simp add: split_def)
qed

lemma resolve_allocates: "allocates (on_heap (resolve_dynamic_value v scope))"
  by (rule allocates_heap) (rule resolve_grows)

lemma alloc_allocates: "allocates (on_heap (\<lambda>h. case alloc ob h of (r, h1) \<Rightarrow> (Inr r, h1)))"
  by (rule allocates_heap) (simp add: grows_alloc split_def)

lemma alloc_val_allocates: "allocates (on_heap (\<lambda>h. case alloc_val v h of (r, h1) \<Rightarrow> (Inr r, h1)))"
  by (rule allocates_heap) (simp add: alloc_grows split_def)

lemma dict_or_new_allocates: "allocates (\<lambda>s.
     (let (v, h) = dict_or_new (f s) (s_heap s) in (Inr v, s\<lparr>s_heap := h\<rparr>)))"
  by (intro allocatesI) (auto simp: Let_def split_def dict_or_new_grows)

lemma variable_value_allocates: "allocates (variable_value path)"
proof (rule allocatesI)
  fix s :: session
  obtain scope h1 where b: "build_run_context_scope (s_ctx s) (s_heap s) = (scope, h1)" by fastforce
  obtain r h2 where v: "resolve_dynamic_value (PStr path) scope h1 = (r, h2)" by fastforce
  have "grows (s_heap s) h2" if "wf_heap (s_heap s)"
  proof -
    have "grows (s_heap s) h1"
      using that b scope_grows [of "s_heap s" "s_ctx s"] by simp
    then show ?thesis
      by (rule grows_then) (use v resolve_grows(1) [of h1 "PStr path" scope] in simp)
  qed
  then show "\<exists>h. snd (variable_value path s) = s\<lparr>s_heap := h\<rparr> \<and> (wf_heap (s_heap s) \<longrightarrow> grows (s_heap s) h)"
    by (intro exI [of _ h2], cases r) (simp_all add: variable_value_def b v del: resolve_dynamic_value.simps)
qed

lemma payloads_allocate: "allocates (build_send_message_payloads ck v st t)"
proof -
  have const: "allocates (evaluate_template_constant ck c)" for c
    by (auto simp: evaluate_template_constant_def Let_def
        intro: allocates_pure variable_value_allocates split: pyval.splits)
  have put: "allocates (put_constants ck cs d)" for cs d
    by (induction cs arbitrary: d) (auto intro: allocates_pure allocates_bind const)
  have "allocates (build_payloads ck tm rows)" for tm rows
    by (induction rows) (simp_all only: build_payloads.simps allocates_pure allocates_bind put)
  then show ?thesis
    by (auto simp: build_send_message_payloads_def intro: allocates_pure split: option.splits pyval.splits)
qed

subsection \<open>The interface\<close>

locale machine_frame =
  fixes R :: "'w machine \<Rightarrow> 'w machine \<Rightarrow> bool"
    and writable :: "string \<Rightarrow> bool"
  assumes frame_refl: "R s s"
    and frame_trans: "R s t \<Longrightarrow> R t u \<Longrightarrow> R s u"
    and tick: "R s (s\<lparr>mc_ticks := Suc (mc_ticks s)\<rparr>)"
    and outside: "R s (s\<lparr>mc_logs := l, mc_bus := b, mc_datasets := d, mc_world := w\<rparr>)"
    and grow: "(wf_heap (s_heap (mc_session s)) \<Longrightarrow> grows (s_heap (mc_session s)) h) \<Longrightarrow>
      R s (s\<lparr>mc_session := (mc_session s)\<lparr>s_heap := h\<rparr>\<rparr>)"
    and path_write: "writable path \<Longrightarrow> R s (snd (on_session (write_context_path path v) s))"
    and write_definition: "resolve_definition_path (mc_db s) i = Inr (df, path) \<Longrightarrow>
      R s (snd (on_session (write_context_path path v) s))"
    and remove_definition: "resolve_definition_path (mc_db s) i = Inr (df, path) \<Longrightarrow>
      R s (snd (on_session (remove_context_path path) s))"
    and artifact: "R s (s\<lparr>mc_session := append_assert_artifact v (mc_session s)\<rparr>)"
begin

definition preserves :: "('w machine, 'a) eff \<Rightarrow> bool" where
  "preserves m \<longleftrightarrow> (\<forall>s. R s (snd (m s)))"

lemma preserves_pure [frame_intros]:
  "preserves (ereturn x)" "preserves (elift r)" "preserves (eraise e)" "preserves (eget f)"
  by (simp_all add: preserves_def frame_refl)

lemma preserves_value_of [frame_intros]: "preserves (value_of v)"
  by (simp add: preserves_def frame_refl)

lemma preserves_path [frame_intros]: "preserves (definition_path i)"
  by (simp add: preserves_def frame_refl)

lemma preserves_tick [frame_intros]: "preserves next_tick"
  by (simp add: preserves_def tick)

lemma preserves_bind [frame_intros]:
  assumes "preserves m" and "\<And>x. preserves (f x)"
  shows "preserves (ebind m f)"
  unfolding preserves_def
proof
  fix s :: "'w machine"
  obtain r t where m: "m s = (r, t)" by fastforce
  then have "R s t" using assms(1) unfolding preserves_def by (metis snd_conv)
  then show "R s (snd (ebind m f s))"
    using m assms(2) by (cases r) (auto simp: ebind_def preserves_def intro: frame_trans)
qed

lemma preserves_session [frame_intros]: "allocates m \<Longrightarrow> preserves (on_session m)"
  unfolding preserves_def
proof
  fix s :: "'w machine"
  assume "allocates m"
  then obtain h where "snd (m (mc_session s)) = (mc_session s)\<lparr>s_heap := h\<rparr>"
      "wf_heap (s_heap (mc_session s)) \<longrightarrow> grows (s_heap (mc_session s)) h"
    unfolding allocates_def by blast
  then show "R s (snd (on_session m s))"
    using grow [where s = s and h = h] by (simp add: on_session_def split_def)
qed

lemma preserves_world [frame_intros]: "preserves (on_world m)"
  unfolding preserves_def
proof
  fix s :: "'w machine"
  show "R s (snd (on_world m s))"
    using outside [where s = s and l = "mc_logs s" and b = "mc_bus s" and d = "mc_datasets s" and w = "snd (m (mc_world s))"]
    by (simp add: on_world_def split_def)
qed

lemma preserves_emodify: "(\<And>s. R s (f s)) \<Longrightarrow> preserves (emodify f)"
  by (simp add: preserves_def)

lemma preserves_bus: "preserves (emodify (\<lambda>s. s\<lparr>mc_bus := f s\<rparr>))"
proof (rule preserves_emodify)
  fix s :: "'w machine"
  show "R s (s\<lparr>mc_bus := f s\<rparr>)"
    using outside [where s = s and l = "mc_logs s" and b = "f s" and d = "mc_datasets s" and w = "mc_world s"] by simp
qed

lemma preserves_log_bus: "preserves (emodify (\<lambda>s. s\<lparr>mc_logs := g s, mc_bus := f s\<rparr>))"
proof (rule preserves_emodify)
  fix s :: "'w machine"
  show "R s (s\<lparr>mc_logs := g s, mc_bus := f s\<rparr>)"
    using outside [where s = s and l = "g s" and b = "f s" and d = "mc_datasets s" and w = "mc_world s"] by simp
qed

lemma dataset_step: "R s (s\<lparr>mc_datasets := t\<rparr>)"
  using outside [where s = s and l = "mc_logs s" and b = "mc_bus s" and d = t and w = "mc_world s"]
  by simp

lemma preserves_datasets [frame_intros]: "preserves (emodify (\<lambda>s. s\<lparr>mc_datasets := f s\<rparr>))"
proof (rule preserves_emodify)
  fix s :: "'w machine"
  show "R s (s\<lparr>mc_datasets := f s\<rparr>)" by (rule dataset_step)
qed

lemma preserves_publish [frame_intros]: "preserves (publish_event en e n p)"
  unfolding publish_event_def by (intro preserves_bind preserves_tick preserves_bus)

lemma preserves_log [frame_intros]: "preserves (write_log en subj m l p)"
  unfolding write_log_def by (intro preserves_bind preserves_tick preserves_log_bus)

lemma preserves_values [frame_intros]:
  "preserves (new_value v)" "preserves (new_object ob)" "preserves open_scope"
  "preserves (resolve_in scope v)" "preserves run_event"
  unfolding new_value_def new_object_def open_scope_def resolve_in_def run_event_def
  by (intro preserves_session alloc_val_allocates alloc_allocates open_scope_allocates
      resolve_allocates dict_or_new_allocates)+

subsection \<open>One lemma per executor\<close>

lemma preserves_row [frame_intros]: "preserves (result_row d row)"
  unfolding result_row_def by (intro frame_intros)

lemma preserves_info [frame_intros]: "preserves (log_info en i m p)"
  unfolding log_info_def by (intro frame_intros)

lemma preserves_definition_write:
  "preserves (ebind (definition_path i) (\<lambda>(d, path). on_session (write_context_path path v)))"
  unfolding preserves_def
  by (auto simp: ebind_def frame_refl split: sum.splits intro: write_definition)

lemma preserves_result [frame_intros]: "preserves (write_result_constant rc v)"
  unfolding write_result_constant_def
  by (cases rc) (simp_all add: preserves_pure preserves_definition_write)

lemma preserves_result_row [frame_intros]: "preserves (write_result_row rc row)"
  unfolding write_result_row_def by (auto intro: frame_intros)

lemma preserves_find_dataset [frame_intros]: "preserves (find_dataset i)"
  by (simp add: find_dataset_def preserves_def frame_refl)

lemma preserves_input [frame_intros]: "preserves (resolve_definition_input_data en i data)"
  unfolding resolve_definition_input_data_def resolve_dataset_rows_def
  by (auto intro!: frame_intros)

lemma preserves_find_queue [frame_intros]: "preserves (find_queue i)"
  unfolding find_queue_def by (auto intro!: frame_intros split: option.splits)

lemma preserves_broker [frame_intros]: "preserves (load_broker_connection en i)"
  unfolding load_broker_connection_def
  by (auto intro!: frame_intros split: option.splits pyval.splits)

lemma preserves_binding [frame_intros]: "preserves (resolve_binding en n raw)"
  unfolding resolve_binding_def Let_def by (auto intro!: frame_intros split: pyval.splits)

lemma preserves_bindings [frame_intros]: "preserves (resolve_dataset_parameter_bindings en ps acc)"
  by (induction ps arbitrary: acc) (auto intro!: frame_intros)

lemma preserves_load_value [frame_intros]: "preserves (load_value en cfg data)"
  unfolding load_value_def load_json_array_def load_dataset_def load_queue_messages_def
  by (auto intro!: frame_intros split: option.splits pyval.splits)

lemma preserves_init:
  assumes "writable (''$.'' @ ic_context cfg @ ''.constants.'' @ ic_name cfg)"
  shows "preserves (execute_init_constant en i cfg data)"
proof -
  have w: "preserves (on_session (write_context_path (''$.'' @ ic_context cfg @ ''.constants.'' @ ic_name cfg) v))"
    for v using path_write [OF assms] by (simp add: preserves_def)
  then show ?thesis
    unfolding execute_init_constant_def Let_def
    by (intro preserves_bind preserves_load_value preserves_info preserves_row w)
qed

lemma preserves_definition_remove:
  assumes "\<And>d path. preserves (g d path)"
  shows "preserves (ebind (definition_path i)
    (\<lambda>(d, path). ebind (on_session (remove_context_path path)) (\<lambda>u. g d path)))"
proof -
  have "R s (snd (ebind (on_session (remove_context_path path)) (\<lambda>u. g d path) s))"
    if "resolve_definition_path (mc_db s) i = Inr (d, path)" for d path s
    using remove_definition [OF that] assms [of d path]
    by (auto simp: ebind_def preserves_def split: sum.splits prod.splits intro: frame_trans)
  then show ?thesis
    by (auto simp: preserves_def ebind_def [of "definition_path i"] frame_refl split: sum.splits)
qed

lemma preserves_delete [frame_intros]: "preserves (execute_delete_constant en i cfg data)"
  unfolding execute_delete_constant_def Let_def
  by (intro preserves_definition_remove) (intro frame_intros)

lemma preserves_sleep [frame_intros]: "preserves (execute_sleep en i cfg data)"
  unfolding execute_sleep_def Let_def by (intro frame_intros)

lemma preserves_send [frame_intros]: "preserves (execute_send_message en i cfg data)"
  unfolding execute_send_message_def Let_def
  by (auto intro!: frame_intros payloads_allocate)

lemma preserves_table [frame_intros]:
  "preserves (execute_save_table en i c1 data)" "preserves (execute_drop_table en i c2 data)"
  "preserves (execute_clean_table en i c2 data)"
  unfolding execute_save_table_def execute_drop_table_def execute_clean_table_def Let_def
  by (auto intro!: frame_intros)

lemma preserves_connection [frame_intros]:
  "preserves (export_connection en i)" "preserves (load_database_connection en i)"
  unfolding export_connection_def load_database_connection_def Let_def
  by (auto intro!: frame_intros split: option.splits pyval.splits)

lemma preserves_insert_dataset [frame_intros]: "preserves (insert_dataset en row)"
proof -
  have "preserves (\<lambda>s. case insert_row (en_uid en n) row (mc_datasets s) of
      Inl e \<Rightarrow> (Inl e, s) | Inr t \<Rightarrow> (Inr (en_uid en n), s\<lparr>mc_datasets := t\<rparr>))" for n
    by (auto simp: preserves_def frame_refl dataset_step split: sum.splits)
  then show ?thesis unfolding insert_dataset_def by (intro preserves_bind preserves_tick)
qed

lemma preserves_export [frame_intros]: "preserves (execute_export_dataset en i cfg data)"
  unfolding execute_export_dataset_def export_rows_def save_export_dataset_def Let_def
  by (auto intro!: frame_intros)

lemma preserves_dataset [frame_intros]:
  "preserves (execute_drop_dataset en i c data)" "preserves (execute_clean_dataset en i c data)"
  unfolding execute_drop_dataset_def execute_clean_dataset_def Let_def
  by (auto intro!: frame_intros)

lemma preserves_collect [frame_intros]: "preserves (collect_constants scope rs acc)"
  by (induction rs arbitrary: acc) (auto intro!: frame_intros)

lemma preserves_run_suite [frame_intros]: "preserves (execute_run_suite en i cfg data)"
  unfolding execute_run_suite_def Let_def by (auto intro!: frame_intros)

lemma preserves_artifact [frame_intros]: "preserves (assert_artifact i t st a e err)"
  unfolding assert_artifact_def
  by (intro frame_intros preserves_emodify) (rule artifact)

lemma preserves_assert [frame_intros]: "preserves (execute_assert en i cfg data)"
  unfolding execute_assert_def Let_def by (auto intro!: frame_intros split: sum.splits)

definition writes_allowed :: "command_dto \<Rightarrow> bool" where
  "writes_allowed cfg \<longleftrightarrow> (\<forall>c. cfg = InitConstantDto c \<longrightarrow>
     writable (''$.'' @ ic_context c @ ''.constants.'' @ ic_name c))"

lemma preserves_operation:
  "writes_allowed cfg \<Longrightarrow> preserves (execute_operation en i cfg data)"
  unfolding execute_operation_def writes_allowed_def
  by (cases cfg) (auto intro!: frame_intros preserves_init)

lemma preserves_finished [frame_intros]: "preserves (publish_finished en p)"
  unfolding publish_finished_def by (auto intro!: frame_intros split: option.splits)

end

subsection \<open>Lists of commands\<close>

text \<open>A relation that also ignores the two execution tables holds across \<open>execute_operations\<close>.\<close>

definition command_cfg :: "string \<times> command_row \<Rightarrow> command_dto result" where
  "command_cfg op = convert_to_config_command_type (dict_or_empty (cw_configuration (snd op)))"

locale run_frame = machine_frame R writable
  for R :: "'w machine \<Rightarrow> 'w machine \<Rightarrow> bool" and writable :: "string \<Rightarrow> bool" +
  assumes rows: "R s (s\<lparr>mc_test_runs := a, mc_item_runs := b\<rparr>)"
begin

lemma rows_step:
  "R s (s\<lparr>mc_test_runs := a\<rparr>)" "R s (s\<lparr>mc_item_runs := b\<rparr>)"
  using rows [where s = s and a = a and b = "mc_item_runs s"]
    rows [where s = s and a = "mc_test_runs s" and b = b] by simp_all

lemma preserves_insert:
  "preserves (insert_test_run en r op)" "preserves (insert_item_run en r op)"
proof -
  have t: "preserves (\<lambda>s. case insert_row i x (mc_test_runs s) of
      Inl e \<Rightarrow> (Inl e, s) | Inr t \<Rightarrow> (Inr i, s\<lparr>mc_test_runs := t\<rparr>))"
    "preserves (\<lambda>s. case insert_row i x (mc_item_runs s) of
      Inl e \<Rightarrow> (Inl e, s) | Inr t \<Rightarrow> (Inr i, s\<lparr>mc_item_runs := t\<rparr>))" for i x
    by (auto simp: preserves_def frame_refl rows_step split: sum.splits)
  show "preserves (insert_test_run en r op)" "preserves (insert_item_run en r op)"
    unfolding insert_test_run_def insert_item_run_def
    using t by (auto intro!: preserves_pure preserves_bind preserves_tick)
qed

lemma preserves_finish: "preserves (finish_runs en ti ii st err)"
  unfolding finish_runs_def by (intro preserves_bind preserves_tick preserves_emodify rows)

lemma preserves_fail: "preserves (fail_command en r ti ii op scope ct e)"
  unfolding fail_command_def by (intro frame_intros preserves_finish)

lemma preserves_succeed: "preserves (succeed_command en r ti ii op scope ct x)"
  unfolding succeed_command_def by (intro frame_intros preserves_finish)

lemma preserves_etry:
  assumes "preserves b" and "\<And>e. preserves (h e)"
  shows "preserves (etry b h)"
  unfolding preserves_def etry_def
proof
  fix s :: "'w machine"
  obtain r u where b: "b s = (r, u)" by fastforce
  then have "R s u" using assms(1) unfolding preserves_def by (metis snd_conv)
  then show "R s (snd (case b s of (Inl e, t) \<Rightarrow> h e t | (Inr x, t) \<Rightarrow> (Inr x, t)))"
    using b assms(2) by (cases r) (auto simp: preserves_def intro: frame_trans)
qed

lemma preserves_run_command:
  assumes "\<And>cfg. command_cfg op = Inr cfg \<Longrightarrow> writes_allowed cfg"
  shows "preserves (run_command en scope op data)"
proof -
  have tail: "preserves (ebind (elift (command_cfg op)) (\<lambda>cfg.
      case validate_operation_policy cfg scope of
        Inl e \<Rightarrow> fail_command en r ti ii op scope None e
      | Inr ct \<Rightarrow> etry (ebind (execute_operation en (fst op) cfg data)
                         (succeed_command en r ti ii op scope ct))
                    (fail_command en r ti ii op scope (Some ct))))" for r ti ii
  proof (cases "command_cfg op")
    case (Inl e)
    then show ?thesis by (simp add: preserves_def ebind_def frame_refl)
  next
    case (Inr cfg)
    have "preserves (case validate_operation_policy cfg scope of
        Inl e \<Rightarrow> fail_command en r ti ii op scope None e
      | Inr ct \<Rightarrow> etry (ebind (execute_operation en (fst op) cfg data)
                         (succeed_command en r ti ii op scope ct))
                    (fail_command en r ti ii op scope (Some ct)))"
      by (auto split: sum.splits intro!: preserves_fail preserves_etry preserves_bind
          preserves_operation assms Inr preserves_succeed)
    then show ?thesis by (simp add: Inr preserves_def ebind_def)
  qed
  show ?thesis
    unfolding run_command_def command_cfg_def [symmetric]
    by (intro preserves_bind preserves_pure preserves_insert tail)
qed

lemma preserves_run_commands:
  "(\<And>op cfg. op \<in> set ops \<Longrightarrow> command_cfg op = Inr cfg \<Longrightarrow> writes_allowed cfg) \<Longrightarrow>
   preserves (run_commands en scope ops acc)"
  by (induction ops arbitrary: acc)
    (auto intro!: preserves_bind preserves_pure preserves_run_command)

lemma preserves_execute:
  assumes "\<And>op cfg. op \<in> set ops \<Longrightarrow> command_cfg op = Inr cfg \<Longrightarrow> writes_allowed cfg"
    and "execute_operations en ops data scope s = (res, t)"
  shows "R s t"
proof -
  have "preserves (execute_operations en ops data scope)"
    unfolding execute_operations_def
    by (intro preserves_bind preserves_pure preserves_log preserves_run_commands) (rule assms(1))
  then show ?thesis using assms(2) unfolding preserves_def by (metis snd_conv)
qed

end

end
