(* ===== verification/Executor_Facts.thy ===== *)
theory Executor_Facts
  imports Executor_Frame Command_Facts Context_Props Template_Facts
begin

section \<open>Correctness of command execution\<close>

text \<open>
  The frame interface interpreted twice: on the bookkeeping of the machine (tables, variables
  and definitions no executor touches) and on the invariant of its session. On top of them the
  contract of \<open>execute_operations\<close>: which execution rows a list of commands leaves behind.
\<close>

subsection \<open>Bookkeeping\<close>

definition bookkeeping :: "'w machine \<Rightarrow> 'w machine \<Rightarrow> bool" where
  "bookkeeping s t \<longleftrightarrow>
     mc_test_runs t = mc_test_runs s \<and> mc_item_runs t = mc_item_runs s \<and> mc_vars t = mc_vars s \<and>
     mc_db t = mc_db s \<and> mc_payloads t = mc_payloads s \<and> mc_queues t = mc_queues s \<and>
     mc_ticks s \<le> mc_ticks t"

interpretation books: machine_frame bookkeeping "\<lambda>_. True"
  by unfold_locales (auto simp: bookkeeping_def on_session_def split_def)

lemma operation_bookkeeping:
  "execute_operation en i cfg data s = (r, t) \<Longrightarrow> bookkeeping s t"
  using books.preserves_operation [of cfg en i data]
  unfolding books.writes_allowed_def books.preserves_def by (metis snd_conv)

lemma finished_bookkeeping: "publish_finished en p s = (r, t) \<Longrightarrow> bookkeeping s t"
  using books.preserves_finished [of en p] unfolding books.preserves_def by (metis snd_conv)

lemma log_bookkeeping: "write_log en i m l p s = (r, t) \<Longrightarrow> bookkeeping s t"
  using books.preserves_log [of en i m l p] unfolding books.preserves_def by (metis snd_conv)

lemma finished_Inr: "\<exists>t. publish_finished en p s = (Inr (), t)"
  by (simp add: publish_finished_def publish_event_def ebind_def split: option.splits)

subsection \<open>The session\<close>

definition session_frame :: "'w machine \<Rightarrow> 'w machine \<Rightarrow> bool" where
  "session_frame s t \<longleftrightarrow> s_ctx (mc_session t) = s_ctx (mc_session s) \<and>
     (wf_session (mc_session s) \<longrightarrow> wf_session (mc_session t))"

lemma path_ops_ctx:
  "s_ctx (snd (write_context_path p v s)) = s_ctx s"
  "s_ctx (snd (remove_context_path p s)) = s_ctx s"
  "s_ctx (append_assert_artifact v s) = s_ctx s"
  by (simp_all add: write_context_path_def remove_context_path_def append_assert_artifact_def
      on_heap_def split_def split: option.splits)

interpretation sessions: run_frame session_frame "\<lambda>_. True"
proof unfold_locales
  fix s :: "'w machine" and h
  assume "wf_heap (s_heap (mc_session s)) \<Longrightarrow> grows (s_heap (mc_session s)) h"
  then show "session_frame s (s\<lparr>mc_session := (mc_session s)\<lparr>s_heap := h\<rparr>\<rparr>)"
    unfolding session_frame_def
    by (auto simp: wf_session_def intro: wf_session_heap grows_wf_ext grows_wf
        dest: scopes_ok_ext [OF _ wf_ext_def [THEN iffD1, THEN conjunct2, OF grows_wf_ext]])
qed (auto simp: session_frame_def on_session_def split_def path_ops_ctx write_context_path_wf
    remove_context_path_wf append_assert_artifact_wf)

subsection \<open>Execution rows\<close>

text \<open>Generated ids are new: no row of the two tables has the id of a tick to come.\<close>

definition fresh_ids :: "'w environment \<Rightarrow> 'w machine \<Rightarrow> bool" where
  "fresh_ids en s \<longleftrightarrow> inj (en_uid en) \<and>
     (\<forall>n \<ge> mc_ticks s. en_uid en n \<noteq> [] \<and> en_uid en n \<notin> fst ` set (mc_test_runs s) \<and>
        en_uid en n \<notin> fst ` set (mc_item_runs s))"

definition ids_step :: "'w environment \<Rightarrow> 'w machine \<Rightarrow> 'w machine \<Rightarrow> bool" where
  "ids_step en s t \<longleftrightarrow> mc_vars t = mc_vars s \<and> mc_ticks s \<le> mc_ticks t \<and>
     fst ` set (mc_test_runs t) \<subseteq> fst ` set (mc_test_runs s) \<union> en_uid en ` {mc_ticks s..<mc_ticks t} \<and>
     fst ` set (mc_item_runs t) \<subseteq> fst ` set (mc_item_runs s) \<union> en_uid en ` {mc_ticks s..<mc_ticks t}"

lemma subset_chain: "A \<subseteq> B \<union> X \<Longrightarrow> C \<subseteq> A \<union> Y \<Longrightarrow> C \<subseteq> B \<union> (X \<union> Y)"
  by blast

lemma ids_step_trans:
  assumes "ids_step en s t" and "ids_step en t u"
  shows "ids_step en s u"
proof -
  have "{mc_ticks s..<mc_ticks u} = {mc_ticks s..<mc_ticks t} \<union> {mc_ticks t..<mc_ticks u}"
    using assms by (auto simp: ids_step_def)
  then have "en_uid en ` {mc_ticks s..<mc_ticks u} =
      en_uid en ` {mc_ticks s..<mc_ticks t} \<union> en_uid en ` {mc_ticks t..<mc_ticks u}"
    by (simp add: image_Un)
  then show ?thesis
    using assms subset_chain [of "fst ` set (mc_test_runs t)"] subset_chain [of "fst ` set (mc_item_runs t)"]
    unfolding ids_step_def by simp
qed

lemma bookkeeping_ids: "bookkeeping s t \<Longrightarrow> ids_step en s t"
  by (auto simp: bookkeeping_def ids_step_def)

lemma ids_step_fresh:
  assumes "fresh_ids en s" and "ids_step en s t"
  shows "fresh_ids en t"
proof -
  have "en_uid en n \<notin> en_uid en ` {mc_ticks s..<mc_ticks t}" if "mc_ticks t \<le> n" for n
    using assms(1) that by (auto simp: fresh_ids_def dest: injD)
  then show ?thesis
    using assms unfolding fresh_ids_def ids_step_def by (meson UnE le_trans subsetD)
qed

lemma update_row_fst [simp]: "fst ` set (update_row i f t) = fst ` set t"
  by (force simp: update_row_def)

lemma update_row_last:
  "i \<notin> fst ` set t \<Longrightarrow> update_row i f (t @ [(i, r)]) = t @ [(i, f r)]"
  by (induction t) (auto simp: update_row_def)

lemma insert_test_run_eq:
  assumes "fresh_ids en s" and "records_test r"
  shows "insert_test_run en r op s = (Inr (en_uid en (mc_ticks s)),
    s\<lparr>mc_ticks := Suc (mc_ticks s), mc_test_runs := mc_test_runs s @ [(en_uid en (mc_ticks s),
      running_row (ri_suite_execution r) (ri_suite_test_execution r) (ri_suite_test r) op)]\<rparr>)"
proof -
  have "map_of (mc_test_runs s) (en_uid en (mc_ticks s)) = None"
    using assms(1) by (simp add: fresh_ids_def map_of_eq_None_iff)
  then show ?thesis
    using assms(2) by (simp add: insert_test_run_def ebind_def insert_row_def get_by_id_def)
qed

lemma insert_item_run_Inr:
  assumes "fresh_ids en s"
  shows "\<exists>ii t. insert_item_run en r op s = (Inr ii, t) \<and> ids_step en s t \<and>
    mc_test_runs t = mc_test_runs s"
proof (cases "records_item r")
  case True
  have "map_of (mc_item_runs s) (en_uid en (mc_ticks s)) = None"
    using assms(1) by (simp add: fresh_ids_def map_of_eq_None_iff)
  with True show ?thesis
    by (auto simp: insert_item_run_def ebind_def insert_row_def get_by_id_def ids_step_def)
qed (simp add: insert_item_run_def ids_step_def)

lemma finish_runs_apply: "finish_runs en ti ii st err s = (Inr (), s\<lparr>mc_ticks := Suc (mc_ticks s),
    mc_test_runs := (if ti = [] then mc_test_runs s
      else update_row ti (finish_row st err (en_stamp en (mc_ticks s))) (mc_test_runs s)),
    mc_item_runs := (if ii = [] then mc_item_runs s
      else update_row ii (finish_row st err (en_stamp en (mc_ticks s))) (mc_item_runs s))\<rparr>)"
  by (simp add: finish_runs_def ebind_def)

lemma finish_runs_eq:
  assumes "finish_runs en ti ii st err s = (Inr (), t)"
  shows "ids_step en s t \<and> (ti \<noteq> [] \<longrightarrow> mc_test_runs t =
    update_row ti (finish_row st err (en_stamp en (mc_ticks s))) (mc_test_runs s))"
proof -
  have "ids_step en s (snd (finish_runs en ti ii st err s))"
    by (simp add: finish_runs_apply ids_step_def subset_insertI)
  then show ?thesis using assms by (auto simp: finish_runs_apply)
qed

lemma finish_runs_Inr: "\<exists>t. finish_runs en ti ii st err s = (Inr (), t)"
  by (simp add: finish_runs_apply)

text \<open>What the handler and the success branch leave of the row of the command.\<close>

lemma fail_command_row:
  assumes "mc_test_runs s = rows @ [(ti, row)]" and "ti \<notin> fst ` set rows" and "ti \<noteq> []"
    and "fail_command en r ti ii op scope ct e s = (res, t)"
  shows "res = Inl e \<and> ids_step en s t \<and> (\<exists>w. mc_test_runs t =
    rows @ [(ti, finish_row ''error'' (Some (exc_message e)) w row)])"
proof -
  obtain s1 where 1: "finish_runs en ti ii ''error'' (Some (exc_message e)) s = (Inr (), s1)"
    using finish_runs_Inr by blast
  obtain s2 where 2: "publish_finished en (command_event r ti ii op scope ct ''error''
      (''error'', PStr (exc_message e))) s1 = (Inr (), s2)" using finished_Inr by blast
  have "res = Inl e" "t = s2" using assms(4) 1 2 by (simp_all add: fail_command_def ebind_def)
  moreover have "bookkeeping s1 s2" using 2 by (rule finished_bookkeeping)
  moreover from this have "ids_step en s s2"
    using finish_runs_eq [OF 1] bookkeeping_ids ids_step_trans by blast
  ultimately show ?thesis
    using finish_runs_eq [OF 1] assms(1-3) update_row_last [OF assms(2)]
    by (auto simp: bookkeeping_def)
qed

lemma succeed_command_row:
  assumes "mc_test_runs s = rows @ [(ti, row)]" and "ti \<notin> fst ` set rows" and "ti \<noteq> []"
    and "succeed_command en r ti ii op scope ct x s = (res, t)"
  shows "ids_step en s t \<and> (\<exists>w. mc_test_runs t = rows @ [(ti, finish_row ''success'' None w row)])"
proof -
  obtain s1 where 1: "finish_runs en ti ii ''success'' None s = (Inr (), s1)"
    using finish_runs_Inr by blast
  have "t = s1 \<or> (\<exists>p u. publish_finished en p s1 = (u, t))"
    using assms(4) 1 by (auto simp: succeed_command_def ebind_def split: sum.splits prod.splits)
  then have "bookkeeping s1 t" using finished_bookkeeping by (auto simp: books.frame_refl)
  moreover from this have "ids_step en s t"
    using finish_runs_eq [OF 1] bookkeeping_ids ids_step_trans by blast
  ultimately show ?thesis
    using finish_runs_eq [OF 1] assms(1-3) update_row_last [OF assms(2)]
    by (auto simp: bookkeeping_def)
qed

definition error_of :: "'a result \<Rightarrow> exc option" where
  "error_of res = (case res of Inl e \<Rightarrow> Some e | Inr x \<Rightarrow> None)"

lemma error_of_simps [simp]: "error_of (Inl e) = Some e" "error_of (Inr x) = None"
  by (simp_all add: error_of_def)

definition command_outcome :: "string \<times> command_row \<Rightarrow> exc option \<Rightarrow> execution_row \<Rightarrow> bool" where
  "command_outcome op err row \<longleftrightarrow> xr_command_id row = nonempty (fst op) \<and>
     (case err of
        None \<Rightarrow> xr_status row = ''success'' \<and> xr_error_message row = None \<and> xr_finished_at row \<noteq> None
      | Some e \<Rightarrow>
          (case command_cfg op of
             Inl e' \<Rightarrow> xr_status row = ''running'' \<and> xr_finished_at row = None
           | Inr cfg \<Rightarrow> xr_status row = ''error'' \<and> xr_error_message row = Some (exc_message e) \<and>
               xr_finished_at row \<noteq> None))"

lemma run_command_row:
  assumes fresh: "fresh_ids en s" and records: "records_test (run_ids_of (mc_vars s))"
    and run: "run_command en scope op data s = (res, t)"
  shows "ids_step en s t \<and> (\<exists>row. mc_test_runs t = mc_test_runs s @ [(en_uid en (mc_ticks s), row)] \<and>
    command_outcome op (error_of res) row)"
proof -
  let ?r = "run_ids_of (mc_vars s)" and ?ti = "en_uid en (mc_ticks s)"
  let ?row = "running_row (ri_suite_execution ?r) (ri_suite_test_execution ?r) (ri_suite_test ?r) op"
  obtain s1 where 1: "insert_test_run en ?r op s = (Inr ?ti, s1)"
      and s1: "mc_test_runs s1 = mc_test_runs s @ [(?ti, ?row)]" "ids_step en s s1"
    using insert_test_run_eq [OF fresh records] by (auto simp: ids_step_def)
  obtain ii s2 where 2: "insert_item_run en ?r op s1 = (Inr ii, s2)" "ids_step en s1 s2"
      and s2: "mc_test_runs s2 = mc_test_runs s @ [(?ti, ?row)]"
    using insert_item_run_Inr [OF ids_step_fresh [OF fresh s1(2)]] s1(1) by metis
  have new: "?ti \<notin> fst ` set (mc_test_runs s)" "?ti \<noteq> []" using fresh by (simp_all add: fresh_ids_def)
  have ids: "ids_step en s s2" using s1(2) 2(2) by (rule ids_step_trans)
  have out: "ids_step en s u \<Longrightarrow> mc_test_runs u = mc_test_runs s @ [(?ti, row)] \<Longrightarrow> command_outcome op x row \<Longrightarrow>
      ids_step en s u \<and> (\<exists>row. mc_test_runs u = mc_test_runs s @ [(?ti, row)] \<and> command_outcome op x row)" for u x row
    by blast
  show ?thesis
  proof (cases "command_cfg op")
    case (Inl e)
    then have "res = Inl e" "t = s2" using run 1 2(1) by (simp_all add: run_command_def command_cfg_def [symmetric] ebind_def)
    then show ?thesis using ids s2 Inl
      by (intro out) (auto simp: command_outcome_def running_row_def)
  next
    case (Inr cfg)
    note failed = fail_command_row [OF _ new]
    show ?thesis
    proof (cases "validate_operation_policy cfg scope")
      case (Inl e)
      then have "fail_command en ?r ?ti ii op scope None e s2 = (res, t)"
        using run 1 2(1) Inr by (simp add: run_command_def command_cfg_def [symmetric] ebind_def)
      from failed [OF s2 this] show ?thesis
        using ids ids_step_trans Inr
        by (auto simp: command_outcome_def running_row_def finish_row_def)
    next
      case (Inr ct)
      obtain x s3 where 3: "execute_operation en (fst op) cfg data s2 = (x, s3)" by fastforce
      note b3 = operation_bookkeeping [OF 3]
      have r3: "mc_test_runs s3 = mc_test_runs s @ [(?ti, ?row)]" "ids_step en s s3"
        using b3 s2 ids_step_trans [OF ids bookkeeping_ids [OF b3]] by (simp_all add: bookkeeping_def)
      show ?thesis
      proof (cases x)
        case (Inl e)
        then have "fail_command en ?r ?ti ii op scope (Some ct) e s3 = (res, t)"
          using run 1 2(1) 3 Inr \<open>command_cfg op = Inr cfg\<close>
          by (simp add: run_command_def command_cfg_def [symmetric] ebind_def etry_def)
        from failed [OF r3(1) this] show ?thesis
          using r3(2) ids_step_trans \<open>command_cfg op = Inr cfg\<close>
          by (auto simp: command_outcome_def running_row_def finish_row_def)
      next
        case (Inr y)
        obtain z s4 where 4: "succeed_command en ?r ?ti ii op scope ct y s3 = (z, s4)" by fastforce
        obtain w where r4: "mc_test_runs s4 = mc_test_runs s @ [(?ti, finish_row ''success'' None w ?row)]"
            "ids_step en s s4"
          using succeed_command_row [OF r3(1) new 4] r3(2) ids_step_trans by blast
        show ?thesis
        proof (cases z)
          case (Inl e)
          then have "fail_command en ?r ?ti ii op scope (Some ct) e s4 = (res, t)"
            using run 1 2(1) 3 4 Inr \<open>command_cfg op = Inr cfg\<close>
              \<open>validate_operation_policy cfg scope = Inr ct\<close>
            by (simp add: run_command_def command_cfg_def [symmetric] ebind_def etry_def)
          from failed [OF r4(1) this] show ?thesis
            using r4(2) ids_step_trans \<open>command_cfg op = Inr cfg\<close>
            by (auto simp: command_outcome_def running_row_def finish_row_def)
        next
          case z: (Inr v)
          then have "res = Inr v" "t = s4"
            using run 1 2(1) 3 4 Inr \<open>command_cfg op = Inr cfg\<close>
              \<open>validate_operation_policy cfg scope = Inr ct\<close>
            by (simp_all add: run_command_def command_cfg_def [symmetric] ebind_def etry_def)
          then show ?thesis
            using r4 by (auto simp: command_outcome_def running_row_def finish_row_def)
        qed
      qed
    qed
  qed
qed

lemma run_commands_rows:
  "fresh_ids en s \<Longrightarrow> records_test (run_ids_of (mc_vars s)) \<Longrightarrow>
   run_commands en scope ops acc s = (res, t) \<Longrightarrow>
   \<exists>rows. map snd (mc_test_runs t) = map snd (mc_test_runs s) @ rows \<and>
     (case res of
        Inr x \<Rightarrow> list_all2 (\<lambda>op. command_outcome op None) ops rows
      | Inl e \<Rightarrow> \<exists>k row. k < length ops \<and> command_outcome (ops ! k) (Some e) row \<and>
          rows = butlast rows @ [row] \<and>
          list_all2 (\<lambda>op. command_outcome op None) (take k ops) (butlast rows))"
proof (induction ops arbitrary: acc s)
  case Nil
  then show ?case by auto
next
  case (Cons op ops)
  obtain x s1 where 1: "run_command en scope op (er_data acc) s = (x, s1)" by fastforce
  obtain row where row: "mc_test_runs s1 = mc_test_runs s @ [(en_uid en (mc_ticks s), row)]"
      "command_outcome op (error_of x) row" and ids: "ids_step en s s1"
    using run_command_row [OF Cons.prems(1,2) 1] by blast
  show ?case
  proof (cases x)
    case (Inl e)
    then show ?thesis using Cons.prems(3) 1 row
      by (intro exI [of _ "[row]"]) (auto simp: ebind_def intro!: exI [of _ 0])
  next
    case (Inr y)
    have "run_commands en scope ops \<lparr>er_data = er_data y, er_result = er_result acc @ er_result y\<rparr> s1 = (res, t)"
      using Cons.prems(3) 1 Inr by (simp add: ebind_def)
    from Cons.IH [OF ids_step_fresh [OF Cons.prems(1) ids] _ this] ids Cons.prems(2)
    obtain rows where rows: "map snd (mc_test_runs t) = map snd (mc_test_runs s1) @ rows"
      "case res of Inr x \<Rightarrow> list_all2 (\<lambda>op. command_outcome op None) ops rows
       | Inl e \<Rightarrow> \<exists>k row. k < length ops \<and> command_outcome (ops ! k) (Some e) row \<and>
          rows = butlast rows @ [row] \<and>
          list_all2 (\<lambda>op. command_outcome op None) (take k ops) (butlast rows)"
      by (auto simp: ids_step_def)
    show ?thesis
    proof (cases res)
      case (Inr z)
      then show ?thesis using rows row \<open>x = Inr y\<close> by (intro exI [of _ "row # rows"]) simp
    next
      case (Inl e)
      then obtain k r where k: "k < length ops" "command_outcome (ops ! k) (Some e) r"
          "rows = butlast rows @ [r]" "list_all2 (\<lambda>op. command_outcome op None) (take k ops) (butlast rows)"
        using rows(2) by auto
      moreover have "butlast (row # rows) = row # butlast rows" using k(3) by auto
      ultimately show ?thesis using rows(1) row \<open>x = Inr y\<close> Inl
        by (intro exI [of _ "row # rows"]) (auto intro!: exI [of _ "Suc k"])
    qed
  qed
qed


text \<open>
  Commands run one after the other and stop at the first failure: running a list is running
  a prefix and then, from the state and the data the prefix leaves, the rest; a prefix that
  raises leaves the state in which the whole list raises.
\<close>

theorem commands_fail_fast:
  "run_commands en scope (xs @ ys) acc s =
     (case run_commands en scope xs acc s of
        (Inl e, t) \<Rightarrow> (Inl e, t)
      | (Inr acc', t) \<Rightarrow> run_commands en scope ys acc' t)"
  by (induction xs arbitrary: acc s) (auto simp: ebind_def split: prod.splits sum.splits)

text \<open>
  A list of commands keeps the session invariant, whatever the commands are and however the
  list ends: the run context stays the one bound before, and its four scopes stay dictionaries
  of a well-formed store.
\<close>

theorem commands_keep_session:
  assumes "wf_session (mc_session s)" and "execute_operations en ops data scope s = (res, t)"
  shows "wf_session (mc_session t) \<and> s_ctx (mc_session t) = s_ctx (mc_session s)"
  using sessions.preserves_execute [OF _ assms(2)] assms(1)
  by (simp add: sessions.writes_allowed_def session_frame_def)

subsection \<open>A concrete run\<close>

definition example_env :: "nat environment" where
  "example_env =
     \<lparr>en_clock = example_clock, en_local_now = ''2024-01-01T00:00:00'',
      en_uid = (\<lambda>n. replicate (Suc n) (CHR ''i'')), en_stamp = (\<lambda>n. ''t'' @ show_nat n),
      en_schema = (\<lambda>sch v. SchemaOk), en_loads = (\<lambda>t. Inr (PStr t)), en_broker = (\<lambda>d. Inr ()),
      en_connection = (\<lambda>d. Inr d),
      en_receive = (\<lambda>d q n w. (Inr (replicate (min w (nat n)) (PDict [])), w - nat n)),
      en_publish = (\<lambda>d q ms w. (Inr (), w + length ms)), en_sleep = (\<lambda>n w. (Inr (), w)),
      en_db = (\<lambda>e q w. (Inr (), Suc w)), en_rows = (\<lambda>i r ps w. (Inr [], w)),
      en_start_suite = (\<lambda>i ev cs inv_id w. (Inr ''run'', w))\<rparr>"

definition example_vars :: runtime_vars where
  "example_vars = no_vars\<lparr>rv_suite_execution_id := Some ''se'', rv_suite_test_execution_id := Some ''te''\<rparr>"

definition example_machine :: "nat machine" where
  "example_machine =
     \<lparr>mc_session = idle_session,
      mc_db = \<lparr>cd_definitions = [], cd_items = [], cd_item_commands = []\<rparr>, mc_payloads = [],
      mc_queues = [], mc_datasets = [], mc_test_runs = [], mc_item_runs = [], mc_logs = [],
      mc_bus = empty_bus, mc_vars = example_vars, mc_ticks = 0, mc_world = 0\<rparr>"

definition command_of :: "string \<Rightarrow> pydict \<Rightarrow> string \<times> command_row" where
  "command_of i cfg =
     (i, \<lparr>cw_owner_id = ''o'', cw_order = 1, cw_command_code = token (dget cfg ''commandCode''),
       cw_command_type = token (dget cfg ''commandType''), cw_configuration = PDict cfg, cw_description = []\<rparr>)"

definition example_ops :: "(string \<times> command_row) list" where
  "example_ops =
     [command_of ''c1'' [(''commandCode'', PStr ''sleep''), (''commandType'', PStr ''action''),
                         (''duration'', PInt 1)],
      command_of ''c2'' [(''commandCode'', PStr ''teleport'')]]"

lemma example_fresh: "fresh_ids example_env example_machine"
proof -
  have "inj (\<lambda>n. replicate (Suc n) (CHR ''i''))" by (rule injI) (metis length_replicate nat.inject)
  then show ?thesis by (simp add: fresh_ids_def example_env_def example_machine_def)
qed

lemma example_records: "records_test (run_ids_of (mc_vars example_machine))"
  by code_simp

definition executor_run :: "exec_result result \<times> nat machine" where
  "executor_run = execute_operations example_env example_ops HNone None example_machine"

lemma example_ops_length: "length example_ops = 2"
  by (simp add: example_ops_def)

lemma executor_run_eval: "(case executor_run of
    (Inl e, t) \<Rightarrow> map (\<lambda>(i, r). xr_status r) (mc_test_runs t) = [''success'', ''running'']
  | (Inr x, t) \<Rightarrow> False)"
  by code_simp


lemma commands_keep_session_witness:
  "wf_session (mc_session (snd executor_run)) \<and> s_ctx (mc_session (snd executor_run)) = None"
proof -
  have "wf_session (mc_session example_machine)"
    by (simp add: example_machine_def idle_session_def wf_session_def empty_heap_def wf_heap_def)
  from commands_keep_session [OF this, of example_env example_ops HNone None "fst executor_run" "snd executor_run"]
  show ?thesis by (simp add: executor_run_def example_machine_def idle_session_def)
qed

end
