(* ===== verification/Test_Isolation.thy ===== *)
theory Test_Isolation
  imports Executor_Facts
begin

section \<open>A test cannot change what other tests see\<close>

text \<open>
  The frame interface interpreted a third time: while a test item is running, no command writes
  to the dictionaries of the global scope or of the run envelope. It rests on the layout a run
  context is created with, nine distinct dictionaries, which every command keeps.
\<close>

record scope_addrs =
  la_envelope :: addr
  la_envelope_constants :: addr
  la_global :: addr
  la_global_constants :: addr
  la_local :: addr
  la_local_constants :: addr
  la_result :: addr
  la_result_constants :: addr
  la_artifacts :: addr

definition links :: "heap \<Rightarrow> addr \<Rightarrow> string \<Rightarrow> addr \<Rightarrow> bool" where
  "links h a k b \<longleftrightarrow> (\<exists>d. hp_store h a = Some (HDict d) \<and> map_of d k = Some (HRef b)) \<and>
     (\<exists>e. hp_store h b = Some (HDict e))"

definition laid_out :: "run_context \<Rightarrow> scope_addrs \<Rightarrow> heap \<Rightarrow> bool" where
  "laid_out c L h \<longleftrightarrow> wf_heap h \<and>
     run_envelope c = HRef (la_envelope L) \<and> global_scope c = HRef (la_global L) \<and>
     local_scope c = HRef (la_local L) \<and> result_scope c = HRef (la_result L) \<and>
     links h (la_envelope L) ''constants'' (la_envelope_constants L) \<and>
     links h (la_global L) ''constants'' (la_global_constants L) \<and>
     links h (la_local L) ''constants'' (la_local_constants L) \<and>
     links h (la_result L) ''constants'' (la_result_constants L) \<and>
     links h (la_result L) ''artifacts'' (la_artifacts L) \<and>
     distinct [la_envelope L, la_envelope_constants L, la_global L, la_global_constants L,
       la_local L, la_local_constants L, la_result L, la_result_constants L, la_artifacts L]"

definition protected_addrs :: "scope_addrs \<Rightarrow> addr set" where
  "protected_addrs L =
     {la_envelope L, la_envelope_constants L, la_global L, la_global_constants L}"

definition definitions_ok :: "constant_db \<Rightarrow> bool" where
  "definitions_ok db \<longleftrightarrow> (\<forall>(i, r) \<in> set (cd_definitions db).
     df_context_scope r \<in> set scope_names \<and> plain_name (df_name r))"

definition plain_target :: "string \<Rightarrow> bool" where
  "plain_target path \<longleftrightarrow> (\<exists>sc n. path = constant_path sc n \<and> sc \<in> set scope_names \<and> plain_name n)"

definition in_test :: "run_context \<Rightarrow> scope_addrs \<Rightarrow> 'w machine \<Rightarrow> bool" where
  "in_test c L s \<longleftrightarrow> s_ctx (mc_session s) = Some c \<and> current_item_kind c = ''test'' \<and>
     laid_out c L (s_heap (mc_session s)) \<and> definitions_ok (mc_db s)"

definition isolation :: "run_context \<Rightarrow> scope_addrs \<Rightarrow> 'w machine \<Rightarrow> 'w machine \<Rightarrow> bool" where
  "isolation c L s t \<longleftrightarrow> (in_test c L s \<longrightarrow> in_test c L t \<and>
     (\<forall>a \<in> protected_addrs L. hp_store (s_heap (mc_session t)) a = hp_store (s_heap (mc_session s)) a))"

subsection \<open>The layout\<close>

lemma links_stored: "links h a k b \<Longrightarrow> hp_store h a \<noteq> None \<and> hp_store h b \<noteq> None"
  by (auto simp: links_def)

lemma links_same:
  "links h a k b \<Longrightarrow> hp_store h' a = hp_store h a \<Longrightarrow> hp_store h' b = hp_store h b \<Longrightarrow> links h' a k b"
  by (simp add: links_def)

lemma links_put:
  "links h a k b \<Longrightarrow> x \<noteq> a \<Longrightarrow> links (put_obj x (HDict d) h) a k b"
  by (auto simp: links_def)

lemma laid_out_grows:
  assumes "laid_out c L h" and "grows h h'"
  shows "laid_out c L h'" and "a \<in> protected_addrs L \<Longrightarrow> hp_store h' a = hp_store h a"
proof -
  have same: "hp_store h' a = hp_store h a" if "hp_store h a \<noteq> None" for a
    using assms that unfolding laid_out_def grows_def only_changes_def
    by (metis empty_iff not_None_eq wf_heap_below)
  have "links h a k b \<Longrightarrow> links h' a k b" for a k b
    using links_stored links_same same by metis
  then show "laid_out c L h'" using assms by (auto simp: laid_out_def grows_def)
  show "a \<in> protected_addrs L \<Longrightarrow> hp_store h' a = hp_store h a"
    using assms(1) same by (auto simp: laid_out_def protected_addrs_def dest: links_stored)
qed

lemma laid_out_put:
  assumes "laid_out c L h" and "x \<in> {la_local_constants L, la_result_constants L, la_artifacts L}"
  shows "laid_out c L (put_obj x (HDict d) h)"
    and "a \<in> protected_addrs L \<Longrightarrow> hp_store (put_obj x (HDict d) h) a = hp_store h a"
proof -
  have "hp_store h x \<noteq> None" using assms by (auto simp: laid_out_def dest: links_stored)
  then have "wf_heap (put_obj x (HDict d) h)"
    using assms(1) by (auto simp: laid_out_def intro: wf_put_obj)
  then show "laid_out c L (put_obj x (HDict d) h)"
    using assms by (auto simp: laid_out_def intro: links_put)
  show "a \<in> protected_addrs L \<Longrightarrow> hp_store (put_obj x (HDict d) h) a = hp_store h a"
    using assms by (auto simp: laid_out_def protected_addrs_def)
qed

lemma laid_out_put_list:
  assumes "laid_out c L h" and "hp_store h x = Some (HList xs)"
  shows "laid_out c L (put_obj x (HList ys) h)"
    and "a \<in> protected_addrs L \<Longrightarrow> hp_store (put_obj x (HList ys) h) a = hp_store h a"
proof -
  have l: "links h a k b \<Longrightarrow> x \<noteq> a \<and> x \<noteq> b" for a k b using assms(2) by (auto simp: links_def)
  then have "links h a k b \<Longrightarrow> links (put_obj x (HList ys) h) a k b" for a k b
    by (metis links_same put_obj_store(1))
  moreover have "wf_heap (put_obj x (HList ys) h)"
    using assms by (auto simp: laid_out_def intro: wf_put_obj)
  ultimately show "laid_out c L (put_obj x (HList ys) h)" using assms(1) by (auto simp: laid_out_def)
  show "a \<in> protected_addrs L \<Longrightarrow> hp_store (put_obj x (HList ys) h) a = hp_store h a"
    using assms(1) l by (auto simp: laid_out_def protected_addrs_def)
qed

lemma fresh_laid_out:
  assumes "fresh_layout c k h"
  shows "\<exists>L. laid_out (c\<lparr>current_item_kind := kd\<rparr>) L h"
proof -
  obtain vs d r ev where vs: "hp_store h k = Some (HDict [(''run_id'', HStr r), (''event'', ev), (''constants'', HRef vs)])"
      "hp_store h vs = Some (HDict d)" "vs < k" using assms by (auto simp: fresh_layout_def)
  have "links h k ''constants'' vs" "links h (k + 2) ''constants'' (k + 1)"
    "links h (k + 4) ''constants'' (k + 3)" "links h (k + 8) ''constants'' (k + 7)"
    "links h (k + 8) ''artifacts'' (k + 5)"
    using assms vs(1,2) by (simp_all add: fresh_layout_def links_def)
  then have "laid_out (c\<lparr>current_item_kind := kd\<rparr>)
      \<lparr>la_envelope = k, la_envelope_constants = vs, la_global = k + 2, la_global_constants = k + 1,
       la_local = k + 4, la_local_constants = k + 3, la_result = k + 8, la_result_constants = k + 7,
       la_artifacts = k + 5\<rparr> h"
    using assms vs(3) by (simp add: laid_out_def fresh_layout_def)
  then show ?thesis by blast
qed

subsection \<open>Path writes of a test\<close>

lemma laid_out_ready:
  assumes "laid_out c L h" and "sc \<in> set scope_names"
  shows "constants_ready h (scope_of c sc)"
  using assms
  by (elim scope_namesE)
    (auto simp: laid_out_def links_def intro: constants_readyI)

definition constants_addr :: "scope_addrs \<Rightarrow> string \<Rightarrow> addr" where
  "constants_addr L sc = (if sc = ''local'' then la_local_constants L else la_result_constants L)"

lemma laid_out_store:
  assumes "laid_out c L h" and "current_item_kind c = ''test''" and "sc \<in> {''local'', ''result''}"
  shows "store_inv c sc h"
    and "hget h (scope_of c sc) ''constants'' = HRef (constants_addr L sc)"
    and "hp_store h (constants_addr L sc) = Some (HDict (scope_constants h (scope_of c sc)))"
proof -
  have sc: "sc \<in> set scope_names" using assms(3) by (auto simp: scope_names_def)
  show "store_inv c sc h"
    using assms laid_out_ready [OF assms(1) sc] sc
    by (auto simp: store_inv_def laid_out_def check_mutable_def rbind_def)
  show g: "hget h (scope_of c sc) ''constants'' = HRef (constants_addr L sc)"
    using assms by (auto simp: laid_out_def links_def constants_addr_def hget_def)
  show "hp_store h (constants_addr L sc) = Some (HDict (scope_constants h (scope_of c sc)))"
    using assms unfolding scope_constants_def g
    by (auto simp: laid_out_def links_def constants_addr_def entries_def)
qed

lemma refused_in_test:
  assumes "current_item_kind c = ''test''" and "sc \<in> {''global'', ''runEnvelope''}" and "plain_name n"
  shows "\<exists>e. write_path c (constant_path sc n) v h = (Inl e, h)"
    and "\<exists>e. remove_path c (constant_path sc n) h = (Inl e, h)"
proof -
  have sc: "sc \<in> set scope_names" using assms(2) by (auto simp: scope_names_def)
  note t = constant_tokens [OF sc assms(3)] scope_names_root [OF sc]
  show "\<exists>e. write_path c (constant_path sc n) v h = (Inl e, h)"
    "\<exists>e. remove_path c (constant_path sc n) h = (Inl e, h)"
    using assms(1,2)
    by (auto simp: write_path_def remove_path_def extract_context_root_def t ebind_elift
        check_mutable_def rbind_def guard_def)
qed

text \<open>The effect of a write or delete of a constant: nothing, or one constants dictionary.\<close>

definition touches :: "scope_addrs \<Rightarrow> heap \<Rightarrow> heap \<Rightarrow> bool" where
  "touches L h h' \<longleftrightarrow> h' = h \<or>
     (\<exists>x d. x \<in> {la_local_constants L, la_result_constants L} \<and> h' = put_obj x (HDict d) h)"

lemma path_ops_touch:
  assumes "laid_out c L h" and "current_item_kind c = ''test''" and "plain_target path"
  shows "touches L h (snd (write_path c path v h))" and "touches L h (snd (remove_path c path h))"
proof -
  obtain sc n where p: "path = constant_path sc n" "sc \<in> set scope_names" "plain_name n"
    using assms(3) by (auto simp: plain_target_def)
  have "touches L h (snd (write_path c path v h)) \<and> touches L h (snd (remove_path c path h))"
  proof (cases "sc \<in> {''global'', ''runEnvelope''}")
    case True
    then show ?thesis
      using refused_in_test [OF assms(2) True p(3)] unfolding p(1) touches_def by (metis snd_conv)
  next
    case False
    then have sc: "sc \<in> {''local'', ''result''}" using p(2) by (auto simp: scope_names_def)
    note s = laid_out_store [OF assms(1,2) sc]
    have "constants_addr L sc \<in> {la_local_constants L, la_result_constants L}"
      by (simp add: constants_addr_def)
    then show ?thesis
      unfolding p(1) put_constant_eq [OF s(1) p(3) s(2,3)] remove_constant_path [OF s(1) p(3)]
        remove_constant [OF store_inv_parts(3) [OF s(1)] p(3) s(2,3)] touches_def
      by auto
  qed
  then show "touches L h (snd (write_path c path v h))" "touches L h (snd (remove_path c path h))"
    by simp_all
qed

lemma touches_laid_out:
  assumes "laid_out c L h" and "touches L h h'"
  shows "laid_out c L h' \<and> (\<forall>a \<in> protected_addrs L. hp_store h' a = hp_store h a)"
proof -
  consider "h' = h" | x d where "x \<in> {la_local_constants L, la_result_constants L}" "h' = put_obj x (HDict d) h"
    using assms(2) by (auto simp: touches_def)
  then show ?thesis
  proof cases
    case (2 x d)
    then have "x \<in> {la_local_constants L, la_result_constants L, la_artifacts L}" by auto
    then show ?thesis using laid_out_put [OF assms(1)] 2(2) by blast
  qed (use assms(1) in simp)
qed

lemma isolation_write:
  assumes "in_test c L s \<Longrightarrow> plain_target path"
  shows "isolation c L s (snd (on_session (write_context_path path v) s))"
    and "isolation c L s (snd (on_session (remove_context_path path) s))"
proof -
  have a: "isolation c L s (s\<lparr>mc_session := (mc_session s)\<lparr>s_heap := h\<rparr>\<rparr>)"
    if "in_test c L s \<Longrightarrow> touches L (s_heap (mc_session s)) h" for h
    using that touches_laid_out unfolding isolation_def in_test_def by fastforce
  have t: "in_test c L s \<Longrightarrow> touches L (s_heap (mc_session s)) (snd (write_path c path v (s_heap (mc_session s))))"
    "in_test c L s \<Longrightarrow> touches L (s_heap (mc_session s)) (snd (remove_path c path (s_heap (mc_session s))))"
    using path_ops_touch assms by (auto simp: in_test_def)
  show "isolation c L s (snd (on_session (write_context_path path v) s))"
    using a [OF t(1)] by (auto simp: on_session_def write_context_path_def on_heap_def split_def
        isolation_def in_test_def split: option.splits)
  show "isolation c L s (snd (on_session (remove_context_path path) s))"
    using a [OF t(2)] by (auto simp: on_session_def remove_context_path_def on_heap_def split_def
        isolation_def in_test_def split: option.splits)
qed

subsection \<open>The artifacts\<close>

definition keeps_layout :: "run_context \<Rightarrow> scope_addrs \<Rightarrow> heap \<Rightarrow> heap \<Rightarrow> bool" where
  "keeps_layout c L h h' \<longleftrightarrow> laid_out c L h' \<and> (\<forall>a \<in> protected_addrs L. hp_store h' a = hp_store h a)"

lemma keeps_layout_trans: "keeps_layout c L h h1 \<Longrightarrow> keeps_layout c L h1 h2 \<Longrightarrow> keeps_layout c L h h2"
  by (simp add: keeps_layout_def)

lemma append_item_keeps:
  assumes "laid_out c L h"
  shows "keeps_layout c L h (append_item items v h)"
proof (cases "list_at h items")
  case (Some xs)
  then obtain x where "items = HRef x" "hp_store h x = Some (HList xs)" by (rule list_atE)
  then show ?thesis
    using laid_out_put_list [OF assms] by (simp add: append_item_def keeps_layout_def)
qed (use assms in \<open>simp add: append_item_def keeps_layout_def split: hval.splits\<close>)

lemma asserts_list_keeps:
  assumes "laid_out c L h"
  shows "keeps_layout c L h (snd (child_or_new (HList []) (HRef (la_artifacts L)) ''asserts'' h))"
proof -
  let ?h1 = "snd (alloc (HList []) h)"
  have g: "grows h ?h1" using assms by (intro grows_alloc) (simp add: laid_out_def)
  note l = laid_out_grows [OF assms g]
  obtain d where "hp_store ?h1 (la_artifacts L) = Some (HDict d)"
    using l(1) by (auto simp: laid_out_def links_def)
  note put = dict_put_dict [OF this]
  have "keeps_layout c L ?h1 (dict_put (HRef (la_artifacts L)) ''asserts'' w ?h1)" for w
    unfolding put keeps_layout_def using laid_out_put [OF l(1)] by auto
  moreover have "keeps_layout c L h ?h1" using l by (simp add: keeps_layout_def)
  ultimately have "keeps_layout c L h (dict_put (HRef (la_artifacts L)) ''asserts'' w ?h1)" for w
    using keeps_layout_trans by blast
  then show ?thesis
    using assms unfolding child_or_new_def Let_def split_def by (simp add: keeps_layout_def)
qed

lemma artifact_keeps:
  assumes "laid_out c L (s_heap s)" and "s_ctx s = Some c"
  shows "\<exists>h. append_assert_artifact v s = s\<lparr>s_heap := h\<rparr> \<and> keeps_layout c L (s_heap s) h"
proof -
  obtain d e where "result_scope c = HRef (la_result L)" "hp_store (s_heap s) (la_result L) = Some (HDict d)"
      "map_of d ''artifacts'' = Some (HRef (la_artifacts L))"
      "hp_store (s_heap s) (la_artifacts L) = Some (HDict e)"
    using assms(1) by (auto simp: laid_out_def links_def)
  then have 1: "child_or_new (HDict []) (result_scope c) ''artifacts'' (s_heap s) =
      (HRef (la_artifacts L), s_heap s)"
    by (simp add: child_or_new_def hget_def)
  obtain items h2 where 2: "child_or_new (HList []) (HRef (la_artifacts L)) ''asserts'' (s_heap s) = (items, h2)"
    by fastforce
  have "keeps_layout c L (s_heap s) h2" using asserts_list_keeps [OF assms(1)] 2 by (metis snd_conv)
  moreover from this have "keeps_layout c L h2 (append_item items v h2)"
    by (intro append_item_keeps) (simp add: keeps_layout_def)
  ultimately show ?thesis
    using 1 2 assms(2) by (auto simp: append_assert_artifact_def intro: keeps_layout_trans)
qed

subsection \<open>The interpretation\<close>

lemma definition_target:
  assumes "resolve_definition_path db i = Inr (r, path)" and "definitions_ok db"
  shows "plain_target path"
proof -
  have "map_of (cd_definitions db) i = Some r" and p: "path = ''$.'' @ df_context_scope r @ ''.constants.'' @ df_name r"
    using assms(1) by (auto simp: resolve_definition_path_def get_by_id_def split: option.splits)
  then have "(i, r) \<in> set (cd_definitions db)" by (auto dest: map_of_SomeD)
  then show ?thesis
    using assms(2) p unfolding plain_target_def constant_path_def definitions_ok_def by fastforce
qed

interpretation isolated: run_frame "isolation c L" plain_target for c L
proof unfold_locales
  fix s t u :: "'w machine"
  show "isolation c L s s" by (simp add: isolation_def)
  show "isolation c L s t \<Longrightarrow> isolation c L t u \<Longrightarrow> isolation c L s u" by (auto simp: isolation_def)
  show "isolation c L s (s\<lparr>mc_ticks := Suc (mc_ticks s)\<rparr>)"
    "isolation c L s (s\<lparr>mc_logs := l, mc_bus := b, mc_datasets := d, mc_world := w\<rparr>)" for l b d w
    by (simp_all add: isolation_def in_test_def)
  show "isolation c L s (s\<lparr>mc_test_runs := a, mc_item_runs := b\<rparr>)" for a b
    by (simp add: isolation_def in_test_def)
  show "isolation c L s (s\<lparr>mc_session := (mc_session s)\<lparr>s_heap := h\<rparr>\<rparr>)"
    if "wf_heap (s_heap (mc_session s)) \<Longrightarrow> grows (s_heap (mc_session s)) h" for h
  proof -
    have "in_test c L s \<Longrightarrow> grows (s_heap (mc_session s)) h" using that by (simp add: in_test_def laid_out_def)
    then show ?thesis using laid_out_grows by (auto simp: isolation_def in_test_def)
  qed
  show "plain_target path \<Longrightarrow> isolation c L s (snd (on_session (write_context_path path v) s))" for path v
    by (rule isolation_write(1))
  show "resolve_definition_path (mc_db s) i = Inr (r, path) \<Longrightarrow>
      isolation c L s (snd (on_session (write_context_path path v) s))" for i r path v
    by (rule isolation_write(1)) (auto simp: in_test_def intro: definition_target)
  show "resolve_definition_path (mc_db s) i = Inr (r, path) \<Longrightarrow>
      isolation c L s (snd (on_session (remove_context_path path) s))" for i r path
    by (rule isolation_write(2)) (auto simp: in_test_def intro: definition_target)
  show "isolation c L s (s\<lparr>mc_session := append_assert_artifact v (mc_session s)\<rparr>)" for v
  proof -
    have "in_test c L s \<Longrightarrow> \<exists>h. append_assert_artifact v (mc_session s) = (mc_session s)\<lparr>s_heap := h\<rparr> \<and>
        keeps_layout c L (s_heap (mc_session s)) h"
      by (rule artifact_keeps) (simp_all add: in_test_def)
    then show ?thesis by (auto simp: isolation_def in_test_def keeps_layout_def)
  qed
qed

subsection \<open>The property\<close>

definition plain_constants :: "(string \<times> command_row) list \<Rightarrow> bool" where
  "plain_constants ops \<longleftrightarrow>
     list_all (\<lambda>op. case command_cfg op of Inr (InitConstantDto c) \<Rightarrow> plain_name (ic_name c) | _ \<Rightarrow> True) ops"

lemma converted_allowed:
  assumes "plain_constants ops" and "op \<in> set ops" and "command_cfg op = Inr cfg"
  shows "isolated.writes_allowed cfg"
  unfolding isolated.writes_allowed_def
proof (intro allI impI)
  fix x assume x: "cfg = InitConstantDto x"
  have "wf_command cfg"
    using assms(3) build_dto_wf wf_command_base
    unfolding command_cfg_def convert_to_config_command_type_def by blast
  then have "ic_context x \<in> set scope_names"
    by (simp add: x constant_contexts_def scope_names_def)
  moreover have "plain_name (ic_name x)"
    using assms x by (auto simp: plain_constants_def list_all_iff)
  ultimately show "plain_target (''$.'' @ ic_context x @ ''.constants.'' @ ic_name x)"
    unfolding plain_target_def constant_path_def by blast
qed

lemma links_constants:
  assumes "links h a ''constants'' b" and "hp_store h' a = hp_store h a" and "hp_store h' b = hp_store h b"
  shows "scope_constants h' (HRef a) = scope_constants h (HRef a)"
proof -
  obtain d e where "hp_store h a = Some (HDict d)" "map_of d ''constants'' = Some (HRef b)"
      "hp_store h b = Some (HDict e)" using assms(1) by (auto simp: links_def)
  then show ?thesis using assms(2,3) by (simp add: scope_constants_def entries_def hget_def)
qed

text \<open>
  C27. Isolation of tests: commands run while a test item is bound leave the dictionaries of the
  global scope and of the run envelope, and their constants, exactly as they were, whether the
  list completes or raises, whatever the commands are. Assumed are the layout a run context is
  created with and plain names for the constants the commands and the stored definitions name.
\<close>

theorem test_commands_isolated:
  assumes "in_test c L s" and "plain_constants ops"
    and "execute_operations en ops data scope s = (res, t)"
  shows "(\<forall>sc \<in> {''global'', ''runEnvelope''}.
      scope_constants (s_heap (mc_session t)) (scope_of c sc) =
      scope_constants (s_heap (mc_session s)) (scope_of c sc)) \<and>
    (\<forall>a \<in> protected_addrs L. hp_store (s_heap (mc_session t)) a = hp_store (s_heap (mc_session s)) a) \<and>
    in_test c L t"
proof -
  have "isolation c L s t"
    by (rule isolated.preserves_execute [OF _ assms(3)]) (rule converted_allowed [OF assms(2)])
  then have t: "in_test c L t" and same: "\<And>a. a \<in> protected_addrs L \<Longrightarrow>
      hp_store (s_heap (mc_session t)) a = hp_store (s_heap (mc_session s)) a"
    using assms(1) by (auto simp: isolation_def)
  have l: "laid_out c L (s_heap (mc_session s))" using assms(1) by (simp add: in_test_def)
  have "scope_constants (s_heap (mc_session t)) (HRef (la_global L)) =
      scope_constants (s_heap (mc_session s)) (HRef (la_global L))"
    by (rule links_constants [where b = "la_global_constants L"])
      (use l same in \<open>simp_all add: laid_out_def protected_addrs_def\<close>)
  moreover have "scope_constants (s_heap (mc_session t)) (HRef (la_envelope L)) =
      scope_constants (s_heap (mc_session s)) (HRef (la_envelope L))"
    by (rule links_constants [where b = "la_envelope_constants L"])
      (use l same in \<open>simp_all add: laid_out_def protected_addrs_def\<close>)
  ultimately have "scope_constants (s_heap (mc_session t)) (scope_of c sc) =
      scope_constants (s_heap (mc_session s)) (scope_of c sc)" if "sc \<in> {''global'', ''runEnvelope''}" for sc
    using that l by (auto simp: laid_out_def)
  then show ?thesis using t same by blast
qed

text \<open>A context as it is created, bound to a test, with a command that sets a local constant.\<close>

definition isolation_ctx :: "run_context \<times> heap" where
  "isolation_ctx = create_run_context ''r1'' HNone HNone None empty_heap"

definition isolation_machine :: "nat machine" where
  "isolation_machine = example_machine\<lparr>mc_session := \<lparr>s_heap = snd isolation_ctx,
     s_ctx = Some ((fst isolation_ctx)\<lparr>current_item_kind := ''test''\<rparr>)\<rparr>\<rparr>"

definition isolation_ops :: "(string \<times> command_row) list" where
  "isolation_ops =
     [command_of ''c1'' [(''commandCode'', PStr ''initConstant''), (''definitionId'', PStr ''d1''),
        (''name'', PStr ''x''), (''context'', PStr ''local''), (''sourceType'', PStr ''raw''),
        (''value'', PStr ''v'')],
      command_of ''c2'' [(''commandCode'', PStr ''initConstant''), (''definitionId'', PStr ''d2''),
        (''name'', PStr ''y''), (''context'', PStr ''global''), (''sourceType'', PStr ''raw''),
        (''value'', PStr ''v'')]]"

lemma isolation_created: "create_run_context ''r1'' HNone HNone None empty_heap = isolation_ctx"
  by (simp add: isolation_ctx_def)

lemma isolation_in_test: "\<exists>c L. in_test c L isolation_machine \<and>
  scope_constants (s_heap (mc_session isolation_machine)) (scope_of c ''global'') = []"
proof -
  obtain c h where c: "isolation_ctx = (c, h)" by fastforce
  have "wf_heap empty_heap" by (simp add: wf_heap_def empty_heap_def)
  then obtain k where k: "fresh_layout c k h"
    using create_layout isolation_created c by metis
  then obtain L where "laid_out (c\<lparr>current_item_kind := ''test''\<rparr>) L h" using fresh_laid_out by blast
  moreover have "scope_constants h (global_scope c) = []"
    using k by (auto simp: fresh_layout_def scope_constants_def hget_def entries_def)
  ultimately show ?thesis
    by (intro exI [of _ "c\<lparr>current_item_kind := ''test''\<rparr>"] exI [of _ L])
      (simp add: in_test_def isolation_machine_def c example_machine_def definitions_ok_def)
qed

lemma isolation_plain: "plain_constants isolation_ops"
  by code_simp

lemma test_commands_isolated_witness:
  "\<exists>c. s_ctx (mc_session isolation_machine) = Some c \<and>
     scope_constants (s_heap (mc_session (snd
       (execute_operations example_env isolation_ops HNone None isolation_machine)))) (scope_of c ''global'') = []"
proof -
  obtain c L where i: "in_test c L isolation_machine"
      "scope_constants (s_heap (mc_session isolation_machine)) (scope_of c ''global'') = []"
    using isolation_in_test by blast
  show ?thesis
    using test_commands_isolated [OF i(1) isolation_plain prod.collapse [symmetric]] i
    by (intro exI [of _ c]) (simp add: in_test_def)
qed

end
