(* ===== verification/Suite_Runner.thy ===== *)
theory Suite_Runner
  imports Command_Composite
begin

section \<open>Running a test suite\<close>

text \<open>
  \<open>test_suites/test_suite_executor_thread.py\<close> and \<open>test_suites/suite_item_executor.py\<close>: the
  hooks and tests of a suite are run one after the other on one run context, every item is
  recorded in \<open>suite_item_executions\<close>, and the run itself in \<open>test_suite_executions\<close>. The whole
  run is one database transaction.
\<close>

record suite_row =
  su_description :: string

record suite_run_row =
  tr_test_suite_id :: string
  tr_test_suite_description :: string
  tr_status :: string
  tr_invocation_id :: "string option"
  tr_vars_init_json :: pyval
  tr_result_json :: pyval
  tr_requested_test_id :: "string option"
  tr_error_message :: "string option"
  tr_finished_at :: "string option"

record item_run_row =
  ie_test_suite_execution_id :: string
  ie_suite_item_id :: string
  ie_item_kind :: string
  ie_hook_phase :: "string option"
  ie_item_description :: string
  ie_position :: int
  ie_status :: string
  ie_error_message :: "string option"
  ie_finished_at :: "string option"

record 'w runner =
  rn_machine :: "'w machine"
  rn_suites :: "suite_row table"
  rn_suite_runs :: "suite_run_row table"
  rn_item_execs :: "item_run_row table"

record suite_execution_input =
  xi_execution_id :: string
  xi_test_suite_id :: string
  xi_test_suite_description :: string
  xi_event :: pyval
  xi_vars_init :: pyval
  xi_invocation_id :: "string option"
  xi_target_suite_item_id :: "string option"

definition on_machine :: "('w machine, 'a) eff \<Rightarrow> ('w runner, 'a) eff" where
  "on_machine m = (\<lambda>s. case m (rn_machine s) of (r, t) \<Rightarrow> (r, s\<lparr>rn_machine := t\<rparr>))"

text \<open>The blocks \<open>with bind_execution_context\<close> and \<open>with bind_suite_item_context\<close> on the machine.\<close>

definition with_vars :: "runtime_vars \<Rightarrow> ('w machine, 'a) eff \<Rightarrow> ('w machine, 'a) eff" where
  "with_vars named body = (\<lambda>s.
     case body (s\<lparr>mc_vars := enter_vars named (mc_vars s)\<rparr>) of
       (r, t) \<Rightarrow> (r, t\<lparr>mc_vars := reset_vars named (mc_vars s) (mc_vars t)\<rparr>))"

definition with_suite_item ::
  "string \<Rightarrow> string option \<Rightarrow> hval option \<Rightarrow> ('w machine, 'a) eff \<Rightarrow> ('w machine, 'a) eff" where
  "with_suite_item item_kind hook_phase local_vars body = (\<lambda>s.
     case s_ctx (mc_session s) of
       None \<Rightarrow> body s
     | Some c \<Rightarrow>
         (case enter_suite_item item_kind hook_phase local_vars c (s_heap (mc_session s)) of
            (c1, h1) \<Rightarrow>
              (case body (s\<lparr>mc_session := \<lparr>s_heap = h1, s_ctx = Some c1\<rparr>\<rparr>) of
                 (r, t) \<Rightarrow>
                   (case s_ctx (mc_session t) of
                      None \<Rightarrow> (r, t)
                    | Some c2 \<Rightarrow>
                        (case leave_suite_item c
                                (hget (s_heap (mc_session s)) (local_scope c) ''constants'')
                                c2 (s_heap (mc_session t)) of
                           (c3, h3) \<Rightarrow> (r, t\<lparr>mc_session := \<lparr>s_heap = h3, s_ctx = Some c3\<rparr>\<rparr>))))))"

subsection \<open>One item\<close>

definition resolve_suite_item_scope :: "suite_item_row \<Rightarrow> string option" where
  "resolve_suite_item_scope item =
     (let phase = lower (strip (opt_token (sr_hook_phase item))) in
      if lower (strip (sr_kind item)) = ''test'' then Some SCOPE_TEST
      else if phase = ''before-all'' then Some ''hook.beforeAll''
      else if phase = ''before-each'' then Some ''hook.beforeEach''
      else if phase = ''after-each'' then Some ''hook.afterEach''
      else if phase = ''after-all'' then Some ''hook.afterAll''
      else None)"

definition execute_suite_item ::
  "'w environment \<Rightarrow> string \<times> suite_item_row \<Rightarrow> ('w machine, hval list) eff" where
  "execute_suite_item en item =
     ebind (eget (\<lambda>s. get_all_by_owner_id (fst item) (cd_item_commands (mc_db s)))) (\<lambda>ops.
     ebind (new_object (HList [])) (\<lambda>data.
     ebind (with_vars (no_vars\<lparr>rv_suite_item_id := Some (fst item)\<rparr>)
              (execute_operations en ops data (resolve_suite_item_scope (snd item)))) (\<lambda>res.
     ebind (emodify (\<lambda>s. s\<lparr>mc_session := set_context_last (fst item) (er_data res) (mc_session s)\<rparr>)) (\<lambda>_.
     ereturn (er_result res)))))"

definition create_item_execution ::
  "'w environment \<Rightarrow> string \<Rightarrow> string \<times> suite_item_row \<Rightarrow> int \<Rightarrow> ('w runner, string) eff" where
  "create_item_execution en run item position =
     ebind (on_machine next_tick) (\<lambda>n s.
       (let row = \<lparr>ie_test_suite_execution_id = run, ie_suite_item_id = fst item,
                   ie_item_kind = sr_kind (snd item),
                   ie_hook_phase = nonempty (opt_token (sr_hook_phase (snd item))),
                   ie_item_description = sr_description (snd item), ie_position = position,
                   ie_status = ''running'', ie_error_message = None, ie_finished_at = None\<rparr>
        in case insert_row (en_uid en n) row (rn_item_execs s) of
             Inl e \<Rightarrow> (Inl e, s)
           | Inr t \<Rightarrow> (Inr (en_uid en n), s\<lparr>rn_item_execs := t\<rparr>)))"

definition finish_item_row ::
  "string \<Rightarrow> string option \<Rightarrow> string \<Rightarrow> item_run_row \<Rightarrow> item_run_row" where
  "finish_item_row status err at_time row =
     row\<lparr>ie_status := status,
         ie_error_message := (case err of None \<Rightarrow> ie_error_message row | Some m \<Rightarrow> Some m),
         ie_finished_at := Some at_time\<rparr>"

definition finish_item ::
  "'w environment \<Rightarrow> string \<Rightarrow> string \<Rightarrow> string option \<Rightarrow> ('w runner, unit) eff" where
  "finish_item en ix status err =
     ebind (on_machine next_tick) (\<lambda>n. emodify (\<lambda>s. s\<lparr>rn_item_execs :=
       update_row ix (finish_item_row status err (en_stamp en n)) (rn_item_execs s)\<rparr>))"

definition publish_for ::
  "'w environment \<Rightarrow> suite_execution_input \<Rightarrow> string \<Rightarrow> pydict \<Rightarrow> ('w runner, unit) eff" where
  "publish_for en xi name payload = on_machine (publish_event en (xi_execution_id xi) name payload)"

definition item_event :: "string \<Rightarrow> string \<Rightarrow> string \<times> suite_item_row \<Rightarrow> pydict \<Rightarrow> pydict" where
  "item_event run ix item rest =
     [(''test_suite_execution_id'', PStr run), (''suite_item_execution_id'', PStr ix),
      (''suite_item_id'', PStr (fst item)), (''item_kind'', PStr (sr_kind (snd item))),
      (''hook_phase'', opt_json (sr_hook_phase (snd item))),
      (''item_description'', PStr (sr_description (snd item)))] @ rest"

definition event_prefix :: "string \<times> suite_item_row \<Rightarrow> string" where
  "event_prefix item = (if sr_kind (snd item) = ''hook'' then ''hook'' else ''test'')"

datatype item_result = ItemOk "hval list" string | ItemError string string

definition fail_item ::
  "'w environment \<Rightarrow> suite_execution_input \<Rightarrow> string \<Rightarrow> string \<Rightarrow> string \<times> suite_item_row \<Rightarrow> exc \<Rightarrow>
     ('w runner, item_result) eff" where
  "fail_item en xi run ix item e =
     ebind (finish_item en ix ''error'' (Some (exc_message e))) (\<lambda>_.
     ebind (publish_for en xi (event_prefix item @ ''_finished'')
              (item_event run ix item
                 [(''status'', PStr ''error''), (''error'', PStr (exc_message e))])) (\<lambda>_.
     ereturn (ItemError (exc_message e) ix)))"

definition succeed_item ::
  "'w environment \<Rightarrow> suite_execution_input \<Rightarrow> string \<Rightarrow> string \<Rightarrow> string \<times> suite_item_row \<Rightarrow> hval list \<Rightarrow>
     ('w runner, item_result) eff" where
  "succeed_item en xi run ix item results =
     ebind (finish_item en ix ''success'' None) (\<lambda>_.
     ebind (eget (\<lambda>s. map_result (json_value (s_heap (mc_session (rn_machine s)))) results)) (\<lambda>rows.
     ebind (elift rows) (\<lambda>xs.
     ebind (publish_for en xi (event_prefix item @ ''_finished'')
              (item_event run ix item
                 [(''status'', PStr ''success''), (''result'', PList xs)])) (\<lambda>_.
     ereturn (ItemOk results ix)))))"

definition execute_item ::
  "'w environment \<Rightarrow> suite_execution_input \<Rightarrow> string \<Rightarrow> string \<times> suite_item_row \<Rightarrow> int \<Rightarrow> hval \<Rightarrow>
     ('w runner, item_result) eff" where
  "execute_item en xi run item position local_vars =
     ebind (create_item_execution en run item position) (\<lambda>ix.
     ebind (publish_for en xi (event_prefix item @ ''_started'')
              (item_event run ix item [(''position'', PInt position)])) (\<lambda>_.
     etry
       (ebind (on_machine
                 (with_vars (no_vars\<lparr>rv_suite_item_id := Some (fst item),
                                     rv_suite_item_execution_id := Some ix\<rparr>)
                    (with_suite_item (sr_kind (snd item))
                       (nonempty (opt_token (sr_hook_phase (snd item)))) (Some local_vars)
                       (execute_suite_item en item))))
          (succeed_item en xi run ix item))
       (fail_item en xi run ix item)))"

subsection \<open>Hooks and tests\<close>

record progress =
  pg_position :: int
  pg_executed :: int
  pg_any_error :: bool
  pg_first_error :: string

definition absorb :: "item_result \<Rightarrow> progress \<Rightarrow> progress" where
  "absorb r pg =
     (case r of
        ItemOk xs ix \<Rightarrow> pg
      | ItemError m ix \<Rightarrow>
          pg\<lparr>pg_any_error := True,
             pg_first_error := (if pg_first_error pg = [] then m else pg_first_error pg)\<rparr>)"

definition failed :: "item_result \<Rightarrow> bool" where
  "failed r = (case r of ItemOk xs ix \<Rightarrow> False | ItemError m ix \<Rightarrow> True)"

definition run_item ::
  "'w environment \<Rightarrow> suite_execution_input \<Rightarrow> string \<Rightarrow> string \<times> suite_item_row \<Rightarrow> hval \<Rightarrow> progress \<Rightarrow>
     ('w runner, bool \<times> progress) eff" where
  "run_item en xi run item local_vars pg =
     ebind (execute_item en xi run item (pg_position pg + 1) local_vars) (\<lambda>r.
     ereturn (failed r, absorb r (pg\<lparr>pg_position := pg_position pg + 1\<rparr>)))"

definition run_hook ::
  "'w environment \<Rightarrow> suite_execution_input \<Rightarrow> string \<Rightarrow> (string \<times> suite_item_row) option \<Rightarrow> hval \<Rightarrow> progress \<Rightarrow>
     ('w runner, bool \<times> progress) eff" where
  "run_hook en xi run hook local_vars pg =
     (case hook of None \<Rightarrow> ereturn (False, pg) | Some item \<Rightarrow> run_item en xi run item local_vars pg)"

definition publish_progress ::
  "'w environment \<Rightarrow> suite_execution_input \<Rightarrow> string \<Rightarrow> int \<Rightarrow> nat \<Rightarrow> ('w runner, unit) eff" where
  "publish_progress en xi run executed n_tests =
     publish_for en xi ''suite_progress''
       [(''test_suite_execution_id'', PStr run), (''executed_tests'', PInt executed),
        (''total_tests'', PInt (int n_tests))]"

definition run_test ::
  "'w environment \<Rightarrow> suite_execution_input \<Rightarrow> string \<Rightarrow> nat \<Rightarrow> (string \<Rightarrow> (string \<times> suite_item_row) option) \<Rightarrow>
     string \<times> suite_item_row \<Rightarrow> progress \<Rightarrow> ('w runner, bool \<times> progress) eff" where
  "run_test en xi run n_tests hooks item pg =
     ebind (on_machine (new_object (HDict []))) (\<lambda>local_context.
     ebind (run_hook en xi run (hooks ''before-each'') local_context pg) (\<lambda>(f1, pg1).
     ebind (run_item en xi run item local_context pg1) (\<lambda>(f2, pg2).
     ebind (publish_progress en xi run (pg_executed pg2 + 1) n_tests) (\<lambda>_.
     ebind (run_hook en xi run (hooks ''after-each'') local_context
              (pg2\<lparr>pg_executed := pg_executed pg2 + 1\<rparr>)) (\<lambda>(f3, pg3).
     ebind (on_machine (emodify (\<lambda>s. s\<lparr>mc_session := reset_local_context (mc_session s)\<rparr>))) (\<lambda>_.
     ereturn (f1 \<or> f2 \<or> f3, pg3)))))))"

fun run_tests ::
  "'w environment \<Rightarrow> suite_execution_input \<Rightarrow> string \<Rightarrow> nat \<Rightarrow> (string \<Rightarrow> (string \<times> suite_item_row) option) \<Rightarrow>
     (string \<times> suite_item_row) list \<Rightarrow> progress \<Rightarrow> ('w runner, progress) eff" where
  "run_tests en xi run n_tests hooks [] pg = ereturn pg"
| "run_tests en xi run n_tests hooks (item # items) pg =
     ebind (run_test en xi run n_tests hooks item pg) (\<lambda>(test_failed, pg1).
     if test_failed \<and> upper (sr_on_failure (snd item)) = ''ABORT'' then ereturn pg1
     else run_tests en xi run n_tests hooks items pg1)"

subsection \<open>The suite\<close>

definition get_all_tests_by_suite_id :: "string \<Rightarrow> suite_item_row table \<Rightarrow> (string \<times> suite_item_row) list" where
  "get_all_tests_by_suite_id sid t =
     filter (\<lambda>(i, r). sr_kind r = ''test'') (get_all_by_suite_id sid t)"

definition get_hook_by_phase ::
  "string \<Rightarrow> string \<Rightarrow> suite_item_row table \<Rightarrow> (string \<times> suite_item_row) option result" where
  "get_hook_by_phase sid phase t =
     (case rows_where (\<lambda>r. sr_test_suite_id r = sid \<and> sr_kind r = ''hook'' \<and>
                       sr_hook_phase r = Some (strip phase)) t of
        [] \<Rightarrow> Inr None
      | [x] \<Rightarrow> Inr (Some x)
      | _ \<Rightarrow> Inl (IntegrityError ''Multiple rows were found when one or none was required''))"

definition resolve_tests_to_execute ::
  "(string \<times> suite_item_row) list \<Rightarrow> string option \<Rightarrow> (string \<times> suite_item_row) list result" where
  "resolve_tests_to_execute tests target =
     (if target \<in> {None, Some []} then Inr tests
      else case List.find (\<lambda>test. Some (fst test) = target) tests of
             None \<Rightarrow> Inl (AppError (''Test with id '' @ quoted (the target) @
                            '' not found in test suite''))
           | Some test \<Rightarrow> Inr [test])"

fun get_hooks ::
  "string list \<Rightarrow> string \<Rightarrow> suite_item_row table \<Rightarrow> (string \<times> (string \<times> suite_item_row) option) list result" where
  "get_hooks [] sid t = Inr []"
| "get_hooks (phase # phases) sid t =
     rbind (get_hook_by_phase sid phase t) (\<lambda>hook.
     rbind (get_hooks phases sid t) (\<lambda>rest. Inr ((phase, hook) # rest)))"

definition dict_or :: "pyval \<Rightarrow> pyval" where
  "dict_or v = (case v of PDict d \<Rightarrow> v | _ \<Rightarrow> PDict [])"

definition new_suite_run :: "suite_execution_input \<Rightarrow> suite_run_row" where
  "new_suite_run xi =
     \<lparr>tr_test_suite_id = xi_test_suite_id xi,
      tr_test_suite_description = xi_test_suite_description xi, tr_status = ''running'',
      tr_invocation_id = nonempty (strip (opt_token (xi_invocation_id xi))),
      tr_vars_init_json = dict_or (xi_vars_init xi), tr_result_json = PNone,
      tr_requested_test_id = nonempty (strip (opt_token (xi_target_suite_item_id xi))),
      tr_error_message = None, tr_finished_at = None\<rparr>"

definition insert_suite_run ::
  "'w environment \<Rightarrow> suite_execution_input \<Rightarrow> ('w runner, string) eff" where
  "insert_suite_run en xi =
     ebind (on_machine next_tick) (\<lambda>n s.
       case insert_row (en_uid en n) (new_suite_run xi) (rn_suite_runs s) of
         Inl e \<Rightarrow> (Inl e, s)
       | Inr t \<Rightarrow> (Inr (en_uid en n), s\<lparr>rn_suite_runs := t\<rparr>))"

text \<open>The JSON column that receives \<open>serialize_run_context(run_context)\<close>.\<close>

definition stored_context :: "run_context \<Rightarrow> heap \<Rightarrow> pyval result" where
  "stored_context c h = (case serialize_run_context c h of (v, h1) \<Rightarrow> json_value h1 v)"

definition finish_suite_row ::
  "string \<Rightarrow> string option \<Rightarrow> string \<Rightarrow> pyval \<Rightarrow> suite_run_row \<Rightarrow> suite_run_row" where
  "finish_suite_row status err at_time result_json row =
     row\<lparr>tr_status := status,
         tr_error_message := (case err of None \<Rightarrow> tr_error_message row | Some m \<Rightarrow> Some m),
         tr_finished_at := Some at_time, tr_result_json := result_json\<rparr>"

definition final_status :: "progress \<Rightarrow> string" where
  "final_status pg = (if pg_any_error pg then ''error'' else ''success'')"

definition write_suite_log ::
  "'w environment \<Rightarrow> string \<Rightarrow> string \<Rightarrow> string \<Rightarrow> pyval \<Rightarrow> ('w machine, unit) eff" where
  "write_suite_log en subject message level payload =
     ebind next_tick (\<lambda>k. emodify (\<lambda>s. s\<lparr>
       mc_logs := mc_logs s @ [\<lparr>lr_subject_type = ''SUITE_EXECUTION'', lr_subject = subject,
                                lr_level = level, lr_message = message, lr_payload = payload\<rparr>],
       mc_bus := publish_runtime_log_event (en_stamp en k) (mc_vars s) ''SUITE_EXECUTION''
                   subject level message payload (mc_bus s)\<rparr>))"

definition context_of :: "'w runner \<Rightarrow> run_context option" where
  "context_of s = s_ctx (mc_session (rn_machine s))"

definition finish_suite_run ::
  "'w environment \<Rightarrow> suite_execution_input \<Rightarrow> string \<Rightarrow> progress \<Rightarrow> ('w runner, unit) eff" where
  "finish_suite_run en xi run pg =
     ebind (eget (\<lambda>s. case context_of s of None \<Rightarrow> Inr PNone
                      | Some c \<Rightarrow> stored_context c (s_heap (mc_session (rn_machine s))))) (\<lambda>j.
     ebind (elift j) (\<lambda>result_json.
     ebind (on_machine next_tick) (\<lambda>n.
     ebind (emodify (\<lambda>s. s\<lparr>rn_suite_runs :=
              update_row run (finish_suite_row (final_status pg) (nonempty (pg_first_error pg))
                                (en_stamp en n) result_json) (rn_suite_runs s)\<rparr>)) (\<lambda>_.
     ebind (publish_for en xi ''suite_finished''
              [(''test_suite_execution_id'', PStr run), (''status'', PStr (final_status pg)),
               (''error'', or_null (pg_first_error pg))]) (\<lambda>_.
     on_machine (write_suite_log en (xi_test_suite_id xi)
       (''Finished execution of suite '' @ quoted (if xi_test_suite_description xi = []
          then xi_test_suite_id xi else xi_test_suite_description xi))
       (if pg_any_error pg then ''ERROR'' else ''INFO'')
       (PDict [(''status'', PStr (final_status pg))])))))))"

text \<open>The body of the two \<open>with\<close> blocks: hooks and tests in their order.\<close>

definition run_items ::
  "'w environment \<Rightarrow> suite_execution_input \<Rightarrow> string \<Rightarrow> (string \<Rightarrow> (string \<times> suite_item_row) option) \<Rightarrow>
     (string \<times> suite_item_row) list \<Rightarrow> ('w runner, progress) eff" where
  "run_items en xi run hooks tests =
     ebind (on_machine (new_object (HDict []))) (\<lambda>vars1.
     ebind (run_hook en xi run (hooks ''before-all'') vars1
              \<lparr>pg_position = 0, pg_executed = 0, pg_any_error = False, pg_first_error = []\<rparr>) (\<lambda>(f, pg1).
     ebind (if pg_any_error pg1 then ereturn pg1
            else run_tests en xi run (length tests) hooks tests pg1) (\<lambda>pg2.
     ebind (on_machine (new_object (HDict []))) (\<lambda>vars2.
     ebind (run_hook en xi run (hooks ''after-all'') vars2 pg2) (\<lambda>(f', pg3).
     ereturn pg3)))))"

definition run_suite_body ::
  "'w environment \<Rightarrow> suite_execution_input \<Rightarrow> string \<Rightarrow> (string \<Rightarrow> (string \<times> suite_item_row) option) \<Rightarrow>
     (string \<times> suite_item_row) list \<Rightarrow> ('w runner, unit) eff" where
  "run_suite_body en xi run hooks tests =
     ebind (publish_for en xi ''suite_started''
              [(''test_suite_execution_id'', PStr run), (''test_suite_id'', PStr (xi_test_suite_id xi)),
               (''test_suite_description'', PStr (xi_test_suite_description xi)),
               (''target_test_id'', opt_json (xi_target_suite_item_id xi)),
               (''include_previous'', PBool False)]) (\<lambda>_.
     ebind (publish_progress en xi run 0 (length tests)) (\<lambda>_.
     ebind (run_items en xi run hooks tests) (finish_suite_run en xi run)))"

definition in_run ::
  "run_context \<Rightarrow> runtime_vars \<Rightarrow> ('w runner, 'a) eff \<Rightarrow> ('w runner, 'a) eff" where
  "in_run c named body = (\<lambda>s.
     let m = rn_machine s in
     case body (s\<lparr>rn_machine := m\<lparr>mc_session := (mc_session m)\<lparr>s_ctx := Some c\<rparr>,
                                 mc_vars := enter_vars named (mc_vars m)\<rparr>\<rparr>) of
       (r, t) \<Rightarrow>
         (let n = rn_machine t in
          (r, t\<lparr>rn_machine := n\<lparr>mc_session := (mc_session n)\<lparr>s_ctx := s_ctx (mc_session m)\<rparr>,
                                mc_vars := reset_vars named (mc_vars m) (mc_vars n)\<rparr>\<rparr>)))"

definition make_run_context ::
  "string \<Rightarrow> suite_execution_input \<Rightarrow> ('w machine, run_context) eff" where
  "make_run_context run xi =
     ebind (new_value (dict_or (xi_event xi))) (\<lambda>ev.
     ebind (new_value (dict_or (xi_vars_init xi))) (\<lambda>vs.
     on_session (on_heap (\<lambda>h. case create_run_context run ev vs
         (nonempty (strip (opt_token (xi_invocation_id xi)))) h of (c, h1) \<Rightarrow> (Inr c, h1)))))"

text \<open>
  \<open>managed_session\<close>: the tables written through the session are restored when the block raises;
  the event bus, the log (which has a session of its own) and the world are not.
\<close>

definition rollback :: "'w runner \<Rightarrow> 'w runner \<Rightarrow> 'w runner" where
  "rollback s t =
     (let m = rn_machine s in
      t\<lparr>rn_suites := rn_suites s, rn_suite_runs := rn_suite_runs s, rn_item_execs := rn_item_execs s,
        rn_machine := (rn_machine t)\<lparr>mc_db := mc_db m, mc_payloads := mc_payloads m,
          mc_queues := mc_queues m, mc_datasets := mc_datasets m,
          mc_test_runs := mc_test_runs m, mc_item_runs := mc_item_runs m\<rparr>\<rparr>)"

definition transaction :: "('w runner, 'a) eff \<Rightarrow> ('w runner, 'a) eff" where
  "transaction body = (\<lambda>s.
     case body s of (Inr x, t) \<Rightarrow> (Inr x, t) | (Inl e, t) \<Rightarrow> (Inl e, rollback s t))"

definition hook_phase_values :: "string list" where
  "hook_phase_values = [''before-all'', ''before-each'', ''after-each'', ''after-all'']"

definition execute_run ::
  "'w environment \<Rightarrow> suite_execution_input \<Rightarrow> ('w runner, unit) eff" where
  "execute_run en xi =
     ebind (insert_suite_run en xi) (\<lambda>run.
     ebind (on_machine (make_run_context run xi)) (\<lambda>c.
     ebind (eget (\<lambda>s. cd_items (mc_db (rn_machine s)))) (\<lambda>items.
     ebind (elift (get_hooks hook_phase_values (xi_test_suite_id xi) items)) (\<lambda>hooks.
     ebind (elift (resolve_tests_to_execute (get_all_tests_by_suite_id (xi_test_suite_id xi) items)
              (xi_target_suite_item_id xi))) (\<lambda>tests.
     in_run c (no_vars\<lparr>rv_execution_id := Some (xi_execution_id xi),
                       rv_test_suite_id := Some (xi_test_suite_id xi),
                       rv_test_suite_execution_id := Some run\<rparr>)
       (run_suite_body en xi run (\<lambda>phase. Option.bind (map_of hooks phase) id) tests))))))"

definition suite_missing :: "string \<Rightarrow> exc" where
  "suite_missing sid = AppError (''No test suite found with id [ '' @ sid @ '' ]'')"

definition execute_suite ::
  "'w environment \<Rightarrow> suite_execution_input \<Rightarrow> ('w runner, unit) eff" where
  "execute_suite en xi =
     transaction (ebind (eget (\<lambda>s. get_by_id (xi_test_suite_id xi) (rn_suites s))) (\<lambda>suite.
       case suite of None \<Rightarrow> eraise (suite_missing (xi_test_suite_id xi))
       | Some r \<Rightarrow> execute_run en xi))"

text \<open>The thread: its execution id is generated when it is made, the description when it runs.\<close>

record suite_thread =
  th_execution_id :: string
  th_test_suite_id :: string
  th_run_event :: pyval
  th_vars_init :: pyval
  th_invocation_id :: "string option"
  th_target_suite_item_id :: "string option"

definition new_suite_thread ::
  "string \<Rightarrow> string option \<Rightarrow> pyval \<Rightarrow> pyval \<Rightarrow> string option \<Rightarrow> string option \<Rightarrow> suite_thread" where
  "new_suite_thread uid sid event vars_init invocation target =
     \<lparr>th_execution_id = uid, th_test_suite_id = opt_token sid, th_run_event = event,
      th_vars_init = vars_init, th_invocation_id = invocation, th_target_suite_item_id = target\<rparr>"

definition run_thread :: "'w environment \<Rightarrow> suite_thread \<Rightarrow> ('w runner, unit) eff" where
  "run_thread en th =
     ebind (eget (\<lambda>s. get_by_id (th_test_suite_id th) (rn_suites s))) (\<lambda>suite.
     case suite of
       None \<Rightarrow> eraise (suite_missing (th_test_suite_id th))
     | Some r \<Rightarrow> execute_suite en
         \<lparr>xi_execution_id = th_execution_id th, xi_test_suite_id = th_test_suite_id th,
          xi_test_suite_description = su_description r, xi_event = th_run_event th,
          xi_vars_init = th_vars_init th, xi_invocation_id = th_invocation_id th,
          xi_target_suite_item_id = th_target_suite_item_id th\<rparr>)"

end
