(* ===== verification/Suite_Facts.thy ===== *)
theory Suite_Facts
  imports Suite_Runner Executor_Facts
begin

section \<open>Correctness of a suite run\<close>

text \<open>
  What the hooks and tests of a run leave in the tables, against an abstract specification: the
  traces of a suite, sequences of items with their outcomes, defined by the order of hooks and
  tests and the failure policy alone. A failing item never escapes the run.
\<close>

subsection \<open>The traces of a suite\<close>

type_synonym suite_item = "string \<times> suite_item_row"

type_synonym trace = "(suite_item \<times> string option) list"

definition failing :: "trace \<Rightarrow> bool" where
  "failing tr \<longleftrightarrow> list_ex (\<lambda>(i, out). out \<noteq> None) tr"

fun first_message :: "trace \<Rightarrow> string" where
  "first_message [] = []"
| "first_message ((i, out) # tr) = (if out \<in> {None, Some []} then first_message tr else the out)"

inductive hook_trace :: "suite_item option \<Rightarrow> trace \<Rightarrow> bool" where
  absent: "hook_trace None []"
| ran: "hook_trace (Some i) [(i, out)]"

definition aborts :: "suite_item \<Rightarrow> trace \<Rightarrow> bool" where
  "aborts item tr \<longleftrightarrow> failing tr \<and> upper (sr_on_failure (snd item)) = ''ABORT''"

inductive test_trace :: "(string \<Rightarrow> suite_item option) \<Rightarrow> suite_item \<Rightarrow> trace \<Rightarrow> bool" for hooks where
  group: "hook_trace (hooks ''before-each'') b \<Longrightarrow> hook_trace (hooks ''after-each'') a \<Longrightarrow>
    test_trace hooks item (b @ (item, out) # a)"

inductive tests_trace :: "(string \<Rightarrow> suite_item option) \<Rightarrow> suite_item list \<Rightarrow> trace \<Rightarrow> bool" for hooks where
  stop: "tests_trace hooks [] []"
| abort: "test_trace hooks item tr \<Longrightarrow> aborts item tr \<Longrightarrow> tests_trace hooks (item # items) tr"
| go_on: "test_trace hooks item tr \<Longrightarrow> \<not> aborts item tr \<Longrightarrow> tests_trace hooks items tr' \<Longrightarrow>
    tests_trace hooks (item # items) (tr @ tr')"

inductive suite_trace :: "(string \<Rightarrow> suite_item option) \<Rightarrow> suite_item list \<Rightarrow> trace \<Rightarrow> bool" for hooks where
  setup_failed: "hook_trace (hooks ''before-all'') b \<Longrightarrow> failing b \<Longrightarrow>
    hook_trace (hooks ''after-all'') a \<Longrightarrow> suite_trace hooks tests (b @ a)"
| setup_done: "hook_trace (hooks ''before-all'') b \<Longrightarrow> \<not> failing b \<Longrightarrow> tests_trace hooks tests tr \<Longrightarrow>
    hook_trace (hooks ''after-all'') a \<Longrightarrow> suite_trace hooks tests (b @ tr @ a)"

inductive_simps hook_trace_simps [simp]: "hook_trace None tr" "hook_trace (Some i) tr"
inductive_simps tests_trace_Nil [simp]: "tests_trace hooks [] tr"
inductive_cases tests_trace_ConsE: "tests_trace hooks (item # items) tr"

lemma failing_simps [simp]: "\<not> failing []" "failing ((i, out) # tr) = (out \<noteq> None \<or> failing tr)"
    "failing (tr @ tr') = (failing tr \<or> failing tr')"
  by (auto simp: failing_def)

lemma first_message_append:
  "first_message (tr @ tr') = (if first_message tr = [] then first_message tr' else first_message tr)"
  by (induction tr rule: first_message.induct) auto

subsection \<open>What rows say about a trace\<close>

definition item_row :: "string \<Rightarrow> int \<Rightarrow> suite_item \<times> string option \<Rightarrow> item_run_row \<Rightarrow> bool" where
  "item_row run k x row \<longleftrightarrow>
     ie_test_suite_execution_id row = run \<and> ie_suite_item_id row = fst (fst x) \<and> ie_position row = k \<and>
     ie_item_kind row = sr_kind (snd (fst x)) \<and> ie_error_message row = snd x \<and>
     ie_status row = (if snd x = None then ''success'' else ''error'') \<and> ie_finished_at row \<noteq> None"

fun item_rows :: "string \<Rightarrow> int \<Rightarrow> trace \<Rightarrow> item_run_row list \<Rightarrow> bool" where
  "item_rows run k [] [] = True"
| "item_rows run k (x # tr) (row # rows) = (item_row run k x row \<and> item_rows run (k + 1) tr rows)"
| "item_rows run k tr rows = False"

lemma item_rows_length: "item_rows run k tr rows \<Longrightarrow> length rows = length tr"
  by (induction run k tr rows rule: item_rows.induct) auto

lemma item_rows_append:
  "item_rows run k tr rows \<Longrightarrow> item_rows run (k + int (length tr)) tr' rows' \<Longrightarrow>
   item_rows run k (tr @ tr') (rows @ rows')"
  by (induction run k tr rows rule: item_rows.induct) (auto simp: algebra_simps)

subsection \<open>Clocks\<close>

definition ticks_up :: "'w machine \<Rightarrow> 'w machine \<Rightarrow> bool" where
  "ticks_up s t \<longleftrightarrow> mc_ticks s \<le> mc_ticks t"

interpretation ticks: run_frame ticks_up "\<lambda>_. True"
  by unfold_locales (auto simp: ticks_up_def on_session_def split_def)

lemma ticks_with_vars:
  assumes "ticks.preserves body"
  shows "ticks.preserves (with_vars named body)"
  unfolding ticks.preserves_def
proof
  fix s
  have "ticks_up (s\<lparr>mc_vars := x\<rparr>) (snd (body (s\<lparr>mc_vars := x\<rparr>)))" for x
    using assms by (simp add: ticks.preserves_def)
  then show "ticks_up s (snd (with_vars named body s))"
    by (simp add: with_vars_def ticks_up_def split_def)
qed

lemma ticks_with_suite_item:
  assumes "ticks.preserves body"
  shows "ticks.preserves (with_suite_item kind phase vars body)"
  unfolding ticks.preserves_def
proof
  fix s
  have *: "ticks_up (s\<lparr>mc_session := x\<rparr>) (snd (body (s\<lparr>mc_session := x\<rparr>)))" for x
    using assms by (simp add: ticks.preserves_def)
  have "ticks_up s (snd (body s))" using assms by (simp add: ticks.preserves_def)
  then show "ticks_up s (snd (with_suite_item kind phase vars body s))"
    using * unfolding with_suite_item_def ticks_up_def
    by (auto simp: split_def split: option.splits)
qed

lemma ticks_suite_item: "ticks.preserves (execute_suite_item en item)"
proof -
  have "ticks.preserves (execute_operations en ops data scope)" for ops data scope
    unfolding ticks.preserves_def
    by (metis (no_types) ticks.preserves_execute ticks.writes_allowed_def prod.collapse)
  then show ?thesis
    unfolding execute_suite_item_def
    by (intro frame_intros ticks_with_vars ticks.preserves_emodify) (simp_all add: ticks_up_def)
qed

subsection \<open>One item\<close>

definition fresh_runs :: "'w environment \<Rightarrow> 'w runner \<Rightarrow> bool" where
  "fresh_runs en s \<longleftrightarrow> inj (en_uid en) \<and>
     (\<forall>n \<ge> mc_ticks (rn_machine s). en_uid en n \<notin> fst ` set (rn_item_execs s) \<and>
        en_uid en n \<notin> fst ` set (rn_suite_runs s))"

text \<open>A step that appends the given rows and takes their ids from the clock.\<close>

definition adds_rows :: "'w environment \<Rightarrow> 'w runner \<Rightarrow> 'w runner \<Rightarrow> (string \<times> item_run_row) list \<Rightarrow> bool" where
  "adds_rows en s t rows \<longleftrightarrow>
     rn_item_execs t = rn_item_execs s @ rows \<and> rn_suite_runs t = rn_suite_runs s \<and>
     rn_suites t = rn_suites s \<and> mc_ticks (rn_machine s) \<le> mc_ticks (rn_machine t) \<and>
     fst ` set rows \<subseteq> en_uid en ` {mc_ticks (rn_machine s)..<mc_ticks (rn_machine t)}"

lemma adds_rows_append:
  assumes "adds_rows en s t rows" and "adds_rows en t u rows'"
  shows "adds_rows en s u (rows @ rows')"
proof -
  let ?k = "\<lambda>s. mc_ticks (rn_machine s)"
  have "{?k s..<?k t} \<subseteq> {?k s..<?k u}" "{?k t..<?k u} \<subseteq> {?k s..<?k u}"
    using assms by (auto simp: adds_rows_def)
  then have "fst ` set (rows @ rows') \<subseteq> en_uid en ` {?k s..<?k u}"
    using assms unfolding adds_rows_def set_append image_Un by blast
  then show ?thesis using assms by (simp add: adds_rows_def)
qed

lemma adds_rows_fresh:
  assumes "fresh_runs en s" and "adds_rows en s t rows"
  shows "fresh_runs en t"
proof -
  have "en_uid en n \<notin> fst ` set rows" if "mc_ticks (rn_machine t) \<le> n" for n
    using assms that unfolding fresh_runs_def adds_rows_def
    by (auto dest!: subsetD dest: injD)
  moreover have "mc_ticks (rn_machine s) \<le> n" if "mc_ticks (rn_machine t) \<le> n" for n
    using assms(2) that by (simp add: adds_rows_def)
  ultimately show ?thesis
    using assms by (simp add: fresh_runs_def adds_rows_def image_Un)
qed

lemma on_machine_adds:
  assumes "ticks.preserves m" and "on_machine m s = (r, t)"
  shows "adds_rows en s t []"
proof -
  have "t = s\<lparr>rn_machine := snd (m (rn_machine s))\<rparr>"
    using assms(2) by (auto simp: on_machine_def split: prod.splits)
  then show ?thesis
    using assms(1) by (simp add: adds_rows_def ticks.preserves_def ticks_up_def)
qed

lemma publish_for_Inr: "\<exists>t. publish_for en xi name p s = (Inr (), t) \<and> adds_rows en s t []"
  by (auto simp: publish_for_def publish_event_def on_machine_def ebind_def adds_rows_def)

lemma finish_item_eq:
  "\<exists>t. finish_item en ix st err s = (Inr (), t) \<and> mc_ticks (rn_machine s) \<le> mc_ticks (rn_machine t) \<and>
     rn_suite_runs t = rn_suite_runs s \<and> rn_suites t = rn_suites s \<and>
     rn_item_execs t = update_row ix (finish_item_row st err
       (en_stamp en (mc_ticks (rn_machine s)))) (rn_item_execs s)"
  by (simp add: finish_item_def ebind_def on_machine_def)

text \<open>The outcome of an item, and the end of its block: one closed row.\<close>

fun outcome :: "item_result \<Rightarrow> string option" where
  "outcome (ItemOk xs ix) = None"
| "outcome (ItemError m ix) = Some m"

lemma fail_item_row:
  assumes "rn_item_execs s = old @ [(ix, row)]" and "ix \<notin> fst ` set old"
  shows "\<exists>t w. fail_item en xi run ix item e s = (Inr (ItemError (exc_message e) ix), t) \<and>
    mc_ticks (rn_machine s) \<le> mc_ticks (rn_machine t) \<and> rn_suite_runs t = rn_suite_runs s \<and>
    rn_suites t = rn_suites s \<and>
    rn_item_execs t = old @ [(ix, finish_item_row ''error'' (Some (exc_message e)) w row)]"
proof -
  obtain s1 where 1: "finish_item en ix ''error'' (Some (exc_message e)) s = (Inr (), s1)"
      "mc_ticks (rn_machine s) \<le> mc_ticks (rn_machine s1)" "rn_suite_runs s1 = rn_suite_runs s"
      "rn_suites s1 = rn_suites s" "rn_item_execs s1 = update_row ix (finish_item_row ''error''
       (Some (exc_message e)) (en_stamp en (mc_ticks (rn_machine s)))) (rn_item_execs s)"
    using finish_item_eq by meson
  obtain t where 2: "publish_for en xi (event_prefix item @ ''_finished'') (item_event run ix item
      [(''status'', PStr ''error''), (''error'', PStr (exc_message e))]) s1 = (Inr (), t)"
      "adds_rows en s1 t []"
    using publish_for_Inr by meson
  show ?thesis
    using 1 2 update_row_last [OF assms(2)] assms(1)
    by (auto simp: fail_item_def ebind_def adds_rows_def)
qed

lemma succeed_item_row:
  assumes "rn_item_execs s = old @ [(ix, row)]" and "ix \<notin> fst ` set old"
    and "succeed_item en xi run ix item xs s = (res, t)"
  shows "(\<exists>e. res = Inl e \<or> res = Inr (ItemOk xs ix)) \<and>
    mc_ticks (rn_machine s) \<le> mc_ticks (rn_machine t) \<and> rn_suite_runs t = rn_suite_runs s \<and>
    rn_suites t = rn_suites s \<and>
    (\<exists>w. rn_item_execs t = old @ [(ix, finish_item_row ''success'' None w row)])"
proof -
  obtain s1 where 1: "finish_item en ix ''success'' None s = (Inr (), s1)"
      "mc_ticks (rn_machine s) \<le> mc_ticks (rn_machine s1)" "rn_suite_runs s1 = rn_suite_runs s"
      "rn_suites s1 = rn_suites s" "rn_item_execs s1 = update_row ix (finish_item_row ''success''
       None (en_stamp en (mc_ticks (rn_machine s)))) (rn_item_execs s)"
    using finish_item_eq by meson
  have "(\<exists>e. res = Inl e \<or> res = Inr (ItemOk xs ix)) \<and> adds_rows en s1 t []"
  proof (cases "map_result (json_value (s_heap (mc_session (rn_machine s1)))) xs")
    case (Inl e)
    then have "res = Inl e" "t = s1" using assms(3) 1(1) by (simp_all add: succeed_item_def ebind_def)
    then show ?thesis by (simp add: adds_rows_def)
  next
    case (Inr ys)
    obtain u where "publish_for en xi (event_prefix item @ ''_finished'') (item_event run ix item
        [(''status'', PStr ''success''), (''result'', PList ys)]) s1 = (Inr (), u)" "adds_rows en s1 u []"
      using publish_for_Inr by meson
    then show ?thesis using assms(3) 1(1) Inr by (simp add: succeed_item_def ebind_def)
  qed
  then show ?thesis
    using 1 update_row_last [OF assms(2)] assms(1) by (auto simp: adds_rows_def)
qed

lemma ticks_item_body:
  "ticks.preserves (with_vars named (with_suite_item kind phase vars (execute_suite_item en item)))"
  by (intro ticks_with_vars ticks_with_suite_item ticks_suite_item)

lemma create_item_eq:
  assumes "fresh_runs en s"
  shows "\<exists>row t. create_item_execution en run item k s = (Inr (en_uid en (mc_ticks (rn_machine s))), t) \<and>
    adds_rows en s t [(en_uid en (mc_ticks (rn_machine s)), row)] \<and>
    ie_test_suite_execution_id row = run \<and> ie_suite_item_id row = fst item \<and> ie_position row = k \<and>
    ie_item_kind row = sr_kind (snd item) \<and> ie_error_message row = None"
proof -
  have "map_of (rn_item_execs s) (en_uid en (mc_ticks (rn_machine s))) = None"
    using assms by (simp add: fresh_runs_def map_of_eq_None_iff)
  then show ?thesis
    by (auto simp: create_item_execution_def ebind_def on_machine_def Let_def insert_row_def
        get_by_id_def adds_rows_def)
qed

lemma execute_item_row:
  assumes "fresh_runs en s" and run: "execute_item en xi run item k vars s = (res, t)"
  shows "\<exists>r id row. res = Inr r \<and> adds_rows en s t [(id, row)] \<and>
    item_row run k (item, outcome r) row"
proof -
  let ?ix = "en_uid en (mc_ticks (rn_machine s))"
  obtain row s1 where 1: "create_item_execution en run item k s = (Inr ?ix, s1)"
      "adds_rows en s s1 [(?ix, row)]" and row: "ie_test_suite_execution_id row = run"
      "ie_suite_item_id row = fst item" "ie_position row = k" "ie_item_kind row = sr_kind (snd item)"
      "ie_error_message row = None"
    using create_item_eq [OF assms(1)] by meson
  obtain s2 where 2: "publish_for en xi (event_prefix item @ ''_started'')
      (item_event run ?ix item [(''position'', PInt k)]) s1 = (Inr (), s2)" "adds_rows en s1 s2 []"
    using publish_for_Inr by meson
  let ?body = "with_vars (no_vars\<lparr>rv_suite_item_id := Some (fst item), rv_suite_item_execution_id := Some ?ix\<rparr>)
    (with_suite_item (sr_kind (snd item)) (nonempty (opt_token (sr_hook_phase (snd item)))) (Some vars)
      (execute_suite_item en item))"
  obtain x s3 where 3: "on_machine ?body s2 = (x, s3)" by fastforce
  then have "adds_rows en s2 s3 []" by (rule on_machine_adds [OF ticks_item_body])
  then have s3: "adds_rows en s s3 [(?ix, row)]"
    using adds_rows_append [OF adds_rows_append [OF 1(2) 2(2)]] by simp
  have new: "?ix \<notin> fst ` set (rn_item_execs s)" using assms(1) by (simp add: fresh_runs_def)
  have old: "rn_item_execs s3 = rn_item_execs s @ [(?ix, row)]" using s3 by (simp add: adds_rows_def)
  have closed: "adds_rows en s u [(?ix, r)]" if "mc_ticks (rn_machine s3) \<le> mc_ticks (rn_machine u)"
    "rn_suite_runs u = rn_suite_runs s3" "rn_suites u = rn_suites s3"
    "rn_item_execs u = rn_item_execs s @ [(?ix, r)]" for u r
    using that s3 by (auto simp: adds_rows_def)
  have result: ?thesis if "res = Inr r" "adds_rows en s t [(?ix, row')]" "item_row run k (item, outcome r) row'" for r row'
    using that by blast
  have fails: ?thesis if u: "fail_item en xi run ?ix item e u = (res, t)"
      "rn_item_execs u = rn_item_execs s @ [(?ix, r)]" "mc_ticks (rn_machine s3) \<le> mc_ticks (rn_machine u)"
      "rn_suite_runs u = rn_suite_runs s3" "rn_suites u = rn_suites s3"
      and r: "ie_test_suite_execution_id r = run" "ie_suite_item_id r = fst item" "ie_position r = k"
      "ie_item_kind r = sr_kind (snd item)" for e u r
  proof -
    from fail_item_row [OF u(2) new, of en xi run item e] obtain v w where
        v: "fail_item en xi run ?ix item e u = (Inr (ItemError (exc_message e) ?ix), v)"
        "mc_ticks (rn_machine u) \<le> mc_ticks (rn_machine v)" "rn_suite_runs v = rn_suite_runs u"
        "rn_suites v = rn_suites u"
        "rn_item_execs v = rn_item_execs s @ [(?ix, finish_item_row ''error'' (Some (exc_message e)) w r)]"
      by blast
    have fin: "res = Inr (ItemError (exc_message e) ?ix)" "v = t" using u(1) v(1) by simp_all
    have "adds_rows en s v [(?ix, finish_item_row ''error'' (Some (exc_message e)) w r)]"
      using u v by (intro closed) simp_all
    from result [OF fin(1) this [unfolded fin(2)]] show ?thesis
      using r by (simp add: item_row_def finish_item_row_def)
  qed
  show ?thesis
  proof (cases x)
    case (Inl e)
    then have "fail_item en xi run ?ix item e s3 = (res, t)"
      using run 1(1) 2(1) 3 by (simp add: execute_item_def ebind_def etry_def)
    then show ?thesis by (rule fails [OF _ old]) (simp_all add: row)
  next
    case (Inr xs)
    obtain y s4 where 4: "succeed_item en xi run ?ix item xs s3 = (y, s4)" by fastforce
    obtain w where s4: "\<exists>e. y = Inl e \<or> y = Inr (ItemOk xs ?ix)"
        "mc_ticks (rn_machine s3) \<le> mc_ticks (rn_machine s4)" "rn_suite_runs s4 = rn_suite_runs s3"
        "rn_suites s4 = rn_suites s3"
        "rn_item_execs s4 = rn_item_execs s @ [(?ix, finish_item_row ''success'' None w row)]"
      using succeed_item_row [OF old new 4] by blast
    show ?thesis
    proof (cases y)
      case (Inl e)
      then have "fail_item en xi run ?ix item e s4 = (res, t)"
        using run 1(1) 2(1) 3 4 Inr by (simp add: execute_item_def ebind_def etry_def)
      then show ?thesis by (rule fails [OF _ s4(5)]) (simp_all add: s4(2-4) finish_item_row_def row)
    next
      case y: (Inr r)
      then have "res = Inr (ItemOk xs ?ix)" and t: "s4 = t"
        using run 1(1) 2(1) 3 4 Inr s4(1) by (auto simp: execute_item_def ebind_def etry_def)
      from result [OF this(1) closed [OF s4(2-5), unfolded t]] show ?thesis
        using row by (simp add: item_row_def finish_item_row_def)
    qed
  qed
qed

subsection \<open>Hooks and tests\<close>

definition runs_trace ::
  "'w environment \<Rightarrow> string \<Rightarrow> 'w runner \<Rightarrow> progress \<Rightarrow> trace \<Rightarrow> 'w runner \<Rightarrow> progress \<Rightarrow> bool" where
  "runs_trace en run s pg tr t pg' \<longleftrightarrow>
     (\<exists>rows. adds_rows en s t rows \<and> item_rows run (pg_position pg + 1) tr (map snd rows)) \<and>
     pg_position pg' = pg_position pg + int (length tr) \<and>
     pg_any_error pg' = (pg_any_error pg \<or> failing tr) \<and>
     pg_first_error pg' = (if pg_first_error pg = [] then first_message tr else pg_first_error pg)"

lemma runs_trace_append:
  assumes "runs_trace en run s pg tr t pg'" and "runs_trace en run t pg' tr' u pg''"
  shows "runs_trace en run s pg (tr @ tr') u pg''"
proof -
  obtain rows where 1: "adds_rows en s t rows" "item_rows run (pg_position pg + 1) tr (map snd rows)"
    using assms(1) by (auto simp: runs_trace_def)
  obtain rows' where 2: "adds_rows en t u rows'" "item_rows run (pg_position pg' + 1) tr' (map snd rows')"
    using assms(2) by (auto simp: runs_trace_def)
  have "adds_rows en s u (rows @ rows')" using 1(1) 2(1) by (rule adds_rows_append)
  moreover have "item_rows run (pg_position pg + 1) (tr @ tr') (map snd (rows @ rows'))"
    using 1(2) 2(2) assms(1) item_rows_append by (simp add: runs_trace_def algebra_simps)
  ultimately show ?thesis
    using assms unfolding runs_trace_def by (auto simp: first_message_append)
qed

lemma runs_trace_fresh: "fresh_runs en s \<Longrightarrow> runs_trace en run s pg tr t pg' \<Longrightarrow> fresh_runs en t"
  by (auto simp: runs_trace_def intro: adds_rows_fresh)

lemma runs_trace_silent:
  "adds_rows en s t [] \<Longrightarrow> pg_position pg' = pg_position pg \<Longrightarrow> pg_any_error pg' = pg_any_error pg \<Longrightarrow>
   pg_first_error pg' = pg_first_error pg \<Longrightarrow> runs_trace en run s pg [] t pg'"
  unfolding runs_trace_def by (intro conjI exI [of _ "[]"]) simp_all

lemma run_item_trace:
  assumes "fresh_runs en s" and "run_item en xi run item vars pg s = (res, t)"
  shows "\<exists>out pg'. res = Inr (out \<noteq> None, pg') \<and> runs_trace en run s pg [(item, out)] t pg'"
proof -
  obtain y u where y: "execute_item en xi run item (pg_position pg + 1) vars s = (y, u)" by fastforce
  obtain r id row where r: "y = Inr r" "adds_rows en s u [(id, row)]"
      "item_row run (pg_position pg + 1) (item, outcome r) row"
    using execute_item_row [OF assms(1) y] by blast
  have "res = Inr (outcome r \<noteq> None, absorb r (pg\<lparr>pg_position := pg_position pg + 1\<rparr>))" "t = u"
    using assms(2) y r(1) by (cases r; simp add: run_item_def ebind_def failed_def)+
  moreover have "runs_trace en run s pg [(item, outcome r)] u (absorb r (pg\<lparr>pg_position := pg_position pg + 1\<rparr>))"
    using r(2,3) unfolding runs_trace_def
    by (cases r) (auto simp: absorb_def intro!: exI [of _ "[(id, row)]"])
  ultimately show ?thesis by blast
qed

lemma run_hook_trace:
  assumes "fresh_runs en s" and "run_hook en xi run hook vars pg s = (res, t)"
  shows "\<exists>tr pg'. res = Inr (failing tr, pg') \<and> hook_trace hook tr \<and> runs_trace en run s pg tr t pg'"
proof (cases hook)
  case None
  then show ?thesis using assms(2)
    by (auto simp: run_hook_def adds_rows_def intro!: runs_trace_silent exI [of _ "[]"])
next
  case (Some i)
  then have "run_item en xi run i vars pg s = (res, t)" using assms(2) by (simp add: run_hook_def)
  from run_item_trace [OF assms(1) this] obtain out pg' where
      "res = Inr (out \<noteq> None, pg')" "runs_trace en run s pg [(i, out)] t pg'" by blast
  then show ?thesis using Some by (intro exI [of _ "[(i, out)]"] exI [of _ pg']) simp
qed

lemma ticks_new_object: "ticks.preserves (new_object ob)"
  by (intro frame_intros)

lemma new_object_adds: "\<exists>v t. on_machine (new_object ob) s = (Inr v, t) \<and> adds_rows en s t []"
proof -
  obtain r t where *: "on_machine (new_object ob) s = (r, t)" by fastforce
  then have "\<exists>v. r = Inr v"
    by (auto simp: on_machine_def new_object_def on_session_def on_heap_def split: prod.splits)
  then show ?thesis using * on_machine_adds [OF ticks_new_object *] by blast
qed

lemma reset_local_adds:
  "\<exists>t. on_machine (emodify (\<lambda>s. s\<lparr>mc_session := reset_local_context (mc_session s)\<rparr>)) s = (Inr (), t) \<and>
     adds_rows en s t []"
  by (simp add: on_machine_def adds_rows_def)

lemma run_test_trace:
  assumes "fresh_runs en s" and run: "run_test en xi run n hooks item pg s = (res, t)"
  shows "\<exists>tr pg'. res = Inr (failing tr, pg') \<and> test_trace hooks item tr \<and> runs_trace en run s pg tr t pg'"
proof -
  obtain v s1 where 1: "on_machine (new_object (HDict [])) s = (Inr v, s1)" "adds_rows en s s1 []"
    using new_object_adds by meson
  obtain x1 s2 where 2: "run_hook en xi run (hooks ''before-each'') v pg s1 = (x1, s2)" by fastforce
  note f1 = adds_rows_fresh [OF assms(1) 1(2)]
  obtain b pg1 where b: "x1 = Inr (failing b, pg1)" "hook_trace (hooks ''before-each'') b"
      "runs_trace en run s1 pg b s2 pg1" using run_hook_trace [OF f1 2] by blast
  note f2 = runs_trace_fresh [OF f1 b(3)]
  obtain x2 s3 where 3: "run_item en xi run item v pg1 s2 = (x2, s3)" by fastforce
  obtain out pg2 where i: "x2 = Inr (out \<noteq> None, pg2)" "runs_trace en run s2 pg1 [(item, out)] s3 pg2"
    using run_item_trace [OF f2 3] by blast
  note f3 = runs_trace_fresh [OF f2 i(2)]
  obtain s4 where 4: "publish_progress en xi run (pg_executed pg2 + 1) n s3 = (Inr (), s4)" "adds_rows en s3 s4 []"
    unfolding publish_progress_def using publish_for_Inr by meson
  let ?pg = "pg2\<lparr>pg_executed := pg_executed pg2 + 1\<rparr>"
  have i4: "runs_trace en run s2 pg1 [(item, out)] s4 ?pg"
    using runs_trace_append [OF i(2) runs_trace_silent [OF 4(2), of ?pg pg2 run]] by simp
  note f4 = runs_trace_fresh [OF f2 i4]
  obtain x3 s5 where 5: "run_hook en xi run (hooks ''after-each'') v ?pg s4 = (x3, s5)" by fastforce
  obtain a pg3 where a: "x3 = Inr (failing a, pg3)" "hook_trace (hooks ''after-each'') a"
      "runs_trace en run s4 ?pg a s5 pg3" using run_hook_trace [OF f4 5] by blast
  obtain s6 where 6: "on_machine (emodify (\<lambda>s. s\<lparr>mc_session := reset_local_context (mc_session s)\<rparr>)) s5 = (Inr (), s6)"
      "adds_rows en s5 s6 []" using reset_local_adds [of s5 en] by blast
  have "runs_trace en run s pg ([] @ b @ [(item, out)] @ a @ []) s6 pg3"
    by (rule runs_trace_append [OF runs_trace_silent [OF 1(2)] runs_trace_append [OF b(3)
        runs_trace_append [OF i4 runs_trace_append [OF a(3) runs_trace_silent [OF 6(2)]]]]]) simp_all
  moreover have "res = Inr (failing (b @ (item, out) # a), pg3)" "t = s6"
    using run 1(1) 2 b(1) 3 i(1) 4(1) 5 a(1) 6(1) by (auto simp: run_test_def ebind_def)
  moreover have "test_trace hooks item (b @ (item, out) # a)" using b(2) a(2) by (rule test_trace.group)
  ultimately show ?thesis by (intro exI [of _ "b @ (item, out) # a"] exI [of _ pg3]) simp
qed

lemma run_tests_trace:
  "fresh_runs en s \<Longrightarrow> run_tests en xi run n hooks items pg s = (res, t) \<Longrightarrow>
   \<exists>tr pg'. res = Inr pg' \<and> tests_trace hooks items tr \<and> runs_trace en run s pg tr t pg'"
proof (induction items arbitrary: s pg)
  case Nil
  then show ?case by (auto intro!: runs_trace_silent simp: adds_rows_def)
next
  case (Cons item items)
  obtain x s1 where 1: "run_test en xi run n hooks item pg s = (x, s1)" by fastforce
  obtain tr pg1 where tr: "x = Inr (failing tr, pg1)" "test_trace hooks item tr"
      "runs_trace en run s pg tr s1 pg1" using run_test_trace [OF Cons.prems(1) 1] by blast
  show ?case
  proof (cases "aborts item tr")
    case True
    then have "res = Inr pg1" "t = s1" using Cons.prems(2) 1 tr(1) by (simp_all add: ebind_def aborts_def)
    then show ?thesis using tr(3) tests_trace.abort [OF tr(2) True] by blast
  next
    case False
    then have "run_tests en xi run n hooks items pg1 s1 = (res, t)"
      using Cons.prems(2) 1 tr(1) by (simp add: ebind_def aborts_def split: if_splits)
    from Cons.IH [OF runs_trace_fresh [OF Cons.prems(1) tr(3)] this] obtain tr' pg' where
        "res = Inr pg'" "tests_trace hooks items tr'" "runs_trace en run s1 pg1 tr' t pg'" by blast
    then show ?thesis using tests_trace.go_on [OF tr(2) False] runs_trace_append [OF tr(3)] by blast
  qed
qed

lemma run_items_trace:
  assumes "fresh_runs en s" and run: "run_items en xi run hooks tests s = (res, t)"
  shows "\<exists>tr pg'. res = Inr pg' \<and> suite_trace hooks tests tr \<and>
    runs_trace en run s \<lparr>pg_position = 0, pg_executed = 0, pg_any_error = False, pg_first_error = []\<rparr> tr t pg'"
proof -
  let ?pg = "\<lparr>pg_position = 0, pg_executed = 0, pg_any_error = False, pg_first_error = []\<rparr>"
  obtain v s1 where 1: "on_machine (new_object (HDict [])) s = (Inr v, s1)" "adds_rows en s s1 []"
    using new_object_adds by meson
  note f1 = adds_rows_fresh [OF assms(1) 1(2)]
  obtain x1 s2 where 2: "run_hook en xi run (hooks ''before-all'') v ?pg s1 = (x1, s2)" by fastforce
  obtain b pg1 where b: "x1 = Inr (failing b, pg1)" "hook_trace (hooks ''before-all'') b"
      "runs_trace en run s1 ?pg b s2 pg1" using run_hook_trace [OF f1 2] by blast
  note f2 = runs_trace_fresh [OF f1 b(3)]
  have any: "pg_any_error pg1 = failing b" using b(3) by (simp add: runs_trace_def)
  let ?mid = "if pg_any_error pg1 then ereturn pg1 else run_tests en xi run (length tests) hooks tests pg1"
  obtain x2 s3 where 3: "?mid s2 = (x2, s3)" by fastforce
  obtain m pg2 where m: "x2 = Inr pg2" "runs_trace en run s2 pg1 m s3 pg2"
      "if failing b then m = [] else tests_trace hooks tests m"
  proof (cases "failing b")
    case True
    then show ?thesis using that [of pg1 "[]"] 3 any by (simp add: runs_trace_silent adds_rows_def)
  next
    case False
    then show ?thesis using that 3 any run_tests_trace [OF f2, of xi run "length tests" hooks tests pg1 x2 s3]
      by auto
  qed
  note f3 = runs_trace_fresh [OF f2 m(2)]
  obtain v' s4 where 4: "on_machine (new_object (HDict [])) s3 = (Inr v', s4)" "adds_rows en s3 s4 []"
    using new_object_adds by meson
  note f4 = adds_rows_fresh [OF f3 4(2)]
  obtain x3 s5 where 5: "run_hook en xi run (hooks ''after-all'') v' pg2 s4 = (x3, s5)" by fastforce
  obtain a pg3 where a: "x3 = Inr (failing a, pg3)" "hook_trace (hooks ''after-all'') a"
      "runs_trace en run s4 pg2 a s5 pg3" using run_hook_trace [OF f4 5] by blast
  have "runs_trace en run s ?pg ([] @ b @ m @ [] @ a) s5 pg3"
    by (rule runs_trace_append [OF runs_trace_silent [OF 1(2)] runs_trace_append [OF b(3)
        runs_trace_append [OF m(2) runs_trace_append [OF runs_trace_silent [OF 4(2)] a(3)]]]]) simp_all
  moreover have "res = Inr pg3" "t = s5"
    using run 1(1) 2 b(1) 3 m(1) 4(1) 5 a(1) by (auto simp: run_items_def ebind_def)
  moreover have "suite_trace hooks tests (b @ m @ a)"
    using m(3) setup_failed [OF b(2) _ a(2)] setup_done [OF b(2) _ _ a(2)] by (auto split: if_splits)
  ultimately show ?thesis by auto
qed

subsection \<open>The run\<close>

abbreviation runner_ticks :: "'w runner \<Rightarrow> nat" where
  "runner_ticks s \<equiv> mc_ticks (rn_machine s)"

lemma json_value_error: "json_value h v = Inl e \<Longrightarrow> e = ValueError ''Circular reference detected''"
  by (auto simp: json_value_def split: option.splits)

lemma serialize_error:
  "stored_context c h = Inl e \<Longrightarrow> e = ValueError ''Circular reference detected''"
  by (auto simp: stored_context_def split: prod.splits dest: json_value_error)

lemma history_publish:
  "e \<noteq> [] \<Longrightarrow> eb_history (publish_execution_event now e name p b) e =
     push_bounded event_history_size (eb_history b e) (event_frame now e name p)"
proof -
  have "eb_history (fold (\<lambda>q. put_nowait q f) qs b) = eb_history b" for f qs b
    by (induction qs arbitrary: b) (simp_all add: put_nowait_def)
  then show "e \<noteq> [] \<Longrightarrow> ?thesis" by (simp add: publish_execution_event_def publish_locked_def)
qed

lemma history_log:
  "x \<in> set (eb_history b e) \<Longrightarrow> last (eb_history b e) = x \<Longrightarrow>
   x \<in> set (eb_history (publish_runtime_log_event now vars ty subject level m p b) e)"
proof -
  assume x: "x \<in> set (eb_history b e)" "last (eb_history b e) = x"
  have "x \<in> set (push_bounded event_history_size (eb_history b e) f)" for f
  proof -
    have ne: "eb_history b e \<noteq> []" using x(1) by auto
    then have split: "eb_history b e = butlast (eb_history b e) @ [x]" using x(2) by (metis append_butlast_last_id)
    have "push_bounded event_history_size (eb_history b e) f =
        drop (Suc (length (eb_history b e)) - event_history_size) (butlast (eb_history b e)) @ [x, f]"
      unfolding push_bounded_def by (subst split, subst drop_append) (simp add: event_history_size_def)
    then show ?thesis by simp
  qed
  moreover have "eb_history (fold (\<lambda>q. put_nowait q f) qs b) = eb_history b" for f qs and b :: event_bus
    by (induction qs arbitrary: b) (simp_all add: put_nowait_def)
  ultimately show ?thesis
    using x(1) by (auto simp: publish_runtime_log_event_def publish_execution_event_def publish_locked_def
        split: option.splits)
qed

lemma last_push_bounded: "last (push_bounded event_history_size xs x) = x"
    "x \<in> set (push_bounded event_history_size xs x)"
  by (simp_all add: push_bounded_def event_history_size_def)

definition finished_event :: "'w runner \<Rightarrow> string \<Rightarrow> string \<Rightarrow> string \<Rightarrow> bool" where
  "finished_event t e run status \<longleftrightarrow> (\<exists>now p. map_of p ''status'' = Some (PStr status) \<and>
     map_of p ''test_suite_execution_id'' = Some (PStr run) \<and>
     event_frame now e ''suite_finished'' p \<in> set (eb_history (mc_bus (rn_machine t)) e))"

lemma finish_suite_run_ok:
  assumes "finish_suite_run en xi run pg s = (res, t)"
  shows "res = Inl (ValueError ''Circular reference detected'') \<or>
    (res = Inr () \<and> rn_item_execs t = rn_item_execs s \<and>
     (\<exists>w j. rn_suite_runs t = update_row run (finish_suite_row (final_status pg)
        (nonempty (pg_first_error pg)) w j) (rn_suite_runs s)) \<and>
     (xi_execution_id xi \<noteq> [] \<longrightarrow> finished_event t (xi_execution_id xi) run (final_status pg)))"
proof -
  let ?j = "case context_of s of None \<Rightarrow> Inr PNone
    | Some c \<Rightarrow> stored_context c (s_heap (mc_session (rn_machine s)))"
  let ?p = "[(''test_suite_execution_id'', PStr run), (''status'', PStr (final_status pg)),
               (''error'', or_null (pg_first_error pg))]"
  show ?thesis
  proof (cases ?j)
    case (Inl e)
    then have "e = ValueError ''Circular reference detected''"
      by (auto split: option.splits dest: serialize_error)
    then show ?thesis using assms Inl by (simp add: finish_suite_run_def ebind_def)
  next
    case (Inr j)
    let ?e = "xi_execution_id xi" and ?n = "mc_ticks (rn_machine s)"
    let ?b = "publish_execution_event (en_stamp en (Suc ?n)) ?e ''suite_finished'' ?p (mc_bus (rn_machine s))"
    have t: "res = Inr ()" "rn_item_execs t = rn_item_execs s"
        "rn_suite_runs t = update_row run (finish_suite_row (final_status pg) (nonempty (pg_first_error pg))
          (en_stamp en ?n) j) (rn_suite_runs s)"
      using assms Inr
      by (auto simp: finish_suite_run_def ebind_def on_machine_def publish_for_def publish_event_def write_suite_log_def)
    have bus: "\<exists>now v ty su l m p. mc_bus (rn_machine t) = publish_runtime_log_event now v ty su l m p ?b"
      using assms Inr
      by (clarsimp simp: finish_suite_run_def ebind_def on_machine_def publish_for_def publish_event_def
          write_suite_log_def split del: if_split) (intro exI, rule refl)
    have "finished_event t ?e run (final_status pg)" if "?e \<noteq> []"
    proof -
      have "event_frame (en_stamp en (Suc ?n)) ?e ''suite_finished'' ?p \<in> set (eb_history (mc_bus (rn_machine t)) ?e)"
        using bus history_log [of "event_frame (en_stamp en (Suc ?n)) ?e ''suite_finished'' ?p" ?b ?e]
        by (auto simp: history_publish [OF that] last_push_bounded)
      then show ?thesis unfolding finished_event_def
        by (intro exI [of _ "en_stamp en (Suc ?n)"] exI [of _ ?p]) simp
    qed
    then show ?thesis using t(1-3) by blast
  qed
qed

text \<open>What a finished run leaves: its own row, and one row per item of a trace of the suite.\<close>

definition run_row :: "trace \<Rightarrow> suite_run_row \<Rightarrow> bool" where
  "run_row tr row \<longleftrightarrow> tr_status row = (if failing tr then ''error'' else ''success'') \<and>
     tr_error_message row = nonempty (first_message tr) \<and> tr_finished_at row \<noteq> None"

definition completed ::
  "string \<Rightarrow> (string \<Rightarrow> suite_item option) \<Rightarrow> suite_item list \<Rightarrow> string \<Rightarrow> 'w runner \<Rightarrow> 'w runner \<Rightarrow> trace \<Rightarrow> bool" where
  "completed e hooks tests run s t tr \<longleftrightarrow> suite_trace hooks tests tr \<and>
     (\<exists>row. rn_suite_runs t = rn_suite_runs s @ [(run, row)] \<and> run_row tr row) \<and>
     (\<exists>rows. rn_item_execs t = rn_item_execs s @ rows \<and> item_rows run 1 tr (map snd rows)) \<and>
     (e \<noteq> [] \<longrightarrow> finished_event t e run (if failing tr then ''error'' else ''success''))"

lemma run_suite_body_ok:
  assumes "fresh_runs en s" and "rn_suite_runs s = old @ [(run, row)]" and "run \<notin> fst ` set old"
    and "tr_error_message row = None" and body: "run_suite_body en xi run hooks tests s = (res, t)"
  shows "res = Inl (ValueError ''Circular reference detected'') \<or>
    (res = Inr () \<and> (\<exists>tr. completed (xi_execution_id xi) hooks tests run (s\<lparr>rn_suite_runs := old\<rparr>) t tr))"
proof -
  obtain s1 where 1: "publish_for en xi ''suite_started''
      [(''test_suite_execution_id'', PStr run), (''test_suite_id'', PStr (xi_test_suite_id xi)),
       (''test_suite_description'', PStr (xi_test_suite_description xi)),
       (''target_test_id'', opt_json (xi_target_suite_item_id xi)),
       (''include_previous'', PBool False)] s = (Inr (), s1)" "adds_rows en s s1 []"
    using publish_for_Inr by meson
  obtain s2 where 2: "publish_progress en xi run 0 (length tests) s1 = (Inr (), s2)" "adds_rows en s1 s2 []"
    unfolding publish_progress_def using publish_for_Inr by meson
  have s2: "adds_rows en s s2 []" using adds_rows_append [OF 1(2) 2(2)] by simp
  obtain x s3 where 3: "run_items en xi run hooks tests s2 = (x, s3)" by fastforce
  obtain tr pg where tr: "x = Inr pg" "suite_trace hooks tests tr"
      "runs_trace en run s2 \<lparr>pg_position = 0, pg_executed = 0, pg_any_error = False, pg_first_error = []\<rparr> tr s3 pg"
    using run_items_trace [OF adds_rows_fresh [OF assms(1) s2] 3] by blast
  have fin: "finish_suite_run en xi run pg s3 = (res, t)"
    using body 1(1) 2(1) 3 tr(1) by (simp add: run_suite_body_def ebind_def)
  have pg: "final_status pg = (if failing tr then ''error'' else ''success'')" "pg_first_error pg = first_message tr"
    using tr(3) by (simp_all add: runs_trace_def final_status_def)
  obtain rows where rows: "adds_rows en s2 s3 rows" "item_rows run 1 tr (map snd rows)"
    using tr(3) by (auto simp: runs_trace_def)
  have s3: "rn_item_execs s3 = rn_item_execs s @ rows" "rn_suite_runs s3 = old @ [(run, row)]"
    using s2 rows(1) assms(2) by (simp_all add: adds_rows_def)
  show ?thesis
  proof (cases "res = Inl (ValueError ''Circular reference detected'')")
    case False
    then obtain w j where t: "res = Inr ()" "rn_item_execs t = rn_item_execs s3"
        "rn_suite_runs t = update_row run (finish_suite_row (final_status pg) (nonempty (pg_first_error pg)) w j)
          (rn_suite_runs s3)"
        "xi_execution_id xi \<noteq> [] \<longrightarrow> finished_event t (xi_execution_id xi) run (final_status pg)"
      using finish_suite_run_ok [OF fin] by blast
    have "rn_suite_runs t = old @ [(run, finish_suite_row (final_status pg) (nonempty (pg_first_error pg)) w j row)]"
      using t(3) update_row_last [OF assms(3)] s3(2) by simp
    moreover have "run_row tr (finish_suite_row (final_status pg) (nonempty (pg_first_error pg)) w j row)"
      using assms(4) pg by (auto simp: run_row_def finish_suite_row_def nonempty_def)
    ultimately have "completed (xi_execution_id xi) hooks tests run (s\<lparr>rn_suite_runs := old\<rparr>) t tr"
      unfolding completed_def using tr(2) t(2,4) s3(1) rows(2) pg(1) by auto
    then show ?thesis using t(1) by blast
  qed simp
qed

lemma insert_suite_run_eq:
  assumes "fresh_runs en s"
  shows "insert_suite_run en xi s = (Inr (en_uid en (mc_ticks (rn_machine s))),
    s\<lparr>rn_machine := (rn_machine s)\<lparr>mc_ticks := Suc (mc_ticks (rn_machine s))\<rparr>,
      rn_suite_runs := rn_suite_runs s @ [(en_uid en (mc_ticks (rn_machine s)), new_suite_run xi)]\<rparr>)"
proof -
  have "map_of (rn_suite_runs s) (en_uid en (mc_ticks (rn_machine s))) = None"
    using assms by (simp add: fresh_runs_def map_of_eq_None_iff)
  then show ?thesis
    by (simp add: insert_suite_run_def ebind_def on_machine_def insert_row_def get_by_id_def)
qed

text \<open>Making the run context changes the object store of the machine and nothing else.\<close>

lemma make_run_context_eq:
  "\<exists>c h. make_run_context run xi m = (Inr c, m\<lparr>mc_session := (mc_session m)\<lparr>s_heap := h\<rparr>\<rparr>)"
  by (simp add: make_run_context_def new_value_def on_session_def on_heap_def ebind_def split_def)
    (intro exI, rule refl)

abbreviation hooks_of :: "(string \<times> suite_item option) list \<Rightarrow> string \<Rightarrow> suite_item option" where
  "hooks_of hs \<equiv> \<lambda>phase. Option.bind (map_of hs phase) id"

lemma in_run_runs:
  assumes "in_run c named body s = (res, t)"
  obtains s1 t1 where "body s1 = (res, t1)" "rn_suite_runs s1 = rn_suite_runs s"
    "rn_item_execs s1 = rn_item_execs s" "mc_ticks (rn_machine s1) = mc_ticks (rn_machine s)"
    "rn_suite_runs t = rn_suite_runs t1" "rn_item_execs t = rn_item_execs t1"
    "mc_bus (rn_machine t) = mc_bus (rn_machine t1)"
  using assms unfolding in_run_def Let_def
  by (fastforce split: prod.splits intro: that)

lemma item_rows_failing:
  "item_rows run k tr rows \<Longrightarrow> failing tr \<Longrightarrow> \<exists>row \<in> set rows. ie_status row = ''error''"
  by (induction run k tr rows rule: item_rows.induct) (auto simp: item_row_def)

lemma suite_run_row:
  assumes "fresh_runs en s" and "get_by_id (xi_test_suite_id xi) (rn_suites s) = Some suite"
    and hs: "get_hooks hook_phase_values (xi_test_suite_id xi) (cd_items (mc_db (rn_machine s))) = Inr hs"
    and ts: "resolve_tests_to_execute (get_all_tests_by_suite_id (xi_test_suite_id xi)
      (cd_items (mc_db (rn_machine s)))) (xi_target_suite_item_id xi) = Inr tests"
    and run: "execute_suite en xi s = (res, t)"
  shows "(res = Inl (ValueError ''Circular reference detected'') \<and>
      rn_suite_runs t = rn_suite_runs s \<and> rn_item_execs t = rn_item_execs s) \<or>
    (res = Inr () \<and> (\<exists>tr. completed (xi_execution_id xi) (hooks_of hs) tests
        (en_uid en (mc_ticks (rn_machine s))) s t tr))"
proof -
  let ?id = "en_uid en (mc_ticks (rn_machine s))"
  obtain c h where c: "make_run_context ?id xi ((rn_machine s)\<lparr>mc_ticks := Suc (mc_ticks (rn_machine s))\<rparr>) =
      (Inr c, (rn_machine s)\<lparr>mc_ticks := Suc (mc_ticks (rn_machine s)),
         mc_session := (mc_session (rn_machine s))\<lparr>s_heap := h\<rparr>\<rparr>)"
    using make_run_context_eq [of ?id xi "(rn_machine s)\<lparr>mc_ticks := Suc (mc_ticks (rn_machine s))\<rparr>"]
    by fastforce
  define s1 where "s1 = s\<lparr>rn_suite_runs := rn_suite_runs s @ [(?id, new_suite_run xi)],
      rn_machine := (rn_machine s)\<lparr>mc_ticks := Suc (mc_ticks (rn_machine s)),
         mc_session := (mc_session (rn_machine s))\<lparr>s_heap := h\<rparr>\<rparr>\<rparr>"
  let ?named = "no_vars\<lparr>rv_execution_id := Some (xi_execution_id xi),
      rv_test_suite_id := Some (xi_test_suite_id xi), rv_test_suite_execution_id := Some ?id\<rparr>"
  let ?body = "run_suite_body en xi ?id (hooks_of hs) tests"
  have eq: "execute_suite en xi s = transaction (\<lambda>_. in_run c ?named ?body s1) s"
    using assms(2) insert_suite_run_eq [OF assms(1), of xi] c hs ts
    by (simp add: execute_suite_def execute_run_def transaction_def ebind_def on_machine_def s1_def)
  obtain r u where u: "in_run c ?named ?body s1 = (r, u)" by fastforce
  obtain s2 t2 where b: "?body s2 = (r, t2)" "rn_suite_runs s2 = rn_suite_runs s1"
      "rn_item_execs s2 = rn_item_execs s1" "mc_ticks (rn_machine s2) = mc_ticks (rn_machine s1)"
      "rn_suite_runs u = rn_suite_runs t2" "rn_item_execs u = rn_item_execs t2"
      "mc_bus (rn_machine u) = mc_bus (rn_machine t2)"
    by (rule in_run_runs [OF u])
  have new: "?id \<notin> fst ` set (rn_suite_runs s)" using assms(1) by (simp add: fresh_runs_def)
  have "fresh_runs en s2"
    using assms(1) b(2-4) by (auto simp: fresh_runs_def s1_def dest: injD)
  moreover have "rn_suite_runs s2 = rn_suite_runs s @ [(?id, new_suite_run xi)]" using b(2) by (simp add: s1_def)
  moreover have "tr_error_message (new_suite_run xi) = None" by (simp add: new_suite_run_def)
  ultimately have "r = Inl (ValueError ''Circular reference detected'') \<or> (r = Inr () \<and>
      (\<exists>tr. completed (xi_execution_id xi) (hooks_of hs) tests ?id (s2\<lparr>rn_suite_runs := rn_suite_runs s\<rparr>) t2 tr))"
    using run_suite_body_ok [OF _ _ new _ b(1)] by blast
  then show ?thesis
  proof
    assume r: "r = Inl (ValueError ''Circular reference detected'')"
    then have "res = r" "t = rollback s u" using run eq u by (auto simp: transaction_def)
    then show ?thesis using r by (simp add: rollback_def Let_def)
  next
    assume r: "r = Inr () \<and> (\<exists>tr. completed (xi_execution_id xi) (hooks_of hs) tests ?id
      (s2\<lparr>rn_suite_runs := rn_suite_runs s\<rparr>) t2 tr)"
    then have "res = Inr ()" and t: "t = u" using run eq u by (auto simp: transaction_def)
    moreover have "completed (xi_execution_id xi) (hooks_of hs) tests ?id s t tr \<longleftrightarrow>
        completed (xi_execution_id xi) (hooks_of hs) tests ?id (s2\<lparr>rn_suite_runs := rn_suite_runs s\<rparr>) t2 tr" for tr
      using b(3,5-7) t by (simp add: completed_def finished_event_def s1_def)
    ultimately show ?thesis using r by blast
  qed
qed

lemma suite_run_result:
  assumes "fresh_runs en s" and "get_by_id (xi_test_suite_id xi) (rn_suites s) = Some suite"
    and "get_hooks hook_phase_values (xi_test_suite_id xi) (cd_items (mc_db (rn_machine s))) = Inr hs"
    and "resolve_tests_to_execute (get_all_tests_by_suite_id (xi_test_suite_id xi)
      (cd_items (mc_db (rn_machine s)))) (xi_target_suite_item_id xi) = Inr tests"
    and "execute_suite en xi s = (res, t)"
  shows "(res = Inl (ValueError ''Circular reference detected'') \<and>
      rn_suite_runs t = rn_suite_runs s \<and> rn_item_execs t = rn_item_execs s) \<or>
    (res = Inr () \<and> (\<exists>run tr. completed (xi_execution_id xi) (hooks_of hs) tests run s t tr))"
  using suite_run_row [OF assms] by blast

lemma suite_run_outcome:
  assumes "fresh_runs en s" and "get_by_id (xi_test_suite_id xi) (rn_suites s) = Some suite"
    and "get_hooks hook_phase_values (xi_test_suite_id xi) (cd_items (mc_db (rn_machine s))) = Inr hs"
    and "resolve_tests_to_execute (get_all_tests_by_suite_id (xi_test_suite_id xi)
      (cd_items (mc_db (rn_machine s)))) (xi_target_suite_item_id xi) = Inr tests"
    and "execute_suite en xi s = (Inr (), t)"
  shows "\<exists>run tr. completed (xi_execution_id xi) (hooks_of hs) tests run s t tr"
  using suite_run_result [OF assms] by auto


subsection \<open>The order of a run\<close>

definition group_items :: "(string \<Rightarrow> suite_item option) \<Rightarrow> suite_item \<Rightarrow> suite_item list" where
  "group_items hooks item =
     case_option [] (\<lambda>h. [h]) (hooks ''before-each'') @ [item] @
     case_option [] (\<lambda>h. [h]) (hooks ''after-each'')"

lemma hook_trace_items: "hook_trace hook tr \<Longrightarrow> map fst tr = case_option [] (\<lambda>h. [h]) hook"
  by (induction rule: hook_trace.induct) simp_all

lemma test_trace_items: "test_trace hooks item tr \<Longrightarrow> map fst tr = group_items hooks item"
  by (induction rule: test_trace.induct) (simp add: group_items_def hook_trace_items)

text \<open>The tests that run are a prefix of the list, cut short only by a failure that aborts.\<close>

lemma tests_trace_items:
  "tests_trace hooks items tr \<Longrightarrow> \<exists>k \<le> length items.
     map fst tr = concat (map (group_items hooks) (take k items)) \<and>
     (k < length items \<longrightarrow> 0 < k \<and> failing tr \<and> upper (sr_on_failure (snd (items ! (k - 1)))) = ''ABORT'')"
proof (induction rule: tests_trace.induct)
  case stop
  then show ?case by simp
next
  case (abort item tr items)
  then show ?case
    by (intro exI [of _ 1]) (auto simp: aborts_def test_trace_items)
next
  case (go_on item tr items tr')
  then obtain k where k: "k \<le> length items" "map fst tr' = concat (map (group_items hooks) (take k items))"
      "k < length items \<Longrightarrow> 0 < k \<and> failing tr' \<and> upper (sr_on_failure (snd (items ! (k - 1)))) = ''ABORT''"
    by auto
  then show ?case
    by (intro exI [of _ "Suc k"]) (auto simp: test_trace_items [OF go_on(1)] nth_Cons')
qed

lemma item_rows_ids: "item_rows run k tr rows \<Longrightarrow> map ie_suite_item_id rows = map (fst \<circ> fst) tr"
  by (induction run k tr rows rule: item_rows.induct) (simp_all add: item_row_def)

lemma suite_trace_items:
  assumes "suite_trace hooks tests tr"
  shows "\<exists>k \<le> length tests. map fst tr = case_option [] (\<lambda>h. [h]) (hooks ''before-all'') @
     concat (map (group_items hooks) (take k tests)) @ case_option [] (\<lambda>h. [h]) (hooks ''after-all'') \<and>
     (k < length tests \<longrightarrow> failing tr \<and>
        (k = 0 \<or> upper (sr_on_failure (snd (tests ! (k - 1)))) = ''ABORT''))"
  using assms
proof cases
  case (setup_failed b a)
  then show ?thesis by (intro exI [of _ 0]) (auto simp: hook_trace_items)
next
  case (setup_done b tr' a)
  then show ?thesis using tests_trace_items [of hooks tests tr'] by (auto simp: hook_trace_items)
qed

text \<open>
  C5. The order of a run: the recorded items of a completed run are the before-all hook, then for
  each of the first \<open>k\<close> tests, in their stored order, the before-each hook, the test and the
  after-each hook, and at the end the after-all hook, whatever failed before. All requested
  tests run unless some item failed, and then the run was cut short by the before-all hook or
  after a test whose failure policy is ABORT.
\<close>

theorem suite_run_order:
  assumes "fresh_runs en s" and "get_by_id (xi_test_suite_id xi) (rn_suites s) = Some suite"
    and "get_hooks hook_phase_values (xi_test_suite_id xi) (cd_items (mc_db (rn_machine s))) = Inr hs"
    and "resolve_tests_to_execute (get_all_tests_by_suite_id (xi_test_suite_id xi)
      (cd_items (mc_db (rn_machine s)))) (xi_target_suite_item_id xi) = Inr tests"
    and "execute_suite en xi s = (Inr (), t)"
  shows "\<exists>rows k. rn_item_execs t = rn_item_execs s @ rows \<and> k \<le> length tests \<and>
    map (ie_suite_item_id \<circ> snd) rows = map fst (
      case_option [] (\<lambda>h. [h]) (hooks_of hs ''before-all'') @
      concat (map (group_items (hooks_of hs)) (take k tests)) @
      case_option [] (\<lambda>h. [h]) (hooks_of hs ''after-all'')) \<and>
    (k < length tests \<longrightarrow> (\<exists>row \<in> set rows. ie_status (snd row) = ''error'') \<and>
       (k = 0 \<or> upper (sr_on_failure (snd (tests ! (k - 1)))) = ''ABORT''))"
proof -
  obtain run tr where c: "completed (xi_execution_id xi) (hooks_of hs) tests run s t tr"
    using suite_run_outcome [OF assms] by auto
  then obtain rows where rows: "rn_item_execs t = rn_item_execs s @ rows" "item_rows run 1 tr (map snd rows)"
    by (auto simp: completed_def)
  obtain k where k: "k \<le> length tests" "map fst tr = case_option [] (\<lambda>h. [h]) (hooks_of hs ''before-all'') @
     concat (map (group_items (hooks_of hs)) (take k tests)) @ case_option [] (\<lambda>h. [h]) (hooks_of hs ''after-all'')"
     "k < length tests \<longrightarrow> failing tr \<and> (k = 0 \<or> upper (sr_on_failure (snd (tests ! (k - 1)))) = ''ABORT'')"
    using suite_trace_items [of "hooks_of hs" tests tr] c by (auto simp: completed_def)
  have "map (ie_suite_item_id \<circ> snd) rows = map fst (map fst tr)"
    using item_rows_ids [OF rows(2)] by simp
  moreover have "failing tr \<Longrightarrow> \<exists>row \<in> set rows. ie_status (snd row) = ''error''"
    using item_rows_failing [OF rows(2)] by auto
  ultimately show ?thesis using rows(1) k by (intro exI [of _ rows] exI [of _ k]) simp
qed

text \<open>
  A run that asks for a test the suite does not have raises, leaves no row in any table of
  the runner, and publishes nothing: a client that was given its execution id finds neither a
  stored execution nor an event, not even an error.
\<close>

theorem unknown_test_leaves_no_trace:
  assumes "fresh_runs en s" and "get_by_id (xi_test_suite_id xi) (rn_suites s) = Some suite"
    and "get_hooks hook_phase_values (xi_test_suite_id xi) (cd_items (mc_db (rn_machine s))) = Inr hs"
    and "xi_target_suite_item_id xi = Some i" and "i \<noteq> []"
    and "i \<notin> fst ` set (get_all_tests_by_suite_id (xi_test_suite_id xi) (cd_items (mc_db (rn_machine s))))"
    and "execute_suite en xi s = (res, t)"
  shows "res = Inl (AppError (''Test with id '' @ quoted i @ '' not found in test suite'')) \<and>
    rn_suite_runs t = rn_suite_runs s \<and> rn_item_execs t = rn_item_execs s \<and>
    mc_bus (rn_machine t) = mc_bus (rn_machine s) \<and> mc_logs (rn_machine t) = mc_logs (rn_machine s)"
proof -
  let ?id = "en_uid en (mc_ticks (rn_machine s))"
  have "List.find (\<lambda>test. fst test = i)
      (get_all_tests_by_suite_id (xi_test_suite_id xi) (cd_items (mc_db (rn_machine s)))) = None"
    using assms(6) unfolding find_None_iff by (metis image_eqI)
  then have "resolve_tests_to_execute (get_all_tests_by_suite_id (xi_test_suite_id xi)
      (cd_items (mc_db (rn_machine s)))) (Some i) =
      Inl (AppError (''Test with id '' @ quoted i @ '' not found in test suite''))"
    using assms(5) by (simp add: resolve_tests_to_execute_def)
  then show ?thesis
    using assms(2-5,7) insert_suite_run_eq [OF assms(1), of xi]
      make_run_context_eq [of ?id xi "(rn_machine s)\<lparr>mc_ticks := Suc (mc_ticks (rn_machine s))\<rparr>"]
    by (auto simp: execute_suite_def execute_run_def transaction_def ebind_def on_machine_def
        rollback_def Let_def)
qed

subsection \<open>A suite of one test\<close>

definition example_item :: "string \<Rightarrow> string \<Rightarrow> string option \<Rightarrow> int \<Rightarrow> string \<times> suite_item_row" where
  "example_item i kind phase k =
     (i, \<lparr>sr_test_suite_id = ''su'', sr_kind = kind, sr_hook_phase = phase, sr_position = k,
          sr_on_failure = ''ABORT'', sr_description = []\<rparr>)"

definition example_runner :: "nat runner" where
  "example_runner =
     \<lparr>rn_machine = example_machine\<lparr>mc_db := \<lparr>cd_definitions = [],
        cd_items = [example_item ''t1'' ''test'' None 1],
        cd_item_commands = []\<rparr>\<rparr>,
      rn_suites = [(''su'', \<lparr>su_description = []\<rparr>)], rn_suite_runs = [], rn_item_execs = []\<rparr>"

definition example_input :: "string \<Rightarrow> string option \<Rightarrow> suite_execution_input" where
  "example_input e target =
     \<lparr>xi_execution_id = e, xi_test_suite_id = ''su'', xi_test_suite_description = [],
      xi_event = PNone, xi_vars_init = PDict [], xi_invocation_id = None, xi_target_suite_item_id = target\<rparr>"

lemma example_runner_fresh: "fresh_runs example_env example_runner"
proof -
  have "inj (\<lambda>n. replicate (Suc n) (CHR ''i''))" by (rule injI) (metis length_replicate nat.inject)
  then show ?thesis by (simp add: fresh_runs_def example_env_def example_runner_def)
qed

lemma example_target: "xi_target_suite_item_id (example_input e tg) = tg"
    "xi_test_suite_id (example_input e tg) = ''su''" "xi_execution_id (example_input e tg) = e"
  by (simp_all add: example_input_def)

lemma example_suite_row:
  "get_by_id (xi_test_suite_id (example_input e tg)) (rn_suites example_runner) = Some \<lparr>su_description = []\<rparr>"
  by (simp add: example_input_def example_runner_def get_by_id_def)

definition example_hs :: "(string \<times> suite_item option) list" where
  "example_hs =
     [(''before-all'', None), (''before-each'', None), (''after-each'', None),
      (''after-all'', None)]"

lemma example_items: "cd_items (mc_db (rn_machine example_runner)) =
    [example_item ''t1'' ''test'' None 1]"
  by (simp add: example_runner_def)

lemma example_queries:
  "get_hooks hook_phase_values ''su'' [example_item ''t1'' ''test'' None 1] =
   Inr example_hs"
  "get_all_tests_by_suite_id ''su'' [example_item ''t1'' ''test'' None 1] =
   [example_item ''t1'' ''test'' None 1]"
  by (code_simp, code_simp)

lemma example_hooks:
  "get_hooks hook_phase_values (xi_test_suite_id (example_input e tg)) (cd_items (mc_db (rn_machine example_runner))) =
   Inr example_hs"
  by (simp add: example_items example_target example_queries)

lemma example_tests:
  "get_all_tests_by_suite_id (xi_test_suite_id (example_input e tg)) (cd_items (mc_db (rn_machine example_runner))) =
   [example_item ''t1'' ''test'' None 1]"
  by (simp add: example_items example_target example_queries)

definition suite_run :: "unit result \<times> nat runner" where
  "suite_run = execute_suite example_env (example_input [] None) example_runner"


lemma empty_text: "nonempty [] = None" "strip [] = []" "opt_token None = []"
  by (simp_all add: nonempty_def strip_def lstrip_def rstrip_def)

lemma publish_for_silent:
  "xi_execution_id xi = [] \<Longrightarrow> publish_for en xi name p s =
    (Inr (), s\<lparr>rn_machine := (rn_machine s)\<lparr>mc_ticks := Suc (mc_ticks (rn_machine s))\<rparr>\<rparr>)"
  by (simp add: publish_for_def publish_event_def publish_execution_event_def on_machine_def ebind_def)

lemma publish_log_silent:
  "rv_execution_id v = Some [] \<Longrightarrow> publish_runtime_log_event now v ty su l m p b = b"
  by (simp add: publish_runtime_log_event_def publish_execution_event_def)

lemmas runner_eval =
  new_value_def on_session_def on_heap_def ebind_def alloc_def put_obj_def dict_put_def dict_at_def
  hget_def dict_or_new_def build_run_context_payload_def new_last_def create_run_context_def Let_def
  make_run_context_def run_items_def run_hook_def run_test_def run_item_def execute_item_def
  create_item_execution_def publish_for_silent publish_progress_def publish_log_silent on_machine_def etry_def with_vars_def with_suite_item_def
  execute_suite_item_def succeed_item_def finish_item_def new_object_def in_run_def execute_suite_def
  execute_run_def transaction_def run_suite_body_def finish_suite_run_def execute_operations_def
  write_log_def write_suite_log_def absorb_def failed_def enter_suite_item_def leave_suite_item_def
  stored_context_def serialize_run_context_def json_value_def insert_suite_run_def insert_row_def set_context_last_def
  reset_local_context_def update_row_def finish_item_row_def context_of_def empty_text

lemma example_item_sel:
  "fst (example_item i k ph n) = i" "sr_kind (snd (example_item i k ph n)) = k"
  "sr_hook_phase (snd (example_item i k ph n)) = ph" "sr_on_failure (snd (example_item i k ph n)) = ''ABORT''"
  by (simp_all add: example_item_def)

lemma suite_run_eval: "\<exists>t. suite_run = (Inr (), t) \<and>
   map (\<lambda>(i, r). ie_suite_item_id r) (rn_item_execs t) = [''t1'']"
  unfolding suite_run_def
  by (simp add: runner_eval example_queries example_hs_def resolve_tests_to_execute_def example_item_sel example_runner_def
      example_machine_def idle_session_def empty_heap_def example_env_def get_by_id_def
      example_input_def dict_or_def get_all_by_owner_id_def rows_where_def enter_vars_def zip_vars_def
      reset_vars_def no_vars_def example_vars_def)


lemma suite_run_order_witness:
  "\<exists>rows k t. suite_run = (Inr (), t) \<and> rn_item_execs t = rows \<and> k \<le> 1 \<and>
    map (ie_suite_item_id \<circ> snd) rows = take k [''t1'']"
proof -
  obtain t where t: "suite_run = (Inr (), t)" using suite_run_eval by blast
  have ts: "resolve_tests_to_execute (get_all_tests_by_suite_id (xi_test_suite_id (example_input [] None))
      (cd_items (mc_db (rn_machine example_runner)))) (xi_target_suite_item_id (example_input [] None)) =
      Inr [example_item ''t1'' ''test'' None 1]"
    by (simp add: example_tests example_target(1) resolve_tests_to_execute_def)
  have no: "rn_item_execs example_runner = []" by (simp add: example_runner_def)
  have hook: "hooks_of example_hs ''before-all'' = None" "group_items (hooks_of example_hs) i = [i]"
      "hooks_of example_hs ''after-all'' = None" for i
    by (simp_all add: example_hs_def group_items_def)
  let ?tests = "[example_item ''t1'' ''test'' None 1]"
  obtain rows k where raw: "rn_item_execs t = rn_item_execs example_runner @ rows" "k \<le> length ?tests"
      "map (ie_suite_item_id \<circ> snd) rows = map fst (
        case_option [] (\<lambda>h. [h]) (hooks_of example_hs ''before-all'') @
        concat (map (group_items (hooks_of example_hs)) (take k ?tests)) @
        case_option [] (\<lambda>h. [h]) (hooks_of example_hs ''after-all''))"
    using suite_run_order [OF example_runner_fresh example_suite_row example_hooks ts t [unfolded suite_run_def]]
    by blast
  then have r: "rn_item_execs t = rows" "k \<le> 1" "map (ie_suite_item_id \<circ> snd) rows =
      map fst (concat (map (\<lambda>i. [i]) (take k ?tests)))"
    unfolding no hook by simp_all
  have "k = 0 \<or> k = 1" using r(2) by auto
  then have "map (ie_suite_item_id \<circ> snd) rows = take k [''t1'']"
    using r(3) by (auto simp: example_item_sel)
  then show ?thesis using t r(1,2) by blast
qed

lemma unknown_test_leaves_no_trace_witness:
  "fst (execute_suite example_env (example_input ''x'' (Some ''t9'')) example_runner) =
     Inl (AppError (''Test with id '' @ quoted ''t9'' @ '' not found in test suite'')) \<and>
   rn_suite_runs (snd (execute_suite example_env (example_input ''x'' (Some ''t9'')) example_runner)) = []"
proof -
  obtain res t where e: "execute_suite example_env (example_input ''x'' (Some ''t9'')) example_runner = (res, t)"
    by fastforce
  have "''t9'' \<notin> fst ` set (get_all_tests_by_suite_id (xi_test_suite_id (example_input ''x'' (Some ''t9'')))
      (cd_items (mc_db (rn_machine example_runner))))"
    by (simp add: example_tests example_item_sel)
  from unknown_test_leaves_no_trace [OF example_runner_fresh example_suite_row
      example_hooks example_target(1) _ this e]
  show ?thesis by (simp add: e) (simp add: example_runner_def)
qed

end
