(* ===== verification/Dataset_Parameters.thy ===== *)
theory Dataset_Parameters
  imports Command_Convert
begin

section \<open>Dataset parameters\<close>

text \<open>
  \<open>data_sources/services/dataset_parameter_resolver.py\<close>: the coercion of a value to the type of
  a dataset parameter, and the values of the parameters of a perimeter from explicit overrides,
  default values and built-in bindings. Dates and times are represented by their ISO text; the
  parsers of \<open>datetime\<close> and \<open>float\<close> are the functions of \<open>calendar\<close>.
\<close>

datatype pvalue = Json pyval | Date string | Datetime string

record calendar =
  cl_now :: string
  cl_today :: string
  cl_parse_date :: "string \<Rightarrow> string option"
  cl_parse_datetime :: "string \<Rightarrow> string option"
  cl_date_part :: "string \<Rightarrow> string"
  cl_midnight :: "string \<Rightarrow> string"
  cl_spaced :: "string \<Rightarrow> string"
  cl_float :: "string \<Rightarrow> pyval option"

definition parameter_type_names :: "string list" where
  "parameter_type_names = [''string'', ''integer'', ''number'', ''boolean'', ''date'', ''datetime'']"

definition built_in_resolvers :: "string list" where
  "built_in_resolvers = [''$now'', ''$today'']"

subsection \<open>Coercion\<close>

definition is_whole :: "rat \<Rightarrow> bool" where
  "is_whole q \<longleftrightarrow> of_int \<lfloor>q\<rfloor> = q"

definition expected :: "string \<Rightarrow> exc" where
  "expected what = ValueError (''Expected '' @ what @ '' value.'')"

fun coerce_integer :: "pvalue \<Rightarrow> pvalue result" where
  "coerce_integer (Json (PInt i)) = Inr (Json (PInt i))"
| "coerce_integer (Json (PFloat q s)) =
     (if is_whole q then Inr (Json (PInt \<lfloor>q\<rfloor>)) else Inl (expected ''integer''))"
| "coerce_integer (Json (PStr s)) =
     (if isdigit (lstrip_char (CHR ''-'') (strip s))
      then rbind (int_of_str (strip s)) (\<lambda>i. Inr (Json (PInt i)))
      else Inl (expected ''integer''))"
| "coerce_integer v = Inl (expected ''integer'')"

fun coerce_number :: "calendar \<Rightarrow> pvalue \<Rightarrow> pvalue result" where
  "coerce_number cal (Json (PInt i)) = Inr (Json (PInt i))"
| "coerce_number cal (Json (PFloat q s)) = Inr (Json (PFloat q s))"
| "coerce_number cal (Json (PStr s)) =
     (case cl_float cal (strip s) of
        Some (PFloat q t) \<Rightarrow> Inr (Json (if is_whole q then PInt \<lfloor>q\<rfloor> else PFloat q t))
      | _ \<Rightarrow> Inl (expected ''number''))"
| "coerce_number cal v = Inl (expected ''number'')"

definition boolean_words :: "(string \<times> bool) list" where
  "boolean_words = [(''true'', True), (''false'', False), (''1'', True), (''0'', False),
     (''yes'', True), (''no'', False)]"

fun coerce_boolean :: "pvalue \<Rightarrow> pvalue result" where
  "coerce_boolean (Json (PBool b)) = Inr (Json (PBool b))"
| "coerce_boolean (Json (PStr s)) =
     (case map_of boolean_words (lower (strip s)) of
        Some b \<Rightarrow> Inr (Json (PBool b)) | None \<Rightarrow> Inl (expected ''boolean''))"
| "coerce_boolean (Json (PInt i)) =
     (if i \<in> {0, 1} then Inr (Json (PBool (i \<noteq> 0))) else Inl (expected ''boolean''))"
| "coerce_boolean v = Inl (expected ''boolean'')"

definition zulu :: "string \<Rightarrow> string" where
  "zulu s = (if endswith s ''Z'' then butlast s @ ''+00:00'' else s)"

fun coerce_datetime :: "calendar \<Rightarrow> pvalue \<Rightarrow> string result" where
  "coerce_datetime cal (Datetime t) = Inr t"
| "coerce_datetime cal (Date d) = Inr (cl_midnight cal d)"
| "coerce_datetime cal (Json (PStr s)) =
     (case cl_parse_datetime cal (zulu (strip s)) of
        Some t \<Rightarrow> Inr t | None \<Rightarrow> Inl (expected ''datetime''))"
| "coerce_datetime cal v = Inl (expected ''datetime'')"

fun coerce_date :: "calendar \<Rightarrow> pvalue \<Rightarrow> string result" where
  "coerce_date cal (Datetime t) = Inr (cl_date_part cal t)"
| "coerce_date cal (Date d) = Inr d"
| "coerce_date cal (Json (PStr s)) =
     (case cl_parse_date cal (strip s) of
        Some d \<Rightarrow> Inr d
      | None \<Rightarrow> rbind (coerce_datetime cal (Json (PStr (strip s)))) (\<lambda>t. Inr (cl_date_part cal t)))"
| "coerce_date cal v = Inl (expected ''date'')"

fun pvalue_text :: "calendar \<Rightarrow> pvalue \<Rightarrow> string" where
  "pvalue_text cal (Json v) = py_str v"
| "pvalue_text cal (Date d) = d"
| "pvalue_text cal (Datetime t) = cl_spaced cal t"

definition coerce_value :: "calendar \<Rightarrow> pyval \<Rightarrow> pvalue \<Rightarrow> pvalue result" where
  "coerce_value cal parameter_type v =
     (let ty = lower (token parameter_type) in
      if ty \<notin> set parameter_type_names
      then Inl (ValueError (''Unsupported dataset parameter type '' @ quoted (py_str parameter_type) @ ''.''))
      else if v = Json PNone then Inr v
      else if ty = ''string'' then Inr (Json (PStr (pvalue_text cal v)))
      else if ty = ''integer'' then coerce_integer v
      else if ty = ''number'' then coerce_number cal v
      else if ty = ''boolean'' then coerce_boolean v
      else if ty = ''date'' then rbind (coerce_date cal v) (\<lambda>d. Inr (Date d))
      else rbind (coerce_datetime cal v) (\<lambda>t. Inr (Datetime t)))"

definition is_operator_compatible :: "pyval \<Rightarrow> string \<Rightarrow> bool" where
  "is_operator_compatible parameter_type operator =
     (let ty = lower (token parameter_type); op = lower (strip operator) in
      if op \<in> {''eq'', ''neq''} then ty \<in> set parameter_type_names
      else if op \<in> {''gt'', ''gte'', ''lt'', ''lte''} then ty \<in> {''integer'', ''number'', ''date'', ''datetime''}
      else if op \<in> {''contains'', ''starts_with'', ''ends_with''} then ty = ''string''
      else False)"

subsection \<open>Resolution\<close>

definition resolve_date_builtin :: "calendar \<Rightarrow> string \<Rightarrow> pvalue result" where
  "resolve_date_builtin cal name =
     (let r = strip name in
      if r \<notin> set built_in_resolvers
      then Inl (ValueError (''Unsupported dataset built-in resolver '' @ quoted r @ ''.''))
      else if r = ''$now'' then Inr (Datetime (cl_now cal))
      else Inr (Date (cl_today cal)))"

definition dash :: "string \<Rightarrow> string" where
  "dash s = (if s = [] then ''-'' else s)"

text \<open>
  \<open>DatasetParameterResolutionError\<close>, a \<open>ValueError\<close> with this text, replaces every
  \<open>ValueError\<close> of a coercion.
\<close>

definition resolution_error :: "string option \<Rightarrow> string \<Rightarrow> exc \<Rightarrow> exc" where
  "resolution_error dataset_id parameter e =
     ValueError (''DATASET_PARAMETER_RESOLUTION_FAILED: dataset_id='' @ dash (opt_token dataset_id) @
       ''; parameter='' @ dash (strip parameter) @ ''; reason='' @
       (if strip (exc_message e) = [] then ''Unknown error.'' else strip (exc_message e)))"

definition relabel :: "string option \<Rightarrow> string \<Rightarrow> 'a result \<Rightarrow> 'a result" where
  "relabel dataset_id parameter r =
     (case r of
        Inl e \<Rightarrow> Inl (if is_value_error e then resolution_error dataset_id parameter e else e)
      | Inr x \<Rightarrow> Inr x)"

definition binding_of :: "pyval \<Rightarrow> pydict result" where
  "binding_of v =
     (case v of
        PDict d \<Rightarrow> Inr d
      | _ \<Rightarrow> if truthy v then Inl (AttributeError ''object has no attribute get'') else Inr [])"

definition resolve_default_value :: "calendar \<Rightarrow> string option \<Rightarrow> pydict \<Rightarrow> pvalue result" where
  "resolve_default_value cal dataset_id definition =
     (let name = token (dget definition ''name''); ty = dget definition ''type'' in
      if dget definition ''default_value'' \<noteq> PNone
      then relabel dataset_id name (coerce_value cal ty (Json (dget definition ''default_value'')))
      else if dget definition ''default_binding'' \<noteq> PNone
      then relabel dataset_id name
             (rbind (binding_of (dget definition ''default_binding'')) (\<lambda>b.
              rbind (resolve_date_builtin cal (token (dget b ''resolver''))) (coerce_value cal ty)))
      else Inr (Json PNone))"

text \<open>The definitions that are dictionaries with a name, by name.\<close>

fun named_definitions :: "pyval list \<Rightarrow> (string \<times> pydict) list" where
  "named_definitions [] = []"
| "named_definitions (v # vs) =
     (case v of
        PDict d \<Rightarrow> (if token (dget d ''name'') = [] then named_definitions vs
                    else (token (dget d ''name''), d) # named_definitions vs)
      | _ \<Rightarrow> named_definitions vs)"

fun resolve_definitions ::
  "calendar \<Rightarrow> string option \<Rightarrow> pydict \<Rightarrow> (string \<times> pydict) list \<Rightarrow> (string \<times> pvalue) list \<Rightarrow>
     (string \<times> pvalue) list result" where
  "resolve_definitions cal dataset_id explicit [] resolved = Inr resolved"
| "resolve_definitions cal dataset_id explicit ((name, d) # ds) resolved =
     rbind (case map_of explicit name of
              Some v \<Rightarrow> relabel dataset_id name (coerce_value cal (dget d ''type'') (Json v))
            | None \<Rightarrow> resolve_default_value cal dataset_id d) (\<lambda>x.
     resolve_definitions cal dataset_id explicit ds (dset name x resolved))"

fun check_overrides :: "string list \<Rightarrow> string list \<Rightarrow> unit result" where
  "check_overrides names [] = Inr ()"
| "check_overrides names (k # ks) =
     (if strip k \<notin> set names then Inl (ValueError (''Unknown dataset parameter '' @ quoted k @ ''.''))
      else check_overrides names ks)"

text \<open>The elements of a value that the code iterates.\<close>

definition iterated :: "pyval \<Rightarrow> pyval list result" where
  "iterated v =
     (case v of
        PList xs \<Rightarrow> Inr xs
      | PDict d \<Rightarrow> Inr (map (PStr \<circ> fst) d)
      | PStr s \<Rightarrow> Inr (map (\<lambda>c. PStr [c]) s)
      | _ \<Rightarrow> Inl (TypeError ''object is not iterable''))"

definition resolve_parameters ::
  "calendar \<Rightarrow> pyval \<Rightarrow> pyval \<Rightarrow> string option \<Rightarrow> (string \<times> pvalue) list result" where
  "resolve_parameters cal perimeter explicit_values dataset_id =
     (let definitions = dget (dict_or_empty perimeter) ''parameters'' in
      if \<not> truthy definitions then Inr []
      else rbind (case explicit_values of
                    PNone \<Rightarrow> Inr []
                  | PDict d \<Rightarrow> Inr d
                  | _ \<Rightarrow> Inl (ValueError ''Dataset parameter overrides must be an object.'')) (\<lambda>explicit.
           rbind (iterated definitions) (\<lambda>vs.
           let named = named_definitions vs in
           rbind (check_overrides (map fst named) (map fst explicit)) (\<lambda>_.
           resolve_definitions cal dataset_id explicit named []))))"

end
