(* ===== verification/Dataset_Perimeter.thy ===== *)
theory Dataset_Perimeter
  imports Dataset_Parameters
begin

section \<open>The perimeter of a dataset\<close>

text \<open>
  \<open>data_sources/services/dataset_perimeter_compiler.py\<close>: the normal form of a perimeter (its
  parameters, selected columns, filter and sort order) and its compilation to a query. The
  expression objects of SQLAlchemy the compiler builds are the constructors of \<open>sql_pred\<close> and
  \<open>query\<close>.
\<close>

definition supported_operators :: "string list" where
  "supported_operators =
     [''eq'', ''neq'', ''gt'', ''gte'', ''lt'', ''lte'', ''contains'', ''starts_with'', ''ends_with'',
      ''in'', ''not_in'', ''is_null'', ''is_not_null'']"

definition string_operators :: "string list" where
  "string_operators = [''contains'', ''starts_with'', ''ends_with'']"

abbreviation null_operators :: "string list" where
  "null_operators \<equiv> [''is_null'', ''is_not_null'']"

definition value_error :: "string \<Rightarrow> exc" where
  "value_error m = ValueError m"

text \<open>\<open>[f(x, i) for i, x in enumerate(xs)]\<close> with exceptions.\<close>

fun map_indexed :: "(nat \<Rightarrow> 'a \<Rightarrow> 'b result) \<Rightarrow> nat \<Rightarrow> 'a list \<Rightarrow> 'b list result" where
  "map_indexed f i [] = Inr []"
| "map_indexed f i (x # xs) =
     rbind (f i x) (\<lambda>y. rbind (map_indexed f (Suc i) xs) (\<lambda>ys. Inr (y # ys)))"

definition indexed :: "string \<Rightarrow> nat \<Rightarrow> string" where
  "indexed path i = path @ ''['' @ show_nat i @ '']''"

subsection \<open>Parameter definitions\<close>

definition normalize_default_binding :: "pyval \<Rightarrow> string \<Rightarrow> pyval result" where
  "normalize_default_binding raw path =
     (case raw of
        PDict d \<Rightarrow>
          (let kind = lower (token (dget d ''kind'')); resolver = token (dget d ''resolver'') in
           rbind (guard (kind = ''built_in'') (value_error (path @ ''.kind must be '' @ quoted ''built_in'' @ ''.''))) (\<lambda>_.
           rbind (guard (resolver \<in> set built_in_resolvers)
                    (value_error (path @ ''.resolver must be one of: '' @ join '', '' built_in_resolvers @ ''.''))) (\<lambda>_.
           Inr (PDict [(''kind'', PStr kind), (''resolver'', PStr resolver)]))))
      | _ \<Rightarrow> Inl (value_error (path @ '' must be an object.'')))"

text \<open>\<open>s.replace("..", ".")\<close>.\<close>

fun replace_dots :: "string \<Rightarrow> string" where
  "replace_dots (a # b # s) =
     (if a = CHR ''.'' \<and> b = CHR ''.'' then CHR ''.'' # replace_dots s else a # replace_dots (b # s))"
| "replace_dots s = s"

fun serialize_default :: "pvalue \<Rightarrow> pyval" where
  "serialize_default (Json v) = v"
| "serialize_default (Date d) = PStr d"
| "serialize_default (Datetime t) = PStr t"

definition coerced_default :: "calendar \<Rightarrow> string \<Rightarrow> string \<Rightarrow> pyval \<Rightarrow> pyval result" where
  "coerced_default cal path ty v =
     (if v = PNone then Inr PNone
      else case coerce_value cal (PStr ty) (Json v) of
             Inr x \<Rightarrow> Inr (serialize_default x)
           | Inl e \<Rightarrow> Inl (if is_value_error e
               then value_error (replace_dots (path @ ''.default_value '' @
                      rstrip_char (CHR ''.'') (exc_message e) @ ''.'')) else e))"

definition text_or_null :: "string \<Rightarrow> pyval" where
  "text_or_null s = (if s = [] then PNone else PStr s)"

definition normalize_parameter :: "calendar \<Rightarrow> pyval \<Rightarrow> string \<Rightarrow> pydict result" where
  "normalize_parameter cal raw path =
     (case raw of
        PDict d \<Rightarrow>
          (let name = token (dget d ''name''); ty = lower (token (dget d ''type''));
               binding = dget d ''default_binding'' in
           rbind (guard (name \<noteq> []) (value_error (path @ ''.name is required.''))) (\<lambda>_.
           rbind (guard (ty \<in> set parameter_type_names)
                    (value_error (path @ ''.type '' @ quoted ty @ '' is not supported.''))) (\<lambda>_.
           rbind (guard (\<not> (dhas d ''default_value'' \<and> binding \<noteq> PNone))
                    (value_error (path @ '' cannot declare both default_value and default_binding.''))) (\<lambda>_.
           rbind (if dhas d ''default_value''
                  then rbind (coerced_default cal path ty (dget d ''default_value'')) (\<lambda>v.
                         Inr [(''default_value'', v)])
                  else Inr []) (\<lambda>default_value.
           rbind (if binding \<noteq> PNone
                  then rbind (normalize_default_binding binding (path @ ''.default_binding'')) (\<lambda>b.
                         Inr [(''default_binding'', b)])
                  else Inr []) (\<lambda>default_binding.
           Inr ([(''name'', PStr name), (''type'', PStr ty),
                 (''description'', text_or_null (token (dget d ''description'')))] @
                default_value @ default_binding)))))))
      | _ \<Rightarrow> Inl (value_error (path @ '' must be an object.'')))"

fun normalize_parameters ::
  "calendar \<Rightarrow> nat \<Rightarrow> pyval list \<Rightarrow> (string \<times> pydict) list \<Rightarrow> (string \<times> pydict) list result" where
  "normalize_parameters cal i [] by_name = Inr by_name"
| "normalize_parameters cal i (raw # raws) by_name =
     rbind (normalize_parameter cal raw (indexed ''parameters'' i)) (\<lambda>p.
     let name = token (dget p ''name'') in
     rbind (guard (name \<notin> set (map fst by_name))
              (value_error (''Duplicate dataset parameter '' @ quoted name @ ''.''))) (\<lambda>_.
     normalize_parameters cal (Suc i) raws (by_name @ [(name, p)])))"

subsection \<open>Selected columns and sort order\<close>

fun normalize_columns :: "pyval list \<Rightarrow> string list \<Rightarrow> string list result" where
  "normalize_columns [] columns = Inr columns"
| "normalize_columns (item # items) columns =
     (let name = token item in
      rbind (guard (name \<noteq> []) (value_error ''selected_columns items must be non-empty strings.'')) (\<lambda>_.
      rbind (guard (name \<notin> set columns)
               (value_error (''Duplicate selected column '' @ quoted name @ ''.''))) (\<lambda>_.
      normalize_columns items (columns @ [name]))))"

definition or_text :: "pyval \<Rightarrow> string \<Rightarrow> string" where
  "or_text v t = strip (py_str (py_or v (PStr t)))"

definition normalize_sort_item :: "nat \<Rightarrow> pyval \<Rightarrow> pyval result" where
  "normalize_sort_item i raw =
     (case raw of
        PDict d \<Rightarrow>
          (let field = token (dget d ''field''); direction = lower (or_text (dget d ''direction'') ''asc'') in
           rbind (guard (field \<noteq> []) (value_error (indexed ''sort'' i @ ''.field is required.''))) (\<lambda>_.
           rbind (guard (direction \<in> {''asc'', ''desc''})
                    (value_error (indexed ''sort'' i @ ''.direction must be '' @ quoted ''asc'' @ '' or '' @
                       quoted ''desc'' @ ''.''))) (\<lambda>_.
           Inr (PDict [(''field'', PStr field), (''direction'', PStr direction)]))))
      | _ \<Rightarrow> Inl (value_error (indexed ''sort'' i @ '' must be an object.'')))"

subsection \<open>Filters\<close>

definition is_parameter_ref :: "pyval \<Rightarrow> bool" where
  "is_parameter_ref v =
     (case v of PDict d \<Rightarrow> lower (token (dget d ''kind'')) = ''parameter'' | _ \<Rightarrow> False)"

definition normalize_filter_value ::
  "pyval \<Rightarrow> string \<Rightarrow> string \<Rightarrow> (string \<times> pydict) list \<Rightarrow> pyval result" where
  "normalize_filter_value raw path operator by_name =
     (if is_parameter_ref raw then
        (let name = token (dget (dict_or_empty raw) ''name'') in
         rbind (guard (name \<noteq> []) (value_error (path @ ''.name is required for parameter references.''))) (\<lambda>_.
         case map_of by_name name of
           None \<Rightarrow> Inl (value_error (path @ '' references unknown dataset parameter '' @ quoted name @ ''.''))
         | Some p \<Rightarrow>
             rbind (guard (operator \<notin> {''in'', ''not_in''})
                      (value_error (path @ '' does not support parameter references for operator '' @
                         quoted operator @ ''.''))) (\<lambda>_.
             rbind (guard (is_operator_compatible (dget p ''type'') operator)
                      (value_error (path @ '' parameter '' @ quoted name @ '' with type '' @
                         quoted (py_str (dget p ''type'')) @ '' is not compatible with operator '' @
                         quoted operator @ ''.''))) (\<lambda>_.
             Inr (PDict [(''kind'', PStr ''parameter''), (''name'', PStr name)])))))
      else
        rbind (guard (operator \<notin> {''in'', ''not_in''} \<or> list_or_empty raw \<noteq> [])
                 (value_error (path @ '' must be a non-empty array for operator '' @ quoted operator @ ''.''))) (\<lambda>_.
        rbind (guard (operator \<notin> set string_operators \<or> is_str raw)
                 (value_error (path @ '' must be a string for operator '' @ quoted operator @ ''.''))) (\<lambda>_.
        Inr raw)))"

definition normalize_filter_condition ::
  "pyval \<Rightarrow> string \<Rightarrow> (string \<times> pydict) list \<Rightarrow> pydict result" where
  "normalize_filter_condition raw path by_name =
     (case raw of
        PDict d \<Rightarrow>
          (let field = token (dget d ''field''); operator = lower (token (dget d ''operator'')) in
           rbind (guard (field \<noteq> []) (value_error (path @ ''.field is required.''))) (\<lambda>_.
           rbind (guard (operator \<in> set supported_operators)
                    (value_error (path @ ''.operator '' @ quoted operator @ '' is not supported.''))) (\<lambda>_.
           if operator \<in> set null_operators
           then Inr [(''field'', PStr field), (''operator'', PStr operator)]
           else
             rbind (guard (dhas d ''value'')
                      (value_error (path @ ''.value is required for operator '' @ quoted operator @ ''.''))) (\<lambda>_.
             rbind (normalize_filter_value (dget d ''value'') (path @ ''.value'') operator by_name) (\<lambda>v.
             Inr [(''field'', PStr field), (''operator'', PStr operator), (''value'', v)])))))
      | _ \<Rightarrow> Inl (value_error (path @ '' must be an object.'')))"

text \<open>\<open>v or []\<close> where the code then requires a list.\<close>

definition require_list :: "pyval \<Rightarrow> string \<Rightarrow> pyval list result" where
  "require_list v path =
     (case py_or v (PList []) of
        PList xs \<Rightarrow> Inr xs | _ \<Rightarrow> Inl (value_error (path @ '' must be an array.'')))"

definition filter_logic :: "pyval \<Rightarrow> string \<Rightarrow> string result" where
  "filter_logic v path =
     (let logic = upper (or_text v ''AND'') in
      rbind (guard (logic \<in> {''AND'', ''OR''}) (value_error (path @ ''.logic must be AND or OR.''))) (\<lambda>_. Inr logic))"

definition normalize_filter_item :: "pyval \<Rightarrow> string \<Rightarrow> (string \<times> pydict) list \<Rightarrow> pydict result" where
  "normalize_filter_item raw path by_name =
     (case raw of
        PDict d \<Rightarrow>
          (let kind = lower (or_text (dget d ''kind'') ''condition'') in
           if kind = ''group'' then
             rbind (filter_logic (dget d ''logic'') path) (\<lambda>logic.
             rbind (require_list (dget d ''conditions'') (path @ ''.conditions'')) (\<lambda>raws.
             rbind (map_indexed (\<lambda>i c. normalize_filter_condition c (indexed (path @ ''.conditions'') i) by_name)
                      0 raws) (\<lambda>cs.
             rbind (guard (cs \<noteq> []) (value_error (path @ ''.conditions must contain at least one condition.''))) (\<lambda>_.
             Inr [(''kind'', PStr ''group''), (''logic'', PStr logic), (''conditions'', PList (map PDict cs))]))))
           else
             rbind (guard (kind = ''condition'') (value_error (path @ ''.kind must be '' @
                      quoted ''condition'' @ '' or '' @ quoted ''group'' @ ''.''))) (\<lambda>_.
             rbind (normalize_filter_condition raw path by_name) (\<lambda>c.
             Inr ((''kind'', PStr ''condition'') # c))))
      | _ \<Rightarrow> Inl (value_error (path @ '' must be an object.'')))"

definition normalize_filter :: "pyval \<Rightarrow> (string \<times> pydict) list \<Rightarrow> pydict result" where
  "normalize_filter raw by_name =
     (case raw of
        PDict d \<Rightarrow>
          rbind (filter_logic (dget d ''logic'') ''filter'') (\<lambda>logic.
          rbind (if dget d ''items'' \<noteq> PNone
                 then rbind (require_list (dget d ''items'') ''filter.items'') (\<lambda>raws.
                      map_indexed (\<lambda>i x. normalize_filter_item x (indexed ''filter.items'' i) by_name) 0 raws)
                 else rbind (require_list (dget d ''conditions'') ''filter.conditions'') (\<lambda>raws.
                      rbind (map_indexed (\<lambda>i c. normalize_filter_condition c (indexed ''filter.conditions'' i) by_name)
                               0 raws) (\<lambda>cs.
                      Inr (if cs = [] then []
                           else [[(''kind'', PStr ''group''), (''logic'', PStr logic),
                                  (''conditions'', PList (map PDict cs))]])))) (\<lambda>items.
          Inr (if items = [] then []
               else [(''filter'', PDict [(''logic'', PStr logic), (''items'', PList (map PDict items))])])))
      | _ \<Rightarrow> Inl (value_error ''filter must be an object.''))"

subsection \<open>The normal form\<close>

definition optional_list :: "pyval \<Rightarrow> string \<Rightarrow> pyval list option result" where
  "optional_list v name =
     (case v of
        PNone \<Rightarrow> Inr None
      | PList xs \<Rightarrow> Inr (Some xs)
      | _ \<Rightarrow> Inl (value_error (name @ '' must be an array.'')))"

definition normalize_entries :: "calendar \<Rightarrow> pydict \<Rightarrow> pydict result" where
  "normalize_entries cal d =
     rbind (optional_list (dget d ''parameters'') ''parameters'') (\<lambda>raw_parameters.
     rbind (normalize_parameters cal 0 (case raw_parameters of None \<Rightarrow> [] | Some xs \<Rightarrow> xs) []) (\<lambda>by_name.
     rbind (optional_list (dget d ''selected_columns'') ''selected_columns'') (\<lambda>raw_columns.
     rbind (case raw_columns of
              None \<Rightarrow> Inr []
            | Some xs \<Rightarrow> rbind (normalize_columns xs []) (\<lambda>cs.
                Inr [(''selected_columns'', PList (map PStr cs))])) (\<lambda>columns.
     rbind (case dget d ''filter'' of PNone \<Rightarrow> Inr [] | raw \<Rightarrow> normalize_filter raw by_name) (\<lambda>filters.
     rbind (optional_list (dget d ''sort'') ''sort'') (\<lambda>raw_sort.
     rbind (case raw_sort of
              None \<Rightarrow> Inr []
            | Some xs \<Rightarrow> rbind (map_indexed normalize_sort_item 0 xs) (\<lambda>ss.
                Inr [(''sort'', PList ss)])) (\<lambda>sorts.
     Inr ((if by_name = [] then [] else [(''parameters'', PList (map (PDict \<circ> snd) by_name))]) @
          columns @ filters @ sorts))))))))"

definition normalize_perimeter :: "calendar \<Rightarrow> pyval \<Rightarrow> pydict option result" where
  "normalize_perimeter cal perimeter =
     (case perimeter of
        PNone \<Rightarrow> Inr None
      | PDict [] \<Rightarrow> Inr None
      | PDict d \<Rightarrow> rbind (normalize_entries cal d) (\<lambda>n. Inr (if n = [] then None else Some n))
      | _ \<Rightarrow> Inl (value_error ''perimeter must be an object.''))"

subsection \<open>Compilation\<close>

datatype sql_pred =
    IsNull string
  | IsNotNull string
  | Equal string pvalue
  | Differs string pvalue
  | Greater string pvalue
  | GreaterEqual string pvalue
  | Less string pvalue
  | LessEqual string pvalue
  | Contains string pvalue
  | StartsWith string pvalue
  | EndsWith string pvalue
  | InList string pvalue
  | NotInList string pvalue
  | Conj "sql_pred list"
  | Disj "sql_pred list"

record query =
  qy_columns :: "string list"
  qy_where :: "sql_pred option"
  qy_order :: "(string \<times> bool) list"
  qy_limit :: "int option"

record compilation =
  dc_stmt :: query
  dc_columns :: "string list"
  dc_normalized :: "pydict option"

definition condition_value :: "pyval \<Rightarrow> (string \<times> pvalue) list \<Rightarrow> pvalue result" where
  "condition_value v resolved =
     (if is_parameter_ref v then
        (let name = token (dget (dict_or_empty v) ''name'') in
         case map_of resolved name of
           None \<Rightarrow> Inl (value_error (''Resolved dataset parameter '' @ quoted name @ '' is missing.''))
         | Some x \<Rightarrow> Inr x)
      else Inr (Json v))"

text \<open>
  SQLAlchemy may refuse to build a comparison (an ordering with a null value, for instance): the
  argument \<open>sql\<close> gives the exception it raises for one, if any.
\<close>

type_synonym sql_refusal = "sql_pred \<Rightarrow> exc option"

definition built :: "sql_refusal \<Rightarrow> sql_pred \<Rightarrow> sql_pred result" where
  "built sql p = (case sql p of None \<Rightarrow> Inr p | Some e \<Rightarrow> Inl e)"

definition operator_pred :: "sql_refusal \<Rightarrow> string \<Rightarrow> string \<Rightarrow> pvalue \<Rightarrow> sql_pred result" where
  "operator_pred sql operator column v =
     (if operator = ''eq'' then built sql (if v = Json PNone then IsNull column else Equal column v)
      else if operator = ''neq'' then built sql (if v = Json PNone then IsNotNull column else Differs column v)
      else if operator = ''gt'' then built sql (Greater column v)
      else if operator = ''gte'' then built sql (GreaterEqual column v)
      else if operator = ''lt'' then built sql (Less column v)
      else if operator = ''lte'' then built sql (LessEqual column v)
      else if operator = ''contains'' then built sql (Contains column v)
      else if operator = ''starts_with'' then built sql (StartsWith column v)
      else if operator = ''ends_with'' then built sql (EndsWith column v)
      else if operator = ''in'' then built sql (InList column v)
      else if operator = ''not_in'' then built sql (NotInList column v)
      else if operator = ''is_null'' then built sql (IsNull column)
      else if operator = ''is_not_null'' then built sql (IsNotNull column)
      else Inl (value_error (''Unsupported operator '' @ quoted operator @ ''.'')))"

definition compile_condition ::
  "sql_refusal \<Rightarrow> string list \<Rightarrow> pydict \<Rightarrow> (string \<times> pvalue) list \<Rightarrow> sql_pred result" where
  "compile_condition sql available condition resolved =
     (let field = py_str (dget condition ''field'') in
      rbind (guard (field \<in> set available)
               (value_error (''Filter field '' @ quoted field @ '' does not exist.''))) (\<lambda>_.
      rbind (condition_value (dget condition ''value'') resolved) (\<lambda>v.
      operator_pred sql (py_str (dget condition ''operator'')) field v)))"

fun dicts_of :: "pyval list \<Rightarrow> pydict list" where
  "dicts_of [] = []"
| "dicts_of (v # vs) = dict_or_empty v # dicts_of vs"

definition compile_filter_item ::
  "sql_refusal \<Rightarrow> string list \<Rightarrow> pydict \<Rightarrow> (string \<times> pvalue) list \<Rightarrow> sql_pred result" where
  "compile_filter_item sql available item resolved =
     (if dget item ''kind'' = PStr ''condition'' then compile_condition sql available item resolved
      else rbind (map_result (\<lambda>c. compile_condition sql available c resolved)
                    (dicts_of (list_or_empty (dget item ''conditions'')))) (\<lambda>ps.
           Inr (if dget item ''logic'' = PStr ''OR'' then Disj ps else Conj ps)))"

definition compile_where ::
  "sql_refusal \<Rightarrow> string list \<Rightarrow> pydict \<Rightarrow> (string \<times> pvalue) list \<Rightarrow> sql_pred option result" where
  "compile_where sql available normalized resolved =
     (let f = dict_or_empty (dget normalized ''filter'');
          items = dicts_of (list_or_empty (dget f ''items'')) in
      if items = [] then Inr None
      else rbind (map_result (\<lambda>i. compile_filter_item sql available i resolved) items) (\<lambda>ps.
           Inr (Some (if dget f ''logic'' = PStr ''OR'' then Disj ps else Conj ps))))"

definition compile_sort_item :: "string list \<Rightarrow> pydict \<Rightarrow> (string \<times> bool) result" where
  "compile_sort_item available s =
     (let field = py_str (dget s ''field'') in
      rbind (guard (field \<in> set available)
               (value_error (''Sort field '' @ quoted field @ '' does not exist.''))) (\<lambda>_.
      Inr (field, dget s ''direction'' = PStr ''desc'')))"

definition select_columns :: "string list \<Rightarrow> pydict \<Rightarrow> string list result" where
  "select_columns available normalized =
     (let wanted = map py_str (list_or_empty (dget normalized ''selected_columns'')) in
      if wanted = [] then Inr available
      else case filter (\<lambda>c. c \<notin> set available) wanted of
             [] \<Rightarrow> Inr wanted
           | c # cs \<Rightarrow> Inl (value_error (''Selected column '' @ quoted c @ '' does not exist.'')))"

text \<open>\<open>compile\<close>: the columns of the reflected table are the argument \<open>available\<close>.\<close>

definition compile_perimeter ::
  "sql_refusal \<Rightarrow> calendar \<Rightarrow> string list \<Rightarrow> pyval \<Rightarrow> int option \<Rightarrow> (string \<times> pvalue) list \<Rightarrow> compilation result" where
  "compile_perimeter sql cal available perimeter limit resolved =
     rbind (normalize_perimeter cal perimeter) (\<lambda>normalized.
     let n = (case normalized of None \<Rightarrow> [] | Some d \<Rightarrow> d) in
     rbind (select_columns available n) (\<lambda>columns.
     rbind (compile_where sql available n resolved) (\<lambda>w.
     rbind (map_result (compile_sort_item available) (dicts_of (list_or_empty (dget n ''sort'')))) (\<lambda>order.
     Inr \<lparr>dc_stmt = \<lparr>qy_columns = columns, qy_where = w, qy_order = order, qy_limit = limit\<rparr>,
          dc_columns = columns, dc_normalized = normalized\<rparr>))))"

end
