(* ===== verification/Dataset_Facts.thy ===== *)
theory Dataset_Facts
  imports Dataset_Perimeter
begin

section \<open>Correctness of dataset perimeters\<close>

text \<open>
  The normal form of a perimeter is a fixed point of the normalisation, the parameters of a
  normal form resolve to values of their types, and its compilation fails only on columns the
  table does not have.
\<close>

subsection \<open>Lookups\<close>

lemma dget_simps [simp]:
  "dget [] k = PNone" "dget ((j, v) # d) k = (if k = j then v else dget d k)"
  by (simp_all add: dget_def dget_default_def)

lemma dget_append: "dget (d @ e) k = (if dhas d k then dget d k else dget e k)"
  by (auto simp: dget_def dget_default_def dhas_def split: option.splits)

lemma dhas_simps [simp]:
  "\<not> dhas [] k" "dhas ((j, v) # d) k \<longleftrightarrow> k = j \<or> dhas d k" "dhas (d @ e) k \<longleftrightarrow> dhas d k \<or> dhas e k"
  by (auto simp: dhas_def split: option.splits)

lemma map_indexed_Inr:
  "map_indexed f i xs = Inr ys \<Longrightarrow> length ys = length xs \<and> (\<forall>k < length xs. f (i + k) (xs ! k) = Inr (ys ! k))"
proof (induction f i xs arbitrary: ys rule: map_indexed.induct)
  case (2 f i x xs)
  then obtain y ys' where ys: "f i x = Inr y" "map_indexed f (Suc i) xs = Inr ys'" "ys = y # ys'"
    by (auto simp: rbind_def split: sum.splits)
  have "f (i + k) ((x # xs) ! k) = Inr ((y # ys') ! k)" if "k < length (x # xs)" for k
    using 2(1) [OF ys(1,2)] ys(1) that by (cases k) auto
  then show ?case using 2(1) [OF ys(1,2)] ys(3) by simp
qed simp

lemma map_indexed_again:
  assumes "map_indexed f i xs = Inr ys" and "\<And>k l x y. f k x = Inr y \<Longrightarrow> g l (h y) = Inr y"
  shows "map_indexed g j (map h ys) = Inr ys"
  using assms(1)
proof (induction xs arbitrary: i j ys)
  case (Cons x xs)
  then obtain y ys' where ys: "f i x = Inr y" "map_indexed f (Suc i) xs = Inr ys'" "ys = y # ys'"
    by (auto simp: rbind_def split: sum.splits)
  show ?case using Cons.IH [OF ys(2)] assms(2) [OF ys(1)] ys(3) by simp
qed simp

subsection \<open>Defaults\<close>

text \<open>
  What is used of \<open>datetime\<close>: the ISO text of a date or time parses to itself, has no blanks
  around it and does not end in \<open>Z\<close>.
\<close>

definition iso_laws :: "calendar \<Rightarrow> bool" where
  "iso_laws cal \<longleftrightarrow>
     (\<forall>s d. cl_parse_date cal s = Some d \<longrightarrow> strip d = d \<and> cl_parse_date cal d = Some d) \<and>
     (\<forall>s t. cl_parse_datetime cal s = Some t \<longrightarrow>
        strip t = t \<and> zulu t = t \<and> cl_parse_datetime cal t = Some t \<and>
        strip (cl_date_part cal t) = cl_date_part cal t \<and>
        cl_parse_date cal (cl_date_part cal t) = Some (cl_date_part cal t))"

lemma is_whole_floor [simp]: "is_whole (of_int i)"
  by (simp add: is_whole_def)

lemma coerce_number_Inr:
  "coerce_number cal (Json v) = Inr x \<Longrightarrow> (\<exists>i. x = Json (PInt i)) \<or> (\<exists>q t. x = Json (PFloat q t))"
  by (cases v; cases "cl_float cal (strip (case v of PStr s \<Rightarrow> s | _ \<Rightarrow> []))")
    (auto split: pyval.splits if_splits)

lemma coerce_number_again:
  "coerce_number cal (Json v) = Inr x \<Longrightarrow> \<exists>w. x = Json w \<and> coerce_number cal (Json w) = Inr x"
  using coerce_number_Inr by fastforce

lemma coerce_integer_again:
  "coerce_integer (Json v) = Inr x \<Longrightarrow> \<exists>i. x = Json (PInt i)"
  by (cases v) (auto simp: rbind_Inr_iff split: if_splits)

lemma coerce_boolean_again:
  "coerce_boolean (Json v) = Inr x \<Longrightarrow> \<exists>b. x = Json (PBool b)"
  by (cases v) (auto split: option.splits if_splits)

lemma coerce_date_again:
  assumes "iso_laws cal" and "coerce_date cal (Json v) = Inr d"
  shows "coerce_date cal (Json (PStr d)) = Inr d"
  using assms by (cases v) (auto simp: iso_laws_def rbind_Inr_iff split: option.splits)

lemma coerce_datetime_again:
  assumes "iso_laws cal" and "coerce_datetime cal (Json v) = Inr t"
  shows "coerce_datetime cal (Json (PStr t)) = Inr t"
  using assms by (cases v) (auto simp: iso_laws_def split: option.splits)

lemma type_tokens:
  "lower (strip ''string'') = ''string''" "lower (strip ''integer'') = ''integer''"
  "lower (strip ''number'') = ''number''" "lower (strip ''boolean'') = ''boolean''"
  "lower (strip ''date'') = ''date''" "lower (strip ''datetime'') = ''datetime''"
  by (code_simp, code_simp, code_simp, code_simp, code_simp, code_simp)

lemma parameter_types_set:
  "set parameter_type_names = {''string'', ''integer'', ''number'', ''boolean'', ''date'', ''datetime''}"
  by (simp add: parameter_type_names_def)

lemma coerce_value_string:
  "coerce_value cal (PStr ''string'') v = (if v = Json PNone then Inr v else Inr (Json (PStr (pvalue_text cal v))))"
  unfolding coerce_value_def Let_def token_PStr type_tokens parameter_types_set by simp

lemma coerce_value_integer:
  "coerce_value cal (PStr ''integer'') v = (if v = Json PNone then Inr v else coerce_integer v)"
  unfolding coerce_value_def Let_def token_PStr type_tokens parameter_types_set by simp

lemma coerce_value_number:
  "coerce_value cal (PStr ''number'') v = (if v = Json PNone then Inr v else coerce_number cal v)"
  unfolding coerce_value_def Let_def token_PStr type_tokens parameter_types_set by simp

lemma coerce_value_boolean:
  "coerce_value cal (PStr ''boolean'') v = (if v = Json PNone then Inr v else coerce_boolean v)"
  unfolding coerce_value_def Let_def token_PStr type_tokens parameter_types_set by simp

lemma coerce_value_date:
  "coerce_value cal (PStr ''date'') v = (if v = Json PNone then Inr v else rbind (coerce_date cal v) (\<lambda>d. Inr (Date d)))"
  unfolding coerce_value_def Let_def token_PStr type_tokens parameter_types_set by simp

lemma coerce_value_datetime:
  "coerce_value cal (PStr ''datetime'') v = (if v = Json PNone then Inr v else rbind (coerce_datetime cal v) (\<lambda>t. Inr (Datetime t)))"
  unfolding coerce_value_def Let_def token_PStr type_tokens parameter_types_set by simp

lemmas coerce_value_types =
  coerce_value_string coerce_value_integer coerce_value_number coerce_value_boolean
  coerce_value_date coerce_value_datetime

lemma parameter_types_cases:
  assumes "ty \<in> set parameter_type_names"
  obtains "ty = ''string''" | "ty = ''integer''" | "ty = ''number''" | "ty = ''boolean''"
    | "ty = ''date''" | "ty = ''datetime''"
  using assms unfolding parameter_types_set by (elim insertE emptyE)

definition again :: "calendar \<Rightarrow> string \<Rightarrow> pvalue \<Rightarrow> bool" where
  "again cal ty x \<longleftrightarrow> serialize_default x \<noteq> PNone \<and>
     (\<exists>y. coerce_value cal (PStr ty) (Json (serialize_default x)) = Inr y \<and>
        serialize_default y = serialize_default x)"

lemma coerce_value_again:
  assumes "iso_laws cal" and "ty \<in> set parameter_type_names" and "v \<noteq> PNone"
    and "coerce_value cal (PStr ty) (Json v) = Inr x"
  shows "again cal ty x"
  using assms(2)
proof (cases rule: parameter_types_cases)
  case 1
  then show ?thesis using assms(3,4) by (auto simp: again_def coerce_value_types)
next
  case 2
  then show ?thesis using assms(3,4) coerce_integer_again [of v x]
    by (auto simp: again_def coerce_value_types)
next
  case 3
  then obtain w where "x = Json w" "coerce_number cal (Json w) = Inr x"
    using assms(3,4) coerce_number_again [of cal v x] by (auto simp: coerce_value_types)
  then show ?thesis using 3 by (cases w) (auto simp: again_def coerce_value_types)
next
  case 4
  then show ?thesis using assms(3,4) coerce_boolean_again [of v x]
    by (auto simp: again_def coerce_value_types)
next
  case 5
  then show ?thesis using assms(1,3,4) coerce_date_again [OF assms(1)]
    by (auto simp: again_def coerce_value_types rbind_Inr_iff)
next
  case 6
  then show ?thesis using assms(1,3,4) coerce_datetime_again [OF assms(1)]
    by (auto simp: again_def coerce_value_types rbind_Inr_iff)
qed

lemma coerced_default_again:
  assumes "iso_laws cal" and "ty \<in> set parameter_type_names"
    and "coerced_default cal path ty v = Inr w"
  shows "coerced_default cal path' ty w = Inr w"
proof (cases "v = PNone")
  case False
  then obtain x where x: "coerce_value cal (PStr ty) (Json v) = Inr x" "w = serialize_default x"
    using assms(3) by (auto simp: coerced_default_def split: sum.splits if_splits)
  show ?thesis using coerce_value_again [OF assms(1,2) False x(1)] x(2)
    by (auto simp: again_def coerced_default_def)
qed (use assms(3) in \<open>simp add: coerced_default_def\<close>)

subsection \<open>Normal forms are fixed points\<close>

lemma lower_token_again [simp]: "lower (strip (lower (token v))) = lower (token v)"
  by (simp add: strip_lower)

lemma token_text_or_null [simp]: "strip s = s \<Longrightarrow> token (text_or_null s) = s"
  by (simp add: text_or_null_def)

lemma words_again:
  "lower (or_text (PStr ''condition'') ''condition'') = ''condition''"
  "lower (or_text (PStr ''group'') ''condition'') = ''group''"
  "upper (or_text (PStr ''AND'') ''AND'') = ''AND''" "upper (or_text (PStr ''OR'') ''AND'') = ''OR''"
  "lower (or_text (PStr ''asc'') ''asc'') = ''asc''" "lower (or_text (PStr ''desc'') ''asc'') = ''desc''"
  "lower (strip ''built_in'') = ''built_in''" "lower (strip ''parameter'') = ''parameter''"
  "strip ''$now'' = ''$now''" "strip ''$today'' = ''$today''"
  by (code_simp, code_simp, code_simp, code_simp, code_simp, code_simp, code_simp, code_simp,
      code_simp, code_simp)

lemma default_binding_again:
  "normalize_default_binding raw path = Inr b \<Longrightarrow> normalize_default_binding b path' = Inr b \<and> b \<noteq> PNone"
  by (cases raw) (auto simp: normalize_default_binding_def Let_def rbind_Inr_iff words_again)

definition parameter_form :: "calendar \<Rightarrow> pydict \<Rightarrow> bool" where
  "parameter_form cal p \<longleftrightarrow> token (dget p ''name'') \<noteq> [] \<and>
     (\<exists>ty \<in> set parameter_type_names. dget p ''type'' = PStr ty) \<and>
     (\<forall>path. normalize_parameter cal (PDict p) path = Inr p)"

lemma normalize_parameter_form:
  assumes "iso_laws cal" and "normalize_parameter cal raw path = Inr p"
  shows "parameter_form cal p"
proof -
  obtain d where raw: "raw = PDict d" using assms(2) by (cases raw) (auto simp: normalize_parameter_def)
  define name ty where "name = token (dget d ''name'')" and "ty = lower (token (dget d ''type''))"
  let ?desc = "text_or_null (token (dget d ''description''))"
  obtain dv db where nm: "name \<noteq> []" "ty \<in> set parameter_type_names"
      and one: "\<not> (dhas d ''default_value'' \<and> dget d ''default_binding'' \<noteq> PNone)"
      and dv: "(if dhas d ''default_value'' then rbind (coerced_default cal path ty (dget d ''default_value''))
          (\<lambda>v. Inr [(''default_value'', v)]) else Inr []) = Inr dv"
      and db: "(if dget d ''default_binding'' \<noteq> PNone then rbind (normalize_default_binding
          (dget d ''default_binding'') (path @ ''.default_binding'')) (\<lambda>b. Inr [(''default_binding'', b)])
          else Inr []) = Inr db"
      and p: "p = [(''name'', PStr name), (''type'', PStr ty), (''description'', ?desc)] @ dv @ db"
    using assms(2) unfolding raw normalize_parameter_def name_def ty_def pyval.case Let_def rbind_Inr_iff guard_Inr
    by fastforce
  have st: "strip name = name" "lower (strip ty) = ty" by (simp_all add: name_def ty_def)
  have "normalize_parameter cal (PDict p) path' = Inr p" for path'
  proof -
    consider "dv = []" "db = []" | w where "dv = [(''default_value'', w)]" "db = []"
        "\<And>path. coerced_default cal path ty w = Inr w"
      | b where "dv = []" "db = [(''default_binding'', b)]" "b \<noteq> PNone"
        "\<And>path. normalize_default_binding b path = Inr b"
      using dv db one coerced_default_again [OF assms(1) nm(2)] default_binding_again
      by (auto simp: rbind_Inr_iff split: if_splits)
    then show ?thesis
      using nm st unfolding p by cases (simp_all add: normalize_parameter_def Let_def)
  qed
  then show ?thesis using nm st by (simp add: parameter_form_def p)
qed

lemma normalize_parameters_form:
  "iso_laws cal \<Longrightarrow> normalize_parameters cal i raws acc = Inr by_name \<Longrightarrow> distinct (map fst acc) \<Longrightarrow>
   \<exists>new. by_name = acc @ new \<and> distinct (map fst by_name) \<and>
     (\<forall>(n, p) \<in> set new. parameter_form cal p \<and> n = token (dget p ''name''))"
proof (induction cal i raws acc rule: normalize_parameters.induct)
  case (2 cal i raw raws acc)
  then obtain p where p: "normalize_parameter cal raw (indexed ''parameters'' i) = Inr p"
      "token (dget p ''name'') \<notin> set (map fst acc)"
      "normalize_parameters cal (Suc i) raws (acc @ [(token (dget p ''name''), p)]) = Inr by_name"
    by (auto simp: rbind_Inr_iff Let_def)
  obtain new where "by_name = (acc @ [(token (dget p ''name''), p)]) @ new" "distinct (map fst by_name)"
      "\<forall>(n, p) \<in> set new. parameter_form cal p \<and> n = token (dget p ''name'')"
    using 2(1) [OF p(1) refl _ 2(2) p(3)] p(2) 2(4) by auto
  then show ?case using normalize_parameter_form [OF 2(2) p(1)] by auto
qed simp

lemma normalize_parameters_again:
  assumes "\<forall>(n, p) \<in> set new. parameter_form cal p \<and> n = token (dget p ''name'')"
    and "distinct (map fst (acc @ new))"
  shows "normalize_parameters cal i (map (PDict \<circ> snd) new) acc = Inr (acc @ new)"
  using assms
proof (induction new arbitrary: i acc)
  case (Cons x new)
  obtain n p where x: "x = (n, p)" by fastforce
  then have "parameter_form cal p" "n = token (dget p ''name'')" using Cons.prems(1) by auto
  then show ?case using Cons.IH [of "acc @ [(n, p)]" "Suc i"] Cons.prems
    by (simp add: x parameter_form_def Let_def)
qed simp

lemma normalize_columns_form:
  "normalize_columns items acc = Inr cs \<Longrightarrow> distinct acc \<Longrightarrow>
   \<exists>new. cs = acc @ new \<and> distinct cs \<and> (\<forall>c \<in> set new. strip c = c \<and> c \<noteq> [])"
proof (induction items acc rule: normalize_columns.induct)
  case (2 item items acc)
  then have "token item \<noteq> []" "token item \<notin> set acc" "normalize_columns items (acc @ [token item]) = Inr cs"
    by (auto simp: rbind_Inr_iff Let_def)
  then show ?case using 2(1) [OF refl _ _ _ ] 2(3) by fastforce
qed simp

lemma normalize_columns_again:
  "distinct (acc @ new) \<Longrightarrow> \<forall>c \<in> set new. strip c = c \<and> c \<noteq> [] \<Longrightarrow>
   normalize_columns (map PStr new) acc = Inr (acc @ new)"
  by (induction new arbitrary: acc) simp_all

lemma sort_item_again:
  "normalize_sort_item i raw = Inr v \<Longrightarrow> normalize_sort_item j v = Inr v"
  by (cases raw) (auto simp: normalize_sort_item_def Let_def rbind_Inr_iff words_again)

definition refers_to :: "pyval \<Rightarrow> string set \<Rightarrow> bool" where
  "refers_to v names \<longleftrightarrow> is_parameter_ref v \<longrightarrow> token (dget (dict_or_empty v) ''name'') \<in> names"

definition condition_form :: "(string \<times> pydict) list \<Rightarrow> pydict \<Rightarrow> bool" where
  "condition_form by_name c \<longleftrightarrow>
     (\<exists>f. dget c ''field'' = PStr f) \<and>
     (\<exists>op \<in> set supported_operators. dget c ''operator'' = PStr op) \<and>
     refers_to (dget c ''value'') (set (map fst by_name)) \<and>
     (\<forall>pre \<in> {[], [(''kind'', PStr ''condition'')]}. \<forall>path.
        normalize_filter_condition (PDict (pre @ c)) path by_name = Inr c)"

lemma filter_value_form:
  assumes "normalize_filter_value raw path op by_name = Inr v"
  shows "normalize_filter_value v path' op by_name = Inr v \<and> refers_to v (set (map fst by_name))"
proof (cases "is_parameter_ref raw")
  case True
  define name where "name = token (dget (dict_or_empty raw) ''name'')"
  have n: "strip name = name" by (simp add: name_def)
  obtain p where "name \<noteq> []" "map_of by_name name = Some p" "op \<notin> {''in'', ''not_in''}"
      "is_operator_compatible (dget p ''type'') op"
      and v: "v = PDict [(''kind'', PStr ''parameter''), (''name'', PStr name)]"
    using assms True unfolding normalize_filter_value_def name_def [symmetric]
    by (auto simp: Let_def rbind_Inr_iff split: option.splits)
  moreover have "is_parameter_ref v" using v by (simp add: is_parameter_ref_def words_again)
  moreover have "name \<in> set (map fst by_name)"
    using \<open>map_of by_name name = Some p\<close> by (force dest: map_of_SomeD)
  ultimately show ?thesis using n
    by (simp add: normalize_filter_value_def refers_to_def v Let_def)
next
  case False
  then have "v = raw" "op \<notin> {''in'', ''not_in''} \<or> list_or_empty raw \<noteq> []"
      "op \<notin> set string_operators \<or> is_str raw"
    using assms by (auto simp: normalize_filter_value_def rbind_Inr_iff)
  then show ?thesis using False by (simp add: normalize_filter_value_def refers_to_def)
qed

lemma filter_condition_form:
  assumes "normalize_filter_condition raw path by_name = Inr c"
  shows "condition_form by_name c"
proof -
  obtain d where raw: "raw = PDict d" using assms by (cases raw) (auto simp: normalize_filter_condition_def)
  define f op where "f = token (dget d ''field'')" and "op = lower (token (dget d ''operator''))"
  have st: "strip f = f" "lower (strip op) = op" by (simp_all add: f_def op_def)
  have ok: "f \<noteq> []" "op \<in> set supported_operators"
    using assms unfolding raw normalize_filter_condition_def f_def op_def
    by (auto simp: Let_def rbind_Inr_iff)
  show ?thesis
  proof (cases "op \<in> set null_operators")
    case True
    then have "c = [(''field'', PStr f), (''operator'', PStr op)]"
      using assms unfolding raw normalize_filter_condition_def f_def op_def
      by (auto simp: Let_def rbind_Inr_iff)
    then show ?thesis using st ok True
      by (simp add: condition_form_def normalize_filter_condition_def refers_to_def is_parameter_ref_def)
  next
    case False
    then obtain v where v: "normalize_filter_value (dget d ''value'') (path @ ''.value'') op by_name = Inr v"
        "c = [(''field'', PStr f), (''operator'', PStr op), (''value'', v)]"
      using assms unfolding raw normalize_filter_condition_def f_def op_def pyval.case Let_def rbind_Inr_iff guard_Inr
      by (auto simp: rbind_Inr_iff)
    then show ?thesis using st ok False filter_value_form [OF v(1)]
      by (simp add: condition_form_def normalize_filter_condition_def)
  qed
qed

lemma map_indexed_all:
  "map_indexed f i xs = Inr ys \<Longrightarrow> (\<And>k x y. f k x = Inr y \<Longrightarrow> P y) \<Longrightarrow> y \<in> set ys \<Longrightarrow> P y"
  by (induction xs arbitrary: i ys) (auto simp: rbind_Inr_iff)

lemma map_indexed_fixed:
  "(\<And>k y. y \<in> set ys \<Longrightarrow> g k (h y) = Inr y) \<Longrightarrow> map_indexed g j (map h ys) = Inr ys"
  by (induction ys arbitrary: j) simp_all

lemma conditions_form:
  "map_indexed (\<lambda>i c. normalize_filter_condition c (indexed path i) by_name) k raws = Inr cs \<Longrightarrow>
   c \<in> set cs \<Longrightarrow> condition_form by_name c"
  by (erule map_indexed_all) (auto intro: filter_condition_form)

lemma conditions_again:
  "(\<And>c. c \<in> set cs \<Longrightarrow> condition_form by_name c) \<Longrightarrow>
   map_indexed (\<lambda>i c. normalize_filter_condition c (indexed path i) by_name) k (map PDict cs) = Inr cs"
proof (rule map_indexed_fixed)
  fix k c assume "\<And>c. c \<in> set cs \<Longrightarrow> condition_form by_name c" "c \<in> set cs"
  then have "condition_form by_name c" by blast
  then have "\<forall>path. normalize_filter_condition (PDict ([] @ c)) path by_name = Inr c"
    unfolding condition_form_def by blast
  then show "normalize_filter_condition (PDict c) (indexed path k) by_name = Inr c" by simp
qed

lemma require_list_PList [simp]: "require_list (PList xs) path = Inr xs"
  by (cases xs) (simp_all add: require_list_def py_or_def)

lemma filter_logic_form:
  "filter_logic v path = Inr logic \<Longrightarrow> logic \<in> {''AND'', ''OR''} \<and> filter_logic (PStr logic) path' = Inr logic"
  by (auto simp: filter_logic_def Let_def rbind_Inr_iff words_again)

definition item_form :: "(string \<times> pydict) list \<Rightarrow> pydict \<Rightarrow> bool" where
  "item_form by_name it \<longleftrightarrow>
     (\<forall>path. normalize_filter_item (PDict it) path by_name = Inr it) \<and>
     ((\<exists>c. it = (''kind'', PStr ''condition'') # c \<and> condition_form by_name c) \<or>
      (\<exists>logic cs. it = [(''kind'', PStr ''group''), (''logic'', PStr logic), (''conditions'', PList (map PDict cs))] \<and>
         (\<forall>c \<in> set cs. condition_form by_name c)))"

lemma group_form:
  assumes "filter_logic v path0 = Inr logic" and "cs \<noteq> []" and "\<And>c. c \<in> set cs \<Longrightarrow> condition_form by_name c"
  shows "item_form by_name [(''kind'', PStr ''group''), (''logic'', PStr logic), (''conditions'', PList (map PDict cs))]"
proof -
  have "\<exists>ds. map PDict cs = map PDict ds \<and> (\<forall>c \<in> set ds. condition_form by_name c)"
    using assms(3) by blast
  then show ?thesis
    using filter_logic_form [OF assms(1)] assms(2) conditions_again [OF assms(3)]
    unfolding item_form_def normalize_filter_item_def by (simp add: words_again)
qed

lemma condition_item_form:
  assumes "condition_form by_name c"
  shows "item_form by_name ((''kind'', PStr ''condition'') # c)"
proof -
  have "normalize_filter_condition (PDict ([(''kind'', PStr ''condition'')] @ c)) path by_name = Inr c" for path
    using assms unfolding condition_form_def by blast
  then show ?thesis using assms unfolding item_form_def normalize_filter_item_def by (simp add: words_again)
qed

lemma filter_item_form:
  assumes "normalize_filter_item raw path by_name = Inr it"
  shows "item_form by_name it"
proof -
  obtain d where raw: "raw = PDict d" using assms by (cases raw) (auto simp: normalize_filter_item_def)
  show ?thesis
  proof (cases "lower (or_text (dget d ''kind'') ''condition'') = ''group''")
    case True
    obtain logic raws cs where "filter_logic (dget d ''logic'') path = Inr logic" "cs \<noteq> []"
        "map_indexed (\<lambda>i c. normalize_filter_condition c (indexed (path @ ''.conditions'') i) by_name) 0 raws = Inr cs"
        "it = [(''kind'', PStr ''group''), (''logic'', PStr logic), (''conditions'', PList (map PDict cs))]"
      using assms True unfolding raw normalize_filter_item_def by (auto simp: rbind_Inr_iff)
    then show ?thesis using group_form conditions_form by metis
  next
    case False
    obtain c where "normalize_filter_condition raw path by_name = Inr c" "it = (''kind'', PStr ''condition'') # c"
      using assms False unfolding raw normalize_filter_item_def by (auto simp: Let_def rbind_Inr_iff)
    then show ?thesis using condition_item_form filter_condition_form by simp
  qed
qed

definition filter_form :: "(string \<times> pydict) list \<Rightarrow> pydict \<Rightarrow> bool" where
  "filter_form by_name fs \<longleftrightarrow> fs = [] \<or> (\<exists>logic items.
     fs = [(''filter'', PDict [(''logic'', PStr logic), (''items'', PList (map PDict items))])] \<and>
     items \<noteq> [] \<and> logic \<in> {''AND'', ''OR''} \<and> (\<forall>it \<in> set items. item_form by_name it) \<and>
     normalize_filter (PDict [(''logic'', PStr logic), (''items'', PList (map PDict items))]) by_name = Inr fs)"

lemma normalize_filter_form:
  assumes "normalize_filter raw by_name = Inr fs"
  shows "filter_form by_name fs"
proof -
  obtain d where raw: "raw = PDict d" using assms by (cases raw) (auto simp: normalize_filter_def)
  obtain logic where logic: "filter_logic (dget d ''logic'') ''filter'' = Inr logic"
    using assms unfolding raw normalize_filter_def by (auto simp: rbind_Inr_iff)
  obtain items where items: "\<forall>it \<in> set items. item_form by_name it"
      "fs = (if items = [] then [] else [(''filter'', PDict [(''logic'', PStr logic), (''items'', PList (map PDict items))])])"
  proof (cases "dget d ''items'' = PNone")
    case False
    then obtain raws items where "map_indexed (\<lambda>i x. normalize_filter_item x (indexed ''filter.items'' i) by_name) 0 raws = Inr items"
        "fs = (if items = [] then [] else [(''filter'', PDict [(''logic'', PStr logic), (''items'', PList (map PDict items))])])"
      using assms logic unfolding raw normalize_filter_def by (auto simp: rbind_Inr_iff)
    moreover from this(1) have "\<forall>it \<in> set items. item_form by_name it"
      using map_indexed_all [of _ 0 raws items "item_form by_name"] filter_item_form by blast
    ultimately show ?thesis using that by blast
  next
    case True
    then obtain raws cs where "map_indexed (\<lambda>i c. normalize_filter_condition c (indexed ''filter.conditions'' i) by_name) 0 raws = Inr cs"
        "fs = (if cs = [] then [] else [(''filter'', PDict [(''logic'', PStr logic), (''items'',
           PList (map PDict [[(''kind'', PStr ''group''), (''logic'', PStr logic), (''conditions'', PList (map PDict cs))]]))])])"
      using assms logic unfolding raw normalize_filter_def by (auto simp: rbind_Inr_iff split: if_splits)
    then show ?thesis using that [of "if cs = [] then [] else
        [[(''kind'', PStr ''group''), (''logic'', PStr logic), (''conditions'', PList (map PDict cs))]]"]
      group_form [OF logic _ conditions_form] by simp
  qed
  have again: "map_indexed (\<lambda>i x. normalize_filter_item x (indexed ''filter.items'' i) by_name) 0 (map PDict items) = Inr items"
    by (rule map_indexed_fixed) (use items(1) in \<open>simp add: item_form_def\<close>)
  show ?thesis
    using items again filter_logic_form [OF logic]
    by (auto simp: filter_form_def normalize_filter_def)
qed

definition perimeter_form ::
  "calendar \<Rightarrow> (string \<times> pydict) list \<Rightarrow> string list option \<Rightarrow> pydict \<Rightarrow> pyval list option \<Rightarrow> pydict \<Rightarrow> bool" where
  "perimeter_form cal by_name columns fs sorts n \<longleftrightarrow>
     n = (if by_name = [] then [] else [(''parameters'', PList (map (PDict \<circ> snd) by_name))]) @
         (case columns of None \<Rightarrow> [] | Some cs \<Rightarrow> [(''selected_columns'', PList (map PStr cs))]) @ fs @
         (case sorts of None \<Rightarrow> [] | Some ss \<Rightarrow> [(''sort'', PList ss)]) \<and>
     distinct (map fst by_name) \<and>
     (\<forall>(m, p) \<in> set by_name. parameter_form cal p \<and> m = token (dget p ''name'')) \<and>
     (\<forall>cs. columns = Some cs \<longrightarrow> distinct cs \<and> (\<forall>c \<in> set cs. strip c = c \<and> c \<noteq> [])) \<and>
     filter_form by_name fs \<and>
     (\<forall>ss. sorts = Some ss \<longrightarrow> (\<forall>v \<in> set ss. \<forall>j. normalize_sort_item j v = Inr v))"

lemma optional_list_None: "optional_list v name = Inr None \<longleftrightarrow> v = PNone"
  by (cases v) (simp_all add: optional_list_def)

lemma normalize_entries_form:
  assumes "iso_laws cal" and "normalize_entries cal d = Inr n"
  shows "\<exists>by_name columns fs sorts. perimeter_form cal by_name columns fs sorts n"
proof -
  obtain raw_params by_name raw_columns cols fs raw_sort ss where
      by_name: "normalize_parameters cal 0 (case raw_params of None \<Rightarrow> [] | Some xs \<Rightarrow> xs) [] = Inr by_name"
      and cols: "(case raw_columns of None \<Rightarrow> Inr [] | Some xs \<Rightarrow> rbind (normalize_columns xs []) (\<lambda>cs.
          Inr [(''selected_columns'', PList (map PStr cs))])) = Inr cols"
      and fs: "(case dget d ''filter'' of PNone \<Rightarrow> Inr [] | raw \<Rightarrow> normalize_filter raw by_name) = Inr fs"
      and ss: "(case raw_sort of None \<Rightarrow> Inr [] | Some xs \<Rightarrow> rbind (map_indexed normalize_sort_item 0 xs) (\<lambda>ss.
          Inr [(''sort'', PList ss)])) = Inr ss"
      and n: "n = (if by_name = [] then [] else [(''parameters'', PList (map (PDict \<circ> snd) by_name))]) @ cols @ fs @ ss"
    using assms(2) unfolding normalize_entries_def rbind_Inr_iff by blast
  have 1: "distinct (map fst by_name)" "\<forall>(m, p) \<in> set by_name. parameter_form cal p \<and> m = token (dget p ''name'')"
    using normalize_parameters_form [OF assms(1) by_name] by auto
  obtain columns where 2: "cols = (case columns of None \<Rightarrow> [] | Some cs \<Rightarrow> [(''selected_columns'', PList (map PStr cs))])"
      "\<And>cs. columns = Some cs \<Longrightarrow> distinct cs \<and> (\<forall>c \<in> set cs. strip c = c \<and> c \<noteq> [])"
  proof (cases raw_columns)
    case None
    then show ?thesis using that [of None] cols by simp
  next
    case (Some xs)
    then obtain cs where "normalize_columns xs [] = Inr cs" "cols = [(''selected_columns'', PList (map PStr cs))]"
      using cols by (auto simp: rbind_Inr_iff)
    then show ?thesis using that [of "Some cs"] normalize_columns_form [of xs "[]" cs] by auto
  qed
  have 3: "filter_form by_name fs"
    using fs normalize_filter_form by (cases "dget d ''filter''") (auto simp: filter_form_def)
  obtain sorts where 4: "ss = (case sorts of None \<Rightarrow> [] | Some ss \<Rightarrow> [(''sort'', PList ss)])"
      "\<And>ss. sorts = Some ss \<Longrightarrow> \<forall>v \<in> set ss. \<forall>j. normalize_sort_item j v = Inr v"
  proof (cases raw_sort)
    case None
    then show ?thesis using that [of None] ss by simp
  next
    case (Some xs)
    then obtain vs where vs: "map_indexed normalize_sort_item 0 xs = Inr vs" "ss = [(''sort'', PList vs)]"
      using ss by (auto simp: rbind_Inr_iff)
    have "\<forall>v \<in> set vs. \<forall>j. normalize_sort_item j v = Inr v"
      using map_indexed_all [OF vs(1), of "\<lambda>v. \<forall>j. normalize_sort_item j v = Inr v"] sort_item_again by blast
    then show ?thesis using that [of "Some vs"] vs(2) by simp
  qed
  show ?thesis unfolding perimeter_form_def n 2(1) 4(1) using 1 2(2) 3 4(2) by blast
qed

lemma perimeter_form_lookups:
  assumes "perimeter_form cal by_name columns fs sorts n"
  shows "dget n ''parameters'' = (if by_name = [] then PNone else PList (map (PDict \<circ> snd) by_name))"
    and "dget n ''selected_columns'' = (case columns of None \<Rightarrow> PNone | Some cs \<Rightarrow> PList (map PStr cs))"
    and "dget n ''filter'' = dget fs ''filter''"
    and "dget n ''sort'' = (case sorts of None \<Rightarrow> PNone | Some ss \<Rightarrow> PList ss)"
  using assms unfolding perimeter_form_def filter_form_def
  by (auto simp: dget_append split: option.splits)

lemma perimeter_form_again:
  assumes "perimeter_form cal by_name columns fs sorts n"
  shows "normalize_entries cal n = Inr n"
proof -
  note look = perimeter_form_lookups [OF assms]
  have f: "distinct (map fst by_name)" "\<forall>(m, p) \<in> set by_name. parameter_form cal p \<and> m = token (dget p ''name'')"
      "filter_form by_name fs"
      and g: "\<And>cs. columns = Some cs \<Longrightarrow> distinct cs \<and> (\<forall>c \<in> set cs. strip c = c \<and> c \<noteq> [])"
        "\<And>ss v j. sorts = Some ss \<Longrightarrow> v \<in> set ss \<Longrightarrow> normalize_sort_item j v = Inr v"
    using assms unfolding perimeter_form_def by blast+
  have 1: "\<exists>r. optional_list (dget n ''parameters'') ''parameters'' = Inr r \<and>
      normalize_parameters cal 0 (case r of None \<Rightarrow> [] | Some xs \<Rightarrow> xs) [] = Inr by_name"
    using normalize_parameters_again [of by_name cal "[]" 0] f by (auto simp: look optional_list_def)
  have 2: "\<exists>r. optional_list (dget n ''selected_columns'') ''selected_columns'' = Inr r \<and>
      (case r of None \<Rightarrow> Inr [] | Some xs \<Rightarrow> rbind (normalize_columns xs []) (\<lambda>cs.
        Inr [(''selected_columns'', PList (map PStr cs))])) =
      Inr (case columns of None \<Rightarrow> [] | Some cs \<Rightarrow> [(''selected_columns'', PList (map PStr cs))])"
    using g(1) normalize_columns_again [of "[]"]
    by (cases columns) (auto simp: look optional_list_def)
  have 3: "(case dget n ''filter'' of PNone \<Rightarrow> Inr [] | raw \<Rightarrow> normalize_filter raw by_name) = Inr fs"
    using f(3) by (auto simp: look filter_form_def)
  have 4: "\<exists>r. optional_list (dget n ''sort'') ''sort'' = Inr r \<and>
      (case r of None \<Rightarrow> Inr [] | Some xs \<Rightarrow> rbind (map_indexed normalize_sort_item 0 xs) (\<lambda>ss.
        Inr [(''sort'', PList ss)])) = Inr (case sorts of None \<Rightarrow> [] | Some ss \<Rightarrow> [(''sort'', PList ss)])"
    using g(2) map_indexed_fixed [of _ normalize_sort_item id 0]
    by (cases sorts) (auto simp: look optional_list_def)
  show ?thesis unfolding normalize_entries_def using 1 2 3 4 assms
    by (auto simp: rbind_Inr_iff perimeter_form_def)
qed

lemma perimeter_normal:
  assumes "iso_laws cal" and "normalize_perimeter cal v = Inr (Some n)"
  obtains by_name columns fs sorts where "perimeter_form cal by_name columns fs sorts n"
    and "normalize_perimeter cal (PDict n) = Inr (Some n)"
proof -
  obtain d where n: "normalize_entries cal d = Inr n" "n \<noteq> []"
    using assms(2) by (auto simp: normalize_perimeter_def rbind_Inr_iff split: pyval.splits list.splits if_splits)
  obtain by_name columns fs sorts where "perimeter_form cal by_name columns fs sorts n"
    using normalize_entries_form [OF assms(1) n(1)] by blast
  then show ?thesis using that perimeter_form_again n(2)
    by (cases n) (simp_all add: normalize_perimeter_def)
qed

text \<open>
  C29. The normal form of a perimeter is a fixed point: normalising what the normalisation
  returned gives it back unchanged, so a perimeter that was stored, loaded and compiled (which
  normalises again) is the perimeter that was checked.
\<close>

theorem normalize_idempotent:
  assumes "iso_laws cal" and "normalize_perimeter cal v = Inr (Some n)"
  shows "normalize_perimeter cal (PDict n) = Inr (Some n)"
  by (rule perimeter_normal [OF assms])

subsection \<open>Parameter values have their types\<close>

fun has_type :: "string \<Rightarrow> pvalue \<Rightarrow> bool" where
  "has_type ty (Date d) = (ty = ''date'')"
| "has_type ty (Datetime t) = (ty = ''datetime'')"
| "has_type ty (Json PNone) = True"
| "has_type ty (Json (PStr s)) = (ty = ''string'')"
| "has_type ty (Json (PInt i)) = (ty \<in> {''integer'', ''number''})"
| "has_type ty (Json (PFloat q s)) = (ty = ''number'')"
| "has_type ty (Json (PBool b)) = (ty = ''boolean'')"
| "has_type ty (Json v) = False"

lemma coerce_number_typed: "coerce_number cal v = Inr x \<Longrightarrow> has_type ''number'' x"
  by (cases v) (auto dest: coerce_number_Inr)

lemma coerce_integer_typed: "coerce_integer v = Inr x \<Longrightarrow> has_type ''integer'' x"
  by (cases v) (auto dest: coerce_integer_again)

lemma coerce_boolean_typed: "coerce_boolean v = Inr x \<Longrightarrow> has_type ''boolean'' x"
  by (cases v) (auto dest: coerce_boolean_again)

lemma coerce_value_typed:
  assumes "ty \<in> set parameter_type_names" and "coerce_value cal (PStr ty) v = Inr x"
  shows "has_type ty x"
  using assms(1)
proof (cases rule: parameter_types_cases)
  case 1 then show ?thesis using assms(2) by (auto simp: coerce_value_types split: if_splits)
next
  case 2 then show ?thesis using assms(2) coerce_integer_typed by (auto simp: coerce_value_types split: if_splits)
next
  case 3 then show ?thesis using assms(2) coerce_number_typed by (auto simp: coerce_value_types split: if_splits)
next
  case 4 then show ?thesis using assms(2) coerce_boolean_typed by (auto simp: coerce_value_types split: if_splits)
next
  case 5 then show ?thesis using assms(2) by (auto simp: coerce_value_types rbind_Inr_iff split: if_splits)
next
  case 6 then show ?thesis using assms(2) by (auto simp: coerce_value_types rbind_Inr_iff split: if_splits)
qed

lemma relabel_Inr [simp]: "relabel i m r = Inr x \<longleftrightarrow> r = Inr x"
  by (cases r) (simp_all add: relabel_def)

lemma resolve_default_typed:
  assumes "ty \<in> set parameter_type_names" and "dget d ''type'' = PStr ty"
    and "resolve_default_value cal i d = Inr x"
  shows "has_type ty x"
  using assms(3) coerce_value_typed [OF assms(1)]
  by (auto simp: resolve_default_value_def assms(2) Let_def rbind_Inr_iff split: if_splits)

lemma dset_fresh: "k \<notin> set (map fst al) \<Longrightarrow> dset k v al = al @ [(k, v)]"
  by (induction al) auto

definition typed_for :: "pydict \<Rightarrow> pvalue \<Rightarrow> bool" where
  "typed_for d x \<longleftrightarrow> (\<exists>ty \<in> set parameter_type_names. dget d ''type'' = PStr ty \<and> has_type ty x)"

lemma resolve_definitions_typed:
  "resolve_definitions cal i ex ds acc = Inr r \<Longrightarrow> distinct (map fst acc @ map fst ds) \<Longrightarrow>
   \<forall>(m, d) \<in> set ds. \<exists>ty \<in> set parameter_type_names. dget d ''type'' = PStr ty \<Longrightarrow>
   \<exists>new. r = acc @ new \<and> list_all2 (\<lambda>(m, d) (m', x). m' = m \<and> typed_for d x) ds new"
proof (induction ds arbitrary: acc)
  case (Cons md ds)
  obtain m d where md: "md = (m, d)" by fastforce
  obtain ty where ty: "ty \<in> set parameter_type_names" "dget d ''type'' = PStr ty"
    using Cons.prems(3) by (auto simp: md)
  obtain x where x: "(case map_of ex m of
        Some v \<Rightarrow> relabel i m (coerce_value cal (dget d ''type'') (Json v))
      | None \<Rightarrow> resolve_default_value cal i d) = Inr x"
      and rest: "resolve_definitions cal i ex ds (dset m x acc) = Inr r"
    using Cons.prems(1) by (auto simp: md rbind_Inr_iff)
  have "typed_for d x"
    using x ty coerce_value_typed [OF ty(1)] resolve_default_typed [OF ty]
    by (auto simp: typed_for_def split: option.splits)
  moreover have "dset m x acc = acc @ [(m, x)]"
    using Cons.prems(2) by (intro dset_fresh) (simp add: md)
  ultimately show ?case
    using Cons.IH [OF rest] Cons.prems(2,3) by (fastforce simp: md)
qed simp

lemma named_definitions_form:
  "\<forall>(m, p) \<in> set by_name. parameter_form cal p \<and> m = token (dget p ''name'') \<Longrightarrow>
   named_definitions (map (PDict \<circ> snd) by_name) = by_name"
  by (induction by_name) (auto simp: parameter_form_def)

lemma resolve_parameters_form:
  assumes form: "perimeter_form cal by_name columns fs sorts n"
    and "resolve_parameters cal (PDict n) ex i = Inr r"
  shows "list_all2 (\<lambda>(m, d) (m', x). m' = m \<and> typed_for d x) by_name r"
proof (cases "by_name = []")
  case True
  then show ?thesis using assms(2) by (simp add: resolve_parameters_def perimeter_form_lookups(1) [OF form])
next
  case False
  have f: "distinct (map fst by_name)" "\<forall>(m, p) \<in> set by_name. parameter_form cal p \<and> m = token (dget p ''name'')"
    using form unfolding perimeter_form_def by blast+
  obtain e where "resolve_definitions cal i e by_name [] = Inr r"
    using assms(2) False named_definitions_form [OF f(2)]
    by (auto simp: resolve_parameters_def perimeter_form_lookups(1) [OF form] rbind_Inr_iff Let_def iterated_def
      split: if_splits)
  moreover have "\<forall>(m, d) \<in> set by_name. \<exists>ty \<in> set parameter_type_names. dget d ''type'' = PStr ty"
    using f(2) unfolding parameter_form_def by blast
  ultimately show ?thesis using resolve_definitions_typed [of cal i e by_name "[]" r] f(1) by auto
qed

text \<open>
  C34. The parameters of a perimeter are typed: when the values of the parameters of a normalised
  perimeter resolve, from overrides, default values or built-in bindings, there is one value per
  declared parameter, in the order of the declarations, and it is null or a value of the
  parameter's type.
\<close>

theorem resolved_parameters_typed:
  assumes "iso_laws cal" and "normalize_perimeter cal v = Inr (Some n)"
    and "resolve_parameters cal (PDict n) overrides dataset_id = Inr r"
  shows "list_all2 (\<lambda>(m, d) (m', x). m' = m \<and> typed_for d x)
     (named_definitions (list_or_empty (dget n ''parameters''))) r"
proof -
  obtain by_name columns fs sorts where form: "perimeter_form cal by_name columns fs sorts n"
      and "normalize_perimeter cal (PDict n) = Inr (Some n)"
    using perimeter_normal [OF assms(1,2)] .
  have "\<forall>(m, p) \<in> set by_name. parameter_form cal p \<and> m = token (dget p ''name'')"
    using form unfolding perimeter_form_def by blast
  then have "named_definitions (list_or_empty (dget n ''parameters'')) = by_name"
    using named_definitions_form [of by_name cal] by (auto simp: perimeter_form_lookups(1) [OF form])
  then show ?thesis using resolve_parameters_form [OF form assms(3)] by simp
qed

subsection \<open>Compilation fails only on unknown columns\<close>

text \<open>The columns a normalised perimeter names.\<close>

definition field_of :: "pydict \<Rightarrow> string" where
  "field_of d = py_str (dget d ''field'')"

definition item_fields :: "pydict \<Rightarrow> string list" where
  "item_fields it =
     (if dget it ''kind'' = PStr ''condition'' then [field_of it]
      else map field_of (dicts_of (list_or_empty (dget it ''conditions''))))"

definition perimeter_fields :: "pydict \<Rightarrow> string list" where
  "perimeter_fields n =
     map py_str (list_or_empty (dget n ''selected_columns'')) @
     concat (map item_fields (dicts_of (list_or_empty (dget (dict_or_empty (dget n ''filter'')) ''items'')))) @
     map field_of (dicts_of (list_or_empty (dget n ''sort'')))"

text \<open>
  What a result says of the columns it needs: with a result they exist, and an error means that
  one is missing or that SQLAlchemy refused a comparison.
\<close>

definition needs_columns :: "sql_refusal \<Rightarrow> string list \<Rightarrow> string list \<Rightarrow> 'a result \<Rightarrow> bool" where
  "needs_columns sql available fs r \<longleftrightarrow>
     (case r of
        Inr _ \<Rightarrow> set fs \<subseteq> set available
      | Inl e \<Rightarrow> \<not> set fs \<subseteq> set available \<or> (\<exists>p. sql p = Some e))"

lemma needs_pure [simp]: "needs_columns sql av [] (Inr x)"
  by (simp add: needs_columns_def)

lemma needs_guard: "needs_columns sql av [c] (guard (c \<in> set av) e)"
  by (simp add: needs_columns_def guard_def)

lemma needs_built: "needs_columns sql av [] (built sql p)"
  by (auto simp: needs_columns_def built_def split: option.splits)

lemma needs_bind:
  assumes "needs_columns sql av fs r" and "\<And>x. r = Inr x \<Longrightarrow> needs_columns sql av gs (f x)"
  shows "needs_columns sql av (fs @ gs) (rbind r f)"
proof (cases r)
  case (Inl e)
  then show ?thesis using assms(1) by (auto simp: needs_columns_def)
next
  case (Inr x)
  then show ?thesis using assms(1) assms(2) [OF Inr]
    by (auto simp: needs_columns_def split: sum.splits)
qed

lemma needs_bind_pure:
  "needs_columns sql av fs r \<Longrightarrow> needs_columns sql av fs (rbind r (\<lambda>x. Inr (g x)))"
  using needs_bind [of sql av fs r "[]" "\<lambda>x. Inr (g x)"] by simp

lemma needs_map:
  "(\<And>x. x \<in> set xs \<Longrightarrow> needs_columns sql av (g x) (f x)) \<Longrightarrow>
   needs_columns sql av (concat (map g xs)) (map_result f xs)"
proof (induction xs)
  case (Cons x xs)
  then show ?case by (auto intro!: needs_bind needs_bind_pure)
qed simp

lemma dicts_of_dicts [simp]: "dicts_of (map PDict ds) = ds"
  by (induction ds) simp_all

lemma operator_pred_needs:
  "op \<in> set supported_operators \<Longrightarrow> needs_columns sql av [] (operator_pred sql op col v)"
  by (auto simp: supported_operators_def operator_pred_def needs_built)

lemma condition_value_needs:
  "refers_to v (dom (map_of r)) \<Longrightarrow> needs_columns sql av [] (condition_value v r)"
  by (auto simp: refers_to_def condition_value_def Let_def split: option.splits)

lemma compile_condition_needs:
  assumes "condition_form by_name c" and "map fst by_name = map fst r"
    and "d = c \<or> d = (''kind'', PStr ''condition'') # c"
  shows "needs_columns sql av [field_of d] (compile_condition sql av d r)"
proof -
  obtain op where op: "op \<in> set supported_operators" "dget d ''operator'' = PStr op"
    using assms(1,3) by (auto simp: condition_form_def)
  have "refers_to (dget d ''value'') (set (map fst r))"
    using assms by (auto simp: condition_form_def)
  then have "refers_to (dget d ''value'') (dom (map_of r))"
    by (simp add: dom_map_of_conv_image_fst)
  note body = needs_bind [OF condition_value_needs [OF this] operator_pred_needs [OF op(1)]]
  show ?thesis unfolding compile_condition_def Let_def field_of_def op(2) py_str.simps
    using needs_bind [OF needs_guard body] by simp
qed

lemma compile_item_needs:
  assumes "item_form by_name it" and "map fst by_name = map fst r"
  shows "needs_columns sql av (item_fields it) (compile_filter_item sql av it r)"
proof -
  consider c where "it = (''kind'', PStr ''condition'') # c" "condition_form by_name c"
    | logic cs where "it = [(''kind'', PStr ''group''), (''logic'', PStr logic), (''conditions'', PList (map PDict cs))]"
        "\<forall>c \<in> set cs. condition_form by_name c"
    using assms(1) unfolding item_form_def by blast
  then show ?thesis
  proof cases
    case 1
    then show ?thesis using compile_condition_needs [OF 1(2) assms(2), of it]
      by (simp add: compile_filter_item_def item_fields_def)
  next
    case 2
    have "needs_columns sql av (concat (map (\<lambda>c. [field_of c]) cs)) (map_result (\<lambda>c. compile_condition sql av c r) cs)"
      using 2(2) by (intro needs_map compile_condition_needs [OF _ assms(2)]) auto
    then show ?thesis using 2(1)
      by (simp add: compile_filter_item_def item_fields_def needs_bind_pure)
  qed
qed

definition where_fields :: "pydict \<Rightarrow> string list" where
  "where_fields n =
     concat (map item_fields (dicts_of (list_or_empty (dget (dict_or_empty (dget n ''filter'')) ''items''))))"

lemma compile_where_needs:
  assumes "filter_form by_name fs" and "dget n ''filter'' = dget fs ''filter''" and "map fst by_name = map fst r"
  shows "needs_columns sql av (where_fields n) (compile_where sql av n r)"
proof (cases "fs = []")
  case True
  then show ?thesis by (simp add: compile_where_def where_fields_def assms(2))
next
  case False
  then obtain logic items where
      fs: "fs = [(''filter'', PDict [(''logic'', PStr logic), (''items'', PList (map PDict items))])]" "items \<noteq> []"
      and items: "\<forall>it \<in> set items. item_form by_name it"
    using assms(1) unfolding filter_form_def by blast
  have "needs_columns sql av (concat (map item_fields items)) (map_result (\<lambda>i. compile_filter_item sql av i r) items)"
    using items by (intro needs_map compile_item_needs [OF _ assms(3)]) blast
  then show ?thesis using fs by (simp add: compile_where_def where_fields_def assms(2) needs_bind_pure)
qed

lemma select_columns_needs:
  "needs_columns sql av (map py_str (list_or_empty (dget n ''selected_columns''))) (select_columns av n)"
proof (cases "filter (\<lambda>c. c \<notin> set av) (map py_str (list_or_empty (dget n ''selected_columns'')))")
  case Nil
  then show ?thesis by (auto simp: select_columns_def Let_def filter_empty_conv needs_columns_def)
next
  case (Cons c cs)
  have "c \<in> set (filter (\<lambda>c. c \<notin> set av) (map py_str (list_or_empty (dget n ''selected_columns''))))"
    unfolding Cons by simp
  then have "c \<in> set (map py_str (list_or_empty (dget n ''selected_columns'')))" "c \<notin> set av"
    by simp_all
  with Cons show ?thesis by (auto simp: select_columns_def Let_def needs_columns_def)
qed

lemma compile_sort_needs: "needs_columns sql av (map field_of ss) (map_result (compile_sort_item av) ss)"
proof -
  have "needs_columns sql av (concat (map (\<lambda>s. [field_of s]) ss)) (map_result (compile_sort_item av) ss)"
    unfolding compile_sort_item_def Let_def field_of_def by (intro needs_map needs_bind_pure needs_guard)
  then show ?thesis by simp
qed

text \<open>
  C35. A checked perimeter compiles unless it names a column the table does not have: when its
  parameters resolved, the query of a normalised perimeter is only built if every selected
  column, filter field and sort field is a column of the table, and a failure means that one is
  missing or that SQLAlchemy refused to build a comparison. In particular no operator is
  unsupported and no parameter reference is without a value at that stage.
\<close>

theorem compile_fails_only_on_columns:
  assumes "iso_laws cal" and "normalize_perimeter cal v = Inr (Some n)"
    and "resolve_parameters cal (PDict n) overrides dataset_id = Inr r"
  shows "case compile_perimeter sql cal available (PDict n) limit r of
           Inr c \<Rightarrow> set (perimeter_fields n) \<subseteq> set available \<and> dc_normalized c = Some n
         | Inl e \<Rightarrow> \<not> set (perimeter_fields n) \<subseteq> set available \<or> (\<exists>p. sql p = Some e)"
proof -
  obtain by_name columns fs sorts where form: "perimeter_form cal by_name columns fs sorts n"
      and again: "normalize_perimeter cal (PDict n) = Inr (Some n)"
    using perimeter_normal [OF assms(1,2)] .
  have "list_all2 (\<lambda>(m, d) (m', x). m' = m \<and> typed_for d x) by_name r"
    by (rule resolve_parameters_form [OF form assms(3)])
  then have names: "map fst by_name = map fst r"
    by (induction rule: list_all2_induct) auto
  have "filter_form by_name fs" using form unfolding perimeter_form_def by blast
  note w = compile_where_needs [OF this perimeter_form_lookups(3) [OF form] names]
  have "needs_columns sql available (perimeter_fields n) (compile_perimeter sql cal available (PDict n) limit r)"
    unfolding compile_perimeter_def again perimeter_fields_def where_fields_def [symmetric]
    by (simp add: Let_def needs_bind needs_bind_pure select_columns_needs w compile_sort_needs)
  then show ?thesis
    by (auto simp: needs_columns_def compile_perimeter_def again Let_def rbind_Inr_iff split: sum.splits)
qed

subsection \<open>The perimeter of a table of orders\<close>

definition demo_calendar :: calendar where
  "demo_calendar =
     \<lparr>cl_now = ''2024-05-01T10:00:00'', cl_today = ''2024-05-01'',
      cl_parse_date = (\<lambda>s. if s = ''2024-01-01'' then Some s else None),
      cl_parse_datetime = (\<lambda>s. None), cl_date_part = (\<lambda>t. t), cl_midnight = (\<lambda>d. d),
      cl_spaced = (\<lambda>t. t), cl_float = (\<lambda>s. None)\<rparr>"

definition orders_perimeter :: pyval where
  "orders_perimeter = PDict
     [(''parameters'', PList [PDict [(''name'', PStr '' since ''), (''type'', PStr ''DATE''),
        (''default_value'', PStr ''2024-01-01 '')]]),
      (''selected_columns'', PList [PStr ''id'']),
      (''filter'', PDict [(''items'', PList [PDict [(''field'', PStr ''created''), (''operator'', PStr ''gte''),
        (''value'', PDict [(''kind'', PStr ''parameter''), (''name'', PStr ''since'')])]])]),
      (''sort'', PList [PDict [(''field'', PStr ''id'')]])]"

definition orders_normal :: pydict where
  "orders_normal =
     (case normalize_perimeter demo_calendar orders_perimeter of Inr (Some n) \<Rightarrow> n | _ \<Rightarrow> [])"

lemma demo_iso_laws: "iso_laws demo_calendar"
  by (simp add: iso_laws_def demo_calendar_def) code_simp

lemma orders_normalizes: "normalize_perimeter demo_calendar orders_perimeter = Inr (Some orders_normal)"
  by code_simp

lemma orders_resolve:
  "resolve_parameters demo_calendar (PDict orders_normal) PNone None = Inr [(''since'', Date ''2024-01-01'')]"
  by code_simp

lemma orders_fields: "perimeter_fields orders_normal = [''id'', ''created'', ''id'']"
  by code_simp

theorem normalize_idempotent_witness:
  "normalize_perimeter demo_calendar (PDict orders_normal) = Inr (Some orders_normal) \<and>
   normalize_perimeter demo_calendar orders_perimeter = Inr (Some orders_normal)"
  using normalize_idempotent [OF demo_iso_laws orders_normalizes] orders_normalizes by blast

theorem resolved_parameters_typed_witness:
  "list_all2 (\<lambda>(m, d) (m', x). m' = m \<and> typed_for d x)
     (named_definitions (list_or_empty (dget orders_normal ''parameters''))) [(''since'', Date ''2024-01-01'')]"
  by (rule resolved_parameters_typed [OF demo_iso_laws orders_normalizes orders_resolve])

theorem compile_fails_only_on_columns_witness:
  "(case compile_perimeter (\<lambda>p. None) demo_calendar [''id'', ''created''] (PDict orders_normal) None
      [(''since'', Date ''2024-01-01'')] of
      Inr c \<Rightarrow> dc_normalized c = Some orders_normal
    | Inl e \<Rightarrow> False) \<and>
   (case compile_perimeter (\<lambda>p. None) demo_calendar [''id''] (PDict orders_normal) None
      [(''since'', Date ''2024-01-01'')] of Inr c \<Rightarrow> False | Inl e \<Rightarrow> True)"
  using compile_fails_only_on_columns [OF demo_iso_laws orders_normalizes orders_resolve,
      where sql = "\<lambda>p. None" and available = "[''id'', ''created'']" and limit = None]
    compile_fails_only_on_columns [OF demo_iso_laws orders_normalizes orders_resolve,
      where sql = "\<lambda>p. None" and available = "[''id'']" and limit = None]
  unfolding orders_fields by (auto split: sum.splits)

end
