(* ===== verification/Mock_Routes.thy ===== *)
theory Mock_Routes
  imports Entity_Store Py_Value
begin

section \<open>Routes of a mock server\<close>

text \<open>
  \<open>mock_servers/models/runtime_models.py\<close>, \<open>services/runtime/mock_runtime_loader.py\<close> and the
  matching half of \<open>mock_runtime_dispatcher.py\<close>: the snapshot of a stored mock server that the
  runtime works on, and the route a request is given to.
\<close>

subsection \<open>Snapshots\<close>

record mock_command =
  mk_id :: string
  mk_description :: string
  mk_command_code :: string
  mk_command_type :: string
  mk_configuration :: pydict
  mk_order :: int

record api_route =
  rt_id :: string
  rt_description :: string
  rt_order :: int
  rt_method :: string
  rt_path :: string
  rt_params :: pydict
  rt_headers :: pydict
  rt_body :: pyval
  rt_body_match :: string
  rt_priority :: int
  rt_response_status :: pyval
  rt_response_headers :: pydict
  rt_response_body :: pyval
  rt_commands :: "mock_command list"
  rt_pre_response_commands :: "mock_command list"
  rt_post_response_commands :: "mock_command list"

record queue_binding =
  qb_id :: string
  qb_description :: string
  qb_order :: int
  qb_queue_id :: string
  qb_polling_interval_seconds :: int
  qb_max_messages :: int
  qb_commands :: "mock_command list"

record runtime_server =
  rs_id :: string
  rs_description :: string
  rs_endpoint :: string
  rs_is_active :: bool
  rs_apis :: "api_route list"
  rs_queues :: "queue_binding list"

subsection \<open>Stored servers\<close>

record mock_server_row =
  sw_description :: string
  sw_endpoint :: string
  sw_configuration :: pyval
  sw_is_active :: bool

record mock_api_row =
  pw_mock_server_id :: string
  pw_description :: string
  pw_method :: string
  pw_path :: string
  pw_configuration :: pyval
  pw_order :: int

record mock_queue_row =
  uw_mock_server_id :: string
  uw_queue_id :: string
  uw_description :: string
  uw_configuration :: pyval
  uw_order :: int

record mock_command_row =
  ow_owner_id :: string
  ow_description :: string
  ow_command_code :: string
  ow_command_type :: string
  ow_configuration :: pyval
  ow_order :: int

record mock_tables =
  mt_servers :: "mock_server_row table"
  mt_apis :: "mock_api_row table"
  mt_api_commands :: "mock_command_row table"
  mt_queues :: "mock_queue_row table"
  mt_queue_commands :: "mock_command_row table"

definition get_apis_by_server_id :: "string \<Rightarrow> mock_tables \<Rightarrow> mock_api_row table" where
  "get_apis_by_server_id sid t =
     sort_key (\<lambda>(i, r). pw_order r) (rows_where (\<lambda>r. pw_mock_server_id r = sid) (mt_apis t))"

definition get_queues_by_server_id :: "string \<Rightarrow> mock_tables \<Rightarrow> mock_queue_row table" where
  "get_queues_by_server_id sid t =
     sort_key (\<lambda>(i, r). uw_order r) (rows_where (\<lambda>r. uw_mock_server_id r = sid) (mt_queues t))"

definition commands_of_owner :: "string \<Rightarrow> mock_command_row table \<Rightarrow> mock_command_row table" where
  "commands_of_owner owner t =
     sort_key (\<lambda>(i, r). ow_order r) (rows_where (\<lambda>r. ow_owner_id r = owner) t)"

subsection \<open>Paths and endpoints\<close>

definition normalize_path :: "string \<Rightarrow> string" where
  "normalize_path path =
     (let raw = strip path in
      if raw = [] then ''/''
      else let rooted = (if startswith raw ''/'' then raw else CHR ''/'' # raw) in
           if length rooted > 1 then rstrip_char (CHR ''/'') rooted else rooted)"

definition normalize_endpoint :: "string \<Rightarrow> string" where
  "normalize_endpoint endpoint = lower (strip_char (CHR ''/'') (strip endpoint))"

subsection \<open>Loading\<close>

definition operation_snapshot :: "string \<times> mock_command_row \<Rightarrow> mock_command" where
  "operation_snapshot op =
     \<lparr>mk_id = fst op, mk_description = ow_description (snd op),
      mk_command_code = ow_command_code (snd op), mk_command_type = strip (ow_command_type (snd op)),
      mk_configuration = dict_or_empty (ow_configuration (snd op)), mk_order = ow_order (snd op)\<rparr>"

definition extract_operation_cfg :: "pydict \<Rightarrow> pydict" where
  "extract_operation_cfg raw =
     (case dget raw ''cfg'' of
        PDict cfg \<Rightarrow> cfg
      | _ \<Rightarrow>
          (case dget raw ''configuration_json'' of
             PDict cfg \<Rightarrow> cfg
           | _ \<Rightarrow>
               (let raw_type = py_or (py_or (dget raw ''type'') (dget raw ''commandCode'')) (dget raw ''operationType'')
                in if truthy raw_type \<and> \<not> dhas raw ''commandCode''
                   then dset ''commandCode'' raw_type raw else raw)))"

text \<open>An inline operation without an id gets the \<open>uuid4\<close> text \<open>uid n\<close>.\<close>

definition inline_operation_snapshot :: "(nat \<Rightarrow> string) \<Rightarrow> nat \<Rightarrow> pydict \<Rightarrow> nat \<Rightarrow> mock_command result" where
  "inline_operation_snapshot uid n raw order =
     (let cfg = extract_operation_cfg raw in
      rbind (py_int (py_or (dget raw ''order'') (PInt (int order)))) (\<lambda>k.
      Inr \<lparr>mk_id = py_str (py_or (dget raw ''id'') (PStr (uid n))),
           mk_description = text_of (dget raw ''description''),
           mk_command_code = token (dget cfg ''commandCode''),
           mk_command_type = token (dget cfg ''commandType''),
           mk_configuration = cfg, mk_order = k\<rparr>))"

text \<open>The index counts every item of the list, also the ones that are skipped.\<close>

fun inline_operations :: "(nat \<Rightarrow> string) \<Rightarrow> nat \<Rightarrow> nat \<Rightarrow> pyval list \<Rightarrow> mock_command list result" where
  "inline_operations uid n i [] = Inr []"
| "inline_operations uid n i (v # vs) =
     (case v of
        PDict raw \<Rightarrow>
          rbind (inline_operation_snapshot uid (n + i) raw i) (\<lambda>op.
          rbind (inline_operations uid n (Suc i) vs) (\<lambda>ops. Inr (op # ops)))
      | _ \<Rightarrow> inline_operations uid n (Suc i) vs)"

definition parse_inline_operations :: "(nat \<Rightarrow> string) \<Rightarrow> nat \<Rightarrow> pyval \<Rightarrow> mock_command list result" where
  "parse_inline_operations uid n v =
     rbind (inline_operations uid n 0 (list_or_empty v)) (\<lambda>ops.
     Inr (sort_key (\<lambda>op. (mk_order op, mk_id op)) ops))"

definition load_api_route ::
  "(nat \<Rightarrow> string) \<Rightarrow> nat \<Rightarrow> mock_tables \<Rightarrow> string \<times> mock_api_row \<Rightarrow> api_route result" where
  "load_api_route uid n t entity =
     (let cfg = dict_or_empty (pw_configuration (snd entity));
          legacy = map operation_snapshot (commands_of_owner (fst entity) (mt_api_commands t));
          raw_pre = dget cfg ''pre_response_commands'';
          raw_post = dget cfg ''post_response_commands'';
          response = dict_or_empty (dget cfg ''response'') in
      rbind (parse_inline_operations uid n raw_pre) (\<lambda>pre.
      rbind (parse_inline_operations uid (n + length (list_or_empty raw_pre)) raw_post) (\<lambda>post.
      rbind (py_int (py_or (dget cfg ''priority'') (PInt 0))) (\<lambda>priority.
      Inr \<lparr>rt_id = fst entity, rt_description = pw_description (snd entity), rt_order = pw_order (snd entity),
           rt_method = upper (strip (if pw_method (snd entity) = []
             then py_str (py_or (dget cfg ''method'') (PStr ''GET'')) else pw_method (snd entity))),
           rt_path = normalize_path (if pw_path (snd entity) = [] then text_of (dget cfg ''path'')
             else pw_path (snd entity)),
           rt_params = dict_or_empty (dget cfg ''params''),
           rt_headers = dict_or_empty (dget cfg ''headers''),
           rt_body = dget cfg ''body'',
           rt_body_match = lower (strip (py_str (py_or (dget cfg ''body_match'') (PStr ''contains'')))),
           rt_priority = priority,
           rt_response_status = dget_default response ''status'' (py_or (dget cfg ''response_status'') (PInt 200)),
           rt_response_headers = (case dget response ''headers'' of PDict d \<Rightarrow> d
             | _ \<Rightarrow> dict_or_empty (dget cfg ''response_headers'')),
           rt_response_body = dget_default response ''body'' (dget cfg ''response_body''),
           rt_commands = (if is_list raw_post then [] else legacy),
           rt_pre_response_commands = pre,
           rt_post_response_commands = (if is_list raw_post then post else [])\<rparr>))))"

definition load_queue_binding :: "mock_tables \<Rightarrow> string \<times> mock_queue_row \<Rightarrow> queue_binding result" where
  "load_queue_binding t entity =
     (let cfg = dict_or_empty (uw_configuration (snd entity)) in
      rbind (py_int (py_or (dget cfg ''polling_interval_seconds'') (PInt 1))) (\<lambda>poll.
      rbind (py_int (py_or (dget cfg ''max_messages'') (PInt 10))) (\<lambda>most.
      Inr \<lparr>qb_id = fst entity, qb_description = uw_description (snd entity), qb_order = uw_order (snd entity),
           qb_queue_id = uw_queue_id (snd entity), qb_polling_interval_seconds = max poll 1,
           qb_max_messages = max (min most 10) 1,
           qb_commands = map operation_snapshot (commands_of_owner (fst entity) (mt_queue_commands t))\<rparr>)))"

definition inline_count :: "mock_api_row \<Rightarrow> nat" where
  "inline_count r =
     (let cfg = dict_or_empty (pw_configuration r) in
      length (list_or_empty (dget cfg ''pre_response_commands'')) +
      length (list_or_empty (dget cfg ''post_response_commands'')))"

fun load_api_routes ::
  "(nat \<Rightarrow> string) \<Rightarrow> nat \<Rightarrow> mock_tables \<Rightarrow> mock_api_row table \<Rightarrow> api_route list result" where
  "load_api_routes uid n t [] = Inr []"
| "load_api_routes uid n t (e # es) =
     rbind (load_api_route uid n t e) (\<lambda>r.
     rbind (load_api_routes uid (n + inline_count (snd e)) t es) (\<lambda>rs. Inr (r # rs)))"

definition route_key :: "api_route \<Rightarrow> int \<times> int \<times> string" where
  "route_key r = (rt_priority r, rt_order r, rt_id r)"

definition load_runtime_server ::
  "(nat \<Rightarrow> string) \<Rightarrow> mock_tables \<Rightarrow> string \<times> mock_server_row \<Rightarrow> runtime_server result" where
  "load_runtime_server uid t entity =
     rbind (load_api_routes uid 0 t (get_apis_by_server_id (fst entity) t)) (\<lambda>apis.
     rbind (map_result (load_queue_binding t) (get_queues_by_server_id (fst entity) t)) (\<lambda>queues.
     Inr \<lparr>rs_id = fst entity, rs_description = sw_description (snd entity),
          rs_endpoint = normalize_endpoint (sw_endpoint (snd entity)),
          rs_is_active = sw_is_active (snd entity),
          rs_apis = sort_key route_key apis,
          rs_queues = sort_key (\<lambda>q. (qb_order q, qb_id q)) queues\<rparr>))"

subsection \<open>Matching a request\<close>

text \<open>A request as the HTTP layer hands it over; \<open>PNone\<close> is a body that is no JSON text.\<close>

record mock_request =
  mq_method :: string
  mq_path :: string
  mq_query :: "(string \<times> string) list"
  mq_headers :: "(string \<times> string) list"
  mq_body_raw :: string
  mq_body_json :: pyval

definition lower_keys :: "(string \<times> 'a) list \<Rightarrow> (string \<times> 'a) list" where
  "lower_keys d = fold (\<lambda>(k, v) acc. dset (lower (strip k)) v acc) d []"

fun contains :: "pyval \<Rightarrow> pyval \<Rightarrow> bool" where
  "contains (PDict d) a =
     (case a of PDict e \<Rightarrow>
        list_all (\<lambda>(k, v). case map_of e k of None \<Rightarrow> False | Some w \<Rightarrow> contains v w) d
      | _ \<Rightarrow> False)"
| "contains (PList xs) a =
     (case a of PList ys \<Rightarrow> list_all (\<lambda>x. list_ex (contains x) ys) xs | _ \<Rightarrow> False)"
| "contains (PStr s) a = (case a of PStr t \<Rightarrow> str_in s t | _ \<Rightarrow> False)"
| "contains v a = py_eq v a"

definition map_matches :: "pydict \<Rightarrow> (string \<times> string) list \<Rightarrow> bool \<Rightarrow> bool" where
  "map_matches wanted actual normalize_keys =
     (let source = (if normalize_keys then lower_keys actual else actual) in
      list_all (\<lambda>(k, v). map_of source (if normalize_keys then lower (strip k) else k) = Some (py_str v)) wanted)"

definition body_matches :: "api_route \<Rightarrow> pyval \<Rightarrow> string \<Rightarrow> bool" where
  "body_matches route body_json body_raw =
     (let actual = (if body_json \<noteq> PNone then body_json else PStr body_raw) in
      if rt_body route = PNone then True
      else if (case rt_body route of PStr s \<Rightarrow> upper (strip s) = ''ANY'' | _ \<Rightarrow> False) then True
      else if rt_body_match route = ''equals'' then py_eq (rt_body route) actual
      else contains (rt_body route) actual)"

definition route_matches :: "mock_request \<Rightarrow> api_route \<Rightarrow> bool" where
  "route_matches rq route \<longleftrightarrow>
     rt_method route = upper (strip (mq_method rq)) \<and>
     rt_path route = normalize_path (mq_path rq) \<and>
     map_matches (rt_params route) (mq_query rq) False \<and>
     map_matches (rt_headers route) (lower_keys (mq_headers rq)) True \<and>
     body_matches route (mq_body_json rq) (mq_body_raw rq)"

fun find_route :: "api_route list \<Rightarrow> mock_request \<Rightarrow> api_route option" where
  "find_route [] rq = None"
| "find_route (r # rs) rq = (if route_matches rq r then Some r else find_route rs rq)"

definition find_matching_api_route :: "runtime_server \<Rightarrow> mock_request \<Rightarrow> api_route option" where
  "find_matching_api_route server rq = find_route (rs_apis server) rq"

end
