(* ===== verification/Mock_Runtime.thy ===== *)
theory Mock_Runtime
  imports Mock_Routes Command_Composite
begin

section \<open>Serving a request\<close>

text \<open>
  \<open>mock_runtime_dispatcher.py\<close>, \<open>mock_trigger_executor.py\<close>, \<open>mock_response_builder.py\<close>,
  \<open>mock_event_envelope.py\<close> and the response half of \<open>api/mock_runtime_api.py\<close>: a request that
  matches a route is recorded as an invocation, the commands before the response run on a run
  context of their own, the response is resolved in that context, and the commands after the
  response are handed to the web server as a task.
\<close>

record invocation_row =
  vw_mock_server_id :: string
  vw_trigger_type :: string
  vw_event_json :: pyval

record 'w mock_host =
  mh_machine :: "'w machine"
  mh_invocations :: "invocation_row table"

definition on_host :: "('w machine, 'a) eff \<Rightarrow> ('w mock_host, 'a) eff" where
  "on_host m = (\<lambda>s. case m (mh_machine s) of (r, t) \<Rightarrow> (r, s\<lparr>mh_machine := t\<rparr>))"

definition log_mock_server_event ::
  "string \<Rightarrow> string \<Rightarrow> string \<Rightarrow> pyval \<Rightarrow> ('w machine, unit) eff" where
  "log_mock_server_event subject message level payload =
     emodify (\<lambda>s. s\<lparr>mc_logs := mc_logs s @ [\<lparr>lr_subject_type = ''MOCK_SERVER'', lr_subject = subject,
       lr_level = level, lr_message = message, lr_payload = payload\<rparr>]\<rparr>)"

subsection \<open>Event envelopes\<close>

definition pairs_json :: "(string \<times> string) list \<Rightarrow> pyval" where
  "pairs_json d = PDict (map (\<lambda>(k, v). (k, PStr v)) d)"

definition build_api_event_envelope ::
  "string \<Rightarrow> string \<Rightarrow> string \<Rightarrow> api_route \<Rightarrow> mock_request \<Rightarrow> pyval \<Rightarrow> pyval" where
  "build_api_event_envelope uid now server_id route rq payload = PDict
     [(''id'', PStr uid), (''source'', PStr ''api''), (''mock_server_id'', PStr (strip server_id)),
      (''trigger'', PDict [(''id'', PStr (strip (rt_id route))),
         (''description'', PStr (strip (rt_description route))),
         (''method'', PStr (upper (strip (mq_method rq)))), (''queue_code'', PStr [])]),
      (''timestamp'', PStr now), (''payload'', payload),
      (''meta'', PDict [(''headers'', pairs_json (mq_headers rq)), (''query'', pairs_json (mq_query rq)),
         (''path_params'', PDict [])])]"

fun message_meta :: "pyval list \<Rightarrow> pyval list \<times> pyval list" where
  "message_meta [] = ([], [])"
| "message_meta (v # vs) =
     (case v of
        PDict d \<Rightarrow>
          ((if is_dict (dget d ''MessageAttributes'') then [dget d ''MessageAttributes''] else []) @ fst (message_meta vs),
           (if token (dget d ''MessageId'') = [] then [] else [PStr (token (dget d ''MessageId''))]) @ snd (message_meta vs))
      | _ \<Rightarrow> message_meta vs)"

definition build_queue_event_envelope ::
  "string \<Rightarrow> string \<Rightarrow> string \<Rightarrow> string \<Rightarrow> string \<Rightarrow> pyval \<Rightarrow> pyval list \<Rightarrow> pyval" where
  "build_queue_event_envelope uid now server_id queue_id queue_code payload messages = PDict
     [(''id'', PStr uid), (''source'', PStr ''queue''), (''mock_server_id'', PStr (strip server_id)),
      (''trigger'', PDict [(''id'', PStr (strip queue_id)), (''description'', PStr []),
         (''method'', PStr []), (''queue_code'', PStr (strip queue_code))]),
      (''timestamp'', PStr now), (''payload'', payload),
      (''meta'', PDict [(''message_attributes'', PList (fst (message_meta messages))),
         (''message_id'', PList (snd (message_meta messages)))])]"

subsection \<open>Running the commands of a trigger\<close>

definition normalize_input_data :: "hval \<Rightarrow> ('w machine, hval) eff" where
  "normalize_input_data data =
     ebind (eget (\<lambda>s. let h = s_heap (mc_session s) in
       case obj_at h data of
         Some (HList xs) \<Rightarrow> filter (\<lambda>x. dict_at h x \<noteq> None) xs
       | Some (HDict d) \<Rightarrow> [data]
       | None \<Rightarrow> [])) (\<lambda>xs. new_object (HList xs))"

definition to_test_operation_snapshot :: "string \<Rightarrow> mock_command \<Rightarrow> string \<times> command_row" where
  "to_test_operation_snapshot source_id op =
     (mk_id op, \<lparr>cw_owner_id = (if source_id = [] then ''mock-runtime'' else source_id),
                 cw_order = mk_order op, cw_command_code = mk_command_code op,
                 cw_command_type = [], cw_configuration = PDict (mk_configuration op),
                 cw_description = mk_description op\<rparr>)"

definition scope_from_source_type :: "string \<Rightarrow> string" where
  "scope_from_source_type source_type =
     (if lower (strip source_type) = ''api-pre-response'' then SCOPE_MOCK_PRE_RESPONSE
      else SCOPE_MOCK_POST_RESPONSE)"

text \<open>The tables written through a \<open>managed_session\<close> that raised are as before it.\<close>

definition machine_rollback :: "'w machine \<Rightarrow> 'w machine \<Rightarrow> 'w machine" where
  "machine_rollback s t =
     t\<lparr>mc_db := mc_db s, mc_payloads := mc_payloads s, mc_queues := mc_queues s,
       mc_datasets := mc_datasets s, mc_test_runs := mc_test_runs s, mc_item_runs := mc_item_runs s\<rparr>"

definition machine_transaction :: "('w machine, 'a) eff \<Rightarrow> ('w machine, 'a) eff" where
  "machine_transaction body = (\<lambda>s.
     case body s of (Inr x, t) \<Rightarrow> (Inr x, t) | (Inl e, t) \<Rightarrow> (Inl e, machine_rollback s t))"

text \<open>\<open>with bind_run_context(context): body\<close>, with the fields of the context object after it.\<close>

definition in_context :: "run_context \<Rightarrow> ('w machine, 'a) eff \<Rightarrow> ('w machine, 'a \<times> run_context) eff" where
  "in_context c body = (\<lambda>s.
     case body (s\<lparr>mc_session := (mc_session s)\<lparr>s_ctx := Some c\<rparr>\<rparr>) of
       (r, t) \<Rightarrow>
         ((case r of Inl e \<Rightarrow> Inl e
           | Inr x \<Rightarrow> Inr (x, case s_ctx (mc_session t) of None \<Rightarrow> c | Some c' \<Rightarrow> c')),
          t\<lparr>mc_session := (mc_session t)\<lparr>s_ctx := s_ctx (mc_session s)\<rparr>\<rparr>))"

record trigger =
  tg_mock_server_id :: string
  tg_trigger_id :: string
  tg_source_type :: string
  tg_source_ref :: string
  tg_operations :: "mock_command list"
  tg_data :: hval

definition trigger_payload :: "trigger \<Rightarrow> pydict \<Rightarrow> pyval" where
  "trigger_payload tg rest = PDict
     ([(''trigger_id'', PStr (tg_trigger_id tg)), (''source_type'', PStr (tg_source_type tg))] @ rest)"

definition trigger_message :: "trigger \<Rightarrow> string \<Rightarrow> string" where
  "trigger_message tg text = ''['' @ tg_trigger_id tg @ ''] '' @ text"

definition trigger_done :: "trigger \<Rightarrow> ('w machine, unit) eff" where
  "trigger_done tg = log_mock_server_event (tg_mock_server_id tg)
     (trigger_message tg (''Executed '' @ show_nat (length (tg_operations tg)) @ '' command(s) for '' @
        tg_source_type tg @ '' trigger.'')) ''INFO''
     (trigger_payload tg [(''scope'', PStr (scope_from_source_type (tg_source_type tg))),
        (''source_ref'', PStr (tg_source_ref tg)), (''commands'', PInt (int (length (tg_operations tg))))])"

definition trigger_failed :: "trigger \<Rightarrow> exc \<Rightarrow> ('w machine, unit) eff" where
  "trigger_failed tg e = log_mock_server_event (tg_mock_server_id tg)
     (trigger_message tg (''Error executing commands for '' @ tg_source_type tg @ '': '' @ exc_message e)) ''ERROR''
     (trigger_payload tg [(''source_ref'', PStr (tg_source_ref tg)), (''error'', PStr (exc_message e))])"

text \<open>
  The context is an action that gives it (the given context, or the one restored from a payload),
  since the code restores it only when there are commands.
\<close>

definition execute_mock_operations ::
  "'w environment \<Rightarrow> trigger \<Rightarrow> ('w machine, run_context) eff \<Rightarrow> bool \<Rightarrow>
     ('w machine, run_context option) eff" where
  "execute_mock_operations en tg context raise_errors =
     ebind (normalize_input_data (tg_data tg)) (\<lambda>data.
     if tg_operations tg = [] then
       ebind (log_mock_server_event (tg_mock_server_id tg)
         (trigger_message tg (''No operations configured for '' @ tg_source_type tg @ '' trigger.''))
         ''INFO'' PNone) (\<lambda>_. ereturn None)
     else
       ebind context (\<lambda>c.
       etry
         (ebind (machine_transaction (in_context c
            (execute_operations en (map (to_test_operation_snapshot (tg_source_ref tg)) (tg_operations tg))
               data (Some (scope_from_source_type (tg_source_type tg)))))) (\<lambda>(res, c').
          ebind (trigger_done tg) (\<lambda>_. ereturn (Some c'))))
         (\<lambda>e. ebind (trigger_failed tg e) (\<lambda>_. if raise_errors then eraise e else ereturn (Some c)))))"

subsection \<open>The response\<close>

text \<open>\<open>int(v)\<close> of a resolved value, 200 when it is null or no number.\<close>

definition status_code :: "heap \<Rightarrow> hval \<Rightarrow> int" where
  "status_code h v =
     (if v = HNone then 200
      else case (case reify 0 h v of None \<Rightarrow> Inl (TypeError ''int() argument'') | Some x \<Rightarrow> py_int x) of
             Inl e \<Rightarrow> 200 | Inr i \<Rightarrow> i)"

text \<open>The body with the trigger id, as a copy, unless it has one or is no dictionary.\<close>

definition with_trigger_id :: "string \<Rightarrow> hval \<Rightarrow> heap \<Rightarrow> hval \<times> heap" where
  "with_trigger_id trigger_id v h =
     (let (body, h1) = (if v = HNone then alloc (HDict [(''status'', HStr ''ok'')]) h else (v, h)) in
      case dict_at h1 body of
        Some d \<Rightarrow> if map_of d ''trigger_id'' = None
                  then alloc (HDict (dset ''trigger_id'' (HStr trigger_id) d)) h1 else (body, h1)
      | None \<Rightarrow> (body, h1))"

definition build_runtime_response_payload ::
  "api_route \<Rightarrow> run_context \<Rightarrow> string \<Rightarrow> ('w machine, int \<times> hdict \<times> hval) eff" where
  "build_runtime_response_payload route c trigger_id =
     ebind (on_session (on_heap (\<lambda>h. case build_run_context_scope (Some c) h of (r, h1) \<Rightarrow> (Inr r, h1)))) (\<lambda>scope.
     ebind (resolve_in scope (rt_response_status route)) (\<lambda>status.
     ebind (eget (\<lambda>s. status_code (s_heap (mc_session s)) status)) (\<lambda>code.
     ebind (resolve_in scope (PDict (rt_response_headers route))) (\<lambda>hs.
     ebind (eget (\<lambda>s. entries (s_heap (mc_session s)) hs)) (\<lambda>headers.
     ebind (resolve_in scope (rt_response_body route)) (\<lambda>v.
     ebind (on_session (on_heap (\<lambda>h. case with_trigger_id trigger_id v h of (b, h1) \<Rightarrow> (Inr b, h1)))) (\<lambda>body.
     ereturn (code, headers, body))))))))"

subsection \<open>Dispatch\<close>

text \<open>The task that runs the commands after the response: its context is rebuilt from the payload.\<close>

record deferred =
  df_trigger :: trigger
  df_context_payload :: hval

record mock_response =
  mr_status :: int
  mr_headers :: hdict
  mr_body :: hval
  mr_deferred :: "deferred option"

definition persist_mock_invocation ::
  "'w environment \<Rightarrow> string \<Rightarrow> string \<Rightarrow> pyval \<Rightarrow> ('w mock_host, string) eff" where
  "persist_mock_invocation en server_id trigger_type event =
     ebind (on_host next_tick) (\<lambda>n s.
       case insert_row (en_uid en n)
              \<lparr>vw_mock_server_id = server_id, vw_trigger_type = trigger_type,
               vw_event_json = PDict (dict_or_empty event)\<rparr> (mh_invocations s) of
         Inl e \<Rightarrow> (Inl e, s)
       | Inr t \<Rightarrow> (Inr (en_uid en n), s\<lparr>mh_invocations := t\<rparr>))"

definition event_payload :: "mock_request \<Rightarrow> pyval" where
  "event_payload rq =
     (if mq_body_json rq \<noteq> PNone then mq_body_json rq
      else if mq_body_raw rq = [] then PNone else PStr (mq_body_raw rq))"

text \<open>The context of an invocation; its event shares the payload object with the commands' data.\<close>

definition invocation_context :: "string \<Rightarrow> pyval \<Rightarrow> ('w machine, run_context \<times> hval) eff" where
  "invocation_context iid event =
     ebind (new_value event) (\<lambda>ev.
     ebind (new_value (PDict [])) (\<lambda>vars.
     ebind (on_session (on_heap (\<lambda>h.
              case create_run_context iid ev vars (Some iid) h of (c, h1) \<Rightarrow> (Inr c, h1)))) (\<lambda>c.
     ebind (eget (\<lambda>s. hget (s_heap (mc_session s)) ev ''payload'')) (\<lambda>data.
     ereturn (c, data)))))"

definition matched_log :: "runtime_server \<Rightarrow> api_route \<Rightarrow> mock_request \<Rightarrow> string \<Rightarrow> string \<Rightarrow> ('w machine, unit) eff" where
  "matched_log server route rq tid iid = log_mock_server_event (rs_id server)
     (''['' @ tid @ ''] API trigger matched for '' @ upper (mq_method rq) @ '' '' @ mq_path rq) ''INFO''
     (PDict [(''trigger_id'', PStr tid), (''invocation_id'', PStr iid),
        (''method'', PStr (upper (mq_method rq))), (''path'', PStr (mq_path rq)),
        (''api_route_id'', PStr (rt_id route)), (''api_route_description'', PStr (rt_description route))])"

definition api_trigger :: "runtime_server \<Rightarrow> api_route \<Rightarrow> string \<Rightarrow> string \<Rightarrow> mock_command list \<Rightarrow> hval \<Rightarrow> trigger" where
  "api_trigger server route tid source_type ops data =
     \<lparr>tg_mock_server_id = rs_id server, tg_trigger_id = tid, tg_source_type = source_type,
      tg_source_ref = rt_id route, tg_operations = ops, tg_data = data\<rparr>"

text \<open>The commands before the response: none run when there are none, and an exception ends the request.\<close>

definition run_pre_response ::
  "'w environment \<Rightarrow> runtime_server \<Rightarrow> api_route \<Rightarrow> string \<Rightarrow> hval \<Rightarrow> run_context \<Rightarrow>
     ('w machine, run_context) eff" where
  "run_pre_response en server route tid data c =
     (if rt_pre_response_commands route = [] then ereturn c
      else ebind (execute_mock_operations en
               (api_trigger server route tid ''api-pre-response'' (rt_pre_response_commands route) data)
               (ereturn c) True) (\<lambda>co.
           ereturn (case co of None \<Rightarrow> c | Some c' \<Rightarrow> c')))"

definition defer_post_response ::
  "runtime_server \<Rightarrow> api_route \<Rightarrow> string \<Rightarrow> hval \<Rightarrow> run_context \<Rightarrow> ('w machine, deferred option) eff" where
  "defer_post_response server route tid data c =
     (let ops = (if rt_post_response_commands route = [] then rt_commands route
                 else rt_post_response_commands route) in
      if ops = [] then ereturn None
      else ebind (on_session (on_heap (\<lambda>h. case serialize_run_context c h of (v, h1) \<Rightarrow> (Inr v, h1)))) (\<lambda>v.
           ereturn (Some \<lparr>df_trigger = api_trigger server route tid ''api'' ops data, df_context_payload = v\<rparr>)))"

definition answer_route ::
  "'w environment \<Rightarrow> runtime_server \<Rightarrow> api_route \<Rightarrow> mock_request \<Rightarrow> string \<Rightarrow> string \<Rightarrow> pyval \<Rightarrow>
     ('w machine, mock_response) eff" where
  "answer_route en server route rq tid iid event =
     ebind (invocation_context iid event) (\<lambda>(c, data).
     ebind (run_pre_response en server route tid data c) (\<lambda>c1.
     ebind (build_runtime_response_payload route c1 tid) (\<lambda>(code, headers, body).
     ebind (defer_post_response server route tid data c1) (\<lambda>task.
     ebind (matched_log server route rq tid iid) (\<lambda>_.
     ereturn \<lparr>mr_status = (if code = 0 then 200 else code),
       mr_headers = dset ''X-Qsmith-Invocation-Id'' (HStr iid) (dset ''X-Qsmith-Trigger-Id'' (HStr tid) headers),
       mr_body = body, mr_deferred = task\<rparr>)))))"

definition dispatch_mock_runtime_request ::
  "'w environment \<Rightarrow> runtime_server option \<Rightarrow> mock_request \<Rightarrow> ('w mock_host, mock_response option) eff" where
  "dispatch_mock_runtime_request en server_at_endpoint rq =
     (case server_at_endpoint of
        None \<Rightarrow> ereturn None
      | Some server \<Rightarrow>
          (case find_matching_api_route server rq of
             None \<Rightarrow> ereturn None
           | Some route \<Rightarrow>
               ebind (on_host next_tick) (\<lambda>n.
               ebind (on_host next_tick) (\<lambda>k.
               let event = build_api_event_envelope (en_uid en k) (en_stamp en k) (rs_id server) route rq
                             (event_payload rq) in
               ebind (persist_mock_invocation en (rs_id server) ''api'' event) (\<lambda>iid.
               ebind (on_host (answer_route en server route rq (en_uid en n) iid event)) (\<lambda>resp.
               ereturn (Some resp)))))))"

text \<open>The task, run by the web server after the response.\<close>

definition run_deferred :: "'w environment \<Rightarrow> deferred \<Rightarrow> ('w machine, run_context option) eff" where
  "run_deferred en d = execute_mock_operations en (df_trigger d)
     (on_session (on_heap (\<lambda>h. case deserialize_run_context (df_context_payload d) h of (c, h1) \<Rightarrow> (Inr c, h1)))) False"

subsection \<open>The HTTP response\<close>

datatype http_response =
    JsonResponse int "(string \<times> string) list" pyval
  | RawResponse int "(string \<times> string) list" string

definition unsafe_response_headers :: "string list" where
  "unsafe_response_headers =
     [''content-length'', ''transfer-encoding'', ''connection'', ''keep-alive'', ''date'', ''server'']"

definition query_params_as_dict :: "(string \<times> string) list \<Rightarrow> (string \<times> string) list" where
  "query_params_as_dict items =
     fold (\<lambda>(k, v) acc. if map_of acc k = None then acc @ [(k, v)] else acc) items []"

definition sanitize_response_headers :: "pydict \<Rightarrow> (string \<times> string) list" where
  "sanitize_response_headers headers =
     fold (\<lambda>(k, v) acc. let name = strip k in
       if name = [] \<or> lower name \<in> set unsafe_response_headers then acc else dset name (py_str v) acc) headers []"

definition build_runtime_response :: "int \<Rightarrow> pydict \<Rightarrow> pyval \<Rightarrow> http_response" where
  "build_runtime_response code headers body =
     (let safe = sanitize_response_headers headers in
      case body of
        PNone \<Rightarrow> RawResponse code safe []
      | PStr s \<Rightarrow> RawResponse code safe s
      | _ \<Rightarrow> JsonResponse code safe body)"

definition not_found :: http_response where
  "not_found = JsonResponse 404 [] (PDict [(''detail'', PStr ''Mock route not found or inactive.'')])"

record raw_request =
  wq_method :: string
  wq_path :: string
  wq_query :: "(string \<times> string) list"
  wq_headers :: "(string \<times> string) list"
  wq_body :: string

definition read_request :: "'w environment \<Rightarrow> raw_request \<Rightarrow> mock_request" where
  "read_request en wq =
     \<lparr>mq_method = wq_method wq, mq_path = (if wq_path wq = [] then ''/'' else wq_path wq),
      mq_query = query_params_as_dict (wq_query wq), mq_headers = wq_headers wq, mq_body_raw = wq_body wq,
      mq_body_json = (if wq_body wq = [] then PNone
        else case en_loads en (wq_body wq) of Inl e \<Rightarrow> PNone | Inr v \<Rightarrow> v)\<rparr>"

definition dispatch_runtime_request ::
  "'w environment \<Rightarrow> runtime_server option \<Rightarrow> raw_request \<Rightarrow> ('w mock_host, http_response \<times> deferred option) eff" where
  "dispatch_runtime_request en server wq =
     ebind (dispatch_mock_runtime_request en server (read_request en wq)) (\<lambda>ro.
     case ro of
       None \<Rightarrow> ereturn (not_found, None)
     | Some r \<Rightarrow>
         ebind (on_host (new_object (HDict (mr_headers r)))) (\<lambda>hs.
         ebind (on_host (value_of hs)) (\<lambda>headers.
         ebind (on_host (value_of (mr_body r))) (\<lambda>body.
         ereturn (build_runtime_response (if mr_status r = 0 then 200 else mr_status r)
                    (dict_or_empty headers) body, mr_deferred r)))))"

end
