(* ===== verification/Mock_Registry.thy ===== *)
theory Mock_Registry
  imports Mock_Runtime
begin

section \<open>Running mock servers\<close>

text \<open>
  \<open>mock_server_runtime_registry.py\<close> and \<open>mock_queue_listener_thread.py\<close>: which servers run,
  which of them answers an endpoint, and the listener threads of their queues. The registry is
  changed under one lock, so its operations are single steps. A listener is identified by a
  serial number; \<open>rg_live\<close> are the threads that were started and not told to stop.
\<close>

record queue_listener =
  ql_serial :: nat
  ql_mock_server_id :: string
  ql_queue_binding :: queue_binding
  ql_connection :: pydict

record registry =
  rg_servers :: "string \<Rightarrow> runtime_server option"
  rg_endpoints :: "string \<Rightarrow> string option"
  rg_threads :: "string \<Rightarrow> queue_listener list option"
  rg_live :: "queue_listener list"
  rg_serial :: nat

definition empty_registry :: registry where
  "empty_registry = \<lparr>rg_servers = (\<lambda>_. None), rg_endpoints = (\<lambda>_. None), rg_threads = (\<lambda>_. None),
     rg_live = [], rg_serial = 0\<rparr>"

record 'w registry_host =
  gh_host :: "'w mock_host"
  gh_tables :: mock_tables
  gh_registry :: registry

definition on_gh_machine :: "('w machine, 'a) eff \<Rightarrow> ('w registry_host, 'a) eff" where
  "on_gh_machine m = (\<lambda>s. case on_host m (gh_host s) of (r, t) \<Rightarrow> (r, s\<lparr>gh_host := t\<rparr>))"

definition on_registry :: "(registry \<Rightarrow> registry) \<Rightarrow> ('w registry_host, unit) eff" where
  "on_registry f = emodify (\<lambda>s. s\<lparr>gh_registry := f (gh_registry s)\<rparr>)"

subsection \<open>Lookup\<close>

definition get_server_by_endpoint :: "registry \<Rightarrow> string \<Rightarrow> runtime_server option" where
  "get_server_by_endpoint rg endpoint =
     (case rg_endpoints rg (normalize_endpoint endpoint) of
        None \<Rightarrow> None
      | Some sid \<Rightarrow> if sid = [] then None else rg_servers rg sid)"

subsection \<open>Stopping\<close>

definition release_endpoint :: "string \<Rightarrow> runtime_server option \<Rightarrow> registry \<Rightarrow> registry" where
  "release_endpoint sid server rg =
     (case server of
        None \<Rightarrow> rg
      | Some srv \<Rightarrow>
          (let ep = normalize_endpoint (rs_endpoint srv) in
           if rg_endpoints rg ep = Some sid then rg\<lparr>rg_endpoints := (rg_endpoints rg)(ep := None)\<rparr> else rg))"

definition stop_threads :: "string \<Rightarrow> registry \<Rightarrow> registry" where
  "stop_threads sid rg =
     (let threads = (case rg_threads rg sid of None \<Rightarrow> [] | Some ls \<Rightarrow> ls) in
      rg\<lparr>rg_threads := (rg_threads rg)(sid := None),
         rg_live := filter (\<lambda>l. l \<notin> set threads) (rg_live rg)\<rparr>)"

definition stop_server_locked :: "string \<Rightarrow> registry \<Rightarrow> registry" where
  "stop_server_locked sid rg =
     stop_threads sid (release_endpoint sid (rg_servers rg sid)
       (rg\<lparr>rg_servers := (rg_servers rg)(sid := None)\<rparr>))"

definition stop_server :: "string \<Rightarrow> ('w registry_host, unit) eff" where
  "stop_server sid =
     ebind (on_registry (stop_server_locked sid)) (\<lambda>_.
     on_gh_machine (log_mock_server_event sid ''Mock server stopped.'' ''INFO'' PNone))"

definition remove_server :: "string \<Rightarrow> ('w registry_host, unit) eff" where
  "remove_server sid = stop_server sid"

subsection \<open>Starting\<close>

text \<open>The constructor of the listener thread, then its start.\<close>

definition connect_listener :: "'w environment \<Rightarrow> queue_binding \<Rightarrow> ('w registry_host, pydict) eff" where
  "connect_listener en binding = on_gh_machine
     (ebind (eget (\<lambda>s. get_by_id (qb_queue_id binding) (mc_queues s))) (\<lambda>queue.
      case queue of
        None \<Rightarrow> eraise (ValueError (''Queue '' @ quoted (qb_queue_id binding) @ '' not found.''))
      | Some q \<Rightarrow> load_broker_connection en (qr_broker_id q)))"

definition spawn_listener :: "string \<Rightarrow> queue_binding \<Rightarrow> pydict \<Rightarrow> ('w registry_host, queue_listener) eff" where
  "spawn_listener sid binding conn = (\<lambda>s.
     let rg = gh_registry s;
         l = \<lparr>ql_serial = rg_serial rg, ql_mock_server_id = sid, ql_queue_binding = binding, ql_connection = conn\<rparr>
     in (Inr l, s\<lparr>gh_registry := rg\<lparr>rg_live := rg_live rg @ [l], rg_serial := Suc (rg_serial rg)\<rparr>\<rparr>))"

fun start_listeners ::
  "'w environment \<Rightarrow> string \<Rightarrow> queue_binding list \<Rightarrow> queue_listener list \<Rightarrow>
     ('w registry_host, queue_listener list) eff" where
  "start_listeners en sid [] threads = ereturn threads"
| "start_listeners en sid (b # bs) threads =
     ebind (connect_listener en b) (\<lambda>conn.
     ebind (spawn_listener sid b conn) (\<lambda>l.
     start_listeners en sid bs (threads @ [l])))"

definition register_server :: "string \<Rightarrow> runtime_server \<Rightarrow> registry \<Rightarrow> registry" where
  "register_server sid srv rg =
     (let stopped = stop_server_locked sid rg in
      stopped\<lparr>rg_servers := (rg_servers stopped)(sid \<mapsto> srv),
              rg_endpoints := (rg_endpoints stopped)(rs_endpoint srv \<mapsto> sid)\<rparr>)"

definition inline_total :: "string \<Rightarrow> mock_tables \<Rightarrow> nat" where
  "inline_total sid t = sum_list (map (inline_count \<circ> snd) (get_apis_by_server_id sid t))"

definition load_server :: "'w environment \<Rightarrow> string \<Rightarrow> ('w registry_host, runtime_server) eff" where
  "load_server en sid =
     ebind (eget gh_tables) (\<lambda>tables.
     case get_by_id sid (mt_servers tables) of
       None \<Rightarrow> eraise (ValueError (''Mock server '' @ quoted sid @ '' not found.''))
     | Some row \<Rightarrow>
         ebind (on_gh_machine (\<lambda>m. (Inr (mc_ticks m), m\<lparr>mc_ticks := mc_ticks m + inline_total sid tables\<rparr>))) (\<lambda>n.
         elift (load_runtime_server (\<lambda>i. en_uid en (n + i)) tables (sid, row))))"

definition started_message :: "runtime_server \<Rightarrow> string" where
  "started_message srv =
     ''Mock server '' @ quoted (if rs_description srv = [] then rs_id srv else rs_description srv) @
     '' started. Endpoint '' @ quoted (''/mock/'' @ rs_endpoint srv) @ '', queue listeners='' @
     show_nat (length (rs_queues srv))"

definition start_server :: "'w environment \<Rightarrow> string \<Rightarrow> ('w registry_host, unit) eff" where
  "start_server en sid =
     ebind (load_server en sid) (\<lambda>srv.
     ebind (on_registry (register_server sid srv)) (\<lambda>_.
     ebind (start_listeners en sid (rs_queues srv) []) (\<lambda>threads.
     ebind (on_registry (\<lambda>rg. rg\<lparr>rg_threads := (rg_threads rg)(sid \<mapsto> threads)\<rparr>)) (\<lambda>_.
     on_gh_machine (log_mock_server_event sid (started_message srv) ''INFO'' PNone)))))"

definition get_all_active :: "mock_tables \<Rightarrow> mock_server_row table" where
  "get_all_active t = sort_key (\<lambda>(i, r). (sw_description r, i)) (rows_where sw_is_active (mt_servers t))"

fun bootstrap_servers :: "'w environment \<Rightarrow> string list \<Rightarrow> ('w registry_host, unit) eff" where
  "bootstrap_servers en [] = ereturn ()"
| "bootstrap_servers en (sid # sids) =
     ebind (etry (start_server en sid) (\<lambda>e. on_gh_machine (log_mock_server_event sid
              (''Cannot bootstrap mock server '' @ quoted sid @ '': '' @ exc_message e) ''INFO'' PNone))) (\<lambda>_.
     bootstrap_servers en sids)"

definition bootstrap_active_servers :: "'w environment \<Rightarrow> ('w registry_host, unit) eff" where
  "bootstrap_active_servers en =
     ebind (eget (\<lambda>s. filter (\<lambda>i. i \<noteq> []) (map fst (get_all_active (gh_tables s))))) (bootstrap_servers en)"

subsection \<open>One turn of a listener\<close>

fun payload_of_messages :: "(string \<Rightarrow> pyval result) \<Rightarrow> pyval list \<Rightarrow> pyval list" where
  "payload_of_messages loads [] = []"
| "payload_of_messages loads (m # ms) =
     (case m of
        PDict d \<Rightarrow>
          (let body = (case dget d ''Body'' of
                 PStr s \<Rightarrow> (case loads s of Inl e \<Rightarrow> PDict [(''raw_body'', PStr s)] | Inr v \<Rightarrow> v)
               | v \<Rightarrow> v) in
           (case body of
              PDict b \<Rightarrow> [body]
            | PList xs \<Rightarrow> filter is_dict xs
            | PNone \<Rightarrow> []
            | _ \<Rightarrow> [PDict [(''value'', body)]]) @ payload_of_messages loads ms)
      | _ \<Rightarrow> payload_of_messages loads ms)"

definition poll_seconds :: "queue_binding \<Rightarrow> int" where
  "poll_seconds b = max (if qb_polling_interval_seconds b = 0 then 1 else qb_polling_interval_seconds b) 1"

definition poll_limit :: "queue_binding \<Rightarrow> int" where
  "poll_limit b = max (min (if qb_max_messages b = 0 then 10 else qb_max_messages b) 10) 1"

definition listener_log :: "queue_listener \<Rightarrow> string \<Rightarrow> exc \<Rightarrow> pyval \<Rightarrow> ('w mock_host, unit) eff" where
  "listener_log l what e payload = on_host (log_mock_server_event (ql_mock_server_id l)
     (''Queue '' @ what @ '' error for queue '' @ quoted (qb_queue_id (ql_queue_binding l)) @ '': '' @ exc_message e)
     ''ERROR'' payload)"

definition listener_pause :: "'w environment \<Rightarrow> queue_listener \<Rightarrow> ('w mock_host, unit) eff" where
  "listener_pause en l = on_host (on_world (en_sleep en (poll_seconds (ql_queue_binding l))))"

type_synonym 'w ack = "pydict \<Rightarrow> string \<Rightarrow> pyval list \<Rightarrow> 'w \<Rightarrow> unit result \<times> 'w"

definition handle_messages ::
  "'w environment \<Rightarrow> 'w ack \<Rightarrow> queue_listener \<Rightarrow> pyval list \<Rightarrow> ('w mock_host, unit) eff" where
  "handle_messages en ack l messages =
     (let b = ql_queue_binding l; q = qb_queue_id b;
          payload = payload_of_messages (en_loads en) messages in
      ebind (on_host next_tick) (\<lambda>n.
      ebind (on_host next_tick) (\<lambda>k.
      let event = build_queue_event_envelope (en_uid en k) (en_stamp en k) (ql_mock_server_id l) q q
                    (PList payload) messages in
      ebind (persist_mock_invocation en (ql_mock_server_id l) ''queue'' event) (\<lambda>iid.
      ebind (on_host (invocation_context iid event)) (\<lambda>(c, data).
      ebind (on_host (execute_mock_operations en
               \<lparr>tg_mock_server_id = ql_mock_server_id l, tg_trigger_id = en_uid en n,
                tg_source_type = ''queue'', tg_source_ref = qb_id b, tg_operations = qb_commands b, tg_data = data\<rparr>
               (ereturn c) False)) (\<lambda>_.
      etry (on_host (on_world (ack (ql_connection l) q messages)))
        (\<lambda>e. listener_log l ''ACK'' e (PDict [(''trigger_id'', PStr (en_uid en n)),
           (''invocation_id'', PStr iid)]))))))))"

text \<open>One pass of the loop \<open>while not self._stop_event.is_set()\<close>.\<close>

definition listener_turn :: "'w environment \<Rightarrow> 'w ack \<Rightarrow> queue_listener \<Rightarrow> ('w mock_host, unit) eff" where
  "listener_turn en ack l = (\<lambda>s.
     case on_host (on_world (en_receive en (ql_connection l) (qb_queue_id (ql_queue_binding l))
            (poll_limit (ql_queue_binding l)))) s of
       (Inl e, t) \<Rightarrow> ebind (listener_log l ''listener'' e PNone) (\<lambda>_. listener_pause en l) t
     | (Inr [], t) \<Rightarrow> listener_pause en l t
     | (Inr (m # ms), t) \<Rightarrow> handle_messages en ack l (m # ms) t)"

end
