(* ===== verification/Mock_Facts.thy ===== *)
theory Mock_Facts
  imports Mock_Registry Executor_Facts
begin

section \<open>What the mock servers guarantee\<close>

text \<open>
  Which route answers a request, that the commands of a trigger are all or nothing, that a
  message is acknowledged whatever its commands do, the limits of the queue listeners, and the
  consistency of the registry of running servers over every history of its operations.
\<close>

subsection \<open>The route of a request\<close>

lemma find_route_None: "find_route rs rq = None \<longleftrightarrow> (\<forall>r \<in> set rs. \<not> route_matches rq r)"
  by (induction rs) auto

lemma find_route_sorted:
  "sorted (map k rs) \<Longrightarrow> find_route rs rq = Some r \<Longrightarrow>
   r \<in> set rs \<and> route_matches rq r \<and> (\<forall>r' \<in> set rs. route_matches rq r' \<longrightarrow> k r \<le> k r')"
  by (induction rs) (auto split: if_splits)

text \<open>
  C36. A request to a mock server is answered by the least matching route: whatever the order of
  the stored routes, the one that is taken matches the request, and no matching route has a
  smaller priority number, or the same priority and a smaller order, or the same of both and a
  smaller id. When no route matches, nothing is recorded and nothing changes.
\<close>

theorem dispatch_selects_least_route:
  assumes "load_runtime_server uid tables entity = Inr srv"
    and "load_api_routes uid 0 tables (get_apis_by_server_id (fst entity) tables) = Inr routes"
  shows "case find_matching_api_route srv rq of
           None \<Rightarrow> (\<forall>r \<in> set routes. \<not> route_matches rq r) \<and>
             dispatch_mock_runtime_request en (Some srv) rq s = (Inr None, s)
         | Some r \<Rightarrow> r \<in> set routes \<and> route_matches rq r \<and>
             (\<forall>r' \<in> set routes. route_matches rq r' \<longrightarrow> route_key r \<le> route_key r')"
proof -
  have "rs_apis srv = sort_key route_key routes"
    using assms by (auto simp: load_runtime_server_def rbind_Inr_iff)
  then have "sorted (map route_key (rs_apis srv))" "set (rs_apis srv) = set routes" by simp_all
  then show ?thesis
    using find_route_None [of "rs_apis srv" rq] find_route_sorted [of route_key "rs_apis srv" rq]
    by (auto simp: find_matching_api_route_def dispatch_mock_runtime_request_def split: option.splits)
qed

subsection \<open>Commands of a trigger\<close>

definition tables_of :: "'w machine \<Rightarrow>
  constant_db \<times> json_payload_row table \<times> queue_row table \<times> dataset_row table \<times>
  execution_row table \<times> execution_row table" where
  "tables_of s = (mc_db s, mc_payloads s, mc_queues s, mc_datasets s, mc_test_runs s, mc_item_runs s)"

definition error_entry :: "trigger \<Rightarrow> exc \<Rightarrow> log_row" where
  "error_entry tg e =
     \<lparr>lr_subject_type = ''MOCK_SERVER'', lr_subject = tg_mock_server_id tg, lr_level = ''ERROR'',
      lr_message = trigger_message tg (''Error executing commands for '' @ tg_source_type tg @ '': '' @ exc_message e),
      lr_payload = trigger_payload tg [(''source_ref'', PStr (tg_source_ref tg)), (''error'', PStr (exc_message e))]\<rparr>"

lemma log_mock_apply [simp]:
  "log_mock_server_event subject message level payload s =
   (Inr (), s\<lparr>mc_logs := mc_logs s @ [\<lparr>lr_subject_type = ''MOCK_SERVER'', lr_subject = subject,
      lr_level = level, lr_message = message, lr_payload = payload\<rparr>]\<rparr>)"
  by (simp add: log_mock_server_event_def)

lemma new_object_apply:
  "\<exists>v h. new_object ob s = (Inr v, s\<lparr>mc_session := (mc_session s)\<lparr>s_heap := h\<rparr>\<rparr>)"
  by (simp add: new_object_def on_session_def on_heap_def alloc_def) (rule exI, rule refl)

lemma normalize_input_apply:
  "\<exists>v h. normalize_input_data data s = (Inr v, s\<lparr>mc_session := (mc_session s)\<lparr>s_heap := h\<rparr>\<rparr>)"
  unfolding normalize_input_data_def ebind_def eget_def by (simp add: new_object_apply)

lemma trigger_failed_apply:
  "trigger_failed tg e s = (Inr (), s\<lparr>mc_logs := mc_logs s @ [error_entry tg e]\<rparr>)"
  by (simp add: trigger_failed_def error_entry_def)

definition done_entry :: "trigger \<Rightarrow> log_row" where
  "done_entry tg =
     \<lparr>lr_subject_type = ''MOCK_SERVER'', lr_subject = tg_mock_server_id tg, lr_level = ''INFO'',
      lr_message = trigger_message tg (''Executed '' @ show_nat (length (tg_operations tg)) @
        '' command(s) for '' @ tg_source_type tg @ '' trigger.''),
      lr_payload = trigger_payload tg [(''scope'', PStr (scope_from_source_type (tg_source_type tg))),
        (''source_ref'', PStr (tg_source_ref tg)), (''commands'', PInt (int (length (tg_operations tg))))]\<rparr>"

lemma trigger_done_apply:
  "trigger_done tg s = (Inr (), s\<lparr>mc_logs := mc_logs s @ [done_entry tg]\<rparr>)"
  by (simp add: trigger_done_def done_entry_def)

lemma tables_of_logs [simp]: "tables_of (s\<lparr>mc_logs := ls\<rparr>) = tables_of s"
  by (simp add: tables_of_def)

text \<open>The transaction of a trigger: what it returns and what it keeps.\<close>

lemma trigger_transaction:
  assumes "machine_transaction (in_context c body) s = (r, t)"
  shows "s_ctx (mc_session t) = s_ctx (mc_session s) \<and> (\<forall>e. r = Inl e \<longrightarrow> tables_of t = tables_of s)"
  using assms
  by (auto simp: machine_transaction_def in_context_def machine_rollback_def tables_of_def
    split: prod.splits sum.splits)

lemma execute_mock_operations_outcome:
  assumes "tg_operations tg \<noteq> []"
    and "execute_mock_operations en tg (ereturn c) raise_errors s = (r, t)"
  shows "s_ctx (mc_session t) = s_ctx (mc_session s) \<and>
    ((\<exists>c'. r = Inr (Some c') \<and> last (mc_logs t) = done_entry tg) \<or>
     (\<exists>e. r = (if raise_errors then Inl e else Inr (Some c)) \<and> tables_of t = tables_of s \<and>
        last (mc_logs t) = error_entry tg e))"
proof -
  obtain data h where norm: "normalize_input_data (tg_data tg) s =
      (Inr data, s\<lparr>mc_session := (mc_session s)\<lparr>s_heap := h\<rparr>\<rparr>)"
    using normalize_input_apply by blast
  define s1 where "s1 = s\<lparr>mc_session := (mc_session s)\<lparr>s_heap := h\<rparr>\<rparr>"
  have s1: "tables_of s1 = tables_of s" "s_ctx (mc_session s1) = s_ctx (mc_session s)"
    by (simp_all add: s1_def tables_of_def)
  define body where "body = execute_operations en
      (map (to_test_operation_snapshot (tg_source_ref tg)) (tg_operations tg)) data
      (Some (scope_from_source_type (tg_source_type tg)))"
  obtain r1 t1 where run: "machine_transaction (in_context c body) s1 = (r1, t1)" by fastforce
  note kept = trigger_transaction [OF run]
  have ex: "execute_mock_operations en tg (ereturn c) raise_errors s =
      etry (ebind (machine_transaction (in_context c body)) (\<lambda>(res, c').
          ebind (trigger_done tg) (\<lambda>_. ereturn (Some c'))))
        (\<lambda>e. ebind (trigger_failed tg e) (\<lambda>_. if raise_errors then eraise e else ereturn (Some c))) s1"
    using assms(1) norm by (simp add: execute_mock_operations_def ebind_def body_def s1_def)
  show ?thesis
  proof (cases r1)
    case (Inl e)
    then have "(r, t) = (if raise_errors then Inl e else Inr (Some c), t1\<lparr>mc_logs := mc_logs t1 @ [error_entry tg e]\<rparr>)"
      using assms(2) run unfolding ex by (auto simp: etry_def ebind_def trigger_failed_apply split: if_splits)
    then show ?thesis using kept s1 Inl by auto
  next
    case (Inr x)
    then have "r = Inr (Some (snd x)) \<and> t = t1\<lparr>mc_logs := mc_logs t1 @ [done_entry tg]\<rparr>"
      using assms(2) run unfolding ex by (auto simp: etry_def ebind_def split_beta trigger_done_apply)
    then show ?thesis using kept s1 by simp
  qed
qed


subsection \<open>Queue listeners\<close>

text \<open>
  The limits of a queue listener: however a queue binding is configured, a loaded binding
  polls at intervals of at least a second and asks for one to ten messages, and the limits the
  listener thread computes from it are the same.
\<close>

theorem queue_binding_bounds:
  assumes "load_runtime_server uid tables entity = Inr srv" and "b \<in> set (rs_queues srv)"
  shows "1 \<le> qb_polling_interval_seconds b \<and> 1 \<le> qb_max_messages b \<and> qb_max_messages b \<le> 10 \<and>
    poll_seconds b = qb_polling_interval_seconds b \<and> poll_limit b = qb_max_messages b"
proof -
  obtain queues where q: "map_result (load_queue_binding tables)
        (get_queues_by_server_id (fst entity) tables) = Inr queues" "b \<in> set queues"
    using assms by (auto simp: load_runtime_server_def rbind_Inr_iff)
  obtain i where i: "i < length queues" "queues ! i = b" using q(2) by (auto simp: in_set_conv_nth)
  obtain e where "load_queue_binding tables e = Inr b"
    using list_all2_nthD2 [OF map_result_list_all2 [OF q(1)] i(1)] i(2) by blast
  then show ?thesis
    by (auto simp: load_queue_binding_def Let_def rbind_Inr_iff poll_seconds_def poll_limit_def)
qed

lemma execute_mock_operations_returns:
  "\<exists>co t. execute_mock_operations en tg (ereturn c) False s = (Inr co, t)"
proof (cases "tg_operations tg = []")
  case True
  obtain data h where "normalize_input_data (tg_data tg) s =
      (Inr data, s\<lparr>mc_session := (mc_session s)\<lparr>s_heap := h\<rparr>\<rparr>)"
    using normalize_input_apply by blast
  then show ?thesis using True by (simp add: execute_mock_operations_def ebind_def)
next
  case False
  obtain r t where "execute_mock_operations en tg (ereturn c) False s = (r, t)" by fastforce
  then show ?thesis using execute_mock_operations_outcome [OF False, of en c False s r t] by auto
qed

lemma invocation_context_returns:
  "\<exists>c data t. invocation_context iid event m = (Inr (c, data), t)"
  by (simp add: invocation_context_def new_value_def on_session_def on_heap_def ebind_def split: prod.splits)

lemma on_host_invocations: "on_host m s = (r, t) \<Longrightarrow> mh_invocations t = mh_invocations s"
  by (auto simp: on_host_def split: prod.splits)

lemma on_host_apply: "m (mh_machine s) = (r, t) \<Longrightarrow> on_host m s = (r, s\<lparr>mh_machine := t\<rparr>)"
  by (simp add: on_host_def)

lemma acknowledge_or_log:
  "\<exists>t. etry (on_host (on_world a)) (\<lambda>e. listener_log l what e payload) s = (Inr (), t) \<and>
     mc_world (mh_machine t) = snd (a (mc_world (mh_machine s))) \<and> mh_invocations t = mh_invocations s"
  by (cases "a (mc_world (mh_machine s))"; cases "fst (a (mc_world (mh_machine s)))")
    (simp_all add: etry_def on_host_def on_world_def listener_log_def)

lemma handle_messages_outcome:
  assumes "get_by_id (en_uid en (mc_ticks (mh_machine s) + 2)) (mh_invocations s) = None"
  shows "\<exists>t w event. handle_messages en ack l ms s = (Inr (), t) \<and>
     mc_world (mh_machine t) = snd (ack (ql_connection l) (qb_queue_id (ql_queue_binding l)) ms w) \<and>
     mh_invocations t = mh_invocations s @ [(en_uid en (mc_ticks (mh_machine s) + 2),
       \<lparr>vw_mock_server_id = ql_mock_server_id l, vw_trigger_type = ''queue'', vw_event_json = event\<rparr>)]"
proof -
  define k where "k = mc_ticks (mh_machine s)"
  define b where "b = ql_queue_binding l"
  define event where "event = build_queue_event_envelope (en_uid en (Suc k)) (en_stamp en (Suc k))
      (ql_mock_server_id l) (qb_queue_id b) (qb_queue_id b) (PList (payload_of_messages (en_loads en) ms)) ms"
  define iid where "iid = en_uid en (k + 2)"
  define s2 where "s2 = s\<lparr>mh_machine := (mh_machine s)\<lparr>mc_ticks := k + 3\<rparr>,
      mh_invocations := mh_invocations s @ [(iid, \<lparr>vw_mock_server_id = ql_mock_server_id l,
        vw_trigger_type = ''queue'', vw_event_json = PDict (dict_or_empty event)\<rparr>)]\<rparr>"
  have iid: "insert_row iid row (mh_invocations s) = Inr (mh_invocations s @ [(iid, row)])" for row
    using assms by (simp add: insert_row_def iid_def k_def)
  obtain c data m3 where m3: "invocation_context iid event (mh_machine s2) = (Inr (c, data), m3)"
    using invocation_context_returns by blast
  define tg where "tg = \<lparr>tg_mock_server_id = ql_mock_server_id l, tg_trigger_id = en_uid en k,
      tg_source_type = ''queue'', tg_source_ref = qb_id b, tg_operations = qb_commands b, tg_data = data\<rparr>"
  obtain co m4 where m4: "execute_mock_operations en tg (ereturn c) False m3 = (Inr co, m4)"
    using execute_mock_operations_returns by blast
  obtain t where t: "etry (on_host (on_world (ack (ql_connection l) (qb_queue_id b) ms)))
        (\<lambda>e. listener_log l ''ACK'' e (PDict [(''trigger_id'', PStr (en_uid en k)), (''invocation_id'', PStr iid)]))
        (s2\<lparr>mh_machine := m4\<rparr>) = (Inr (), t)"
      "mc_world (mh_machine t) = snd (ack (ql_connection l) (qb_queue_id b) ms (mc_world m4))"
      "mh_invocations t = mh_invocations s2"
    using acknowledge_or_log [of "ack (ql_connection l) (qb_queue_id b) ms" l "''ACK''" _ "s2\<lparr>mh_machine := m4\<rparr>"] by auto
  have persist: "persist_mock_invocation en (ql_mock_server_id l) ''queue'' event
      (s\<lparr>mh_machine := (mh_machine s)\<lparr>mc_ticks := k + 2\<rparr>\<rparr>) = (Inr iid, s2)"
    using iid by (simp add: persist_mock_invocation_def on_host_def ebind_def s2_def iid_def)
  have "handle_messages en ack l ms s = (Inr (), t)"
    using persist m3 m4 t(1)
    by (simp add: handle_messages_def Let_def ebind_def on_host_apply [of next_tick, OF next_tick_apply]
      k_def [symmetric] b_def [symmetric] event_def [symmetric] on_host_def tg_def [symmetric])
  then show ?thesis using t by (auto simp: s2_def b_def iid_def k_def)
qed

text \<open>
  C8. Messages are acknowledged whatever their commands do: when a listener received messages
  and the invocation was stored, its turn ends without an exception, the broker was asked last
  to acknowledge exactly these messages, and one invocation of the server was added.
\<close>

theorem poll_acknowledges:
  assumes "en_receive en (ql_connection l) q (poll_limit b) (mc_world (mh_machine s)) = (Inr (m # ms), w)"
    and "b = ql_queue_binding l" and "q = qb_queue_id b"
    and "get_by_id (en_uid en (mc_ticks (mh_machine s) + 2)) (mh_invocations s) = None"
  shows "case listener_turn en ack l s of (r, t) \<Rightarrow> r = Inr () \<and>
     (\<exists>w1. mc_world (mh_machine t) = snd (ack (ql_connection l) q (m # ms) w1)) \<and>
     (\<exists>event. mh_invocations t = mh_invocations s @
        [(en_uid en (mc_ticks (mh_machine s) + 2),
          \<lparr>vw_mock_server_id = ql_mock_server_id l, vw_trigger_type = ''queue'', vw_event_json = event\<rparr>)])"
  using handle_messages_outcome [of en "(s\<lparr>mh_machine := (mh_machine s)\<lparr>mc_world := w\<rparr>\<rparr>)" ack l "m # ms"] assms
  by (auto simp: listener_turn_def on_host_def on_world_def)

subsection \<open>A small server\<close>

definition demo_api :: "string \<Rightarrow> int \<Rightarrow> string \<times> mock_api_row" where
  "demo_api i priority =
     (i, \<lparr>pw_mock_server_id = ''s'', pw_description = [], pw_method = ''get'', pw_path = ''orders/'',
          pw_configuration = PDict [(''priority'', PInt priority)], pw_order = 0\<rparr>)"

definition demo_tables :: mock_tables where
  "demo_tables =
     \<lparr>mt_servers = [], mt_apis = [demo_api ''b'' 2, demo_api ''a'' 2, demo_api ''c'' 5], mt_api_commands = [],
      mt_queues = [(''q'', \<lparr>uw_mock_server_id = ''s'', uw_queue_id = ''q1'', uw_description = [],
        uw_configuration = PDict [(''max_messages'', PInt 50)], uw_order = 0\<rparr>)], mt_queue_commands = []\<rparr>"

definition demo_row :: "string \<times> mock_server_row" where
  "demo_row = (''s'', \<lparr>sw_description = [], sw_endpoint = ''/Shop/'', sw_configuration = PNone, sw_is_active = True\<rparr>)"

definition demo_routes :: "api_route list" where
  "demo_routes =
     (case load_api_routes show_nat 0 demo_tables (get_apis_by_server_id ''s'' demo_tables) of
        Inr rs \<Rightarrow> rs | Inl e \<Rightarrow> [])"

definition demo_server :: runtime_server where
  "demo_server = \<lparr>rs_id = ''s'', rs_description = [], rs_endpoint = ''shop'', rs_is_active = True,
     rs_apis = sort_key route_key demo_routes,
     rs_queues = (case map_result (load_queue_binding demo_tables) (get_queues_by_server_id ''s'' demo_tables) of
        Inr qs \<Rightarrow> qs | Inl e \<Rightarrow> [])\<rparr>"

definition demo_request :: mock_request where
  "demo_request = \<lparr>mq_method = ''GET'', mq_path = ''/orders'', mq_query = [], mq_headers = [],
     mq_body_raw = [], mq_body_json = PNone\<rparr>"

lemma demo_loads:
  "load_runtime_server show_nat demo_tables demo_row = Inr demo_server"
  "load_api_routes show_nat 0 demo_tables (get_apis_by_server_id (fst demo_row) demo_tables) = Inr demo_routes"
  by code_simp+

lemma demo_route: "map_option rt_id (find_matching_api_route demo_server demo_request) = Some ''a''"
  by code_simp

theorem dispatch_selects_least_route_witness:
  "\<exists>r. find_matching_api_route demo_server demo_request = Some r \<and> rt_id r = ''a'' \<and>
     (\<forall>r' \<in> set demo_routes. route_matches demo_request r' \<longrightarrow> route_key r \<le> route_key r')"
proof -
  obtain r where "find_matching_api_route demo_server demo_request = Some r" "rt_id r = ''a''"
    using demo_route by blast
  then show ?thesis
    using dispatch_selects_least_route [OF demo_loads, of demo_request example_env] by auto
qed

lemma demo_binding: "map qb_queue_id (rs_queues demo_server) = [''q1'']"
  by code_simp

theorem queue_binding_bounds_witness:
  "\<exists>b. rs_queues demo_server = [b] \<and> qb_max_messages b \<le> 10"
proof -
  obtain b where b: "rs_queues demo_server = [b]" using demo_binding by auto
  then show ?thesis using queue_binding_bounds [OF demo_loads(1), of b] by simp
qed

definition demo_trigger :: trigger where
  "demo_trigger = \<lparr>tg_mock_server_id = ''s'', tg_trigger_id = ''t'', tg_source_type = ''queue'', tg_source_ref = ''q'',
     tg_operations = [\<lparr>mk_id = ''c'', mk_description = [], mk_command_code = ''teleport'', mk_command_type = [],
       mk_configuration = [(''commandCode'', PStr ''teleport'')], mk_order = 1\<rparr>], tg_data = HNone\<rparr>"

definition demo_context :: run_context where
  "demo_context = \<lparr>rx_run_id = ''r'', run_envelope = HNone, global_scope = HNone, local_scope = HNone,
     result_scope = HNone, invocation_id = None, current_item_kind = ''hook'', current_hook_phase = None,
     rx_last = HNone\<rparr>"

definition demo_run :: "run_context option result \<times> nat machine" where
  "demo_run = execute_mock_operations example_env demo_trigger (ereturn demo_context) False example_machine"

lemma demo_run_fails: "map lr_level (mc_logs (snd demo_run)) = [''INFO'', ''ERROR'']"
  by code_simp


definition demo_listener :: queue_listener where
  "demo_listener = \<lparr>ql_serial = 0, ql_mock_server_id = ''s'',
     ql_queue_binding = \<lparr>qb_id = ''b'', qb_description = [], qb_order = 0, qb_queue_id = ''q1'',
       qb_polling_interval_seconds = 1, qb_max_messages = 1, qb_commands = tg_operations demo_trigger\<rparr>,
     ql_connection = []\<rparr>"

theorem poll_acknowledges_witness:
  "case listener_turn example_env (\<lambda>conn q ms w. (Inr (), 7)) demo_listener
     \<lparr>mh_machine = example_machine\<lparr>mc_world := 1\<rparr>, mh_invocations = []\<rparr> of
   (r, t) \<Rightarrow> r = Inr () \<and> mc_world (mh_machine t) = 7 \<and> length (mh_invocations t) = 1"
proof -
  let ?s = "\<lparr>mh_machine = example_machine\<lparr>mc_world := 1\<rparr>, mh_invocations = []\<rparr>"
  have receive: "en_receive example_env (ql_connection demo_listener) ''q1'' (poll_limit (ql_queue_binding demo_listener))
      (mc_world (mh_machine ?s)) = (Inr (PDict [] # []), 0)"
    by (simp add: example_env_def poll_limit_def demo_listener_def)
  have queue: "''q1'' = qb_queue_id (ql_queue_binding demo_listener)" by (simp add: demo_listener_def)
  have fresh: "get_by_id (en_uid example_env (mc_ticks (mh_machine ?s) + 2)) (mh_invocations ?s) = None"
    by (simp add: get_by_id_def)
  from poll_acknowledges [OF receive refl queue fresh, of "\<lambda>conn q ms w. (Inr (), 7)"]
  show ?thesis by auto
qed

end
