(* ===== verification/Registry_History.thy ===== *)
theory Registry_History
  imports Mock_Registry Executor_Facts
begin

section \<open>Histories of the registry of mock servers\<close>

text \<open>
  The registry after any sequence of starts, stops and other activity of the process, as an
  inductive relation with its invariant. The flag of \<open>history\<close> tells that every start so far
  succeeded.
\<close>

definition registry_ok :: "registry \<Rightarrow> bool" where
  "registry_ok rg \<longleftrightarrow>
     (\<forall>ep sid. rg_endpoints rg ep = Some sid \<longrightarrow> normalize_endpoint ep = ep \<longrightarrow>
        (\<exists>srv. rg_servers rg sid = Some srv \<and> rs_endpoint srv = ep)) \<and>
     (\<forall>sid ls. rg_threads rg sid = Some ls \<longrightarrow>
        (\<exists>srv. rg_servers rg sid = Some srv \<and> map ql_queue_binding ls = rs_queues srv) \<and>
        set ls \<subseteq> set (rg_live rg) \<and> (\<forall>l \<in> set ls. ql_mock_server_id l = sid)) \<and>
     (\<forall>l \<in> set (rg_live rg). ql_serial l < rg_serial rg) \<and> distinct (rg_live rg)"

text \<open>Every live listener is recorded as a thread of its server.\<close>

definition accounted :: "registry \<Rightarrow> bool" where
  "accounted rg \<longleftrightarrow>
     (\<forall>l \<in> set (rg_live rg). \<exists>ls. rg_threads rg (ql_mock_server_id l) = Some ls \<and> l \<in> set ls)"

inductive history :: "'w environment \<Rightarrow> bool \<Rightarrow> 'w registry_host \<Rightarrow> bool" for en where
  idle: "gh_registry s = empty_registry \<Longrightarrow> history en True s"
| started: "history en ok s \<Longrightarrow> start_server en sid s = (r, t) \<Longrightarrow> history en (ok \<and> r = Inr ()) t"
| stopped: "history en ok s \<Longrightarrow> stop_server sid s = (r, t) \<Longrightarrow> history en ok t"
| elsewhere: "history en ok s \<Longrightarrow> gh_registry t = gh_registry s \<Longrightarrow> history en ok t"

subsection \<open>Stopping\<close>

lemma release_endpoint_keeps [simp]:
  "rg_servers (release_endpoint sid srv rg) = rg_servers rg"
  "rg_threads (release_endpoint sid srv rg) = rg_threads rg"
  "rg_live (release_endpoint sid srv rg) = rg_live rg"
  "rg_serial (release_endpoint sid srv rg) = rg_serial rg"
  by (simp_all add: release_endpoint_def Let_def split: option.splits)

lemma stop_locked_fields:
  "rg_servers (stop_server_locked sid rg) = (rg_servers rg)(sid := None)"
  "rg_threads (stop_server_locked sid rg) = (rg_threads rg)(sid := None)"
  "rg_serial (stop_server_locked sid rg) = rg_serial rg"
  "rg_live (stop_server_locked sid rg) =
     filter (\<lambda>l. l \<notin> set (case rg_threads rg sid of None \<Rightarrow> [] | Some ls \<Rightarrow> ls)) (rg_live rg)"
  by (simp_all add: stop_server_locked_def stop_threads_def Let_def)

lemma stop_locked_endpoints:
  "rg_endpoints (stop_server_locked sid rg) ep =
     (case rg_servers rg sid of
        None \<Rightarrow> rg_endpoints rg ep
      | Some srv \<Rightarrow> if ep = normalize_endpoint (rs_endpoint srv) \<and> rg_endpoints rg ep = Some sid then None
                    else rg_endpoints rg ep)"
  by (auto simp: stop_server_locked_def stop_threads_def release_endpoint_def Let_def split: option.splits)

lemma stop_locked_endpoint:
  assumes "registry_ok rg" and "rg_endpoints (stop_server_locked sid rg) ep = Some i" and "normalize_endpoint ep = ep"
  shows "i \<noteq> sid \<and> rg_endpoints rg ep = Some i"
proof -
  have i: "rg_endpoints rg ep = Some i"
    using assms(2) by (auto simp: stop_locked_endpoints split: option.splits if_splits)
  then obtain srv where "rg_servers rg i = Some srv" "rs_endpoint srv = ep"
    using assms(1,3) unfolding registry_ok_def by blast
  with i assms(2,3) show ?thesis by (auto simp: stop_locked_endpoints)
qed

lemma thread_server: "registry_ok rg \<Longrightarrow> rg_threads rg i = Some ms \<Longrightarrow> l \<in> set ms \<Longrightarrow> ql_mock_server_id l = i"
  unfolding registry_ok_def by blast

lemma thread_live: "registry_ok rg \<Longrightarrow> rg_threads rg i = Some ms \<Longrightarrow> l \<in> set ms \<Longrightarrow> l \<in> set (rg_live rg)"
  unfolding registry_ok_def by blast

lemma stop_locked_ok:
  assumes "registry_ok rg"
  shows "registry_ok (stop_server_locked sid rg)"
proof -
  have other: "l \<notin> set (case rg_threads rg sid of None \<Rightarrow> [] | Some ls \<Rightarrow> ls)"
    if "rg_threads rg i = Some ms" "i \<noteq> sid" "l \<in> set ms" for i ms l
    using thread_server [OF assms that(1,3)] thread_server [OF assms, of sid _ l] that(2)
    by (cases "rg_threads rg sid") auto
  have eps: "\<exists>srv. rg_servers (stop_server_locked sid rg) i = Some srv \<and> rs_endpoint srv = ep"
    if "rg_endpoints (stop_server_locked sid rg) ep = Some i" "normalize_endpoint ep = ep" for ep i
    using stop_locked_endpoint [OF assms that] that(2) assms
    unfolding registry_ok_def stop_locked_fields by fastforce
  have threads: "(\<exists>srv. rg_servers (stop_server_locked sid rg) i = Some srv \<and> map ql_queue_binding ms = rs_queues srv) \<and>
      set ms \<subseteq> set (rg_live (stop_server_locked sid rg)) \<and> (\<forall>l \<in> set ms. ql_mock_server_id l = i)"
    if "rg_threads (stop_server_locked sid rg) i = Some ms" for i ms
  proof -
    have i: "i \<noteq> sid" "rg_threads rg i = Some ms" using that by (auto simp: stop_locked_fields split: if_splits)
    have "(\<exists>srv. rg_servers rg i = Some srv \<and> map ql_queue_binding ms = rs_queues srv) \<and>
        set ms \<subseteq> set (rg_live rg) \<and> (\<forall>l \<in> set ms. ql_mock_server_id l = i)"
      using assms i(2) unfolding registry_ok_def by blast
    then show ?thesis using i other [OF i(2,1)] by (auto simp: stop_locked_fields)
  qed
  have "(\<forall>l \<in> set (rg_live (stop_server_locked sid rg)). ql_serial l < rg_serial (stop_server_locked sid rg)) \<and>
      distinct (rg_live (stop_server_locked sid rg))"
    using assms unfolding registry_ok_def stop_locked_fields by simp
  with eps threads show ?thesis unfolding registry_ok_def by blast
qed

lemma stop_locked_accounted: "accounted rg \<Longrightarrow> accounted (stop_server_locked sid rg)"
  by (fastforce simp: accounted_def stop_locked_fields split: option.splits)

lemma stop_locked_silent:
  assumes "accounted rg" and "l \<in> set (rg_live (stop_server_locked sid rg))"
  shows "ql_mock_server_id l \<noteq> sid"
  using assms by (fastforce simp: accounted_def stop_locked_fields split: option.splits)

subsection \<open>Starting\<close>

lemma on_gh_machine_registry: "on_gh_machine m s = (r, t) \<Longrightarrow> gh_registry t = gh_registry s"
  by (auto simp: on_gh_machine_def split: prod.splits)

text \<open>What a batch of listeners adds to the registry, also when one of them fails.\<close>

definition adds_listeners :: "string \<Rightarrow> queue_binding list \<Rightarrow> queue_listener list \<Rightarrow> registry \<Rightarrow> registry \<Rightarrow> bool" where
  "adds_listeners sid bs new rg rg' \<longleftrightarrow>
     rg' = rg\<lparr>rg_live := rg_live rg @ new, rg_serial := rg_serial rg + length new\<rparr> \<and>
     map ql_queue_binding new = take (length new) bs \<and> (\<forall>l \<in> set new. ql_mock_server_id l = sid) \<and>
     map ql_serial new = [rg_serial rg ..< rg_serial rg + length new]"

lemma start_listeners_adds:
  "start_listeners en sid bs threads s = (r, t) \<Longrightarrow>
   \<exists>new. adds_listeners sid bs new (gh_registry s) (gh_registry t) \<and>
     (\<forall>ls. r = Inr ls \<longrightarrow> ls = threads @ new \<and> length new = length bs)"
proof (induction bs arbitrary: threads s)
  case Nil
  then show ?case by (intro exI [of _ "[]"]) (auto simp: adds_listeners_def)
next
  case (Cons b bs)
  obtain c s1 where c: "connect_listener en b s = (c, s1)" by fastforce
  then have s1: "gh_registry s1 = gh_registry s" using on_gh_machine_registry by (auto simp: connect_listener_def)
  show ?case
  proof (cases c)
    case (Inl e)
    then show ?thesis using Cons.prems c s1
      by (intro exI [of _ "[]"]) (auto simp: adds_listeners_def ebind_def)
  next
    case (Inr conn)
    define l where "l = \<lparr>ql_serial = rg_serial (gh_registry s1), ql_mock_server_id = sid, ql_queue_binding = b,
        ql_connection = conn\<rparr>"
    define s2 where "s2 = s1\<lparr>gh_registry := (gh_registry s1)\<lparr>rg_live := rg_live (gh_registry s1) @ [l],
        rg_serial := Suc (rg_serial (gh_registry s1))\<rparr>\<rparr>"
    have "start_listeners en sid bs (threads @ [l]) s2 = (r, t)"
      using Cons.prems c Inr by (simp add: ebind_def spawn_listener_def Let_def l_def s2_def)
    from Cons.IH [OF this] obtain new where new: "adds_listeners sid bs new (gh_registry s2) (gh_registry t)"
        "\<forall>ls. r = Inr ls \<longrightarrow> ls = (threads @ [l]) @ new \<and> length new = length bs"
      by blast
    have "[rg_serial (gh_registry s) ..< rg_serial (gh_registry s) + Suc (length new)] =
        rg_serial (gh_registry s) # [Suc (rg_serial (gh_registry s)) ..< Suc (rg_serial (gh_registry s)) + length new]"
      using upt_conv_Cons [of "rg_serial (gh_registry s)" "rg_serial (gh_registry s) + Suc (length new)"] by simp
    then have "adds_listeners sid (b # bs) (l # new) (gh_registry s) (gh_registry t)"
      using new(1) by (auto simp: adds_listeners_def s2_def s1 l_def)
    with new(2) show ?thesis by (intro exI [of _ "l # new"]) auto
  qed
qed

lemma register_fields:
  "rg_servers (register_server sid srv rg) = (rg_servers rg)(sid \<mapsto> srv)"
  "rg_threads (register_server sid srv rg) = (rg_threads rg)(sid := None)"
  "rg_serial (register_server sid srv rg) = rg_serial rg"
  "rg_live (register_server sid srv rg) = rg_live (stop_server_locked sid rg)"
  "rg_endpoints (register_server sid srv rg) = (rg_endpoints (stop_server_locked sid rg))(rs_endpoint srv \<mapsto> sid)"
  by (simp_all add: register_server_def Let_def stop_locked_fields)

lemma register_ok:
  assumes "registry_ok rg"
  shows "registry_ok (register_server sid srv rg)"
proof -
  let ?stop = "stop_server_locked sid rg"
  have ok: "registry_ok ?stop" by (rule stop_locked_ok [OF assms])
  have eps: "\<exists>x. rg_servers (register_server sid srv rg) i = Some x \<and> rs_endpoint x = ep"
    if "rg_endpoints (register_server sid srv rg) ep = Some i" "normalize_endpoint ep = ep" for ep i
  proof (cases "ep = rs_endpoint srv")
    case False
    then have "rg_endpoints ?stop ep = Some i" using that(1) by (simp add: register_fields)
    then have "i \<noteq> sid" "rg_endpoints rg ep = Some i"
      using stop_locked_endpoint [OF assms _ that(2)] by blast+
    then show ?thesis using assms that(2) unfolding registry_ok_def register_fields by fastforce
  qed (use that in \<open>simp add: register_fields\<close>)
  moreover have "(\<exists>x. rg_servers (register_server sid srv rg) i = Some x \<and> map ql_queue_binding ms = rs_queues x) \<and>
      set ms \<subseteq> set (rg_live (register_server sid srv rg)) \<and> (\<forall>l \<in> set ms. ql_mock_server_id l = i)"
    if "rg_threads (register_server sid srv rg) i = Some ms" for i ms
  proof -
    have i: "i \<noteq> sid" "rg_threads ?stop i = Some ms"
      using that by (auto simp: register_fields stop_locked_fields split: if_splits)
    then have "(\<exists>x. rg_servers ?stop i = Some x \<and> map ql_queue_binding ms = rs_queues x) \<and>
        set ms \<subseteq> set (rg_live ?stop) \<and> (\<forall>l \<in> set ms. ql_mock_server_id l = i)"
      using ok unfolding registry_ok_def by blast
    then show ?thesis using i(1) by (simp add: register_fields stop_locked_fields)
  qed
  moreover have "(\<forall>l \<in> set (rg_live (register_server sid srv rg)). ql_serial l < rg_serial (register_server sid srv rg)) \<and>
      distinct (rg_live (register_server sid srv rg))"
    using ok unfolding registry_ok_def by (simp add: register_fields stop_locked_fields)
  ultimately show ?thesis unfolding registry_ok_def by blast
qed

lemma adds_listeners_ok:
  assumes "registry_ok rg" and "adds_listeners sid bs new rg rg'"
  shows "registry_ok rg'"
proof -
  have rg': "rg' = rg\<lparr>rg_live := rg_live rg @ new, rg_serial := rg_serial rg + length new\<rparr>"
      and serials: "map ql_serial new = [rg_serial rg ..< rg_serial rg + length new]"
    using assms(2) unfolding adds_listeners_def by blast+
  have "distinct (map ql_serial new)" by (simp add: serials)
  then have d: "distinct new" by (simp add: distinct_map)
  have range: "rg_serial rg \<le> ql_serial l \<and> ql_serial l < rg_serial rg + length new" if "l \<in> set new" for l
  proof -
    have "ql_serial l \<in> set (map ql_serial new)" using that by simp
    then show ?thesis unfolding serials by simp
  qed
  have old: "ql_serial l < rg_serial rg" if "l \<in> set (rg_live rg)" for l
    using assms(1) that unfolding registry_ok_def by blast
  have "distinct (rg_live rg)" using assms(1) unfolding registry_ok_def by blast
  moreover have "set (rg_live rg) \<inter> set new = {}" using old range by fastforce
  ultimately have "distinct (rg_live rg @ new)" using d by simp
  moreover have "\<forall>l \<in> set (rg_live rg @ new). ql_serial l < rg_serial rg + length new"
    using old range by fastforce
  ultimately show ?thesis using assms(1) unfolding registry_ok_def rg' by fastforce
qed

lemma start_server_ok:
  assumes "registry_ok (gh_registry s)" and "start_server en sid s = (r, t)"
  shows "registry_ok (gh_registry t)" and "r = Inr () \<Longrightarrow> accounted (gh_registry s) \<Longrightarrow> accounted (gh_registry t)"
proof -
  obtain ro s1 where load: "load_server en sid s = (ro, s1)" by fastforce
  have s1: "gh_registry s1 = gh_registry s"
    using load by (auto simp: load_server_def ebind_def on_gh_machine_def on_host_def split: option.splits)
  have both: "registry_ok (gh_registry t) \<and>
      (r = Inr () \<longrightarrow> accounted (gh_registry s) \<longrightarrow> accounted (gh_registry t))"
  proof (cases ro)
    case (Inl e)
    then show ?thesis using assms load s1 by (auto simp: start_server_def ebind_def)
  next
    case (Inr srv)
    define rg where "rg = register_server sid srv (gh_registry s)"
    define s2 where "s2 = s1\<lparr>gh_registry := rg\<rparr>"
    obtain lo s3 where run: "start_listeners en sid (rs_queues srv) [] s2 = (lo, s3)" by fastforce
    obtain new where new: "adds_listeners sid (rs_queues srv) new rg (gh_registry s3)"
        "\<And>ls. lo = Inr ls \<Longrightarrow> ls = new \<and> length new = length (rs_queues srv)"
      using start_listeners_adds [OF run] by (auto simp: s2_def)
    have ok3: "registry_ok (gh_registry s3)"
      using adds_listeners_ok [OF register_ok [OF assms(1)]] new(1) unfolding rg_def by blast
    have tail: "start_server en sid s = ebind (\<lambda>_. (lo, s3)) (\<lambda>threads.
        ebind (on_registry (\<lambda>rg. rg\<lparr>rg_threads := (rg_threads rg)(sid \<mapsto> threads)\<rparr>)) (\<lambda>_.
        on_gh_machine (log_mock_server_event sid (started_message srv) ''INFO'' PNone))) s2"
      using load Inr run s1 by (simp add: start_server_def ebind_def on_registry_def s2_def rg_def)
    show ?thesis
    proof (cases lo)
      case (Inl e)
      then show ?thesis using assms(2) ok3 unfolding tail by (auto simp: ebind_def)
    next
      case (Inr ls)
      have ls: "ls = new" "map ql_queue_binding new = rs_queues srv"
        using new Inr unfolding adds_listeners_def by auto
      have t: "gh_registry t = (gh_registry s3)\<lparr>rg_threads := (rg_threads (gh_registry s3))(sid \<mapsto> new)\<rparr>"
        using assms(2) Inr ls(1) unfolding tail
        by (auto simp: ebind_def on_registry_def on_gh_machine_def on_host_def log_mock_server_event_def)
      have s3: "gh_registry s3 = rg\<lparr>rg_live := rg_live rg @ new, rg_serial := rg_serial rg + length new\<rparr>"
          and mine: "\<forall>l \<in> set new. ql_mock_server_id l = sid"
        using new(1) unfolding adds_listeners_def by blast+
      have server: "rg_servers (gh_registry s3) sid = Some srv" by (simp add: s3 rg_def register_fields)
      have "registry_ok (gh_registry t)"
        using ok3 ls(2) mine server unfolding registry_ok_def t by (auto simp: s3)
      moreover have "accounted (gh_registry t)" if "accounted (gh_registry s)"
      proof -
        have stop: "accounted (stop_server_locked sid (gh_registry s))"
          by (rule stop_locked_accounted [OF that])
        have "ql_mock_server_id l \<noteq> sid" if "l \<in> set (rg_live (stop_server_locked sid (gh_registry s)))" for l
          using stop_locked_silent [OF \<open>accounted (gh_registry s)\<close> that] .
        then show ?thesis using stop mine unfolding accounted_def t s3 rg_def
          by (auto simp: register_fields stop_locked_fields(2))
      qed
      ultimately show ?thesis by blast
    qed
  qed
  then show "registry_ok (gh_registry t)" and "r = Inr () \<Longrightarrow> accounted (gh_registry s) \<Longrightarrow> accounted (gh_registry t)"
    by blast+
qed

lemma stop_server_registry:
  "stop_server sid s = (r, t) \<Longrightarrow> gh_registry t = stop_server_locked sid (gh_registry s)"
  by (auto simp: stop_server_def ebind_def on_registry_def on_gh_machine_def on_host_def log_mock_server_event_def)

lemma history_ok: "history en ok s \<Longrightarrow> registry_ok (gh_registry s) \<and> (ok \<longrightarrow> accounted (gh_registry s))"
proof (induction rule: history.induct)
  case (idle s)
  then show ?case by (simp add: registry_ok_def accounted_def empty_registry_def)
next
  case (started ok s sid r t)
  then show ?case using start_server_ok by blast
next
  case (stopped ok s sid r t)
  then show ?case using stop_server_registry stop_locked_ok stop_locked_accounted by metis
next
  case (elsewhere ok s t)
  then show ?case by simp
qed

text \<open>Starting the active servers at boot is a part of a history like any other.\<close>

lemma bootstrap_servers_history:
  "history en ok s \<Longrightarrow> \<exists>ok'. history en ok' (snd (bootstrap_servers en sids s))"
proof (induction sids arbitrary: ok s)
  case (Cons sid sids)
  obtain r t where r: "start_server en sid s = (r, t)" by fastforce
  note started = history.started [OF Cons.prems r]
  show ?case
  proof (cases r)
    case (Inl e)
    let ?u = "snd (on_gh_machine (log_mock_server_event sid (''Cannot bootstrap mock server '' @ quoted sid @ '': '' @
        exc_message e) ''INFO'' PNone) t)"
    have "history en (ok \<and> r = Inr ()) ?u"
      by (rule history.elsewhere [OF started])
        (simp add: on_gh_machine_def on_host_def log_mock_server_event_def)
    then show ?thesis using Cons.IH r Inl
      by (simp add: ebind_def etry_def on_gh_machine_def on_host_def log_mock_server_event_def)
  next
    case (Inr u)
    then show ?thesis using Cons.IH [OF started] r by (simp add: ebind_def etry_def)
  qed
qed auto

text \<open>
  C9. The registry of running servers is consistent in every history of starts, failed starts,
  stops and other activity: an endpoint in normal form leads to a running server with that
  endpoint, the recorded listeners of a server are alive, are its own and serve its queue
  bindings in order, and no listener is recorded twice. When every start succeeded, every live
  listener is recorded, and stopping a server silences it: none of its listeners stays alive
  and no endpoint leads to it.
\<close>

theorem registry_consistent:
  assumes "history en ok s"
  shows "registry_ok (gh_registry s) \<and>
    (ok \<longrightarrow> accounted (gh_registry s) \<and>
       (case stop_server sid s of (r, t) \<Rightarrow>
          (\<forall>l \<in> set (rg_live (gh_registry t)). ql_mock_server_id l \<noteq> sid) \<and>
          (\<forall>ep. normalize_endpoint ep = ep \<longrightarrow> rg_endpoints (gh_registry t) ep \<noteq> Some sid)))"
proof -
  obtain r t where rt: "stop_server sid s = (r, t)" by fastforce
  note ok = history_ok [OF assms]
  show ?thesis
    using ok stop_locked_silent [of "gh_registry s"] stop_locked_endpoint [of "gh_registry s" sid _ sid]
    by (auto simp: rt stop_server_registry [OF rt])
qed

subsection \<open>A start that fails\<close>

lemma start_server_fails:
  assumes "start_server en sid s = (Inl e, t)"
  shows "gh_registry t = gh_registry s \<or>
    (\<exists>srv new. adds_listeners sid (rs_queues srv) new (register_server sid srv (gh_registry s)) (gh_registry t))"
proof -
  obtain ro s1 where load: "load_server en sid s = (ro, s1)" by fastforce
  have s1: "gh_registry s1 = gh_registry s"
    using load by (auto simp: load_server_def ebind_def on_gh_machine_def on_host_def split: option.splits)
  show ?thesis
  proof (cases ro)
    case (Inl e')
    then show ?thesis using assms load s1 by (auto simp: start_server_def ebind_def)
  next
    case (Inr srv)
    let ?s2 = "s1\<lparr>gh_registry := register_server sid srv (gh_registry s)\<rparr>"
    obtain lo s3 where run: "start_listeners en sid (rs_queues srv) [] ?s2 = (lo, s3)" by fastforce
    have "t = s3"
      using assms load Inr run s1
      by (cases lo) (auto simp: start_server_def ebind_def on_registry_def on_gh_machine_def on_host_def
        log_mock_server_event_def)
    then show ?thesis using start_listeners_adds [OF run] by auto
  qed
qed

text \<open>
  A failed start leaks its listeners: a listener thread that was started before the start of
  its server failed (on a later queue of the server) is recorded nowhere, so neither stopping
  that server nor stopping any other one ends it.
\<close>

theorem failed_start_leaks:
  assumes "history en ok s" and "start_server en sid s = (Inl e, t)"
    and "l \<in> set (rg_live (gh_registry t))" and "l \<notin> set (rg_live (gh_registry s))"
    and "stop_server i t = (r, u)"
  shows "ql_mock_server_id l = sid \<and> l \<in> set (rg_live (gh_registry u))"
proof -
  obtain srv new where new: "adds_listeners sid (rs_queues srv) new (register_server sid srv (gh_registry s)) (gh_registry t)"
    using start_server_fails [OF assms(2)] assms(3,4) by auto
  have l: "ql_mock_server_id l = sid"
    using new assms(3,4) by (auto simp: adds_listeners_def register_fields stop_locked_fields)
  have threads: "rg_threads (gh_registry t) = (rg_threads (gh_registry s))(sid := None)"
    using new by (simp add: adds_listeners_def register_fields)
  have "l \<notin> set ls" if "rg_threads (gh_registry t) i = Some ls" for ls
    using that threads thread_live [of "gh_registry s" i ls l] history_ok [OF assms(1)] assms(4)
    by (auto split: if_splits)
  then have "l \<notin> set (case rg_threads (gh_registry t) i of None \<Rightarrow> [] | Some ls \<Rightarrow> ls)"
    by (cases "rg_threads (gh_registry t) i") auto
  then show ?thesis using l assms(3) by (simp add: stop_server_registry [OF assms(5)] stop_locked_fields)
qed

subsection \<open>A server with two queues\<close>

definition shop_machine :: "nat machine" where
  "shop_machine = example_machine\<lparr>
     mc_payloads := [(''b'', \<lparr>jp_json_type = ''broker'', jp_payload = PDict [(''sourceType'', PStr ''elasticmq'')]\<rparr>)],
     mc_queues := [(''q'', \<lparr>qr_code = ''q'', qr_broker_id = ''b'', qr_configuration = PNone\<rparr>)]\<rparr>"

definition shop_queue :: "string \<Rightarrow> string \<times> mock_queue_row" where
  "shop_queue q = (q, \<lparr>uw_mock_server_id = ''s'', uw_queue_id = q, uw_description = [],
     uw_configuration = PDict [(''max_messages'', PInt 50)], uw_order = 0\<rparr>)"

definition shop :: "string list \<Rightarrow> nat registry_host" where
  "shop queues =
     \<lparr>gh_host = \<lparr>mh_machine = shop_machine, mh_invocations = []\<rparr>,
      gh_tables = \<lparr>mt_servers = [(''s'', \<lparr>sw_description = [], sw_endpoint = ''/Shop/'', sw_configuration = PNone, sw_is_active = True\<rparr>)],
        mt_apis = [], mt_api_commands = [], mt_queues = map shop_queue queues, mt_queue_commands = []\<rparr>,
      gh_registry = empty_registry\<rparr>"

lemma shop_history: "history example_env True (shop queues)"
  by (rule history.idle) (simp add: shop_def)

lemma shop_starts:
  "fst (start_server example_env ''s'' (shop [''q''])) = Inr ()"
  "rg_endpoints (gh_registry (snd (start_server example_env ''s'' (shop [''q''])))) ''shop'' = Some ''s''"
  "length (rg_live (gh_registry (snd (start_server example_env ''s'' (shop [''q'']))))) = 1"
  by code_simp+

lemma broken_shop:
  "fst (start_server example_env ''s'' (shop [''q'', ''r''])) = Inl (ValueError (''Queue '' @ quoted ''r'' @ '' not found.''))"
  "map ql_mock_server_id (rg_live (gh_registry (snd (start_server example_env ''s'' (shop [''q'', ''r'']))))) = [''s'']"
  by code_simp+

text \<open>A shop with one queue that starts, and the same with a second queue that does not exist.\<close>

theorem registry_consistent_witness:
  "case stop_server ''s'' (snd (start_server example_env ''s'' (shop [''q'']))) of (r, t) \<Rightarrow>
     \<forall>l \<in> set (rg_live (gh_registry t)). ql_mock_server_id l \<noteq> ''s''"
proof -
  have "start_server example_env ''s'' (shop [''q'']) = (Inr (), snd (start_server example_env ''s'' (shop [''q''])))"
    by (rule prod_eqI) (simp_all add: shop_starts)
  from history.started [OF shop_history this]
  have "history example_env True (snd (start_server example_env ''s'' (shop [''q''])))" by simp
  from registry_consistent [OF this, of "''s''"] show ?thesis by (auto split: prod.splits)
qed

theorem failed_start_leaks_witness:
  "\<exists>l. l \<in> set (rg_live (gh_registry (snd (stop_server ''s''
     (snd (start_server example_env ''s'' (shop [''q'', ''r''])))))))"
proof -
  define t where "t = snd (start_server example_env ''s'' (shop [''q'', ''r'']))"
  have run: "start_server example_env ''s'' (shop [''q'', ''r'']) =
      (Inl (ValueError (''Queue '' @ quoted ''r'' @ '' not found.'')), t)"
    unfolding t_def by (rule prod_eqI) (simp_all add: broken_shop(1))
  obtain l where l: "l \<in> set (rg_live (gh_registry t))"
    using broken_shop(2) unfolding t_def [symmetric] by (cases "rg_live (gh_registry t)") auto
  have "l \<notin> set (rg_live (gh_registry (shop [''q'', ''r''])))" by (simp add: shop_def empty_registry_def)
  from failed_start_leaks [OF shop_history run l this, of "''s''"] show ?thesis
    unfolding t_def [symmetric] by (metis prod.collapse)
qed

end
