(* ===== verification/Receive_Facts.thy ===== *)
theory Receive_Facts
  imports Command_Executors
begin

section \<open>Reading a queue ends\<close>

text \<open>
  The loop of \<open>data_from_queue_operation_executor.py\<close>, which reads a queue until it has the
  messages it wants or has waited as often as it may. The calls of the broker and of
  \<open>time.sleep\<close> are counted in the world.
\<close>

definition counted :: "('k \<Rightarrow> 'w \<Rightarrow> 'a result \<times> 'w) \<Rightarrow> 'k \<Rightarrow> 'w \<times> nat \<times> nat \<Rightarrow> 'a result \<times> 'w \<times> nat \<times> nat" where
  "counted recv k = (\<lambda>(w, reads, sleeps). case recv k w of (r, w') \<Rightarrow> (r, w', Suc reads, sleeps))"

definition slept :: "('w \<Rightarrow> 'a result \<times> 'w) \<Rightarrow> 'w \<times> nat \<times> nat \<Rightarrow> 'a result \<times> 'w \<times> nat \<times> nat" where
  "slept pause = (\<lambda>(w, reads, sleeps). case pause w of (r, w') \<Rightarrow> (r, w', reads, Suc sleeps))"

text \<open>The broker gives at most as many messages as it is asked for.\<close>

definition honours_limit :: "(int \<Rightarrow> 'w \<Rightarrow> pyval list result \<times> 'w) \<Rightarrow> bool" where
  "honours_limit recv \<longleftrightarrow> (\<forall>k w msgs w'. 0 < k \<longrightarrow> recv k w = (Inr msgs, w') \<longrightarrow> int (length msgs) \<le> k)"

lemma receive_loop_counts:
  "receive_loop (counted recv) (slept pause) mx retry msgs (w, reads, sleeps) = (r, w', reads', sleeps') \<Longrightarrow>
   reads' \<le> reads + nat retry + nat (mx - int (length msgs)) \<and> sleeps' \<le> sleeps + nat retry \<and>
   (\<forall>ms. r = Inr ms \<longrightarrow> honours_limit recv \<longrightarrow> int (length ms) \<le> max mx (int (length msgs)))"
proof (induction "nat retry + nat (mx - int (length msgs))" arbitrary: retry msgs w reads sleeps rule: less_induct)
  case less
  note step = receive_loop.simps [of "counted recv" "slept pause" mx retry msgs "(w, reads, sleeps)"]
  show ?case
  proof (cases "0 < retry \<and> int (length msgs) < mx")
    case False
    then show ?thesis using less.prems step by auto
  next
    case True
    obtain a w1 where a: "recv (mx - int (length msgs)) w = (a, w1)" by fastforce
    show ?thesis
    proof (cases a)
      case (Inl e)
      then show ?thesis using less.prems True a unfolding step by (auto simp: counted_def)
    next
      case (Inr new)
      show ?thesis
      proof (cases "new = []")
        case empty: True
        obtain p w2 where p: "pause w1 = (p, w2)" by fastforce
        show ?thesis
        proof (cases p)
          case (Inl e)
          then show ?thesis using less.prems True a Inr empty p unfolding step by (auto simp: counted_def slept_def)
        next
          case slept: (Inr u)
          have "receive_loop (counted recv) (slept pause) mx (retry - 1) msgs (w2, Suc reads, Suc sleeps) =
              (r, w', reads', sleeps')"
            using less.prems True a Inr empty p slept unfolding step by (simp add: counted_def slept_def)
          from less.hyps [OF _ this] True show ?thesis by auto
        qed
      next
        case False
        have "receive_loop (counted recv) (slept pause) mx retry (msgs @ new) (w1, Suc reads, sleeps) =
            (r, w', reads', sleeps')"
          using less.prems True a Inr False unfolding step by (simp add: counted_def)
        moreover have "int (length (msgs @ new)) \<le> mx" if limit: "honours_limit recv"
        proof -
          have "0 < mx - int (length msgs)" using True by simp
          with limit a Inr have "int (length new) \<le> mx - int (length msgs)"
            unfolding honours_limit_def by blast
          then show ?thesis by simp
        qed
        moreover obtain n where "length new = Suc n" using False by (cases new) auto
        ultimately show ?thesis using less.hyps [of retry "msgs @ new" w1 "Suc reads" sleeps] True
          by (auto simp: max_def split: if_splits)
      qed
    qed
  qed
qed

text \<open>
  C39. Reading a queue ends: whatever the broker answers, the loop asks it at most
  \<open>retry + max_messages\<close> times and sleeps at most \<open>retry\<close> times, and when the broker never gives
  more messages than it is asked for, the result has at most \<open>max_messages\<close> messages.
\<close>

theorem receive_loop_bounded:
  assumes "receive_loop (counted recv) (slept pause) max_messages retry [] (w, 0, 0) = (r, w', reads, sleeps)"
  shows "reads \<le> nat retry + nat max_messages \<and> sleeps \<le> nat retry \<and>
    (honours_limit recv \<longrightarrow> (case r of Inr msgs \<Rightarrow> length msgs \<le> nat max_messages | Inl e \<Rightarrow> True))"
  using receive_loop_counts [OF assms] by (auto split: sum.splits)

definition demo_broker :: "int \<Rightarrow> nat \<Rightarrow> pyval list result \<times> nat" where
  "demo_broker k n = (Inr (if n = 1 \<and> 0 < k then [PStr ''m''] else []), Suc n)"

theorem receive_loop_bounded_witness:
  "receive_loop (counted demo_broker) (slept (\<lambda>n. (Inr (), n))) 1 3 [] (0, 0, 0) = (Inr [PStr ''m''], 2, 2, 1) \<and>
   (2 :: nat) \<le> nat 3 + nat 1 \<and> length [PStr ''m''] \<le> nat 1"
proof -
  have run: "receive_loop (counted demo_broker) (slept (\<lambda>n. (Inr (), n))) 1 3 [] (0, 0, 0) =
      (Inr [PStr ''m''], 2, 2, 1)"
    by (simp add: receive_loop.simps counted_def slept_def demo_broker_def)
  have "honours_limit demo_broker" by (auto simp: honours_limit_def demo_broker_def)
  then show ?thesis using run receive_loop_bounded [OF run] by simp
qed

end
