(* ===== verification/Mock_Service.thy ===== *)
theory Mock_Service
  imports Mock_Routes Constant_Registry
begin

section \<open>Saving mock servers\<close>

text \<open>
  \<open>mock_servers/models/dtos/mock_server_dto.py\<close>, \<open>services/mock_server_payload_service.py\<close> and
  \<open>rebuild_mock_constant_definitions\<close>: a request to create or update a mock server is normalised,
  checked, written to the tables of the server, and the stored constant definitions of its
  commands are rebuilt. A command's \<open>od_cfg\<close> is the \<open>model_dump\<close> of its configuration.
\<close>

subsection \<open>Requests\<close>

record mock_operation_dto =
  od_order :: int
  od_description :: string
  od_cfg :: pydict

record mock_api_cfg =
  ag_method :: string
  ag_path :: string
  ag_params :: pyval
  ag_authorization :: pyval
  ag_headers :: pyval
  ag_body :: pyval
  ag_body_match :: "string option"
  ag_response :: pyval
  ag_response_status :: int
  ag_response_headers :: pyval
  ag_response_body :: pyval
  ag_pre_response_commands :: pyval
  ag_post_response_commands :: pyval
  ag_priority :: int

record mock_api_dto =
  ad_order :: int
  ad_description :: string
  ad_cfg :: mock_api_cfg
  ad_commands :: "mock_operation_dto list"

record mock_queue_dto =
  ud_order :: int
  ud_description :: string
  ud_queue_id :: string
  ud_polling_interval_seconds :: int
  ud_max_messages :: int
  ud_commands :: "mock_operation_dto list"

record mock_server_dto =
  md_description :: string
  md_endpoint :: string
  md_apis :: "mock_api_dto list"
  md_queues :: "mock_queue_dto list"
  md_is_active :: bool

definition dto_normalize_endpoint :: "string \<Rightarrow> string result" where
  "dto_normalize_endpoint endpoint =
     (let v = strip_char (CHR ''/'') (strip endpoint) in
      rbind (guard (v \<noteq> []) (ValidationError ''endpoint is required.'')) (\<lambda>_. Inr (lower v)))"

definition http_methods :: "string list" where
  "http_methods = [''GET'', ''POST'', ''PUT'', ''DELETE'', ''PATCH'', ''HEAD'', ''OPTIONS'']"

definition validated_status :: "mock_api_cfg \<Rightarrow> int result" where
  "validated_status c =
     (let v = dget_default (dict_or_empty (ag_response c)) ''status'' (PInt (ag_response_status c)) in
      if is_dict v then Inr 200
      else rbind (py_int (py_or v (PInt 200))) (\<lambda>i. Inr (max i 100)))"

definition validate_api_configuration :: "mock_api_cfg \<Rightarrow> mock_api_cfg result" where
  "validate_api_configuration c =
     (let method_name = upper (strip (ag_method c));
          body_match = lower (strip (case ag_body_match c of None \<Rightarrow> ''contains''
            | Some s \<Rightarrow> if s = [] then ''contains'' else s)) in
      rbind (guard (method_name \<in> set http_methods)
               (ValidationError (''Unsupported method '' @ quoted method_name @ ''.''))) (\<lambda>_.
      rbind (guard (body_match \<in> {''contains'', ''equals''})
               (ValidationError (''body_match must be '' @ quoted ''contains'' @ '' or '' @ quoted ''equals'' @ ''.''))) (\<lambda>_.
      rbind (validated_status c) (\<lambda>status.
      Inr (c\<lparr>ag_method := method_name, ag_path := normalize_path (ag_path c), ag_body_match := Some body_match,
             ag_response_status := status\<rparr>)))))"

definition validate_queue_configuration :: "mock_queue_dto \<Rightarrow> mock_queue_dto" where
  "validate_queue_configuration q =
     q\<lparr>ud_polling_interval_seconds :=
          max (if ud_polling_interval_seconds q = 0 then 1 else ud_polling_interval_seconds q) 1,
       ud_max_messages := max (min (if ud_max_messages q = 0 then 10 else ud_max_messages q) 10) 1\<rparr>"

text \<open>\<open>dto.cfg.model_dump()\<close>.\<close>

definition api_cfg_dump :: "mock_api_cfg \<Rightarrow> pydict" where
  "api_cfg_dump c =
     [(''method'', PStr (ag_method c)), (''path'', PStr (ag_path c)), (''params'', ag_params c),
      (''authorization'', ag_authorization c), (''headers'', ag_headers c), (''body'', ag_body c),
      (''body_match'', (case ag_body_match c of None \<Rightarrow> PNone | Some s \<Rightarrow> PStr s)),
      (''response'', ag_response c), (''response_status'', PInt (ag_response_status c)),
      (''response_headers'', ag_response_headers c), (''response_body'', ag_response_body c),
      (''pre_response_commands'', ag_pre_response_commands c),
      (''post_response_commands'', ag_post_response_commands c), (''priority'', PInt (ag_priority c))]"

definition queue_cfg_dump :: "mock_queue_dto \<Rightarrow> pydict" where
  "queue_cfg_dump q =
     [(''polling_interval_seconds'', PInt (ud_polling_interval_seconds q)),
      (''max_messages'', PInt (ud_max_messages q))]"

subsection \<open>Ids of inline commands\<close>

text \<open>Every dictionary of the list gets an id; the supply of new ids is at position \<open>n\<close>.\<close>

fun with_command_ids :: "(nat \<Rightarrow> string) \<Rightarrow> pyval list \<Rightarrow> nat \<Rightarrow> pyval list \<times> nat" where
  "with_command_ids uid [] n = ([], n)"
| "with_command_ids uid (v # vs) n =
     (case v of
        PDict d \<Rightarrow>
          (case ensure_command_id uid d n of (i, n1) \<Rightarrow>
           case with_command_ids uid vs n1 of (ws, n2) \<Rightarrow>
             (PDict (if token (dget d ''id'') = [] then dset ''id'' (PStr i) d else d) # ws, n2))
      | _ \<Rightarrow> (case with_command_ids uid vs n of (ws, n2) \<Rightarrow> (v # ws, n2)))"

definition ensure_api_command_ids :: "(nat \<Rightarrow> string) \<Rightarrow> mock_api_dto \<Rightarrow> nat \<Rightarrow> mock_api_dto \<times> nat" where
  "ensure_api_command_ids uid a n =
     (case ag_pre_response_commands (ad_cfg a) of
        PList vs \<Rightarrow>
          (case with_command_ids uid vs n of (ws, n1) \<Rightarrow>
             (a\<lparr>ad_cfg := (ad_cfg a)\<lparr>ag_pre_response_commands := PList ws\<rparr>\<rparr>, n1))
      | _ \<Rightarrow> (a, n))"

fun ensure_inline_command_ids :: "(nat \<Rightarrow> string) \<Rightarrow> mock_api_dto list \<Rightarrow> nat \<Rightarrow> mock_api_dto list \<times> nat" where
  "ensure_inline_command_ids uid [] n = ([], n)"
| "ensure_inline_command_ids uid (a # as) n =
     (case ensure_api_command_ids uid a n of (b, n1) \<Rightarrow>
      case ensure_inline_command_ids uid as n1 of (bs, n2) \<Rightarrow> (b # bs, n2))"

subsection \<open>The graph check of a request\<close>

definition operation_req :: "mock_operation_dto \<Rightarrow> command_req" where
  "operation_req c = \<lparr>cr_order = od_order c, cr_description = od_description c, cr_cfg = od_cfg c\<rparr>"

definition server_req :: "mock_server_dto \<Rightarrow> mock_server_req" where
  "server_req dto =
     \<lparr>mr_apis = map (\<lambda>a. \<lparr>ar_cfg = api_cfg_dump (ad_cfg a), ar_commands = map operation_req (ad_commands a)\<rparr>) (md_apis dto),
      mr_queues = map (\<lambda>q. map operation_req (ud_commands q)) (md_queues dto)\<rparr>"

subsection \<open>Rows\<close>

record mock_store =
  ms_tables :: mock_tables
  ms_definitions :: "definition_row table"
  ms_supply :: nat

type_synonym 'a saving = "mock_store \<Rightarrow> ('a \<times> mock_store) result"

definition build_server_row :: "mock_server_dto \<Rightarrow> mock_server_row" where
  "build_server_row dto =
     \<lparr>sw_description = md_description dto, sw_endpoint = lower (strip (md_endpoint dto)),
      sw_configuration = PDict [(''endpoint'', PStr (md_endpoint dto))], sw_is_active = md_is_active dto\<rparr>"

definition build_api_row :: "string \<Rightarrow> mock_api_dto \<Rightarrow> mock_api_row" where
  "build_api_row sid a =
     \<lparr>pw_mock_server_id = sid, pw_description = ad_description a,
      pw_method = upper (strip (ag_method (ad_cfg a))), pw_path = strip (ag_path (ad_cfg a)),
      pw_configuration = PDict (api_cfg_dump (ad_cfg a)), pw_order = ad_order a\<rparr>"

definition build_queue_row :: "string \<Rightarrow> mock_queue_dto \<Rightarrow> mock_queue_row" where
  "build_queue_row sid q =
     \<lparr>uw_mock_server_id = sid, uw_queue_id = strip (ud_queue_id q), uw_description = ud_description q,
      uw_configuration = PDict (queue_cfg_dump q), uw_order = ud_order q\<rparr>"

definition build_command_row :: "string \<Rightarrow> mock_operation_dto \<Rightarrow> mock_command_row" where
  "build_command_row owner c =
     \<lparr>ow_owner_id = owner, ow_description = od_description c, ow_command_code = token (dget (od_cfg c) ''commandCode''),
      ow_command_type = token (dget (od_cfg c) ''commandType''), ow_configuration = PDict (od_cfg c), ow_order = od_order c\<rparr>"

text \<open>Commands of one owner, each with a new id.\<close>

fun insert_commands ::
  "(nat \<Rightarrow> string) \<Rightarrow> string \<Rightarrow> mock_operation_dto list \<Rightarrow> mock_command_row table \<Rightarrow> nat \<Rightarrow>
     (mock_command_row table \<times> nat) result" where
  "insert_commands uid owner [] t n = Inr (t, n)"
| "insert_commands uid owner (c # cs) t n =
     rbind (insert_row (uid n) (build_command_row owner c) t) (\<lambda>t1. insert_commands uid owner cs t1 (Suc n))"

fun insert_mock_server_apis :: "(nat \<Rightarrow> string) \<Rightarrow> string \<Rightarrow> mock_api_dto list \<Rightarrow> mock_store \<Rightarrow> mock_store result" where
  "insert_mock_server_apis uid sid [] s = Inr s"
| "insert_mock_server_apis uid sid (a # as) s =
     (let aid = uid (ms_supply s) in
      rbind (insert_row aid (build_api_row sid a) (mt_apis (ms_tables s))) (\<lambda>apis.
      rbind (insert_commands uid aid (ad_commands a) (mt_api_commands (ms_tables s)) (Suc (ms_supply s))) (\<lambda>(cmds, n).
      insert_mock_server_apis uid sid as
        (s\<lparr>ms_tables := (ms_tables s)\<lparr>mt_apis := apis, mt_api_commands := cmds\<rparr>, ms_supply := n\<rparr>))))"

fun insert_mock_server_queues :: "(nat \<Rightarrow> string) \<Rightarrow> string \<Rightarrow> mock_queue_dto list \<Rightarrow> mock_store \<Rightarrow> mock_store result" where
  "insert_mock_server_queues uid sid [] s = Inr s"
| "insert_mock_server_queues uid sid (q # qs) s =
     (let qid = uid (ms_supply s) in
      rbind (insert_row qid (build_queue_row sid q) (mt_queues (ms_tables s))) (\<lambda>queues.
      rbind (insert_commands uid qid (ud_commands q) (mt_queue_commands (ms_tables s)) (Suc (ms_supply s))) (\<lambda>(cmds, n).
      insert_mock_server_queues uid sid qs
        (s\<lparr>ms_tables := (ms_tables s)\<lparr>mt_queues := queues, mt_queue_commands := cmds\<rparr>, ms_supply := n\<rparr>))))"

subsection \<open>Rebuilding the definitions\<close>

fun stored_inline_commands :: "(nat \<Rightarrow> string) \<Rightarrow> pyval list \<Rightarrow> int \<Rightarrow> nat \<Rightarrow> (pydict list \<times> nat) result" where
  "stored_inline_commands uid [] k n = Inr ([], n)"
| "stored_inline_commands uid (v # vs) k n =
     (case v of
        PDict d \<Rightarrow>
          (case ensure_command_id uid d n of (i, n1) \<Rightarrow>
           rbind (py_int (py_or (dget d ''order'') (PInt k))) (\<lambda>ord.
           rbind (stored_inline_commands uid vs (k + 1) n1) (\<lambda>(cs, n2).
           Inr ([(''id'', PStr i), (''order'', PInt ord),
                 (''cfg'', PDict (dict_or_empty (py_or (py_or (dget d ''cfg'') (dget d ''configuration_json''))
                    (PDict d))))] # cs, n2))))
      | _ \<Rightarrow> stored_inline_commands uid vs (k + 1) n)"

fun stored_mock_commands :: "mock_command_row table \<Rightarrow> int \<Rightarrow> pydict list" where
  "stored_mock_commands [] k = []"
| "stored_mock_commands ((i, r) # rs) k =
     [(''id'', PStr i), (''order'', PInt (if ow_order r = 0 then k else ow_order r)),
      (''cfg'', PDict (dict_or_empty (ow_configuration r)))] # stored_mock_commands rs (k + 1)"

definition api_entities ::
  "(nat \<Rightarrow> string) \<Rightarrow> mock_tables \<Rightarrow> string \<times> mock_api_row \<Rightarrow> nat \<Rightarrow> ((string \<times> definition_row) list \<times> nat) result" where
  "api_entities uid t api n =
     rbind (stored_inline_commands uid
              (list_or_empty (dget (dict_or_empty (pw_configuration (snd api))) ''pre_response_commands'')) 1 n) (\<lambda>(pre, n1).
     rbind (plan_definitions_for_commands uid pre SECTION_MOCK_PRE []) (\<lambda>(ds1, _).
     rbind (plan_definitions_for_commands uid
              (stored_mock_commands (commands_of_owner (fst api) (mt_api_commands t)) 1) SECTION_MOCK_POST []) (\<lambda>(ds2, _).
     Inr (map (definition_entity ''mock_api_pre'' None None (Some (fst api)) None) ds1 @
          map (definition_entity ''mock_api_post'' None None (Some (fst api)) None) ds2, n1))))"

fun apis_entities ::
  "(nat \<Rightarrow> string) \<Rightarrow> mock_tables \<Rightarrow> mock_api_row table \<Rightarrow> nat \<Rightarrow> ((string \<times> definition_row) list \<times> nat) result" where
  "apis_entities uid t [] n = Inr ([], n)"
| "apis_entities uid t (a # as) n =
     rbind (api_entities uid t a n) (\<lambda>(es1, n1).
     rbind (apis_entities uid t as n1) (\<lambda>(es2, n2). Inr (es1 @ es2, n2)))"

definition queue_entities ::
  "(nat \<Rightarrow> string) \<Rightarrow> mock_tables \<Rightarrow> string \<times> mock_queue_row \<Rightarrow> (string \<times> definition_row) list result" where
  "queue_entities uid t q =
     rbind (plan_definitions_for_commands uid
              (stored_mock_commands (commands_of_owner (fst q) (mt_queue_commands t)) 1) SECTION_MOCK_QUEUE []) (\<lambda>(ds, _).
     Inr (map (definition_entity ''mock_queue'' None None None (Some (fst q))) ds))"

definition owned_by :: "string list \<Rightarrow> string list \<Rightarrow> definition_row \<Rightarrow> bool" where
  "owned_by apis queues r \<longleftrightarrow>
     (\<exists>i \<in> set apis. df_mock_server_api_id r = Some i) \<or> (\<exists>i \<in> set queues. df_mock_server_queue_id r = Some i)"

definition rebuild_mock_constant_definitions :: "(nat \<Rightarrow> string) \<Rightarrow> string \<Rightarrow> mock_store \<Rightarrow> mock_store result" where
  "rebuild_mock_constant_definitions uid sid s =
     (let t = ms_tables s; apis = get_apis_by_server_id sid t; queues = get_queues_by_server_id sid t;
          kept = snd (delete_where (owned_by (map fst apis) (map fst queues)) (ms_definitions s)) in
      rbind (apis_entities uid t apis (ms_supply s)) (\<lambda>(es1, n).
      rbind (map_result (queue_entities uid t) queues) (\<lambda>es2.
      rbind (persist_definition_entities (es1 @ concat es2) kept) (\<lambda>defs.
      Inr (s\<lparr>ms_definitions := defs, ms_supply := n\<rparr>)))))"

subsection \<open>Create and update\<close>

definition get_by_endpoint :: "string \<Rightarrow> mock_server_row table \<Rightarrow> (string \<times> mock_server_row) option" where
  "get_by_endpoint endpoint t = List.find (\<lambda>(i, r). sw_endpoint r = lower (strip endpoint)) t"

definition endpoint_taken :: "string \<Rightarrow> exc" where
  "endpoint_taken endpoint = ValueError (''Mock server endpoint '' @ quoted endpoint @ '' already exists.'')"

definition prepare_dto :: "(nat \<Rightarrow> string) \<Rightarrow> mock_server_dto \<Rightarrow> mock_store \<Rightarrow> (mock_server_dto \<times> mock_store) result" where
  "prepare_dto uid dto s =
     (case ensure_inline_command_ids uid (md_apis dto) (ms_supply s) of (apis, n) \<Rightarrow>
        let dto1 = dto\<lparr>md_apis := apis\<rparr> in
        rbind (validate_mock_server_constant_graph (\<lambda>i. uid (n + i)) (server_req dto1)) (\<lambda>_.
        Inr (dto1, s\<lparr>ms_supply := n\<rparr>)))"

definition insert_children :: "(nat \<Rightarrow> string) \<Rightarrow> string \<Rightarrow> mock_server_dto \<Rightarrow> mock_store \<Rightarrow> mock_store result" where
  "insert_children uid sid dto s =
     rbind (insert_mock_server_apis uid sid (md_apis dto) s) (\<lambda>s1.
     rbind (insert_mock_server_queues uid sid (md_queues dto) s1) (\<lambda>s2.
     rebuild_mock_constant_definitions uid sid s2))"

definition create_mock_server :: "(nat \<Rightarrow> string) \<Rightarrow> mock_server_dto \<Rightarrow> string saving" where
  "create_mock_server uid dto s =
     rbind (prepare_dto uid dto s) (\<lambda>(dto1, s1).
     rbind (guard (get_by_endpoint (md_endpoint dto) (mt_servers (ms_tables s1)) = None)
              (endpoint_taken (md_endpoint dto))) (\<lambda>_.
     let sid = uid (ms_supply s1) in
     rbind (insert_row sid (build_server_row dto1) (mt_servers (ms_tables s1))) (\<lambda>servers.
     rbind (insert_children uid sid dto1
              (s1\<lparr>ms_tables := (ms_tables s1)\<lparr>mt_servers := servers\<rparr>, ms_supply := Suc (ms_supply s1)\<rparr>)) (\<lambda>s2.
     Inr (sid, s2)))))"

text \<open>The deletes of \<open>update_mock_server\<close>: the rows of the server and their commands, not their definitions.\<close>

definition delete_children :: "string \<Rightarrow> mock_tables \<Rightarrow> mock_tables" where
  "delete_children sid t =
     (let apis = map fst (rows_where (\<lambda>r. pw_mock_server_id r = sid) (mt_apis t));
          queues = map fst (rows_where (\<lambda>r. uw_mock_server_id r = sid) (mt_queues t)) in
      t\<lparr>mt_apis := snd (delete_where (\<lambda>r. pw_mock_server_id r = sid) (mt_apis t)),
        mt_api_commands := snd (delete_where (\<lambda>r. ow_owner_id r \<in> set apis) (mt_api_commands t)),
        mt_queues := snd (delete_where (\<lambda>r. uw_mock_server_id r = sid) (mt_queues t)),
        mt_queue_commands := snd (delete_where (\<lambda>r. ow_owner_id r \<in> set queues) (mt_queue_commands t))\<rparr>)"

definition server_missing :: "string \<Rightarrow> exc" where
  "server_missing sid = ValueError (''Mock server '' @ quoted sid @ '' not found.'')"

definition update_mock_server :: "(nat \<Rightarrow> string) \<Rightarrow> string \<Rightarrow> mock_server_dto \<Rightarrow> mock_store \<Rightarrow> mock_store result" where
  "update_mock_server uid sid dto s =
     rbind (prepare_dto uid dto s) (\<lambda>(dto1, s1).
     rbind (guard (get_by_id sid (mt_servers (ms_tables s1)) \<noteq> None) (server_missing sid)) (\<lambda>_.
     rbind (guard (case get_by_endpoint (md_endpoint dto) (mt_servers (ms_tables s1)) of
              None \<Rightarrow> True | Some (i, r) \<Rightarrow> i = sid) (endpoint_taken (md_endpoint dto))) (\<lambda>_.
     insert_children uid sid dto1
       (s1\<lparr>ms_tables := delete_children sid ((ms_tables s1)
          \<lparr>mt_servers := update_row sid (\<lambda>_. build_server_row dto1) (mt_servers (ms_tables s1))\<rparr>)\<rparr>))))"

definition delete_mock_server :: "string \<Rightarrow> mock_store \<Rightarrow> nat \<times> mock_store" where
  "delete_mock_server sid s =
     (case get_by_id sid (mt_servers (ms_tables s)) of
        None \<Rightarrow> (0, s)
      | Some r \<Rightarrow>
          (let t = delete_children sid (ms_tables s) in
           (1, s\<lparr>ms_tables := t\<lparr>mt_servers := snd (delete_by_id sid (mt_servers t))\<rparr>\<rparr>)))"

subsection \<open>Serialisation\<close>

definition serialize_operation :: "string \<times> mock_command_row \<Rightarrow> pydict" where
  "serialize_operation op =
     [(''id'', PStr (fst op)), (''description'', PStr (ow_description (snd op))),
      (''command_code'', PStr (ow_command_code (snd op))), (''command_type'', PStr (ow_command_type (snd op))),
      (''configuration_json'', PDict (dict_or_empty (ow_configuration (snd op)))), (''order'', PInt (ow_order (snd op)))]"

definition serialize_api :: "mock_tables \<Rightarrow> string \<times> mock_api_row \<Rightarrow> pydict" where
  "serialize_api t api =
     (let cmds = PList (map (PDict \<circ> serialize_operation) (commands_of_owner (fst api) (mt_api_commands t))) in
      [(''id'', PStr (fst api)), (''mock_server_id'', PStr (pw_mock_server_id (snd api))),
       (''description'', PStr (pw_description (snd api))), (''method'', PStr (pw_method (snd api))),
       (''path'', PStr (pw_path (snd api))), (''order'', PInt (pw_order (snd api))),
       (''configuration_json'', PDict (dict_or_empty (pw_configuration (snd api)))),
       (''commands'', cmds), (''operations'', cmds)])"

definition serialize_queue :: "mock_tables \<Rightarrow> string \<times> mock_queue_row \<Rightarrow> pydict" where
  "serialize_queue t q =
     (let cmds = PList (map (PDict \<circ> serialize_operation) (commands_of_owner (fst q) (mt_queue_commands t))) in
      [(''id'', PStr (fst q)), (''mock_server_id'', PStr (uw_mock_server_id (snd q))),
       (''queue_id'', PStr (uw_queue_id (snd q))), (''description'', PStr (uw_description (snd q))),
       (''order'', PInt (uw_order (snd q))),
       (''configuration_json'', PDict (dict_or_empty (uw_configuration (snd q)))),
       (''commands'', cmds), (''operations'', cmds)])"

definition serialize_mock_server :: "mock_tables \<Rightarrow> string \<times> mock_server_row \<Rightarrow> pydict" where
  "serialize_mock_server t entity =
     [(''id'', PStr (fst entity)), (''description'', PStr (sw_description (snd entity))),
      (''endpoint'', PStr (sw_endpoint (snd entity))), (''is_active'', PBool (sw_is_active (snd entity))),
      (''configuration_json'', PDict (dict_or_empty (sw_configuration (snd entity)))),
      (''apis'', PList (map (PDict \<circ> serialize_api t) (get_apis_by_server_id (fst entity) t))),
      (''queues'', PList (map (PDict \<circ> serialize_queue t) (get_queues_by_server_id (fst entity) t)))]"

end
