(* ===== verification/Mock_Activation.thy ===== *)
theory Mock_Activation
  imports Mock_Service Mock_Registry
begin

section \<open>The API of mock servers\<close>

text \<open>
  \<open>mock_servers/api/mock_server_api.py\<close>: a request writes the tables in one transaction and then
  starts or stops the server. When the start fails the server is marked inactive again, and the
  request fails.
\<close>

text \<open>The tables a request writes, as one store; new ids come from the supply of the machine.\<close>

definition store_of :: "'w registry_host \<Rightarrow> mock_store" where
  "store_of s =
     \<lparr>ms_tables = gh_tables s, ms_definitions = cd_definitions (mc_db (mh_machine (gh_host s))),
      ms_supply = mc_ticks (mh_machine (gh_host s))\<rparr>"

definition with_store :: "mock_store \<Rightarrow> 'w registry_host \<Rightarrow> 'w registry_host" where
  "with_store t s =
     (let m = mh_machine (gh_host s) in
      s\<lparr>gh_tables := ms_tables t,
        gh_host := (gh_host s)\<lparr>mh_machine := m\<lparr>mc_db := (mc_db m)\<lparr>cd_definitions := ms_definitions t\<rparr>,
          mc_ticks := ms_supply t\<rparr>\<rparr>\<rparr>)"

definition saving :: "(mock_store \<Rightarrow> ('a \<times> mock_store) result) \<Rightarrow> ('w registry_host, 'a) eff" where
  "saving body = (\<lambda>s. case body (store_of s) of Inl e \<Rightarrow> (Inl e, s) | Inr (x, t) \<Rightarrow> (Inr x, with_store t s))"

definition app_error :: "string \<Rightarrow> exc \<Rightarrow> exc" where
  "app_error prefix e = AppError (prefix @ exc_message e)"

definition set_active :: "string \<Rightarrow> bool \<Rightarrow> ('w registry_host, bool) eff" where
  "set_active sid b = (\<lambda>s.
     let t = gh_tables s in
     (Inr (get_by_id sid (mt_servers t) \<noteq> None),
      s\<lparr>gh_tables := t\<lparr>mt_servers := update_row sid (\<lambda>r. r\<lparr>sw_is_active := b\<rparr>) (mt_servers t)\<rparr>\<rparr>))"

definition no_server :: "string \<Rightarrow> exc" where
  "no_server sid = AppError (''No mock server found with id [ '' @ sid @ '' ]'')"

text \<open>The handler of a failed start or stop.\<close>

definition deactivate_and_fail :: "string \<Rightarrow> string \<Rightarrow> exc \<Rightarrow> ('w registry_host, 'a) eff" where
  "deactivate_and_fail sid prefix e = ebind (set_active sid False) (\<lambda>_. eraise (app_error prefix e))"

definition create_mock_server_api :: "'w environment \<Rightarrow> mock_server_dto \<Rightarrow> ('w registry_host, string) eff" where
  "create_mock_server_api en dto =
     ebind (etry (saving (create_mock_server (en_uid en) dto)) (\<lambda>e. eraise (app_error [] e))) (\<lambda>sid.
     ebind (if md_is_active dto
            then etry (start_server en sid)
                   (deactivate_and_fail sid ''Mock server created but failed to activate: '')
            else ereturn ()) (\<lambda>_.
     ereturn sid))"

definition update_mock_server_api ::
  "'w environment \<Rightarrow> string \<Rightarrow> mock_server_dto \<Rightarrow> ('w registry_host, string) eff" where
  "update_mock_server_api en sid dto =
     ebind (etry (saving (\<lambda>t. rbind (update_mock_server (en_uid en) sid dto t) (\<lambda>u. Inr ((), u))))
                 (\<lambda>e. eraise (app_error [] e))) (\<lambda>_.
     ebind (etry (if md_is_active dto then start_server en sid else stop_server sid)
                 (\<lambda>e. if md_is_active dto
                      then deactivate_and_fail sid ''Mock server updated but failed to update runtime state: '' e
                      else eraise (app_error ''Mock server updated but failed to update runtime state: '' e))) (\<lambda>_.
     ereturn sid))"

definition delete_mock_server_api :: "string \<Rightarrow> ('w registry_host, unit) eff" where
  "delete_mock_server_api sid =
     ebind (remove_server sid) (\<lambda>_.
     ebind (saving (\<lambda>t. let (n, u) = delete_mock_server sid t in
              if n = 0 then Inl (no_server sid) else Inr ((), u))) (\<lambda>_.
     ereturn ()))"

definition activate_mock_server_api :: "'w environment \<Rightarrow> string \<Rightarrow> ('w registry_host, string) eff" where
  "activate_mock_server_api en sid =
     ebind (set_active sid True) (\<lambda>found.
     if \<not> found then eraise (no_server sid)
     else ebind (etry (start_server en sid) (deactivate_and_fail sid ''Cannot activate mock server: '')) (\<lambda>_.
          ereturn sid))"

definition deactivate_mock_server_api :: "string \<Rightarrow> ('w registry_host, string) eff" where
  "deactivate_mock_server_api sid =
     ebind (set_active sid False) (\<lambda>found.
     if \<not> found then eraise (no_server sid)
     else ebind (stop_server sid) (\<lambda>_. ereturn sid))"

definition find_mock_server_by_id_api :: "string \<Rightarrow> ('w registry_host, pydict) eff" where
  "find_mock_server_by_id_api sid =
     ebind (eget (\<lambda>s. (gh_tables s, get_by_id sid (mt_servers (gh_tables s))))) (\<lambda>(t, found).
     case found of None \<Rightarrow> eraise (no_server sid) | Some r \<Rightarrow> ereturn (serialize_mock_server t (sid, r)))"

definition get_all_ordered :: "mock_tables \<Rightarrow> mock_server_row table" where
  "get_all_ordered t = sort_key (\<lambda>(i, r). (sw_description r, i)) (mt_servers t)"

definition find_all_mock_servers_api :: "('w registry_host, pydict list) eff" where
  "find_all_mock_servers_api =
     eget (\<lambda>s. map (serialize_mock_server (gh_tables s)) (get_all_ordered (gh_tables s)))"

end
