(* ===== verification/Mock_Service_Facts.thy ===== *)
theory Mock_Service_Facts
  imports Mock_Activation Registry_Facts Registry_History
begin

section \<open>What saving a mock server does to its definitions and to its state\<close>

text \<open>
  An update never removes the stored constant definitions of the server's previous commands, so
  saving the same server twice is refused; and the API of mock servers keeps the flag of a
  server and the registry of running servers in agreement, except after a failed start.
\<close>

subsection \<open>Rows of an update\<close>

lemma with_command_ids_supply: "with_command_ids uid vs n = (ws, n') \<Longrightarrow> n \<le> n'"
proof (induction vs arbitrary: n ws n')
  case (Cons v vs)
  show ?case
  proof (cases v)
    case (PDict d)
    obtain i n1 where i: "ensure_command_id uid d n = (i, n1)" by fastforce
    obtain us n2 where u: "with_command_ids uid vs n1 = (us, n2)" by fastforce
    have "n \<le> n1" using i by (auto simp: ensure_command_id_def Let_def split: if_splits)
    with Cons.IH [OF u] Cons.prems i u show ?thesis by (simp add: PDict)
  qed (use Cons in \<open>auto split: prod.splits\<close>)
qed simp

lemma ensure_inline_supply: "ensure_inline_command_ids uid as n = (bs, n') \<Longrightarrow> n \<le> n'"
proof (induction as arbitrary: n bs n')
  case (Cons a as)
  obtain b n1 where b: "ensure_api_command_ids uid a n = (b, n1)" by fastforce
  obtain cs n2 where c: "ensure_inline_command_ids uid as n1 = (cs, n2)" by fastforce
  have "n \<le> n1" using b with_command_ids_supply
    by (auto simp: ensure_api_command_ids_def split: pyval.splits prod.splits)
  with Cons.IH [OF c] Cons.prems b c show ?case by simp
qed simp

lemma prepare_dto_store:
  "prepare_dto uid dto s = Inr (dto1, s1) \<Longrightarrow>
   ms_tables s1 = ms_tables s \<and> ms_definitions s1 = ms_definitions s \<and> ms_supply s \<le> ms_supply s1"
  using ensure_inline_supply by (auto simp: prepare_dto_def rbind_Inr_iff Let_def split: prod.splits)

lemma insert_commands_supply: "insert_commands uid ow cs t n = Inr (t', n') \<Longrightarrow> n \<le> n'"
  by (induction cs arbitrary: t n) (fastforce simp: rbind_Inr_iff)+

text \<open>The children of an update have ids from the supply.\<close>

lemma insert_apis_rows:
  "insert_mock_server_apis uid sid as s = Inr s' \<Longrightarrow>
   ms_supply s \<le> ms_supply s' \<and> ms_definitions s' = ms_definitions s \<and>
   mt_queues (ms_tables s') = mt_queues (ms_tables s) \<and>
   (\<exists>new. mt_apis (ms_tables s') = mt_apis (ms_tables s) @ new \<and> fst ` set new \<subseteq> uid ` {ms_supply s..})"
proof (induction as arbitrary: s)
  case (Cons a as)
  obtain apis cmds n where 1: "insert_row (uid (ms_supply s)) (build_api_row sid a) (mt_apis (ms_tables s)) = Inr apis"
      "insert_commands uid (uid (ms_supply s)) (ad_commands a) (mt_api_commands (ms_tables s)) (Suc (ms_supply s)) = Inr (cmds, n)"
      "insert_mock_server_apis uid sid as
         (s\<lparr>ms_tables := (ms_tables s)\<lparr>mt_apis := apis, mt_api_commands := cmds\<rparr>, ms_supply := n\<rparr>) = Inr s'"
    using Cons.prems by (auto simp: Let_def rbind_Inr_iff)
  have n: "ms_supply s < n" using insert_commands_supply [OF 1(2)] by simp
  obtain new where new: "mt_apis (ms_tables s') = apis @ new" "fst ` set new \<subseteq> uid ` {n..}"
    using Cons.IH [OF 1(3)] by auto
  have "fst ` set ((uid (ms_supply s), build_api_row sid a) # new) \<subseteq> uid ` {ms_supply s..}"
    using new(2) n by (auto intro: order_trans [OF less_imp_le])
  moreover have "mt_apis (ms_tables s') = mt_apis (ms_tables s) @ (uid (ms_supply s), build_api_row sid a) # new"
    using 1(1) new(1) by (simp add: insert_row_Inr)
  ultimately show ?case using Cons.IH [OF 1(3)] n by auto
qed simp

lemma insert_queues_rows:
  "insert_mock_server_queues uid sid qs s = Inr s' \<Longrightarrow>
   ms_supply s \<le> ms_supply s' \<and> ms_definitions s' = ms_definitions s \<and>
   mt_apis (ms_tables s') = mt_apis (ms_tables s) \<and>
   (\<exists>new. mt_queues (ms_tables s') = mt_queues (ms_tables s) @ new \<and> fst ` set new \<subseteq> uid ` {ms_supply s..})"
proof (induction qs arbitrary: s)
  case (Cons q qs)
  obtain queues cmds n where 1: "insert_row (uid (ms_supply s)) (build_queue_row sid q) (mt_queues (ms_tables s)) = Inr queues"
      "insert_commands uid (uid (ms_supply s)) (ud_commands q) (mt_queue_commands (ms_tables s)) (Suc (ms_supply s)) = Inr (cmds, n)"
      "insert_mock_server_queues uid sid qs
         (s\<lparr>ms_tables := (ms_tables s)\<lparr>mt_queues := queues, mt_queue_commands := cmds\<rparr>, ms_supply := n\<rparr>) = Inr s'"
    using Cons.prems by (auto simp: Let_def rbind_Inr_iff)
  have n: "ms_supply s < n" using insert_commands_supply [OF 1(2)] by simp
  obtain new where new: "mt_queues (ms_tables s') = queues @ new" "fst ` set new \<subseteq> uid ` {n..}"
    using Cons.IH [OF 1(3)] by auto
  have "fst ` set ((uid (ms_supply s), build_queue_row sid q) # new) \<subseteq> uid ` {ms_supply s..}"
    using new(2) n by (auto intro: order_trans [OF less_imp_le])
  moreover have "mt_queues (ms_tables s') = mt_queues (ms_tables s) @ (uid (ms_supply s), build_queue_row sid q) # new"
    using 1(1) new(1) by (simp add: insert_row_Inr)
  ultimately show ?case using Cons.IH [OF 1(3)] n by auto
qed simp

lemma delete_children_rows:
  "rows_where (\<lambda>r. pw_mock_server_id r = sid) (mt_apis (delete_children sid t)) = []"
  "rows_where (\<lambda>r. uw_mock_server_id r = sid) (mt_queues (delete_children sid t)) = []"
  by (simp_all add: delete_children_def Let_def rows_where_deleted)

lemma rows_where_ids: "fst ` set (rows_where p t) \<subseteq> fst ` set t"
  by (auto simp: rows_where_def)

text \<open>
  No stored definition belongs to an id that is still to be given out.
\<close>

definition fresh_owners :: "(nat \<Rightarrow> string) \<Rightarrow> mock_store \<Rightarrow> bool" where
  "fresh_owners uid s \<longleftrightarrow> (\<forall>(i, r) \<in> set (ms_definitions s). \<forall>n \<ge> ms_supply s.
     df_mock_server_api_id r \<noteq> Some (uid n) \<and> df_mock_server_queue_id r \<noteq> Some (uid n))"

lemma insert_children_definitions:
  assumes "fresh_owners uid s" and "insert_children uid sid dto s = Inr s'"
    and "rows_where (\<lambda>r. pw_mock_server_id r = sid) (mt_apis (ms_tables s)) = []"
    and "rows_where (\<lambda>r. uw_mock_server_id r = sid) (mt_queues (ms_tables s)) = []"
  shows "\<exists>es. ms_definitions s' = ms_definitions s @ es \<and> distinct (map fst es) \<and>
    (\<forall>i \<in> fst ` set es. get_by_id i (ms_definitions s) = None)"
proof -
  obtain s1 s2 where s1: "insert_mock_server_apis uid sid (md_apis dto) s = Inr s1"
      and s2: "insert_mock_server_queues uid sid (md_queues dto) s1 = Inr s2"
      and s': "rebuild_mock_constant_definitions uid sid s2 = Inr s'"
    using assms(2) by (auto simp: insert_children_def rbind_Inr_iff)
  note a = insert_apis_rows [OF s1] and q = insert_queues_rows [OF s2]
  define as where "as = get_apis_by_server_id sid (ms_tables s2)"
  define qs where "qs = get_queues_by_server_id sid (ms_tables s2)"
  obtain new where new: "mt_apis (ms_tables s2) = mt_apis (ms_tables s) @ new" "fst ` set new \<subseteq> uid ` {ms_supply s..}"
    using a q by auto
  obtain newq where newq: "mt_queues (ms_tables s2) = mt_queues (ms_tables s) @ newq" "fst ` set newq \<subseteq> uid ` {ms_supply s1..}"
    using a q by auto
  have "fst ` set as \<subseteq> fst ` set new" "fst ` set qs \<subseteq> fst ` set newq"
    using assms(3,4) rows_where_ids new(1) newq(1)
    by (simp_all add: as_def qs_def get_apis_by_server_id_def get_queues_by_server_id_def)
  moreover have "uid ` {ms_supply s1..} \<subseteq> uid ` {ms_supply s..}"
    by (intro image_mono) (use a in simp)
  ultimately have ids: "fst ` set as \<subseteq> uid ` {ms_supply s..}" "fst ` set qs \<subseteq> uid ` {ms_supply s..}"
    using subset_trans [OF _ new(2)] subset_trans [OF subset_trans [OF _ newq(2)]] by simp_all
  have defs: "ms_definitions s2 = ms_definitions s" using a q by simp
  have "\<not> owned_by (map fst as) (map fst qs) r" if r: "(i, r) \<in> set (ms_definitions s)" for i r
  proof -
    have "df_mock_server_api_id r \<noteq> Some (uid n) \<and> df_mock_server_queue_id r \<noteq> Some (uid n)"
      if "n \<ge> ms_supply s" for n
      using assms(1) r that unfolding fresh_owners_def by fastforce
    then show ?thesis using ids unfolding owned_by_def by (metis atLeast_iff imageE list.set_map subsetD)
  qed
  then have kept: "snd (delete_where (owned_by (map fst as) (map fst qs)) (ms_definitions s2)) = ms_definitions s"
    by (auto simp: defs delete_where_def intro!: filter_True)
  obtain es1 n es2 defs' where e: "inserts (es1 @ concat es2) (ms_definitions s) = Inr defs'"
      "s' = s2\<lparr>ms_definitions := defs', ms_supply := n\<rparr>"
    using s' by (auto simp: rebuild_mock_constant_definitions_def Let_def rbind_Inr_iff persist_eq
      as_def [symmetric] qs_def [symmetric] kept)
  have "ms_definitions s' = ms_definitions s @ es1 @ concat es2" using inserts_append [OF e(1)] e(2) by simp
  moreover have "\<exists>u. inserts (es1 @ concat es2) (ms_definitions s) = Inr u" using e(1) by blast
  ultimately show ?thesis unfolding inserts_iff by blast
qed


subsection \<open>The flag of a server and the registry\<close>

definition marked_active :: "string \<Rightarrow> 'w registry_host \<Rightarrow> bool" where
  "marked_active sid s \<longleftrightarrow> (case get_by_id sid (mt_servers (gh_tables s)) of None \<Rightarrow> False | Some r \<Rightarrow> sw_is_active r)"

definition serving :: "string \<Rightarrow> 'w registry_host \<Rightarrow> bool" where
  "serving sid s \<longleftrightarrow> rg_servers (gh_registry s) sid \<noteq> None"

lemma on_gh_machine_tables: "on_gh_machine m s = (r, t) \<Longrightarrow> gh_tables t = gh_tables s"
  by (auto simp: on_gh_machine_def split: prod.splits)

lemma start_listeners_tables: "start_listeners en sid bs ls s = (r, t) \<Longrightarrow> gh_tables t = gh_tables s"
proof (induction bs arbitrary: ls s)
  case (Cons b bs)
  obtain c s1 where c: "connect_listener en b s = (c, s1)" by fastforce
  then have s1: "gh_tables s1 = gh_tables s" using on_gh_machine_tables by (auto simp: connect_listener_def)
  show ?case
  proof (cases c)
    case (Inl e)
    then show ?thesis using Cons.prems c s1 by (simp add: ebind_def)
  next
    case (Inr conn)
    obtain l s2 where l: "spawn_listener sid b conn s1 = (Inr l, s2)" "gh_tables s2 = gh_tables s1"
      by (simp add: spawn_listener_def Let_def)
    then show ?thesis using Cons.prems Cons.IH [of "ls @ [l]" s2] c Inr s1 by (simp add: ebind_def)
  qed
qed simp

lemma stop_server_tables: "stop_server sid s = (r, t) \<Longrightarrow> gh_tables t = gh_tables s"
  by (auto simp: stop_server_def ebind_def on_registry_def on_gh_machine_def on_host_def log_mock_server_event_def)

lemma stop_server_total: "stop_server sid s = (r, t) \<Longrightarrow> r = Inr ()"
  by (auto simp: stop_server_def ebind_def on_registry_def on_gh_machine_def on_host_def log_mock_server_event_def)

lemma stop_server_serving: "stop_server sid s = (r, t) \<Longrightarrow> \<not> serving sid t"
  by (simp add: serving_def stop_server_registry stop_locked_fields)

lemma load_server_keeps: "load_server en sid s = (r, t) \<Longrightarrow> gh_tables t = gh_tables s \<and> gh_registry t = gh_registry s"
  by (auto simp: load_server_def ebind_def on_gh_machine_def on_host_def split: option.splits)

lemma start_server_effect:
  assumes "start_server en sid s = (r, t)"
  shows "gh_tables t = gh_tables s" and "r = Inr () \<Longrightarrow> serving sid t"
proof -
  obtain ro s1 where load: "load_server en sid s = (ro, s1)" by fastforce
  note s1 = load_server_keeps [OF load]
  have "gh_tables t = gh_tables s \<and> (r = Inr () \<longrightarrow> serving sid t)"
  proof (cases ro)
    case (Inl e)
    then show ?thesis using assms load s1 by (auto simp: start_server_def ebind_def)
  next
    case (Inr srv)
    define s2 where "s2 = s1\<lparr>gh_registry := register_server sid srv (gh_registry s)\<rparr>"
    obtain lo s3 where run: "start_listeners en sid (rs_queues srv) [] s2 = (lo, s3)" by fastforce
    have t3: "gh_tables s3 = gh_tables s" using start_listeners_tables [OF run] s1 by (simp add: s2_def)
    obtain new where "adds_listeners sid (rs_queues srv) new (gh_registry s2) (gh_registry s3)"
      using start_listeners_adds [OF run] by blast
    then have reg: "rg_servers (gh_registry s3) sid = Some srv"
      by (auto simp: adds_listeners_def s2_def register_fields)
    have "start_server en sid s = ebind (\<lambda>_. (lo, s3)) (\<lambda>threads.
        ebind (on_registry (\<lambda>rg. rg\<lparr>rg_threads := (rg_threads rg)(sid \<mapsto> threads)\<rparr>)) (\<lambda>_.
        on_gh_machine (log_mock_server_event sid (started_message srv) ''INFO'' PNone))) s2"
      using load Inr run s1 by (simp add: start_server_def ebind_def on_registry_def s2_def)
    then show ?thesis using assms t3 reg
      by (auto simp: serving_def ebind_def on_registry_def on_gh_machine_def on_host_def log_mock_server_event_def
          split: sum.splits)
  qed
  then show "gh_tables t = gh_tables s" and "r = Inr () \<Longrightarrow> serving sid t" by blast+
qed

lemma marked_set_active:
  assumes "set_active sid b s = (r, t)"
  shows "marked_active sid t \<longleftrightarrow> b \<and> get_by_id sid (mt_servers (gh_tables s)) \<noteq> None"
    and "r = Inr (get_by_id sid (mt_servers (gh_tables s)) \<noteq> None)" and "gh_registry t = gh_registry s"
proof -
  have t: "t = snd (set_active sid b s)" "r = fst (set_active sid b s)" using assms by simp_all
  show "marked_active sid t \<longleftrightarrow> b \<and> get_by_id sid (mt_servers (gh_tables s)) \<noteq> None"
    unfolding t(1) by (cases "map_of (mt_servers (gh_tables s)) sid")
      (simp_all add: set_active_def Let_def marked_active_def get_by_id_def map_of_update_row)
  show "r = Inr (get_by_id sid (mt_servers (gh_tables s)) \<noteq> None)" "gh_registry t = gh_registry s"
    unfolding t by (simp_all add: set_active_def Let_def)
qed

lemma marked_tables: "gh_tables t = gh_tables s \<Longrightarrow> marked_active sid t = marked_active sid s"
  by (simp add: marked_active_def)

lemma deactivate_and_fail_effect:
  assumes "deactivate_and_fail sid p e s = (r, t)"
  shows "\<not> marked_active sid t \<and> (\<exists>e'. r = Inl e')"
proof -
  obtain f s1 where set: "set_active sid False s = (f, s1)" by fastforce
  then have "t = s1" "r = Inl (app_error p e)"
    using assms marked_set_active(2) [OF set] by (simp_all add: deactivate_and_fail_def ebind_def)
  then show ?thesis using marked_set_active(1) [OF set] by simp
qed

text \<open>A start whose failure marks the server inactive.\<close>

lemma guarded_start:
  assumes "etry (start_server en sid) (deactivate_and_fail sid p) s = (r, t)"
  shows "case r of Inl e \<Rightarrow> \<not> marked_active sid t
    | Inr _ \<Rightarrow> serving sid t \<and> marked_active sid t = marked_active sid s"
proof -
  obtain r1 s1 where start: "start_server en sid s = (r1, s1)" by fastforce
  note eff = start_server_effect [OF start]
  show ?thesis
  proof (cases r1)
    case (Inl e)
    then have "deactivate_and_fail sid p e s1 = (r, t)" using assms start by (simp add: etry_def)
    then obtain e' where "r = Inl e'" "\<not> marked_active sid t"
      using deactivate_and_fail_effect by blast
    then show ?thesis by simp
  next
    case (Inr u)
    then have "r = r1" "t = s1" using assms start by (simp_all add: etry_def)
    then show ?thesis using eff(2) marked_tables [OF eff(1)] Inr by simp
  qed
qed

lemma activate_agrees:
  assumes "activate_mock_server_api en sid s = (r, t)"
  shows "case r of Inl e \<Rightarrow> \<not> marked_active sid t | Inr _ \<Rightarrow> marked_active sid t \<and> serving sid t"
proof -
  obtain f s1 where set: "set_active sid True s = (f, s1)" by fastforce
  note m = marked_set_active [OF set]
  show ?thesis
  proof (cases "get_by_id sid (mt_servers (gh_tables s)) = None")
    case True
    then have "t = s1" "r = Inl (no_server sid)" using assms set m(2)
      by (simp_all add: activate_mock_server_api_def ebind_def)
    then show ?thesis using m(1) True by simp
  next
    case False
    obtain r1 s2 where guarded: "etry (start_server en sid) (deactivate_and_fail sid ''Cannot activate mock server: '') s1 = (r1, s2)"
      by fastforce
    have "(r, t) = (case r1 of Inl e \<Rightarrow> (Inl e, s2) | Inr _ \<Rightarrow> (Inr sid, s2))"
      using assms set m(2) False guarded by (cases r1) (simp_all add: activate_mock_server_api_def ebind_def)
    then show ?thesis using guarded_start [OF guarded] m(1) False by (cases r1) simp_all
  qed
qed

lemma deactivate_agrees:
  assumes "deactivate_mock_server_api sid s = (r, t)"
  shows "\<not> marked_active sid t \<and> (case r of Inl e \<Rightarrow> get_by_id sid (mt_servers (gh_tables s)) = None | Inr _ \<Rightarrow> \<not> serving sid t)"
proof -
  obtain f s1 where set: "set_active sid False s = (f, s1)" by fastforce
  note m = marked_set_active [OF set]
  obtain r1 s2 where stop: "stop_server sid s1 = (r1, s2)" by fastforce
  have s2: "\<not> marked_active sid s2" "\<not> serving sid s2" "r1 = Inr ()"
    using marked_tables [OF stop_server_tables [OF stop]] m(1) stop_server_serving [OF stop]
      stop_server_total [OF stop] by simp_all
  show ?thesis
  proof (cases "get_by_id sid (mt_servers (gh_tables s)) = None")
    case True
    then have "t = s1" "r = Inl (no_server sid)" using assms set m(2)
      by (simp_all add: deactivate_mock_server_api_def ebind_def)
    then show ?thesis using True m(1) by simp
  next
    case False
    then have "t = s2" "r = Inr sid" using assms set m(2) stop s2(3)
      by (simp_all add: deactivate_mock_server_api_def ebind_def)
    then show ?thesis using s2 by simp
  qed
qed

text \<open>Saving a server with the activity its request asks for.\<close>

lemma insert_apis_servers:
  "insert_mock_server_apis uid sid as s = Inr s' \<Longrightarrow> mt_servers (ms_tables s') = mt_servers (ms_tables s)"
  by (induction as arbitrary: s) (fastforce simp: Let_def rbind_Inr_iff)+

lemma insert_queues_servers:
  "insert_mock_server_queues uid sid qs s = Inr s' \<Longrightarrow> mt_servers (ms_tables s') = mt_servers (ms_tables s)"
  by (induction qs arbitrary: s) (fastforce simp: Let_def rbind_Inr_iff)+

lemma insert_children_servers:
  "insert_children uid sid dto s = Inr s' \<Longrightarrow> mt_servers (ms_tables s') = mt_servers (ms_tables s)"
  using insert_apis_servers insert_queues_servers
  by (fastforce simp: insert_children_def rbind_Inr_iff rebuild_mock_constant_definitions_def Let_def)

lemma prepare_dto_active: "prepare_dto uid dto s = Inr (dto1, s1) \<Longrightarrow> md_is_active dto1 = md_is_active dto"
  by (auto simp: prepare_dto_def rbind_Inr_iff Let_def split: prod.splits)

lemma build_server_row_active [simp]: "sw_is_active (build_server_row dto) = md_is_active dto"
  by (simp add: build_server_row_def)

definition row_active :: "string \<Rightarrow> mock_store \<Rightarrow> bool option" where
  "row_active sid s = map_option sw_is_active (get_by_id sid (mt_servers (ms_tables s)))"

lemma update_row_active:
  assumes "update_mock_server uid sid dto s = Inr s'"
  shows "row_active sid s' = Some (md_is_active dto)"
proof -
  obtain dto1 s1 where p: "prepare_dto uid dto s = Inr (dto1, s1)"
      and f: "get_by_id sid (mt_servers (ms_tables s1)) \<noteq> None"
      and i: "insert_children uid sid dto1 (s1\<lparr>ms_tables := delete_children sid ((ms_tables s1)
          \<lparr>mt_servers := update_row sid (\<lambda>_. build_server_row dto1) (mt_servers (ms_tables s1))\<rparr>)\<rparr>) = Inr s'"
    using assms by (auto simp: update_mock_server_def rbind_Inr_iff guard_def split: if_splits)
  have "mt_servers (ms_tables s') = update_row sid (\<lambda>_. build_server_row dto1) (mt_servers (ms_tables s1))"
    using insert_children_servers [OF i] by (simp add: delete_children_def Let_def)
  then show ?thesis using f prepare_dto_active [OF p]
    by (auto simp: row_active_def get_by_id_def map_of_update_row)
qed

lemma create_row_active:
  assumes "create_mock_server uid dto s = Inr (sid, s')"
  shows "row_active sid s' = Some (md_is_active dto)"
proof -
  obtain dto1 s1 servers where p: "prepare_dto uid dto s = Inr (dto1, s1)"
      and r: "insert_row sid (build_server_row dto1) (mt_servers (ms_tables s1)) = Inr servers"
      and i: "insert_children uid sid dto1
        (s1\<lparr>ms_tables := (ms_tables s1)\<lparr>mt_servers := servers\<rparr>, ms_supply := Suc (ms_supply s1)\<rparr>) = Inr s'"
    using assms by (auto simp: create_mock_server_def rbind_Inr_iff Let_def)
  have "mt_servers (ms_tables s') = servers" using insert_children_servers [OF i] by simp
  moreover have "get_by_id sid servers = Some (build_server_row dto1)"
    using r unfolding insert_row_Inr get_by_id_def
    by (auto simp: map_add_def map_of_eq_None_iff [symmetric] split: option.splits)
  ultimately show ?thesis using prepare_dto_active [OF p] by (simp add: row_active_def)
qed

lemma saved_marked: "row_active sid t = Some b \<Longrightarrow> marked_active sid (with_store t s) = b"
  by (auto simp: row_active_def marked_active_def with_store_def Let_def)

lemma etry_saving:
  assumes "etry (saving body) (\<lambda>e. eraise (app_error [] e)) s = (r, t)"
  shows "(\<exists>e. r = Inl e) \<or> (\<exists>x u. r = Inr x \<and> body (store_of s) = Inr (x, u) \<and> t = with_store u s)"
  using assms by (cases "body (store_of s)") (auto simp: etry_def saving_def)

lemma update_agrees:
  assumes "update_mock_server_api en sid dto s = (Inr i, t)"
  shows "marked_active sid t = md_is_active dto \<and> serving sid t = md_is_active dto"
proof -
  let ?save = "etry (saving (\<lambda>t. rbind (update_mock_server (en_uid en) sid dto t) (\<lambda>u. Inr ((), u))))
                 (\<lambda>e. eraise (app_error [] e))"
  obtain r1 s1 where save: "?save s = (r1, s1)" by fastforce
  show ?thesis
  proof (cases r1)
    case (Inl e)
    then show ?thesis using assms save by (simp add: update_mock_server_api_def ebind_def)
  next
    case (Inr u)
    then obtain u' where "update_mock_server (en_uid en) sid dto (store_of s) = Inr u'" "s1 = with_store u' s"
      using etry_saving [OF save] by (auto simp: rbind_Inr_iff)
    then have m: "marked_active sid s1 = md_is_active dto" using update_row_active saved_marked by blast
    obtain r2 s2 where run: "(if md_is_active dto then start_server en sid else stop_server sid) s1 = (r2, s2)"
      by fastforce
    have "r2 = Inr () \<and> t = s2"
    proof (cases r2)
      case (Inl e)
      let ?fail = "if md_is_active dto
        then deactivate_and_fail sid ''Mock server updated but failed to update runtime state: '' e
        else eraise (app_error ''Mock server updated but failed to update runtime state: '' e)"
      obtain r3 :: "unit result" and s3 where fail: "?fail s2 = (r3, s3)" by fastforce
      then have "\<exists>e'. r3 = Inl e'" using deactivate_and_fail_effect
        by (cases "md_is_active dto") fastforce+
      then show ?thesis using assms save Inr run fail \<open>r2 = Inl e\<close>
        by (cases "md_is_active dto") (auto simp: update_mock_server_api_def ebind_def etry_def)
    qed (use assms save Inr run in \<open>simp add: update_mock_server_api_def ebind_def etry_def\<close>)
    then have "r2 = Inr ()" "t = s2" by simp_all
    then show ?thesis
      using m run start_server_effect [of en sid s1 r2 s2] stop_server_tables [of sid s1 r2 s2]
        stop_server_serving [of sid s1 r2 s2] marked_tables [of s2 s1]
      by (cases "md_is_active dto") simp_all
  qed
qed

lemma create_agrees:
  assumes "create_mock_server_api en dto s = (Inr sid, t)"
  shows "marked_active sid t = md_is_active dto \<and> (md_is_active dto \<longrightarrow> serving sid t)"
proof -
  let ?save = "etry (saving (create_mock_server (en_uid en) dto)) (\<lambda>e. eraise (app_error [] e))"
  obtain r1 s1 where save: "?save s = (r1, s1)" by fastforce
  show ?thesis
  proof (cases r1)
    case (Inl e)
    then show ?thesis using assms save by (simp add: create_mock_server_api_def ebind_def)
  next
    case (Inr i)
    then obtain u where u: "create_mock_server (en_uid en) dto (store_of s) = Inr (i, u)" "s1 = with_store u s"
      using etry_saving [OF save] by auto
    then have m: "marked_active i s1 = md_is_active dto" using create_row_active saved_marked by blast
    show ?thesis
    proof (cases "md_is_active dto")
      case True
      obtain r2 s2 where run: "etry (start_server en i)
          (deactivate_and_fail i ''Mock server created but failed to activate: '') s1 = (r2, s2)"
        by fastforce
      have "r2 = Inr ()" "t = s2" "i = sid"
        using assms save Inr run True by (cases r2; simp add: create_mock_server_api_def ebind_def)+
      then show ?thesis using guarded_start [OF run] m by simp
    next
      case False
      then have "t = s1" "i = sid" using assms save Inr by (simp_all add: create_mock_server_api_def ebind_def)
      then show ?thesis using m False by simp
    qed
  qed
qed

text \<open>
  C38. The flag of a server and the registry agree after every request of the API that succeeds:
  after an activation the server is marked active and runs; after a deactivation it is marked
  inactive and does not run (the deactivation fails only for a server that does not exist);
  after an update it is marked active and runs, or neither, as the request asks; a created server
  is marked as the request asks, and runs when the request asks for it. A failed activation
  leaves the server marked inactive.
\<close>

theorem activation_agrees:
  "(case activate_mock_server_api en sid s of
      (Inl e, t) \<Rightarrow> \<not> marked_active sid t
    | (Inr _, t) \<Rightarrow> marked_active sid t \<and> serving sid t) \<and>
   (case deactivate_mock_server_api sid s of
      (Inl e, t) \<Rightarrow> \<not> marked_active sid t \<and> get_by_id sid (mt_servers (gh_tables s)) = None
    | (Inr _, t) \<Rightarrow> \<not> marked_active sid t \<and> \<not> serving sid t) \<and>
   (case update_mock_server_api en sid dto s of
      (Inl e, t) \<Rightarrow> True
    | (Inr _, t) \<Rightarrow> marked_active sid t = md_is_active dto \<and> serving sid t = md_is_active dto) \<and>
   (case create_mock_server_api en dto s of
      (Inl e, t) \<Rightarrow> True
    | (Inr i, t) \<Rightarrow> marked_active i t = md_is_active dto \<and> (md_is_active dto \<longrightarrow> serving i t))"
  (is "?act \<and> ?deact \<and> ?upd \<and> ?cre")
proof (intro conjI)
  show ?act using activate_agrees [OF surjective_pairing]
    by (cases "activate_mock_server_api en sid s") (auto split: sum.splits dest: activate_agrees)
  show ?deact by (cases "deactivate_mock_server_api sid s") (auto split: sum.splits dest: deactivate_agrees)
  show ?upd by (cases "update_mock_server_api en sid dto s") (auto split: sum.splits dest: update_agrees)
  show ?cre by (cases "create_mock_server_api en dto s") (auto split: sum.splits dest: create_agrees)
qed

subsection \<open>Concrete requests\<close>

text \<open>
  Activating the shop whose second queue does not exist fails and marks it inactive, but the
  server stays registered and its endpoint is still answered.
\<close>

lemma failed_activation_keeps_serving:
  "case activate_mock_server_api example_env ''s'' (shop [''q'', ''r'']) of (r, t) \<Rightarrow>
     r = Inl (AppError (''Cannot activate mock server: Queue '' @ quoted ''r'' @ '' not found.'')) \<and>
     \<not> marked_active ''s'' t \<and> map_option rs_id (get_server_by_endpoint (gh_registry t) ''shop'') = Some ''s''"
  by code_simp

definition shop_command :: mock_operation_dto where
  "shop_command = \<lparr>od_order = 1, od_description = [],
     od_cfg = [(''commandCode'', PStr ''initConstant''), (''commandType'', PStr ''context''),
       (''definitionId'', PStr ''d1''), (''name'', PStr ''k''), (''context'', PStr ''result''),
       (''value'', PDict [])]\<rparr>"

definition shop_api :: "mock_operation_dto list \<Rightarrow> mock_api_dto" where
  "shop_api cs = \<lparr>ad_order = 1, ad_description = [],
     ad_cfg = \<lparr>ag_method = ''GET'', ag_path = ''/p'', ag_params = PNone, ag_authorization = PNone,
       ag_headers = PNone, ag_body = PNone, ag_body_match = Some ''contains'', ag_response = PNone,
       ag_response_status = 200, ag_response_headers = PNone, ag_response_body = PNone,
       ag_pre_response_commands = PList [], ag_post_response_commands = PList [], ag_priority = 0\<rparr>,
     ad_commands = cs\<rparr>"

definition shop_dto :: "mock_operation_dto list \<Rightarrow> mock_server_dto" where
  "shop_dto cs = \<lparr>md_description = [], md_endpoint = ''shop'', md_apis = [shop_api cs], md_queues = [], md_is_active = False\<rparr>"

definition shop_store :: "mock_store" where
  "shop_store = (case create_mock_server (en_uid example_env) (shop_dto [shop_command])
     \<lparr>ms_tables = \<lparr>mt_servers = [], mt_apis = [], mt_api_commands = [], mt_queues = [], mt_queue_commands = []\<rparr>,
      ms_definitions = [], ms_supply = 0\<rparr> of
     Inl e \<Rightarrow> \<lparr>ms_tables = \<lparr>mt_servers = [], mt_apis = [], mt_api_commands = [], mt_queues = [], mt_queue_commands = []\<rparr>,
      ms_definitions = [], ms_supply = 0\<rparr>
   | Inr (i, s) \<Rightarrow> s)"

lemma shop_store_definitions:
  "map fst (ms_definitions shop_store) = [''d1'']"
  "map (df_mock_server_api_id \<circ> snd) (ms_definitions shop_store) = [Some (en_uid example_env 1)]"
  "map (df_mock_server_queue_id \<circ> snd) (ms_definitions shop_store) = [None]"
  "map fst (mt_servers (ms_tables shop_store)) = [en_uid example_env 0]"
  "ms_supply shop_store = 3"
  by code_simp+

lemma shop_store_fresh: "fresh_owners (en_uid example_env) shop_store"
proof -
  have "df_mock_server_api_id (snd x) = Some (en_uid example_env 1) \<and> df_mock_server_queue_id (snd x) = None"
    if "x \<in> set (ms_definitions shop_store)" for x
    using that shop_store_definitions(2,3) by (cases "ms_definitions shop_store") auto
  moreover have "en_uid example_env n \<noteq> en_uid example_env 1" if "3 \<le> n" for n
    using that by (auto simp: example_env_def dest: arg_cong [where f = length])
  ultimately show ?thesis using shop_store_definitions(5) unfolding fresh_owners_def
    by (auto simp: split_beta) (metis option.inject)
qed

lemma shop_update:
  "case update_mock_server (en_uid example_env) (en_uid example_env 0) (shop_dto []) shop_store of
     Inl e \<Rightarrow> False | Inr t \<Rightarrow> map fst (ms_definitions t) = [''d1''] \<and> mt_api_commands (ms_tables t) = []"
  by code_simp

text \<open>The same request again: its command's definition is still stored, so it is refused.\<close>

lemma resave_refused:
  "case update_mock_server (en_uid example_env) (en_uid example_env 0) (shop_dto [shop_command]) shop_store of
     Inl e \<Rightarrow> True | Inr t \<Rightarrow> False"
  by code_simp


theorem activation_agrees_witness:
  "case create_mock_server_api example_env ((shop_dto [])\<lparr>md_is_active := True, md_endpoint := ''new''\<rparr>) (shop [''q'']) of
     (Inl e, t) \<Rightarrow> False | (Inr i, t) \<Rightarrow> marked_active i t \<and> serving i t"
proof -
  let ?dto = "(shop_dto [])\<lparr>md_is_active := True, md_endpoint := ''new''\<rparr>"
  have "case create_mock_server_api example_env ?dto (shop [''q'']) of (Inl e, t) \<Rightarrow> False | (Inr i, t) \<Rightarrow> True"
    by code_simp
  then obtain i t where run: "create_mock_server_api example_env ?dto (shop [''q'']) = (Inr i, t)"
    by (auto split: sum.splits prod.splits)
  then show ?thesis using activation_agrees [where en = example_env and s = "shop [''q'']" and dto = ?dto] by simp
qed

end
