(* ===== verification/Schedules.thy ===== *)
theory Schedules
  imports Suite_Runner
begin

section \<open>Schedules of test suites\<close>

text \<open>
  \<open>elaborations/services/alembic/test_suite_schedule_service.py\<close> (the next run of a schedule and
  the queries), \<open>test_suite_schedules/test_suite_scheduler_service.py\<close> (the trigger and the pass
  over the due schedules) and \<open>scheduler_runtime.py\<close> (the polling thread). A datetime is the
  number of microseconds since the first day of year 1, without time zone.
\<close>

subsection \<open>Datetimes\<close>

type_synonym datetime = int

definition max_datetime :: datetime where
  "max_datetime = 3652059 * 86400000000 - 1"

text \<open>\<open>timedelta\<close> of a number of microseconds, and \<open>datetime + timedelta\<close>.\<close>

definition timedelta :: "int \<Rightarrow> int result" where
  "timedelta us =
     (let days = us div 86400000000 in
      rbind (guard (\<bar>days\<bar> \<le> 2147483647) (OverflowError ''Python int too large to convert to C int'')) (\<lambda>_.
      rbind (guard (\<bar>days\<bar> \<le> 999999999)
               (OverflowError (''days='' @ show_int days @ ''; must have magnitude <= 999999999''))) (\<lambda>_.
      Inr us)))"

definition add_delta :: "datetime \<Rightarrow> int \<Rightarrow> datetime result" where
  "add_delta t d =
     rbind (guard (0 \<le> t + d \<and> t + d \<le> max_datetime) (OverflowError ''date value out of range'')) (\<lambda>_. Inr (t + d))"

subsection \<open>The next run\<close>

datatype schedule_frequency_unit = MINUTES | HOURS | DAYS

fun frequency_text :: "schedule_frequency_unit \<Rightarrow> string" where
  "frequency_text MINUTES = ''minutes''"
| "frequency_text HOURS = ''hours''"
| "frequency_text DAYS = ''days''"

definition frequency_delta :: "string \<Rightarrow> int \<Rightarrow> int result" where
  "frequency_delta frequency_unit value1 =
     (let u = lower (strip frequency_unit) in
      if u = frequency_text MINUTES then timedelta (value1 * 60000000)
      else if u = frequency_text HOURS then timedelta (value1 * 3600000000)
      else if u = frequency_text DAYS then timedelta (value1 * 86400000000)
      else Inl (AppError (''Unsupported frequency unit '' @ quoted frequency_unit @ ''.'')))"

definition window_ok :: "datetime option \<Rightarrow> datetime option \<Rightarrow> bool" where
  "window_ok start_at end_at =
     (case start_at of None \<Rightarrow> True | Some a \<Rightarrow> (case end_at of None \<Rightarrow> True | Some b \<Rightarrow> a < b))"

definition next_candidate :: "datetime option \<Rightarrow> datetime \<Rightarrow> datetime option \<Rightarrow> int \<Rightarrow> datetime result" where
  "next_candidate start_at current reference delta =
     (case reference of
        None \<Rightarrow>
          (case start_at of
             None \<Rightarrow> add_delta current delta
           | Some a \<Rightarrow> if current < a then Inr a
                       else rbind (add_delta current delta) (\<lambda>c. Inr (max c a)))
      | Some base \<Rightarrow>
          rbind (add_delta base delta) (\<lambda>c. Inr (case start_at of None \<Rightarrow> c | Some a \<Rightarrow> max c a)))"

definition compute_next_run_at ::
  "bool \<Rightarrow> string \<Rightarrow> int \<Rightarrow> datetime option \<Rightarrow> datetime option \<Rightarrow> datetime \<Rightarrow> datetime option \<Rightarrow> datetime option result" where
  "compute_next_run_at active frequency_unit frequency_value start_at end_at current reference =
     (if \<not> active then Inr None
      else
        rbind (guard (0 < frequency_value) (AppError ''frequency_value must be greater than zero.'')) (\<lambda>_.
        rbind (guard (window_ok start_at end_at) (AppError ''start_at must be earlier than end_at.'')) (\<lambda>_.
        rbind (frequency_delta frequency_unit frequency_value) (\<lambda>delta.
        rbind (next_candidate start_at current reference delta) (\<lambda>candidate.
        Inr (case end_at of None \<Rightarrow> Some candidate
             | Some b \<Rightarrow> if b < candidate then None else Some candidate))))))"

subsection \<open>State\<close>

record schedule_row =
  sh_test_suite_id :: string
  sh_description :: "string option"
  sh_active :: bool
  sh_frequency_unit :: string
  sh_frequency_value :: int
  sh_start_at :: "datetime option"
  sh_end_at :: "datetime option"
  sh_next_run_at :: "datetime option"
  sh_last_run_at :: "datetime option"
  sh_last_status :: string
  sh_last_execution_id :: "string option"
  sh_last_error_message :: "string option"
  sh_created_at :: datetime
  sh_updated_at :: datetime

text \<open>\<open>sd_threads\<close> are the suite runs that were started and have not begun.\<close>

record 'w scheduler =
  sd_runner :: "'w runner"
  sd_schedules :: "schedule_row table"
  sd_threads :: "suite_thread list"

text \<open>The clock, \<open>Thread.start\<close>, and the encoding of a datetime in a response.\<close>

record 'w schedule_env =
  se_env :: "'w environment"
  se_now :: "nat \<Rightarrow> datetime"
  se_spawn :: "suite_thread \<Rightarrow> 'w \<Rightarrow> unit result \<times> 'w"
  se_iso :: "datetime \<Rightarrow> string"

definition on_runner :: "('w runner, 'a) eff \<Rightarrow> ('w scheduler, 'a) eff" where
  "on_runner m = (\<lambda>s. case m (sd_runner s) of (r, t) \<Rightarrow> (r, s\<lparr>sd_runner := t\<rparr>))"

definition utc_now :: "'w schedule_env \<Rightarrow> ('w scheduler, datetime) eff" where
  "utc_now sv = ebind (on_runner (on_machine next_tick)) (\<lambda>n. ereturn (se_now sv n))"

text \<open>\<open>with managed_session() as session\<close>: the tables are restored when the block raises; a thread
  that was started stays started.\<close>

definition schedule_session :: "('w scheduler, 'a) eff \<Rightarrow> ('w scheduler, 'a) eff" where
  "schedule_session body = (\<lambda>s. case body s of
     (Inr x, t) \<Rightarrow> (Inr x, t)
   | (Inl e, t) \<Rightarrow> (Inl e, t\<lparr>sd_runner := rollback (sd_runner s) (sd_runner t), sd_schedules := sd_schedules s\<rparr>))"

subsection \<open>Queries\<close>

definition get_due_schedules :: "datetime \<Rightarrow> schedule_row table \<Rightarrow> schedule_row table" where
  "get_due_schedules current t =
     sort_key (\<lambda>(i, r). (case sh_next_run_at r of None \<Rightarrow> 0 | Some n \<Rightarrow> n, i))
       (rows_where (\<lambda>r. sh_active r \<and> (case sh_next_run_at r of None \<Rightarrow> False | Some n \<Rightarrow> n \<le> current)) t)"

definition get_running_schedules :: "schedule_row table \<Rightarrow> schedule_row table" where
  "get_running_schedules t =
     sort_key (\<lambda>(i, r). (sh_updated_at r, i))
       (rows_where (\<lambda>r. sh_last_status r = ''running'' \<and> sh_last_execution_id r \<noteq> None) t)"

definition get_all_schedules_ordered :: "string option \<Rightarrow> schedule_row table \<Rightarrow> schedule_row table" where
  "get_all_schedules_ordered suite t =
     (let wanted = strip (opt_token suite) in
      sort_key (\<lambda>(i, r). (sh_test_suite_id r, sh_description r = None, opt_token (sh_description r), i))
        (if wanted = [] then t else rows_where (\<lambda>r. sh_test_suite_id r = wanted) t))"

definition has_running_execution :: "string \<Rightarrow> suite_run_row table \<Rightarrow> bool" where
  "has_running_execution suite t \<longleftrightarrow>
     (\<exists>(i, r) \<in> set t. tr_test_suite_id r = suite \<and> tr_status r = ''running'')"

definition update_fields :: "string \<Rightarrow> (schedule_row \<Rightarrow> schedule_row) \<Rightarrow> ('w scheduler, unit) eff" where
  "update_fields i f = emodify (\<lambda>s. s\<lparr>sd_schedules := update_row i f (sd_schedules s)\<rparr>)"

subsection \<open>States of running schedules\<close>

definition refreshed :: "suite_run_row \<Rightarrow> datetime \<Rightarrow> schedule_row \<Rightarrow> schedule_row" where
  "refreshed x now r =
     (let status = lower (strip (tr_status x)) in
      r\<lparr>sh_last_status := (if status = [] then ''error'' else status),
        sh_last_error_message := nonempty (strip (opt_token (tr_error_message x))), sh_updated_at := now\<rparr>)"

fun refresh_schedules :: "'w schedule_env \<Rightarrow> schedule_row table \<Rightarrow> nat \<Rightarrow> ('w scheduler, nat) eff" where
  "refresh_schedules sv [] updated = ereturn updated"
| "refresh_schedules sv ((i, r) # rs) updated =
     ebind (eget (\<lambda>s. get_by_id (strip (opt_token (sh_last_execution_id r))) (rn_suite_runs (sd_runner s)))) (\<lambda>found.
     case (if strip (opt_token (sh_last_execution_id r)) = [] then None else found) of
       None \<Rightarrow> refresh_schedules sv rs updated
     | Some x \<Rightarrow>
         if lower (strip (tr_status x)) = ''running'' then refresh_schedules sv rs updated
         else ebind (utc_now sv) (\<lambda>now.
              ebind (update_fields i (refreshed x now)) (\<lambda>_.
              refresh_schedules sv rs (Suc updated))))"

definition refresh_running_schedule_states :: "'w schedule_env \<Rightarrow> ('w scheduler, nat) eff" where
  "refresh_running_schedule_states sv =
     ebind (eget (\<lambda>s. get_running_schedules (sd_schedules s))) (\<lambda>rs. refresh_schedules sv rs 0)"

subsection \<open>The trigger\<close>

definition build_schedule_event :: "string \<times> schedule_row \<Rightarrow> pyval" where
  "build_schedule_event sched =
     PDict [(''trigger'', PDict [(''type'', PStr ''schedule''), (''schedule_id'', PStr (fst sched)),
       (''schedule_description'', PStr (opt_token (sh_description (snd sched))))])]"

record trigger_result =
  tx_id :: string
  tx_test_suite_id :: string
  tx_status :: string
  tx_execution_id :: "string option"
  tx_message :: string

definition trigger_result_of ::
  "string \<times> schedule_row \<Rightarrow> string \<Rightarrow> string option \<Rightarrow> string \<Rightarrow> trigger_result" where
  "trigger_result_of sched status execution message =
     \<lparr>tx_id = fst sched, tx_test_suite_id = sh_test_suite_id (snd sched), tx_status = status,
      tx_execution_id = execution, tx_message = message\<rparr>"

text \<open>\<open>execute_test_suite_by_id\<close>: the thread gets its execution id, then it is started.\<close>

definition execute_test_suite_by_id ::
  "'w schedule_env \<Rightarrow> string \<Rightarrow> pyval \<Rightarrow> pyval \<Rightarrow> string option \<Rightarrow> ('w scheduler, string) eff" where
  "execute_test_suite_by_id sv suite event vars_init invocation =
     ebind (on_runner (on_machine next_tick)) (\<lambda>n.
     let th = new_suite_thread (en_uid (se_env sv) n) (Some suite) event vars_init invocation None in
     ebind (on_runner (on_machine (on_world (se_spawn sv th)))) (\<lambda>_.
     ebind (emodify (\<lambda>s. s\<lparr>sd_threads := sd_threads s @ [th]\<rparr>)) (\<lambda>_.
     ereturn (th_execution_id th))))"

definition schedule_next :: "schedule_row \<Rightarrow> datetime \<Rightarrow> datetime option result" where
  "schedule_next r current =
     compute_next_run_at (sh_active r) (sh_frequency_unit r) (sh_frequency_value r) (sh_start_at r) (sh_end_at r)
       current (Some current)"

definition suite_running_message :: string where
  "suite_running_message = ''Skipped because the suite is already running.''"

definition skip_schedule :: "string \<times> schedule_row \<Rightarrow> datetime \<Rightarrow> ('w scheduler, trigger_result) eff" where
  "skip_schedule sched current =
     ebind (elift (if sh_active (snd sched) then schedule_next (snd sched) current
                   else Inr (sh_next_run_at (snd sched)))) (\<lambda>nxt.
     ebind (update_fields (fst sched) (\<lambda>r. r\<lparr>sh_next_run_at := nxt, sh_last_status := ''skipped'',
              sh_last_error_message := Some suite_running_message, sh_updated_at := current\<rparr>)) (\<lambda>_.
     ereturn (trigger_result_of sched ''skipped'' None suite_running_message)))"

text \<open>The handler of a failed start: it updates the schedule and raises again.\<close>

definition start_failed :: "string \<times> schedule_row \<Rightarrow> datetime \<Rightarrow> exc \<Rightarrow> ('w scheduler, 'a) eff" where
  "start_failed sched current e =
     ebind (elift (if sh_active (snd sched) then schedule_next (snd sched) current else Inr None)) (\<lambda>nxt.
     ebind (update_fields (fst sched) (\<lambda>r. r\<lparr>sh_next_run_at := nxt, sh_last_status := ''error'',
              sh_last_error_message := Some (exc_message e), sh_updated_at := current\<rparr>)) (\<lambda>_.
     eraise e))"

definition start_schedule ::
  "'w schedule_env \<Rightarrow> string \<times> schedule_row \<Rightarrow> datetime \<Rightarrow> ('w scheduler, trigger_result) eff" where
  "start_schedule sv sched current =
     ebind (etry (execute_test_suite_by_id sv (sh_test_suite_id (snd sched)) (build_schedule_event sched) PNone None)
              (start_failed sched current)) (\<lambda>execution.
     ebind (elift (if sh_active (snd sched) then schedule_next (snd sched) current else Inr None)) (\<lambda>nxt.
     ebind (update_fields (fst sched) (\<lambda>r. r\<lparr>sh_next_run_at := nxt, sh_last_run_at := Some current,
              sh_last_status := ''running'', sh_last_execution_id := Some execution,
              sh_last_error_message := None, sh_updated_at := current\<rparr>)) (\<lambda>_.
     ereturn (trigger_result_of sched ''started'' (Some execution) ''Scheduled execution started.''))))"

definition no_schedule :: "string \<Rightarrow> exc" where
  "no_schedule i = AppError (''No test suite schedule found with id [ '' @ i @ '' ]'')"

definition before_start :: "schedule_row \<Rightarrow> datetime \<Rightarrow> bool" where
  "before_start r current = (case sh_start_at r of None \<Rightarrow> False | Some a \<Rightarrow> current < a)"

definition after_end :: "schedule_row \<Rightarrow> datetime \<Rightarrow> bool" where
  "after_end r current = (case sh_end_at r of None \<Rightarrow> False | Some b \<Rightarrow> b < current)"

definition trigger_found ::
  "'w schedule_env \<Rightarrow> string \<times> schedule_row \<Rightarrow> bool \<Rightarrow> datetime \<Rightarrow> ('w scheduler, trigger_result) eff" where
  "trigger_found sv sched manual current =
     ebind (refresh_running_schedule_states sv) (\<lambda>_.
     if \<not> manual \<and> \<not> sh_active (snd sched)
     then ereturn (trigger_result_of sched ''inactive'' None ''Schedule is inactive.'')
     else if before_start (snd sched) current \<and> \<not> manual
     then ereturn (trigger_result_of sched ''not_due'' None ''Schedule is not within the active window yet.'')
     else if after_end (snd sched) current \<and> \<not> manual
     then ebind (update_fields (fst sched) (\<lambda>r. r\<lparr>sh_active := False, sh_next_run_at := None,
                   sh_last_status := ''idle'', sh_updated_at := current\<rparr>)) (\<lambda>_.
          ereturn (trigger_result_of sched ''expired'' None ''Schedule validity window has ended.''))
     else ebind (eget (\<lambda>s. has_running_execution (sh_test_suite_id (snd sched)) (rn_suite_runs (sd_runner s)))) (\<lambda>busy.
          if busy then skip_schedule sched current else start_schedule sv sched current))"

definition trigger_schedule ::
  "'w schedule_env \<Rightarrow> string \<Rightarrow> bool \<Rightarrow> datetime option \<Rightarrow> ('w scheduler, trigger_result) eff" where
  "trigger_schedule sv i manual now =
     ebind (case now of None \<Rightarrow> utc_now sv | Some t \<Rightarrow> ereturn t) (\<lambda>current.
     schedule_session
       (ebind (eget (\<lambda>s. (get_by_id i (sd_schedules s), sd_runner s))) (\<lambda>(found, r).
        case found of
          None \<Rightarrow> eraise (no_schedule i)
        | Some sched \<Rightarrow>
            (case get_by_id (sh_test_suite_id sched) (rn_suites r) of
               None \<Rightarrow> eraise (suite_missing (sh_test_suite_id sched))
             | Some suite \<Rightarrow> trigger_found sv (i, sched) manual current))))"

definition sync_schedule_execution_states :: "'w schedule_env \<Rightarrow> ('w scheduler, nat) eff" where
  "sync_schedule_execution_states sv = schedule_session (refresh_running_schedule_states sv)"

fun trigger_all :: "'w schedule_env \<Rightarrow> datetime \<Rightarrow> string list \<Rightarrow> ('w scheduler, trigger_result list) eff" where
  "trigger_all sv current [] = ereturn []"
| "trigger_all sv current (i # is) =
     ebind (trigger_schedule sv i False (Some current)) (\<lambda>r.
     ebind (trigger_all sv current is) (\<lambda>rs. ereturn (r # rs)))"

definition process_due_schedules ::
  "'w schedule_env \<Rightarrow> datetime option \<Rightarrow> ('w scheduler, trigger_result list) eff" where
  "process_due_schedules sv now =
     ebind (case now of None \<Rightarrow> utc_now sv | Some t \<Rightarrow> ereturn t) (\<lambda>current.
     ebind (sync_schedule_execution_states sv) (\<lambda>_.
     ebind (eget (\<lambda>s. map fst (get_due_schedules current (sd_schedules s)))) (\<lambda>due.
     trigger_all sv current due)))"

subsection \<open>The polling thread\<close>

text \<open>One pass of \<open>while not _STOP_EVENT.is_set()\<close>, without the wait.\<close>

definition scheduler_turn :: "'w schedule_env \<Rightarrow> ('w scheduler, unit) eff" where
  "scheduler_turn sv =
     etry (ebind (process_due_schedules sv None) (\<lambda>_. ereturn ())) (\<lambda>e. ereturn ())"

definition scheduler_enabled :: "string option \<Rightarrow> bool" where
  "scheduler_enabled env =
     (lower (strip (case env of None \<Rightarrow> ''true'' | Some s \<Rightarrow> s)) \<notin> {''0'', ''false'', ''no''})"

text \<open>\<open>_THREAD\<close>, \<open>_STOP_EVENT\<close>, and the loops that have not ended.\<close>

record scheduler_runtime =
  kr_thread :: "nat option"
  kr_stop :: bool
  kr_alive :: "nat list"
  kr_serial :: nat

definition thread_alive :: "scheduler_runtime \<Rightarrow> bool" where
  "thread_alive k = (case kr_thread k of None \<Rightarrow> False | Some t \<Rightarrow> t \<in> set (kr_alive k))"

definition bootstrap_scheduler_runtime :: "string option \<Rightarrow> scheduler_runtime \<Rightarrow> scheduler_runtime" where
  "bootstrap_scheduler_runtime env k =
     (if \<not> scheduler_enabled env \<or> thread_alive k then k
      else k\<lparr>kr_stop := False, kr_thread := Some (kr_serial k), kr_alive := kr_alive k @ [kr_serial k],
             kr_serial := Suc (kr_serial k)\<rparr>)"

text \<open>\<open>joined\<close>: the loop ended within the two seconds of \<open>join\<close>.\<close>

definition shutdown_scheduler_runtime :: "bool \<Rightarrow> scheduler_runtime \<Rightarrow> scheduler_runtime" where
  "shutdown_scheduler_runtime joined k =
     k\<lparr>kr_stop := True,
       kr_alive := (if joined then filter (\<lambda>t. kr_thread k \<noteq> Some t) (kr_alive k) else kr_alive k),
       kr_thread := None\<rparr>"

text \<open>A loop sees the event set.\<close>

definition loop_ends :: "nat \<Rightarrow> scheduler_runtime \<Rightarrow> scheduler_runtime" where
  "loop_ends t k = (if kr_stop k then k\<lparr>kr_alive := filter (\<lambda>u. u \<noteq> t) (kr_alive k)\<rparr> else k)"

end
