(* ===== verification/Schedule_Api.thy ===== *)
theory Schedule_Api
  imports Schedules
begin

section \<open>The API of schedules\<close>

text \<open>
  \<open>elaborations/models/dtos/test_suite_schedule_dto.py\<close> and
  \<open>elaborations/api/test_suite_schedules_api.py\<close>: the check of a request, and one handler per
  route. A handler runs in one session.
\<close>

subsection \<open>Requests\<close>

record schedule_dto =
  sq_test_suite_id :: string
  sq_description :: "string option"
  sq_active :: bool
  sq_frequency_unit :: schedule_frequency_unit
  sq_frequency_value :: int
  sq_start_at :: "datetime option"
  sq_end_at :: "datetime option"

record update_schedule_dto = schedule_dto +
  sq_id :: string

definition validate_schedule :: "'a schedule_dto_scheme \<Rightarrow> 'a schedule_dto_scheme result" where
  "validate_schedule dto =
     (let suite = strip (sq_test_suite_id dto) in
      rbind (guard (suite \<noteq> []) (ValidationError ''test_suite_id is required.'')) (\<lambda>_.
      rbind (guard (0 < sq_frequency_value dto) (ValidationError ''frequency_value must be greater than zero.'')) (\<lambda>_.
      rbind (guard (window_ok (sq_start_at dto) (sq_end_at dto))
               (ValidationError ''start_at must be earlier than end_at.'')) (\<lambda>_.
      Inr (dto\<lparr>sq_test_suite_id := suite, sq_description := Some (opt_token (sq_description dto))\<rparr>)))))"

definition validate_update_schedule :: "update_schedule_dto \<Rightarrow> update_schedule_dto result" where
  "validate_update_schedule dto =
     rbind (validate_schedule dto) (\<lambda>d.
     rbind (guard (strip (sq_id d) \<noteq> []) (ValidationError ''id is required.'')) (\<lambda>_.
     Inr (d\<lparr>sq_id := strip (sq_id d)\<rparr>)))"

subsection \<open>Responses\<close>

definition date_json :: "'w schedule_env \<Rightarrow> datetime option \<Rightarrow> pyval" where
  "date_json sv t = (case t of None \<Rightarrow> PNone | Some d \<Rightarrow> PStr (se_iso sv d))"

definition serialize_test_suite_schedule ::
  "'w schedule_env \<Rightarrow> string \<times> schedule_row \<Rightarrow> string \<Rightarrow> pydict" where
  "serialize_test_suite_schedule sv entity suite_description =
     (let r = snd entity in
      [(''id'', PStr (fst entity)), (''test_suite_id'', PStr (sh_test_suite_id r)),
       (''test_suite_description'', PStr suite_description), (''description'', opt_json (sh_description r)),
       (''active'', PBool (sh_active r)), (''frequency_unit'', PStr (sh_frequency_unit r)),
       (''frequency_value'', PInt (sh_frequency_value r)), (''start_at'', date_json sv (sh_start_at r)),
       (''end_at'', date_json sv (sh_end_at r)), (''next_run_at'', date_json sv (sh_next_run_at r)),
       (''last_run_at'', date_json sv (sh_last_run_at r)), (''last_status'', PStr (sh_last_status r)),
       (''last_execution_id'', opt_json (sh_last_execution_id r)),
       (''last_error_message'', opt_json (sh_last_error_message r)),
       (''created_at'', date_json sv (Some (sh_created_at r))),
       (''updated_at'', date_json sv (Some (sh_updated_at r)))])"

definition suite_description_of :: "string \<Rightarrow> 'w scheduler \<Rightarrow> string" where
  "suite_description_of suite s =
     (case get_by_id suite (rn_suites (sd_runner s)) of None \<Rightarrow> [] | Some r \<Rightarrow> su_description r)"

definition schedule_response :: "'w schedule_env \<Rightarrow> string \<Rightarrow> ('w scheduler, pydict) eff" where
  "schedule_response sv i =
     ebind (eget (\<lambda>s. (get_by_id i (sd_schedules s), s))) (\<lambda>(found, s).
     case found of
       None \<Rightarrow> eraise (no_schedule i)
     | Some r \<Rightarrow> ereturn (serialize_test_suite_schedule sv (i, r) (suite_description_of (sh_test_suite_id r) s)))"

subsection \<open>Handlers\<close>

definition next_of_dto :: "'a schedule_dto_scheme \<Rightarrow> datetime \<Rightarrow> datetime option result" where
  "next_of_dto dto now =
     compute_next_run_at (sq_active dto) (frequency_text (sq_frequency_unit dto)) (sq_frequency_value dto)
       (sq_start_at dto) (sq_end_at dto) now None"

definition build_schedule_entity ::
  "schedule_dto \<Rightarrow> datetime option \<Rightarrow> datetime \<Rightarrow> schedule_row" where
  "build_schedule_entity dto nxt created =
     \<lparr>sh_test_suite_id = sq_test_suite_id dto, sh_description = sq_description dto, sh_active = sq_active dto,
      sh_frequency_unit = frequency_text (sq_frequency_unit dto), sh_frequency_value = sq_frequency_value dto,
      sh_start_at = sq_start_at dto, sh_end_at = sq_end_at dto, sh_next_run_at = nxt, sh_last_run_at = None,
      sh_last_status = ''idle'', sh_last_execution_id = None, sh_last_error_message = None,
      sh_created_at = created, sh_updated_at = created\<rparr>"

definition require_suite :: "string \<Rightarrow> ('w scheduler, unit) eff" where
  "require_suite suite =
     ebind (eget (\<lambda>s. get_by_id suite (rn_suites (sd_runner s)))) (\<lambda>found.
     if found = None then eraise (suite_missing suite) else ereturn ())"

definition require_schedule :: "string \<Rightarrow> ('w scheduler, schedule_row) eff" where
  "require_schedule i =
     ebind (eget (\<lambda>s. get_by_id i (sd_schedules s))) (\<lambda>found.
     case found of None \<Rightarrow> eraise (no_schedule i) | Some r \<Rightarrow> ereturn r)"

definition insert_test_suite_schedule_api :: "'w schedule_env \<Rightarrow> schedule_dto \<Rightarrow> ('w scheduler, pydict) eff" where
  "insert_test_suite_schedule_api sv dto = schedule_session
     (ebind (require_suite (sq_test_suite_id dto)) (\<lambda>_.
      ebind (utc_now sv) (\<lambda>now.
      ebind (elift (next_of_dto dto now)) (\<lambda>nxt.
      ebind (on_runner (on_machine next_tick)) (\<lambda>n.
      ebind (utc_now sv) (\<lambda>created s.
        case insert_row (en_uid (se_env sv) n) (build_schedule_entity dto nxt created) (sd_schedules s) of
          Inl e \<Rightarrow> (Inl e, s)
        | Inr t \<Rightarrow> schedule_response sv (en_uid (se_env sv) n) (s\<lparr>sd_schedules := t\<rparr>)))))))"

definition update_test_suite_schedule_api ::
  "'w schedule_env \<Rightarrow> update_schedule_dto \<Rightarrow> ('w scheduler, pydict) eff" where
  "update_test_suite_schedule_api sv dto = schedule_session
     (ebind (require_suite (sq_test_suite_id dto)) (\<lambda>_.
      ebind (require_schedule (sq_id dto)) (\<lambda>_.
      ebind (utc_now sv) (\<lambda>now.
      ebind (elift (next_of_dto dto now)) (\<lambda>nxt.
      ebind (utc_now sv) (\<lambda>updated.
      ebind (update_fields (sq_id dto) (\<lambda>r. r\<lparr>sh_test_suite_id := sq_test_suite_id dto,
               sh_description := sq_description dto, sh_active := sq_active dto,
               sh_frequency_unit := frequency_text (sq_frequency_unit dto),
               sh_frequency_value := sq_frequency_value dto, sh_start_at := sq_start_at dto,
               sh_end_at := sq_end_at dto, sh_next_run_at := nxt, sh_updated_at := updated\<rparr>)) (\<lambda>_.
      schedule_response sv (sq_id dto))))))))"

definition delete_test_suite_schedule_api :: "string \<Rightarrow> ('w scheduler, string) eff" where
  "delete_test_suite_schedule_api i = schedule_session (\<lambda>s.
     case delete_by_id i (sd_schedules s) of (n, t) \<Rightarrow>
       if n = 0 then (Inl (no_schedule i), s)
       else (Inr (show_nat n @ '' test suite schedule(s) deleted''), s\<lparr>sd_schedules := t\<rparr>))"

definition activate_test_suite_schedule_api :: "'w schedule_env \<Rightarrow> string \<Rightarrow> ('w scheduler, pydict) eff" where
  "activate_test_suite_schedule_api sv i = schedule_session
     (ebind (require_schedule i) (\<lambda>r.
      ebind (utc_now sv) (\<lambda>now.
      ebind (elift (compute_next_run_at True (sh_frequency_unit r) (sh_frequency_value r) (sh_start_at r)
               (sh_end_at r) now None)) (\<lambda>nxt.
      ebind (utc_now sv) (\<lambda>updated.
      ebind (update_fields i (\<lambda>r. r\<lparr>sh_active := True, sh_next_run_at := nxt, sh_updated_at := updated\<rparr>)) (\<lambda>_.
      schedule_response sv i))))))"

definition deactivate_test_suite_schedule_api :: "'w schedule_env \<Rightarrow> string \<Rightarrow> ('w scheduler, pydict) eff" where
  "deactivate_test_suite_schedule_api sv i = schedule_session
     (ebind (require_schedule i) (\<lambda>r.
      ebind (utc_now sv) (\<lambda>updated.
      ebind (update_fields i (\<lambda>r. r\<lparr>sh_active := False, sh_next_run_at := None, sh_updated_at := updated\<rparr>)) (\<lambda>_.
      schedule_response sv i))))"

definition find_test_suite_schedule_api :: "'w schedule_env \<Rightarrow> string \<Rightarrow> ('w scheduler, pydict) eff" where
  "find_test_suite_schedule_api sv i = schedule_session (schedule_response sv i)"

definition find_all_test_suite_schedules_api ::
  "'w schedule_env \<Rightarrow> string option \<Rightarrow> ('w scheduler, pydict list) eff" where
  "find_all_test_suite_schedules_api sv suite = schedule_session
     (eget (\<lambda>s. map (\<lambda>(i, r). serialize_test_suite_schedule sv (i, r) (suite_description_of (sh_test_suite_id r) s))
        (get_all_schedules_ordered suite (sd_schedules s))))"

definition run_test_suite_schedule_now_api :: "'w schedule_env \<Rightarrow> string \<Rightarrow> ('w scheduler, pydict) eff" where
  "run_test_suite_schedule_now_api sv i =
     ebind (trigger_schedule sv i True None) (\<lambda>r.
     ereturn [(''message'', PStr (tx_message r)), (''execution_id'', opt_json (tx_execution_id r)),
              (''status'', PStr (tx_status r))])"

end
