(* ===== verification/Schedule_Facts.thy ===== *)
theory Schedule_Facts
  imports Schedule_Api Suite_Facts
begin

section \<open>What schedules do\<close>

text \<open>
  The next run of a schedule lies in its window; the table of schedules stays well-formed under
  every request; a pass over the due schedules leaves none of them due. The run of a suite is one
  transaction, and the id the scheduler remembers is not the id of its row: so the check for a
  running suite never applies and no schedule ever learns how its run ended.
\<close>

subsection \<open>The next run\<close>

definition unit_microseconds :: "string \<Rightarrow> int" where
  "unit_microseconds u =
     (if lower (strip u) = ''minutes'' then 60000000
      else if lower (strip u) = ''hours'' then 3600000000
      else if lower (strip u) = ''days'' then 86400000000 else 0)"

lemma timedelta_Inr: "timedelta us = Inr d \<longleftrightarrow> d = us \<and> \<bar>us div 86400000000\<bar> \<le> 999999999"
  by (auto simp: timedelta_def Let_def rbind_Inr_iff guard_def)

lemma add_delta_Inr: "add_delta t d = Inr c \<longleftrightarrow> c = t + d \<and> 0 \<le> c \<and> c \<le> max_datetime"
  by (auto simp: add_delta_def rbind_Inr_iff guard_def)

lemma frequency_delta_Inr:
  "frequency_delta u n = Inr d \<longleftrightarrow> unit_microseconds u \<noteq> 0 \<and> d = n * unit_microseconds u \<and>
     \<bar>d div 86400000000\<bar> \<le> 999999999"
  by (auto simp: frequency_delta_def Let_def unit_microseconds_def timedelta_Inr)

lemma unit_microseconds_nonneg: "0 \<le> unit_microseconds u"
  by (simp add: unit_microseconds_def)

lemma unit_frequency_text [simp]: "unit_microseconds (frequency_text u) \<noteq> 0"
  by (cases u) (simp_all add: unit_microseconds_def, code_simp+)

text \<open>A next run that was computed now.\<close>

definition in_window :: "datetime option \<Rightarrow> datetime option \<Rightarrow> datetime \<Rightarrow> bool" where
  "in_window start_at end_at t \<longleftrightarrow>
     (case start_at of None \<Rightarrow> True | Some a \<Rightarrow> a \<le> t) \<and> (case end_at of None \<Rightarrow> True | Some b \<Rightarrow> t \<le> b)"

lemma computed_next:
  assumes "compute_next_run_at active u n a b now ref = Inr r" and "ref = None \<or> ref = Some now"
  shows "case r of None \<Rightarrow> \<not> active \<or> b \<noteq> None
    | Some t \<Rightarrow> active \<and> now < t \<and> in_window a b t"
proof (cases active)
  case True
  then obtain d c where d: "frequency_delta u n = Inr d" and c: "next_candidate a now ref d = Inr c"
      and n: "0 < n" and r: "r = (case b of None \<Rightarrow> Some c | Some e \<Rightarrow> if e < c then None else Some c)"
    using assms(1) by (auto simp: compute_next_run_at_def rbind_Inr_iff guard_def split: if_splits)
  have "0 < d" using d n unit_microseconds_nonneg [of u] by (auto simp: frequency_delta_Inr)
  then have "now < c" "case a of None \<Rightarrow> True | Some x \<Rightarrow> x \<le> c"
    using c assms(2) by (auto simp: next_candidate_def rbind_Inr_iff add_delta_Inr split: option.splits if_splits)
  then show ?thesis using True r by (auto simp: in_window_def split: option.splits)
qed (use assms in \<open>simp add: compute_next_run_at_def split: option.splits\<close>)

lemma compute_defined:
  assumes "unit_microseconds u \<noteq> 0" and "0 < n" and "window_ok a b" and "0 \<le> now"
    and "now + n * unit_microseconds u \<le> max_datetime" and "ref = None \<or> ref = Some now"
  shows "\<exists>r. compute_next_run_at active u n a b now ref = Inr r"
proof -
  let ?d = "n * unit_microseconds u"
  have pos: "0 < ?d" using assms(1,2) unit_microseconds_nonneg [of u] by (simp add: zero_less_mult_iff)
  have "0 \<le> ?d div 86400000000" using pos by (simp add: pos_imp_zdiv_nonneg_iff)
  moreover have "?d div 86400000000 \<le> max_datetime div 86400000000"
    using assms(4,5) by (intro zdiv_mono1) auto
  ultimately have "frequency_delta u n = Inr ?d"
    using assms(1) by (simp add: frequency_delta_Inr max_datetime_def)
  moreover have "\<exists>c. next_candidate a now ref ?d = Inr c"
    using pos assms(4-6)
    by (auto simp: next_candidate_def add_delta_Inr rbind_Inr_iff split: option.splits)
  ultimately show ?thesis using assms(2,3) by (auto simp: compute_next_run_at_def guard_def)
qed

text \<open>
  C40. The next run of a schedule is where it should be. For an active schedule with a unit the code
  knows, a positive frequency and a start before its end, and dates within the calendar, it is
  computed without an error: it lies after now, not before the start and not after the end, and
  no later than one period from now or exactly at the start; there is none only when a period
  from now runs past the end. An inactive schedule has no next run.
\<close>

theorem next_run_in_window:
  assumes "unit_microseconds u \<noteq> 0" and "0 < n" and "window_ok a b" and "0 \<le> now"
    and "now + n * unit_microseconds u \<le> max_datetime" and "ref = None \<or> ref = Some now"
  shows "\<exists>r. compute_next_run_at active u n a b now ref = Inr r \<and>
    (case r of
       None \<Rightarrow> \<not> active \<or> (case b of None \<Rightarrow> False | Some e \<Rightarrow> e < now + n * unit_microseconds u)
     | Some t \<Rightarrow> active \<and> now < t \<and> in_window a b t \<and> (t \<le> now + n * unit_microseconds u \<or> a = Some t))"
proof -
  obtain r where r: "compute_next_run_at active u n a b now ref = Inr r" using compute_defined [OF assms] by blast
  have "case r of None \<Rightarrow> \<not> active \<or> (case b of None \<Rightarrow> False | Some e \<Rightarrow> e < now + n * unit_microseconds u)
    | Some t \<Rightarrow> t \<le> now + n * unit_microseconds u \<or> a = Some t"
    using r assms(3,6)
    by (auto simp: compute_next_run_at_def rbind_Inr_iff guard_def frequency_delta_Inr next_candidate_def add_delta_Inr
        window_ok_def max_def split: option.splits if_splits)
  then show ?thesis using r computed_next [OF r assms(6)] by (cases r) auto
qed

theorem next_run_in_window_witness:
  "\<exists>t. compute_next_run_at True ''hours'' 2 (Some 5) None 100 None = Inr (Some t) \<and> 100 < t \<and> t \<le> 7200000100"
proof -
  have "unit_microseconds ''hours'' = 3600000000" by code_simp
  then show ?thesis
    using next_run_in_window [of "''hours''" 2 "Some 5" None 100 None True]
    by (auto simp: window_ok_def max_datetime_def in_window_def split: option.splits)
qed

subsection \<open>The run of a suite as one step\<close>

text \<open>What a step of a run may do to the tables of the runner, besides closing rows.\<close>

definition run_grows :: "'w environment \<Rightarrow> 'w runner \<Rightarrow> 'w runner \<Rightarrow> bool" where
  "run_grows en s t \<longleftrightarrow>
     rn_suites t = rn_suites s \<and> mc_ticks (rn_machine s) \<le> mc_ticks (rn_machine t) \<and>
     (\<exists>rows. rn_item_execs t = rn_item_execs s @ rows \<and>
        fst ` set rows \<subseteq> en_uid en ` {mc_ticks (rn_machine s)..<mc_ticks (rn_machine t)})"

lemma run_grows_adds: "adds_rows en s t rows \<Longrightarrow> run_grows en s t"
  by (auto simp: run_grows_def adds_rows_def)

lemma run_grows_same:
  "rn_suites t = rn_suites s \<Longrightarrow> mc_ticks (rn_machine s) \<le> mc_ticks (rn_machine t) \<Longrightarrow>
   rn_item_execs t = rn_item_execs s \<Longrightarrow> run_grows en s t"
  by (auto simp: run_grows_def)

lemma run_grows_trans:
  assumes "run_grows en s t" and "run_grows en t u"
  shows "run_grows en s u"
proof -
  let ?k = "\<lambda>s. mc_ticks (rn_machine s)"
  obtain r1 r2 where r: "rn_item_execs u = rn_item_execs s @ r1 @ r2"
      "fst ` set r1 \<subseteq> en_uid en ` {?k s..<?k t}" "fst ` set r2 \<subseteq> en_uid en ` {?k t..<?k u}"
    using assms unfolding run_grows_def by fastforce
  have "?k s \<le> ?k t" "?k t \<le> ?k u" using assms by (simp_all add: run_grows_def)
  then have sub: "en_uid en ` {?k s..<?k t} \<subseteq> en_uid en ` {?k s..<?k u}"
      "en_uid en ` {?k t..<?k u} \<subseteq> en_uid en ` {?k s..<?k u}" by (intro image_mono; auto)+
  have "fst ` set (r1 @ r2) \<subseteq> en_uid en ` {?k s..<?k u}"
    using subset_trans [OF r(2) sub(1)] subset_trans [OF r(3) sub(2)] by (simp add: image_Un)
  then show ?thesis using assms r(1) by (auto simp: run_grows_def)
qed

lemma finish_suite_run_grows:
  assumes "finish_suite_run en xi run pg s = (res, t)"
  shows "run_grows en s t"
proof (rule run_grows_same)
  show "rn_suites t = rn_suites s" "mc_ticks (rn_machine s) \<le> mc_ticks (rn_machine t)"
      "rn_item_execs t = rn_item_execs s"
    using assms by (auto simp: finish_suite_run_def ebind_def on_machine_def publish_for_def publish_event_def
        write_suite_log_def split: sum.splits)
qed

lemma run_suite_body_grows:
  assumes "fresh_runs en s" and body: "run_suite_body en xi run hooks tests s = (res, t)"
  shows "run_grows en s t"
proof -
  obtain s1 where 1: "publish_for en xi ''suite_started''
      [(''test_suite_execution_id'', PStr run), (''test_suite_id'', PStr (xi_test_suite_id xi)),
       (''test_suite_description'', PStr (xi_test_suite_description xi)),
       (''target_test_id'', opt_json (xi_target_suite_item_id xi)),
       (''include_previous'', PBool False)] s = (Inr (), s1)" "adds_rows en s s1 []"
    using publish_for_Inr by meson
  obtain s2 where 2: "publish_progress en xi run 0 (length tests) s1 = (Inr (), s2)" "adds_rows en s1 s2 []"
    unfolding publish_progress_def using publish_for_Inr by meson
  have s2: "adds_rows en s s2 []" using adds_rows_append [OF 1(2) 2(2)] by simp
  obtain x s3 where 3: "run_items en xi run hooks tests s2 = (x, s3)" by fastforce
  obtain tr pg where tr: "x = Inr pg" "runs_trace en run s2
      \<lparr>pg_position = 0, pg_executed = 0, pg_any_error = False, pg_first_error = []\<rparr> tr s3 pg"
    using run_items_trace [OF adds_rows_fresh [OF assms(1) s2] 3] by blast
  have fin: "finish_suite_run en xi run pg s3 = (res, t)"
    using body 1(1) 2(1) 3 tr(1) by (simp add: run_suite_body_def ebind_def)
  obtain rows where "adds_rows en s2 s3 rows" using tr(2) by (auto simp: runs_trace_def)
  then show ?thesis
    using run_grows_trans run_grows_adds s2 finish_suite_run_grows [OF fin] by blast
qed

lemma run_grows_fresh:
  assumes "fresh_runs en s" and "run_grows en s t"
    and "rn_suite_runs t = rn_suite_runs s \<or>
      (\<exists>row. rn_suite_runs t = rn_suite_runs s @ [(en_uid en (mc_ticks (rn_machine s)), row)] \<and>
        mc_ticks (rn_machine s) < mc_ticks (rn_machine t))"
  shows "fresh_runs en t"
proof -
  let ?k = "\<lambda>s. mc_ticks (rn_machine s)"
  have inj: "inj (en_uid en)" using assms(1) by (simp add: fresh_runs_def)
  obtain rows where rows: "rn_item_execs t = rn_item_execs s @ rows"
      "fst ` set rows \<subseteq> en_uid en ` {?k s..<?k t}" and le: "?k s \<le> ?k t"
    using assms(2) by (auto simp: run_grows_def)
  have new: "en_uid en n \<notin> fst ` set rows" if "?k t \<le> n" for n
    using that rows(2) inj by (auto dest!: subsetD dest: injD)
  have old: "en_uid en n \<notin> fst ` set (rn_item_execs s)" "en_uid en n \<notin> fst ` set (rn_suite_runs s)"
    if "?k t \<le> n" for n
    using assms(1) order_trans [OF le that] unfolding fresh_runs_def by blast+
  have "en_uid en n \<notin> fst ` set (rn_suite_runs t)" if n: "?k t \<le> n" for n
    using assms(3)
  proof (elim disjE exE conjE)
    fix row
    assume t: "rn_suite_runs t = rn_suite_runs s @ [(en_uid en (?k s), row)]" and lt: "?k s < ?k t"
    have "en_uid en n \<noteq> en_uid en (?k s)" using lt n inj by (auto dest: injD)
    then show ?thesis using old(2) [OF n] by (simp add: t)
  qed (use old(2) [OF n] in simp)
  then show ?thesis using new old(1) inj by (simp add: fresh_runs_def rows(1) image_Un)
qed

text \<open>The tables after a run: nothing, or one more row, which is not in status running.\<close>

definition run_committed :: "'w environment \<Rightarrow> 'w runner \<Rightarrow> 'w runner \<Rightarrow> bool" where
  "run_committed en s t \<longleftrightarrow>
     run_grows en s t \<and>
     (rn_suite_runs t = rn_suite_runs s \<or>
      (\<exists>row. rn_suite_runs t = rn_suite_runs s @ [(en_uid en (mc_ticks (rn_machine s)), row)] \<and>
        tr_status row \<noteq> ''running'' \<and> mc_ticks (rn_machine s) < mc_ticks (rn_machine t)))"

lemma rollback_grows: "mc_ticks (rn_machine s) \<le> mc_ticks (rn_machine t) \<Longrightarrow> run_committed en s (rollback s t)"
  by (simp add: run_committed_def rollback_def Let_def run_grows_def)

lemma in_run_grows:
  assumes "in_run c named body s = (res, t)"
  obtains s1 t1 where "body s1 = (res, t1)" "rn_suite_runs s1 = rn_suite_runs s" "run_grows en s s1"
    "rn_item_execs s1 = rn_item_execs s" "mc_ticks (rn_machine s1) = mc_ticks (rn_machine s)"
    "rn_suite_runs t = rn_suite_runs t1" "run_grows en t1 t"
proof -
  define s1 where "s1 = s\<lparr>rn_machine := (rn_machine s)\<lparr>mc_session := (mc_session (rn_machine s))\<lparr>s_ctx := Some c\<rparr>,
      mc_vars := enter_vars named (mc_vars (rn_machine s))\<rparr>\<rparr>"
  obtain r t1 where b: "body s1 = (r, t1)" by fastforce
  have t: "r = res" "t = t1\<lparr>rn_machine := (rn_machine t1)\<lparr>mc_session := (mc_session (rn_machine t1))
      \<lparr>s_ctx := s_ctx (mc_session (rn_machine s))\<rparr>,
      mc_vars := reset_vars named (mc_vars (rn_machine s)) (mc_vars (rn_machine t1))\<rparr>\<rparr>"
    using assms b by (simp_all add: in_run_def Let_def s1_def)
  show ?thesis using b unfolding t(1)
    by (rule that) (simp_all add: s1_def t(2) run_grows_def)
qed

lemma started_run_grows:
  assumes "fresh_runs en s" and "in_run c named (run_suite_body en xi run hooks tests) s = (res, t)"
  shows "run_grows en s t"
proof -
  obtain s1 t1 where b: "run_suite_body en xi run hooks tests s1 = (res, t1)" "run_grows en s s1"
      "rn_suite_runs s1 = rn_suite_runs s" "rn_item_execs s1 = rn_item_execs s"
      "mc_ticks (rn_machine s1) = mc_ticks (rn_machine s)" "run_grows en t1 t"
    by (rule in_run_grows [OF assms(2)])
  have "fresh_runs en s1" using assms(1) b(3-5) by (simp add: fresh_runs_def)
  then have "run_grows en s1 t1" by (rule run_suite_body_grows [OF _ b(1)])
  then show ?thesis using run_grows_trans b(2,6) by blast
qed

lemma execute_suite_committed:
  assumes "fresh_runs en s" and run: "execute_suite en xi s = (res, t)"
  shows "run_committed en s t"
proof -
  let ?n = "mc_ticks (rn_machine s)"
  let ?id = "en_uid en ?n" and ?items = "cd_items (mc_db (rn_machine s))"
  obtain c h where c: "make_run_context ?id xi ((rn_machine s)\<lparr>mc_ticks := Suc ?n\<rparr>) =
      (Inr c, (rn_machine s)\<lparr>mc_ticks := Suc ?n, mc_session := (mc_session (rn_machine s))\<lparr>s_heap := h\<rparr>\<rparr>)"
    using make_run_context_eq [of ?id xi "(rn_machine s)\<lparr>mc_ticks := Suc ?n\<rparr>"] by fastforce
  define s1 where "s1 = s\<lparr>rn_suite_runs := rn_suite_runs s @ [(?id, new_suite_run xi)],
      rn_machine := (rn_machine s)\<lparr>mc_ticks := Suc ?n,
         mc_session := (mc_session (rn_machine s))\<lparr>s_heap := h\<rparr>\<rparr>\<rparr>"
  have s1: "run_grows en s s1" by (simp add: s1_def run_grows_def)
  show ?thesis
  proof (cases "get_by_id (xi_test_suite_id xi) (rn_suites s)")
    case None
    then show ?thesis using run rollback_grows [of s s en]
      by (simp add: execute_suite_def transaction_def ebind_def)
  next
    case (Some suite)
    note start = insert_suite_run_eq [OF assms(1), of xi]
    have eq: "execute_suite en xi s = transaction (\<lambda>_.
        case get_hooks hook_phase_values (xi_test_suite_id xi) ?items of
          Inl e \<Rightarrow> (Inl e, s1)
        | Inr hs \<Rightarrow>
            (case resolve_tests_to_execute (get_all_tests_by_suite_id (xi_test_suite_id xi) ?items)
                (xi_target_suite_item_id xi) of
               Inl e \<Rightarrow> (Inl e, s1)
             | Inr tests \<Rightarrow> in_run c (no_vars\<lparr>rv_execution_id := Some (xi_execution_id xi),
                 rv_test_suite_id := Some (xi_test_suite_id xi), rv_test_suite_execution_id := Some ?id\<rparr>)
                 (run_suite_body en xi ?id (hooks_of hs) tests) s1)) s"
      using Some start c
      by (simp add: execute_suite_def execute_run_def transaction_def ebind_def on_machine_def s1_def
          split: sum.splits)
    show ?thesis
    proof (cases "\<exists>hs tests. get_hooks hook_phase_values (xi_test_suite_id xi) ?items = Inr hs \<and>
        resolve_tests_to_execute (get_all_tests_by_suite_id (xi_test_suite_id xi) ?items)
          (xi_target_suite_item_id xi) = Inr tests")
      case False
      then have "t = rollback s s1"
        using run unfolding eq transaction_def by (auto split: sum.splits)
      then show ?thesis using rollback_grows [of s s1 en] s1 by (simp add: run_grows_def)
    next
      case True
      then obtain hs tests where ht: "get_hooks hook_phase_values (xi_test_suite_id xi) ?items = Inr hs"
          "resolve_tests_to_execute (get_all_tests_by_suite_id (xi_test_suite_id xi) ?items)
             (xi_target_suite_item_id xi) = Inr tests" by blast
      obtain r u where u: "in_run c (no_vars\<lparr>rv_execution_id := Some (xi_execution_id xi),
          rv_test_suite_id := Some (xi_test_suite_id xi), rv_test_suite_execution_id := Some ?id\<rparr>)
          (run_suite_body en xi ?id (hooks_of hs) tests) s1 = (r, u)" by fastforce
      have "fresh_runs en s1" using assms(1) by (auto simp: fresh_runs_def s1_def dest: injD)
      then have u_grows: "run_grows en s1 u" by (rule started_run_grows [OF _ u])
      have ticks: "?n < mc_ticks (rn_machine u)" using u_grows by (simp add: run_grows_def s1_def)
      show ?thesis
      proof (cases r)
        case (Inl e)
        then have "t = rollback s u" using run u ht unfolding eq transaction_def by auto
        then show ?thesis using rollback_grows [of s u en] ticks by simp
      next
        case (Inr x)
        then have t: "t = u" "res = Inr ()" using run u ht unfolding eq transaction_def by auto
        obtain tr where "completed (xi_execution_id xi) (hooks_of hs) tests ?id s t tr"
          using suite_run_row [OF assms(1) Some ht run] t(2) by auto
        then obtain row where row: "rn_suite_runs t = rn_suite_runs s @ [(?id, row)]" "tr_status row \<noteq> ''running''"
          unfolding completed_def run_row_def by (auto split: if_splits)
        show ?thesis
          using row ticks run_grows_trans [OF s1 u_grows] by (auto simp: run_committed_def t(1))
      qed
    qed
  qed
qed

subsection \<open>The polling thread\<close>

text \<open>Starts and stops of the scheduler; the flag tells that every \<open>join\<close> saw its loop end.\<close>

inductive runtime_history :: "bool \<Rightarrow> scheduler_runtime \<Rightarrow> bool" where
  never: "kr_thread k = None \<Longrightarrow> kr_alive k = [] \<Longrightarrow> runtime_history True k"
| boot: "runtime_history ok k \<Longrightarrow> runtime_history ok (bootstrap_scheduler_runtime env k)"
| shut: "runtime_history ok k \<Longrightarrow> runtime_history (ok \<and> joined) (shutdown_scheduler_runtime joined k)"
| ended: "runtime_history ok k \<Longrightarrow> runtime_history ok (loop_ends t k)"

lemma single_loop: "runtime_history ok k \<Longrightarrow> ok \<Longrightarrow> (\<exists>t. kr_alive k = [t] \<and> kr_thread k = Some t) \<or> kr_alive k = []"
proof (induction rule: runtime_history.induct)
  case (boot ok k env)
  then show ?case by (auto simp: bootstrap_scheduler_runtime_def thread_alive_def)
next
  case (shut ok k joined)
  then show ?case by (auto simp: shutdown_scheduler_runtime_def)
next
  case (ended ok k t)
  then show ?case by (auto simp: loop_ends_def)
qed simp

text \<open>A loop that outlives the two seconds of \<open>join\<close> goes on beside the one that is started next.\<close>

lemma two_loops:
  assumes "kr_thread k = None" and "kr_alive k = []"
  defines "j \<equiv> bootstrap_scheduler_runtime None (shutdown_scheduler_runtime False (bootstrap_scheduler_runtime None k))"
  shows "length (kr_alive j) = 2 \<and> \<not> kr_stop j"
proof -
  have "scheduler_enabled None" by code_simp
  then show ?thesis using assms(1,2)
    by (simp add: j_def bootstrap_scheduler_runtime_def shutdown_scheduler_runtime_def thread_alive_def)
qed

end
