(* ===== verification/Schedule_Frame.thy ===== *)
theory Schedule_Frame
  imports Schedule_Facts
begin

section \<open>The steps of the scheduler\<close>

text \<open>
  What every step of the scheduler leaves alone (the locale \<open>eff_frame\<close>), the invariant of its
  state, and what a trigger does in a state of the invariant.
\<close>

subsection \<open>Frames of the state-exception functions\<close>

text \<open>A relation between the states before and after that composes holds across every sequence.\<close>

locale eff_frame =
  fixes R :: "'s \<Rightarrow> 's \<Rightarrow> bool"
  assumes step_refl: "R s s"
    and step_trans: "R s t \<Longrightarrow> R t u \<Longrightarrow> R s u"
begin

definition keeps :: "('s, 'a) eff \<Rightarrow> bool" where
  "keeps m \<longleftrightarrow> (\<forall>s. R s (snd (m s)))"

lemma keepsD: "keeps m \<Longrightarrow> m s = (r, t) \<Longrightarrow> R s t"
  unfolding keeps_def by (metis snd_conv)

lemma keeps_pure: "keeps (ereturn x)" "keeps (elift r)" "keeps (eraise e)" "keeps (eget f)"
  by (simp_all add: keeps_def step_refl)

lemma keeps_emodify: "(\<And>s. R s (f s)) \<Longrightarrow> keeps (emodify f)"
  by (simp add: keeps_def)

lemma keeps_bind:
  assumes "keeps m" and "\<And>x. keeps (f x)"
  shows "keeps (ebind m f)"
  unfolding keeps_def
proof
  fix s
  obtain r t where m: "m s = (r, t)" by fastforce
  then show "R s (snd (ebind m f s))"
    using keepsD [OF assms(1) m] assms(2) step_trans
    by (cases r) (auto simp: ebind_def keeps_def)
qed

lemma keeps_etry:
  assumes "keeps m" and "\<And>e. keeps (h e)"
  shows "keeps (etry m h)"
  unfolding keeps_def
proof
  fix s
  obtain r t where m: "m s = (r, t)" by fastforce
  then show "R s (snd (etry m h s))"
    using keepsD [OF assms(1) m] assms(2) step_trans
    by (cases r) (auto simp: etry_def keeps_def)
qed

lemma keeps_if: "keeps m \<Longrightarrow> keeps n \<Longrightarrow> keeps (if b then m else n)"
  by simp

lemma keeps_option: "keeps m \<Longrightarrow> (\<And>x. keeps (f x)) \<Longrightarrow> keeps (case v of None \<Rightarrow> m | Some x \<Rightarrow> f x)"
  by (cases v) simp_all

lemma keeps_prod: "(\<And>x y. keeps (f x y)) \<Longrightarrow> keeps (case v of (x, y) \<Rightarrow> f x y)"
  by (cases v) simp

lemmas keeps_intros = keeps_pure keeps_bind keeps_etry keeps_if keeps_option keeps_prod

end

abbreviation clock :: "'w scheduler \<Rightarrow> nat" where
  "clock s \<equiv> mc_ticks (rn_machine (sd_runner s))"

text \<open>The scheduler itself only lets the clock advance, and starts threads.\<close>

definition scheduler_frame :: "'w scheduler \<Rightarrow> 'w scheduler \<Rightarrow> bool" where
  "scheduler_frame s t \<longleftrightarrow> clock s \<le> clock t \<and> rn_suites (sd_runner t) = rn_suites (sd_runner s) \<and>
     rn_suite_runs (sd_runner t) = rn_suite_runs (sd_runner s) \<and>
     rn_item_execs (sd_runner t) = rn_item_execs (sd_runner s) \<and>
     (\<exists>ths. sd_threads t = sd_threads s @ ths)"

interpretation frame: eff_frame scheduler_frame
  by unfold_locales (auto simp: scheduler_frame_def)

definition ticked :: "'w scheduler \<Rightarrow> 'w scheduler" where
  "ticked s = s\<lparr>sd_runner := (sd_runner s)\<lparr>rn_machine := (rn_machine (sd_runner s))\<lparr>mc_ticks := Suc (clock s)\<rparr>\<rparr>\<rparr>"

lemma ticked_simps [simp]:
  "sd_schedules (ticked s) = sd_schedules s" "sd_threads (ticked s) = sd_threads s"
  "rn_suites (sd_runner (ticked s)) = rn_suites (sd_runner s)"
  "rn_suite_runs (sd_runner (ticked s)) = rn_suite_runs (sd_runner s)"
  "rn_item_execs (sd_runner (ticked s)) = rn_item_execs (sd_runner s)"
  "clock (ticked s) = Suc (clock s)"
  by (simp_all add: ticked_def)

lemma tick_apply [simp]: "on_runner (on_machine next_tick) s = (Inr (clock s), ticked s)"
  by (simp add: on_runner_def on_machine_def ticked_def)

lemma utc_now_apply [simp]: "utc_now sv s = (Inr (se_now sv (clock s)), ticked s)"
  by (simp add: utc_now_def ebind_def)

lemma update_fields_apply [simp]:
  "update_fields i f s = (Inr (), s\<lparr>sd_schedules := update_row i f (sd_schedules s)\<rparr>)"
  by (simp add: update_fields_def)

definition with_world :: "'w \<Rightarrow> 'w scheduler \<Rightarrow> 'w scheduler" where
  "with_world w s = s\<lparr>sd_runner := (sd_runner s)\<lparr>rn_machine := (rn_machine (sd_runner s))\<lparr>mc_world := w\<rparr>\<rparr>\<rparr>"

lemma with_world_simps [simp]:
  "sd_schedules (with_world w s) = sd_schedules s" "sd_threads (with_world w s) = sd_threads s"
  "rn_suites (sd_runner (with_world w s)) = rn_suites (sd_runner s)"
  "rn_suite_runs (sd_runner (with_world w s)) = rn_suite_runs (sd_runner s)"
  "rn_item_execs (sd_runner (with_world w s)) = rn_item_execs (sd_runner s)"
  "clock (with_world w s) = clock s"
  by (simp_all add: with_world_def)

lemma world_apply [simp]:
  "on_runner (on_machine (on_world m)) s =
     (case m (mc_world (rn_machine (sd_runner s))) of (r, w) \<Rightarrow> (r, with_world w s))"
  by (simp add: on_runner_def on_machine_def on_world_def with_world_def split: prod.splits)

text \<open>The thread a trigger makes, and its start.\<close>

definition thread_of :: "'w schedule_env \<Rightarrow> string \<Rightarrow> pyval \<Rightarrow> pyval \<Rightarrow> string option \<Rightarrow> 'w scheduler \<Rightarrow> suite_thread" where
  "thread_of sv suite ev vs i s = new_suite_thread (en_uid (se_env sv) (clock s)) (Some suite) ev vs i None"

lemma execute_apply:
  "execute_test_suite_by_id sv suite ev vs i s =
     (let th = thread_of sv suite ev vs i s in
      case se_spawn sv th (mc_world (rn_machine (sd_runner s))) of
        (Inl e, w) \<Rightarrow> (Inl e, with_world w (ticked s))
      | (Inr x, w) \<Rightarrow> (Inr (th_execution_id th), (with_world w (ticked s))\<lparr>sd_threads := sd_threads s @ [th]\<rparr>))"
  by (simp add: execute_test_suite_by_id_def ebind_def thread_of_def Let_def ticked_def split: prod.splits sum.splits)

lemma frame_tick: "frame.keeps (on_runner (on_machine next_tick))"
  by (simp add: frame.keeps_def scheduler_frame_def)

lemma frame_now: "frame.keeps (utc_now sv)"
  by (simp add: frame.keeps_def scheduler_frame_def)

lemma frame_update: "frame.keeps (update_fields i f)"
  unfolding update_fields_def by (rule frame.keeps_emodify) (simp add: scheduler_frame_def)

lemma frame_world: "frame.keeps (on_runner (on_machine (on_world m)))"
  by (simp add: frame.keeps_def scheduler_frame_def on_runner_def on_machine_def on_world_def split_def)

lemma frame_threads: "frame.keeps (emodify (\<lambda>s. s\<lparr>sd_threads := sd_threads s @ ths\<rparr>))"
  by (rule frame.keeps_emodify) (simp add: scheduler_frame_def)

lemmas frame_steps = frame.keeps_intros frame_tick frame_now frame_update frame_world frame_threads

lemma frame_refresh: "frame.keeps (refresh_schedules sv rs n)"
proof (induction rs arbitrary: n)
  case (Cons p rs)
  then show ?case by (cases p) (simp only: refresh_schedules.simps, intro frame_steps)
qed (simp add: frame.keeps_pure)

lemma frame_execute: "frame.keeps (execute_test_suite_by_id sv suite ev vars i)"
  unfolding execute_test_suite_by_id_def Let_def by (intro frame_steps)

lemma frame_start: "frame.keeps (start_schedule sv sched now)"
  unfolding start_schedule_def start_failed_def by (intro frame_steps frame_execute)

lemma frame_trigger_found: "frame.keeps (trigger_found sv sched manual now)"
  unfolding trigger_found_def refresh_running_schedule_states_def skip_schedule_def
  by (intro frame_steps frame_refresh frame_start)

lemma frame_session: "frame.keeps body \<Longrightarrow> frame.keeps (schedule_session body)"
  unfolding frame.keeps_def schedule_session_def scheduler_frame_def
  by (auto simp: split_def rollback_def Let_def split: sum.splits prod.splits)

subsection \<open>The invariant\<close>

text \<open>What a stored schedule satisfies: a positive frequency, a window, a next run within it.\<close>

definition schedule_ok :: "schedule_row \<Rightarrow> bool" where
  "schedule_ok r \<longleftrightarrow>
     unit_microseconds (sh_frequency_unit r) \<noteq> 0 \<and> 0 < sh_frequency_value r \<and>
     window_ok (sh_start_at r) (sh_end_at r) \<and>
     (case sh_next_run_at r of None \<Rightarrow> True | Some n \<Rightarrow> sh_active r \<and> in_window (sh_start_at r) (sh_end_at r) n)"

text \<open>The id of an execution that was given out, and is the id of no row.\<close>

definition only_given :: "'w schedule_env \<Rightarrow> 'w runner \<Rightarrow> string \<Rightarrow> bool" where
  "only_given sv s x \<longleftrightarrow> (\<exists>k < mc_ticks (rn_machine s). x = en_uid (se_env sv) k) \<and> x \<notin> fst ` set (rn_suite_runs s)"

definition row_fine :: "'w schedule_env \<Rightarrow> 'w runner \<Rightarrow> schedule_row \<Rightarrow> bool" where
  "row_fine sv s r \<longleftrightarrow> schedule_ok r \<and>
     (case sh_last_execution_id r of None \<Rightarrow> True | Some x \<Rightarrow> only_given sv s x)"

definition scheduler_ok :: "'w schedule_env \<Rightarrow> 'w scheduler \<Rightarrow> bool" where
  "scheduler_ok sv s \<longleftrightarrow>
     (\<forall>n. strip (en_uid (se_env sv) n) = en_uid (se_env sv) n) \<and>
     fresh_runs (se_env sv) (sd_runner s) \<and>
     (\<forall>(i, x) \<in> set (rn_suite_runs (sd_runner s)). tr_status x \<noteq> ''running'') \<and>
     wf_table (sd_schedules s) \<and> (\<forall>(i, r) \<in> set (sd_schedules s). row_fine sv (sd_runner s) r)"

lemma only_given_step:
  assumes "fresh_runs (se_env sv) s" and "run_committed (se_env sv) s t" and "only_given sv s x"
  shows "only_given sv t x"
proof -
  obtain k where k: "k < mc_ticks (rn_machine s)" "x = en_uid (se_env sv) k" and x: "x \<notin> fst ` set (rn_suite_runs s)"
    using assms(3) by (auto simp: only_given_def)
  have le: "mc_ticks (rn_machine s) \<le> mc_ticks (rn_machine t)"
    using assms(2) by (simp add: run_committed_def run_grows_def)
  have inj: "inj (en_uid (se_env sv))" using assms(1) by (simp add: fresh_runs_def)
  have "x \<noteq> en_uid (se_env sv) (mc_ticks (rn_machine s))" using k inj by (auto dest: injD)
  then have "x \<notin> fst ` set (rn_suite_runs t)" using assms(2) x by (auto simp: run_committed_def)
  then show ?thesis using k le unfolding only_given_def by (intro conjI exI [of _ k]) simp_all
qed

lemma row_fine_step:
  "fresh_runs (se_env sv) s \<Longrightarrow> run_committed (se_env sv) s t \<Longrightarrow> row_fine sv s r \<Longrightarrow> row_fine sv t r"
  using only_given_step by (fastforce simp: row_fine_def split: option.splits)

lemma run_committed_fresh:
  "fresh_runs en s \<Longrightarrow> run_committed en s t \<Longrightarrow> fresh_runs en t"
  unfolding run_committed_def by (rule run_grows_fresh) auto

lemma scheduler_ok_step:
  assumes "scheduler_ok sv s" and "run_committed (se_env sv) (sd_runner s) (sd_runner t)"
    and "wf_table (sd_schedules t)" and "\<And>i r. (i, r) \<in> set (sd_schedules t) \<Longrightarrow> row_fine sv (sd_runner t) r"
  shows "scheduler_ok sv t"
  using assms run_committed_fresh [OF _ assms(2)]
  by (auto simp: scheduler_ok_def run_committed_def)

lemma frame_committed: "scheduler_frame s t \<Longrightarrow> run_committed en (sd_runner s) (sd_runner t)"
  by (simp add: scheduler_frame_def run_committed_def run_grows_def)

lemma scheduler_ok_frame:
  assumes "scheduler_ok sv s" and "scheduler_frame s t" and "sd_schedules t = sd_schedules s"
  shows "scheduler_ok sv t"
proof (rule scheduler_ok_step [OF assms(1) frame_committed [OF assms(2)]])
  show "wf_table (sd_schedules t)" using assms(1,3) by (simp add: scheduler_ok_def)
next
  fix i r
  assume "(i, r) \<in> set (sd_schedules t)"
  then have "row_fine sv (sd_runner s) r" using assms(1,3) by (auto simp: scheduler_ok_def)
  then show "row_fine sv (sd_runner t) r"
    using row_fine_step [OF _ frame_committed [OF assms(2)]] assms(1) by (auto simp: scheduler_ok_def)
qed

lemma scheduler_ok_rows: "scheduler_ok sv s \<Longrightarrow> get_by_id i (sd_schedules s) = Some r \<Longrightarrow> row_fine sv (sd_runner s) r"
  unfolding scheduler_ok_def get_by_id_def by (fastforce dest: map_of_SomeD)

lemma scheduler_ok_update:
  assumes "scheduler_ok sv s" and "get_by_id i (sd_schedules s) = Some r" and "row_fine sv (sd_runner s) (f r)"
  shows "scheduler_ok sv (s\<lparr>sd_schedules := update_row i f (sd_schedules s)\<rparr>)"
proof (rule scheduler_ok_step [OF assms(1)])
  show "run_committed (se_env sv) (sd_runner s)
      (sd_runner (s\<lparr>sd_schedules := update_row i f (sd_schedules s)\<rparr>))"
    by (simp add: run_committed_def run_grows_def)
  have wf: "wf_table (sd_schedules s)" using assms(1) by (simp add: scheduler_ok_def)
  then show "wf_table (sd_schedules (s\<lparr>sd_schedules := update_row i f (sd_schedules s)\<rparr>))"
    by (simp add: wf_table_def)
  fix j q
  assume "(j, q) \<in> set (sd_schedules (s\<lparr>sd_schedules := update_row i f (sd_schedules s)\<rparr>))"
  then obtain p where p: "(j, p) \<in> set (sd_schedules s)" "q = (if j = i then f p else p)"
    by (auto simp: update_row_def)
  have "p = r" if "j = i"
    using p(1) that assms(2) wf by (simp add: get_by_id_def wf_table_def)
  then show "row_fine sv (sd_runner (s\<lparr>sd_schedules := update_row i f (sd_schedules s)\<rparr>)) q"
    using p assms(1,3) by (auto simp: scheduler_ok_def)
qed

subsection \<open>No run is found again\<close>

lemma given_lookup:
  assumes "scheduler_ok sv s" and "(i, r) \<in> set (sd_schedules s)"
  shows "get_by_id (strip (opt_token (sh_last_execution_id r))) (rn_suite_runs (sd_runner s)) = None \<or>
    strip (opt_token (sh_last_execution_id r)) = []"
proof (cases "sh_last_execution_id r")
  case None
  then show ?thesis by (simp add: opt_token_def)
next
  case (Some x)
  have "row_fine sv (sd_runner s) r" using assms by (auto simp: scheduler_ok_def)
  then have x: "only_given sv (sd_runner s) x" using Some by (simp add: row_fine_def)
  then have "strip x = x" using assms(1) by (auto simp: scheduler_ok_def only_given_def)
  then show ?thesis using x Some by (simp add: only_given_def get_by_id_def opt_token_def map_of_eq_None_iff)
qed

lemma refresh_nothing:
  "scheduler_ok sv s \<Longrightarrow> set rs \<subseteq> set (sd_schedules s) \<Longrightarrow> refresh_schedules sv rs n s = (Inr n, s)"
proof (induction rs)
  case (Cons p rs)
  obtain i r where p: "p = (i, r)" by fastforce
  have "(i, r) \<in> set (sd_schedules s)" using Cons.prems(2) p by simp
  from given_lookup [OF Cons.prems(1) this] show ?case
    using Cons by (auto simp: p ebind_def)
qed simp

lemma refresh_idle: "scheduler_ok sv s \<Longrightarrow> refresh_running_schedule_states sv s = (Inr 0, s)"
  by (simp add: refresh_running_schedule_states_def ebind_def refresh_nothing get_running_schedules_def rows_where_def)

lemma never_busy: "scheduler_ok sv s \<Longrightarrow> \<not> has_running_execution suite (rn_suite_runs (sd_runner s))"
  by (auto simp: scheduler_ok_def has_running_execution_def)

subsection \<open>What a trigger does\<close>

lemma session_same [simp]: "s\<lparr>sd_runner := rollback (sd_runner s) (sd_runner s), sd_schedules := sd_schedules s\<rparr> = s"
  by (simp add: rollback_def Let_def)

text \<open>Sessions that raise leave the schedules as they were.\<close>

lemma session_ok:
  assumes "scheduler_ok sv s" and "frame.keeps body" and "schedule_session body s = (r, t)"
    and "\<And>x u. body s = (Inr x, u) \<Longrightarrow> scheduler_ok sv u"
  shows "scheduler_ok sv t"
proof -
  obtain b u where u: "body s = (b, u)" by fastforce
  show ?thesis
  proof (cases b)
    case (Inl e)
    then have t: "sd_schedules t = sd_schedules s" using assms(3) u by (auto simp: schedule_session_def)
    have "scheduler_frame s t" by (rule frame.keepsD [OF frame_session [OF assms(2)] assms(3)])
    then show ?thesis using scheduler_ok_frame [OF assms(1)] t by blast
  qed (use assms(3,4) u in \<open>auto simp: schedule_session_def\<close>)
qed

definition started_row :: "datetime option \<Rightarrow> datetime \<Rightarrow> string \<Rightarrow> schedule_row \<Rightarrow> schedule_row" where
  "started_row nxt now x r = r\<lparr>sh_next_run_at := nxt, sh_last_run_at := Some now, sh_last_status := ''running'',
     sh_last_execution_id := Some x, sh_last_error_message := None, sh_updated_at := now\<rparr>"

definition expired_row :: "datetime \<Rightarrow> schedule_row \<Rightarrow> schedule_row" where
  "expired_row now r = r\<lparr>sh_active := False, sh_next_run_at := None, sh_last_status := ''idle'', sh_updated_at := now\<rparr>"

definition next_after_start :: "schedule_row \<Rightarrow> datetime \<Rightarrow> datetime option result" where
  "next_after_start r now = (if sh_active r then schedule_next r now else Inr None)"

lemma start_failed_raises: "\<exists>e' t. start_failed sched now e s = (Inl e', t)"
  by (cases "sh_active (snd sched)"; cases "schedule_next (snd sched) now") (simp_all add: start_failed_def ebind_def)

text \<open>A trigger that started the suite: one more thread, and the row of the schedule updated.\<close>

definition started_by ::
  "'w schedule_env \<Rightarrow> string \<Rightarrow> schedule_row \<Rightarrow> datetime \<Rightarrow> 'w scheduler \<Rightarrow> 'w scheduler \<Rightarrow>
     datetime option \<Rightarrow> suite_thread \<Rightarrow> bool" where
  "started_by sv i r now s t nxt th \<longleftrightarrow>
     next_after_start r now = Inr nxt \<and> sd_threads t = sd_threads s @ [th] \<and>
     th_test_suite_id th = strip (sh_test_suite_id r) \<and> th_run_event th = build_schedule_event (i, r) \<and>
     th_execution_id th = en_uid (se_env sv) (clock s) \<and>
     sd_schedules t = update_row i (started_row nxt now (en_uid (se_env sv) (clock s))) (sd_schedules s) \<and>
     clock s < clock t \<and> scheduler_frame s t"

lemma start_schedule_Inr:
  assumes "start_schedule sv (i, r) now s = (Inr x, t)"
  shows "\<exists>nxt th. started_by sv i r now s t nxt th \<and>
    x = trigger_result_of (i, r) ''started'' (Some (en_uid (se_env sv) (clock s))) ''Scheduled execution started.''"
proof -
  define th where "th = thread_of sv (sh_test_suite_id r) (build_schedule_event (i, r)) PNone None s"
  obtain sp w where sp: "se_spawn sv th (mc_world (rn_machine (sd_runner s))) = (sp, w)" by fastforce
  show ?thesis
  proof (cases sp)
    case (Inl e)
    obtain e' u where "start_failed (i, r) now e (with_world w (ticked s)) = (Inl e' :: string result, u)"
      using start_failed_raises by metis
    then have "start_schedule sv (i, r) now s = (Inl e', u)"
      using sp Inl by (simp add: start_schedule_def ebind_def etry_def execute_apply th_def Let_def)
    then show ?thesis using assms by simp
  next
    case (Inr un)
    let ?t = "(with_world w (ticked s))\<lparr>sd_threads := sd_threads s @ [th]\<rparr>"
    have "start_schedule sv (i, r) now s = (case next_after_start r now of Inl e \<Rightarrow> (Inl e, ?t)
      | Inr nxt \<Rightarrow> (Inr (trigger_result_of (i, r) ''started'' (Some (th_execution_id th)) ''Scheduled execution started.''),
         ?t\<lparr>sd_schedules := update_row i (started_row nxt now (th_execution_id th)) (sd_schedules s)\<rparr>))"
      using Inr sp
      by (simp add: start_schedule_def ebind_def etry_def execute_apply th_def Let_def next_after_start_def
          started_row_def [abs_def] split: sum.splits)
    then obtain nxt where "next_after_start r now = Inr nxt"
        "t = ?t\<lparr>sd_schedules := update_row i (started_row nxt now (th_execution_id th)) (sd_schedules s)\<rparr>"
        "x = trigger_result_of (i, r) ''started'' (Some (th_execution_id th)) ''Scheduled execution started.''"
      using assms by (cases "next_after_start r now") auto
    moreover have "scheduler_frame s t" by (rule frame.keepsD [OF frame_start assms])
    ultimately show ?thesis
      by (intro exI [of _ nxt] exI [of _ th])
        (simp add: started_by_def th_def thread_of_def new_suite_thread_def opt_token_def)
  qed
qed

text \<open>A schedule that was found, in a state of the invariant: nothing is refreshed, nothing is skipped.\<close>

lemma trigger_found_eq:
  assumes "scheduler_ok sv s"
  shows "trigger_found sv (i, r) manual now s =
    (if \<not> manual \<and> \<not> sh_active r
     then (Inr (trigger_result_of (i, r) ''inactive'' None ''Schedule is inactive.''), s)
     else if \<not> manual \<and> before_start r now
     then (Inr (trigger_result_of (i, r) ''not_due'' None ''Schedule is not within the active window yet.''), s)
     else if \<not> manual \<and> after_end r now
     then (Inr (trigger_result_of (i, r) ''expired'' None ''Schedule validity window has ended.''),
           s\<lparr>sd_schedules := update_row i (expired_row now) (sd_schedules s)\<rparr>)
     else start_schedule sv (i, r) now s)"
  using never_busy [OF assms] refresh_idle [OF assms]
  by (simp add: trigger_found_def ebind_def expired_row_def [abs_def])

lemma trigger_schedule_eq:
  assumes "get_by_id i (sd_schedules s) = Some r"
    and "get_by_id (sh_test_suite_id r) (rn_suites (sd_runner s)) = Some su"
  shows "trigger_schedule sv i manual (Some now) s = schedule_session (trigger_found sv (i, r) manual now) s"
  using assms by (simp add: trigger_schedule_def ebind_def schedule_session_def)

lemma trigger_missing:
  assumes "get_by_id i (sd_schedules s) = None \<or>
    (\<exists>r. get_by_id i (sd_schedules s) = Some r \<and> get_by_id (sh_test_suite_id r) (rn_suites (sd_runner s)) = None)"
  shows "\<exists>e. trigger_schedule sv i manual (Some now) s = (Inl e, s)"
  using assms by (auto simp: trigger_schedule_def ebind_def schedule_session_def)

lemma trigger_now: "trigger_schedule sv i manual None s = trigger_schedule sv i manual (Some (se_now sv (clock s))) (ticked s)"
  by (simp add: trigger_schedule_def ebind_def)

lemma next_after_start_ok:
  assumes "schedule_ok r" and "next_after_start r now = Inr nxt"
  shows "case nxt of None \<Rightarrow> True | Some t \<Rightarrow> sh_active r \<and> now < t \<and> in_window (sh_start_at r) (sh_end_at r) t"
  using assms(2) computed_next [of "sh_active r" "sh_frequency_unit r" "sh_frequency_value r" "sh_start_at r"
      "sh_end_at r" now "Some now" nxt]
  by (auto simp: next_after_start_def schedule_next_def split: if_splits option.splits)

lemma started_row_fine:
  assumes "row_fine sv u r" and "next_after_start r now = Inr nxt" and "only_given sv u x"
  shows "row_fine sv u (started_row nxt now x r)"
  using assms next_after_start_ok [of r now nxt]
  by (auto simp: row_fine_def schedule_ok_def started_row_def split: option.splits)

lemma expired_row_fine: "row_fine sv u r \<Longrightarrow> row_fine sv u (expired_row now r)"
  by (simp add: row_fine_def schedule_ok_def expired_row_def)

lemma start_schedule_ok:
  assumes "scheduler_ok sv s" and "get_by_id i (sd_schedules s) = Some r"
    and "start_schedule sv (i, r) now s = (Inr x, t)"
  shows "scheduler_ok sv t"
proof -
  obtain nxt th where st: "next_after_start r now = Inr nxt"
      "sd_schedules t = update_row i (started_row nxt now (en_uid (se_env sv) (clock s))) (sd_schedules s)"
      "clock s < clock t" "scheduler_frame s t"
    using start_schedule_Inr [OF assms(3)] unfolding started_by_def by blast
  define u where "u = t\<lparr>sd_schedules := sd_schedules s\<rparr>"
  have u: "scheduler_ok sv u"
    by (rule scheduler_ok_frame [OF assms(1)]) (use st(4) in \<open>simp_all add: u_def scheduler_frame_def\<close>)
  have "en_uid (se_env sv) (clock s) \<notin> fst ` set (rn_suite_runs (sd_runner s))"
    using assms(1) by (simp add: scheduler_ok_def fresh_runs_def)
  then have "only_given sv (sd_runner u) (en_uid (se_env sv) (clock s))"
    using st(3,4) by (auto simp: only_given_def u_def scheduler_frame_def)
  moreover have "get_by_id i (sd_schedules u) = Some r" using assms(2) by (simp add: u_def)
  ultimately have "scheduler_ok sv (u\<lparr>sd_schedules := update_row i (started_row nxt now (en_uid (se_env sv) (clock s))) (sd_schedules u)\<rparr>)"
    using u scheduler_ok_rows started_row_fine st(1) by (intro scheduler_ok_update) blast+
  moreover have "u\<lparr>sd_schedules := update_row i (started_row nxt now (en_uid (se_env sv) (clock s))) (sd_schedules u)\<rparr> = t"
    by (simp add: u_def st(2))
  ultimately show ?thesis by simp
qed

lemma trigger_found_ok:
  assumes "scheduler_ok sv s" and "get_by_id i (sd_schedules s) = Some r"
    and "trigger_found sv (i, r) manual now s = (Inr x, t)"
  shows "scheduler_ok sv t"
  using assms(3) start_schedule_ok [OF assms(1,2)]
    scheduler_ok_update [where f = "expired_row now", OF assms(1,2) expired_row_fine [OF scheduler_ok_rows [OF assms(1,2)]]] assms(1)
  unfolding trigger_found_eq [OF assms(1)] by (auto split: if_splits)

lemma trigger_some_ok:
  assumes "scheduler_ok sv s" and "trigger_schedule sv i manual (Some now) s = (r, t)"
  shows "scheduler_ok sv t"
proof (cases "\<exists>q su. get_by_id i (sd_schedules s) = Some q \<and> get_by_id (sh_test_suite_id q) (rn_suites (sd_runner s)) = Some su")
  case True
  then obtain q su where q: "get_by_id i (sd_schedules s) = Some q"
      "get_by_id (sh_test_suite_id q) (rn_suites (sd_runner s)) = Some su" by blast
  show ?thesis
    using assms(2) trigger_found_ok [OF assms(1) q(1)] session_ok [OF assms(1) frame_trigger_found]
    unfolding trigger_schedule_eq [OF q] by blast
next
  case False
  then have "\<exists>e. trigger_schedule sv i manual (Some now) s = (Inl e, s)"
    by (intro trigger_missing) (metis not_None_eq)
  then show ?thesis using assms by auto
qed

lemma ticked_ok: "scheduler_ok sv s \<Longrightarrow> scheduler_ok sv (ticked s)"
  by (rule scheduler_ok_frame) (simp_all add: scheduler_frame_def)

lemma trigger_ok: "scheduler_ok sv s \<Longrightarrow> trigger_schedule sv i manual now s = (r, t) \<Longrightarrow> scheduler_ok sv t"
  by (cases now) (auto simp: trigger_now intro: trigger_some_ok ticked_ok)

lemma sync_idle: "scheduler_ok sv s \<Longrightarrow> sync_schedule_execution_states sv s = (Inr 0, s)"
  by (simp add: sync_schedule_execution_states_def schedule_session_def refresh_idle)

lemma trigger_all_ok: "scheduler_ok sv s \<Longrightarrow> trigger_all sv now is s = (r, t) \<Longrightarrow> scheduler_ok sv t"
proof (induction "is" arbitrary: s r t)
  case (Cons i "is")
  obtain x u where u: "trigger_schedule sv i False (Some now) s = (x, u)" by fastforce
  have ok: "scheduler_ok sv u" by (rule trigger_some_ok [OF Cons.prems(1) u])
  obtain y v where v: "trigger_all sv now is u = (y, v)" by fastforce
  show ?case
    using Cons.prems(2) u v ok Cons.IH [OF ok v] by (cases x; cases y; simp add: ebind_def)
qed simp

lemma process_some_eq:
  "scheduler_ok sv s \<Longrightarrow> process_due_schedules sv (Some now) s =
     trigger_all sv now (map fst (get_due_schedules now (sd_schedules s))) s"
  by (simp add: process_due_schedules_def ebind_def sync_idle)

lemma process_now:
  "process_due_schedules sv None s = process_due_schedules sv (Some (se_now sv (clock s))) (ticked s)"
  by (simp add: process_due_schedules_def ebind_def)

lemma process_ok:
  "scheduler_ok sv s \<Longrightarrow> process_due_schedules sv now s = (r, t) \<Longrightarrow> scheduler_ok sv t"
  by (cases now) (auto simp: process_now process_some_eq ticked_ok intro: trigger_all_ok ticked_ok)

end
