(* ===== verification/Schedule_History.thy ===== *)
theory Schedule_History
  imports Schedule_Frame
begin

section \<open>Histories of the scheduler\<close>

text \<open>
  The requests to the API, the passes of the scheduler and the runs of the started suites, in any
  order, as an inductive relation; the table of schedules stays valid, no schedule ever learns how
  its run ended, and no start is ever skipped.
\<close>

subsection \<open>Requests\<close>

lemma scheduler_ok_rows_step:
  assumes "scheduler_ok sv s" and "scheduler_frame s t" and "wf_table (sd_schedules t)"
    and "\<And>i r. (i, r) \<in> set (sd_schedules t) \<Longrightarrow> (i, r) \<in> set (sd_schedules s) \<or> row_fine sv (sd_runner s) r"
  shows "scheduler_ok sv t"
proof (rule scheduler_ok_step [OF assms(1) frame_committed [OF assms(2)] assms(3)])
  fix i r
  assume "(i, r) \<in> set (sd_schedules t)"
  then have "row_fine sv (sd_runner s) r" using assms(1,4) unfolding scheduler_ok_def by blast
  then show "row_fine sv (sd_runner t) r"
    using row_fine_step [OF _ frame_committed [OF assms(2)]] assms(1) by (simp add: scheduler_ok_def)
qed

definition dto_ok :: "'a schedule_dto_scheme \<Rightarrow> bool" where
  "dto_ok dto \<longleftrightarrow> 0 < sq_frequency_value dto \<and> window_ok (sq_start_at dto) (sq_end_at dto)"

lemma validate_schedule_ok: "validate_schedule d = Inr dto \<Longrightarrow> dto_ok dto"
  by (auto simp: validate_schedule_def dto_ok_def Let_def rbind_Inr_iff guard_def split: if_splits)

lemma validate_update_ok: "validate_update_schedule d = Inr dto \<Longrightarrow> dto_ok dto"
  by (auto simp: validate_update_schedule_def rbind_Inr_iff guard_def dest!: validate_schedule_ok
      split: if_splits) (simp add: dto_ok_def)

lemma next_of_dto_ok:
  assumes "next_of_dto dto now = Inr nxt"
  shows "case nxt of None \<Rightarrow> True | Some t \<Rightarrow> sq_active dto \<and> in_window (sq_start_at dto) (sq_end_at dto) t"
  using computed_next [of "sq_active dto" "frequency_text (sq_frequency_unit dto)" "sq_frequency_value dto"
      "sq_start_at dto" "sq_end_at dto" now None nxt] assms
  by (auto simp: next_of_dto_def split: option.splits)

lemma require_suite_apply:
  "require_suite suite s =
     (if get_by_id suite (rn_suites (sd_runner s)) = None then (Inl (suite_missing suite), s) else (Inr (), s))"
  by (simp add: require_suite_def ebind_def)

lemma require_schedule_apply:
  "require_schedule i s =
     (case get_by_id i (sd_schedules s) of None \<Rightarrow> (Inl (no_schedule i), s) | Some r \<Rightarrow> (Inr r, s))"
  by (simp add: require_schedule_def ebind_def split: option.split)

lemma response_state: "snd (schedule_response sv i s) = s"
  by (simp add: schedule_response_def ebind_def split: option.split)

lemma frame_require: "frame.keeps (require_suite i)" "frame.keeps (require_schedule i)" "frame.keeps (schedule_response sv i)"
  by (simp_all add: frame.keeps_def require_suite_apply require_schedule_apply response_state
      scheduler_frame_def split: option.split)

lemma response_same: "schedule_response sv i s = (r, t) \<Longrightarrow> t = s"
  by (metis response_state snd_conv)

lemmas request_simps = ebind_def require_suite_apply require_schedule_apply

lemma insert_ok:
  assumes "scheduler_ok sv s" and "dto_ok dto" and "insert_test_suite_schedule_api sv dto s = (r, t)"
  shows "scheduler_ok sv t"
proof -
  let ?add = "\<lambda>n nxt created s. case insert_row (en_uid (se_env sv) n) (build_schedule_entity dto nxt created) (sd_schedules s) of
      Inl e \<Rightarrow> (Inl e, s) | Inr t \<Rightarrow> schedule_response sv (en_uid (se_env sv) n) (s\<lparr>sd_schedules := t\<rparr>)"
  have add: "frame.keeps (?add n nxt created)" for n nxt created
    by (simp add: frame.keeps_def response_state scheduler_frame_def split: sum.splits)
  show ?thesis
  proof (rule session_ok [OF assms(1) _ assms(3) [unfolded insert_test_suite_schedule_api_def]])
    show "frame.keeps (ebind (require_suite (sq_test_suite_id dto)) (\<lambda>_.
        ebind (utc_now sv) (\<lambda>now. ebind (elift (next_of_dto dto now)) (\<lambda>nxt.
        ebind (on_runner (on_machine next_tick)) (\<lambda>n. ebind (utc_now sv) (\<lambda>created. ?add n nxt created))))))"
      by (intro frame_steps frame_require add)
  next
    fix x u
    assume "ebind (require_suite (sq_test_suite_id dto)) (\<lambda>_.
        ebind (utc_now sv) (\<lambda>now. ebind (elift (next_of_dto dto now)) (\<lambda>nxt.
        ebind (on_runner (on_machine next_tick)) (\<lambda>n. ebind (utc_now sv) (\<lambda>created. ?add n nxt created))))) s = (Inr x, u)"
    then obtain i now nxt created t where n: "next_of_dto dto now = Inr nxt"
        and t: "insert_row i (build_schedule_entity dto nxt created) (sd_schedules s) = Inr t"
        and u: "u = (ticked (ticked (ticked s)))\<lparr>sd_schedules := t\<rparr>"
      by (auto simp: request_simps split: if_splits sum.splits dest!: response_same)
    have fine: "row_fine sv (sd_runner s) (build_schedule_entity dto nxt created)"
      using assms(2) next_of_dto_ok [OF n]
      by (auto simp: row_fine_def schedule_ok_def build_schedule_entity_def dto_ok_def split: option.splits)
    show "scheduler_ok sv u"
    proof (rule scheduler_ok_rows_step [OF assms(1)])
      show "scheduler_frame s u" by (simp add: u scheduler_frame_def)
      show "wf_table (sd_schedules u)"
        using t assms(1) by (simp add: u insert_row_Inr wf_table_def scheduler_ok_def)
    qed (use t fine in \<open>auto simp: u insert_row_Inr\<close>)
  qed
qed

text \<open>A request that finds a schedule and rewrites its row.\<close>

lemma rewrite_ok:
  assumes "scheduler_ok sv s" and "frame.keeps body" and "schedule_session body s = (r, t)"
    and "\<And>x u. body s = (Inr x, u) \<Longrightarrow> \<exists>q f. get_by_id i (sd_schedules s) = Some q \<and>
      row_fine sv (sd_runner s) (f q) \<and> sd_schedules u = update_row i f (sd_schedules s)"
  shows "scheduler_ok sv t"
proof (rule session_ok [OF assms(1-3)])
  fix x u
  assume u: "body s = (Inr x, u)"
  then obtain q f where q: "get_by_id i (sd_schedules s) = Some q" "row_fine sv (sd_runner s) (f q)"
      "sd_schedules u = update_row i f (sd_schedules s)" using assms(4) by blast
  let ?v = "s\<lparr>sd_schedules := update_row i f (sd_schedules s)\<rparr>"
  have "scheduler_ok sv ?v" using scheduler_ok_update [OF assms(1) q(1), of f] q(2) by blast
  moreover have "scheduler_frame ?v u"
    using frame.keepsD [OF assms(2) u] by (simp add: scheduler_frame_def)
  ultimately show "scheduler_ok sv u" by (rule scheduler_ok_frame) (simp add: q(3))
qed

lemma update_ok:
  assumes "scheduler_ok sv s" and "dto_ok dto" and "update_test_suite_schedule_api sv dto s = (r, t)"
  shows "scheduler_ok sv t"
proof (rule rewrite_ok [OF assms(1) _ assms(3) [unfolded update_test_suite_schedule_api_def], of "sq_id dto"], goal_cases)
  case 1
  show ?case by (intro frame_steps frame_require)
next
  case (2 x u)
  let ?f = "\<lambda>nxt updated r. r\<lparr>sh_test_suite_id := sq_test_suite_id dto,
        sh_description := sq_description dto, sh_active := sq_active dto,
        sh_frequency_unit := frequency_text (sq_frequency_unit dto),
        sh_frequency_value := sq_frequency_value dto, sh_start_at := sq_start_at dto,
        sh_end_at := sq_end_at dto, sh_next_run_at := nxt, sh_updated_at := updated\<rparr>"
  obtain q now nxt updated where q: "get_by_id (sq_id dto) (sd_schedules s) = Some q"
      "next_of_dto dto now = Inr nxt"
      and u: "sd_schedules u = update_row (sq_id dto) (?f nxt updated) (sd_schedules s)"
    using 2
    by (auto simp: request_simps split: if_splits sum.splits option.splits dest!: response_same)
  have "row_fine sv (sd_runner s) (?f nxt updated q)"
    using scheduler_ok_rows [OF assms(1) q(1)] assms(2) next_of_dto_ok [OF q(2)]
    by (auto simp: row_fine_def schedule_ok_def dto_ok_def split: option.splits)
  then show ?case using q(1) u by (intro exI [of _ q] exI [of _ "?f nxt updated"]) simp
qed

lemma activate_ok:
  assumes "scheduler_ok sv s" and "activate_test_suite_schedule_api sv i s = (r, t)"
  shows "scheduler_ok sv t"
proof (rule rewrite_ok [OF assms(1) _ assms(2) [unfolded activate_test_suite_schedule_api_def], of i], goal_cases)
  case 1
  show ?case by (intro frame_steps frame_require)
next
  case (2 x u)
  then obtain q now nxt updated where q: "get_by_id i (sd_schedules s) = Some q"
      "compute_next_run_at True (sh_frequency_unit q) (sh_frequency_value q) (sh_start_at q) (sh_end_at q) now None = Inr nxt"
      and u: "sd_schedules u = update_row i (\<lambda>r. r\<lparr>sh_active := True, sh_next_run_at := nxt, sh_updated_at := updated\<rparr>)
        (sd_schedules s)"
    by (auto simp: request_simps split: if_splits sum.splits option.splits dest!: response_same)
  have "row_fine sv (sd_runner s) (q\<lparr>sh_active := True, sh_next_run_at := nxt, sh_updated_at := updated\<rparr>)"
    using scheduler_ok_rows [OF assms(1) q(1)] computed_next [OF q(2)]
    by (auto simp: row_fine_def schedule_ok_def split: option.splits)
  then show ?case using q(1) u
    by (intro exI [of _ q]
        exI [of _ "\<lambda>r. r\<lparr>sh_active := True, sh_next_run_at := nxt, sh_updated_at := updated\<rparr>"]) simp
qed

lemma deactivate_ok:
  assumes "scheduler_ok sv s" and "deactivate_test_suite_schedule_api sv i s = (r, t)"
  shows "scheduler_ok sv t"
proof (rule rewrite_ok [OF assms(1) _ assms(2) [unfolded deactivate_test_suite_schedule_api_def], of i], goal_cases)
  case 1
  show ?case by (intro frame_steps frame_require)
next
  case (2 x u)
  then obtain q updated where q: "get_by_id i (sd_schedules s) = Some q"
      and u: "sd_schedules u = update_row i (\<lambda>r. r\<lparr>sh_active := False, sh_next_run_at := None, sh_updated_at := updated\<rparr>)
        (sd_schedules s)"
    by (auto simp: request_simps split: if_splits sum.splits option.splits dest!: response_same)
  have "row_fine sv (sd_runner s) (q\<lparr>sh_active := False, sh_next_run_at := None, sh_updated_at := updated\<rparr>)"
    using scheduler_ok_rows [OF assms(1) q] by (simp add: row_fine_def schedule_ok_def)
  then show ?case using q u
    by (intro exI [of _ q]
        exI [of _ "\<lambda>r. r\<lparr>sh_active := False, sh_next_run_at := None, sh_updated_at := updated\<rparr>"]) simp
qed

lemma delete_ok:
  assumes "scheduler_ok sv s" and "delete_test_suite_schedule_api i s = (r, t)"
  shows "scheduler_ok sv t"
proof (rule scheduler_ok_rows_step [OF assms(1)])
  have t: "t = s \<or> t = s\<lparr>sd_schedules := snd (delete_by_id i (sd_schedules s))\<rparr>"
    using assms(2) by (auto simp: delete_test_suite_schedule_api_def schedule_session_def split: prod.splits if_splits sum.splits)
  have wf: "wf_table (sd_schedules s)" using assms(1) by (simp add: scheduler_ok_def)
  show "scheduler_frame s t" using t by (auto simp: scheduler_frame_def)
  show "wf_table (sd_schedules t)" using t wf wf_table_filter by (auto simp: delete_by_id_def split: option.splits)
  show "(j, q) \<in> set (sd_schedules t) \<Longrightarrow> (j, q) \<in> set (sd_schedules s) \<or> row_fine sv (sd_runner s) q" for j q
    using t by (auto simp: delete_by_id_def split: option.splits)
qed

lemma committed_ok:
  assumes "scheduler_ok sv s" and "run_committed (se_env sv) (sd_runner s) u"
  shows "scheduler_ok sv (s\<lparr>sd_runner := u, sd_threads := ths\<rparr>)"
proof (rule scheduler_ok_step [OF assms(1)])
  fix i r
  assume "(i, r) \<in> set (sd_schedules (s\<lparr>sd_runner := u, sd_threads := ths\<rparr>))"
  then show "row_fine sv (sd_runner (s\<lparr>sd_runner := u, sd_threads := ths\<rparr>)) r"
    using assms row_fine_step by (fastforce simp: scheduler_ok_def)
qed (use assms in \<open>simp_all add: scheduler_ok_def\<close>)

lemma run_thread_committed:
  assumes "fresh_runs en s" and "run_thread en th s = (r, t)"
  shows "run_committed en s t"
  using assms execute_suite_committed [OF assms(1)]
  by (auto simp: run_thread_def ebind_def run_committed_def run_grows_def split: option.splits)

subsection \<open>Histories\<close>

inductive schedule_history :: "'w schedule_env \<Rightarrow> 'w scheduler \<Rightarrow> bool" for sv where
  initially: "scheduler_ok sv s \<Longrightarrow> sd_schedules s = [] \<Longrightarrow> sd_threads s = [] \<Longrightarrow> schedule_history sv s"
| inserted: "schedule_history sv s \<Longrightarrow> validate_schedule d = Inr dto \<Longrightarrow>
    insert_test_suite_schedule_api sv dto s = (r, t) \<Longrightarrow> schedule_history sv t"
| updated: "schedule_history sv s \<Longrightarrow> validate_update_schedule d = Inr dto' \<Longrightarrow>
    update_test_suite_schedule_api sv dto' s = (r, t) \<Longrightarrow> schedule_history sv t"
| deleted: "schedule_history sv s \<Longrightarrow> delete_test_suite_schedule_api i s = (r', t) \<Longrightarrow> schedule_history sv t"
| activated: "schedule_history sv s \<Longrightarrow> activate_test_suite_schedule_api sv i s = (r, t) \<Longrightarrow> schedule_history sv t"
| deactivated: "schedule_history sv s \<Longrightarrow> deactivate_test_suite_schedule_api sv i s = (r, t) \<Longrightarrow> schedule_history sv t"
| triggered: "schedule_history sv s \<Longrightarrow> trigger_schedule sv i manual now s = (r'', t) \<Longrightarrow> schedule_history sv t"
| processed: "schedule_history sv s \<Longrightarrow> process_due_schedules sv now s = (rs, t) \<Longrightarrow> schedule_history sv t"
| ran: "schedule_history sv s \<Longrightarrow> th \<in> set (sd_threads s) \<Longrightarrow> run_thread (se_env sv) th (sd_runner s) = (un, u) \<Longrightarrow>
    schedule_history sv (s\<lparr>sd_runner := u, sd_threads := remove1 th (sd_threads s)\<rparr>)"

lemma schedule_history_ok: "schedule_history sv s \<Longrightarrow> scheduler_ok sv s"
proof (induction rule: schedule_history.induct)
  case (inserted s d dto r t)
  then show ?case using insert_ok validate_schedule_ok by blast
next
  case (updated s d dto' r t)
  then show ?case using update_ok validate_update_ok by blast
next
  case (ran s th un u)
  then show ?case using committed_ok run_thread_committed by (metis scheduler_ok_def)
qed (auto intro: delete_ok activate_ok deactivate_ok trigger_ok process_ok)

text \<open>
  C15. In every history of the scheduler (requests, triggers, passes, runs of the started suites)
  every stored schedule has a frequency unit the code knows, a positive frequency, a start before
  its end, and a next run only while it is active and then within its window; ids are unique.
\<close>

theorem schedules_stay_valid:
  assumes "schedule_history sv s"
  shows "wf_table (sd_schedules s) \<and> (\<forall>(i, r) \<in> set (sd_schedules s). schedule_ok r)"
  using schedule_history_ok [OF assms] by (auto simp: scheduler_ok_def row_fine_def)

text \<open>
  C10. The scheduler never notices a run. Since a run is one transaction, no other session sees its
  row in status running, so a trigger never skips a suite that is running. Since the id that the
  scheduler stores is the id of the event stream and not of the row, no schedule ever takes over
  the outcome of its run: a refresh changes nothing.
\<close>

theorem finished_runs_unnoticed:
  assumes "schedule_history sv s"
  shows "sync_schedule_execution_states sv s = (Inr 0, s) \<and>
    (case trigger_schedule sv i manual now s of (Inl e, t) \<Rightarrow> True | (Inr x, t) \<Rightarrow> tx_status x \<noteq> ''skipped'')"
proof -
  have ok: "scheduler_ok sv s" by (rule schedule_history_ok [OF assms])
  have some: "tx_status x \<noteq> ''skipped''"
    if "scheduler_ok sv s" "trigger_schedule sv i manual (Some n) s = (Inr x, t)" for s n x t
  proof (cases "\<exists>q su. get_by_id i (sd_schedules s) = Some q \<and> get_by_id (sh_test_suite_id q) (rn_suites (sd_runner s)) = Some su")
    case True
    then obtain q su where q: "get_by_id i (sd_schedules s) = Some q"
        "get_by_id (sh_test_suite_id q) (rn_suites (sd_runner s)) = Some su" by blast
    have "\<exists>t. trigger_found sv (i, q) manual n s = (Inr x, t)"
      using that(2) unfolding trigger_schedule_eq [OF q] schedule_session_def by (auto split: prod.splits sum.splits)
    then show ?thesis unfolding trigger_found_eq [OF that(1)]
      by (auto simp: trigger_result_of_def dest!: start_schedule_Inr split: if_splits)
  next
    case False
    then have "\<exists>e. trigger_schedule sv i manual (Some n) s = (Inl e, s)"
      by (intro trigger_missing) (metis not_None_eq)
    then show ?thesis using that(2) by auto
  qed
  have "tx_status x \<noteq> ''skipped''" if "trigger_schedule sv i manual now s = (Inr x, t)" for x t
  proof (cases now)
    case None
    show ?thesis using some [OF ticked_ok [OF ok]] that unfolding None trigger_now by blast
  next
    case (Some n)
    show ?thesis using some [OF ok] that unfolding Some by blast
  qed
  then show ?thesis using sync_idle [OF ok] by (auto split: prod.splits sum.splits)
qed

subsection \<open>Concrete histories\<close>

text \<open>A clock that stands at 0 when the schedule is stored and at 10 afterwards.\<close>

definition demo_schedule_env :: "nat schedule_env" where
  "demo_schedule_env =
     \<lparr>se_env = example_env, se_now = (\<lambda>n. if n = 0 then 0 else 10), se_spawn = (\<lambda>th w. (Inr (), w)),
      se_iso = (\<lambda>t. show_int t)\<rparr>"

definition demo_dto :: "schedule_frequency_unit \<Rightarrow> int \<Rightarrow> schedule_dto" where
  "demo_dto u n = \<lparr>sq_test_suite_id = ''su'', sq_description = None, sq_active = True, sq_frequency_unit = u,
     sq_frequency_value = n, sq_start_at = Some 10, sq_end_at = None\<rparr>"

definition demo_scheduler :: "nat scheduler" where
  "demo_scheduler = \<lparr>sd_runner = example_runner, sd_schedules = [], sd_threads = []\<rparr>"

definition demo_stored :: "schedule_frequency_unit \<Rightarrow> int \<Rightarrow> nat scheduler" where
  "demo_stored u n = snd (insert_test_suite_schedule_api demo_schedule_env (demo_dto u n\<lparr>sq_description := Some []\<rparr>) demo_scheduler)"

lemma demo_history: "0 < n \<Longrightarrow> schedule_history demo_schedule_env (demo_stored u n)"
proof -
  assume n: "0 < n"
  have "strip (replicate (Suc k) (CHR ''i'')) = replicate (Suc k) (CHR ''i'')" for k
    by (rule strip_id) (simp add: is_ws_def code_of_def)
  then have "scheduler_ok demo_schedule_env demo_scheduler"
    using example_runner_fresh
    by (simp add: scheduler_ok_def demo_schedule_env_def demo_scheduler_def example_env_def example_runner_def wf_table_def)
  then have "schedule_history demo_schedule_env demo_scheduler"
    by (rule schedule_history.initially) (simp_all add: demo_scheduler_def)
  moreover have "validate_schedule (demo_dto u n) = Inr (demo_dto u n\<lparr>sq_description := Some []\<rparr>)"
    using n by (simp add: validate_schedule_def demo_dto_def Let_def window_ok_def guard_def) code_simp
  ultimately show ?thesis
    unfolding demo_stored_def by (rule schedule_history.inserted) (rule prod.collapse [symmetric])
qed

definition demo_row :: "schedule_frequency_unit \<Rightarrow> int \<Rightarrow> schedule_row" where
  "demo_row u n = build_schedule_entity (demo_dto u n\<lparr>sq_description := Some []\<rparr>) (Some 10) 10"

lemma demo_start:
  "rn_suites (sd_runner demo_scheduler) = [(''su'', \<lparr>su_description = []\<rparr>)]" "clock demo_scheduler = 0"
  "sd_threads demo_scheduler = []" "sd_schedules demo_scheduler = []" "en_uid (se_env demo_schedule_env) (Suc 0) = ''ii''"
  by (simp_all add: demo_scheduler_def example_runner_def example_machine_def demo_schedule_env_def example_env_def)

lemma demo_clock: "se_now demo_schedule_env 0 = 0" "0 < k \<Longrightarrow> se_now demo_schedule_env k = 10"
  by (simp_all add: demo_schedule_env_def)

lemma demo_units: "unit_microseconds ''minutes'' = 60000000" "unit_microseconds ''days'' = 86400000000"
  by code_simp+

lemma demo_stored_eq:
  assumes "0 < n" and "n \<le> 4000000"
  shows "demo_stored u n = (ticked (ticked (ticked demo_scheduler)))\<lparr>sd_schedules := [(''ii'', demo_row u n)]\<rparr>"
proof -
  have "unit_microseconds (frequency_text u) \<le> 86400000000" by (simp add: unit_microseconds_def)
  then have "n * unit_microseconds (frequency_text u) \<le> 4000000 * 86400000000"
    using assms unit_microseconds_nonneg [of "frequency_text u"] by (intro mult_mono) auto
  moreover have "0 \<le> n * unit_microseconds (frequency_text u)"
    using assms unit_microseconds_nonneg [of "frequency_text u"] by simp
  ultimately have "frequency_delta (frequency_text u) n = Inr (n * unit_microseconds (frequency_text u))"
    using zdiv_mono1 [of "n * unit_microseconds (frequency_text u)" "4000000 * 86400000000" 86400000000]
    by (simp add: frequency_delta_Inr pos_imp_zdiv_nonneg_iff)
  then have nxt: "next_of_dto (demo_dto u n\<lparr>sq_description := Some []\<rparr>) 0 = Inr (Some 10)"
    using assms by (simp add: next_of_dto_def demo_dto_def compute_next_run_at_def guard_def window_ok_def next_candidate_def)
  show ?thesis
    using nxt
    by (simp add: demo_stored_def insert_test_suite_schedule_api_def schedule_session_def request_simps demo_start
        demo_clock insert_row_def get_by_id_def schedule_response_def demo_row_def)
      (simp add: demo_dto_def)
qed

lemmas demo_rows = demo_stored_eq [of 5 MINUTES] demo_stored_eq [of 4000000 DAYS]

lemma demo_row_fields:
  "sh_test_suite_id (demo_row u n) = ''su''" "sh_next_run_at (demo_row u n) = Some 10" "sh_end_at (demo_row u n) = None"
  "sh_frequency_value (demo_row u n) = n" "sh_frequency_unit (demo_row u n) = frequency_text u" "sh_active (demo_row u n)"
  by (simp_all add: demo_row_def build_schedule_entity_def demo_dto_def)

theorem schedules_stay_valid_witness:
  "schedule_ok (demo_row MINUTES 5)"
  using schedules_stay_valid [OF demo_history [of 5 MINUTES]] by (simp add: demo_rows)

theorem finished_runs_unnoticed_witness:
  "sync_schedule_execution_states demo_schedule_env (demo_stored MINUTES 5) = (Inr 0, demo_stored MINUTES 5)"
  using finished_runs_unnoticed [OF demo_history [of 5 MINUTES]] by simp

end
