(* ===== verification/Schedule_Pass.thy ===== *)
theory Schedule_Pass
  imports Schedule_History
begin

section \<open>Passes over the due schedules\<close>

text \<open>
  A pass serves every due schedule once, unless one of them fails: then it serves none that comes
  later, and neither does any later pass.
\<close>

subsection \<open>A pass over the due schedules\<close>

definition due :: "datetime \<Rightarrow> schedule_row \<Rightarrow> bool" where
  "due now r \<longleftrightarrow> sh_active r \<and> (case sh_next_run_at r of None \<Rightarrow> False | Some n \<Rightarrow> n \<le> now)"

lemma get_due_set: "set (get_due_schedules now t) = {(i, r) \<in> set t. due now r}"
  by (auto simp: get_due_schedules_def rows_where_def due_def)

lemma get_due_distinct: "wf_table t \<Longrightarrow> distinct (map fst (get_due_schedules now t))"
  by (simp add: get_due_schedules_def rows_where_def wf_table_def distinct_map_filter distinct_map inj_on_def)

text \<open>What a pass needs of a schedule: its suite, and dates that do not run past year 9999.\<close>

definition startable :: "'w scheduler \<Rightarrow> datetime \<Rightarrow> schedule_row \<Rightarrow> bool" where
  "startable s now r \<longleftrightarrow> get_by_id (sh_test_suite_id r) (rn_suites (sd_runner s)) \<noteq> None \<and>
     now + sh_frequency_value r * unit_microseconds (sh_frequency_unit r) \<le> max_datetime"

definition spawns :: "'w schedule_env \<Rightarrow> bool" where
  "spawns sv \<longleftrightarrow> (\<forall>th w. fst (se_spawn sv th w) = Inr ())"

lemma start_schedule_run:
  assumes "spawns sv"
  obtains w th where "th_test_suite_id th = strip (sh_test_suite_id r)"
    "start_schedule sv (i, r) now s = (case next_after_start r now of
      Inl e \<Rightarrow> (Inl e, (with_world w (ticked s))\<lparr>sd_threads := sd_threads s @ [th]\<rparr>)
    | Inr nxt \<Rightarrow> (Inr (trigger_result_of (i, r) ''started'' (Some (th_execution_id th)) ''Scheduled execution started.''),
       (with_world w (ticked s))\<lparr>sd_threads := sd_threads s @ [th],
          sd_schedules := update_row i (started_row nxt now (th_execution_id th)) (sd_schedules s)\<rparr>))"
proof -
  define th where "th = thread_of sv (sh_test_suite_id r) (build_schedule_event (i, r)) PNone None s"
  obtain w where w: "se_spawn sv th (mc_world (rn_machine (sd_runner s))) = (Inr (), w)"
    using assms(1) unfolding spawns_def by (metis prod.collapse)
  show ?thesis
  proof (rule that [of th w])
    show "th_test_suite_id th = strip (sh_test_suite_id r)"
      by (simp add: th_def thread_of_def new_suite_thread_def opt_token_def)
  qed (use w in \<open>simp add: start_schedule_def ebind_def etry_def execute_apply th_def Let_def next_after_start_def
      started_row_def [abs_def] split: sum.splits\<close>)
qed

lemma start_schedule_spawned:
  assumes "spawns sv" and "next_after_start r now = Inr nxt"
  shows "\<exists>x t. start_schedule sv (i, r) now s = (Inr x, t)"
  by (rule start_schedule_run [OF assms(1), of r i now s]) (simp add: assms(2))

lemma not_due_started:
  assumes "schedule_ok r" and "next_after_start r now = Inr nxt"
  shows "\<not> due now (started_row nxt now x r)"
  using next_after_start_ok [OF assms] by (auto simp: due_def started_row_def split: option.splits)

lemma trigger_due:
  assumes ok: "scheduler_ok sv s" and found: "get_by_id i (sd_schedules s) = Some r"
    and "due now r" and "startable s now r" and "spawns sv" and "0 \<le> now"
  shows "\<exists>x t f. trigger_schedule sv i False (Some now) s = (Inr x, t) \<and> tx_id x = i \<and>
    tx_status x \<in> {''started'', ''expired''} \<and> scheduler_ok sv t \<and> rn_suites (sd_runner t) = rn_suites (sd_runner s) \<and>
    sd_schedules t = update_row i f (sd_schedules s) \<and> \<not> due now (f r)"
proof -
  obtain su where su: "get_by_id (sh_test_suite_id r) (rn_suites (sd_runner s)) = Some su"
    using assms(4) by (auto simp: startable_def)
  have r: "schedule_ok r" using scheduler_ok_rows [OF ok found] by (simp add: row_fine_def)
  obtain n where n: "sh_next_run_at r = Some n" "n \<le> now" "sh_active r"
    using assms(3) by (auto simp: due_def split: option.splits)
  then have "\<not> before_start r now"
    using r by (auto simp: schedule_ok_def in_window_def before_start_def split: option.splits)
  note eq = trigger_schedule_eq [OF found su] trigger_found_eq [OF ok]
  show ?thesis
  proof (cases "after_end r now")
    case True
    let ?t = "s\<lparr>sd_schedules := update_row i (expired_row now) (sd_schedules s)\<rparr>"
    have "trigger_schedule sv i False (Some now) s =
        (Inr (trigger_result_of (i, r) ''expired'' None ''Schedule validity window has ended.''), ?t)"
      using True n \<open>\<not> before_start r now\<close> by (simp add: eq schedule_session_def)
    moreover have "scheduler_ok sv ?t"
      using scheduler_ok_update [where f = "expired_row now", OF ok found] expired_row_fine scheduler_ok_rows [OF ok found]
      by blast
    ultimately show ?thesis
      by (intro exI [of _ "trigger_result_of (i, r) ''expired'' None ''Schedule validity window has ended.''"]
          exI [of _ ?t] exI [of _ "expired_row now"]) (simp add: trigger_result_of_def due_def expired_row_def)
  next
    case False
    have "\<exists>nxt. next_after_start r now = Inr nxt"
      using r assms(4,6) compute_defined [of "sh_frequency_unit r" "sh_frequency_value r" "sh_start_at r" "sh_end_at r" now
          "Some now" "sh_active r"]
      by (auto simp: next_after_start_def schedule_next_def schedule_ok_def startable_def)
    then obtain x t where st: "start_schedule sv (i, r) now s = (Inr x, t)"
      using start_schedule_spawned [OF assms(5)] by blast
    then obtain nxt th where st2: "started_by sv i r now s t nxt th"
        and x: "x = trigger_result_of (i, r) ''started'' (Some (en_uid (se_env sv) (clock s))) ''Scheduled execution started.''"
      using start_schedule_Inr by blast
    let ?f = "started_row nxt now (en_uid (se_env sv) (clock s))"
    have "trigger_schedule sv i False (Some now) s = (Inr x, t)"
      using False n \<open>\<not> before_start r now\<close> st by (simp add: eq schedule_session_def)
    moreover have "scheduler_ok sv t" by (rule start_schedule_ok [OF ok found st])
    moreover have "rn_suites (sd_runner t) = rn_suites (sd_runner s)" "sd_schedules t = update_row i ?f (sd_schedules s)"
        "next_after_start r now = Inr nxt"
      using st2 by (simp_all add: started_by_def scheduler_frame_def)
    ultimately show ?thesis using not_due_started [OF r]
      by (intro exI [of _ x] exI [of _ t] exI [of _ ?f]) (simp add: x trigger_result_of_def)
  qed
qed

lemma get_by_id_update: "get_by_id j (update_row i f t) = (if j = i then map_option f (get_by_id i t) else get_by_id j t)"
  by (simp add: get_by_id_def map_of_update_row)

lemma trigger_all_due:
  assumes "scheduler_ok sv s" and "distinct (map fst ps)" and "spawns sv" and "0 \<le> now"
    and "\<And>i r. (i, r) \<in> set ps \<Longrightarrow> get_by_id i (sd_schedules s) = Some r \<and> due now r \<and> startable s now r"
  shows "\<exists>xs t. trigger_all sv now (map fst ps) s = (Inr xs, t) \<and> map tx_id xs = map fst ps \<and>
    tx_status ` set xs \<subseteq> {''started'', ''expired''} \<and> scheduler_ok sv t \<and>
    fst ` set (sd_schedules t) = fst ` set (sd_schedules s) \<and>
    (\<forall>i \<in> fst ` set ps. \<forall>q. get_by_id i (sd_schedules t) = Some q \<longrightarrow> \<not> due now q) \<and>
    (\<forall>i. i \<notin> fst ` set ps \<longrightarrow> get_by_id i (sd_schedules t) = get_by_id i (sd_schedules s))"
  using assms(1,2,5)
proof (induction ps arbitrary: s)
  case (Cons p ps)
  obtain i r where p: "p = (i, r)" by fastforce
  have i: "get_by_id i (sd_schedules s) = Some r" "due now r" "startable s now r"
    using Cons.prems(3) [of i r] p by simp_all
  obtain x u f where u: "trigger_schedule sv i False (Some now) s = (Inr x, u)" "tx_id x = i"
      "tx_status x \<in> {''started'', ''expired''}" "scheduler_ok sv u"
      "rn_suites (sd_runner u) = rn_suites (sd_runner s)" "sd_schedules u = update_row i f (sd_schedules s)" "\<not> due now (f r)"
    using trigger_due [OF Cons.prems(1) i assms(3,4)] by blast
  have other: "get_by_id j (sd_schedules u) = get_by_id j (sd_schedules s)" if "j \<noteq> i" for j
    using that by (simp add: u(6) get_by_id_update)
  have rest: "get_by_id j (sd_schedules u) = Some q \<and> due now q \<and> startable u now q" if "(j, q) \<in> set ps" for j q
  proof -
    have "j \<noteq> i" using Cons.prems(2) that p by (auto simp: image_iff)
    then show ?thesis using Cons.prems(3) [of j q] that other [of j] u(5) by (simp add: startable_def)
  qed
  obtain xs t where t: "trigger_all sv now (map fst ps) u = (Inr xs, t)" "map tx_id xs = map fst ps"
      "tx_status ` set xs \<subseteq> {''started'', ''expired''}" "scheduler_ok sv t"
      "fst ` set (sd_schedules t) = fst ` set (sd_schedules u)"
      "\<forall>i \<in> fst ` set ps. \<forall>q. get_by_id i (sd_schedules t) = Some q \<longrightarrow> \<not> due now q"
      "\<forall>i. i \<notin> fst ` set ps \<longrightarrow> get_by_id i (sd_schedules t) = get_by_id i (sd_schedules u)"
    using Cons.IH [OF u(4) _ rest] Cons.prems(2) by auto
  have "i \<notin> fst ` set ps" using Cons.prems(2) p by simp
  then have "get_by_id i (sd_schedules t) = Some (f r)" using t(7) by (simp add: u(6) get_by_id_update i(1))
  moreover have "fst ` set (sd_schedules u) = fst ` set (sd_schedules s)"
    unfolding u(6) by (metis fst_update_row list.set_map)
  ultimately show ?case using u(1-3,7) t other by (intro exI [of _ "x # xs"] exI [of _ t]) (auto simp: p ebind_def)
qed simp

text \<open>
  C14. A pass over the due schedules serves each of them exactly once, in the order of their next
  runs: when their suites exist, threads can be started and no date runs past year 9999, the pass
  returns one result per due schedule, started or expired, and afterwards no schedule is due any
  more at that time.
\<close>

theorem due_schedules_advance:
  assumes "schedule_history sv s" and "spawns sv" and "0 \<le> now"
    and "\<And>i r. (i, r) \<in> set (get_due_schedules now (sd_schedules s)) \<Longrightarrow> startable s now r"
  shows "\<exists>xs t. process_due_schedules sv (Some now) s = (Inr xs, t) \<and>
    map tx_id xs = map fst (get_due_schedules now (sd_schedules s)) \<and>
    tx_status ` set xs \<subseteq> {''started'', ''expired''} \<and> get_due_schedules now (sd_schedules t) = []"
proof -
  have ok: "scheduler_ok sv s" by (rule schedule_history_ok [OF assms(1)])
  then have wf: "wf_table (sd_schedules s)" by (simp add: scheduler_ok_def)
  let ?ps = "get_due_schedules now (sd_schedules s)"
  have ps: "get_by_id i (sd_schedules s) = Some r \<and> due now r \<and> startable s now r" if "(i, r) \<in> set ?ps" for i r
    using that wf assms(4) by (auto simp: get_due_set get_by_id_def wf_table_def)
  obtain xs t where t: "trigger_all sv now (map fst ?ps) s = (Inr xs, t)" "map tx_id xs = map fst ?ps"
      "tx_status ` set xs \<subseteq> {''started'', ''expired''}" "scheduler_ok sv t"
      "\<forall>i \<in> fst ` set ?ps. \<forall>q. get_by_id i (sd_schedules t) = Some q \<longrightarrow> \<not> due now q"
      "\<forall>i. i \<notin> fst ` set ?ps \<longrightarrow> get_by_id i (sd_schedules t) = get_by_id i (sd_schedules s)"
    using trigger_all_due [OF ok get_due_distinct [OF wf] assms(2,3) ps] by blast
  have "\<not> due now q" if "(i, q) \<in> set (sd_schedules t)" for i q
  proof (cases "i \<in> fst ` set ?ps")
    case False
    have "get_by_id i (sd_schedules t) = Some q" using that t(4) by (simp add: scheduler_ok_def get_by_id_def wf_table_def)
    then have "(i, q) \<in> set (sd_schedules s)" using False t(6) by (auto simp: get_by_id_def dest: map_of_SomeD)
    then show ?thesis using False by (force simp: get_due_set)
  qed (use that t(4,5) in \<open>auto simp: scheduler_ok_def get_by_id_def wf_table_def\<close>)
  then have "set (get_due_schedules now (sd_schedules t)) = {}" unfolding get_due_set by auto
  then show ?thesis using t(1-3) process_some_eq [OF ok] by (intro exI [of _ xs] exI [of _ t]) simp
qed

subsection \<open>A schedule without a next run\<close>

lemma first_due:
  assumes "wf_table t" and "(i, r) \<in> set t" and "due now r" and "sh_next_run_at r = Some n"
    and "\<And>j q m. (j, q) \<in> set t \<Longrightarrow> sh_next_run_at q = Some m \<Longrightarrow> (n, i) \<le> (m, j)"
  shows "\<exists>rest. get_due_schedules now t = (i, r) # rest"
proof -
  let ?key = "\<lambda>(i, r). (case sh_next_run_at r of None \<Rightarrow> 0 | Some n \<Rightarrow> n, i)"
  have mem: "(i, r) \<in> set (get_due_schedules now t)" using assms(2,3) by (simp add: get_due_set)
  then obtain p rest where p: "get_due_schedules now t = p # rest" by (cases "get_due_schedules now t") auto
  obtain j q where jq: "p = (j, q)" by fastforce
  have "sorted (map ?key (p # rest))" unfolding p [symmetric] get_due_schedules_def by simp
  then have "?key p \<le> ?key (i, r)" using mem unfolding p by auto
  moreover have "(j, q) \<in> set t" "due now q" using p jq get_due_set [of now t] by auto
  moreover obtain m where "sh_next_run_at q = Some m" using \<open>due now q\<close> by (auto simp: due_def split: option.splits)
  ultimately have "j = i" using assms(4,5) jq by force
  then have "q = r" using \<open>(j, q) \<in> set t\<close> assms(1,2) eq_key_imp_eq_value [of t i q r]
    by (simp add: wf_table_def)
  then show ?thesis using p jq \<open>j = i\<close> by simp
qed

lemma trigger_overflow:
  assumes ok: "scheduler_ok sv s" and found: "get_by_id i (sd_schedules s) = Some r" and "due now r"
    and "sh_end_at r = None" and "get_by_id (sh_test_suite_id r) (rn_suites (sd_runner s)) = Some su"
    and "spawns sv" and "max_datetime < now + sh_frequency_value r * unit_microseconds (sh_frequency_unit r)"
  shows "\<exists>e t th. trigger_schedule sv i False (Some now) s = (Inl e, t) \<and> sd_schedules t = sd_schedules s \<and>
    sd_threads t = sd_threads s @ [th] \<and> th_test_suite_id th = strip (sh_test_suite_id r)"
proof -
  have r: "schedule_ok r" using scheduler_ok_rows [OF ok found] by (simp add: row_fine_def)
  then have "\<not> before_start r now" "\<not> after_end r now" "sh_active r"
    using assms(3,4) by (auto simp: due_def schedule_ok_def in_window_def before_start_def after_end_def split: option.splits)
  then have eq: "trigger_schedule sv i False (Some now) s = schedule_session (start_schedule sv (i, r) now) s"
    by (simp add: trigger_schedule_eq [OF found assms(5)] trigger_found_eq [OF ok] schedule_session_def)
  have "\<exists>e. next_after_start r now = Inl e"
    using assms(7) \<open>sh_active r\<close>
    by (cases "next_after_start r now") (auto simp: next_after_start_def schedule_next_def compute_next_run_at_def
        rbind_Inr_iff frequency_delta_Inr next_candidate_def add_delta_Inr)
  then obtain e where e: "next_after_start r now = Inl e" by blast
  show ?thesis
    by (rule start_schedule_run [OF assms(6), of r i now s]) (auto simp: eq e schedule_session_def)
qed

text \<open>What stays the same while the passes go on.\<close>

definition stuck_as :: "'w schedule_env \<Rightarrow> 'w scheduler \<Rightarrow> 'w scheduler \<Rightarrow> bool" where
  "stuck_as sv s t \<longleftrightarrow> scheduler_ok sv t \<and> sd_schedules t = sd_schedules s \<and>
     rn_suites (sd_runner t) = rn_suites (sd_runner s) \<and> clock s \<le> clock t"

lemma process_frame: "frame.keeps (process_due_schedules sv now)"
proof -
  have trigger: "frame.keeps (trigger_schedule sv i m n)" for i m n
    unfolding trigger_schedule_def by (intro frame_steps frame_session frame_trigger_found)
  have "frame.keeps (trigger_all sv n is)" for n "is"
  proof (induction "is")
    case Nil
    show ?case unfolding trigger_all.simps by (rule frame.keeps_pure)
  next
    case (Cons i "is")
    then show ?case unfolding trigger_all.simps by (intro frame_steps trigger)
  qed
  then show ?thesis
    unfolding process_due_schedules_def sync_schedule_execution_states_def refresh_running_schedule_states_def
    by (intro frame_steps frame_session frame_refresh)
qed

lemma stuck_turn:
  assumes stuck: "stuck_as sv s t" and row: "(i, r) \<in> set (sd_schedules s)" "sh_next_run_at r = Some n"
    and least: "\<And>j q m. (j, q) \<in> set (sd_schedules s) \<Longrightarrow> sh_next_run_at q = Some m \<Longrightarrow> (n, i) \<le> (m, j)"
    and r: "sh_end_at r = None" "get_by_id (sh_test_suite_id r) (rn_suites (sd_runner s)) = Some su"
    and "spawns sv" and clock: "\<And>k. clock s \<le> k \<Longrightarrow> n \<le> se_now sv k"
    and over: "\<And>k. clock s \<le> k \<Longrightarrow> max_datetime < se_now sv k + sh_frequency_value r * unit_microseconds (sh_frequency_unit r)"
  shows "stuck_as sv s (snd (scheduler_turn sv t)) \<and>
    (\<exists>th. sd_threads (snd (scheduler_turn sv t)) = sd_threads t @ [th] \<and>
      th_test_suite_id th = strip (sh_test_suite_id r))"
proof -
  define now where "now = se_now sv (clock t)"
  have ok: "scheduler_ok sv (ticked t)" by (rule ticked_ok) (use stuck in \<open>simp add: stuck_as_def\<close>)
  have same: "sd_schedules t = sd_schedules s" "rn_suites (sd_runner t) = rn_suites (sd_runner s)"
    using stuck by (simp_all add: stuck_as_def)
  have later: "clock s \<le> clock t" using stuck by (simp add: stuck_as_def)
  have wf: "wf_table (sd_schedules s)" using ok same by (simp add: scheduler_ok_def)
  have found: "get_by_id i (sd_schedules (ticked t)) = Some r"
    using row(1) wf by (simp add: same get_by_id_def wf_table_def)
  have "sh_active r" using scheduler_ok_rows [OF ok found] row(2) by (simp add: row_fine_def schedule_ok_def)
  then have due: "due now r" using row(2) clock [OF later] by (simp add: due_def now_def)
  have "\<exists>rest. get_due_schedules now (sd_schedules s) = (i, r) # rest"
    by (rule first_due [OF wf row(1) due row(2)]) (rule least)
  then obtain rest where rest: "get_due_schedules now (sd_schedules t) = (i, r) # rest"
    by (auto simp: same)
  have late: "max_datetime < now + sh_frequency_value r * unit_microseconds (sh_frequency_unit r)"
    using over [OF later] by (simp add: now_def)
  obtain e u th where u: "trigger_schedule sv i False (Some now) (ticked t) = (Inl e, u)"
      "sd_schedules u = sd_schedules (ticked t)" "sd_threads u = sd_threads (ticked t) @ [th]"
      "th_test_suite_id th = strip (sh_test_suite_id r)"
    using trigger_overflow [OF ok found due r(1) _ assms(7) late] r(2) by (auto simp: same)
  have process: "process_due_schedules sv None t = (Inl e, u)"
    by (simp add: process_now now_def [symmetric] process_some_eq [OF ok] rest ebind_def u(1))
  then have turn: "snd (scheduler_turn sv t) = u" by (simp add: scheduler_turn_def etry_def ebind_def)
  have "scheduler_frame t u" by (rule frame.keepsD [OF process_frame process])
  then have "stuck_as sv s u"
    using trigger_some_ok [OF ok u(1)] u(2) stuck same by (simp add: stuck_as_def scheduler_frame_def)
  then show ?thesis using turn u(3,4) by auto
qed


subsection \<open>Concrete passes\<close>

lemma demo_spawns: "spawns demo_schedule_env"
  by (simp add: spawns_def demo_schedule_env_def)

theorem due_schedules_advance_witness:
  "\<exists>xs t. process_due_schedules demo_schedule_env (Some 20) (demo_stored MINUTES 5) = (Inr xs, t) \<and>
     map tx_id xs = [''ii''] \<and> get_due_schedules 20 (sd_schedules t) = []"
proof -
  have "get_due_schedules 20 (sd_schedules (demo_stored MINUTES 5)) = [(''ii'', demo_row MINUTES 5)]"
    by (simp add: demo_rows get_due_schedules_def rows_where_def demo_row_fields)
  moreover have "startable (demo_stored MINUTES 5) 20 (demo_row MINUTES 5)"
    by (simp add: startable_def demo_rows demo_row_fields demo_start get_by_id_def demo_units max_datetime_def)
  ultimately show ?thesis
    using due_schedules_advance [OF demo_history [of 5 MINUTES] demo_spawns, of 20] by auto
qed


end
