(* ===== verification/Suite_Api.thy ===== *)
theory Suite_Api
  imports Schedules
begin

section \<open>The API of test suites\<close>

text \<open>
  \<open>elaborations/api/test_suites_api.py\<close>, with \<open>test_suite_service.py\<close>, \<open>suite_item_service.py\<close> and
  \<open>suite_item_command_service.py\<close> under \<open>elaborations/services/alembic/\<close>: saving a suite with its
  hooks, tests and commands, reading it back, and deleting it. A handler runs in one session on the
  state of the scheduler, which holds every table a suite is referenced from. A new id comes from
  the supply of the machine.
\<close>

subsection \<open>Rows\<close>

definition normalize_on_failure :: "string option \<Rightarrow> string" where
  "normalize_on_failure v =
     (let f = upper (strip (case v of None \<Rightarrow> ''ABORT'' | Some s \<Rightarrow> if s = [] then ''ABORT'' else s)) in
      if f \<in> {''ABORT'', ''CONTINUE''} then f else ''ABORT'')"

definition build_suite_item_command_entity :: "string \<Rightarrow> command_req \<Rightarrow> command_row result" where
  "build_suite_item_command_entity item c =
     rbind (guard (token (dget (cr_cfg c) ''commandCode'') \<noteq> []) (AppError ''Command code is required.'')) (\<lambda>_.
     Inr \<lparr>cw_owner_id = item, cw_order = cr_order c,
          cw_command_code = token (dget (cr_cfg c) ''commandCode''),
          cw_command_type = token (dget (cr_cfg c) ''commandType''),
          cw_configuration = PDict (cr_cfg c), cw_description = cr_description c\<rparr>)"

definition build_suite_item_entity :: "string \<Rightarrow> suite_item_dto \<Rightarrow> int \<Rightarrow> suite_item_row" where
  "build_suite_item_entity suite dto position =
     \<lparr>sr_test_suite_id = suite, sr_kind = (if si_kind dto = [] then ''test'' else si_kind dto),
      sr_hook_phase = nonempty (opt_token (si_hook_phase dto)), sr_position = position,
      sr_on_failure = normalize_on_failure (Some (si_on_failure dto)), sr_description = si_description dto\<rparr>"

subsection \<open>Inserting the items of a suite\<close>

text \<open>The tables of the items and of their commands, with the supply of ids.\<close>

record suite_store =
  st_items :: "suite_item_row table"
  st_commands :: "command_row table"
  st_supply :: nat

fun insert_suite_item_operations ::
  "(nat \<Rightarrow> string) \<Rightarrow> string \<Rightarrow> command_req list \<Rightarrow> suite_store \<Rightarrow> suite_store result" where
  "insert_suite_item_operations uid item [] st = Inr st"
| "insert_suite_item_operations uid item (c # cs) st =
     rbind (build_suite_item_command_entity item c) (\<lambda>row.
     rbind (insert_row (uid (st_supply st)) row (st_commands st)) (\<lambda>t.
     insert_suite_item_operations uid item cs (st\<lparr>st_commands := t, st_supply := Suc (st_supply st)\<rparr>)))"

definition insert_suite_item ::
  "(nat \<Rightarrow> string) \<Rightarrow> string \<Rightarrow> suite_item_dto \<Rightarrow> int \<Rightarrow> suite_store \<Rightarrow> suite_store result" where
  "insert_suite_item uid suite dto position st =
     (let item = uid (st_supply st) in
      rbind (insert_row item (build_suite_item_entity suite dto position) (st_items st)) (\<lambda>t.
      insert_suite_item_operations uid item (si_commands dto)
        (st\<lparr>st_items := t, st_supply := Suc (st_supply st)\<rparr>)))"

text \<open>The first hook of a phase.\<close>

definition first_hook :: "suite_item_dto list \<Rightarrow> string \<Rightarrow> suite_item_dto option" where
  "first_hook hooks phase = find (\<lambda>i. lower (opt_token (si_hook_phase i)) = phase) hooks"

fun insert_hooks ::
  "(nat \<Rightarrow> string) \<Rightarrow> string \<Rightarrow> suite_item_dto list \<Rightarrow> string list \<Rightarrow> string list \<Rightarrow> suite_store \<Rightarrow> suite_store result" where
  "insert_hooks uid suite hooks [] seen st = Inr st"
| "insert_hooks uid suite hooks (phase # phases) seen st =
     (case first_hook hooks phase of
        None \<Rightarrow> insert_hooks uid suite hooks phases seen st
      | Some hook \<Rightarrow>
          rbind (guard (phase \<notin> set seen) (AppError (''Duplicate hook for phase '' @ quoted phase @ ''.''))) (\<lambda>_.
          rbind (insert_suite_item uid suite hook 0 st) (\<lambda>st1.
          insert_hooks uid suite hooks phases (phase # seen) st1)))"

fun insert_tests ::
  "(nat \<Rightarrow> string) \<Rightarrow> string \<Rightarrow> suite_item_dto list \<Rightarrow> int \<Rightarrow> suite_store \<Rightarrow> suite_store result" where
  "insert_tests uid suite [] position st = Inr st"
| "insert_tests uid suite (t # ts) position st =
     rbind (insert_suite_item uid suite t position st) (\<lambda>st1. insert_tests uid suite ts (position + 1) st1)"

definition insert_suite_items ::
  "(nat \<Rightarrow> string) \<Rightarrow> string \<Rightarrow> suite_item_dto list \<Rightarrow> suite_item_dto list \<Rightarrow> suite_store \<Rightarrow> suite_store result" where
  "insert_suite_items uid suite hooks tests st =
     rbind (insert_hooks uid suite hooks hook_phases [] st) (\<lambda>st1. insert_tests uid suite tests 1 st1)"

subsection \<open>The tables in the state\<close>

definition sd_machine :: "'w scheduler \<Rightarrow> 'w machine" where
  "sd_machine s = rn_machine (sd_runner s)"

definition sd_db :: "'w scheduler \<Rightarrow> constant_db" where
  "sd_db s = mc_db (sd_machine s)"

definition set_machine :: "'w machine \<Rightarrow> 'w scheduler \<Rightarrow> 'w scheduler" where
  "set_machine m s = s\<lparr>sd_runner := (sd_runner s)\<lparr>rn_machine := m\<rparr>\<rparr>"

definition set_db :: "constant_db \<Rightarrow> 'w scheduler \<Rightarrow> 'w scheduler" where
  "set_db db s = set_machine ((sd_machine s)\<lparr>mc_db := db\<rparr>) s"

definition set_suites :: "suite_row table \<Rightarrow> 'w scheduler \<Rightarrow> 'w scheduler" where
  "set_suites t s = s\<lparr>sd_runner := (sd_runner s)\<lparr>rn_suites := t\<rparr>\<rparr>"

definition suite_store_of :: "'w scheduler \<Rightarrow> suite_store" where
  "suite_store_of s =
     \<lparr>st_items = cd_items (sd_db s), st_commands = cd_item_commands (sd_db s), st_supply = mc_ticks (sd_machine s)\<rparr>"

definition put_suite_store :: "suite_store \<Rightarrow> 'w scheduler \<Rightarrow> 'w scheduler" where
  "put_suite_store st s =
     set_machine ((sd_machine s)\<lparr>mc_db := (sd_db s)\<lparr>cd_items := st_items st, cd_item_commands := st_commands st\<rparr>,
       mc_ticks := st_supply st\<rparr>) s"

definition save_suite_items :: "'w schedule_env \<Rightarrow> string \<Rightarrow> test_suite_dto \<Rightarrow> ('w scheduler, unit) eff" where
  "save_suite_items sv suite dto = (\<lambda>s.
     case insert_suite_items (en_uid (se_env sv)) suite (ts_hooks dto) (ts_tests dto) (suite_store_of s) of
       Inl e \<Rightarrow> (Inl e, s)
     | Inr st \<Rightarrow> (Inr (), put_suite_store st s))"

text \<open>The supply of ids as a planner sees it; the ids of planned commands are not stored.\<close>

definition next_ids :: "'w schedule_env \<Rightarrow> 'w scheduler \<Rightarrow> nat \<Rightarrow> string" where
  "next_ids sv s = (\<lambda>n. en_uid (se_env sv) (n + mc_ticks (sd_machine s)))"

definition check_suite_graph :: "'w schedule_env \<Rightarrow> test_suite_dto \<Rightarrow> ('w scheduler, unit) eff" where
  "check_suite_graph sv dto = (\<lambda>s. (validate_suite_constant_graph (next_ids sv s) dto, s))"

definition rebuild_suite_definitions :: "'w schedule_env \<Rightarrow> string \<Rightarrow> ('w scheduler, unit) eff" where
  "rebuild_suite_definitions sv suite = (\<lambda>s.
     case rebuild_suite_constant_definitions (next_ids sv s) suite (sd_db s) of
       Inl e \<Rightarrow> (Inl e, s)
     | Inr db \<Rightarrow> (Inr (), set_db db s))"

subsection \<open>Deleting\<close>

definition item_ids_of :: "string \<Rightarrow> suite_item_row table \<Rightarrow> string list" where
  "item_ids_of suite t = map fst (rows_where (\<lambda>r. sr_test_suite_id r = suite) t)"

text \<open>\<open>SuiteItemService.delete_by_suite_id\<close>: every item of the suite with its commands.\<close>

definition delete_suite_items :: "string \<Rightarrow> constant_db \<Rightarrow> nat \<times> constant_db" where
  "delete_suite_items suite db =
     (let gone = item_ids_of suite (cd_items db) in
      (length gone,
       db\<lparr>cd_items := snd (delete_where (\<lambda>r. sr_test_suite_id r = suite) (cd_items db)),
          cd_item_commands := snd (delete_where (\<lambda>r. cw_owner_id r \<in> set gone) (cd_item_commands db))\<rparr>))"

text \<open>What \<open>ON DELETE CASCADE\<close> of the foreign keys removes with the row of a suite.\<close>

definition cascade_suite :: "string \<Rightarrow> 'w scheduler \<Rightarrow> 'w scheduler" where
  "cascade_suite suite s =
     (let r = sd_runner s;
          runs = map fst (rows_where (\<lambda>x. tr_test_suite_id x = suite) (rn_suite_runs r));
          items = map fst (rows_where (\<lambda>x. ie_test_suite_execution_id x \<in> set runs) (rn_item_execs r))
      in s\<lparr>sd_schedules := snd (delete_where (\<lambda>x. sh_test_suite_id x = suite) (sd_schedules s)),
           sd_runner := r\<lparr>
             rn_suite_runs := snd (delete_where (\<lambda>x. tr_test_suite_id x = suite) (rn_suite_runs r)),
             rn_item_execs := snd (delete_where (\<lambda>x. ie_test_suite_execution_id x \<in> set runs) (rn_item_execs r)),
             rn_machine := (rn_machine r)\<lparr>mc_item_runs :=
               snd (delete_where (\<lambda>x. xr_run_id x \<in> set runs \<or> xr_item_execution_id x \<in> set items)
                 (mc_item_runs (rn_machine r)))\<rparr>\<rparr>\<rparr>)"

definition delete_suite :: "string \<Rightarrow> 'w scheduler \<Rightarrow> nat \<times> 'w scheduler" where
  "delete_suite suite s =
     (case get_by_id suite (rn_suites (sd_runner s)) of
        None \<Rightarrow> (0, s)
      | Some r \<Rightarrow>
          (let t = set_db (snd (delete_suite_items suite (sd_db s))) s in
           (1, cascade_suite suite (set_suites (snd (delete_by_id suite (rn_suites (sd_runner t)))) t))))"

subsection \<open>Responses\<close>

definition serialize_suite_operation :: "string \<times> command_row \<Rightarrow> pydict" where
  "serialize_suite_operation op =
     (let r = snd op in
      [(''id'', PStr (fst op)), (''suite_item_id'', PStr (cw_owner_id r)), (''description'', PStr (cw_description r)),
       (''command_code'', PStr (cw_command_code r)), (''command_type'', PStr (cw_command_type r)),
       (''configuration_json'', cw_configuration r), (''order'', PInt (cw_order r))])"

definition serialize_item :: "constant_db \<Rightarrow> string \<times> suite_item_row \<Rightarrow> pydict" where
  "serialize_item db item =
     (let r = snd item in
      [(''id'', PStr (fst item)), (''test_suite_id'', PStr (sr_test_suite_id r)), (''kind'', PStr (sr_kind r)),
       (''hook_phase'', opt_json (sr_hook_phase r)), (''description'', PStr (sr_description r)),
       (''position'', PInt (sr_position r)), (''on_failure'', PStr (sr_on_failure r)),
       (''commands'', PList (map (PDict \<circ> serialize_suite_operation)
          (get_all_by_owner_id (fst item) (cd_item_commands db))))])"

definition no_test_suite :: "string \<Rightarrow> exc" where
  "no_test_suite i = AppError (''No test suite found with id [ '' @ i @ '' ]'')"

definition saved_response :: "string \<Rightarrow> string \<Rightarrow> pydict" where
  "saved_response suite message = [(''id'', PStr suite), (''message'', PStr message)]"

subsection \<open>Handlers\<close>

definition insert_suite :: "'w schedule_env \<Rightarrow> string \<Rightarrow> ('w scheduler, string) eff" where
  "insert_suite sv description =
     ebind (on_runner (on_machine next_tick)) (\<lambda>n s.
       case insert_row (en_uid (se_env sv) n) \<lparr>su_description = description\<rparr> (rn_suites (sd_runner s)) of
         Inl e \<Rightarrow> (Inl e, s)
       | Inr t \<Rightarrow> (Inr (en_uid (se_env sv) n), set_suites t s))"

definition insert_test_suite_api :: "'w schedule_env \<Rightarrow> test_suite_dto \<Rightarrow> ('w scheduler, pydict) eff" where
  "insert_test_suite_api sv dto = schedule_session
     (ebind (check_suite_graph sv dto) (\<lambda>_.
      ebind (insert_suite sv (ts_description dto)) (\<lambda>suite.
      ebind (save_suite_items sv suite dto) (\<lambda>_.
      ebind (rebuild_suite_definitions sv suite) (\<lambda>_.
      ereturn (saved_response suite ''Test suite added''))))))"

definition update_suite :: "string \<Rightarrow> string \<Rightarrow> ('w scheduler, unit) eff" where
  "update_suite suite description = (\<lambda>s.
     case get_by_id suite (rn_suites (sd_runner s)) of
       None \<Rightarrow> (Inl (no_test_suite suite), s)
     | Some r \<Rightarrow> (Inr (), set_suites (update_row suite (\<lambda>r. r\<lparr>su_description := description\<rparr>)
                   (rn_suites (sd_runner s))) s))"

definition update_test_suite_api :: "'w schedule_env \<Rightarrow> string \<Rightarrow> test_suite_dto \<Rightarrow> ('w scheduler, pydict) eff" where
  "update_test_suite_api sv suite dto = schedule_session
     (ebind (check_suite_graph sv dto) (\<lambda>_.
      ebind (update_suite suite (ts_description dto)) (\<lambda>_.
      ebind (emodify (\<lambda>s. set_db (snd (delete_suite_items suite (sd_db s))) s)) (\<lambda>_.
      ebind (save_suite_items sv suite dto) (\<lambda>_.
      ebind (rebuild_suite_definitions sv suite) (\<lambda>_.
      ereturn (saved_response suite ''Test suite updated'')))))))"

definition find_all_test_suites_api :: "('w scheduler, pydict list) eff" where
  "find_all_test_suites_api = schedule_session
     (eget (\<lambda>s. map (\<lambda>(i, r). [(''id'', PStr i), (''description'', PStr (su_description r))]) (rn_suites (sd_runner s))))"

definition find_test_suite_api :: "string \<Rightarrow> ('w scheduler, pydict) eff" where
  "find_test_suite_api suite = schedule_session
     (ebind (eget (\<lambda>s. (get_by_id suite (rn_suites (sd_runner s)), sd_db s))) (\<lambda>(found, db).
      case found of
        None \<Rightarrow> eraise (no_test_suite suite)
      | Some r \<Rightarrow>
          (let items = get_all_by_suite_id suite (cd_items db);
               part = (\<lambda>p. PList (map (PDict \<circ> serialize_item db) (filter p items)))
           in ereturn [(''id'', PStr suite), (''description'', PStr (su_description r)),
                (''hooks'', part (\<lambda>i. sr_kind (snd i) = ''hook'')),
                (''tests'', part (\<lambda>i. sr_kind (snd i) \<noteq> ''hook''))])))"

definition delete_test_suite_api :: "string \<Rightarrow> ('w scheduler, string) eff" where
  "delete_test_suite_api suite = schedule_session (\<lambda>s.
     case delete_suite suite s of (n, t) \<Rightarrow>
       if n = 0 then (Inl (no_test_suite suite), s)
       else (Inr (show_nat n @ '' test suite(s) deleted''), t))"

text \<open>The two routes that start a run; neither looks at the tables.\<close>

definition execute_test_by_id ::
  "'w schedule_env \<Rightarrow> string \<Rightarrow> string \<Rightarrow> ('w scheduler, string) eff" where
  "execute_test_by_id sv suite item =
     ebind (on_runner (on_machine next_tick)) (\<lambda>n.
     let th = new_suite_thread (en_uid (se_env sv) n) (Some suite) PNone PNone None (Some item) in
     ebind (on_runner (on_machine (on_world (se_spawn sv th)))) (\<lambda>_.
     ebind (emodify (\<lambda>s. s\<lparr>sd_threads := sd_threads s @ [th]\<rparr>)) (\<lambda>_.
     ereturn (th_execution_id th))))"

definition started_response :: "string \<Rightarrow> string \<Rightarrow> pydict" where
  "started_response message execution = [(''message'', PStr message), (''execution_id'', PStr execution)]"

definition execute_test_suite_api :: "'w schedule_env \<Rightarrow> string \<Rightarrow> ('w scheduler, pydict) eff" where
  "execute_test_suite_api sv suite =
     ebind (execute_test_suite_by_id sv suite PNone PNone None) (\<lambda>x. ereturn (started_response ''Test suite started'' x))"

definition execute_test_api :: "'w schedule_env \<Rightarrow> string \<Rightarrow> string \<Rightarrow> ('w scheduler, pydict) eff" where
  "execute_test_api sv suite item =
     ebind (execute_test_by_id sv suite item) (\<lambda>x. ereturn (started_response ''Test started'' x))"

end
