(* ===== verification/Suite_Save.thy ===== *)
theory Suite_Save
  imports Suite_Api "HOL-Library.Product_Lexorder"
begin

section \<open>Saving the items of a suite\<close>

text \<open>
  What the insertion of hooks and tests adds to the tables, as plain lists of rows
  (\<open>saved_items\<close>, \<open>saved_commands\<close>), and how the rows of one suite are read back.
\<close>

subsection \<open>The rows\<close>

definition command_row_of :: "string \<Rightarrow> command_req \<Rightarrow> command_row" where
  "command_row_of item c =
     \<lparr>cw_owner_id = item, cw_order = cr_order c, cw_command_code = token (dget (cr_cfg c) ''commandCode''),
      cw_command_type = token (dget (cr_cfg c) ''commandType''),
      cw_configuration = PDict (cr_cfg c), cw_description = cr_description c\<rparr>"

definition saved_operations :: "(nat \<Rightarrow> string) \<Rightarrow> string \<Rightarrow> command_req list \<Rightarrow> nat \<Rightarrow> command_row table" where
  "saved_operations uid item cs n = zip (map uid [n ..< n + length cs]) (map (command_row_of item) cs)"

fun saved_items :: "(nat \<Rightarrow> string) \<Rightarrow> string \<Rightarrow> (suite_item_dto \<times> int) list \<Rightarrow> nat \<Rightarrow> suite_item_row table" where
  "saved_items uid suite [] n = []"
| "saved_items uid suite ((d, p) # ps) n =
     (uid n, build_suite_item_entity suite d p) # saved_items uid suite ps (Suc n + length (si_commands d))"

fun saved_commands :: "(nat \<Rightarrow> string) \<Rightarrow> (suite_item_dto \<times> int) list \<Rightarrow> nat \<Rightarrow> command_row table" where
  "saved_commands uid [] n = []"
| "saved_commands uid ((d, p) # ps) n =
     saved_operations uid (uid n) (si_commands d) (Suc n) @ saved_commands uid ps (Suc n + length (si_commands d))"

fun saved_ids :: "(suite_item_dto \<times> int) list \<Rightarrow> nat" where
  "saved_ids [] = 0"
| "saved_ids ((d, p) # ps) = Suc (length (si_commands d)) + saved_ids ps"

definition placed_hooks :: "suite_item_dto list \<Rightarrow> string list \<Rightarrow> (suite_item_dto \<times> int) list" where
  "placed_hooks hooks phases = map (\<lambda>h. (h, 0)) (List.map_filter (first_hook hooks) phases)"

definition placed_tests :: "suite_item_dto list \<Rightarrow> int \<Rightarrow> (suite_item_dto \<times> int) list" where
  "placed_tests tests k = zip tests (map (\<lambda>i. k + int i) [0 ..< length tests])"

definition placed_items :: "test_suite_dto \<Rightarrow> (suite_item_dto \<times> int) list" where
  "placed_items dto = placed_hooks (ts_hooks dto) hook_phases @ placed_tests (ts_tests dto) 1"

definition save_rows :: "(nat \<Rightarrow> string) \<Rightarrow> string \<Rightarrow> (suite_item_dto \<times> int) list \<Rightarrow> suite_store \<Rightarrow> suite_store" where
  "save_rows uid suite ps st =
     \<lparr>st_items = st_items st @ saved_items uid suite ps (st_supply st),
      st_commands = st_commands st @ saved_commands uid ps (st_supply st),
      st_supply = st_supply st + saved_ids ps\<rparr>"

lemma saved_ids_append [simp]: "saved_ids (ps @ qs) = saved_ids ps + saved_ids qs"
  by (induction ps rule: saved_ids.induct) auto

lemma saved_items_append [simp]:
  "saved_items uid suite (ps @ qs) n = saved_items uid suite ps n @ saved_items uid suite qs (n + saved_ids ps)"
  by (induction uid suite ps n rule: saved_items.induct) (auto simp: algebra_simps)

lemma saved_commands_append [simp]:
  "saved_commands uid (ps @ qs) n = saved_commands uid ps n @ saved_commands uid qs (n + saved_ids ps)"
  by (induction uid ps n rule: saved_commands.induct) (auto simp: algebra_simps)

lemma save_rows_append: "save_rows uid suite (ps @ qs) st = save_rows uid suite qs (save_rows uid suite ps st)"
  by (simp add: save_rows_def algebra_simps)

lemma save_rows_Cons: "save_rows uid suite (x # ps) st = save_rows uid suite ps (save_rows uid suite [x] st)"
  using save_rows_append [of uid suite "[x]" ps st] by simp

lemma saved_operations_Cons:
  "saved_operations uid item (c # cs) n = (uid n, command_row_of item c) # saved_operations uid item cs (Suc n)"
proof -
  have "[n ..< n + length (c # cs)] = n # [Suc n ..< Suc n + length cs]"
    using upt_conv_Cons [of n "n + length (c # cs)"] by simp
  then show ?thesis by (simp add: saved_operations_def)
qed

subsection \<open>The insertion adds these rows\<close>

lemma insert_operations_rows:
  "insert_suite_item_operations uid item cs st = Inr st1 \<Longrightarrow>
   st1 = st\<lparr>st_commands := st_commands st @ saved_operations uid item cs (st_supply st),
            st_supply := st_supply st + length cs\<rparr>"
proof (induction uid item cs st arbitrary: st1 rule: insert_suite_item_operations.induct)
  case (1 uid item st)
  then show ?case by (simp add: saved_operations_def)
next
  case (2 uid item c cs st)
  from "2.prems" have row: "build_suite_item_command_entity item c = Inr (command_row_of item c)"
    by (auto simp: rbind_Inr_iff build_suite_item_command_entity_def command_row_of_def)
  from "2.prems" row have fresh: "insert_row (uid (st_supply st)) (command_row_of item c) (st_commands st) =
      Inr (st_commands st @ [(uid (st_supply st), command_row_of item c)])"
    by (auto simp: rbind_Inr_iff insert_row_Inr)
  show ?case using "2.IH" [OF row fresh, of st1] "2.prems" row fresh by (simp add: saved_operations_Cons)
qed

lemma insert_item_rows:
  "insert_suite_item uid suite d p st = Inr st1 \<Longrightarrow> st1 = save_rows uid suite [(d, p)] st"
  by (auto simp: insert_suite_item_def Let_def rbind_Inr_iff insert_row_Inr save_rows_def
      dest!: insert_operations_rows)

lemma insert_hooks_rows:
  "insert_hooks uid suite hooks phases seen st = Inr st1 \<Longrightarrow> st1 = save_rows uid suite (placed_hooks hooks phases) st"
proof (induction uid suite hooks phases seen st rule: insert_hooks.induct)
  case (1 uid suite hooks seen st)
  then show ?case by (simp add: placed_hooks_def save_rows_def)
next
  case (2 uid suite hooks phase phases seen st)
  show ?case
  proof (cases "first_hook hooks phase")
    case None
    then show ?thesis using 2 by (simp add: placed_hooks_def map_filter_simps)
  next
    case (Some hook)
    with "2.prems" obtain st2 where st2: "insert_suite_item uid suite hook 0 st = Inr st2" "phase \<notin> set seen"
        "insert_hooks uid suite hooks phases (phase # seen) st2 = Inr st1"
      by (auto simp: rbind_Inr_iff)
    have "st1 = save_rows uid suite (placed_hooks hooks phases) st2"
      by (rule "2.IH"(2) [OF Some _ st2(1,3)]) (simp add: st2(2))
    then show ?thesis using insert_item_rows [OF st2(1)] Some
      by (simp add: placed_hooks_def map_filter_simps save_rows_append [symmetric])
  qed
qed

lemma placed_tests_Cons: "placed_tests (t # ts) k = (t, k) # placed_tests ts (k + 1)"
proof -
  have "[0 ..< length (t # ts)] = 0 # map Suc [0 ..< length ts]"
    by (simp add: upt_conv_Cons map_Suc_upt del: upt_Suc)
  then show ?thesis by (simp add: placed_tests_def comp_def algebra_simps del: upt_Suc)
qed

lemma insert_tests_rows:
  "insert_tests uid suite ts k st = Inr st1 \<Longrightarrow> st1 = save_rows uid suite (placed_tests ts k) st"
proof (induction uid suite ts k st rule: insert_tests.induct)
  case (1 uid suite k st)
  then show ?case by (simp add: placed_tests_def save_rows_def)
next
  case (2 uid suite t ts k st)
  then obtain st2 where st2: "insert_suite_item uid suite t k st = Inr st2" "insert_tests uid suite ts (k + 1) st2 = Inr st1"
    by (auto simp: rbind_Inr_iff)
  have "st1 = save_rows uid suite (placed_tests ts (k + 1)) st2" by (rule "2.IH" [OF st2])
  then show ?case
    unfolding placed_tests_Cons insert_item_rows [OF st2(1)]
    using save_rows_Cons [of uid suite "(t, k)" "placed_tests ts (k + 1)" st] by simp
qed

lemma insert_suite_items_rows:
  "insert_suite_items uid suite (ts_hooks dto) (ts_tests dto) st = Inr st1 \<Longrightarrow>
   st1 = save_rows uid suite (placed_items dto) st"
  by (auto simp: insert_suite_items_def rbind_Inr_iff placed_items_def save_rows_append
      dest!: insert_hooks_rows insert_tests_rows)

text \<open>The check for duplicate hooks looks at the phases, which are distinct: it never raises.\<close>

lemma no_duplicate_hook:
  "insert_hooks uid suite hooks phases seen st = Inl e \<Longrightarrow> distinct phases \<Longrightarrow> set phases \<inter> set seen = {} \<Longrightarrow>
   \<exists>d st. insert_suite_item uid suite d 0 st = Inl e"
proof (induction uid suite hooks phases seen st rule: insert_hooks.induct)
  case (2 uid suite hooks phase phases seen st)
  then show ?case by (cases "first_hook hooks phase") (auto simp: guard_def rbind_Inl_iff)
qed simp

end
