(* ===== verification/Suite_Reading.thy ===== *)
theory Suite_Reading
  imports Suite_Save
begin

section \<open>Reading a suite back\<close>

text \<open>
  The content of a saved item without the ids the database gave out (\<open>item_content\<close> of a response,
  \<open>requested_item\<close> of a request), and the reading of the rows a save adds.
\<close>

subsection \<open>Content\<close>

definition without :: "string list \<Rightarrow> pydict \<Rightarrow> pydict" where
  "without ks d = filter (\<lambda>(k, v). k \<notin> set ks) d"

definition command_content :: "pyval \<Rightarrow> pydict" where
  "command_content v = without [''id'', ''suite_item_id''] (dict_or_empty v)"

definition item_content :: "pyval \<Rightarrow> pydict \<times> pydict list" where
  "item_content v =
     (let d = dict_or_empty v in
      (without [''id'', ''test_suite_id'', ''commands''] d,
       map command_content (list_or_empty (dget d ''commands''))))"

definition requested_command :: "command_req \<Rightarrow> pydict" where
  "requested_command c =
     [(''description'', PStr (cr_description c)), (''command_code'', PStr (token (dget (cr_cfg c) ''commandCode''))),
      (''command_type'', PStr (token (dget (cr_cfg c) ''commandType''))),
      (''configuration_json'', PDict (cr_cfg c)), (''order'', PInt (cr_order c))]"

definition requested_item :: "suite_item_dto \<Rightarrow> int \<Rightarrow> pydict \<times> pydict list" where
  "requested_item d p =
     ([(''kind'', PStr (si_kind d)), (''hook_phase'', opt_json (si_hook_phase d)),
       (''description'', PStr (si_description d)), (''position'', PInt p), (''on_failure'', PStr (si_on_failure d))],
      map requested_command (sort_key cr_order (si_commands d)))"

text \<open>An item as \<open>validate_item\<close> returns it, with commands of distinct orders.\<close>

definition valid_item :: "suite_item_dto \<Rightarrow> bool" where
  "valid_item d \<longleftrightarrow>
     (if si_kind d = ''hook'' then (case si_hook_phase d of None \<Rightarrow> False | Some p \<Rightarrow> p \<in> set hook_phases)
      else si_kind d = ''test'' \<and> si_hook_phase d = None) \<and>
     si_on_failure d \<in> set [''ABORT'', ''CONTINUE''] \<and> distinct (map cr_order (si_commands d))"

definition valid_suite :: "test_suite_dto \<Rightarrow> bool" where
  "valid_suite dto \<longleftrightarrow>
     list_all (\<lambda>d. valid_item d \<and> si_kind d = ''hook'') (ts_hooks dto) \<and>
     list_all (\<lambda>d. valid_item d \<and> si_kind d = ''test'') (ts_tests dto)"

lemma checked_item:
  "rbind (guard (k \<in> {''test'', ''hook''}) e1) (\<lambda>_.
   rbind (guard (\<not> (k = ''hook'' \<and> (case ph of None \<Rightarrow> True | Some p \<Rightarrow> p \<notin> set hook_phases))) e2) (\<lambda>_.
   Inr \<lparr>si_kind = k, si_hook_phase = (if k = ''hook'' then ph else None), si_description = descr,
        si_on_failure = (if f \<in> {''ABORT'', ''CONTINUE''} then f else ''ABORT''), si_commands = cs\<rparr>)) = Inr d \<Longrightarrow>
   distinct (map cr_order cs) \<Longrightarrow> valid_item d"
  by (cases "k = ''hook''"; cases ph; cases "f \<in> {''ABORT'', ''CONTINUE''}")
    (auto simp: valid_item_def guard_def split: if_splits)

lemma validated_item:
  "validate_item kind phase description failure cs = Inr d \<Longrightarrow> distinct (map cr_order cs) \<Longrightarrow> valid_item d"
  unfolding validate_item_def Let_def by (rule checked_item)

lemma hook_phase_kept: "p \<in> set hook_phases \<Longrightarrow> nonempty (strip p) = Some p"
proof -
  have "list_all (\<lambda>p. nonempty (strip p) = Some p) hook_phases" by code_simp
  then show "p \<in> set hook_phases \<Longrightarrow> nonempty (strip p) = Some p" by (simp add: list_all_iff)
qed

lemma failure_kept: "f \<in> set [''ABORT'', ''CONTINUE''] \<Longrightarrow> normalize_on_failure (Some f) = f"
proof -
  have "list_all (\<lambda>f. normalize_on_failure (Some f) = f) [''ABORT'', ''CONTINUE'']" by code_simp
  then show "f \<in> set [''ABORT'', ''CONTINUE''] \<Longrightarrow> normalize_on_failure (Some f) = f"
    unfolding list_all_iff by blast
qed

subsection \<open>Stable sorting and projection\<close>

lemma map_insort_key: "map f (insort_key (\<lambda>x. g (f x)) x xs) = insort_key g (f x) (map f xs)"
  by (induction xs) auto

lemma map_sort_key: "map f (sort_key (\<lambda>x. g (f x)) xs) = sort_key g (map f xs)"
  by (induction xs) (simp_all add: map_insort_key sort_key_def)

lemma sort_key_fixed: "sorted (map f xs) \<Longrightarrow> sort_key f xs = xs"
  by (induction xs) (simp_all add: insort_is_Cons)

subsection \<open>The commands of an item\<close>

definition row_content :: "command_row \<Rightarrow> pydict" where
  "row_content r =
     [(''description'', PStr (cw_description r)), (''command_code'', PStr (cw_command_code r)),
      (''command_type'', PStr (cw_command_type r)), (''configuration_json'', cw_configuration r),
      (''order'', PInt (cw_order r))]"

definition item_fields :: "suite_item_row \<Rightarrow> pydict" where
  "item_fields r =
     [(''kind'', PStr (sr_kind r)), (''hook_phase'', opt_json (sr_hook_phase r)),
      (''description'', PStr (sr_description r)), (''position'', PInt (sr_position r)),
      (''on_failure'', PStr (sr_on_failure r))]"

definition read_item :: "command_row table \<Rightarrow> string \<times> suite_item_row \<Rightarrow> pydict \<times> pydict list" where
  "read_item cmds item = (item_fields (snd item), map (row_content \<circ> snd) (get_all_by_owner_id (fst item) cmds))"

lemma item_content_serialized:
  "item_content (PDict (serialize_item db item)) = read_item (cd_item_commands db) item"
  by (simp add: item_content_def serialize_item_def read_item_def item_fields_def without_def Let_def
      dget_def dget_default_def command_content_def serialize_suite_operation_def row_content_def)

lemma get_all_by_owner_id_append:
  "rows_where (\<lambda>r. cw_owner_id r = i) a = [] \<Longrightarrow> rows_where (\<lambda>r. cw_owner_id r = i) c = [] \<Longrightarrow>
   get_all_by_owner_id i (a @ b @ c) = get_all_by_owner_id i b"
  by (simp add: get_all_by_owner_id_def)

lemma saved_operations_owned:
  "rows_where (\<lambda>r. cw_owner_id r = i) (saved_operations uid i cs n) = saved_operations uid i cs n"
  by (auto simp: rows_where_def saved_operations_def command_row_of_def set_zip intro!: filter_True)

lemma map_snd_saved_operations: "map snd (saved_operations uid i cs n) = map (command_row_of i) cs"
  by (simp add: saved_operations_def)

lemma read_saved_operations:
  "map (row_content \<circ> snd) (get_all_by_owner_id i (saved_operations uid i cs n)) =
   map requested_command (sort_key cr_order cs)"
proof -
  have "map snd (get_all_by_owner_id i (saved_operations uid i cs n)) =
      sort_key cw_order (map (command_row_of i) cs)"
    using map_sort_key [of snd cw_order "saved_operations uid i cs n"]
    by (simp add: get_all_by_owner_id_def saved_operations_owned map_snd_saved_operations split_def)
  also have "\<dots> = map (command_row_of i) (sort_key cr_order cs)"
    using map_sort_key [of "command_row_of i" cw_order cs] by (simp add: command_row_of_def)
  finally show ?thesis
    by (simp flip: map_map) (simp add: row_content_def command_row_of_def requested_command_def)
qed

lemma saved_commands_owner: "(j, r) \<in> set (saved_commands uid ps n) \<Longrightarrow> \<exists>m\<ge>n. cw_owner_id r = uid m"
proof (induction uid ps n rule: saved_commands.induct)
  case (2 uid d p ps n)
  from "2.prems" consider (here) "(j, r) \<in> set (saved_operations uid (uid n) (si_commands d) (Suc n))"
    | (later) "(j, r) \<in> set (saved_commands uid ps (Suc n + length (si_commands d)))"
    by auto
  then show ?case
  proof cases
    case here
    then have "cw_owner_id r = uid n" by (auto simp: saved_operations_def command_row_of_def set_zip)
    then show ?thesis by blast
  next
    case later
    from "2.IH" [OF this] obtain m where "Suc n + length (si_commands d) \<le> m" "cw_owner_id r = uid m" by blast
    then show ?thesis by (intro exI [of _ m]) simp
  qed
qed simp

lemma item_fields_built:
  assumes "valid_item d"
  shows "item_fields (build_suite_item_entity suite d p) = fst (requested_item d p)"
proof -
  have f: "normalize_on_failure (Some (si_on_failure d)) = si_on_failure d"
    using assms failure_kept unfolding valid_item_def by blast
  have k: "si_kind d \<noteq> []" using assms unfolding valid_item_def by auto
  have h: "nonempty (opt_token (si_hook_phase d)) = si_hook_phase d"
  proof (cases "si_hook_phase d")
    case (Some q)
    then have "q \<in> set hook_phases" using assms unfolding valid_item_def by (auto split: if_splits)
    then show ?thesis using hook_phase_kept [of q] Some by (simp only: opt_token_simps)
  qed (simp add: nonempty_def)
  show ?thesis using f k h by (simp add: item_fields_def build_suite_item_entity_def requested_item_def)
qed

text \<open>No command of the table belongs to an id that is still to come.\<close>

definition unowned :: "(nat \<Rightarrow> string) \<Rightarrow> nat \<Rightarrow> command_row table \<Rightarrow> bool" where
  "unowned uid n t \<longleftrightarrow> (\<forall>(j, r) \<in> set t. \<forall>m\<ge>n. cw_owner_id r \<noteq> uid m)"

lemma unowned_rows: "unowned uid n t \<Longrightarrow> n \<le> m \<Longrightarrow> rows_where (\<lambda>r. cw_owner_id r = uid m) t = []"
  by (auto simp: unowned_def rows_where_def filter_empty_conv)

lemma read_saved_items:
  assumes "inj uid" and "unowned uid n old" and "list_all (\<lambda>(d, p). valid_item d) ps"
  shows "map (read_item (old @ saved_commands uid ps n)) (saved_items uid suite ps n) =
    map (\<lambda>(d, p). requested_item d p) ps"
  using assms(2,3)
proof (induction ps arbitrary: n old)
  case (Cons x ps)
  obtain d p where x: "x = (d, p)" by fastforce
  let ?m = "Suc n + length (si_commands d)"
  let ?ops = "saved_operations uid (uid n) (si_commands d) (Suc n)"
  have "unowned uid ?m (old @ ?ops)"
    using Cons.prems(1) injD [OF assms(1)]
    by (fastforce simp: unowned_def saved_operations_def command_row_of_def set_zip)
  from Cons.IH [OF this] Cons.prems(2)
  have tail: "map (read_item (old @ ?ops @ saved_commands uid ps ?m)) (saved_items uid suite ps ?m) =
      map (\<lambda>(d, p). requested_item d p) ps"
    by simp
  have "rows_where (\<lambda>r. cw_owner_id r = uid n) (saved_commands uid ps ?m) = []"
    using saved_commands_owner [of _ _ uid ps ?m] injD [OF assms(1)]
    by (fastforce simp: rows_where_def filter_empty_conv)
  then have "get_all_by_owner_id (uid n) (old @ ?ops @ saved_commands uid ps ?m) = get_all_by_owner_id (uid n) ?ops"
    by (rule get_all_by_owner_id_append [OF unowned_rows [OF Cons.prems(1) order_refl]])
  moreover have "item_fields (build_suite_item_entity suite d p) = fst (requested_item d p)"
    using Cons.prems(2) by (intro item_fields_built) (simp add: x)
  ultimately have "read_item (old @ ?ops @ saved_commands uid ps ?m) (uid n, build_suite_item_entity suite d p) =
      requested_item d p"
    by (simp add: read_item_def read_saved_operations requested_item_def)
  then show ?case using tail by (simp add: x)
qed simp

end
