(* ===== verification/Suite_Api_Facts.thy ===== *)
theory Suite_Api_Facts
  imports Suite_Reading Registry_Facts
begin

section \<open>What the API of test suites guarantees\<close>

text \<open>
  A saved suite is read back as it was requested, saving leaves every other suite alone, the
  references between suites, items and commands stay intact, and what a deleted suite leaves behind.
\<close>

subsection \<open>References\<close>

definition store_ok :: "(nat \<Rightarrow> string) \<Rightarrow> suite_store \<Rightarrow> bool" where
  "store_ok uid st \<longleftrightarrow>
     wf_table (st_items st) \<and> wf_table (st_commands st) \<and>
     (\<forall>m\<ge>st_supply st. uid m \<notin> fst ` set (st_items st) \<union> fst ` set (st_commands st)) \<and>
     (\<forall>(i, r) \<in> set (st_commands st). cw_owner_id r \<in> fst ` set (st_items st))"

definition refs_ok :: "(nat \<Rightarrow> string) \<Rightarrow> 'w scheduler \<Rightarrow> bool" where
  "refs_ok uid s \<longleftrightarrow>
     store_ok uid (suite_store_of s) \<and> wf_table (rn_suites (sd_runner s)) \<and>
     (\<forall>m\<ge>mc_ticks (sd_machine s). uid m \<notin> fst ` set (rn_suites (sd_runner s))) \<and>
     (\<forall>(i, r) \<in> set (cd_items (sd_db s)). sr_test_suite_id r \<in> fst ` set (rn_suites (sd_runner s)))"

lemma store_unowned:
  assumes "store_ok uid st"
  shows "unowned uid (st_supply st) (st_commands st)"
proof -
  have "cw_owner_id r \<noteq> uid m" if "(i, r) \<in> set (st_commands st)" "st_supply st \<le> m" for i r m
  proof -
    have "cw_owner_id r \<in> fst ` set (st_items st)" using assms that(1) unfolding store_ok_def by blast
    moreover have "uid m \<notin> fst ` set (st_items st)" using assms that(2) unfolding store_ok_def by blast
    ultimately show ?thesis by metis
  qed
  then show ?thesis unfolding unowned_def by blast
qed

lemma saved_items_range:
  "(i, r) \<in> set (saved_items uid suite ps n) \<Longrightarrow> (\<exists>m. n \<le> m \<and> m < n + saved_ids ps \<and> i = uid m) \<and> sr_test_suite_id r = suite"
proof (induction uid suite ps n rule: saved_items.induct)
  case (2 uid suite d p ps n)
  show ?case
  proof (cases "(i, r) = (uid n, build_suite_item_entity suite d p)")
    case True
    then show ?thesis by (auto simp: build_suite_item_entity_def intro!: exI [of _ n])
  next
    case False
    then have "(i, r) \<in> set (saved_items uid suite ps (Suc n + length (si_commands d)))"
      using "2.prems" unfolding saved_items.simps set_simps insert_iff by blast
    from "2.IH" [OF this] obtain m where "Suc n + length (si_commands d) \<le> m"
        "m < Suc n + length (si_commands d) + saved_ids ps" "i = uid m" "sr_test_suite_id r = suite"
      by blast
    then show ?thesis by (auto intro!: exI [of _ m])
  qed
qed simp

lemma saved_operations_range:
  "(i, r) \<in> set (saved_operations uid item cs n) \<Longrightarrow> (\<exists>m. n \<le> m \<and> m < n + length cs \<and> i = uid m) \<and> cw_owner_id r = item"
  by (auto simp: saved_operations_def command_row_of_def set_zip intro!: exI [of _ "n + _"])

lemma fst_saved_operations: "map fst (saved_operations uid item cs n) = map uid [n ..< n + length cs]"
  by (simp add: saved_operations_def)

lemma saved_commands_range:
  "(i, r) \<in> set (saved_commands uid ps n) \<Longrightarrow>
   (\<exists>m. n \<le> m \<and> m < n + saved_ids ps \<and> i = uid m) \<and> cw_owner_id r \<in> fst ` set (saved_items uid suite ps n)"
proof (induction uid ps n rule: saved_commands.induct)
  case (2 uid d p ps n)
  from "2.prems" consider (here) "(i, r) \<in> set (saved_operations uid (uid n) (si_commands d) (Suc n))"
    | (later) "(i, r) \<in> set (saved_commands uid ps (Suc n + length (si_commands d)))"
    by auto
  then show ?case
  proof cases
    case here
    from saved_operations_range [OF this] obtain m where "Suc n \<le> m" "m < Suc n + length (si_commands d)"
        "i = uid m" "cw_owner_id r = uid n"
      by blast
    then show ?thesis by (auto intro!: exI [of _ m])
  next
    case later
    from "2.IH" [OF this] obtain m where "Suc n + length (si_commands d) \<le> m"
        "m < Suc n + length (si_commands d) + saved_ids ps" "i = uid m"
        "cw_owner_id r \<in> fst ` set (saved_items uid suite ps (Suc n + length (si_commands d)))"
      by blast
    then show ?thesis by (auto intro!: exI [of _ m])
  qed
qed simp

lemma saved_items_distinct: "inj uid \<Longrightarrow> distinct (map fst (saved_items uid suite ps n))"
proof (induction uid suite ps n rule: saved_items.induct)
  case (2 uid suite d p ps n)
  then show ?case using saved_items_range [of _ _ uid suite ps] by (fastforce dest: injD)
qed simp

lemma saved_commands_distinct: "inj uid \<Longrightarrow> distinct (map fst (saved_commands uid ps n))"
proof (induction uid ps n rule: saved_commands.induct)
  case (2 uid d p ps n)
  let ?ops = "saved_operations uid (uid n) (si_commands d) (Suc n)"
  let ?rest = "saved_commands uid ps (Suc n + length (si_commands d))"
  have "distinct (map fst ?ops)"
    unfolding fst_saved_operations using inj_on_subset [OF "2.prems" subset_UNIV] by (simp add: distinct_map del: upt_Suc)
  moreover have "fst ` set ?ops \<inter> fst ` set ?rest = {}"
    using saved_commands_range [of _ _ uid ps] saved_operations_range [of _ _ uid "uid n"] "2.prems"
    by (fastforce dest: injD)
  ultimately show ?case using "2.IH" [OF "2.prems"] by simp
qed simp

lemma saved_item_ids: "fst ` set (saved_items uid suite ps n) \<subseteq> uid ` {n ..< n + saved_ids ps}"
proof
  fix i
  assume "i \<in> fst ` set (saved_items uid suite ps n)"
  then obtain r where "(i, r) \<in> set (saved_items uid suite ps n)" by force
  from saved_items_range [OF this] show "i \<in> uid ` {n ..< n + saved_ids ps}" by force
qed

lemma saved_command_ids: "fst ` set (saved_commands uid ps n) \<subseteq> uid ` {n ..< n + saved_ids ps}"
proof
  fix i
  assume "i \<in> fst ` set (saved_commands uid ps n)"
  then obtain r where "(i, r) \<in> set (saved_commands uid ps n)" by force
  from saved_commands_range [OF this] show "i \<in> uid ` {n ..< n + saved_ids ps}" by force
qed

lemma save_rows_ok:
  assumes "inj uid" and "store_ok uid st"
  shows "store_ok uid (save_rows uid suite ps st)"
proof -
  let ?n = "st_supply st"
  let ?k = "?n + saved_ids ps"
  have old: "uid m \<notin> fst ` set (st_items st) \<union> fst ` set (st_commands st)" if "?n \<le> m" for m
    using assms(2) that unfolding store_ok_def by blast
  have new: "uid m \<notin> uid ` {?n ..< ?k}" if "?k \<le> m" for m
    using that injD [OF assms(1)] by force
  have apart: "(fst ` set (st_items st) \<union> fst ` set (st_commands st)) \<inter> uid ` {?n ..< ?k} = {}"
    using old by force
  have "wf_table (st_items (save_rows uid suite ps st))"
    using assms(2) saved_items_distinct [OF assms(1), of suite ps ?n] saved_item_ids [of uid suite ps ?n] apart
    by (auto simp: store_ok_def save_rows_def wf_table_def)
  moreover have "wf_table (st_commands (save_rows uid suite ps st))"
    using assms(2) saved_commands_distinct [OF assms(1), of ps ?n] saved_command_ids [of uid ps ?n] apart
    by (auto simp: store_ok_def save_rows_def wf_table_def)
  moreover have "uid m \<notin> fst ` set (st_items (save_rows uid suite ps st)) \<union> fst ` set (st_commands (save_rows uid suite ps st))"
    if "?k \<le> m" for m
  proof -
    have "?n \<le> m" using that by simp
    then show ?thesis
      using old [of m] new [OF that] saved_item_ids [of uid suite ps ?n] saved_command_ids [of uid ps ?n]
      unfolding save_rows_def by (simp add: image_Un) blast
  qed
  moreover have "cw_owner_id r \<in> fst ` set (st_items (save_rows uid suite ps st))"
    if "(i, r) \<in> set (st_commands (save_rows uid suite ps st))" for i r
  proof (cases "(i, r) \<in> set (st_commands st)")
    case True
    then have "cw_owner_id r \<in> fst ` set (st_items st)" using assms(2) unfolding store_ok_def by blast
    then show ?thesis by (simp add: save_rows_def image_Un)
  next
    case False
    then have "(i, r) \<in> set (saved_commands uid ps ?n)" using that by (simp add: save_rows_def)
    from saved_commands_range [OF this, of suite] show ?thesis by (auto simp: save_rows_def)
  qed
  moreover have "st_supply (save_rows uid suite ps st) = ?k" by (simp add: save_rows_def)
  ultimately show ?thesis unfolding store_ok_def by auto
qed

subsection \<open>What a response shows of a suite\<close>

definition suite_view :: "constant_db \<Rightarrow> string \<Rightarrow> (bool \<times> pyval) list" where
  "suite_view db suite =
     map (\<lambda>i. (sr_kind (snd i) = ''hook'', PDict (serialize_item db i))) (get_all_by_suite_id suite (cd_items db))"

definition view_part :: "bool \<Rightarrow> (bool \<times> pyval) list \<Rightarrow> pyval list" where
  "view_part b view = map snd (filter (\<lambda>(h, v). h = b) view)"


text \<open>Two tables that agree on the rows of a suite and on the commands of its items show the same.\<close>

lemma suite_view_cong:
  assumes "rows_where (\<lambda>r. sr_test_suite_id r = suite) (cd_items db1) =
      rows_where (\<lambda>r. sr_test_suite_id r = suite) (cd_items db2)"
    and "\<And>i. i \<in> set (item_ids_of suite (cd_items db2)) \<Longrightarrow>
      rows_where (\<lambda>r. cw_owner_id r = i) (cd_item_commands db1) = rows_where (\<lambda>r. cw_owner_id r = i) (cd_item_commands db2)"
  shows "suite_view db1 suite = suite_view db2 suite"
proof -
  have items: "get_all_by_suite_id suite (cd_items db1) = get_all_by_suite_id suite (cd_items db2)"
    using assms(1) by (simp add: get_all_by_suite_id_def)
  have "serialize_item db1 x = serialize_item db2 x" if "x \<in> set (get_all_by_suite_id suite (cd_items db2))" for x
  proof -
    have "fst x \<in> set (item_ids_of suite (cd_items db2))"
      using that by (auto simp: get_all_by_suite_id_def item_ids_of_def)
    from assms(2) [OF this] show ?thesis by (simp add: serialize_item_def get_all_by_owner_id_def)
  qed
  then show ?thesis unfolding suite_view_def items by simp
qed

subsection \<open>The view of a saved suite\<close>

definition requested :: "(suite_item_dto \<times> int) list \<Rightarrow> (pydict \<times> pydict list) list" where
  "requested ps = map (\<lambda>(d, p). requested_item d p) ps"

lemma view_part_content:
  "map item_content (view_part b (suite_view db suite)) =
   map (read_item (cd_item_commands db))
     (filter (\<lambda>i. (sr_kind (snd i) = ''hook'') = b) (get_all_by_suite_id suite (cd_items db)))"
  by (simp add: view_part_def suite_view_def filter_map comp_def item_content_serialized)

lemma placed_items_of:
  assumes "valid_suite dto"
  shows "list_all (\<lambda>(d, p). valid_item d \<and> si_kind d = ''hook'') (placed_hooks (ts_hooks dto) phases)"
    and "list_all (\<lambda>(d, p). valid_item d \<and> si_kind d = ''test'') (placed_tests (ts_tests dto) k)"
proof -
  have "d \<in> set (ts_hooks dto)" if "first_hook (ts_hooks dto) phase = Some d" for d phase
    using that by (auto simp: first_hook_def find_Some_iff)
  then show "list_all (\<lambda>(d, p). valid_item d \<and> si_kind d = ''hook'') (placed_hooks (ts_hooks dto) phases)"
    using assms by (auto simp: valid_suite_def placed_hooks_def list_all_iff map_filter_def)
  show "list_all (\<lambda>(d, p). valid_item d \<and> si_kind d = ''test'') (placed_tests (ts_tests dto) k)"
    using assms by (auto simp: valid_suite_def placed_tests_def list_all_iff set_zip)
qed

lemma filter_saved_items:
  "list_all (\<lambda>(d, p). si_kind d = ''hook'') ps \<Longrightarrow>
     filter (\<lambda>i. (sr_kind (snd i) = ''hook'') = b) (saved_items uid suite ps n) = (if b then saved_items uid suite ps n else [])"
  "list_all (\<lambda>(d, p). si_kind d = ''test'') ps \<Longrightarrow>
     filter (\<lambda>i. (sr_kind (snd i) = ''hook'') = b) (saved_items uid suite ps n) = (if b then [] else saved_items uid suite ps n)"
  by (induction uid suite ps n rule: saved_items.induct) (auto simp: build_suite_item_entity_def)

lemma length_saved_items [simp]: "length (saved_items uid suite ps n) = length ps"
  by (induction uid suite ps n rule: saved_items.induct) auto

lemma saved_positions: "map (\<lambda>(i, r). sr_position r) (saved_items uid suite ps n) = map snd ps"
  by (induction uid suite ps n rule: saved_items.induct) (auto simp: build_suite_item_entity_def)

lemma sorted_by_position:
  "sorted_wrt (<) (map (\<lambda>(i, r). sr_position r) xs) \<Longrightarrow> sorted (map (\<lambda>(i, r). (sr_position r, i)) xs)"
  by (induction xs) auto

lemma saved_tests_sorted:
  "sorted (map (\<lambda>(i, r). (sr_position r, i)) (saved_items uid suite (placed_tests ts k) n))"
  by (rule sorted_by_position) (simp add: saved_positions placed_tests_def sorted_wrt_map sorted_wrt_upt)

lemma rows_of_saved: "rows_where (\<lambda>r. sr_test_suite_id r = suite) (saved_items uid suite ps n) = saved_items uid suite ps n"
  using saved_items_range [of _ _ uid suite ps n] by (auto simp: rows_where_def intro!: filter_True)

lemma saved_view:
  assumes "inj uid" and "store_ok uid st" and "valid_suite dto"
    and none: "rows_where (\<lambda>r. sr_test_suite_id r = suite) (st_items st) = []"
    and db: "cd_items db = st_items (save_rows uid suite (placed_items dto) st)"
      "cd_item_commands db = st_commands (save_rows uid suite (placed_items dto) st)"
  shows "map item_content (view_part False (suite_view db suite)) = requested (placed_tests (ts_tests dto) 1)"
    and "mset (map item_content (view_part True (suite_view db suite))) = mset (requested (placed_hooks (ts_hooks dto) hook_phases))"
proof -
  let ?H = "placed_hooks (ts_hooks dto) hook_phases" and ?T = "placed_tests (ts_tests dto) 1"
  let ?n = "st_supply st" and ?k = "\<lambda>(i, r). (sr_position r, i)"
  let ?hs = "saved_items uid suite ?H ?n" and ?ts = "saved_items uid suite ?T (?n + saved_ids ?H)"
  let ?read = "read_item (cd_item_commands db)"
  note valid = placed_items_of(1) [OF assms(3), of hook_phases] placed_items_of(2) [OF assms(3), of 1]
  have "list_all (\<lambda>(d, p). valid_item d) (placed_items dto)"
    using valid by (auto simp: placed_items_def list_all_iff)
  from read_saved_items [OF assms(1) store_unowned [OF assms(2)] this]
  have "map ?read (?hs @ ?ts) = requested (?H @ ?T)"
    by (simp add: db save_rows_def placed_items_def requested_def)
  then have read: "map ?read ?hs = requested ?H" "map ?read ?ts = requested ?T"
    by (simp_all add: requested_def)
  have all: "get_all_by_suite_id suite (cd_items db) = sort_key ?k (?hs @ ?ts)"
    using none rows_of_saved [of suite uid "placed_items dto" ?n]
    by (simp add: get_all_by_suite_id_def db save_rows_def placed_items_def)
  have kinds: "list_all (\<lambda>(d, p). si_kind d = ''hook'') ?H" "list_all (\<lambda>(d, p). si_kind d = ''test'') ?T"
    using valid by (auto simp: list_all_iff)
  have parts: "filter (\<lambda>i. (sr_kind (snd i) = ''hook'') = False) (?hs @ ?ts) = ?ts"
      "filter (\<lambda>i. (sr_kind (snd i) = ''hook'') = True) (?hs @ ?ts) = ?hs"
    by (simp_all only: filter_append filter_saved_items(1) [OF kinds(1)] filter_saved_items(2) [OF kinds(2)]
        if_True if_False append_Nil append_Nil2)
  show "map item_content (view_part False (suite_view db suite)) = requested ?T"
    unfolding view_part_content all filter_sort parts sort_key_fixed [OF saved_tests_sorted] by (rule read(2))
  show "mset (map item_content (view_part True (suite_view db suite))) = mset (requested ?H)"
    unfolding view_part_content all filter_sort parts by (simp flip: read(1))
qed

lemma other_view:
  assumes "inj uid" and "store_ok uid st" and "j \<noteq> suite"
    and db: "cd_items db = st_items (save_rows uid suite ps st)" "cd_item_commands db = st_commands (save_rows uid suite ps st)"
    and db0: "cd_items db0 = st_items st" "cd_item_commands db0 = st_commands st"
  shows "suite_view db j = suite_view db0 j"
proof (rule suite_view_cong)
  have "rows_where (\<lambda>r. sr_test_suite_id r = j) (saved_items uid suite ps (st_supply st)) = []"
    using saved_items_range [of _ _ uid suite ps "st_supply st"] assms(3) by (force simp: rows_where_def filter_empty_conv)
  then show "rows_where (\<lambda>r. sr_test_suite_id r = j) (cd_items db) = rows_where (\<lambda>r. sr_test_suite_id r = j) (cd_items db0)"
    by (simp add: db db0 save_rows_def)
next
  fix i
  assume "i \<in> set (item_ids_of j (cd_items db0))"
  then have "i \<in> fst ` set (st_items st)" by (auto simp: item_ids_of_def rows_where_def db0)
  moreover have "uid m \<notin> fst ` set (st_items st)" if "st_supply st \<le> m" for m
    using assms(2) that unfolding store_ok_def by blast
  ultimately have "i \<notin> uid ` {st_supply st ..< st_supply st + saved_ids ps}" by force
  then have "i \<notin> fst ` set (saved_items uid suite ps (st_supply st))"
    using saved_item_ids [of uid suite ps "st_supply st"] by blast
  then have "rows_where (\<lambda>r. cw_owner_id r = i) (saved_commands uid ps (st_supply st)) = []"
    using saved_commands_range [of _ _ uid ps "st_supply st" suite] by (force simp: rows_where_def filter_empty_conv)
  then show "rows_where (\<lambda>r. cw_owner_id r = i) (cd_item_commands db) = rows_where (\<lambda>r. cw_owner_id r = i) (cd_item_commands db0)"
    by (simp add: db db0 save_rows_def)
qed

subsection \<open>Deleting the items of a suite\<close>

lemma item_of_one_suite:
  assumes "wf_table t" and "j \<noteq> suite" and "i \<in> set (item_ids_of j t)"
  shows "i \<notin> set (item_ids_of suite t)"
proof
  assume "i \<in> set (item_ids_of suite t)"
  with assms(3) obtain r q where "(i, r) \<in> set t" "sr_test_suite_id r = j" "(i, q) \<in> set t" "sr_test_suite_id q = suite"
    by (auto simp: item_ids_of_def rows_where_def)
  with assms(1,2) show False unfolding wf_table_def by (metis eq_key_imp_eq_value)
qed

lemma deleted_items_none:
  "rows_where (\<lambda>r. sr_test_suite_id r = suite) (cd_items (snd (delete_suite_items suite db))) = []"
  by (simp add: delete_suite_items_def Let_def rows_where_deleted filter_empty_conv)

lemma deleted_items_view:
  assumes "wf_table (cd_items db)" and "j \<noteq> suite"
  shows "suite_view (snd (delete_suite_items suite db)) j = suite_view db j"
proof (rule suite_view_cong)
  show "rows_where (\<lambda>r. sr_test_suite_id r = j) (cd_items (snd (delete_suite_items suite db))) =
      rows_where (\<lambda>r. sr_test_suite_id r = j) (cd_items db)"
    using assms(2) by (auto simp: delete_suite_items_def Let_def delete_where_def rows_where_def split_def intro!: filter_cong)
next
  fix i
  assume "i \<in> set (item_ids_of j (cd_items db))"
  from item_of_one_suite [OF assms this]
  show "rows_where (\<lambda>r. cw_owner_id r = i) (cd_item_commands (snd (delete_suite_items suite db))) =
      rows_where (\<lambda>r. cw_owner_id r = i) (cd_item_commands db)"
    by (auto simp: delete_suite_items_def Let_def delete_where_def rows_where_def split_def intro!: filter_cong)
qed

lemma wf_delete_where: "wf_table t \<Longrightarrow> wf_table (snd (delete_where p t))"
  by (simp add: delete_where_def wf_table_filter)

lemma set_delete_where: "set (snd (delete_where p t)) = {(i, r) \<in> set t. \<not> p r}"
  by (auto simp: delete_where_def)

lemma deleted_items_ok:
  assumes "store_ok uid \<lparr>st_items = cd_items db, st_commands = cd_item_commands db, st_supply = n\<rparr>" (is "store_ok uid ?st")
  shows "store_ok uid \<lparr>st_items = cd_items (snd (delete_suite_items suite db)),
    st_commands = cd_item_commands (snd (delete_suite_items suite db)), st_supply = n\<rparr>"
proof -
  let ?gone = "item_ids_of suite (cd_items db)"
  have "cw_owner_id r \<in> fst ` {(i, r) \<in> set (cd_items db). \<not> sr_test_suite_id r = suite}"
    if "(i, r) \<in> set (cd_item_commands db)" "cw_owner_id r \<notin> set ?gone" for i r
  proof -
    have "cw_owner_id r \<in> fst ` set (cd_items db)" using assms that(1) unfolding store_ok_def by auto
    then obtain q where "(cw_owner_id r, q) \<in> set (cd_items db)" by force
    then show ?thesis using that(2) by (force simp: item_ids_of_def rows_where_def)
  qed
  then show ?thesis
    using assms by (auto simp: store_ok_def delete_suite_items_def Let_def wf_delete_where set_delete_where)
qed

end
