(* ===== verification/Suite_Handlers.thy ===== *)
theory Suite_Handlers
  imports Suite_Api_Facts Executor_Facts
begin

section \<open>The handlers of test suites\<close>

text \<open>The theorems on saving, reading and deleting suites, over the facts on the rows.\<close>

subsection \<open>The parts of the state\<close>

lemma suite_state [simp]:
  "sd_db (set_db db s) = db" "sd_db (set_suites t s) = sd_db s"
  "rn_suites (sd_runner (set_db db s)) = rn_suites (sd_runner s)" "rn_suites (sd_runner (set_suites t s)) = t"
  "mc_ticks (sd_machine (set_db db s)) = mc_ticks (sd_machine s)"
  "mc_ticks (sd_machine (set_suites t s)) = mc_ticks (sd_machine s)"
  "suite_store_of (set_suites t s) = suite_store_of s"
  by (simp_all add: sd_db_def set_db_def set_machine_def sd_machine_def set_suites_def suite_store_of_def)

lemma put_store [simp]:
  "cd_items (sd_db (put_suite_store st s)) = st_items st"
  "cd_item_commands (sd_db (put_suite_store st s)) = st_commands st"
  "cd_definitions (sd_db (put_suite_store st s)) = cd_definitions (sd_db s)"
  "mc_ticks (sd_machine (put_suite_store st s)) = st_supply st"
  "rn_suites (sd_runner (put_suite_store st s)) = rn_suites (sd_runner s)"
  by (simp_all add: put_suite_store_def sd_db_def set_machine_def sd_machine_def)

lemma tick_state:
  "on_runner (on_machine next_tick) s = (Inr n, t) \<Longrightarrow>
   n = mc_ticks (sd_machine s) \<and> rn_suites (sd_runner t) = rn_suites (sd_runner s) \<and> sd_db t = sd_db s \<and>
   mc_ticks (sd_machine t) = Suc (mc_ticks (sd_machine s))"
  by (auto simp: on_runner_def on_machine_def next_tick_def sd_db_def sd_machine_def)

lemma tick_ok: "\<exists>t. on_runner (on_machine next_tick) s = (Inr (mc_ticks (sd_machine s)), t)"
  by (simp add: on_runner_def on_machine_def next_tick_def sd_machine_def)

lemma session_succeeds: "schedule_session body s = (Inr r, t) \<longleftrightarrow> body s = (Inr r, t)"
  by (auto simp: schedule_session_def split: prod.splits sum.splits)

lemma rebuild_keeps:
  "rebuild_suite_definitions sv suite s = (Inr u, t) \<Longrightarrow>
   cd_items (sd_db t) = cd_items (sd_db s) \<and> cd_item_commands (sd_db t) = cd_item_commands (sd_db s) \<and>
   rn_suites (sd_runner t) = rn_suites (sd_runner s) \<and> mc_ticks (sd_machine t) = mc_ticks (sd_machine s)"
  by (auto simp: rebuild_suite_definitions_def rebuild_Inr split: sum.splits)

lemma find_view:
  "fst (find_test_suite_api suite s) =
     (case get_by_id suite (rn_suites (sd_runner s)) of
        None \<Rightarrow> Inl (no_test_suite suite)
      | Some r \<Rightarrow> Inr [(''id'', PStr suite), (''description'', PStr (su_description r)),
          (''hooks'', PList (view_part True (suite_view (sd_db s) suite))),
          (''tests'', PList (view_part False (suite_view (sd_db s) suite)))])"
proof -
  have part: "map (PDict \<circ> serialize_item db) (filter (\<lambda>i. (sr_kind (snd i) = ''hook'') = b)
      (get_all_by_suite_id suite (cd_items db))) = view_part b (suite_view db suite)" for b db
    by (simp add: view_part_def suite_view_def filter_map comp_def)
  show ?thesis
    using part [of _ True] part [of _ False]
    by (simp add: find_test_suite_api_def schedule_session_def ebind_def eget_def Let_def split: option.splits)
qed

subsection \<open>Saving\<close>

lemma save_items_rows:
  "save_suite_items sv suite dto s = (Inr u, t) \<Longrightarrow>
   t = put_suite_store (save_rows (en_uid (se_env sv)) suite (placed_items dto) (suite_store_of s)) s"
  by (auto simp: save_suite_items_def dest: insert_suite_items_rows split: sum.splits)

lemma store_of_put [simp]: "suite_store_of (put_suite_store st s) = st"
  by (simp add: suite_store_of_def)

lemma insert_suite_run:
  assumes "insert_suite sv description s = (Inr suite, t)"
  shows "suite = en_uid (se_env sv) (mc_ticks (sd_machine s)) \<and> suite \<notin> fst ` set (rn_suites (sd_runner s)) \<and>
    rn_suites (sd_runner t) = rn_suites (sd_runner s) @ [(suite, \<lparr>su_description = description\<rparr>)] \<and>
    sd_db t = sd_db s \<and> mc_ticks (sd_machine t) = Suc (mc_ticks (sd_machine s))"
proof -
  obtain n u where u: "on_runner (on_machine next_tick) s = (Inr n, u)"
      "(case insert_row (en_uid (se_env sv) n) \<lparr>su_description = description\<rparr> (rn_suites (sd_runner u)) of
         Inl e \<Rightarrow> (Inl e, u) | Inr t \<Rightarrow> (Inr (en_uid (se_env sv) n), set_suites t u)) = (Inr suite, t)"
    using assms unfolding insert_suite_def ebind_eq_Inr_iff by blast
  from u(2) show ?thesis using tick_state [OF u(1)] by (auto simp: insert_row_Inr split: sum.splits)
qed

lemma insert_run:
  assumes "insert_test_suite_api sv dto s = (Inr r, t)"
  defines "suite \<equiv> en_uid (se_env sv) (mc_ticks (sd_machine s))"
    and "st \<equiv> (suite_store_of s)\<lparr>st_supply := Suc (mc_ticks (sd_machine s))\<rparr>"
  shows "r = saved_response suite ''Test suite added'' \<and>
    suite \<notin> fst ` set (rn_suites (sd_runner s)) \<and>
    rn_suites (sd_runner t) = rn_suites (sd_runner s) @ [(suite, \<lparr>su_description = ts_description dto\<rparr>)] \<and>
    suite_store_of t = save_rows (en_uid (se_env sv)) suite (placed_items dto) st"
proof -
  obtain s1 s2 x where s1: "insert_suite sv (ts_description dto) s = (Inr x, s1)"
    and s2: "save_suite_items sv x dto s1 = (Inr (), s2)"
    and t: "rebuild_suite_definitions sv x s2 = (Inr (), t)" and r: "r = saved_response x ''Test suite added''"
    using assms(1) by (auto simp: insert_test_suite_api_def session_succeeds ebind_eq_Inr_iff check_suite_graph_def)
  note s1 = insert_suite_run [OF s1]
  have x: "x = suite" and st: "suite_store_of s1 = st"
    using s1 by (simp_all add: suite_def st_def suite_store_of_def)
  show ?thesis
    using s1 rebuild_keeps [OF t] save_items_rows [OF s2] unfolding x st r
    by (auto simp: suite_store_of_def)
qed

definition deleted_store :: "string \<Rightarrow> 'w scheduler \<Rightarrow> suite_store" where
  "deleted_store suite s =
     \<lparr>st_items = cd_items (snd (delete_suite_items suite (sd_db s))),
      st_commands = cd_item_commands (snd (delete_suite_items suite (sd_db s))),
      st_supply = mc_ticks (sd_machine s)\<rparr>"

lemma update_run:
  assumes "update_test_suite_api sv suite dto s = (Inr r, t)"
  shows "r = saved_response suite ''Test suite updated'' \<and> suite \<in> fst ` set (rn_suites (sd_runner s)) \<and>
    rn_suites (sd_runner t) = update_row suite (\<lambda>r. r\<lparr>su_description := ts_description dto\<rparr>) (rn_suites (sd_runner s)) \<and>
    suite_store_of t = save_rows (en_uid (se_env sv)) suite (placed_items dto) (deleted_store suite s)"
proof -
  obtain s1 s2 where s1: "update_suite suite (ts_description dto) s = (Inr (), s1)"
    and s2: "save_suite_items sv suite dto (set_db (snd (delete_suite_items suite (sd_db s1))) s1) = (Inr (), s2)"
    and t: "rebuild_suite_definitions sv suite s2 = (Inr (), t)" and r: "r = saved_response suite ''Test suite updated''"
    using assms by (auto simp: update_test_suite_api_def session_succeeds ebind_eq_Inr_iff check_suite_graph_def)
  have s1: "s1 = set_suites (update_row suite (\<lambda>r. r\<lparr>su_description := ts_description dto\<rparr>) (rn_suites (sd_runner s))) s"
    and row: "get_by_id suite (rn_suites (sd_runner s)) \<noteq> None"
    using s1 by (auto simp: update_suite_def split: option.splits)
  have "suite_store_of (set_db (snd (delete_suite_items suite (sd_db s1))) s1) = deleted_store suite s"
    by (simp add: s1 suite_store_of_def deleted_store_def)
  then show ?thesis
    using rebuild_keeps [OF t] save_items_rows [OF s2] s1 row
    by (auto simp: r suite_store_of_def get_by_id_def map_of_eq_None_iff)
qed

lemma store_of_state:
  "cd_items (sd_db s) = st_items (suite_store_of s)" "cd_item_commands (sd_db s) = st_commands (suite_store_of s)"
  by (simp_all add: suite_store_of_def)

lemma fresh_suite_unused:
  assumes "refs_ok uid s" and "suite \<notin> fst ` set (rn_suites (sd_runner s))"
  shows "rows_where (\<lambda>r. sr_test_suite_id r = suite) (cd_items (sd_db s)) = []"
  using assms unfolding refs_ok_def rows_where_def by (auto simp: filter_empty_conv)

lemma deleted_store_ok: "refs_ok uid s \<Longrightarrow> store_ok uid (deleted_store suite s)"
  using deleted_items_ok [of uid "sd_db s" "mc_ticks (sd_machine s)" suite]
  by (simp add: refs_ok_def deleted_store_def suite_store_of_def)

text \<open>Both handlers save the rows of the request over tables without items of the suite.\<close>

lemma saved_over:
  assumes "refs_ok (en_uid (se_env sv)) s"
    and "insert_test_suite_api sv dto s = (Inr r, t) \<and> r = saved_response suite ''Test suite added'' \<or>
      update_test_suite_api sv suite dto s = (Inr r, t)"
  shows "\<exists>st db0. suite_store_of t = save_rows (en_uid (se_env sv)) suite (placed_items dto) st \<and>
    store_ok (en_uid (se_env sv)) st \<and> rows_where (\<lambda>r. sr_test_suite_id r = suite) (st_items st) = [] \<and>
    cd_items db0 = st_items st \<and> cd_item_commands db0 = st_commands st \<and>
    (\<forall>j. j \<noteq> suite \<longrightarrow> suite_view db0 j = suite_view (sd_db s) j) \<and>
    (\<forall>j. get_by_id j (rn_suites (sd_runner t)) =
       (if j = suite then Some \<lparr>su_description = ts_description dto\<rparr> else get_by_id j (rn_suites (sd_runner s))))"
  using assms(2)
proof
  let ?uid = "en_uid (se_env sv)"
  assume run: "insert_test_suite_api sv dto s = (Inr r, t) \<and> r = saved_response suite ''Test suite added''"
  let ?st = "(suite_store_of s)\<lparr>st_supply := Suc (mc_ticks (sd_machine s))\<rparr>"
  note ins = insert_run [OF conjunct1 [OF run]]
  have suite: "suite = ?uid (mc_ticks (sd_machine s))" using ins run by (auto simp: saved_response_def)
  then have new: "suite \<notin> fst ` set (rn_suites (sd_runner s))" using ins by simp
  have "store_ok ?uid ?st" using assms(1) by (auto simp: refs_ok_def store_ok_def suite_store_of_def)
  moreover have "get_by_id suite (rn_suites (sd_runner s)) = None" using new by (simp add: get_by_id_def map_of_eq_None_iff)
  ultimately show ?thesis
    using ins suite fresh_suite_unused [OF assms(1) new]
    by (intro exI [of _ ?st] exI [of _ "sd_db s"])
      (auto simp: suite_store_of_def get_by_id_def map_of_snoc simp del: map_of_append split: option.splits)
next
  let ?uid = "en_uid (se_env sv)"
  assume run: "update_test_suite_api sv suite dto s = (Inr r, t)"
  note upd = update_run [OF run]
  have wf: "wf_table (cd_items (sd_db s))" using assms(1) by (simp add: refs_ok_def store_ok_def suite_store_of_def)
  have "map_option (\<lambda>r. r\<lparr>su_description := ts_description dto\<rparr>) (get_by_id suite (rn_suites (sd_runner s))) =
      Some \<lparr>su_description = ts_description dto\<rparr>"
    using upd by (cases "get_by_id suite (rn_suites (sd_runner s))") (auto simp: get_by_id_def map_of_eq_None_iff)
  then show ?thesis
    using upd deleted_store_ok [OF assms(1), of suite] deleted_items_view [OF wf, of _ suite] deleted_items_none [of suite "sd_db s"]
    by (intro exI [of _ "deleted_store suite s"] exI [of _ "snd (delete_suite_items suite (sd_db s))"])
      (auto simp: deleted_store_def get_by_id_def map_of_update_row)
qed

lemma find_same:
  assumes "get_by_id j (rn_suites (sd_runner t)) = get_by_id j (rn_suites (sd_runner s))"
    and "suite_view (sd_db t) j = suite_view (sd_db s) j"
  shows "fst (find_test_suite_api j t) = fst (find_test_suite_api j s)"
  unfolding find_view assms ..


subsection \<open>Deleting\<close>

lemma delete_run:
  assumes "delete_test_suite_api suite s = (Inr m, t)"
  shows "suite \<in> fst ` set (rn_suites (sd_runner s)) \<and>
    t = cascade_suite suite (set_suites (snd (delete_by_id suite (rn_suites (sd_runner s))))
          (set_db (snd (delete_suite_items suite (sd_db s))) s))"
  using assms
  by (auto simp: delete_test_suite_api_def session_succeeds delete_suite_def Let_def get_by_id_def
      dest: map_of_SomeD intro: rev_image_eqI split: option.splits if_splits)

lemma cascade_state [simp]:
  "sd_db (cascade_suite suite s) = sd_db s" "rn_suites (sd_runner (cascade_suite suite s)) = rn_suites (sd_runner s)"
  "mc_ticks (sd_machine (cascade_suite suite s)) = mc_ticks (sd_machine s)"
  "sd_schedules (cascade_suite suite s) = snd (delete_where (\<lambda>x. sh_test_suite_id x = suite) (sd_schedules s))"
  "rn_suite_runs (sd_runner (cascade_suite suite s)) =
     snd (delete_where (\<lambda>x. tr_test_suite_id x = suite) (rn_suite_runs (sd_runner s)))"
  by (simp_all add: cascade_suite_def sd_db_def sd_machine_def Let_def)

lemma deleted_definitions [simp]: "cd_definitions (snd (delete_suite_items suite db)) = cd_definitions db"
  by (simp add: delete_suite_items_def Let_def)

lemma insert_definitions:
  assumes "insert_test_suite_api sv dto s = (Inr r, t)" and "(i, d) \<in> set (cd_definitions (sd_db s))"
    and "df_suite_id d \<noteq> Some (en_uid (se_env sv) (mc_ticks (sd_machine s)))"
  shows "i \<notin> fst ` set (rows_where (\<lambda>x. df_suite_id x = Some (en_uid (se_env sv) (mc_ticks (sd_machine s))))
    (cd_definitions (sd_db t)))"
proof -
  obtain s1 s2 x where s1: "insert_suite sv (ts_description dto) s = (Inr x, s1)"
    and s2: "save_suite_items sv x dto s1 = (Inr (), s2)"
    and t: "rebuild_suite_definitions sv x s2 = (Inr (), t)"
    using assms(1) by (auto simp: insert_test_suite_api_def session_succeeds ebind_eq_Inr_iff check_suite_graph_def)
  let ?kept = "snd (delete_by_suite_id x (cd_definitions (sd_db s)))"
  have x: "x = en_uid (se_env sv) (mc_ticks (sd_machine s))" and defs: "cd_definitions (sd_db s2) = cd_definitions (sd_db s)"
    using insert_suite_run [OF s1] save_items_rows [OF s2] by simp_all
  obtain es u where es: "suite_entities (next_ids sv s2) (sd_db s2) x = Inr es" and u: "inserts es ?kept = Inr u"
      "cd_definitions (sd_db t) = u"
    using t defs by (auto simp: rebuild_suite_definitions_def rebuild_Inr split: sum.splits)
  have "(i, d) \<in> set ?kept" using assms(2,3) by (auto simp: kept_rows x)
  moreover have "\<forall>j \<in> fst ` set es. get_by_id j ?kept = None" using inserts_iff [of es ?kept] u(1) by auto
  ultimately have "i \<notin> fst ` set es" by (force simp: get_by_id_def map_of_eq_None_iff)
  moreover have "rows_where (\<lambda>r. df_suite_id r = Some x) (cd_definitions (sd_db t)) = es"
    using filter_suite(2) [OF suite_entities_suite [OF es]] u(2) inserts_append [OF u(1)]
    by (auto simp: rows_where_def kept_rows filter_empty_conv)
  ultimately show ?thesis by (simp add: x)
qed


subsection \<open>The references are an invariant\<close>

datatype suite_request = Insert_Suite test_suite_dto | Update_Suite string test_suite_dto | Delete_Suite string

definition serve_suite :: "'w schedule_env \<Rightarrow> suite_request \<Rightarrow> 'w scheduler \<Rightarrow> 'w scheduler" where
  "serve_suite sv q s =
     (case q of
        Insert_Suite dto \<Rightarrow> snd (insert_test_suite_api sv dto s)
      | Update_Suite i dto \<Rightarrow> snd (update_test_suite_api sv i dto s)
      | Delete_Suite i \<Rightarrow> snd (delete_test_suite_api i s))"

text \<open>A step never gives an id back to the supply.\<close>

definition ticks_up :: "('w scheduler, 'a) eff \<Rightarrow> bool" where
  "ticks_up m \<longleftrightarrow> (\<forall>s. mc_ticks (sd_machine s) \<le> mc_ticks (sd_machine (snd (m s))))"

lemma ticks_up_bind:
  assumes "ticks_up m" and "\<And>x. ticks_up (f x)"
  shows "ticks_up (ebind m f)"
  unfolding ticks_up_def
proof
  fix s
  obtain r u where u: "m s = (r, u)" by fastforce
  then have "mc_ticks (sd_machine s) \<le> mc_ticks (sd_machine u)" using assms(1) unfolding ticks_up_def by (metis snd_conv)
  then show "mc_ticks (sd_machine s) \<le> mc_ticks (sd_machine (snd (ebind m f s)))"
    using assms(2) u unfolding ticks_up_def by (cases r) (auto simp: ebind_def intro: order_trans)
qed

lemma ticks_up_insert: "ticks_up (insert_suite sv description)"
  by (simp add: ticks_up_def insert_suite_def ebind_def on_runner_def on_machine_def next_tick_def sd_machine_def
      set_suites_def split: sum.splits)

lemma ticks_up_steps:
  "ticks_up (check_suite_graph sv dto)" "ticks_up (update_suite i description)"
  "ticks_up (rebuild_suite_definitions sv i)" "ticks_up (ereturn x)" "ticks_up (emodify (\<lambda>s. set_db (f s) s))"
  by (auto simp: ticks_up_def check_suite_graph_def update_suite_def rebuild_suite_definitions_def
      split: option.splits sum.splits)

lemma ticks_up_save: "ticks_up (save_suite_items sv i dto)"
  by (auto simp: ticks_up_def save_suite_items_def save_rows_def suite_store_of_def
      dest: insert_suite_items_rows split: sum.splits)

lemma ticks_up_session: "ticks_up body \<Longrightarrow> ticks_up (schedule_session body)"
  unfolding ticks_up_def schedule_session_def rollback_def sd_machine_def
  by (auto simp: Let_def split: prod.splits sum.splits) (metis snd_conv)+

lemmas handler_defs = insert_test_suite_api_def update_test_suite_api_def delete_test_suite_api_def

lemma ticks_up_delete: "ticks_up (\<lambda>s. case delete_suite suite s of (n, t) \<Rightarrow>
    if n = 0 then (Inl (no_test_suite suite), s) else (Inr (show_nat n @ '' test suite(s) deleted''), t))"
  by (auto simp: ticks_up_def delete_suite_def Let_def split: option.splits)

lemma ticks_up_handlers:
  "ticks_up (insert_test_suite_api sv dto)" "ticks_up (update_test_suite_api sv i dto)" "ticks_up (delete_test_suite_api i)"
  unfolding handler_defs
  by (intro ticks_up_session ticks_up_bind ticks_up_steps ticks_up_insert ticks_up_save ticks_up_delete)+

text \<open>A handler that raises leaves the tables as they were.\<close>

lemma session_raised:
  "schedule_session body s = (Inl e, t) \<Longrightarrow>
   sd_db t = sd_db s \<and> rn_suites (sd_runner t) = rn_suites (sd_runner s)"
  by (auto simp: schedule_session_def rollback_def sd_db_def sd_machine_def Let_def split: prod.splits sum.splits)

lemma refs_ok_raised:
  assumes "refs_ok uid s" and "schedule_session body s = (Inl e, t)" and "ticks_up (schedule_session body)"
  shows "refs_ok uid t"
proof -
  have "mc_ticks (sd_machine s) \<le> mc_ticks (sd_machine t)" using assms(2,3) unfolding ticks_up_def by (metis snd_conv)
  then show ?thesis
    using assms(1) session_raised [OF assms(2)] unfolding refs_ok_def store_ok_def suite_store_of_def by (auto dest: order_trans)
qed

lemma refs_ok_after_error:
  "h s = (Inl e, t) \<Longrightarrow> h = schedule_session body \<Longrightarrow> ticks_up h \<Longrightarrow> refs_ok uid s \<Longrightarrow> refs_ok uid t"
  using refs_ok_raised by metis

lemma refs_ok_saved:
  assumes "inj uid" and "store_ok uid st" and "suite_store_of t = save_rows uid suite ps st"
    and "wf_table (rn_suites (sd_runner t))" and "suite \<in> fst ` set (rn_suites (sd_runner t))"
    and "\<And>m. st_supply st \<le> m \<Longrightarrow> uid m \<notin> fst ` set (rn_suites (sd_runner t))"
    and "\<And>i r. (i, r) \<in> set (st_items st) \<Longrightarrow> sr_test_suite_id r \<in> fst ` set (rn_suites (sd_runner t))"
  shows "refs_ok uid t"
proof -
  have "store_ok uid (suite_store_of t)" unfolding assms(3) by (rule save_rows_ok [OF assms(1,2)])
  moreover have "mc_ticks (sd_machine t) = st_supply st + saved_ids ps"
    using arg_cong [OF assms(3), of st_supply] by (simp add: suite_store_of_def save_rows_def)
  moreover have "cd_items (sd_db t) = st_items st @ saved_items uid suite ps (st_supply st)"
    using arg_cong [OF assms(3), of st_items] by (simp add: suite_store_of_def save_rows_def)
  moreover have "sr_test_suite_id r = suite" if "(i, r) \<in> set (saved_items uid suite ps (st_supply st))" for i r
    using saved_items_range [OF that] by simp
  ultimately show ?thesis using assms(4-7) unfolding refs_ok_def by auto
qed

lemma insert_keeps_refs:
  assumes "inj (en_uid (se_env sv))" and "refs_ok (en_uid (se_env sv)) s" and "insert_test_suite_api sv dto s = (Inr r, t)"
  shows "refs_ok (en_uid (se_env sv)) t"
proof -
  let ?uid = "en_uid (se_env sv)"
  note run = insert_run [OF assms(3)]
  show ?thesis
  proof (rule refs_ok_saved [OF assms(1) _ conjunct2 [OF conjunct2 [OF conjunct2 [OF run]]]])
    show "store_ok ?uid ((suite_store_of s)\<lparr>st_supply := Suc (mc_ticks (sd_machine s))\<rparr>)"
      using assms(2) by (auto simp: refs_ok_def store_ok_def suite_store_of_def)
    show "wf_table (rn_suites (sd_runner t))" using run assms(2) by (simp add: refs_ok_def wf_table_def)
    show "?uid m \<notin> fst ` set (rn_suites (sd_runner t))"
      if "st_supply ((suite_store_of s)\<lparr>st_supply := Suc (mc_ticks (sd_machine s))\<rparr>) \<le> m" for m
      using that run assms(2) injD [OF assms(1), of m "mc_ticks (sd_machine s)"] unfolding refs_ok_def by auto
    show "sr_test_suite_id q \<in> fst ` set (rn_suites (sd_runner t))"
      if "(i, q) \<in> set (st_items ((suite_store_of s)\<lparr>st_supply := Suc (mc_ticks (sd_machine s))\<rparr>))" for i q
      using that run assms(2) unfolding refs_ok_def by (auto simp: suite_store_of_def)
  qed (use run in simp)
qed

lemma update_keeps_refs:
  assumes "inj (en_uid (se_env sv))" and "refs_ok (en_uid (se_env sv)) s" and "update_test_suite_api sv suite dto s = (Inr r, t)"
  shows "refs_ok (en_uid (se_env sv)) t"
proof -
  let ?uid = "en_uid (se_env sv)"
  note run = update_run [OF assms(3)]
  have "map fst (rn_suites (sd_runner t)) = map fst (rn_suites (sd_runner s))" using run by simp
  then have ids: "fst ` set (rn_suites (sd_runner t)) = fst ` set (rn_suites (sd_runner s))"
    and wf: "wf_table (rn_suites (sd_runner t))"
    using assms(2) unfolding refs_ok_def wf_table_def by (metis set_map, simp)
  show ?thesis
  proof (rule refs_ok_saved [OF assms(1) deleted_store_ok [OF assms(2)] conjunct2 [OF conjunct2 [OF conjunct2 [OF run]]] wf])
    show "sr_test_suite_id q \<in> fst ` set (rn_suites (sd_runner t))" if "(i, q) \<in> set (st_items (deleted_store suite s))" for i q
      using that assms(2) unfolding ids refs_ok_def
      by (auto simp: deleted_store_def delete_suite_items_def Let_def set_delete_where)
    show "suite \<in> fst ` set (rn_suites (sd_runner t))" unfolding ids using run by blast
    show "?uid m \<notin> fst ` set (rn_suites (sd_runner t))" if "st_supply (deleted_store suite s) \<le> m" for m
      using that assms(2) unfolding ids refs_ok_def deleted_store_def by simp
  qed
qed

lemma delete_keeps_refs:
  assumes "refs_ok uid s" and "delete_test_suite_api suite s = (Inr m, t)"
  shows "refs_ok uid t"
proof -
  note run = delete_run [OF assms(2)]
  have "suite_store_of t = deleted_store suite s" using run by (simp add: suite_store_of_def deleted_store_def)
  moreover have "store_ok uid (deleted_store suite s)" by (rule deleted_store_ok [OF assms(1)])
  moreover have suites: "rn_suites (sd_runner t) = filter (\<lambda>(i, r). i \<noteq> suite) (rn_suites (sd_runner s))"
    using run by (auto simp: delete_by_id_def get_by_id_def map_of_eq_None_iff split: option.splits)
  moreover have "sr_test_suite_id r \<in> fst ` set (rn_suites (sd_runner t))" if "(i, r) \<in> set (cd_items (sd_db t))" for i r
  proof -
    have "(i, r) \<in> set (cd_items (sd_db s))" "sr_test_suite_id r \<noteq> suite"
      using that run by (auto simp: delete_suite_items_def Let_def set_delete_where)
    then show ?thesis using assms(1) unfolding suites refs_ok_def by force
  qed
  ultimately show ?thesis
    using assms(1) run unfolding refs_ok_def by (auto simp: wf_table_filter)
qed

lemma serve_keeps_refs:
  assumes "inj (en_uid (se_env sv))" and "refs_ok (en_uid (se_env sv)) s"
  shows "refs_ok (en_uid (se_env sv)) (serve_suite sv q s)"
proof -
  show ?thesis
  proof (cases q)
    case (Insert_Suite dto)
    obtain r t where "insert_test_suite_api sv dto s = (r, t)" by fastforce
    then show ?thesis
      using Insert_Suite insert_keeps_refs [OF assms] refs_ok_after_error [OF _ insert_test_suite_api_def ticks_up_handlers(1) assms(2)]
      by (cases r) (auto simp: serve_suite_def)
  next
    case (Update_Suite i dto)
    obtain r t where "update_test_suite_api sv i dto s = (r, t)" by fastforce
    then show ?thesis
      using Update_Suite update_keeps_refs [OF assms] refs_ok_after_error [OF _ update_test_suite_api_def ticks_up_handlers(2) assms(2)]
      by (cases r) (auto simp: serve_suite_def)
  next
    case (Delete_Suite i)
    obtain r t where "delete_test_suite_api i s = (r, t)" by fastforce
    then show ?thesis
      using Delete_Suite delete_keeps_refs [OF assms(2)] refs_ok_after_error [OF _ delete_test_suite_api_def ticks_up_handlers(3) assms(2)]
      by (cases r) (auto simp: serve_suite_def)
  qed
qed

text \<open>
  C16. However suites are added, changed and deleted, successfully or not, every item belongs to a
  suite and every command to an item, ids are unique, and no id that is still to come is in use.
\<close>

theorem suite_references_kept:
  assumes "inj (en_uid (se_env sv))" and "refs_ok (en_uid (se_env sv)) s"
  shows "refs_ok (en_uid (se_env sv)) (foldl (\<lambda>s q. serve_suite sv q s) s qs)"
  using assms(2) by (induction qs arbitrary: s) (simp_all add: serve_keeps_refs [OF assms(1)])

subsection \<open>A shop suite\<close>

definition shop_env :: "nat schedule_env" where
  "shop_env = \<lparr>se_env = example_env, se_now = int, se_spawn = (\<lambda>th w. (Inr (), w)), se_iso = (\<lambda>d. [])\<rparr>"

definition no_suites :: "nat scheduler" where
  "no_suites =
     \<lparr>sd_runner = \<lparr>rn_machine = example_machine, rn_suites = [], rn_suite_runs = [], rn_item_execs = []\<rparr>,
      sd_schedules = [], sd_threads = []\<rparr>"

definition shop_test :: suite_item_dto where
  "shop_test =
     \<lparr>si_kind = ''test'', si_hook_phase = None, si_description = ''orders'', si_on_failure = ''ABORT'',
      si_commands = [\<lparr>cr_order = 1, cr_description = [], cr_cfg = [(''commandCode'', PStr ''initConstant''),
        (''definitionId'', PStr ''d1''), (''name'', PStr ''orders''), (''context'', PStr ''local''),
        (''value'', PDict [])]\<rparr>]\<rparr>"

definition shop_suite :: test_suite_dto where
  "shop_suite = \<lparr>ts_description = ''shop'', ts_tests = [shop_test], ts_hooks = []\<rparr>"

definition saved_shop :: "nat scheduler" where
  "saved_shop = snd (insert_test_suite_api shop_env shop_suite no_suites)"

lemma shop_ids: "inj (en_uid (se_env shop_env))"
proof (rule injI)
  fix m n :: nat
  assume "en_uid (se_env shop_env) m = en_uid (se_env shop_env) n"
  then have "length (replicate (Suc m) (CHR ''i'')) = length (replicate (Suc n) (CHR ''i''))"
    by (simp add: shop_env_def example_env_def)
  then show "m = n" by simp
qed

lemma no_suites_ok: "refs_ok uid no_suites"
  by (simp add: refs_ok_def store_ok_def suite_store_of_def no_suites_def sd_db_def sd_machine_def example_machine_def
      wf_table_def)

lemma shop_valid: "valid_suite shop_suite" by code_simp

lemma shop_saved:
  "insert_test_suite_api shop_env shop_suite no_suites = (Inr (saved_response ''i'' ''Test suite added''), saved_shop)"
proof -
  have "fst (insert_test_suite_api shop_env shop_suite no_suites) = Inr (saved_response ''i'' ''Test suite added'')"
    by code_simp
  then show ?thesis by (simp add: saved_shop_def prod_eq_iff)
qed

lemma shop_ok: "refs_ok (en_uid (se_env shop_env)) saved_shop"
  by (rule insert_keeps_refs [OF shop_ids no_suites_ok shop_saved])


lemma shop_deleted: "fst (delete_test_suite_api ''i'' saved_shop) = Inr ''1 test suite(s) deleted''"
proof -
  have "rn_suites (sd_runner saved_shop) = [(''i'', \<lparr>su_description = ''shop''\<rparr>)]"
    using insert_run [OF shop_saved] by (simp add: no_suites_def sd_machine_def example_machine_def shop_env_def
        example_env_def shop_suite_def)
  then show ?thesis
    by (simp add: delete_test_suite_api_def schedule_session_def delete_suite_def get_by_id_def Let_def)
      code_simp
qed

lemma shop_definition: "map fst (filter (\<lambda>(i, d). df_suite_id d = Some ''i'') (cd_definitions (sd_db saved_shop))) = [''d1'']"
  by code_simp

text \<open>The shop cannot be added again once it is deleted.\<close>

lemma shop_not_added_again:
  "fst (insert_test_suite_api shop_env shop_suite (snd (delete_test_suite_api ''i'' saved_shop))) =
     Inl (IntegrityError ''duplicate key value'')"
  by code_simp


theorem suite_references_kept_witness:
  "refs_ok (en_uid (se_env shop_env))
     (foldl (\<lambda>s q. serve_suite shop_env q s) no_suites [Insert_Suite shop_suite, Delete_Suite ''i'', Insert_Suite shop_suite])"
  by (rule suite_references_kept [OF shop_ids no_suites_ok])

end
