(* ===== verification/Suite_Runs_Api.thy ===== *)
theory Suite_Runs_Api
  imports Schedules
begin

section \<open>The API of suite runs\<close>

text \<open>
  \<open>elaborations/api/test_suite_executions_api.py\<close> with the queries of
  \<open>test_suite_execution_service.py\<close>, \<open>suite_item_execution_service.py\<close> and
  \<open>suite_item_command_execution_service.py\<close>. The rows are those of the runner with the columns only
  a reader looks at. \<open>math.ceil(total / page_size)\<close> is the division of integers rounded up, which it
  equals for fewer than \<open>2 ^ 53\<close> rows.
\<close>

subsection \<open>Rows\<close>

record stored_run = suite_run_row +
  vr_include_previous :: bool
  vr_started_at :: datetime

record stored_item_run = item_run_row +
  vi_started_at :: datetime

record stored_command_run = execution_row +
  vc_started_at :: datetime

record run_tables =
  rt_runs :: "stored_run table"
  rt_items :: "stored_item_run table"
  rt_commands :: "stored_command_run table"

subsection \<open>Queries\<close>

definition between :: "datetime option \<Rightarrow> datetime option \<Rightarrow> datetime \<Rightarrow> bool" where
  "between started_from started_to t \<longleftrightarrow>
     (case started_from of None \<Rightarrow> True | Some a \<Rightarrow> a \<le> t) \<and> (case started_to of None \<Rightarrow> True | Some b \<Rightarrow> t \<le> b)"

definition build_filtered_query ::
  "string option \<Rightarrow> string option \<Rightarrow> datetime option \<Rightarrow> datetime option \<Rightarrow> stored_run table \<Rightarrow> stored_run table" where
  "build_filtered_query suite status started_from started_to t =
     (let suite_id = opt_token suite; wanted = lower (opt_token status) in
      rows_where (\<lambda>r. (suite_id = [] \<or> tr_test_suite_id r = suite_id) \<and> (wanted = [] \<or> tr_status r = wanted) \<and>
        between started_from started_to (vr_started_at r)) t)"

definition newest_first :: "stored_run table \<Rightarrow> stored_run table" where
  "newest_first t = rev (sort_key (\<lambda>(i, r). (vr_started_at r, i)) t)"

definition get_runs_ordered :: "int \<Rightarrow> stored_run table \<Rightarrow> stored_run table" where
  "get_runs_ordered limit t = take (nat limit) (newest_first (build_filtered_query None None None None t))"

definition get_runs_by_suite_id :: "string \<Rightarrow> int \<Rightarrow> stored_run table \<Rightarrow> stored_run table" where
  "get_runs_by_suite_id suite limit t =
     take (nat limit) (newest_first (build_filtered_query (Some suite) None None None t))"

definition ceil_div :: "int \<Rightarrow> int \<Rightarrow> int" where
  "ceil_div a b = - ((- a) div b)"

definition search_runs ::
  "string option \<Rightarrow> string option \<Rightarrow> datetime option \<Rightarrow> datetime option \<Rightarrow> int \<Rightarrow> int \<Rightarrow> stored_run table \<Rightarrow>
     stored_run table \<times> int \<times> int" where
  "search_runs suite status started_from started_to page_size page_number t =
     (let size = max (if page_size = 0 then 20 else page_size) 1;
          wanted = max (if page_number = 0 then 1 else page_number) 1;
          found = build_filtered_query suite status started_from started_to t;
          matched = int (length found);
          resolved = min wanted (max 1 (ceil_div matched size));
          offset = (resolved - 1) * size
      in (take (nat size) (drop (nat offset) (newest_first found)), matched, resolved))"

definition items_of_run :: "string \<Rightarrow> stored_item_run table \<Rightarrow> stored_item_run table" where
  "items_of_run run t =
     sort_key (\<lambda>(i, r). (ie_position r, vi_started_at r)) (rows_where (\<lambda>r. ie_test_suite_execution_id r = run) t)"

definition commands_of_item :: "string \<Rightarrow> stored_command_run table \<Rightarrow> stored_command_run table" where
  "commands_of_item item t = sort_key (\<lambda>(i, r). xr_order r) (rows_where (\<lambda>r. xr_item_execution_id r = item) t)"

subsection \<open>Responses\<close>

definition serialize_operation_execution :: "(datetime \<Rightarrow> string) \<Rightarrow> string \<times> stored_command_run \<Rightarrow> pydict" where
  "serialize_operation_execution fmt x =
     (let r = snd x in
      [(''id'', PStr (fst x)), (''test_suite_execution_id'', PStr (xr_run_id r)),
       (''suite_item_execution_id'', PStr (xr_item_execution_id r)), (''suite_item_id'', opt_json (xr_item_id r)),
       (''suite_item_command_id'', opt_json (xr_command_id r)), (''command_description'', PStr (xr_description r)),
       (''command_order'', PInt (xr_order r)), (''status'', PStr (xr_status r)),
       (''error_message'', opt_json (xr_error_message r)), (''started_at'', PStr (fmt (vc_started_at r))),
       (''finished_at'', opt_json (xr_finished_at r))])"

definition serialize_item_execution ::
  "(datetime \<Rightarrow> string) \<Rightarrow> run_tables \<Rightarrow> string \<times> stored_item_run \<Rightarrow> pydict" where
  "serialize_item_execution fmt t x =
     (let r = snd x in
      [(''id'', PStr (fst x)), (''test_suite_execution_id'', PStr (ie_test_suite_execution_id r)),
       (''suite_item_id'', PStr (ie_suite_item_id r)), (''item_kind'', PStr (ie_item_kind r)),
       (''hook_phase'', opt_json (ie_hook_phase r)), (''item_description'', PStr (ie_item_description r)),
       (''position'', PInt (ie_position r)), (''status'', PStr (ie_status r)),
       (''error_message'', opt_json (ie_error_message r)), (''started_at'', PStr (fmt (vi_started_at r))),
       (''finished_at'', opt_json (ie_finished_at r)),
       (''commands'', PList (map (PDict \<circ> serialize_operation_execution fmt) (commands_of_item (fst x) (rt_commands t))))])"

definition serialize_test_suite_execution ::
  "(datetime \<Rightarrow> string) \<Rightarrow> run_tables \<Rightarrow> string \<times> stored_run \<Rightarrow> pydict" where
  "serialize_test_suite_execution fmt t x =
     (let r = snd x in
      [(''id'', PStr (fst x)), (''test_suite_id'', PStr (tr_test_suite_id r)),
       (''test_suite_description'', PStr (tr_test_suite_description r)), (''status'', PStr (tr_status r)),
       (''invocation_id'', opt_json (tr_invocation_id r)), (''vars_init_json'', tr_vars_init_json r),
       (''result_json'', tr_result_json r), (''include_previous'', PBool (vr_include_previous r)),
       (''requested_test_id'', opt_json (tr_requested_test_id r)), (''error_message'', opt_json (tr_error_message r)),
       (''started_at'', PStr (fmt (vr_started_at r))), (''finished_at'', opt_json (tr_finished_at r)),
       (''items'', PList (map (PDict \<circ> serialize_item_execution fmt t) (items_of_run (fst x) (rt_items t))))])"

subsection \<open>Handlers\<close>

definition no_suite_run :: "string \<Rightarrow> exc" where
  "no_suite_run i = AppError (''No test suite execution found with id [ '' @ i @ '' ]'')"

definition find_all_test_suite_executions_api ::
  "(datetime \<Rightarrow> string) \<Rightarrow> string option \<Rightarrow> int \<Rightarrow> run_tables \<Rightarrow> pyval result" where
  "find_all_test_suite_executions_api fmt suite limit t =
     rbind (guard (1 \<le> limit \<and> limit \<le> 500) (ValidationError ''limit'')) (\<lambda>_.
     Inr (PList (map (PDict \<circ> serialize_test_suite_execution fmt t)
       (if opt_token suite = [] then get_runs_ordered limit (rt_runs t)
        else get_runs_by_suite_id (opt_token suite) limit (rt_runs t)))))"

definition search_test_suite_executions_api ::
  "(datetime \<Rightarrow> string) \<Rightarrow> string option \<Rightarrow> string option \<Rightarrow> datetime option \<Rightarrow> datetime option \<Rightarrow> int \<Rightarrow> int \<Rightarrow>
     run_tables \<Rightarrow> pydict result" where
  "search_test_suite_executions_api fmt suite status started_from started_to page_size page_number t =
     rbind (guard (status = None \<or> the status \<in> {''success'', ''running'', ''error''}) (ValidationError ''status'')) (\<lambda>_.
     rbind (guard (1 \<le> page_size \<and> page_size \<le> 100) (ValidationError ''page_size'')) (\<lambda>_.
     rbind (guard (1 \<le> page_number) (ValidationError ''page_number'')) (\<lambda>_.
     (case search_runs suite status started_from started_to page_size page_number (rt_runs t) of
        (executions, matched, resolved) \<Rightarrow>
          Inr [(''items'', PList (map (PDict \<circ> serialize_test_suite_execution fmt t) executions)),
               (''total'', PInt matched), (''page_size'', PInt page_size), (''page_number'', PInt resolved),
               (''total_pages'', PInt (max 1 (ceil_div matched page_size)))]))))"

definition find_test_suite_execution_by_id_api ::
  "(datetime \<Rightarrow> string) \<Rightarrow> string \<Rightarrow> run_tables \<Rightarrow> pydict result" where
  "find_test_suite_execution_by_id_api fmt i t =
     (case get_by_id i (rt_runs t) of
        None \<Rightarrow> Inl (no_suite_run i)
      | Some r \<Rightarrow> Inr (serialize_test_suite_execution fmt t (i, r)))"

text \<open>The foreign keys delete the items and commands of a run with it.\<close>

definition cascade_run :: "string \<Rightarrow> run_tables \<Rightarrow> run_tables" where
  "cascade_run i t =
     (let items = map fst (rows_where (\<lambda>r. ie_test_suite_execution_id r = i) (rt_items t)) in
      t\<lparr>rt_items := snd (delete_where (\<lambda>r. ie_test_suite_execution_id r = i) (rt_items t)),
        rt_commands := snd (delete_where (\<lambda>r. xr_run_id r = i \<or> xr_item_execution_id r \<in> set items) (rt_commands t))\<rparr>)"

definition delete_test_suite_execution_by_id_api :: "string \<Rightarrow> run_tables \<Rightarrow> string result \<times> run_tables" where
  "delete_test_suite_execution_by_id_api i t =
     (case delete_by_id i (rt_runs t) of
        (n, runs) \<Rightarrow>
          if n = 0 then (Inl (no_suite_run i), t)
          else (Inr (show_nat n @ '' test suite execution(s) deleted''), cascade_run i (t\<lparr>rt_runs := runs\<rparr>)))"

subsection \<open>Pages\<close>

definition run_page ::
  "string option \<Rightarrow> string option \<Rightarrow> datetime option \<Rightarrow> datetime option \<Rightarrow> int \<Rightarrow> stored_run table \<Rightarrow> int \<Rightarrow>
     stored_run table" where
  "run_page suite status started_from started_to page_size t k =
     fst (search_runs suite status started_from started_to page_size k t)"

lemma ceil_div_bounds:
  assumes "0 < b"
  shows "a \<le> ceil_div a b * b" and "ceil_div a b * b < a + b"
proof -
  have "(- a) div b * b + (- a) mod b = - a" by (rule div_mult_mod_eq)
  moreover have "0 \<le> (- a) mod b" "(- a) mod b < b" using assms by simp_all
  moreover have "ceil_div a b * b = - ((- a) div b * b)" by (simp add: ceil_div_def)
  ultimately show "a \<le> ceil_div a b * b" "ceil_div a b * b < a + b" by linarith+
qed


lemma concat_pages:
  "0 < p \<Longrightarrow> length xs \<le> n * p \<Longrightarrow> concat (map (\<lambda>k. take p (drop (k * p) xs)) [0 ..< n]) = xs"
proof (induction n arbitrary: xs)
  case (Suc n)
  have "[0 ..< Suc n] = 0 # map Suc [0 ..< n]" by (simp add: upt_conv_Cons map_Suc_upt del: upt_Suc)
  then have "concat (map (\<lambda>k. take p (drop (k * p) xs)) [0 ..< Suc n]) =
      take p xs @ concat (map (\<lambda>k. take p (drop (k * p) (drop p xs))) [0 ..< n])"
    by (simp add: comp_def add.commute del: upt_Suc)
  also have "\<dots> = take p xs @ drop p xs" using Suc.IH [of "drop p xs"] Suc.prems by simp
  finally show ?case by simp
qed simp

lemma length_newest_first [simp]: "length (newest_first t) = length t"
  by (simp add: newest_first_def)

lemma newest_first_sorted:
  "sorted_wrt (\<lambda>(i, r) (j, q). (vr_started_at q, j) \<le> (vr_started_at r, i)) (newest_first t)"
proof -
  let ?k = "\<lambda>(i, r). (vr_started_at r, i)"
  have "sorted_wrt (\<lambda>x y. ?k x \<le> ?k y) (sort_key ?k t)" by (simp flip: sorted_wrt_map)
  then have "sorted_wrt (\<lambda>x y. ?k y \<le> ?k x) (newest_first t)" by (simp add: newest_first_def sorted_wrt_rev)
  then show ?thesis by (simp add: split_def)
qed

lemma mset_newest_first: "mset (newest_first t) = mset t"
  by (simp add: newest_first_def)

lemma search_runs_page:
  fixes suite status :: "string option" and started_from started_to :: "datetime option" and t :: "stored_run table"
  assumes "1 \<le> page_size" and "1 \<le> page_number"
  defines "found \<equiv> build_filtered_query suite status started_from started_to t"
  defines "pages \<equiv> max 1 (ceil_div (int (length found)) page_size)"
  shows "search_runs suite status started_from started_to page_size page_number t =
    (take (nat page_size) (drop (nat (min page_number pages - 1) * nat page_size) (newest_first found)),
     int (length found), min page_number pages)"
proof -
  have "nat ((min page_number pages - 1) * page_size) = nat (min page_number pages - 1) * nat page_size"
    using assms(1,2) by (intro nat_mult_distrib) (simp add: pages_def)
  moreover have "max (if page_size = 0 then 20 else page_size) 1 = page_size"
      "max (if page_number = 0 then 1 else page_number) 1 = page_number"
    using assms(1,2) by simp_all
  ultimately show ?thesis by (simp only: search_runs_def Let_def found_def [symmetric] pages_def [symmetric])
qed

text \<open>
  C33. The pages of a search partition the matching runs, newest first: page 1 to \<open>total_pages\<close>
  together are exactly those runs in this order, a page has at most \<open>page_size\<close> of them, a number
  beyond the last page gives the last page, and \<open>total_pages\<close> is at least 1 and no larger than
  needed.
\<close>

theorem search_pages_partition:
  assumes "1 \<le> page_size" and "1 \<le> page_number"
  shows "(case search_runs suite status started_from started_to page_size page_number t of
      (runs, matched, resolved) \<Rightarrow>
        let pages = max 1 (ceil_div matched page_size);
            matching = newest_first (build_filtered_query suite status started_from started_to t);
            page = run_page suite status started_from started_to page_size t
        in mset matching = mset (build_filtered_query suite status started_from started_to t) \<and>
           sorted_wrt (\<lambda>(i, r) (j, q). (vr_started_at q, j) \<le> (vr_started_at r, i)) matching \<and>
           matched = int (length matching) \<and> int (length runs) \<le> page_size \<and>
           resolved = min page_number pages \<and> runs = page resolved \<and>
           concat (map page [1..pages]) = matching \<and> 0 \<le> pages * page_size - matched \<and>
           (1 < pages \<longrightarrow> (pages - 1) * page_size < matched))"
proof -
  let ?found = "build_filtered_query suite status started_from started_to t"
  let ?total = "int (length ?found)"
  let ?pages = "max 1 (ceil_div ?total page_size)"
  let ?page = "run_page suite status started_from started_to page_size t"
  have pos: "0 < page_size" using assms(1) by simp
  note bounds = ceil_div_bounds [OF pos, of ?total]
  have page: "?page k = take (nat page_size) (drop (nat (k - 1) * nat page_size) (newest_first ?found))"
    if "1 \<le> k" "k \<le> ?pages" for k
    using search_runs_page [OF assms(1) that(1)] that(2) by (simp add: run_page_def min_absorb1)
  have fits: "?total \<le> ?pages * page_size"
    using bounds(1) pos by (auto simp: max_def intro: order_trans)
  have "[1..?pages] = map (\<lambda>k. int k + 1) [0 ..< nat ?pages]"
    by (rule nth_equalityI) simp_all
  then have "concat (map ?page [1..?pages]) =
      concat (map (\<lambda>k. take (nat page_size) (drop (k * nat page_size) (newest_first ?found))) [0 ..< nat ?pages])"
    by (simp add: comp_def) (intro arg_cong [of _ _ concat] map_cong refl, simp add: page)
  also have "\<dots> = newest_first ?found"
  proof (rule concat_pages)
    have "nat ?pages * nat page_size = nat (?pages * page_size)" by (simp add: nat_mult_distrib)
    then show "length (newest_first ?found) \<le> nat ?pages * nat page_size"
      using fits unfolding length_newest_first by linarith
  qed (use pos in simp)
  finally have all: "concat (map ?page [1..?pages]) = newest_first ?found" .
  have least: "(?pages - 1) * page_size < ?total" if "1 < ?pages"
    using that bounds(2) by (auto simp: max_def algebra_simps split: if_splits)
  have "?page (min page_number ?pages) =
      take (nat page_size) (drop (nat (min page_number ?pages - 1) * nat page_size) (newest_first ?found))"
    using assms(2) by (intro page) simp_all
  then show ?thesis
    unfolding search_runs_page [OF assms] using all fits least pos newest_first_sorted mset_newest_first
    by (simp add: Let_def)
qed

subsection \<open>Deleting a run\<close>

text \<open>
  A deleted run is gone with its items and commands; every other run is answered as before, when
  the commands of its items belong to it.
\<close>

lemma deleted_run_gone:
  assumes "delete_test_suite_execution_by_id_api i t = (Inr m, u)" and "wf_table (rt_runs t)"
  shows "find_test_suite_execution_by_id_api fmt i u = Inl (no_suite_run i) \<and>
    items_of_run i (rt_items u) = [] \<and> rows_where (\<lambda>r. xr_run_id r = i) (rt_commands u) = []"
proof -
  obtain n runs where d: "delete_by_id i (rt_runs t) = (n, runs)" by fastforce
  have u: "u = cascade_run i (t\<lparr>rt_runs := runs\<rparr>)"
    using assms(1) d by (auto simp: delete_test_suite_execution_by_id_api_def split: if_splits)
  have "get_by_id i runs = None" using table_service.get_del [OF assms(2), of i i] d by simp
  then show ?thesis
    by (auto simp: u find_test_suite_execution_by_id_api_def cascade_run_def Let_def items_of_run_def
        rows_where_deleted filter_empty_conv)
qed

text \<open>Twenty-five runs in pages of ten.\<close>

definition daily_runs :: "stored_run table" where
  "daily_runs = map (\<lambda>n. (show_nat n,
     \<lparr>tr_test_suite_id = ''s'', tr_test_suite_description = [], tr_status = ''success'', tr_invocation_id = None,
      tr_vars_init_json = PNone, tr_result_json = PNone, tr_requested_test_id = None, tr_error_message = None,
      tr_finished_at = None, vr_include_previous = False, vr_started_at = int n\<rparr>)) [0 ..< 25]"

theorem search_pages_partition_witness:
  "case search_runs None (Some '' Success '') None (Some 22) 10 7 daily_runs of (runs, matched, resolved) \<Rightarrow>
     matched = 23 \<and> resolved = 3 \<and>
     concat (map (run_page None (Some '' Success '') None (Some 22) 10 daily_runs) [1..3]) =
       newest_first (build_filtered_query None (Some '' Success '') None (Some 22) daily_runs)"
proof -
  have "length (build_filtered_query None (Some '' Success '') None (Some 22) daily_runs) = 23" by code_simp
  then show ?thesis
    using search_pages_partition [of 10 7 None "Some '' Success ''" None "Some 22" daily_runs]
    by (auto simp: Let_def ceil_div_def split: prod.splits)
qed

end
