(* ===== verification/Draft_Mapper.thy ===== *)
theory Draft_Mapper
  imports Constant_Planner Dataset_Parameters
begin

section \<open>Drafts of the suite editor\<close>

text \<open>
  \<open>ui/test_suites/services/draft_mapper.py\<close>: a stored suite becomes a draft in which the constants a
  command refers to are shown as paths, and a draft becomes the request that is saved, in which the
  paths are references again. Both walk over the commands with the definitions declared so far.
  New ids come from a supply; \<open>deepcopy\<close> is the identity on these values.
\<close>

record draft_ids =
  di_definition :: "nat \<Rightarrow> string"
  di_key :: "nat \<Rightarrow> string"

type_synonym 'a minting = "(nat, 'a) eff"

definition fresh :: "(nat \<Rightarrow> string) \<Rightarrow> string minting" where
  "fresh uid = (\<lambda>n. (Inr (uid n), Suc n))"

definition first_of :: "pydict \<Rightarrow> string \<Rightarrow> string \<Rightarrow> pyval" where
  "first_of d k k2 = py_or (dget d k) (dget d k2)"

subsection \<open>Definitions\<close>

record ui_definition =
  ui_definition_id :: string
  ui_name :: string
  ui_context_scope :: string
  ui_value_type :: string
  ui_declared_at_order :: int
  ui_deleted_at_order :: "int option"

type_synonym ui_defs = "(string \<times> ui_definition) list"

definition ui_readable_scopes :: "(string \<times> string list) list" where
  "ui_readable_scopes =
     [(SECTION_BEFORE_ALL, [''runEnvelope'', ''result'']),
      (SECTION_BEFORE_EACH, [''runEnvelope'', ''global'', ''result'']),
      (SECTION_TEST, [''runEnvelope'', ''global'', ''local'', ''result'']),
      (SECTION_AFTER_EACH, [''runEnvelope'', ''global'', ''local'', ''result'']),
      (SECTION_AFTER_ALL, [''runEnvelope'', ''global'', ''result''])]"

definition ui_command_code :: "pydict \<Rightarrow> string" where
  "ui_command_code cfg = token (first_of cfg ''commandCode'' ''command_code'')"

definition definition_path :: "string \<Rightarrow> string \<Rightarrow> string" where
  "definition_path scope name = ''$.'' @ scope @ ''.constants.'' @ name"

definition extract_scope_name :: "pyval \<Rightarrow> (string \<times> string) option" where
  "extract_scope_name v =
     (let raw = token v;
          p = (if startswith raw ''$.'' then drop 2 raw
               else if startswith raw ''$'' then lstrip_char (CHR ''.'') (drop 1 raw) else raw);
          parts = filter (\<lambda>x. x \<noteq> []) (split_on (CHR ''.'') p)
      in if raw \<noteq> [] \<and> 3 \<le> length parts \<and> parts ! 1 = ''constants'' then Some (hd parts, last parts) else None)"

definition constant_ref_id :: "pyval \<Rightarrow> string" where
  "constant_ref_id v = token (first_of (dict_or_empty v) ''definitionId'' ''definition_id'')"

definition definition_from_init :: "pydict \<Rightarrow> int \<Rightarrow> ui_definition option" where
  "definition_from_init cfg ord =
     (let i = token (first_of cfg ''definitionId'' ''definition_id''); name = token (first_of cfg ''name'' ''key'');
          context = token (first_of cfg ''context'' ''scope'')
      in if i = [] \<or> name = [] \<or> context = [] then None
         else Some \<lparr>ui_definition_id = i, ui_name = name, ui_context_scope = context,
           ui_value_type = or_else (token (py_or (first_of cfg ''sourceType'' ''source_type'') (PStr ''raw''))) ''raw'',
           ui_declared_at_order = ord, ui_deleted_at_order = None\<rparr>)"

definition result_constant_of :: "pydict \<Rightarrow> pydict" where
  "result_constant_of cfg = dict_or_empty (first_of cfg ''resultConstant'' ''result_constant'')"

definition result_value_type :: "pydict \<Rightarrow> string" where
  "result_value_type rc = or_else (token (py_or (first_of rc ''valueType'' ''value_type'') (PStr ''json''))) ''json''"

definition definition_from_result :: "pydict \<Rightarrow> int \<Rightarrow> ui_definition option" where
  "definition_from_result cfg ord =
     (let rc = result_constant_of cfg; i = token (first_of rc ''definitionId'' ''definition_id'');
          name = token (dget rc ''name'')
      in if i = [] \<or> name = [] then None
         else Some \<lparr>ui_definition_id = i, ui_name = name, ui_context_scope = ''result'',
           ui_value_type = result_value_type rc, ui_declared_at_order = ord, ui_deleted_at_order = None\<rparr>)"

definition carry_over_definitions :: "ui_defs \<Rightarrow> ui_defs" where
  "carry_over_definitions defs =
     map (\<lambda>(i, d). (i, d\<lparr>ui_declared_at_order := 0\<rparr>)) (filter (\<lambda>(i, d). ui_deleted_at_order d = None) defs)"

definition is_visible :: "string \<Rightarrow> int \<Rightarrow> ui_definition \<Rightarrow> bool" where
  "is_visible sec ord d \<longleftrightarrow>
     ui_context_scope d \<in> set (lookup_scopes ui_readable_scopes sec) \<and> \<not> ord \<le> ui_declared_at_order d \<and>
     (case ui_deleted_at_order d of None \<Rightarrow> True | Some k \<Rightarrow> \<not> k \<le> ord)"

definition visible_definitions :: "ui_defs \<Rightarrow> string \<Rightarrow> int \<Rightarrow> ui_definition list" where
  "visible_definitions defs sec ord = sort_key ui_declared_at_order (filter (is_visible sec ord) (map snd defs))"

definition find_definition_by_scope_name ::
  "ui_defs \<Rightarrow> string \<Rightarrow> int \<Rightarrow> string \<Rightarrow> string \<Rightarrow> ui_definition option" where
  "find_definition_by_scope_name defs sec ord scope name =
     (let matches = filter (\<lambda>d. ui_context_scope d = strip scope \<and> ui_name d = strip name) (visible_definitions defs sec ord)
      in if strip scope = [] \<or> strip name = [] \<or> matches = [] then None else Some (last matches))"

definition find_definition_by_path :: "ui_defs \<Rightarrow> string \<Rightarrow> int \<Rightarrow> pyval \<Rightarrow> ui_definition option" where
  "find_definition_by_path defs sec ord v =
     (case extract_scope_name v of
        None \<Rightarrow> None
      | Some (scope, name) \<Rightarrow> find_definition_by_scope_name defs sec ord scope name)"

definition find_definition_by_id :: "ui_defs \<Rightarrow> string \<Rightarrow> int \<Rightarrow> string \<Rightarrow> ui_definition option" where
  "find_definition_by_id defs sec ord i = find (\<lambda>d. ui_definition_id d = i) (visible_definitions defs sec ord)"

fun first_definition ::
  "ui_defs \<Rightarrow> string \<Rightarrow> int \<Rightarrow> string \<Rightarrow> string list \<Rightarrow> ui_definition option" where
  "first_definition defs sec ord name [] = None"
| "first_definition defs sec ord name (scope # scopes) =
     (case find_definition_by_scope_name defs sec ord scope name of
        Some d \<Rightarrow> Some d
      | None \<Rightarrow> first_definition defs sec ord name scopes)"

definition find_definition_by_name :: "ui_defs \<Rightarrow> string \<Rightarrow> int \<Rightarrow> string \<Rightarrow> ui_definition option" where
  "find_definition_by_name defs sec ord name =
     first_definition defs sec ord name [''local'', ''global'', ''runEnvelope'', ''result'']"

definition path_of :: "ui_definition \<Rightarrow> pyval" where
  "path_of d = PStr (definition_path (ui_context_scope d) (ui_name d))"

definition ref_to :: "ui_definition \<Rightarrow> pyval" where
  "ref_to d = PDict [(''definitionId'', PStr (ui_definition_id d))]"

subsection \<open>Result constants\<close>

definition result_dict :: "string \<Rightarrow> string \<Rightarrow> string \<Rightarrow> pydict" where
  "result_dict i name value_type =
     [(''definitionId'', PStr i), (''name'', PStr name), (''valueType'', PStr value_type)]"

definition serialize_result_constant :: "draft_ids \<Rightarrow> pydict \<Rightarrow> pydict option minting" where
  "serialize_result_constant ids cfg =
     (let rc = result_constant_of cfg; i = token (first_of rc ''definitionId'' ''definition_id'');
          name = token (dget rc ''name'')
      in if rc \<noteq> [] \<and> i \<noteq> [] \<and> name \<noteq> [] then ereturn (Some (result_dict i name (result_value_type rc)))
         else (case extract_scope_name (first_of cfg ''result_target'' ''resultTarget'') of
                 None \<Rightarrow> ereturn None
               | Some (scope, nm) \<Rightarrow>
                   if scope \<noteq> ''result'' then ereturn None
                   else ebind (fresh (di_definition ids)) (\<lambda>i. ereturn (Some (result_dict i nm ''json'')))))"

subsection \<open>Parameter bindings\<close>

text \<open>Both directions: a binding of the given kind that \<open>f\<close> resolves is replaced, others are kept.\<close>

fun map_bindings ::
  "string \<Rightarrow> (pydict \<Rightarrow> pyval option) \<Rightarrow> pydict \<Rightarrow> pydict \<Rightarrow> pydict" where
  "map_bindings kind f [] acc = acc"
| "map_bindings kind f ((k, b) # bs) acc =
     (let name = strip k;
          kept = (if is_dict b \<and> lower (token (dget (dict_or_empty b) ''kind'')) = kind
                  then (case f (dict_or_empty b) of None \<Rightarrow> b | Some v \<Rightarrow> v) else b)
      in map_bindings kind f bs (if name = [] then acc else dset name kept acc))"

definition bindings_or_none :: "pydict \<Rightarrow> pydict option" where
  "bindings_or_none d = (if d = [] then None else Some d)"

definition hydrate_dataset_parameter_bindings ::
  "pyval \<Rightarrow> ui_defs \<Rightarrow> string \<Rightarrow> int \<Rightarrow> pydict option" where
  "hydrate_dataset_parameter_bindings v defs sec ord =
     bindings_or_none (map_bindings ''constant_ref'' (\<lambda>b.
       map_option (\<lambda>d. PDict [(''kind'', PStr ''constant_path''), (''path'', path_of d)])
         (find_definition_by_id defs sec ord (token (first_of b ''definitionId'' ''definition_id'')))) (dict_or_empty v) [])"

definition serialize_dataset_parameter_bindings ::
  "pyval \<Rightarrow> ui_defs \<Rightarrow> string \<Rightarrow> int \<Rightarrow> pydict option" where
  "serialize_dataset_parameter_bindings v defs sec ord =
     bindings_or_none (map_bindings ''constant_path'' (\<lambda>b.
       map_option (\<lambda>d. PDict [(''kind'', PStr ''constant_ref''), (''definitionId'', PStr (ui_definition_id d))])
         (find_definition_by_path defs sec ord (dget b ''path''))) (dict_or_empty v) [])"

subsection \<open>From the stored command to the draft\<close>

definition dset_default :: "string \<Rightarrow> pyval \<Rightarrow> pydict \<Rightarrow> pydict" where
  "dset_default k v d = (if dhas d k then d else dset k v d)"

definition hydrate_target :: "ui_defs \<Rightarrow> string \<Rightarrow> int \<Rightarrow> pydict \<Rightarrow> pydict" where
  "hydrate_target defs sec ord cfg =
     (case find_definition_by_id defs sec ord (constant_ref_id (first_of cfg ''targetConstantRef'' ''target_constant_ref'')) of
        None \<Rightarrow> cfg
      | Some d \<Rightarrow>
          dset_default ''scope'' (PStr (ui_context_scope d))
            (dset_default ''context'' (PStr (ui_context_scope d)) (dset_default ''name'' (PStr (ui_name d)) cfg)))"

text \<open>A missing \<open>source\<close> or \<open>actual\<close> becomes the path of the definition the reference names.\<close>

definition hydrate_ref ::
  "ui_defs \<Rightarrow> string \<Rightarrow> int \<Rightarrow> string \<Rightarrow> string \<Rightarrow> string \<Rightarrow> (pyval \<Rightarrow> bool) \<Rightarrow> pydict \<Rightarrow> pydict" where
  "hydrate_ref defs sec ord key1 key2 field present cfg =
     (let i = constant_ref_id (first_of cfg key1 key2) in
      if i = [] \<or> present (dget cfg field) then cfg
      else (case find_definition_by_id defs sec ord i of
              None \<Rightarrow> cfg
            | Some d \<Rightarrow> dset field (path_of d) cfg))"

definition referenced_name :: "ui_defs \<Rightarrow> string \<Rightarrow> int \<Rightarrow> pyval \<Rightarrow> pyval option" where
  "referenced_name defs sec ord v =
     map_option (\<lambda>d. PStr (ui_name d)) (find_definition_by_id defs sec ord (constant_ref_id v))"

definition hydrate_constants :: "ui_defs \<Rightarrow> string \<Rightarrow> int \<Rightarrow> pydict \<Rightarrow> pydict result" where
  "hydrate_constants defs sec ord cfg =
     (let refs = py_or (first_of cfg ''constantRefs'' ''constant_refs'') (PList []) in
      if \<not> truthy refs \<or> truthy (dget cfg ''constants'') then Inr cfg
      else rbind (iterated refs) (\<lambda>items.
        let names = List.map_filter (referenced_name defs sec ord) items
        in Inr (if names = [] then cfg else dset ''constants'' (PList names) cfg)))"

definition hydrate_result :: "draft_ids \<Rightarrow> pydict \<Rightarrow> pydict minting" where
  "hydrate_result ids cfg =
     ebind (serialize_result_constant ids cfg) (\<lambda>rc.
     ereturn (case rc of
       None \<Rightarrow> cfg
     | Some r \<Rightarrow> if token (first_of cfg ''result_target'' ''resultTarget'') \<noteq> [] then cfg
                 else dset ''result_target'' (PStr (definition_path ''result'' (text_of (dget r ''name'')))) cfg))"

definition hydrate_bindings :: "ui_defs \<Rightarrow> string \<Rightarrow> int \<Rightarrow> pydict \<Rightarrow> pydict" where
  "hydrate_bindings defs sec ord cfg =
     (case hydrate_dataset_parameter_bindings (dget cfg ''parameters'') defs sec ord of
        None \<Rightarrow> cfg | Some b \<Rightarrow> dset ''parameters'' (PDict b) cfg)"

text \<open>The references of a command, then its result constant and parameters.\<close>

definition hydrate_refs :: "ui_defs \<Rightarrow> string \<Rightarrow> int \<Rightarrow> pydict \<Rightarrow> pydict result" where
  "hydrate_refs defs sec ord cfg0 =
     (let cfg1 = (if ui_command_code cfg0 = ''deleteConstant'' then hydrate_target defs sec ord cfg0 else cfg0);
          cfg2 = hydrate_ref defs sec ord ''sourceConstantRef'' ''source_constant_ref'' ''source'' (\<lambda>v. token v \<noteq> []) cfg1;
          cfg3 = hydrate_ref defs sec ord ''actualConstantRef'' ''actual_constant_ref'' ''actual'' truthy cfg2
      in hydrate_constants defs sec ord cfg3)"

definition hydrate_operation_cfg ::
  "draft_ids \<Rightarrow> pydict \<Rightarrow> ui_defs \<Rightarrow> string \<Rightarrow> int \<Rightarrow> pydict minting" where
  "hydrate_operation_cfg ids cfg0 defs sec ord =
     ebind (elift (hydrate_refs defs sec ord cfg0)) (\<lambda>cfg4.
     ebind (hydrate_result ids cfg4) (\<lambda>cfg5.
     ereturn (if ui_command_code cfg0 = ''initConstant'' then hydrate_bindings defs sec ord cfg5 else cfg5)))"

subsection \<open>From the draft to the request\<close>

definition ref_or_none :: "string \<Rightarrow> ui_definition option \<Rightarrow> pydict \<Rightarrow> pydict" where
  "ref_or_none key found cfg = (case found of None \<Rightarrow> cfg | Some d \<Rightarrow> dset key (ref_to d) cfg)"

definition serialize_init :: "draft_ids \<Rightarrow> ui_defs \<Rightarrow> string \<Rightarrow> int \<Rightarrow> pydict \<Rightarrow> pydict minting" where
  "serialize_init ids defs sec ord cfg =
     (let i = token (first_of cfg ''definitionId'' ''definition_id'') in
      ebind (if i \<noteq> [] then ereturn i else fresh (di_definition ids)) (\<lambda>i.
      let cfg1 = dset ''definitionId'' (PStr i) cfg in
      ereturn (case serialize_dataset_parameter_bindings (dget cfg1 ''parameters'') defs sec ord of
                 None \<Rightarrow> cfg1 | Some b \<Rightarrow> dset ''parameters'' (PDict b) cfg1)))"

definition serialize_target :: "ui_defs \<Rightarrow> string \<Rightarrow> int \<Rightarrow> pydict \<Rightarrow> pydict" where
  "serialize_target defs sec ord cfg =
     (let c = ddel ''target_constant_ref'' (ddel ''targetConstantRef'' cfg) in
      ref_or_none ''targetConstantRef''
        (find_definition_by_scope_name defs sec ord (token (first_of c ''context'' ''scope'')) (token (first_of c ''name'' ''key''))) c)"

definition serialize_ref :: "ui_defs \<Rightarrow> string \<Rightarrow> int \<Rightarrow> string \<Rightarrow> string \<Rightarrow> string \<Rightarrow> pydict \<Rightarrow> pydict" where
  "serialize_ref defs sec ord key1 key2 field cfg =
     (let c = ddel key2 (ddel key1 cfg) in
      ref_or_none key1 (find_definition_by_path defs sec ord (dget c field)) c)"

definition named_reference :: "ui_defs \<Rightarrow> string \<Rightarrow> int \<Rightarrow> pyval \<Rightarrow> pyval option" where
  "named_reference defs sec ord v = map_option ref_to (find_definition_by_name defs sec ord (text_of v))"

definition serialize_constants :: "ui_defs \<Rightarrow> string \<Rightarrow> int \<Rightarrow> pydict \<Rightarrow> pydict result" where
  "serialize_constants defs sec ord cfg =
     (let c = ddel ''constant_refs'' (ddel ''constantRefs'' cfg) in
      rbind (iterated (py_or (dget c ''constants'') (PList []))) (\<lambda>names.
      let refs = List.map_filter (named_reference defs sec ord) names
      in Inr (if refs = [] then c else dset ''constantRefs'' (PList refs) c)))"

definition source_commands :: "string list" where
  "source_commands = [''sendMessageQueue'', ''saveTable'', ''exportDataset'']"

definition actual_commands :: "string list" where
  "actual_commands =
     [''jsonEquals'', ''jsonEmpty'', ''jsonNotEmpty'', ''jsonContains'', ''jsonArrayEquals'', ''jsonArrayEmpty'',
      ''jsonArrayNotEmpty'', ''jsonArrayContains'']"

definition serialize_refs :: "ui_defs \<Rightarrow> string \<Rightarrow> int \<Rightarrow> string \<Rightarrow> pydict \<Rightarrow> pydict result" where
  "serialize_refs defs sec ord code cfg1 =
     (let cfg2 = (if code = ''deleteConstant'' then serialize_target defs sec ord cfg1 else cfg1);
          cfg3 = (if code \<in> set source_commands
                  then serialize_ref defs sec ord ''sourceConstantRef'' ''source_constant_ref'' ''source'' cfg2 else cfg2);
          cfg4 = (if code \<in> set actual_commands
                  then serialize_ref defs sec ord ''actualConstantRef'' ''actual_constant_ref'' ''actual'' cfg3 else cfg3)
      in if code = ''runSuite'' then serialize_constants defs sec ord cfg4 else Inr cfg4)"

definition save_result :: "draft_ids \<Rightarrow> pydict \<Rightarrow> pydict minting" where
  "save_result ids cfg =
     ebind (serialize_result_constant ids cfg) (\<lambda>rc.
     ereturn (case rc of None \<Rightarrow> cfg | Some r \<Rightarrow> dset ''resultConstant'' (PDict r) cfg))"

definition serialize_operation_cfg ::
  "draft_ids \<Rightarrow> pydict \<Rightarrow> ui_defs \<Rightarrow> string \<Rightarrow> int \<Rightarrow> pydict minting" where
  "serialize_operation_cfg ids cfg0 defs sec ord =
     ebind (if ui_command_code cfg0 = ''initConstant'' then serialize_init ids defs sec ord cfg0 else ereturn cfg0) (\<lambda>cfg1.
     ebind (elift (serialize_refs defs sec ord (ui_command_code cfg0) cfg1)) (\<lambda>cfg5.
     save_result ids cfg5))"

subsection \<open>Definitions after a command\<close>

definition apply_post_command_definition_updates :: "pydict \<Rightarrow> ui_defs \<Rightarrow> int \<Rightarrow> ui_defs" where
  "apply_post_command_definition_updates cfg defs ord =
     (if ui_command_code cfg = ''deleteConstant''
      then (let i = constant_ref_id (first_of cfg ''targetConstantRef'' ''target_constant_ref'') in
            if i = [] then defs
            else (case map_of defs i of
                    None \<Rightarrow> defs
                  | Some d \<Rightarrow> dset i (d\<lparr>ui_deleted_at_order := Some ord\<rparr>) defs))
      else
        (let add = (\<lambda>found defs. case found of None \<Rightarrow> defs | Some d \<Rightarrow> dset (ui_definition_id d) d defs)
         in add (definition_from_result cfg ord) (add (definition_from_init cfg ord) defs)))"

subsection \<open>The commands of an item\<close>

text \<open>\<open>str(x.get("_ui_key") or new_ui_key())\<close>.\<close>

definition keep_key :: "draft_ids \<Rightarrow> pydict \<Rightarrow> string minting" where
  "keep_key ids d = (if truthy (dget d ''_ui_key'') then ereturn (py_str (dget d ''_ui_key'')) else fresh (di_key ids))"

definition operation_cfg :: "pydict \<Rightarrow> pydict" where
  "operation_cfg op = dict_or_empty (first_of op ''configuration_json'' ''cfg'')"

definition operation_order :: "pydict \<Rightarrow> int \<Rightarrow> int result" where
  "operation_order op k = py_int (py_or (dget op ''order'') (PInt k))"

fun normalize_operations ::
  "draft_ids \<Rightarrow> string \<Rightarrow> pyval list \<Rightarrow> int \<Rightarrow> ui_defs \<Rightarrow> (pyval list \<times> ui_defs) minting" where
  "normalize_operations ids sec [] k defs = ereturn ([], defs)"
| "normalize_operations ids sec (PDict op # ops) k defs =
     ebind (elift (operation_order op k)) (\<lambda>ord.
     ebind (hydrate_operation_cfg ids (operation_cfg op) defs sec ord) (\<lambda>cfg.
     ebind (keep_key ids op) (\<lambda>key.
     ebind (normalize_operations ids sec ops (k + 1) (apply_post_command_definition_updates cfg defs ord)) (\<lambda>(rest, defs1).
     ereturn (PDict (dset ''_ui_key'' (PStr key) (dset ''configuration_json'' (PDict cfg)
       (dset ''order'' (PInt ord) op))) # rest, defs1)))))"
| "normalize_operations ids sec (v # ops) k defs = normalize_operations ids sec ops (k + 1) defs"

definition normalize_operations_for_draft ::
  "draft_ids \<Rightarrow> pyval list \<Rightarrow> string \<Rightarrow> ui_defs \<Rightarrow> (pyval list \<times> ui_defs) minting" where
  "normalize_operations_for_draft ids ops sec initial = normalize_operations ids sec ops 1 (carry_over_definitions initial)"

fun serialize_operations ::
  "draft_ids \<Rightarrow> string \<Rightarrow> pyval list \<Rightarrow> int \<Rightarrow> ui_defs \<Rightarrow> (pyval list \<times> ui_defs) minting" where
  "serialize_operations ids sec [] k defs = ereturn ([], defs)"
| "serialize_operations ids sec (PDict op # ops) k defs =
     ebind (elift (operation_order op k)) (\<lambda>ord.
     ebind (serialize_operation_cfg ids (operation_cfg op) defs sec ord) (\<lambda>cfg.
     ebind (serialize_operations ids sec ops (k + 1) (apply_post_command_definition_updates cfg defs ord)) (\<lambda>(rest, defs1).
     ereturn (PDict [(''order'', PInt ord), (''description'', PStr (text_of (dget op ''description''))), (''cfg'', PDict cfg)]
       # rest, defs1))))"
| "serialize_operations ids sec (v # ops) k defs = serialize_operations ids sec ops (k + 1) defs"

definition serialize_operations_for_payload ::
  "draft_ids \<Rightarrow> pyval list \<Rightarrow> string \<Rightarrow> ui_defs \<Rightarrow> (pyval list \<times> ui_defs) minting" where
  "serialize_operations_for_payload ids ops sec initial = serialize_operations ids sec ops 1 (carry_over_definitions initial)"

subsection \<open>Drafts\<close>

definition raw_hooks :: "pyval list \<Rightarrow> (string \<times> pydict) list" where
  "raw_hooks vs = fold (\<lambda>v acc. case v of
       PDict h \<Rightarrow> if token (dget h ''hook_phase'') = [] then acc else dset (token (dget h ''hook_phase'')) h acc
     | _ \<Rightarrow> acc) vs []"

definition item_operations :: "pydict \<Rightarrow> pyval list result" where
  "item_operations d = iterated (py_or (first_of d ''commands'' ''operations'') (PList []))"

text \<open>The hook of a phase, if there is one, with its draft added to \<open>hooks\<close>.\<close>

definition draft_hook ::
  "draft_ids \<Rightarrow> (string \<times> pydict) list \<Rightarrow> string \<Rightarrow> string \<Rightarrow> ui_defs \<Rightarrow> ui_defs \<Rightarrow> pydict \<Rightarrow> (pydict \<times> ui_defs) minting" where
  "draft_hook ids raw phase sec initial otherwise hooks =
     (case map_of raw phase of
        None \<Rightarrow> ereturn (hooks, otherwise)
      | Some h \<Rightarrow>
          ebind (elift (item_operations h)) (\<lambda>ops.
          ebind (normalize_operations_for_draft ids ops sec initial) (\<lambda>(operations, defs).
          ebind (keep_key ids h) (\<lambda>key.
          ereturn (dset phase (PDict (dset ''_ui_key'' (PStr key) (dset ''operations'' (PList operations) h))) hooks, defs)))))"

fun draft_tests :: "draft_ids \<Rightarrow> pyval list \<Rightarrow> int \<Rightarrow> ui_defs \<Rightarrow> pyval list minting" where
  "draft_tests ids [] k initial = ereturn []"
| "draft_tests ids (PDict t # ts) k initial =
     ebind (elift (item_operations t)) (\<lambda>ops.
     ebind (normalize_operations_for_draft ids ops SECTION_TEST initial) (\<lambda>(operations, _).
     ebind (elift (py_int (py_or (dget t ''position'') (PInt k)))) (\<lambda>position.
     ebind (keep_key ids t) (\<lambda>key.
     ebind (draft_tests ids ts (k + 1) initial) (\<lambda>rest.
     ereturn (PDict (dset ''_ui_key'' (PStr key) (dset ''operations'' (PList operations)
       (dset ''position'' (PInt position) t))) # rest))))))"
| "draft_tests ids (v # ts) k initial = draft_tests ids ts (k + 1) initial"

definition build_test_suite_draft :: "draft_ids \<Rightarrow> pyval \<Rightarrow> pydict minting" where
  "build_test_suite_draft ids payload =
     (let src = dict_or_empty payload in
      ebind (elift (iterated (py_or (dget src ''hooks'') (PList [])))) (\<lambda>hs.
      let raw = raw_hooks hs in
      ebind (draft_hook ids raw ''before-all'' SECTION_BEFORE_ALL [] [] []) (\<lambda>(hooks1, before_all).
      ebind (draft_hook ids raw ''before-each'' SECTION_BEFORE_EACH before_all before_all hooks1) (\<lambda>(hooks2, before_each).
      ebind (elift (iterated (py_or (dget src ''tests'') (PList [])))) (\<lambda>ts.
      ebind (draft_tests ids ts 1 before_each) (\<lambda>tests.
      ebind (draft_hook ids raw ''after-each'' SECTION_AFTER_EACH before_each [] hooks2) (\<lambda>(hooks3, _).
      ebind (draft_hook ids raw ''after-all'' SECTION_AFTER_ALL before_all [] hooks3) (\<lambda>(hooks4, _).
      ereturn [(''id'', dget src ''id''), (''description'', PStr (text_of (dget src ''description''))),
        (''hooks'', PDict hooks4), (''tests'', PList tests)]))))))))"

subsection \<open>Requests\<close>

definition or_text :: "pyval \<Rightarrow> string \<Rightarrow> pyval" where
  "or_text v s = PStr (py_str (py_or v (PStr s)))"

definition serialize_draft_item :: "draft_ids \<Rightarrow> pydict \<Rightarrow> string \<Rightarrow> ui_defs \<Rightarrow> (pydict \<times> ui_defs) minting" where
  "serialize_draft_item ids item sec initial =
     ebind (elift (iterated (py_or (dget item ''operations'') (PList [])))) (\<lambda>ops.
     ebind (serialize_operations_for_payload ids ops sec initial) (\<lambda>(commands, defs).
     let phase = token (dget item ''hook_phase'');
         payload = [(''kind'', or_text (dget item ''kind'') ''test''),
           (''description'', PStr (text_of (dget item ''description''))),
           (''on_failure'', or_text (dget item ''on_failure'') ''ABORT''), (''commands'', PList commands)]
     in ereturn (if phase = [] then payload else payload @ [(''hook_phase'', PStr phase)], defs)))"

definition stamp_hook :: "string \<Rightarrow> pydict \<Rightarrow> pydict" where
  "stamp_hook phase item = dset ''kind'' (PStr ''hook'') (dset ''hook_phase'' (PStr phase) item)"

definition payload_hook ::
  "draft_ids \<Rightarrow> pydict \<Rightarrow> string \<Rightarrow> string \<Rightarrow> ui_defs \<Rightarrow> ui_defs \<Rightarrow> (pyval list \<times> ui_defs) minting" where
  "payload_hook ids hooks phase sec initial otherwise =
     (case dget hooks phase of
        PDict item \<Rightarrow>
          ebind (serialize_draft_item ids (stamp_hook phase item) sec initial) (\<lambda>(payload, defs).
          ereturn ([PDict payload], defs))
      | _ \<Rightarrow> ereturn ([], otherwise))"

fun payload_tests :: "draft_ids \<Rightarrow> pyval list \<Rightarrow> int \<Rightarrow> ui_defs \<Rightarrow> pyval list minting" where
  "payload_tests ids [] k initial = ereturn []"
| "payload_tests ids (PDict t # ts) k initial =
     ebind (serialize_draft_item ids (dset ''kind'' (PStr ''test'') (dset ''position'' (PInt k) t)) SECTION_TEST initial)
       (\<lambda>(payload, _).
     ebind (payload_tests ids ts (k + 1) initial) (\<lambda>rest. ereturn (PDict payload # rest)))"
| "payload_tests ids (v # ts) k initial = payload_tests ids ts (k + 1) initial"

definition draft_to_test_suite_payload :: "draft_ids \<Rightarrow> pydict \<Rightarrow> pydict minting" where
  "draft_to_test_suite_payload ids draft =
     (let hooks = dict_or_empty (dget draft ''hooks'') in
      ebind (payload_hook ids hooks ''before-all'' SECTION_BEFORE_ALL [] []) (\<lambda>(p1, before_all).
      ebind (payload_hook ids hooks ''before-each'' SECTION_BEFORE_EACH before_all before_all) (\<lambda>(p2, before_each).
      ebind (elift (iterated (py_or (dget draft ''tests'') (PList [])))) (\<lambda>ts.
      ebind (payload_tests ids ts 1 before_each) (\<lambda>tests.
      ebind (payload_hook ids hooks ''after-each'' SECTION_AFTER_EACH before_each []) (\<lambda>(p3, _).
      ebind (payload_hook ids hooks ''after-all'' SECTION_AFTER_ALL before_all []) (\<lambda>(p4, _).
      ereturn [(''description'', PStr (text_of (dget draft ''description''))),
        (''hooks'', PList (p1 @ p2 @ p3 @ p4)), (''tests'', PList tests)])))))))"

end
