(* ===== verification/Draft_Facts.thy ===== *)
theory Draft_Facts
  imports Draft_Mapper Context_Path "HOL-Library.Multiset"
begin

section \<open>What the suite editor keeps\<close>

text \<open>
  A suite that is opened in the editor and saved unchanged sends back the commands it was opened
  with; the editor offers the same constants as the server's planner accepts; and a case in which the
  editor does change a reference.
\<close>

subsection \<open>Lookups\<close>

definition plain_definition :: "ui_definition \<Rightarrow> bool" where
  "plain_definition d \<longleftrightarrow> plain_name (ui_context_scope d) \<and> plain_name (ui_name d) \<and>
     ui_definition_id d \<noteq> [] \<and> strip (ui_definition_id d) = ui_definition_id d"

definition sane_definitions :: "ui_defs \<Rightarrow> string \<Rightarrow> int \<Rightarrow> bool" where
  "sane_definitions defs sec ord \<longleftrightarrow>
     list_all plain_definition (visible_definitions defs sec ord) \<and>
     distinct (map (\<lambda>d. (ui_context_scope d, ui_name d)) (visible_definitions defs sec ord)) \<and>
     distinct (map ui_definition_id (visible_definitions defs sec ord))"

lemma extract_path:
  assumes "plain_name scope" and "plain_name name"
  shows "extract_scope_name (PStr (definition_path scope name)) = Some (scope, name)"
proof -
  let ?ns = "[scope, ''constants'', name]"
  have plain: "list_all plain_name ?ns" using assms by (simp add: plain_name_def) code_simp
  have path: "definition_path scope name = ''$.'' @ join ''.'' ?ns" by (simp add: definition_path_def)
  have "filter (\<lambda>x. x \<noteq> []) ?ns = ?ns" using plain by (simp add: plain_name_def)
  moreover have "strip (definition_path scope name) = definition_path scope name"
    unfolding path by (rule strip_path [OF plain]) simp
  moreover have "split_on (CHR ''.'') (drop 2 (definition_path scope name)) = ?ns"
    using split_on_names [OF plain] by (simp add: path)
  ultimately show ?thesis
    by (simp add: extract_scope_name_def Let_def startswith_def path)
qed

lemma find_distinct:
  "distinct (map f xs) \<Longrightarrow> x \<in> set xs \<Longrightarrow> find (\<lambda>y. f y = f x) xs = Some x"
  by (induction xs) auto

lemma filter_distinct:
  "distinct (map f xs) \<Longrightarrow> x \<in> set xs \<Longrightarrow> filter (\<lambda>y. f y = f x) xs = [x]"
proof (induction xs)
  case (Cons y ys)
  have y: "f y \<notin> f ` set ys" using Cons.prems(1) by simp
  show ?case
  proof (cases "x = y")
    case True
    have "f z \<noteq> f x" if "z \<in> set ys" for z using y that True by (metis imageI)
    then have "filter (\<lambda>z. f z = f x) ys = []" by (simp add: filter_empty_conv)
    then show ?thesis using True by simp
  next
    case False
    then have "x \<in> set ys" using Cons.prems(2) by simp
    then have "f y \<noteq> f x" using y by (metis imageI)
    then show ?thesis using Cons \<open>x \<in> set ys\<close> by simp
  qed
qed simp

lemma find_by_id:
  assumes "sane_definitions defs sec ord" and "d \<in> set (visible_definitions defs sec ord)"
  shows "find_definition_by_id defs sec ord (ui_definition_id d) = Some d"
  using assms find_distinct [of ui_definition_id "visible_definitions defs sec ord" d]
  by (simp add: sane_definitions_def find_definition_by_id_def)

lemma visible_plain:
  "sane_definitions defs sec ord \<Longrightarrow> d \<in> set (visible_definitions defs sec ord) \<Longrightarrow> plain_definition d"
  by (simp add: sane_definitions_def list_all_iff)

lemma find_by_scope_name:
  assumes "sane_definitions defs sec ord" and "d \<in> set (visible_definitions defs sec ord)"
  shows "find_definition_by_scope_name defs sec ord (ui_context_scope d) (ui_name d) = Some d"
proof -
  have "filter (\<lambda>y. (ui_context_scope y, ui_name y) = (ui_context_scope d, ui_name d)) (visible_definitions defs sec ord) = [d]"
    using assms unfolding sane_definitions_def by (intro filter_distinct) blast+
  then have "filter (\<lambda>y. ui_context_scope y = ui_context_scope d \<and> ui_name y = ui_name d) (visible_definitions defs sec ord) = [d]"
    by simp
  moreover have "strip (ui_context_scope d) = ui_context_scope d" "strip (ui_name d) = ui_name d"
      "ui_context_scope d \<noteq> []" "ui_name d \<noteq> []"
    using visible_plain [OF assms] by (auto simp: plain_definition_def plain_name_def)
  ultimately show ?thesis by (simp add: find_definition_by_scope_name_def Let_def)
qed

lemma find_by_path:
  assumes "sane_definitions defs sec ord" and "d \<in> set (visible_definitions defs sec ord)"
  shows "find_definition_by_path defs sec ord (path_of d) = Some d"
  using visible_plain [OF assms] find_by_scope_name [OF assms]
  by (simp add: find_definition_by_path_def path_of_def plain_definition_def extract_path)

lemma constant_ref_id_ref_to: "plain_definition d \<Longrightarrow> constant_ref_id (ref_to d) = ui_definition_id d"
  by (simp add: constant_ref_id_def ref_to_def first_of_def dget_def dget_default_def py_or_def plain_definition_def)

subsection \<open>Commands as they are stored\<close>

definition result_dict_ok :: "pyval \<Rightarrow> bool" where
  "result_dict_ok v \<longleftrightarrow> v = PNone \<or>
     (let rc = dict_or_empty v; i = text_of (dget rc ''definitionId''); name = text_of (dget rc ''name'');
          t = text_of (dget rc ''valueType'')
      in v = PDict (result_dict i name t) \<and> list_all (\<lambda>s. s \<noteq> [] \<and> strip s = s) [i, name, t])"

definition is_ref :: "ui_defs \<Rightarrow> string \<Rightarrow> int \<Rightarrow> pyval \<Rightarrow> bool" where
  "is_ref defs sec ord v = list_ex (\<lambda>d. v = ref_to d) (visible_definitions defs sec ord)"

text \<open>A reference that its name alone picks out.\<close>

definition is_named_ref :: "ui_defs \<Rightarrow> string \<Rightarrow> int \<Rightarrow> pyval \<Rightarrow> bool" where
  "is_named_ref defs sec ord v =
     list_ex (\<lambda>d. v = ref_to d \<and> ui_context_scope d \<in> set [''local'', ''global'', ''runEnvelope'', ''result''] \<and>
       length (filter (\<lambda>e. ui_name e = ui_name d) (visible_definitions defs sec ord)) = 1) (visible_definitions defs sec ord)"

text \<open>The keys only the editor writes, and the other spellings of a stored key.\<close>

definition editor_keys :: "string list" where
  "editor_keys = [''source'', ''actual'', ''constants'', ''result_target'']"

definition other_spellings :: "string list" where
  "other_spellings =
     [''command_code'', ''definition_id'', ''target_constant_ref'', ''source_constant_ref'', ''actual_constant_ref'',
      ''constant_refs'', ''result_constant'', ''resultTarget'']"

definition stored_cfg :: "ui_defs \<Rightarrow> string \<Rightarrow> int \<Rightarrow> pydict \<Rightarrow> bool" where
  "stored_cfg defs sec ord cfg \<longleftrightarrow>
     sane_definitions defs sec ord \<and>
     list_all (\<lambda>k. \<not> dhas cfg k) (editor_keys @ other_spellings) \<and> dget cfg ''parameters'' = PNone \<and>
     result_dict_ok (dget cfg ''resultConstant'') \<and>
     (let code = ui_command_code cfg in
      (if code = ''initConstant''
       then (case dget cfg ''definitionId'' of PStr i \<Rightarrow> i \<noteq> [] \<and> strip i = i | _ \<Rightarrow> False) else True) \<and>
      (if code = ''deleteConstant''
       then is_ref defs sec ord (dget cfg ''targetConstantRef'') \<and>
         list_all (\<lambda>k. \<not> dhas cfg k) [''name'', ''key'', ''context'', ''scope'']
       else True) \<and>
      (if code \<in> set source_commands then is_ref defs sec ord (dget cfg ''sourceConstantRef'')
       else \<not> dhas cfg ''sourceConstantRef'') \<and>
      (if code \<in> set actual_commands then is_ref defs sec ord (dget cfg ''actualConstantRef'')
       else \<not> dhas cfg ''actualConstantRef'') \<and>
      (if code = ''runSuite''
       then (case dget cfg ''constantRefs'' of PList (v # vs) \<Rightarrow> list_all (is_named_ref defs sec ord) (v # vs) | _ \<Rightarrow> False)
       else \<not> dhas cfg ''constantRefs''))"

text \<open>The keys of two configurations, editor keys apart.\<close>

definition same_cfg :: "string list \<Rightarrow> pydict \<Rightarrow> pydict \<Rightarrow> bool" where
  "same_cfg but a b \<longleftrightarrow> list_all (\<lambda>k. k \<in> set but \<or> dget a k = dget b k) (map fst a @ map fst b)"

lemma same_cfgI:
  assumes "\<And>k. k \<notin> set but \<Longrightarrow> dget a k = dget b k"
  shows "same_cfg but a b"
  using assms by (auto simp: same_cfg_def list_all_iff)

subsection \<open>The steps on a stored configuration\<close>

lemma dget_ddel [simp]: "dget (ddel k d) k2 = (if k2 = k then PNone else dget d k2)"
  by (simp add: dget_def dget_default_def delete_conv')

lemma dhas_ddel [simp]: "dhas (ddel k d) k2 \<longleftrightarrow> k2 \<noteq> k \<and> dhas d k2"
  by (simp add: dhas_def delete_conv')

lemma absent_key: "\<not> dhas d k \<Longrightarrow> dget d k = PNone"
  by (simp add: dhas_def dget_def dget_default_def)

lemma first_of_absent [simp]:
  "\<not> dhas d k2 \<Longrightarrow> first_of d k k2 = (if truthy (dget d k) then dget d k else PNone)"
  by (simp add: first_of_def py_or_def absent_key)

lemma constant_ref_id_PNone [simp]: "constant_ref_id PNone = []"
  by (simp add: constant_ref_id_def first_of_def dget_def dget_default_def py_or_def)

lemma hydrate_ref_absent:
  "\<not> dhas cfg k1 \<Longrightarrow> \<not> dhas cfg k2 \<Longrightarrow> hydrate_ref defs sec ord k1 k2 field present cfg = cfg"
  by (simp add: hydrate_ref_def absent_key)

lemma ref_to_truthy [simp]: "truthy (ref_to d)"
  by (simp add: ref_to_def)

lemma hydrate_ref_present:
  assumes "sane_definitions defs sec ord" and "d \<in> set (visible_definitions defs sec ord)"
    and "dget cfg k1 = ref_to d" and "\<not> dhas cfg k2" and "\<not> present (dget cfg field)"
  shows "hydrate_ref defs sec ord k1 k2 field present cfg = dset field (path_of d) cfg"
  using assms visible_plain [OF assms(1,2)] find_by_id [OF assms(1,2)]
  by (simp add: hydrate_ref_def Let_def constant_ref_id_ref_to) (simp add: plain_definition_def)

lemma serialize_ref_present:
  assumes "sane_definitions defs sec ord" and "d \<in> set (visible_definitions defs sec ord)"
    and "dget cfg field = path_of d" and "field \<notin> {k1, k2}"
  shows "serialize_ref defs sec ord k1 k2 field cfg = dset k1 (ref_to d) (ddel k2 (ddel k1 cfg))"
  using assms find_by_path [OF assms(1,2)] by (simp add: serialize_ref_def Let_def ref_or_none_def)

lemma hydrate_target_present:
  assumes "sane_definitions defs sec ord" and "d \<in> set (visible_definitions defs sec ord)"
    and "dget cfg ''targetConstantRef'' = ref_to d" and "\<not> dhas cfg ''target_constant_ref''"
    and "\<not> dhas cfg ''name''" and "\<not> dhas cfg ''context''" and "\<not> dhas cfg ''scope''"
  shows "hydrate_target defs sec ord cfg = dset ''scope'' (PStr (ui_context_scope d))
    (dset ''context'' (PStr (ui_context_scope d)) (dset ''name'' (PStr (ui_name d)) cfg))"
  using assms visible_plain [OF assms(1,2)] find_by_id [OF assms(1,2)]
  by (simp add: hydrate_target_def constant_ref_id_ref_to dset_default_def)

lemma serialize_target_present:
  assumes "sane_definitions defs sec ord" and "d \<in> set (visible_definitions defs sec ord)"
    and "dget cfg ''context'' = PStr (ui_context_scope d)" and "dget cfg ''name'' = PStr (ui_name d)"
  shows "serialize_target defs sec ord cfg =
    dset ''targetConstantRef'' (ref_to d) (ddel ''target_constant_ref'' (ddel ''targetConstantRef'' cfg))"
proof -
  have "ui_context_scope d \<noteq> []" "ui_name d \<noteq> []" "strip (ui_context_scope d) = ui_context_scope d"
      "strip (ui_name d) = ui_name d"
    using visible_plain [OF assms(1,2)] by (auto simp: plain_definition_def plain_name_def)
  then show ?thesis
    using assms(3,4) find_by_scope_name [OF assms(1,2)]
    by (simp add: serialize_target_def Let_def ref_or_none_def first_of_def py_or_def)
qed

lemma only_name:
  "length (filter (\<lambda>e. ui_name e = ui_name d) xs) = 1 \<Longrightarrow> d \<in> set xs \<Longrightarrow> e \<in> set xs \<Longrightarrow> ui_name e = ui_name d \<Longrightarrow> e = d"
proof -
  assume "length (filter (\<lambda>e. ui_name e = ui_name d) xs) = 1"
  then obtain z where z: "filter (\<lambda>e. ui_name e = ui_name d) xs = [z]" by (auto simp: length_Suc_conv)
  assume "d \<in> set xs" "e \<in> set xs" "ui_name e = ui_name d"
  then have "d \<in> set (filter (\<lambda>e. ui_name e = ui_name d) xs)" "e \<in> set (filter (\<lambda>e. ui_name e = ui_name d) xs)" by simp_all
  then show "e = d" unfolding z by simp
qed

lemma first_definition_named:
  assumes "sane_definitions defs sec ord" and "d \<in> set (visible_definitions defs sec ord)"
    and "length (filter (\<lambda>e. ui_name e = ui_name d) (visible_definitions defs sec ord)) = 1"
    and "ui_context_scope d \<in> set scopes" and "list_all (\<lambda>s. strip s = s) scopes"
  shows "first_definition defs sec ord (ui_name d) scopes = Some d"
  using assms(4,5)
proof (induction scopes)
  case (Cons s scopes)
  have name: "strip (ui_name d) = ui_name d"
    using visible_plain [OF assms(1,2)] by (auto simp: plain_definition_def plain_name_def)
  show ?case
  proof (cases "s = ui_context_scope d")
    case True
    then show ?thesis using find_by_scope_name [OF assms(1,2)] by simp
  next
    case False
    have "find_definition_by_scope_name defs sec ord s (ui_name d) = None"
      using only_name [OF assms(3,2)] False Cons.prems(2) name
      by (auto simp: find_definition_by_scope_name_def Let_def filter_empty_conv)
    then show ?thesis using Cons False by simp
  qed
qed simp

lemma find_by_name:
  assumes "sane_definitions defs sec ord" and "is_named_ref defs sec ord v"
  shows "\<exists>d \<in> set (visible_definitions defs sec ord). v = ref_to d \<and>
    find_definition_by_name defs sec ord (ui_name d) = Some d"
proof -
  obtain d where d: "d \<in> set (visible_definitions defs sec ord)" "v = ref_to d"
      "ui_context_scope d \<in> set [''local'', ''global'', ''runEnvelope'', ''result'']"
      "length (filter (\<lambda>e. ui_name e = ui_name d) (visible_definitions defs sec ord)) = 1"
    using assms(2) unfolding is_named_ref_def list_ex_iff by blast
  have "list_all (\<lambda>s. strip s = s) [''local'', ''global'', ''runEnvelope'', ''result'']" by code_simp
  from first_definition_named [OF assms(1) d(1,4,3) this] d(1,2) show ?thesis
    unfolding find_definition_by_name_def by blast
qed

text \<open>The references of \<open>runSuite\<close>, to names and back.\<close>

lemma named_refs:
  assumes "sane_definitions defs sec ord" and "list_all (is_named_ref defs sec ord) vs"
  shows "\<exists>ds. vs = map ref_to ds \<and>
    List.map_filter (referenced_name defs sec ord) vs =
      map (\<lambda>d. PStr (ui_name d)) ds \<and>
    List.map_filter (named_reference defs sec ord) (map (\<lambda>d. PStr (ui_name d)) ds) =
      map ref_to ds"
  using assms(2)
proof (induction vs)
  case Nil
  then show ?case by (intro exI [of _ "[]"]) (simp add: map_filter_simps)
next
  case (Cons v vs)
  from Cons obtain ds where ds: "vs = map ref_to ds"
      "List.map_filter (referenced_name defs sec ord) vs =
        map (\<lambda>d. PStr (ui_name d)) ds"
      "List.map_filter (named_reference defs sec ord) (map (\<lambda>d. PStr (ui_name d)) ds) =
        map ref_to ds"
    by (auto simp del: map_map)
  obtain d where d: "d \<in> set (visible_definitions defs sec ord)" "v = ref_to d"
      "find_definition_by_name defs sec ord (ui_name d) = Some d"
    using find_by_name [OF assms(1), of v] Cons.prems by auto
  have "text_of (PStr (ui_name d)) = ui_name d" by (simp add: text_of_def py_or_def)
  then have "referenced_name defs sec ord v = Some (PStr (ui_name d))"
      "named_reference defs sec ord (PStr (ui_name d)) = Some (ref_to d)"
    using visible_plain [OF assms(1) d(1)] find_by_id [OF assms(1) d(1)] d(2,3)
    by (simp_all add: constant_ref_id_ref_to referenced_name_def named_reference_def)
  then show ?case
    using ds d(2) by (intro exI [of _ "d # ds"]) (simp add: map_filter_simps)
qed

lemma hydrate_constants_absent:
  "\<not> dhas cfg ''constantRefs'' \<Longrightarrow> \<not> dhas cfg ''constant_refs'' \<Longrightarrow> hydrate_constants defs sec ord cfg = Inr cfg"
  by (simp add: hydrate_constants_def absent_key py_or_def)

lemma run_suite_round:
  assumes "sane_definitions defs sec ord" and "dget cfg ''constantRefs'' = PList (v # vs)"
    and "list_all (is_named_ref defs sec ord) (v # vs)" and "\<not> dhas cfg ''constant_refs''" and "dget cfg ''constants'' = PNone"
  shows "\<exists>names. hydrate_constants defs sec ord cfg = Inr (dset ''constants'' (PList names) cfg) \<and>
    (\<forall>c. dget c ''constants'' = PList names \<longrightarrow> serialize_constants defs sec ord c =
       Inr (dset ''constantRefs'' (PList (v # vs)) (ddel ''constant_refs'' (ddel ''constantRefs'' c))))"
proof -
  obtain ds where ds: "v # vs = map ref_to ds"
      "List.map_filter (referenced_name defs sec ord) (v # vs) =
        map (\<lambda>d. PStr (ui_name d)) ds"
      "List.map_filter (named_reference defs sec ord) (map (\<lambda>d. PStr (ui_name d)) ds) =
        map ref_to ds"
    using named_refs [OF assms(1,3)] by (elim exE conjE) (rule that)
  have ne: "ds \<noteq> []" using ds(1) by auto
  have "hydrate_constants defs sec ord cfg = Inr (dset ''constants'' (PList (map (\<lambda>d. PStr (ui_name d)) ds)) cfg)"
    using assms(2,4,5) ds(2) ne by (simp add: hydrate_constants_def py_or_def iterated_def Let_def)
  moreover have "serialize_constants defs sec ord c =
      Inr (dset ''constantRefs'' (PList (v # vs)) (ddel ''constant_refs'' (ddel ''constantRefs'' c)))"
    if "dget c ''constants'' = PList (map (\<lambda>d. PStr (ui_name d)) ds)" for c
    using that ds(3) ne by (simp add: serialize_constants_def py_or_def iterated_def Let_def ds(1))
  ultimately show ?thesis by blast
qed

subsection \<open>The result constant\<close>

lemma result_none:
  assumes "dget cfg ''resultConstant'' = PNone" and "\<not> dhas cfg ''result_constant''"
    and "dget cfg ''result_target'' = PNone" and "\<not> dhas cfg ''resultTarget''"
  shows "serialize_result_constant ids cfg n = (Inr None, n)"
  using assms by (simp add: serialize_result_constant_def result_constant_of_def Let_def extract_scope_name_def)

lemma result_some:
  assumes "result_dict_ok (dget cfg ''resultConstant'')" and "dget cfg ''resultConstant'' \<noteq> PNone"
    and "\<not> dhas cfg ''result_constant''"
  shows "\<exists>rc. dget cfg ''resultConstant'' = PDict rc \<and> (\<forall>n. serialize_result_constant ids cfg n = (Inr (Some rc), n))"
proof -
  obtain i name t where rc: "dget cfg ''resultConstant'' = PDict (result_dict i name t)"
      "list_all (\<lambda>s. s \<noteq> [] \<and> strip s = s) [i, name, t]"
    using assms(1,2) unfolding result_dict_ok_def Let_def by blast
  have "serialize_result_constant ids cfg n = (Inr (Some (result_dict i name t)), n)" for n
    using rc assms(3)
    by (simp add: serialize_result_constant_def result_constant_of_def Let_def result_value_type_def or_else_def
        first_of_def py_or_def absent_key) (simp add: result_dict_def dget_def dget_default_def)
  with rc(1) show ?thesis by blast
qed

text \<open>The two ends of an operation: \<open>result_target\<close> is set, and the result constant is written back.\<close>

definition result_keys_ok :: "pydict \<Rightarrow> bool" where
  "result_keys_ok cfg \<longleftrightarrow> result_dict_ok (dget cfg ''resultConstant'') \<and> \<not> dhas cfg ''result_constant'' \<and> \<not> dhas cfg ''resultTarget''"

lemma hydrate_result_step:
  assumes "result_keys_ok cfg" and "\<not> dhas cfg ''result_target''"
  shows "\<exists>cfg1. (\<forall>n. hydrate_result ids cfg n = (Inr cfg1, n)) \<and>
    (\<forall>k. k \<noteq> ''result_target'' \<longrightarrow> dget cfg1 k = dget cfg k \<and> dhas cfg1 k = dhas cfg k) \<and>
    (dget cfg ''resultConstant'' = PNone \<longrightarrow> cfg1 = cfg)"
proof (cases "dget cfg ''resultConstant'' = PNone")
  case True
  then show ?thesis
    using assms result_none [of cfg ids] by (simp add: hydrate_result_def ebind_def result_keys_ok_def absent_key)
next
  case False
  then obtain rc where "\<forall>n. serialize_result_constant ids cfg n = (Inr (Some rc), n)"
    using assms result_some [of cfg ids] unfolding result_keys_ok_def by blast
  then show ?thesis using False by (simp add: hydrate_result_def ebind_def)
qed

lemma serialize_result_step:
  assumes "result_keys_ok cfg" and "dget cfg ''resultConstant'' = PNone \<longrightarrow> dget cfg ''result_target'' = PNone"
  shows "\<exists>cfg1. (\<forall>n. save_result ids cfg n = (Inr cfg1, n)) \<and>
    (\<forall>k. dget cfg1 k = dget cfg k)"
proof (cases "dget cfg ''resultConstant'' = PNone")
  case True
  then show ?thesis using assms result_none [of cfg ids] by (simp add: save_result_def ebind_def result_keys_ok_def)
next
  case False
  then obtain rc where "dget cfg ''resultConstant'' = PDict rc" "\<forall>n. serialize_result_constant ids cfg n = (Inr (Some rc), n)"
    using assms result_some [of cfg ids] unfolding result_keys_ok_def by blast
  then show ?thesis by (simp add: save_result_def ebind_def)
qed

lemma no_bindings:
  "dget cfg ''parameters'' = PNone \<Longrightarrow> hydrate_bindings defs sec ord cfg = cfg"
  "serialize_dataset_parameter_bindings PNone defs sec ord = None"
  by (simp_all add: hydrate_bindings_def hydrate_dataset_parameter_bindings_def serialize_dataset_parameter_bindings_def
      bindings_or_none_def)

lemma hydrate_by:
  assumes "hydrate_refs defs sec ord cfg = Inr mid"
    and "result_keys_ok mid" and "\<not> dhas mid ''result_target''" and "dget mid ''parameters'' = PNone"
  shows "\<exists>cfg1. (\<forall>n. hydrate_operation_cfg ids cfg defs sec ord n = (Inr cfg1, n)) \<and>
    (\<forall>k. k \<noteq> ''result_target'' \<longrightarrow> dget cfg1 k = dget mid k \<and> dhas cfg1 k = dhas mid k) \<and>
    (dget mid ''resultConstant'' = PNone \<longrightarrow> cfg1 = mid)"
proof -
  obtain cfg1 where c: "\<forall>n. hydrate_result ids mid n = (Inr cfg1, n)"
      "\<forall>k. k \<noteq> ''result_target'' \<longrightarrow> dget cfg1 k = dget mid k \<and> dhas cfg1 k = dhas mid k"
      "dget mid ''resultConstant'' = PNone \<longrightarrow> cfg1 = mid"
    using hydrate_result_step [OF assms(2,3)] by blast
  then have "hydrate_bindings defs sec ord cfg1 = cfg1" using assms(4) no_bindings(1) by simp
  then have "hydrate_operation_cfg ids cfg defs sec ord n = (Inr cfg1, n)" for n
    using c(1) assms(1) by (simp add: hydrate_operation_cfg_def Let_def ebind_def)
  with c(2,3) show ?thesis by blast
qed

lemma command_code_cong:
  "dget a ''commandCode'' = dget b ''commandCode'' \<Longrightarrow> \<not> dhas a ''command_code'' \<Longrightarrow> \<not> dhas b ''command_code'' \<Longrightarrow>
   ui_command_code a = ui_command_code b"
  by (simp add: ui_command_code_def)

lemma result_keys_cong:
  "result_keys_ok a \<Longrightarrow> \<forall>k \<in> {''resultConstant'', ''result_constant'', ''resultTarget''}. dget b k = dget a k \<and> dhas b k = dhas a k \<Longrightarrow>
   result_keys_ok b"
  by (simp add: result_keys_ok_def)

subsection \<open>One operation, opened and saved\<close>

definition target_keys :: "string list" where
  "target_keys = [''name'', ''context'', ''scope'']"

text \<open>What an operation is opened to (\<open>cfg1\<close>) and saved as (\<open>cfg2\<close>).\<close>

definition round_trip :: "draft_ids \<Rightarrow> ui_defs \<Rightarrow> string \<Rightarrow> int \<Rightarrow> pydict \<Rightarrow> pydict \<Rightarrow> pydict \<Rightarrow> bool" where
  "round_trip ids defs sec ord cfg cfg1 cfg2 \<longleftrightarrow>
     (\<forall>n. hydrate_operation_cfg ids cfg defs sec ord n = (Inr cfg1, n)) \<and>
     (\<forall>n. serialize_operation_cfg ids cfg1 defs sec ord n = (Inr cfg2, n)) \<and>
     (\<forall>k. k \<notin> set (editor_keys @ (if ui_command_code cfg = ''deleteConstant'' then target_keys else [])) \<longrightarrow>
       dget cfg1 k = dget cfg k \<and> dget cfg2 k = dget cfg k)"

definition kept_keys :: "pydict \<Rightarrow> string list" where
  "kept_keys cfg = editor_keys @ (if ui_command_code cfg = ''deleteConstant'' then target_keys else [])"

text \<open>The serialisation of an opened configuration \<open>cfg1\<close>, up to its result constant.\<close>

definition resaved :: "draft_ids \<Rightarrow> ui_defs \<Rightarrow> string \<Rightarrow> int \<Rightarrow> pydict \<Rightarrow> pydict \<Rightarrow> pydict \<Rightarrow> bool" where
  "resaved ids defs sec ord cfg cfg1 mid2 \<longleftrightarrow>
     (\<exists>c1. (\<forall>n. (if ui_command_code cfg = ''initConstant'' then serialize_init ids defs sec ord cfg1 else ereturn cfg1) n =
        (Inr c1, n)) \<and> serialize_refs defs sec ord (ui_command_code cfg) c1 = Inr mid2) \<and>
     (\<forall>k. k \<notin> set (kept_keys cfg) \<longrightarrow> dget mid2 k = dget cfg k) \<and> \<not> dhas mid2 ''result_constant'' \<and>
     \<not> dhas mid2 ''resultTarget'' \<and> dget mid2 ''result_target'' = dget cfg1 ''result_target''"

lemma resaved_ref:
  assumes "ui_command_code cfg \<noteq> ''initConstant''"
    and "serialize_refs defs sec ord (ui_command_code cfg) cfg1 = Inr (dset key v (ddel key2 (ddel key cfg1)))"
    and "\<And>k. k \<notin> set (kept_keys cfg) \<Longrightarrow> dget cfg1 k = dget cfg k \<and> dhas cfg1 k = dhas cfg k"
    and "dget cfg key = v" and "\<not> dhas cfg key2" and "\<not> dhas cfg ''result_constant''" and "\<not> dhas cfg ''resultTarget''"
    and "key \<notin> {''result_constant'', ''resultTarget'', ''result_target''}" and "key2 \<noteq> ''result_target''"
  shows "resaved ids defs sec ord cfg cfg1 (dset key v (ddel key2 (ddel key cfg1)))"
proof -
  have "''result_constant'' \<notin> set (kept_keys cfg)" "''resultTarget'' \<notin> set (kept_keys cfg)"
    by (simp_all add: kept_keys_def editor_keys_def target_keys_def)
  then show ?thesis
    using assms unfolding resaved_def by (auto simp: absent_key)
qed

lemma round_tripI:
  assumes cfg: "result_keys_ok cfg" "\<not> dhas cfg ''command_code''" "dget cfg ''parameters'' = PNone"
    and mid: "hydrate_refs defs sec ord cfg = Inr mid" "\<not> dhas mid ''result_target''"
      "\<And>k. k \<notin> set (kept_keys cfg) \<Longrightarrow> dget mid k = dget cfg k \<and> dhas mid k = dhas cfg k"
    and ser: "\<And>cfg1. (\<And>k. k \<noteq> ''result_target'' \<Longrightarrow> dget cfg1 k = dget mid k \<and> dhas cfg1 k = dhas mid k) \<Longrightarrow>
      (\<And>k. k \<notin> set (kept_keys cfg) \<Longrightarrow> dget cfg1 k = dget cfg k \<and> dhas cfg1 k = dhas cfg k) \<Longrightarrow>
      \<exists>mid2. resaved ids defs sec ord cfg cfg1 mid2"
  shows "\<exists>cfg1 cfg2. round_trip ids defs sec ord cfg cfg1 cfg2"
proof -
  have keys: "k \<notin> set (kept_keys cfg)"
    if "k \<in> {''resultConstant'', ''result_constant'', ''resultTarget'', ''commandCode'', ''command_code'', ''parameters''}" for k
    using that by (auto simp: kept_keys_def editor_keys_def target_keys_def)
  have rt: "k \<noteq> ''result_target''" if "k \<notin> set (kept_keys cfg)" for k
    using that by (auto simp: kept_keys_def editor_keys_def)
  have "result_keys_ok mid" by (rule result_keys_cong [OF cfg(1)]) (use mid(3) keys in blast)
  moreover have "dget mid ''parameters'' = PNone" using mid(3) keys cfg(3) by auto
  ultimately obtain cfg1 where c1: "\<forall>n. hydrate_operation_cfg ids cfg defs sec ord n = (Inr cfg1, n)"
      "\<forall>k. k \<noteq> ''result_target'' \<longrightarrow> dget cfg1 k = dget mid k \<and> dhas cfg1 k = dhas mid k"
      "dget mid ''resultConstant'' = PNone \<longrightarrow> cfg1 = mid"
    using hydrate_by [OF mid(1) _ mid(2)] by blast
  have "dget cfg1 k = dget cfg k \<and> dhas cfg1 k = dhas cfg k" if "k \<notin> set (kept_keys cfg)" for k
    using c1(2) mid(3) [OF that] rt [OF that] by simp
  then obtain mid2 where "resaved ids defs sec ord cfg cfg1 mid2" using ser [of cfg1] c1(2) by blast
  then obtain c where c: "\<forall>n. (if ui_command_code cfg = ''initConstant'' then serialize_init ids defs sec ord cfg1 else ereturn cfg1) n = (Inr c, n)"
      "serialize_refs defs sec ord (ui_command_code cfg) c = Inr mid2"
      "\<forall>k. k \<notin> set (kept_keys cfg) \<longrightarrow> dget mid2 k = dget cfg k"
      "\<not> dhas mid2 ''result_constant''" "\<not> dhas mid2 ''resultTarget''" "dget mid2 ''result_target'' = dget cfg1 ''result_target''"
    unfolding resaved_def by blast
  have code: "ui_command_code cfg1 = ui_command_code cfg"
    by (rule command_code_cong) (use c1(2) mid(3) keys cfg(2) in auto)
  have rc: "dget mid2 ''resultConstant'' = dget cfg ''resultConstant''" using c(3) keys by blast
  have "result_keys_ok mid2" using cfg(1) c(4,5) rc by (simp add: result_keys_ok_def)
  moreover have "dget mid2 ''resultConstant'' = PNone \<longrightarrow> dget mid2 ''result_target'' = PNone"
    using rc c(6) c1(3) mid(2,3) keys by (auto simp: absent_key)
  ultimately obtain cfg2 where c2: "\<forall>n. save_result ids mid2 n = (Inr cfg2, n)" "\<forall>k. dget cfg2 k = dget mid2 k"
    using serialize_result_step by blast
  have "serialize_operation_cfg ids cfg1 defs sec ord n = (Inr cfg2, n)" for n
    using c(1) [rule_format, of n] c(2) c2(1) by (simp add: serialize_operation_cfg_def code ebind_def)
  moreover have "dget cfg1 k = dget cfg k \<and> dget cfg2 k = dget cfg k" if "k \<notin> set (kept_keys cfg)" for k
  proof -
    have "k \<noteq> ''result_target''" using that by (auto simp: kept_keys_def editor_keys_def)
    then show ?thesis using that c1(2) mid(3) c2(2) c(3) by simp
  qed
  ultimately show ?thesis using c1(1) unfolding round_trip_def kept_keys_def [symmetric] by blast
qed

lemma stored_base:
  assumes "stored_cfg defs sec ord cfg"
  shows "sane_definitions defs sec ord" and "result_keys_ok cfg" and "dget cfg ''parameters'' = PNone"
    and "k \<in> set (editor_keys @ other_spellings) \<Longrightarrow> \<not> dhas cfg k"
  using assms by (auto simp: stored_cfg_def result_keys_ok_def list_all_iff other_spellings_def)

text \<open>The keys that are absent from a stored configuration, one by one.\<close>

lemma stored_absent:
  assumes "stored_cfg defs sec ord cfg"
  shows "\<not> dhas cfg ''source''" "\<not> dhas cfg ''actual''" "\<not> dhas cfg ''constants''" "\<not> dhas cfg ''result_target''"
    "\<not> dhas cfg ''command_code''" "\<not> dhas cfg ''definition_id''" "\<not> dhas cfg ''target_constant_ref''"
    "\<not> dhas cfg ''source_constant_ref''" "\<not> dhas cfg ''actual_constant_ref''" "\<not> dhas cfg ''constant_refs''"
    "\<not> dhas cfg ''result_constant''" "\<not> dhas cfg ''resultTarget''"
  by (rule stored_base(4) [OF assms], simp add: editor_keys_def other_spellings_def)+

lemma is_ref_obtain:
  assumes "is_ref defs sec ord v"
  shows "\<exists>d \<in> set (visible_definitions defs sec ord). v = ref_to d"
  using assms by (auto simp: is_ref_def list_ex_iff)

lemma round_delete:
  assumes st: "stored_cfg defs sec ord cfg" and code: "ui_command_code cfg = ''deleteConstant''"
  shows "\<exists>cfg1 cfg2. round_trip ids defs sec ord cfg cfg1 cfg2"
proof -
  note sane = stored_base(1) [OF st] and absent = stored_absent [OF st]
  have refs: "is_ref defs sec ord (dget cfg ''targetConstantRef'')" "\<not> dhas cfg ''name''" "\<not> dhas cfg ''context''"
      "\<not> dhas cfg ''scope''" "\<not> dhas cfg ''sourceConstantRef''" "\<not> dhas cfg ''actualConstantRef''" "\<not> dhas cfg ''constantRefs''"
    using st code by (simp_all add: stored_cfg_def source_commands_def actual_commands_def)
  obtain d where d: "d \<in> set (visible_definitions defs sec ord)" "dget cfg ''targetConstantRef'' = ref_to d"
    using is_ref_obtain [OF refs(1)] by blast
  define mid where "mid = dset ''scope'' (PStr (ui_context_scope d))
    (dset ''context'' (PStr (ui_context_scope d)) (dset ''name'' (PStr (ui_name d)) cfg))"
  have kept: "kept_keys cfg = editor_keys @ target_keys" by (simp add: kept_keys_def code)
  show ?thesis
  proof (rule round_tripI [OF stored_base(2) [OF st] absent(5) stored_base(3) [OF st]])
    have "hydrate_target defs sec ord cfg = mid"
      unfolding mid_def by (rule hydrate_target_present [OF sane d absent(7) refs(2-4)])
    moreover have "\<not> dhas mid ''sourceConstantRef''" "\<not> dhas mid ''actualConstantRef''" "\<not> dhas mid ''constantRefs''"
        "\<not> dhas mid ''source_constant_ref''" "\<not> dhas mid ''actual_constant_ref''" "\<not> dhas mid ''constant_refs''"
      using refs absent by (simp_all add: mid_def)
    ultimately show "hydrate_refs defs sec ord cfg = Inr mid"
      by (simp add: hydrate_refs_def code hydrate_ref_absent hydrate_constants_absent)
    show "\<not> dhas mid ''result_target''" using absent by (simp add: mid_def)
    show "dget mid k = dget cfg k \<and> dhas mid k = dhas cfg k" if "k \<notin> set (kept_keys cfg)" for k
      using that by (auto simp: kept target_keys_def mid_def)
    fix cfg1
    assume c1: "\<And>k. k \<noteq> ''result_target'' \<Longrightarrow> dget cfg1 k = dget mid k \<and> dhas cfg1 k = dhas mid k"
    assume c2: "\<And>k. k \<notin> set (kept_keys cfg) \<Longrightarrow> dget cfg1 k = dget cfg k \<and> dhas cfg1 k = dhas cfg k"
    have "serialize_target defs sec ord cfg1 =
        dset ''targetConstantRef'' (ref_to d) (ddel ''target_constant_ref'' (ddel ''targetConstantRef'' cfg1))"
      by (rule serialize_target_present [OF sane d(1)]) (use c1 in \<open>simp_all add: mid_def\<close>)
    then have "serialize_refs defs sec ord (ui_command_code cfg) cfg1 =
        Inr (dset ''targetConstantRef'' (ref_to d) (ddel ''target_constant_ref'' (ddel ''targetConstantRef'' cfg1)))"
      by (simp add: code serialize_refs_def source_commands_def actual_commands_def)
    from resaved_ref [OF _ this c2 d(2) absent(7,11,12)] show "\<exists>mid2. resaved ids defs sec ord cfg cfg1 mid2"
      by (simp add: code) blast
  qed
qed

lemma kept_plain: "ui_command_code cfg \<noteq> ''deleteConstant'' \<Longrightarrow> kept_keys cfg = editor_keys"
  by (simp add: kept_keys_def)

text \<open>A command with one reference that is shown in \<open>field\<close>.\<close>

lemma round_ref:
  assumes st: "stored_cfg defs sec ord cfg"
    and code: "ui_command_code cfg \<notin> {''initConstant'', ''deleteConstant'', ''runSuite''}"
    and hyd: "hydrate_refs defs sec ord cfg = Inr (dset field (path_of d) cfg)"
    and ser: "\<And>c. dget c field = path_of d \<Longrightarrow> serialize_refs defs sec ord (ui_command_code cfg) c =
      Inr (dset key (ref_to d) (ddel other_key (ddel key c)))"
    and field: "field \<in> {''source'', ''actual''}" and ref: "dget cfg key = ref_to d"
    and key: "key \<in> {''sourceConstantRef'', ''actualConstantRef''}" and other_key: "\<not> dhas cfg other_key" "other_key \<noteq> ''result_target''"
  shows "\<exists>cfg1 cfg2. round_trip ids defs sec ord cfg cfg1 cfg2"
proof -
  note absent = stored_absent [OF st]
  have kept: "kept_keys cfg = editor_keys" using code by (intro kept_plain) simp
  show ?thesis
  proof (rule round_tripI [OF stored_base(2) [OF st] absent(5) stored_base(3) [OF st] hyd])
    show "\<not> dhas (dset field (path_of d) cfg) ''result_target''" using absent field by auto
    show "dget (dset field (path_of d) cfg) k = dget cfg k \<and> dhas (dset field (path_of d) cfg) k = dhas cfg k"
      if "k \<notin> set (kept_keys cfg)" for k
      using that field by (auto simp: kept editor_keys_def)
    fix cfg1
    assume c1: "\<And>k. k \<noteq> ''result_target'' \<Longrightarrow> dget cfg1 k = dget (dset field (path_of d) cfg) k \<and>
      dhas cfg1 k = dhas (dset field (path_of d) cfg) k"
    assume c2: "\<And>k. k \<notin> set (kept_keys cfg) \<Longrightarrow> dget cfg1 k = dget cfg k \<and> dhas cfg1 k = dhas cfg k"
    have "field \<noteq> ''result_target''" using field by auto
    then have "dget cfg1 field = path_of d" using c1 by simp
    note done1 = resaved_ref [OF _ ser [OF this] c2 ref other_key(1) absent(11,12) _ other_key(2)]
    have "ui_command_code cfg \<noteq> ''initConstant''" "key \<notin> {''result_constant'', ''resultTarget'', ''result_target''}"
      using code key by auto
    from done1 [OF this(1) _ this(2)] show "\<exists>mid2. resaved ids defs sec ord cfg cfg1 mid2" by blast
  qed
qed

lemma codes_apart:
  "set source_commands \<inter> set actual_commands = {}"
  "set (source_commands @ actual_commands) \<inter> {''initConstant'', ''deleteConstant'', ''runSuite''} = {}"
  by (simp_all add: source_commands_def actual_commands_def)

lemma round_source:
  assumes st: "stored_cfg defs sec ord cfg" and code: "ui_command_code cfg \<in> set source_commands"
  shows "\<exists>cfg1 cfg2. round_trip ids defs sec ord cfg cfg1 cfg2"
proof -
  note sane = stored_base(1) [OF st] and absent = stored_absent [OF st]
  have other: "ui_command_code cfg \<notin> {''initConstant'', ''deleteConstant'', ''runSuite''}" "ui_command_code cfg \<notin> set actual_commands"
    using code codes_apart by auto
  have refs: "is_ref defs sec ord (dget cfg ''sourceConstantRef'')" "\<not> dhas cfg ''actualConstantRef''" "\<not> dhas cfg ''constantRefs''"
    using st code other by (simp_all add: stored_cfg_def Let_def)
  obtain d where d: "d \<in> set (visible_definitions defs sec ord)" "dget cfg ''sourceConstantRef'' = ref_to d"
    using is_ref_obtain [OF refs(1)] by blast
  show ?thesis
  proof (rule round_ref [where field = "''source''" and key = "''sourceConstantRef''" and other_key = "''source_constant_ref''" and d = d, OF st other(1)])
    have "hydrate_ref defs sec ord ''sourceConstantRef'' ''source_constant_ref'' ''source'' (\<lambda>v. token v \<noteq> []) cfg =
        dset ''source'' (path_of d) cfg"
      by (rule hydrate_ref_present [OF sane d absent(8)]) (simp add: absent_key [OF absent(1)])
    then show "hydrate_refs defs sec ord cfg = Inr (dset ''source'' (path_of d) cfg)"
      using other(1) refs absent by (simp add: hydrate_refs_def hydrate_ref_absent hydrate_constants_absent)
    show "serialize_refs defs sec ord (ui_command_code cfg) c =
        Inr (dset ''sourceConstantRef'' (ref_to d) (ddel ''source_constant_ref'' (ddel ''sourceConstantRef'' c)))"
      if "dget c ''source'' = path_of d" for c
      using serialize_ref_present [OF sane d(1) that] other code by (simp add: serialize_refs_def)
  qed (use d absent in simp_all)
qed

lemma round_actual:
  assumes st: "stored_cfg defs sec ord cfg" and code: "ui_command_code cfg \<in> set actual_commands"
  shows "\<exists>cfg1 cfg2. round_trip ids defs sec ord cfg cfg1 cfg2"
proof -
  note sane = stored_base(1) [OF st] and absent = stored_absent [OF st]
  have other: "ui_command_code cfg \<notin> {''initConstant'', ''deleteConstant'', ''runSuite''}" "ui_command_code cfg \<notin> set source_commands"
    using code codes_apart by auto
  have refs: "is_ref defs sec ord (dget cfg ''actualConstantRef'')" "\<not> dhas cfg ''sourceConstantRef''" "\<not> dhas cfg ''constantRefs''"
    using st code other by (simp_all add: stored_cfg_def Let_def)
  obtain d where d: "d \<in> set (visible_definitions defs sec ord)" "dget cfg ''actualConstantRef'' = ref_to d"
    using is_ref_obtain [OF refs(1)] by blast
  show ?thesis
  proof (rule round_ref [where field = "''actual''" and key = "''actualConstantRef''" and other_key = "''actual_constant_ref''" and d = d, OF st other(1)])
    have "hydrate_ref defs sec ord ''actualConstantRef'' ''actual_constant_ref'' ''actual'' truthy cfg =
        dset ''actual'' (path_of d) cfg"
      by (rule hydrate_ref_present [OF sane d absent(9)]) (simp add: absent_key [OF absent(2)])
    then show "hydrate_refs defs sec ord cfg = Inr (dset ''actual'' (path_of d) cfg)"
      using other(1) refs absent by (simp add: hydrate_refs_def hydrate_ref_absent hydrate_constants_absent)
    show "serialize_refs defs sec ord (ui_command_code cfg) c =
        Inr (dset ''actualConstantRef'' (ref_to d) (ddel ''actual_constant_ref'' (ddel ''actualConstantRef'' c)))"
      if "dget c ''actual'' = path_of d" for c
      using serialize_ref_present [OF sane d(1) that] other code by (simp add: serialize_refs_def)
  qed (use d absent in simp_all)
qed

lemma round_run_suite:
  assumes st: "stored_cfg defs sec ord cfg" and code: "ui_command_code cfg = ''runSuite''"
  shows "\<exists>cfg1 cfg2. round_trip ids defs sec ord cfg cfg1 cfg2"
proof -
  note sane = stored_base(1) [OF st] and absent = stored_absent [OF st]
  have refs: "\<not> dhas cfg ''sourceConstantRef''" "\<not> dhas cfg ''actualConstantRef''"
    using st code by (simp_all add: stored_cfg_def source_commands_def actual_commands_def)
  obtain v vs where v: "dget cfg ''constantRefs'' = PList (v # vs)" "list_all (is_named_ref defs sec ord) (v # vs)"
    using st code by (auto simp: stored_cfg_def Let_def split: pyval.splits list.splits)
  obtain names where n: "hydrate_constants defs sec ord cfg = Inr (dset ''constants'' (PList names) cfg)"
      "\<forall>c. dget c ''constants'' = PList names \<longrightarrow> serialize_constants defs sec ord c =
        Inr (dset ''constantRefs'' (PList (v # vs)) (ddel ''constant_refs'' (ddel ''constantRefs'' c)))"
    using run_suite_round [OF sane v absent(10) absent_key [OF absent(3)]] by blast
  have kept: "kept_keys cfg = editor_keys" using code by (intro kept_plain) simp
  show ?thesis
  proof (rule round_tripI [OF stored_base(2) [OF st] absent(5) stored_base(3) [OF st]])
    show "hydrate_refs defs sec ord cfg = Inr (dset ''constants'' (PList names) cfg)"
      using n(1) refs absent by (simp add: hydrate_refs_def code hydrate_ref_absent)
    show "\<not> dhas (dset ''constants'' (PList names) cfg) ''result_target''" using absent by simp
    show "dget (dset ''constants'' (PList names) cfg) k = dget cfg k \<and> dhas (dset ''constants'' (PList names) cfg) k = dhas cfg k"
      if "k \<notin> set (kept_keys cfg)" for k
      using that by (auto simp: kept editor_keys_def)
    fix cfg1
    assume c1: "\<And>k. k \<noteq> ''result_target'' \<Longrightarrow> dget cfg1 k = dget (dset ''constants'' (PList names) cfg) k \<and>
      dhas cfg1 k = dhas (dset ''constants'' (PList names) cfg) k"
    assume c2: "\<And>k. k \<notin> set (kept_keys cfg) \<Longrightarrow> dget cfg1 k = dget cfg k \<and> dhas cfg1 k = dhas cfg k"
    have "dget cfg1 ''constants'' = PList names" using c1 [of "''constants''"] by simp
    then have "serialize_refs defs sec ord (ui_command_code cfg) cfg1 =
        Inr (dset ''constantRefs'' (PList (v # vs)) (ddel ''constant_refs'' (ddel ''constantRefs'' cfg1)))"
      using n(2) by (simp add: serialize_refs_def code source_commands_def actual_commands_def)
    from resaved_ref [OF _ this c2 v(1) absent(10,11,12)] show "\<exists>mid2. resaved ids defs sec ord cfg cfg1 mid2"
      by (simp add: code) blast
  qed
qed

lemma round_plain:
  assumes st: "stored_cfg defs sec ord cfg"
    and code: "ui_command_code cfg \<notin> set (source_commands @ actual_commands @ [''deleteConstant'', ''runSuite''])"
  shows "\<exists>cfg1 cfg2. round_trip ids defs sec ord cfg cfg1 cfg2"
proof -
  note absent = stored_absent [OF st]
  have refs: "\<not> dhas cfg ''sourceConstantRef''" "\<not> dhas cfg ''actualConstantRef''" "\<not> dhas cfg ''constantRefs''"
    using st code by (simp_all add: stored_cfg_def Let_def)
  have kept: "kept_keys cfg = editor_keys" using code by (intro kept_plain) auto
  have rt: "''result_target'' \<in> set editor_keys" "''result_constant'' \<notin> set editor_keys" "''resultTarget'' \<notin> set editor_keys"
    "''definitionId'' \<notin> set editor_keys" "''definition_id'' \<notin> set editor_keys" "''parameters'' \<notin> set editor_keys"
    by (simp_all add: editor_keys_def)
  show ?thesis
  proof (rule round_tripI [OF stored_base(2) [OF st] absent(5) stored_base(3) [OF st]])
    show "hydrate_refs defs sec ord cfg = Inr cfg"
      using code refs absent by (simp add: hydrate_refs_def hydrate_ref_absent hydrate_constants_absent)
    fix cfg1
    assume c2: "\<And>k. k \<notin> set (kept_keys cfg) \<Longrightarrow> dget cfg1 k = dget cfg k \<and> dhas cfg1 k = dhas cfg k"
    have ser: "serialize_refs defs sec ord (ui_command_code cfg) c = Inr c" for c
      using code by (simp add: serialize_refs_def)
    show "\<exists>mid2. resaved ids defs sec ord cfg cfg1 mid2"
    proof (cases "ui_command_code cfg = ''initConstant''")
      case False
      then show ?thesis using ser c2 rt absent kept by (intro exI [of _ cfg1]) (simp add: resaved_def)
    next
      case True
      then obtain i where i: "dget cfg ''definitionId'' = PStr i" "i \<noteq> []" "strip i = i"
        using st by (auto simp: stored_cfg_def Let_def split: pyval.splits)
      have "dget cfg1 ''definitionId'' = PStr i" "\<not> dhas cfg1 ''definition_id''" "dget cfg1 ''parameters'' = PNone"
        using c2 rt i(1) absent kept stored_base(3) [OF st] by simp_all
      then have "serialize_init ids defs sec ord cfg1 n = (Inr (dset ''definitionId'' (PStr i) cfg1), n)" for n
        using i(2,3) by (simp add: serialize_init_def ebind_def no_bindings(2))
      then show ?thesis
        using True ser c2 rt absent kept i(1)
        by (intro exI [of _ "dset ''definitionId'' (PStr i) cfg1"]) (simp add: resaved_def)
    qed
  qed (use absent in simp_all)
qed

lemma op_round:
  assumes "stored_cfg defs sec ord cfg"
  shows "\<exists>cfg1 cfg2. round_trip ids defs sec ord cfg cfg1 cfg2"
proof -
  consider "ui_command_code cfg = ''deleteConstant''" | "ui_command_code cfg = ''runSuite''"
    | "ui_command_code cfg \<in> set source_commands" | "ui_command_code cfg \<in> set actual_commands"
    | "ui_command_code cfg \<notin> set (source_commands @ actual_commands @ [''deleteConstant'', ''runSuite''])"
    by auto
  then show ?thesis
    by cases (rule round_delete round_run_suite round_source round_actual round_plain; (rule assms | assumption))+
qed

subsection \<open>The definitions after an operation\<close>

lemma updates_cong:
  assumes "\<And>k. k \<notin> set (kept_keys a) \<Longrightarrow> dget b k = dget a k"
  shows "apply_post_command_definition_updates b defs ord = apply_post_command_definition_updates a defs ord"
proof -
  have keys: "dget b k = dget a k" if "k \<in> set [''commandCode'', ''command_code'', ''targetConstantRef'', ''target_constant_ref'',
      ''resultConstant'', ''result_constant'', ''definitionId'', ''definition_id'', ''key'', ''sourceType'', ''source_type'']" for k
    by (rule assms) (use that in \<open>auto simp: kept_keys_def editor_keys_def target_keys_def\<close>)
  have code: "ui_command_code b = ui_command_code a" using keys by (simp add: ui_command_code_def first_of_def)
  show ?thesis
  proof (cases "ui_command_code a = ''deleteConstant''")
    case True
    then show ?thesis using keys code by (simp add: apply_post_command_definition_updates_def first_of_def)
  next
    case False
    have "dget b k = dget a k" if "k \<in> set target_keys" for k
      by (rule assms) (use that False in \<open>auto simp: kept_keys_def editor_keys_def target_keys_def\<close>)
    then have f: "first_of b ''name'' ''key'' = first_of a ''name'' ''key''" "first_of b ''context'' ''scope'' = first_of a ''context'' ''scope''"
        "first_of b ''definitionId'' ''definition_id'' = first_of a ''definitionId'' ''definition_id''"
        "first_of b ''sourceType'' ''source_type'' = first_of a ''sourceType'' ''source_type''"
        "first_of b ''resultConstant'' ''result_constant'' = first_of a ''resultConstant'' ''result_constant''"
      using keys by (simp_all add: first_of_def target_keys_def)
    have "definition_from_init b ord = definition_from_init a ord" "definition_from_result b ord = definition_from_result a ord"
      unfolding definition_from_init_def definition_from_result_def result_constant_of_def f by (rule refl)+
    then show ?thesis using code False by (simp add: apply_post_command_definition_updates_def)
  qed
qed

subsection \<open>The operations of an item\<close>

text \<open>Commands as the API answers them: an order, and a configuration as it is stored.\<close>

fun stored_operations :: "string \<Rightarrow> pyval list \<Rightarrow> int \<Rightarrow> ui_defs \<Rightarrow> bool" where
  "stored_operations sec [] k defs = True"
| "stored_operations sec (PDict op # ops) k defs =
     (case (dget op ''order'', dget op ''configuration_json'') of
        (PInt n, PDict cfg) \<Rightarrow>
          (let ord = (if n = 0 then k else n) in
           ord \<noteq> 0 \<and> cfg \<noteq> [] \<and> \<not> dhas op ''cfg'' \<and> stored_cfg defs sec ord cfg \<and>
           stored_operations sec ops (k + 1) (apply_post_command_definition_updates cfg defs ord))
      | _ \<Rightarrow> False)"
| "stored_operations sec (v # ops) k defs = False"

text \<open>What is sent back for each operation.\<close>

fun sent_back :: "pyval list \<Rightarrow> int \<Rightarrow> pyval list \<Rightarrow> bool" where
  "sent_back [] k [] = True"
| "sent_back (PDict op # ops) k (PDict c # cs) =
     (let cfg = operation_cfg op in
      dget c ''order'' = (if truthy (dget op ''order'') then dget op ''order'' else PInt k) \<and>
      dget c ''description'' = PStr (text_of (dget op ''description'')) \<and>
      same_cfg (kept_keys cfg) (dict_or_empty (dget c ''cfg'')) cfg \<and> sent_back ops (k + 1) cs)"
| "sent_back _ k _ = False"

lemma operations_round:
  assumes "stored_operations sec ops k defs"
  shows "\<exists>ds cs defs1 n1. normalize_operations ids sec ops k defs n = (Inr (ds, defs1), n1) \<and>
    (\<forall>m. serialize_operations ids sec ds k defs m = (Inr (cs, defs1), m)) \<and> sent_back ops k cs"
  using assms
proof (induction sec ops k defs arbitrary: n rule: stored_operations.induct)
  case (1 sec k defs)
  then show ?case by simp
next
  case (2 sec op ops k defs)
  from "2.prems" obtain o0 cfg where op: "dget op ''order'' = PInt o0" "dget op ''configuration_json'' = PDict cfg"
    and rest: "(if o0 = 0 then k else o0) \<noteq> 0" "cfg \<noteq> []" "\<not> dhas op ''cfg''" "stored_cfg defs sec (if o0 = 0 then k else o0) cfg"
      "stored_operations sec ops (k + 1) (apply_post_command_definition_updates cfg defs (if o0 = 0 then k else o0))"
    by (auto simp: Let_def split: pyval.splits)
  define ord where "ord = (if o0 = 0 then k else o0)"
  obtain cfg1 cfg2 where rt: "round_trip ids defs sec ord cfg cfg1 cfg2" using op_round rest(4) unfolding ord_def by blast
  have keys: "k \<notin> set (kept_keys cfg) \<Longrightarrow> dget cfg1 k = dget cfg k \<and> dget cfg2 k = dget cfg k" for k
    using rt unfolding round_trip_def kept_keys_def by blast
  let ?defs = "apply_post_command_definition_updates cfg defs ord"
  have post: "apply_post_command_definition_updates cfg1 defs ord = ?defs" "apply_post_command_definition_updates cfg2 defs ord = ?defs"
    using keys by (auto intro!: updates_cong)
  have ocfg: "operation_cfg op = cfg" "operation_order op k = Inr ord"
    using op rest(2) by (simp_all add: operation_cfg_def first_of_def py_or_def operation_order_def ord_def)
  obtain key n1 where key: "keep_key ids op n = (Inr key, n1)"
    by (cases "truthy (dget op ''_ui_key'')") (auto simp: keep_key_def fresh_def)
  have stored: "stored_operations sec ops (k + 1) ?defs" using rest(5) by (simp add: ord_def)
  have "\<exists>ds cs defs1 n2. normalize_operations ids sec ops (k + 1) ?defs n1 = (Inr (ds, defs1), n2) \<and>
    (\<forall>m. serialize_operations ids sec ds (k + 1) ?defs m = (Inr (cs, defs1), m)) \<and> sent_back ops (k + 1) cs"
    by (rule "2.IH" [of "PInt o0" "PDict cfg" o0 cfg ord n1]) (simp_all add: op ord_def stored [unfolded ord_def])
  then obtain ds cs defs1 n2 where ih: "normalize_operations ids sec ops (k + 1) ?defs n1 = (Inr (ds, defs1), n2)"
      "\<forall>m. serialize_operations ids sec ds (k + 1) ?defs m = (Inr (cs, defs1), m)" "sent_back ops (k + 1) cs"
    by blast
  define op1 where "op1 = dset ''_ui_key'' (PStr key) (dset ''configuration_json'' (PDict cfg1) (dset ''order'' (PInt ord) op))"
  have "normalize_operations ids sec (PDict op # ops) k defs n = (Inr (PDict op1 # ds, defs1), n2)"
    using rt ih(1) key by (simp add: ebind_def ocfg round_trip_def post op1_def)
  moreover have op1: "operation_cfg op1 = cfg1" "operation_order op1 k = Inr ord" "dget op1 ''description'' = dget op ''description''"
    using rest(1,3) by (auto simp: op1_def operation_cfg_def first_of_def py_or_def operation_order_def ord_def absent_key)
  define c where "c = [(''order'', PInt ord), (''description'', PStr (text_of (dget op ''description''))), (''cfg'', PDict cfg2)]"
  have "serialize_operations ids sec (PDict op1 # ds) k defs m = (Inr (PDict c # cs, defs1), m)" for m
    using rt ih(2) by (simp add: ebind_def op1 round_trip_def post c_def)
  moreover have "same_cfg (kept_keys cfg) cfg2 cfg" using keys by (intro same_cfgI) simp
  then have "sent_back (PDict op # ops) k (PDict c # cs)"
    using ih(3) op(1) by (simp add: ocfg c_def dget_def [of "_ # _"] dget_default_def [of "_ # _"] ord_def)
  ultimately show ?case by blast
qed simp_all


subsection \<open>A reference that changes\<close>

text \<open>
  When a test sees a local and another constant of the same name, a \<open>runSuite\<close> command that passes
  the other one is sent back with a reference to the local one: the editor shows a constant by its
  name only.
\<close>

theorem run_suite_reference_lost:
  assumes "sane_definitions defs sec ord" and "d \<in> set (visible_definitions defs sec ord)"
    and "e \<in> set (visible_definitions defs sec ord)" and "ui_context_scope d = ''local''"
    and "ui_context_scope e \<noteq> ''local''" and "ui_name e = ui_name d"
    and cfg: "cfg = [(''commandCode'', PStr ''runSuite''), (''commandType'', PStr ''action''), (''suite_id'', PStr suite),
      (''constantRefs'', PList [ref_to e]), (''resultConstant'', PNone)]"
  shows "\<exists>cfg1 cfg2. hydrate_operation_cfg ids cfg defs sec ord n = (Inr cfg1, n) \<and>
    serialize_operation_cfg ids cfg1 defs sec ord m = (Inr cfg2, m) \<and>
    dget cfg2 ''constantRefs'' = PList [ref_to d] \<and> ref_to d \<noteq> ref_to e"
proof -
  have "ui_definition_id d \<noteq> ui_definition_id e"
    using find_by_id [OF assms(1,2)] find_by_id [OF assms(1,3)] assms(4,5) by (metis option.inject)
  then have ne: "ref_to d \<noteq> ref_to e" by (simp add: ref_to_def)
  have name: "referenced_name defs sec ord (ref_to e) = Some (PStr (ui_name d))"
    using visible_plain [OF assms(1,3)] find_by_id [OF assms(1,3)] assms(6)
    by (simp add: referenced_name_def constant_ref_id_ref_to)
  have "find_definition_by_name defs sec ord (ui_name d) = Some d" "ui_name d \<noteq> []"
    using find_by_scope_name [OF assms(1,2)] visible_plain [OF assms(1,2)] assms(4)
    by (simp_all add: find_definition_by_name_def plain_definition_def plain_name_def)
  then have ref: "named_reference defs sec ord (PStr (ui_name d)) = Some (ref_to d)"
    by (simp add: named_reference_def text_of_def py_or_def)
  define cfg1 where "cfg1 = dset ''constants'' (PList [PStr (ui_name d)]) cfg"
  define cfg2 where "cfg2 = dset ''constantRefs'' (PList [ref_to d]) (ddel ''constant_refs'' (ddel ''constantRefs'' cfg1))"
  have keys: "dget cfg ''constantRefs'' = PList [ref_to e]" "dget cfg ''constants'' = PNone" "dget cfg ''resultConstant'' = PNone"
      "dget cfg ''commandCode'' = PStr ''runSuite''" and none: "\<not> dhas cfg k"
    if "k \<in> set (''sourceConstantRef'' # ''actualConstantRef'' # ''result_target'' # other_spellings)" for k
    using that by (auto simp: cfg dget_def dget_default_def dhas_def other_spellings_def)
  have absent: "\<not> dhas cfg ''sourceConstantRef''" "\<not> dhas cfg ''source_constant_ref''" "\<not> dhas cfg ''actualConstantRef''"
      "\<not> dhas cfg ''actual_constant_ref''" "\<not> dhas cfg ''command_code''" "\<not> dhas cfg ''constant_refs''"
      "\<not> dhas cfg ''result_constant''" "\<not> dhas cfg ''resultTarget''" "\<not> dhas cfg ''result_target''"
    by (rule none, simp add: other_spellings_def)+
  note keys = keys [of "''result_target''", simplified]
  have "strip ''runSuite'' = ''runSuite''" by code_simp
  then have code: "ui_command_code cfg = ''runSuite''" "ui_command_code cfg1 = ''runSuite''"
    using keys absent by (simp_all add: ui_command_code_def cfg1_def)
  have res: "serialize_result_constant ids cfg1 k = (Inr None, k)" "serialize_result_constant ids cfg2 k = (Inr None, k)" for k
    using keys absent by (auto intro!: result_none simp: cfg1_def cfg2_def absent_key)
  have "hydrate_refs defs sec ord cfg = Inr cfg1"
    using keys absent name
    by (simp add: hydrate_refs_def code hydrate_ref_absent hydrate_constants_def py_or_def iterated_def map_filter_simps cfg1_def)
  then have "hydrate_operation_cfg ids cfg defs sec ord n = (Inr cfg1, n)"
    using res by (simp add: hydrate_operation_cfg_def ebind_def code hydrate_result_def)
  moreover have "serialize_refs defs sec ord ''runSuite'' cfg1 = Inr cfg2"
    using ref by (simp add: serialize_refs_def source_commands_def actual_commands_def serialize_constants_def cfg1_def
      cfg2_def py_or_def iterated_def map_filter_simps)
  then have "serialize_operation_cfg ids cfg1 defs sec ord m = (Inr cfg2, m)"
    using res by (simp add: serialize_operation_cfg_def ebind_def code save_result_def)
  ultimately show ?thesis using ne by (intro exI [of _ cfg1] exI [of _ cfg2]) (simp add: cfg2_def)
qed

subsection \<open>The editor and the planner\<close>

text \<open>The definitions of the editor and of the planner, their types apart.\<close>

definition same_definition :: "ui_definition \<Rightarrow> planned_definition \<Rightarrow> bool" where
  "same_definition u d \<longleftrightarrow>
     ui_definition_id u = pd_definition_id d \<and> ui_name u = pd_name d \<and> ui_context_scope u = pd_context_scope d \<and>
     ui_declared_at_order u = pd_command_order d \<and> ui_deleted_at_order u = pd_deleted_at_order d"

definition same_definitions :: "ui_defs \<Rightarrow> def_map \<Rightarrow> bool" where
  "same_definitions us ds \<longleftrightarrow> list_all2 (\<lambda>(i, u) (j, d). i = j \<and> same_definition u d) us ds"

lemma carry_over_same:
  "same_definitions us ds \<Longrightarrow> same_definitions (carry_over_definitions us) (carry_over_visible_map ds)"
  unfolding same_definitions_def
  by (induction rule: list_all2_induct)
    (auto simp: carry_over_definitions_def carry_over_visible_map_def same_definition_def)

lemma visible_active:
  assumes "sec \<in> set (map fst ui_readable_scopes)" and "same_definition u d"
  shows "is_visible sec ord u \<longleftrightarrow> is_active (readable_scopes sec) ord d"
proof -
  have "lookup_scopes ui_readable_scopes sec = readable_scopes sec"
    using assms(1) by (auto simp: ui_readable_scopes_def readable_scopes_table_def lookup_scopes_def)
  then show ?thesis
    using assms(2) by (auto simp: is_visible_def is_active_def same_definition_def split: option.splits)
qed

text \<open>
  C21. The editor offers exactly the constants the server accepts: with the same definitions, in every
  section of a suite and at every position, what the editor shows are the definitions that are
  active for the planner; and the definitions carried over to the next section are the same again.
\<close>

theorem editor_agrees_with_planner:
  assumes "sec \<in> set (map fst ui_readable_scopes)" and "same_definitions us ds"
  shows "mset (map ui_definition_id (visible_definitions us sec ord)) =
      mset (map (pd_definition_id \<circ> snd) (active_definitions ds (readable_scopes sec) ord)) \<and>
    same_definitions (carry_over_definitions us) (carry_over_visible_map ds)"
proof -
  have "map ui_definition_id (filter (is_visible sec ord) (map snd us)) =
      map (pd_definition_id \<circ> snd) (active_definitions ds (readable_scopes sec) ord)"
    using assms(2) unfolding same_definitions_def
    by (induction rule: list_all2_induct)
      (auto simp: active_definitions_def visible_active [OF assms(1)] same_definition_def)
  moreover have "mset (map ui_definition_id (visible_definitions us sec ord)) =
      mset (map ui_definition_id (filter (is_visible sec ord) (map snd us)))"
    by (simp add: visible_definitions_def)
  ultimately show ?thesis using carry_over_same [OF assms(2)] by (simp only: simp_thms)
qed

subsection \<open>A test in the editor\<close>

definition editor_ids :: draft_ids where
  "editor_ids = \<lparr>di_definition = (\<lambda>n. ''d-'' @ show_nat n), di_key = (\<lambda>n. ''k-'' @ show_nat n)\<rparr>"

definition cart :: "string \<Rightarrow> string \<Rightarrow> ui_definition" where
  "cart i scope = \<lparr>ui_definition_id = i, ui_name = ''cart'', ui_context_scope = scope, ui_value_type = ''json'',
     ui_declared_at_order = 0, ui_deleted_at_order = None\<rparr>"

definition two_carts :: ui_defs where
  "two_carts = [(''g'', cart ''g'' ''global''), (''l'', cart ''l'' ''local'')]"

definition stored_op :: "int \<Rightarrow> pydict \<Rightarrow> pyval" where
  "stored_op ord cfg = PDict [(''id'', PStr ''c''), (''order'', PInt ord), (''description'', PNone),
     (''configuration_json'', PDict cfg)]"

definition order_test :: "pyval list" where
  "order_test =
     [stored_op 1 [(''commandCode'', PStr ''initConstant''), (''definitionId'', PStr ''d1''), (''name'', PStr ''orders''),
        (''context'', PStr ''local''), (''sourceType'', PStr ''json''), (''value'', PDict [])],
      stored_op 2 [(''commandCode'', PStr ''sendMessageQueue''), (''queue_id'', PStr ''q''),
        (''sourceConstantRef'', PDict [(''definitionId'', PStr ''d1'')]),
        (''resultConstant'', PDict (result_dict ''d2'' ''sent'' ''json''))],
      stored_op 3 [(''commandCode'', PStr ''jsonNotEmpty''), (''actualConstantRef'', PDict [(''definitionId'', PStr ''d2'')])],
      stored_op 0 [(''commandCode'', PStr ''deleteConstant''), (''targetConstantRef'', PDict [(''definitionId'', PStr ''d1'')])]]"

lemma order_test_stored: "stored_operations ''test'' order_test 1 (carry_over_definitions [])"
  by code_simp


theorem run_suite_reference_lost_witness:
  "\<exists>cfg1 cfg2. hydrate_operation_cfg editor_ids [(''commandCode'', PStr ''runSuite''), (''commandType'', PStr ''action''),
       (''suite_id'', PStr ''s''), (''constantRefs'', PList [ref_to (cart ''g'' ''global'')]), (''resultConstant'', PNone)]
       two_carts ''test'' 1 0 = (Inr cfg1, 0) \<and>
     serialize_operation_cfg editor_ids cfg1 two_carts ''test'' 1 0 = (Inr cfg2, 0) \<and>
     dget cfg2 ''constantRefs'' = PList [ref_to (cart ''l'' ''local'')]"
proof -
  have sane: "sane_definitions two_carts ''test'' 1" by code_simp
  have vis: "visible_definitions two_carts ''test'' 1 = [cart ''g'' ''global'', cart ''l'' ''local'']" by code_simp
  have "cart ''l'' ''local'' \<in> set (visible_definitions two_carts ''test'' 1)"
      "cart ''g'' ''global'' \<in> set (visible_definitions two_carts ''test'' 1)"
    by (simp_all add: vis)
  from run_suite_reference_lost [OF sane this _ _ _ refl,
      where ids = editor_ids and suite = "''s''" and n = 0 and m = 0]
  have "ui_context_scope (cart ''l'' ''local'') = ''local'' \<Longrightarrow> ui_context_scope (cart ''g'' ''global'') \<noteq> ''local'' \<Longrightarrow>
      ui_name (cart ''g'' ''global'') = ui_name (cart ''l'' ''local'') \<Longrightarrow> ?thesis" by blast
  then show ?thesis by (simp add: cart_def)
qed

theorem editor_agrees_with_planner_witness:
  "mset (map ui_definition_id (visible_definitions two_carts ''beforeEach'' 1)) = {#''g''#}"
proof -
  define ds where "ds = map (\<lambda>(i, u). (i, \<lparr>pd_definition_id = i, pd_command_id = [], pd_command_order = 0, pd_section_type = [],
    pd_name = ui_name u, pd_context_scope = ui_context_scope u, pd_value_type = ui_value_type u, pd_deleted_at_order = None\<rparr>)) two_carts"
  have "same_definitions two_carts ds"
    by (simp add: ds_def same_definitions_def two_carts_def cart_def same_definition_def)
  moreover have "map (pd_definition_id \<circ> snd) (active_definitions ds (readable_scopes ''beforeEach'') 1) = [''g'']"
    unfolding ds_def by code_simp
  ultimately show ?thesis
    using editor_agrees_with_planner [of "''beforeEach''" two_carts ds 1] by (simp add: ui_readable_scopes_def)
qed

end
