(* ===== verification/Perimeter_Editor.thy ===== *)
theory Perimeter_Editor
  imports Dataset_Perimeter Event_Bus
begin

section \<open>The editor of dataset perimeters\<close>

text \<open>
  \<open>ui/database_datasources/services/perimeter_service.py\<close>: the rows the editor shows for a perimeter,
  the perimeter it makes of them, and the texts it shows. A table of the editor is a data frame of
  pandas, given here by its records, or a plain value. The truth of \<open>pd.isna(value)\<close> and
  \<open>json.loads\<close> are the functions of \<open>editor_lib\<close>.
\<close>

record editor_lib =
  el_isna :: "pyval \<Rightarrow> bool result"
  el_loads :: "string \<Rightarrow> pyval option"

datatype editor_input = Frame "pydict list" | Plain pyval

fun is_type_error :: "exc \<Rightarrow> bool" where
  "is_type_error (TypeError m) = True"
| "is_type_error e = False"

definition perimeter_operators :: "string list" where
  "perimeter_operators =
     [''eq'', ''neq'', ''gt'', ''gte'', ''lt'', ''lte'', ''contains'', ''starts_with'', ''ends_with'',
      ''in'', ''not_in'', ''is_null'', ''is_not_null'']"

definition perimeter_parameter_types :: "string list" where
  "perimeter_parameter_types = [''string'', ''integer'', ''number'', ''boolean'', ''date'', ''datetime'']"

definition function_to_resolver :: "(string \<times> string) list" where
  "function_to_resolver = [(''Now'', ''$now''), (''Today'', ''$today'')]"

definition resolver_to_function :: "(string \<times> string) list" where
  "resolver_to_function = map (\<lambda>(l, r). (r, l)) function_to_resolver"

subsection \<open>Labels\<close>

definition build_connection_label :: "pydict \<Rightarrow> string result" where
  "build_connection_label item =
     rbind (binding_of (dget item ''payload'')) (\<lambda>payload.
     Inr (py_str (py_or (py_or (dget item ''description'') (dget item ''id'')) (PStr ''-'')) @ '' ['' @
       py_str (py_or (dget payload ''database_type'') (PStr ''-'')) @ '']''))"

definition build_dataset_payload :: "pyval \<Rightarrow> pyval \<Rightarrow> pyval \<Rightarrow> pyval \<Rightarrow> pydict" where
  "build_dataset_payload connection_id schema object_name object_type =
     [(''connection_id'', connection_id), (''schema'', schema), (''object_name'', object_name),
      (''object_type'', object_type)]"

text \<open>\<open>s or t\<close> on strings.\<close>

definition str_or :: "string \<Rightarrow> string \<Rightarrow> string" where
  "str_or s t = (if s = [] then t else s)"

definition build_dataset_summary :: "pydict \<Rightarrow> (string \<times> string) list \<Rightarrow> pydict" where
  "build_dataset_summary item labels =
     (let ds = token (dget item ''id'');
          payload = dict_or_empty (dget item ''payload'');
          connection = token (dget payload ''connection_id'');
          kind = str_or (lower (or_text (dget payload ''object_type'') ''table'')) ''table'';
          name = str_or (token (dget payload ''object_name'')) ''-''
      in [(''id'', PStr ds), (''description'', PStr (str_or (str_or (token (dget item ''description'')) ds) ''-'')),
          (''connection_id'', PStr connection),
          (''connection_label'', PStr (case map_of labels connection of None \<Rightarrow> str_or connection ''-'' | Some l \<Rightarrow> l)),
          (''schema'', PStr (str_or (token (dget payload ''schema'')) ''-'')), (''object_type'', PStr kind),
          (''object_name'', PStr name), (''object_label'', PStr (upper kind @ '' '' @ name))])"

definition build_perimeter_scope_key ::
  "pyval \<Rightarrow> pyval \<Rightarrow> pyval \<Rightarrow> pyval \<Rightarrow> pyval \<Rightarrow> pyval \<Rightarrow> string" where
  "build_perimeter_scope_key key_prefix datasource connection schema object_type object_name =
     join ''_'' [or_text key_prefix ''dataset_perimeter'', or_text datasource ''nodatasource'',
       or_text connection ''noconnection'', or_text schema ''noschema'', or_text object_type ''table'',
       or_text object_name ''noobject'']"

subsection \<open>Values\<close>

definition dicts_in :: "pyval list \<Rightarrow> pydict list" where
  "dicts_in vs = List.map_filter (\<lambda>v. case v of PDict d \<Rightarrow> Some d | _ \<Rightarrow> None) vs"

definition coerce_editor_rows :: "editor_input \<Rightarrow> pydict list" where
  "coerce_editor_rows v = (case v of Frame rows \<Rightarrow> rows | Plain w \<Rightarrow> dicts_in (list_or_empty w))"

definition parse_text :: "editor_lib \<Rightarrow> string \<Rightarrow> pyval" where
  "parse_text L s =
     (if strip s = [] then PNone
      else case el_loads L (strip s) of None \<Rightarrow> PStr (strip s) | Some v \<Rightarrow> v)"

definition normalize_editor_value :: "editor_lib \<Rightarrow> pyval \<Rightarrow> pyval result" where
  "normalize_editor_value L v =
     (let known = (case v of PStr s \<Rightarrow> parse_text L s | _ \<Rightarrow> v) in
      if v = PNone then Inr PNone
      else case el_isna L v of
             Inl e \<Rightarrow> if is_type_error e then Inr known else Inl e
           | Inr missing \<Rightarrow> Inr (if missing then PNone else known))"

subsection \<open>Filters and sort order\<close>

text \<open>The dictionaries a fallible function returns, without the \<open>None\<close>s.\<close>

fun keep_rows :: "('a \<Rightarrow> 'b option result) \<Rightarrow> 'a list \<Rightarrow> 'b list result" where
  "keep_rows f [] = Inr []"
| "keep_rows f (x # xs) =
     rbind (f x) (\<lambda>y. rbind (keep_rows f xs) (\<lambda>ys. Inr (case y of None \<Rightarrow> ys | Some z \<Rightarrow> z # ys)))"

definition editor_condition :: "editor_lib \<Rightarrow> pydict \<Rightarrow> pydict option result" where
  "editor_condition L d =
     (let field = token (dget d ''field''); operator = lower (token (dget d ''operator''));
          raw = dget d ''value''; name = token (dget (dict_or_empty raw) ''name'');
          item = [(''field'', PStr field), (''operator'', PStr operator)]
      in rbind (normalize_editor_value L raw) (\<lambda>v. Inr
        (if field = [] \<or> operator = [] then None
         else if operator \<in> set null_operators then Some item
         else if is_parameter_ref raw
         then (if name = [] then None
               else Some (item @ [(''value'', PDict [(''kind'', PStr ''parameter''), (''name'', PStr name)])]))
         else if v = PNone then None
         else Some (item @ [(''value'', v)]))))"

definition normalize_filter_rows :: "editor_lib \<Rightarrow> editor_input \<Rightarrow> pydict list result" where
  "normalize_filter_rows L rows = keep_rows (editor_condition L) (coerce_editor_rows rows)"

definition normalize_filter_group :: "editor_lib \<Rightarrow> pydict \<Rightarrow> pydict option result" where
  "normalize_filter_group L d =
     (let logic = upper (or_text (dget d ''logic'') ''AND'') in
      rbind (normalize_filter_rows L (Plain (py_or (dget d ''conditions'') (PList [])))) (\<lambda>cs. Inr
        (if cs = [] then None
         else Some [(''kind'', PStr ''group''), (''logic'', PStr (if logic \<in> {''AND'', ''OR''} then logic else ''AND'')),
                    (''conditions'', PList (map PDict cs))])))"

definition editor_item :: "editor_lib \<Rightarrow> pydict \<Rightarrow> pydict option result" where
  "editor_item L d =
     (if lower (or_text (dget d ''kind'') ''condition'') = ''group'' then normalize_filter_group L d
      else rbind (editor_condition L d) (\<lambda>c. Inr (map_option (\<lambda>x. (''kind'', PStr ''condition'') # x) c)))"

definition normalize_filter_items :: "editor_lib \<Rightarrow> pyval \<Rightarrow> pydict list result" where
  "normalize_filter_items L items = keep_rows (editor_item L) (dicts_in (list_or_empty items))"

definition sort_row :: "pydict \<Rightarrow> pydict option" where
  "sort_row d =
     (let field = token (dget d ''field''); direction = lower (token (dget d ''direction'')) in
      if field = [] then None
      else Some [(''field'', PStr field), (''direction'', PStr (str_or direction ''asc''))])"

definition normalize_sort_rows :: "editor_input \<Rightarrow> pydict list" where
  "normalize_sort_rows rows = List.map_filter sort_row (coerce_editor_rows rows)"

subsection \<open>Parameters\<close>

definition is_letter :: "char \<Rightarrow> bool" where
  "is_letter c \<longleftrightarrow> lower_char c \<noteq> c \<or> upper_char c \<noteq> c"

text \<open>\<open>str.title\<close>: the flag says that the previous character is a letter.\<close>

fun title_from :: "bool \<Rightarrow> string \<Rightarrow> string" where
  "title_from inside [] = []"
| "title_from inside (c # s) = (if inside then lower_char c else upper_char c) # title_from (is_letter c) s"

definition default_mode :: "pyval \<Rightarrow> string" where
  "default_mode v = (let m = lower (token v) in if m \<in> {''none'', ''literal'', ''function''} then m else [])"

definition default_function :: "pyval \<Rightarrow> string" where
  "default_function v =
     (let f = title_from False (token v) in if f \<in> fst ` set function_to_resolver then f else [])"

definition mode_label :: "string \<Rightarrow> string" where
  "mode_label m = (if m = ''none'' then ''None'' else if m = ''literal'' then ''Literal'' else ''Function'')"

text \<open>The mode, the value and the function of a parameter, before the checks on its name and type.\<close>

definition parameter_default :: "pydict \<Rightarrow> pyval \<Rightarrow> string \<times> pyval \<times> string" where
  "parameter_default d v =
     (let binding = dict_or_empty (dget d ''default_binding'');
          mode0 = default_mode (dget d ''default_mode'');
          mode = (if binding \<noteq> [] then ''function'' else if v \<noteq> PNone then ''literal''
                  else if mode0 = [] then ''none'' else mode0);
          func0 = (if binding \<noteq> []
                   then (case map_of resolver_to_function (token (dget binding ''resolver'')) of
                           None \<Rightarrow> ''Now'' | Some l \<Rightarrow> str_or l ''Now'')
                   else default_function (dget d ''default_function''));
          func = (if mode = ''function'' \<and> func0 = [] then ''Now'' else func0)
      in (mode, if mode = ''literal'' then v else PNone, func))"

definition normalize_parameter_editor_row :: "editor_lib \<Rightarrow> pydict \<Rightarrow> pydict option result" where
  "normalize_parameter_editor_row L d =
     (let name = token (dget d ''name''); ty = lower (token (dget d ''type'')) in
      rbind (normalize_editor_value L (dget d ''default_value'')) (\<lambda>v0. Inr
        (case parameter_default d v0 of
           (mode, v, func) \<Rightarrow>
             if name = [] \<or> ty \<notin> set perimeter_parameter_types then None
             else Some [(''name'', PStr name), (''type'', PStr ty), (''default_mode'', PStr (mode_label mode)),
               (''default_value'', v), (''default_function'', PStr func),
               (''description'', text_or_null (token (dget d ''description'')))])))"

text \<open>The row was normalised already; its name and type pass the checks again.\<close>

definition normalize_parameter_definition :: "editor_lib \<Rightarrow> pydict \<Rightarrow> pydict option result" where
  "normalize_parameter_definition L d =
     rbind (normalize_parameter_editor_row L d) (\<lambda>found.
     case found of
       None \<Rightarrow> Inr None
     | Some row \<Rightarrow>
         (let name = token (dget row ''name''); ty = lower (token (dget row ''type''));
              base = [(''name'', PStr name), (''type'', PStr ty),
                (''description'', text_or_null (token (dget row ''description'')))];
              mode = default_mode (dget row ''default_mode'')
          in if name = [] \<or> ty \<notin> set perimeter_parameter_types then Inr None
             else if mode = ''literal''
             then rbind (normalize_editor_value L (dget row ''default_value'')) (\<lambda>v. Inr (Some
               (if v = PNone then base else base @ [(''default_value'', v)])))
             else if mode = ''function''
             then (let func = str_or (default_function (dget row ''default_function'')) ''Now'' in Inr (Some
               (base @ [(''default_binding'', PDict [(''kind'', PStr ''built_in''),
                  (''resolver'', PStr (case map_of function_to_resolver func of None \<Rightarrow> [] | Some r \<Rightarrow> r))])])))
             else Inr (Some base)))"

text \<open>The first row of every name.\<close>

fun first_rows :: "string list \<Rightarrow> pydict list \<Rightarrow> pydict list" where
  "first_rows seen [] = []"
| "first_rows seen (r # rs) =
     (let name = token (dget r ''name'') in
      if name \<in> set seen then first_rows seen rs else r # first_rows (name # seen) rs)"

definition normalize_parameter_editor_rows :: "editor_lib \<Rightarrow> editor_input \<Rightarrow> pydict list result" where
  "normalize_parameter_editor_rows L rows =
     rbind (keep_rows (normalize_parameter_editor_row L) (coerce_editor_rows rows)) (\<lambda>rs. Inr (first_rows [] rs))"

definition normalize_parameter_rows :: "editor_lib \<Rightarrow> editor_input \<Rightarrow> pydict list result" where
  "normalize_parameter_rows L rows =
     rbind (keep_rows (normalize_parameter_definition L) (coerce_editor_rows rows)) (\<lambda>rs. Inr (first_rows [] rs))"

subsection \<open>The perimeter of the editor\<close>

text \<open>Truth of a table: pandas refuses it.\<close>

definition logic_text :: "editor_input \<Rightarrow> string result" where
  "logic_text v =
     (case v of
        Frame rows \<Rightarrow> Inl (ValueError ''The truth value of a DataFrame is ambiguous.'')
      | Plain w \<Rightarrow> Inr (upper (or_text w ''AND'')))"

definition plain_value :: "editor_input \<Rightarrow> pyval" where
  "plain_value v = (case v of Frame rows \<Rightarrow> PNone | Plain w \<Rightarrow> w)"

text \<open>A call without the last argument has no parameter rows.\<close>

definition build_perimeter_payload ::
  "editor_lib \<Rightarrow> pyval list \<Rightarrow> editor_input \<Rightarrow> editor_input \<Rightarrow> editor_input \<Rightarrow> editor_input \<Rightarrow> pydict option result" where
  "build_perimeter_payload L selected a2 a3 a4 a5 =
     (let (parameter_rows, logic, items, sorts) =
            (if a5 = Plain PNone then (Plain (PList []), a2, a3, a4) else (a2, a3, a4, a5));
          columns = filter (\<lambda>c. c \<noteq> []) (map (strip \<circ> py_str) selected)
      in rbind (normalize_parameter_rows L parameter_rows) (\<lambda>parameters.
         rbind (normalize_filter_items L (plain_value items)) (\<lambda>filter_items.
         rbind (if filter_items = [] then Inr [] else rbind (logic_text logic) (\<lambda>l. Inr
           [(''filter'', PDict [(''logic'', PStr l), (''items'', PList (map PDict filter_items))])])) (\<lambda>filters.
         let sort = normalize_sort_rows sorts;
             perimeter = (if columns = [] then [] else [(''selected_columns'', PList (map PStr columns))]) @
               (if parameters = [] then [] else [(''parameters'', PList (map PDict parameters))]) @ filters @
               (if sort = [] then [] else [(''sort'', PList (map PDict sort))])
         in Inr (if perimeter = [] then None else Some perimeter)))))"

definition default_selected_columns :: "pyval \<Rightarrow> string list \<Rightarrow> string list result" where
  "default_selected_columns perimeter available =
     rbind (iterated (py_or (dget (dict_or_empty perimeter) ''selected_columns'') (PList []))) (\<lambda>vs.
     Inr (filter (\<lambda>c. c \<in> set available) (map py_str vs)))"

definition default_filter_logic :: "pyval \<Rightarrow> string result" where
  "default_filter_logic perimeter =
     rbind (binding_of (dget (dict_or_empty perimeter) ''filter'')) (\<lambda>f.
     Inr (upper (or_text (dget f ''logic'') ''AND'')))"

definition default_filter_items :: "editor_lib \<Rightarrow> pyval \<Rightarrow> pydict list result" where
  "default_filter_items L perimeter =
     (let f = dict_or_empty (dget (dict_or_empty perimeter) ''filter'') in
      if dget f ''items'' \<noteq> PNone
      then normalize_filter_items L (py_or (dget f ''items'') (PList []))
      else rbind (normalize_filter_rows L (Plain (py_or (dget f ''conditions'') (PList [])))) (\<lambda>cs. Inr
        (if cs = [] then []
         else [[(''kind'', PStr ''group''), (''logic'', PStr (upper (or_text (dget f ''logic'') ''AND''))),
                (''conditions'', PList (map PDict cs))]])))"

definition default_parameter_rows :: "editor_lib \<Rightarrow> pyval \<Rightarrow> pydict list result" where
  "default_parameter_rows L perimeter =
     normalize_parameter_editor_rows L (Plain (py_or (dget (dict_or_empty perimeter) ''parameters'') (PList [])))"

definition default_sort_rows :: "pyval \<Rightarrow> pyval" where
  "default_sort_rows perimeter = py_or (dget (dict_or_empty perimeter) ''sort'') (PList [])"

subsection \<open>Texts\<close>

fun format_perimeter_value :: "pyval \<Rightarrow> string" where
  "format_perimeter_value PNone = ''null''"
| "format_perimeter_value (PStr s) = quoted s"
| "format_perimeter_value (PBool b) = (if b then ''true'' else ''false'')"
| "format_perimeter_value (PList xs) = ''['' @ join '', '' (map format_perimeter_value xs) @ '']''"
| "format_perimeter_value (PDict d) =
     (if is_parameter_ref (PDict d)
      then (let name = token (dget d ''name'') in if name = [] then ''$?'' else ''$'' @ name)
      else json_text (PDict d))"
| "format_perimeter_value v = py_str v"

definition filter_condition_text :: "pydict \<Rightarrow> string" where
  "filter_condition_text c =
     (let field = token (dget c ''field''); operator = lower (token (dget c ''operator'')) in
      if field = [] \<or> operator = [] then []
      else if operator \<in> set null_operators then field @ '' '' @ operator
      else field @ '' '' @ operator @ '' '' @ format_perimeter_value (dget c ''value''))"

definition nonempty_texts :: "string list \<Rightarrow> string list" where
  "nonempty_texts ts = filter (\<lambda>t. t \<noteq> []) ts"

definition filter_item_text :: "pydict \<Rightarrow> string" where
  "filter_item_text it =
     (if lower (or_text (dget it ''kind'') ''condition'') = ''group''
      then (let logic = str_or (lower (or_text (dget it ''logic'') ''AND'')) ''and'';
                texts = nonempty_texts (map filter_condition_text (dicts_in (list_or_empty (dget it ''conditions''))))
            in if texts = [] then [] else ''('' @ join ('' '' @ logic @ '' '') texts @ '')'')
      else filter_condition_text it)"

definition build_filter_text :: "editor_lib \<Rightarrow> pyval \<Rightarrow> string result" where
  "build_filter_text L perimeter =
     rbind (default_filter_items L perimeter) (\<lambda>items.
     if items = [] then Inr []
     else rbind (default_filter_logic perimeter) (\<lambda>logic.
       Inr (join ('' '' @ str_or (lower (strip logic)) ''and'' @ '' '') (nonempty_texts (map filter_item_text items)))))"

definition build_sort_text :: "pyval \<Rightarrow> string" where
  "build_sort_text perimeter =
     join '', '' (map (\<lambda>s. token (dget s ''field'') @ '' '' @ str_or (lower (or_text (dget s ''direction'') ''asc'')) ''asc'')
       (normalize_sort_rows (Plain (default_sort_rows perimeter))))"

end
