(* ===== verification/Perimeter_Editor_Facts.thy ===== *)
theory Perimeter_Editor_Facts
  imports Perimeter_Editor Dataset_Facts
begin

section \<open>Correctness of the perimeter editor\<close>

text \<open>
  A perimeter that is opened and saved without a change is the same perimeter for the server, when
  the editor shows its values as they are. It does not for texts that read as JSON, and it cannot
  open a filter with a list of values at all.
\<close>

text \<open>
  What pandas documents of \<open>isna\<close>: a text and a dictionary are not missing; for a list it returns an
  array, and the truth of an array of several elements raises \<open>ValueError\<close>.
\<close>

definition ambiguous :: exc where
  "ambiguous = ValueError ''The truth value of an array with more than one element is ambiguous.''"

definition pandas_laws :: "editor_lib \<Rightarrow> bool" where
  "pandas_laws L \<longleftrightarrow> (\<forall>s. el_isna L (PStr s) = Inr False) \<and> (\<forall>d. el_isna L (PDict d) = Inr False) \<and>
     (\<forall>xs. 2 \<le> length xs \<longrightarrow> el_isna L (PList xs) = Inl ambiguous)"

definition shown_as_is :: "editor_lib \<Rightarrow> pyval \<Rightarrow> bool" where
  "shown_as_is L v \<longleftrightarrow> v \<noteq> PNone \<and> normalize_editor_value L v = Inr v"

definition item_conditions :: "pydict \<Rightarrow> pydict list" where
  "item_conditions it =
     (if dget it ''kind'' = PStr ''group'' then dicts_in (list_or_empty (dget it ''conditions'')) else [it])"

definition filter_conditions :: "pydict \<Rightarrow> pydict list" where
  "filter_conditions n =
     concat (map item_conditions (dicts_in (list_or_empty (dget (dict_or_empty (dget n ''filter'')) ''items''))))"

definition editable :: "editor_lib \<Rightarrow> pydict \<Rightarrow> bool" where
  "editable L n \<longleftrightarrow>
     (\<forall>c \<in> set (filter_conditions n). dhas c ''value'' \<longrightarrow> \<not> is_parameter_ref (dget c ''value'') \<longrightarrow>
        shown_as_is L (dget c ''value'')) \<and>
     (\<forall>p \<in> set (dicts_in (list_or_empty (dget n ''parameters''))). dhas p ''default_value'' \<longrightarrow>
        shown_as_is L (dget p ''default_value'')) \<and>
     (\<forall>(k, v) \<in> set n. v \<noteq> PList [])"

lemma dicts_in_dicts [simp]: "dicts_in (map PDict ds) = ds"
  by (induction ds) (simp_all add: dicts_in_def List.map_filter_simps)

lemma keep_rows_all: "(\<And>x. x \<in> set xs \<Longrightarrow> f x = Inr (Some (g x))) \<Longrightarrow> keep_rows f xs = Inr (map g xs)"
  by (induction xs) simp_all

lemma keep_rows_raises: "x \<in> set xs \<Longrightarrow> f x = Inl e \<Longrightarrow> \<exists>e. keep_rows f xs = Inl e"
  by (induction xs) (auto simp: rbind_def split: sum.splits)

lemma value_PNone [simp]: "normalize_editor_value L PNone = Inr PNone"
  by (simp add: normalize_editor_value_def)

lemma value_PDict: "pandas_laws L \<Longrightarrow> normalize_editor_value L (PDict d) = Inr (PDict d)"
  by (simp add: normalize_editor_value_def pandas_laws_def)

lemma value_PList: "pandas_laws L \<Longrightarrow> 2 \<le> length xs \<Longrightarrow> normalize_editor_value L (PList xs) = Inl ambiguous"
  by (simp add: normalize_editor_value_def pandas_laws_def ambiguous_def)

lemma value_PStr: "pandas_laws L \<Longrightarrow> normalize_editor_value L (PStr s) = Inr (parse_text L s)"
  by (simp add: normalize_editor_value_def pandas_laws_def)

subsection \<open>Conditions\<close>

lemma condition_shape:
  assumes "condition_form by_name c"
  obtains f op where "c = [(''field'', PStr f), (''operator'', PStr op)]" "op \<in> set null_operators"
      "f \<noteq> []" "strip f = f" "op \<noteq> []" "lower (strip op) = op"
    | f op v where "c = [(''field'', PStr f), (''operator'', PStr op), (''value'', v)]" "op \<notin> set null_operators"
      "f \<noteq> []" "strip f = f" "op \<noteq> []" "lower (strip op) = op"
      "is_parameter_ref v \<longrightarrow> (\<exists>m. m \<noteq> [] \<and> strip m = m \<and> v = PDict [(''kind'', PStr ''parameter''), (''name'', PStr m)])"
proof -
  have "\<forall>path. normalize_filter_condition (PDict ([] @ c)) path by_name = Inr c"
    using assms unfolding condition_form_def by blast
  then have c: "normalize_filter_condition (PDict c) [] by_name = Inr c" by simp
  define f op where "f = token (dget c ''field'')" and "op = lower (token (dget c ''operator''))"
  have props: "f \<noteq> []" "strip f = f" "op \<in> set supported_operators" "lower (strip op) = op"
    using c by (simp_all add: normalize_filter_condition_def rbind_Inr_iff f_def op_def Let_def)
  have op: "op \<noteq> []"
    using props(3) by (rule contrapos_pn) (simp add: supported_operators_def)
  show ?thesis
  proof (cases "op \<in> set null_operators")
    case True
    then have "c = [(''field'', PStr f), (''operator'', PStr op)]"
      using c by (simp add: normalize_filter_condition_def rbind_Inr_iff f_def op_def Let_def)
    then show ?thesis using that(1) True props op by blast
  next
    case False
    have "\<exists>v. normalize_filter_value (dget c ''value'') ([] @ ''.value'') op by_name = Inr v \<and>
        [(''field'', PStr f), (''operator'', PStr op), (''value'', v)] = c"
      using c False unfolding normalize_filter_condition_def pyval.case Let_def f_def [symmetric] op_def [symmetric]
        rbind_Inr_iff by (simp only: if_False rbind_Inr_iff sum.inject) blast
    then obtain v where v: "normalize_filter_value (dget c ''value'') ([] @ ''.value'') op by_name = Inr v"
        "c = [(''field'', PStr f), (''operator'', PStr op), (''value'', v)]" by metis
    have "dget c ''value'' = v" unfolding v(2) by simp
    with v(1) have self: "normalize_filter_value v ''.value'' op by_name = Inr v" by simp
    have "\<exists>m. m \<noteq> [] \<and> strip m = m \<and> v = PDict [(''kind'', PStr ''parameter''), (''name'', PStr m)]"
      if "is_parameter_ref v"
      using self that by (auto simp: normalize_filter_value_def rbind_Inr_iff Let_def split: option.splits)
    then show ?thesis using that(2) False props op v(2) by blast
  qed
qed

lemma condition_shown:
  assumes "condition_form by_name c" and "pandas_laws L"
    and "dhas c ''value'' \<longrightarrow> \<not> is_parameter_ref (dget c ''value'') \<longrightarrow> shown_as_is L (dget c ''value'')"
  shows "editor_condition L c = Inr (Some c) \<and> editor_condition L ((''kind'', k) # c) = Inr (Some c)"
  using assms(1)
proof (cases rule: condition_shape)
  case (1 f op)
  then show ?thesis by (simp add: editor_condition_def Let_def)
next
  case (2 f op v)
  show ?thesis
  proof (cases "is_parameter_ref v")
    case True
    then obtain m where "m \<noteq> []" "strip m = m" "v = PDict [(''kind'', PStr ''parameter''), (''name'', PStr m)]"
      using 2 by blast
    then show ?thesis using 2 True value_PDict [OF assms(2)] by (simp add: editor_condition_def Let_def)
  next
    case False
    then show ?thesis using 2 assms(3) by (simp add: editor_condition_def Let_def shown_as_is_def)
  qed
qed

lemma item_shown:
  assumes "item_form by_name it" and "pandas_laws L"
    and "\<forall>c \<in> set (item_conditions it). dhas c ''value'' \<longrightarrow> \<not> is_parameter_ref (dget c ''value'') \<longrightarrow>
      shown_as_is L (dget c ''value'')"
  shows "editor_item L it = Inr (Some it)"
proof -
  consider c where "it = (''kind'', PStr ''condition'') # c" "condition_form by_name c"
    | logic cs where "it = [(''kind'', PStr ''group''), (''logic'', PStr logic), (''conditions'', PList (map PDict cs))]"
      "\<forall>c \<in> set cs. condition_form by_name c"
    using assms(1) unfolding item_form_def by blast
  then show ?thesis
  proof cases
    case 1
    then have "dhas c ''value'' \<longrightarrow> \<not> is_parameter_ref (dget c ''value'') \<longrightarrow> shown_as_is L (dget c ''value'')"
      using assms(3) by (simp add: item_conditions_def)
    then show ?thesis using condition_shown [OF 1(2) assms(2)] 1(1) by (simp add: editor_item_def words_again)
  next
    case 2
    have it: "\<forall>path. normalize_filter_item (PDict it) path by_name = Inr it"
      using assms(1) unfolding item_form_def by blast
    then have logic: "logic \<in> {''AND'', ''OR''}" "upper (or_text (PStr logic) ''AND'') = logic" and ne: "cs \<noteq> []"
      by (auto simp: 2(1) normalize_filter_item_def words_again rbind_Inr_iff filter_logic_def Let_def)
    have "keep_rows (editor_condition L) cs = Inr (map id cs)"
    proof (rule keep_rows_all)
      fix c assume "c \<in> set cs"
      then show "editor_condition L c = Inr (Some (id c))"
        using condition_shown [OF _ assms(2), of by_name c] assms(3) 2 by (simp add: item_conditions_def)
    qed
    then have "normalize_filter_group L it = Inr (Some it)"
      using logic ne by (simp add: 2(1) normalize_filter_group_def normalize_filter_rows_def coerce_editor_rows_def py_or_def)
    then show ?thesis by (simp add: editor_item_def 2(1) words_again)
  qed
qed

subsection \<open>Parameters\<close>

lemma words_of_editor:
  "default_mode (PStr ''Literal'') = ''literal''" "default_mode (PStr ''Function'') = ''function''"
  "default_mode (PStr ''None'') = ''none''" "default_mode PNone = []"
  "default_function (PStr ''Now'') = ''Now''" "default_function (PStr ''Today'') = ''Today''"
  "default_function PNone = []" "default_function (PStr []) = []"
  by (code_simp, code_simp, code_simp, code_simp, code_simp, code_simp, code_simp, code_simp)

definition editor_row :: "pydict \<Rightarrow> string \<Rightarrow> pyval \<Rightarrow> string \<Rightarrow> pydict" where
  "editor_row p mode v func =
     [(''name'', dget p ''name''), (''type'', dget p ''type''), (''default_mode'', PStr mode), (''default_value'', v),
      (''default_function'', PStr func), (''description'', dget p ''description'')]"

lemma parameter_shape:
  assumes "parameter_form cal p"
  obtains name ty desc rest where
    "p = [(''name'', PStr name), (''type'', PStr ty), (''description'', text_or_null desc)] @ rest"
    "name \<noteq> []" "strip name = name" "ty \<in> set parameter_type_names" "lower (strip ty) = ty" "strip desc = desc"
    "rest = [] \<or> (\<exists>w. rest = [(''default_value'', w)]) \<or>
     (\<exists>r \<in> set built_in_resolvers. rest =
        [(''default_binding'', PDict [(''kind'', PStr ''built_in''), (''resolver'', PStr r)])])"
proof -
  have p: "normalize_parameter cal (PDict p) [] = Inr p" using assms unfolding parameter_form_def by blast
  define name ty desc where "name = token (dget p ''name'')" and "ty = lower (token (dget p ''type''))"
    and "desc = token (dget p ''description'')"
  obtain dv db where nm: "name \<noteq> []" "ty \<in> set parameter_type_names"
      and one: "\<not> (dhas p ''default_value'' \<and> dget p ''default_binding'' \<noteq> PNone)"
      and dv: "(if dhas p ''default_value'' then rbind (coerced_default cal [] ty (dget p ''default_value''))
          (\<lambda>v. Inr [(''default_value'', v)]) else Inr []) = Inr dv"
      and db: "(if dget p ''default_binding'' \<noteq> PNone then rbind (normalize_default_binding
          (dget p ''default_binding'') ([] @ ''.default_binding'')) (\<lambda>b. Inr [(''default_binding'', b)])
          else Inr []) = Inr db"
      and eq: "[(''name'', PStr name), (''type'', PStr ty), (''description'', text_or_null desc)] @ dv @ db = p"
    using p unfolding normalize_parameter_def name_def ty_def desc_def pyval.case Let_def rbind_Inr_iff guard_Inr sum.inject
    by blast
  have dv': "dv = [] \<or> (\<exists>w. dv = [(''default_value'', w)]) \<and> db = []"
    using dv db one by (auto simp: rbind_Inr_iff split: if_splits)
  have db': "db = [] \<or> (\<exists>r \<in> set built_in_resolvers. db =
      [(''default_binding'', PDict [(''kind'', PStr ''built_in''), (''resolver'', PStr r)])])"
    using db by (auto simp: rbind_Inr_iff normalize_default_binding_def Let_def split: if_splits pyval.splits)
  show ?thesis
    by (rule that [of name ty desc "dv @ db"]) (use nm dv' db' eq in \<open>auto simp: name_def ty_def desc_def\<close>)
qed

lemma same_types: "perimeter_parameter_types = parameter_type_names"
  by (simp add: perimeter_parameter_types_def parameter_type_names_def)

lemma editor_row_kept:
  assumes "name \<noteq> []" "strip name = name" "ty \<in> set parameter_type_names" "lower (strip ty) = ty" "strip desc = desc"
    and p: "dget p ''name'' = PStr name" "dget p ''type'' = PStr ty" "dget p ''description'' = text_or_null desc"
    and "normalize_editor_value L (dget p ''default_value'') = Inr v0"
    and "parameter_default p v0 = (mode, v, func)"
  shows "normalize_parameter_editor_row L p = Inr (Some (editor_row p (mode_label mode) v func))"
  using assms by (simp add: normalize_parameter_editor_row_def Let_def editor_row_def same_types)

lemma editor_row_lookups [simp]:
  "dget (editor_row p m v f) ''name'' = dget p ''name''" "dget (editor_row p m v f) ''type'' = dget p ''type''"
  "dget (editor_row p m v f) ''description'' = dget p ''description''"
  "dget (editor_row p m v f) ''default_mode'' = PStr m" "dget (editor_row p m v f) ''default_value'' = v"
  "dget (editor_row p m v f) ''default_function'' = PStr f" "dget (editor_row p m v f) ''default_binding'' = PNone"
  by (simp_all add: editor_row_def)

lemma editor_row_again [simp]: "editor_row (editor_row p m v f) m' v' f' = editor_row p m' v' f'"
  by (simp add: editor_row_def)

lemma parameter_shown:
  assumes "parameter_form cal p" and "dhas p ''default_value'' \<longrightarrow> shown_as_is L (dget p ''default_value'')"
  shows "\<exists>r. normalize_parameter_editor_row L p = Inr (Some r) \<and> normalize_parameter_definition L r = Inr (Some p) \<and>
    dget r ''name'' = dget p ''name''"
  using assms(1)
proof (cases rule: parameter_shape)
  case (1 name ty desc rest)
  have look: "dget p ''name'' = PStr name" "dget p ''type'' = PStr ty" "dget p ''description'' = text_or_null desc"
    by (simp_all add: 1(1))
  note kept = editor_row_kept [OF 1(2-6)]
  have step: ?thesis
    if "normalize_editor_value L (dget p ''default_value'') = Inr v0" "parameter_default p v0 = (mode, v, func)"
      "normalize_editor_value L v = Inr v"
      "parameter_default (editor_row p (mode_label mode) v func) v = (mode, v, func)"
      "default_mode (PStr (mode_label mode)) = mode"
      "rest = (if mode = ''literal'' then (if v = PNone then [] else [(''default_value'', v)])
         else if mode = ''function'' then [(''default_binding'', PDict [(''kind'', PStr ''built_in''),
           (''resolver'', PStr (case map_of function_to_resolver (str_or (default_function (PStr func)) ''Now'') of
              None \<Rightarrow> [] | Some r \<Rightarrow> r))])] else [])"
    for mode v0 v func
  proof (intro exI conjI)
    let ?r = "editor_row p (mode_label mode) v func"
    show "normalize_parameter_editor_row L p = Inr (Some ?r)" by (rule kept [OF look]) (rule that)+
    have "normalize_parameter_editor_row L ?r = Inr (Some ?r)"
      using kept [of ?r L v mode v func] look that by simp
    then show "normalize_parameter_definition L ?r = Inr (Some p)"
      using 1(2-6) look that(3,5,6)
      by (simp add: normalize_parameter_definition_def Let_def same_types 1(1))
    show "dget ?r ''name'' = dget p ''name''" by simp
  qed
  consider (bare) "rest = []" | (given) w where "rest = [(''default_value'', w)]"
    | (bound) r where "r \<in> set built_in_resolvers"
      "rest = [(''default_binding'', PDict [(''kind'', PStr ''built_in''), (''resolver'', PStr r)])]"
    using 1(7) by blast
  then show ?thesis
  proof cases
    case bare
    note rest = this
    show ?thesis
      by (rule step [of PNone "''none''" PNone "[]"])
        (simp_all add: 1(1) rest parameter_default_def words_of_editor mode_label_def editor_row_def)
  next
    case (given w)
    note rest = this
    have "w \<noteq> PNone" "normalize_editor_value L w = Inr w"
      using assms(2) rest by (simp_all add: 1(1) shown_as_is_def)
    then show ?thesis
      by (intro step [of w "''literal''" w "[]"])
        (simp_all add: 1(1) rest parameter_default_def words_of_editor mode_label_def editor_row_def)
  next
    case (bound r)
    note r = bound(1) and rest = bound(2)
    have strip: "strip ''$now'' = ''$now''" "strip ''$today'' = ''$today''" by (code_simp, code_simp)
    note defs = 1(1) rest parameter_default_def words_of_editor mode_label_def editor_row_def
      resolver_to_function_def function_to_resolver_def str_or_def strip
    consider "r = ''$now''" | "r = ''$today''" using r by (auto simp: built_in_resolvers_def)
    then show ?thesis
    proof cases
      case 1
      show ?thesis by (rule step [of PNone "''function''" PNone "''Now''"]) (simp_all add: defs 1)
    next
      case 2
      show ?thesis by (rule step [of PNone "''function''" PNone "''Today''"]) (simp_all add: defs 2)
    qed
  qed
qed

subsection \<open>A perimeter that is not changed\<close>

lemma parameters_shown:
  assumes "\<forall>p \<in> set ps. parameter_form cal p \<and> (dhas p ''default_value'' \<longrightarrow> shown_as_is L (dget p ''default_value''))"
  shows "\<exists>rs. keep_rows (normalize_parameter_editor_row L) ps = Inr rs \<and>
    keep_rows (normalize_parameter_definition L) rs = Inr ps \<and>
    map (\<lambda>r. dget r ''name'') rs = map (\<lambda>p. dget p ''name'') ps"
  using assms
proof (induction ps)
  case (Cons p ps)
  then obtain rs where "keep_rows (normalize_parameter_editor_row L) ps = Inr rs"
      "keep_rows (normalize_parameter_definition L) rs = Inr ps"
      "map (\<lambda>r. dget r ''name'') rs = map (\<lambda>p. dget p ''name'') ps" by auto
  moreover obtain r where "normalize_parameter_editor_row L p = Inr (Some r)"
      "normalize_parameter_definition L r = Inr (Some p)" "dget r ''name'' = dget p ''name''"
    using parameter_shown [of cal p L] Cons.prems by auto
  ultimately show ?case by (intro exI [of _ "r # rs"]) simp
qed simp

lemma first_rows_distinct:
  "distinct (map (\<lambda>r. token (dget r ''name'')) rs) \<Longrightarrow> \<forall>r \<in> set rs. token (dget r ''name'') \<notin> set seen \<Longrightarrow>
   first_rows seen rs = rs"
proof (induction rs arbitrary: seen)
  case (Cons r rs)
  then have "\<forall>q \<in> set rs. token (dget q ''name'') \<notin> set (token (dget r ''name'') # seen)"
    by (simp add: image_iff) metis
  then show ?case using Cons by (simp add: Let_def)
qed simp

lemma editor_parameters:
  assumes "\<forall>(m, p) \<in> set by_name. parameter_form cal p \<and> m = token (dget p ''name'')" and "distinct (map fst by_name)"
    and "\<forall>p \<in> set (map snd by_name). dhas p ''default_value'' \<longrightarrow> shown_as_is L (dget p ''default_value'')"
  shows "\<exists>rs. normalize_parameter_editor_rows L (Plain (PList (map (PDict \<circ> snd) by_name))) = Inr rs \<and>
    normalize_parameter_rows L (Plain (PList (map PDict rs))) = Inr (map snd by_name)"
proof -
  have "\<forall>p \<in> set (map snd by_name). parameter_form cal p \<and>
      (dhas p ''default_value'' \<longrightarrow> shown_as_is L (dget p ''default_value''))"
    using assms(1,3) by auto
  then obtain rs where rs: "keep_rows (normalize_parameter_editor_row L) (map snd by_name) = Inr rs"
      "keep_rows (normalize_parameter_definition L) rs = Inr (map snd by_name)"
      "map (\<lambda>r. dget r ''name'') rs = map (\<lambda>p. dget p ''name'') (map snd by_name)"
    using parameters_shown by blast
  have "map (\<lambda>p. token (dget p ''name'')) (map snd by_name) = map fst by_name"
    using assms(1) by auto
  then have d: "distinct (map (\<lambda>p. token (dget p ''name'')) (map snd by_name))"
    using assms(2) by (simp only:)
  moreover have "map (\<lambda>r. token (dget r ''name'')) rs = map (\<lambda>p. token (dget p ''name'')) (map snd by_name)"
    using arg_cong [OF rs(3), of "map token"] by (simp add: comp_def)
  ultimately have "first_rows [] rs = rs" "first_rows [] (map snd by_name) = map snd by_name"
    by (auto intro: first_rows_distinct)
  moreover have "map (PDict \<circ> snd) by_name = map PDict (map snd by_name)" by simp
  ultimately show ?thesis
    using rs(1,2) by (intro exI [of _ rs])
      (simp only: normalize_parameter_editor_rows_def normalize_parameter_rows_def coerce_editor_rows_def
        editor_input.case list_or_empty.simps dicts_in_dicts rbind_simps)
qed

lemma editor_items:
  assumes "\<forall>it \<in> set items. item_form by_name it" and "pandas_laws L"
    and "\<forall>c \<in> set (concat (map item_conditions items)). dhas c ''value'' \<longrightarrow> \<not> is_parameter_ref (dget c ''value'') \<longrightarrow>
      shown_as_is L (dget c ''value'')"
  shows "normalize_filter_items L (PList (map PDict items)) = Inr items"
proof -
  have "keep_rows (editor_item L) items = Inr (map id items)"
    by (rule keep_rows_all) (use assms item_shown in \<open>fastforce\<close>)
  then show ?thesis by (simp add: normalize_filter_items_def)
qed

lemma sort_words: "lower (strip ''asc'') = ''asc''" "lower (strip ''desc'') = ''desc''"
  by (code_simp, code_simp)

lemma editor_sorts:
  assumes "\<forall>v \<in> set ss. \<forall>j. normalize_sort_item j v = Inr v"
  shows "map PDict (normalize_sort_rows (Plain (PList ss))) = ss"
  using assms
proof (induction ss)
  case (Cons v ss)
  then have v: "normalize_sort_item 0 v = Inr v" by simp
  then obtain d where d: "v = PDict d" by (cases v) (simp_all add: normalize_sort_item_def)
  define f dir where "f = token (dget d ''field'')" and "dir = lower (or_text (dget d ''direction'') ''asc'')"
  have props: "f \<noteq> []" "dir \<in> {''asc'', ''desc''}" "[(''field'', PStr f), (''direction'', PStr dir)] = d"
    using v unfolding d normalize_sort_item_def pyval.case Let_def rbind_Inr_iff guard_Inr f_def dir_def by simp_all
  have "strip f = f" by (simp add: f_def)
  moreover have "dget d ''field'' = PStr f" "dget d ''direction'' = PStr dir" using props(3) by auto
  moreover have "lower (token (PStr dir)) = dir" "dir \<noteq> []"
    using props(2) sort_words by auto
  ultimately have "sort_row d = Some d"
    using props(1,3) by (simp add: sort_row_def str_or_def)
  then show ?case using Cons by (simp add: d normalize_sort_rows_def coerce_editor_rows_def dicts_in_def List.map_filter_simps)
qed (simp add: normalize_sort_rows_def coerce_editor_rows_def dicts_in_def List.map_filter_simps)

lemma normalize_entries_cong:
  assumes "dget p ''parameters'' = dget n ''parameters''" "dget p ''selected_columns'' = dget n ''selected_columns''"
    "dget p ''filter'' = dget n ''filter''" "dget p ''sort'' = dget n ''sort''"
  shows "normalize_entries cal p = normalize_entries cal n"
  unfolding normalize_entries_def assms ..

text \<open>The editor's widgets for a perimeter, and what saving them sends.\<close>

definition saved_unchanged :: "editor_lib \<Rightarrow> string list \<Rightarrow> pydict \<Rightarrow> pydict option result" where
  "saved_unchanged L available n =
     rbind (default_selected_columns (PDict n) available) (\<lambda>columns.
     rbind (default_parameter_rows L (PDict n)) (\<lambda>rows.
     rbind (default_filter_logic (PDict n)) (\<lambda>logic.
     rbind (default_filter_items L (PDict n)) (\<lambda>items.
     build_perimeter_payload L (map PStr columns) (Plain (PList (map PDict rows))) (Plain (PStr logic))
       (Plain (PList (map PDict items))) (Plain (default_sort_rows (PDict n)))))))"

lemma stripped_columns:
  "\<forall>c \<in> set cs. strip c = c \<and> c \<noteq> [] \<Longrightarrow> filter (\<lambda>c. c \<noteq> []) (map (strip \<circ> py_str) (map PStr cs)) = cs"
  by (induction cs) simp_all

lemma shown_columns:
  assumes "dget n ''selected_columns'' = (case columns of None \<Rightarrow> PNone | Some cs \<Rightarrow> PList (map PStr cs))"
    and "\<And>cs. columns = Some cs \<Longrightarrow> cs \<noteq> []"
    and "\<And>cs. columns = Some cs \<Longrightarrow> \<forall>c \<in> set cs. strip c = c \<and> c \<noteq> []"
    and "\<forall>c \<in> set (list_or_empty (dget n ''selected_columns'')). py_str c \<in> set available"
  defines "cs \<equiv> (case columns of None \<Rightarrow> [] | Some cs \<Rightarrow> cs)"
  shows "default_selected_columns (PDict n) available = Inr cs"
    and "filter (\<lambda>c. c \<noteq> []) (map (strip \<circ> py_str) (map PStr cs)) = cs"
proof -
  show "filter (\<lambda>c. c \<noteq> []) (map (strip \<circ> py_str) (map PStr cs)) = cs"
    using assms(3) by (intro stripped_columns) (cases columns, simp_all add: cs_def)
  show "default_selected_columns (PDict n) available = Inr cs"
  proof (cases columns)
    case None
    then show ?thesis by (simp add: cs_def assms(1) default_selected_columns_def py_or_def iterated_def)
  next
    case (Some xs)
    then have "filter (\<lambda>c. c \<in> set available) xs = xs"
      using assms(4) by (simp add: assms(1) filter_id_conv)
    then show ?thesis using Some assms(2)
      by (simp add: cs_def assms(1) default_selected_columns_def py_or_def iterated_def comp_def)
  qed
qed

lemma shown_defaults:
  assumes "dget n ''parameters'' = (if by_name = [] then PNone else PList (map (PDict \<circ> snd) by_name))"
    and "editable L n"
  shows "\<forall>p \<in> set (map snd by_name). dhas p ''default_value'' \<longrightarrow> shown_as_is L (dget p ''default_value'')"
proof (cases "by_name = []")
  case False
  have "map (PDict \<circ> snd) by_name = map PDict (map snd by_name)" by simp
  then have "dicts_in (list_or_empty (dget n ''parameters'')) = map snd by_name"
    using False assms(1) by (simp only: if_False list_or_empty.simps dicts_in_dicts)
  moreover from assms(2) have "\<forall>p \<in> set (dicts_in (list_or_empty (dget n ''parameters''))).
      dhas p ''default_value'' \<longrightarrow> shown_as_is L (dget p ''default_value'')"
    unfolding editable_def by (elim conjE)
  ultimately show ?thesis by (simp only:)
qed simp

lemma saved_filter:
  assumes "filter_form by_name fs" and "pandas_laws L" and "dget n ''filter'' = dget fs ''filter''"
    and "\<forall>c \<in> set (filter_conditions n). dhas c ''value'' \<longrightarrow> \<not> is_parameter_ref (dget c ''value'') \<longrightarrow>
      shown_as_is L (dget c ''value'')"
  shows "\<exists>logic items. default_filter_logic (PDict n) = Inr logic \<and> default_filter_items L (PDict n) = Inr items \<and>
    normalize_filter_items L (PList (map PDict items)) = Inr items \<and> upper (or_text (PStr logic) ''AND'') = logic \<and>
    fs = (if items = [] then [] else [(''filter'', PDict [(''logic'', PStr logic), (''items'', PList (map PDict items))])])"
proof -
  consider "fs = []" | logic items where
      "fs = [(''filter'', PDict [(''logic'', PStr logic), (''items'', PList (map PDict items))])]"
      "items \<noteq> []" "logic \<in> {''AND'', ''OR''}" "\<forall>it \<in> set items. item_form by_name it"
    using assms(1) unfolding filter_form_def by blast
  then show ?thesis
  proof cases
    case 1
    then have "default_filter_logic (PDict n) = Inr ''AND''" "default_filter_items L (PDict n) = Inr []"
      using assms(3) words_again(3)
      by (simp_all add: default_filter_logic_def binding_of_def default_filter_items_def normalize_filter_rows_def
        coerce_editor_rows_def dicts_in_def List.map_filter_simps py_or_def or_text_def)
    then show ?thesis using 1 words_again(3)
      by (intro exI [of _ "''AND''"] exI [of _ "[]"]) (simp add: normalize_filter_items_def dicts_in_def List.map_filter_simps)
  next
    case 2
    have conds: "filter_conditions n = concat (map item_conditions items)"
      using 2(1) assms(3) by (simp add: filter_conditions_def)
    have upper: "upper (or_text (PStr logic) ''AND'') = logic" using 2(3) words_again(3,4) by auto
    have again: "normalize_filter_items L (PList (map PDict items)) = Inr items"
      using editor_items [OF 2(4) assms(2)] assms(4) conds by simp
    then have "default_filter_logic (PDict n) = Inr logic" "default_filter_items L (PDict n) = Inr items"
      using 2(1,2) upper assms(3)
      by (simp_all add: default_filter_logic_def binding_of_def default_filter_items_def py_or_def)
    then show ?thesis using 2(1,2) again upper by auto
  qed
qed

lemma built_payload:
  assumes "filter (\<lambda>c. c \<noteq> []) (map (strip \<circ> py_str) selected) = cs"
    and "normalize_parameter_rows L a2 = Inr ps" and "normalize_filter_items L its = Inr items"
    and "upper (or_text (PStr logic) ''AND'') = logic"
    and "normalize_sort_rows (Plain (PList vs)) = sorts" and "map PDict (normalize_sort_rows (Plain (PList vs))) = ss"
  shows "build_perimeter_payload L selected a2 (Plain (PStr logic)) (Plain its) (Plain (PList vs)) =
    (let p = (if cs = [] then [] else [(''selected_columns'', PList (map PStr cs))]) @
       (if ps = [] then [] else [(''parameters'', PList (map PDict ps))]) @
       (if items = [] then [] else [(''filter'', PDict [(''logic'', PStr logic), (''items'', PList (map PDict items))])]) @
       (if ss = [] then [] else [(''sort'', PList ss)])
     in Inr (if p = [] then None else Some p))"
proof -
  have "sorts = [] \<longleftrightarrow> ss = []" "map PDict sorts = ss" using assms(5,6) by auto
  then show ?thesis
    unfolding build_perimeter_payload_def Let_def assms(1)
    by (cases "items = []") (simp_all add: assms(2-5) plain_value_def logic_text_def)
qed


subsection \<open>Perimeters the editor changes or refuses\<close>

lemma raising_item:
  assumes "item_form by_name it" and "c \<in> set (item_conditions it)" and "dget c ''value'' = PList xs"
    and "2 \<le> length xs" and "pandas_laws L"
  shows "\<exists>e. editor_item L it = Inl e"
proof -
  have raises: "editor_condition L c = Inl ambiguous"
    using assms(3,4) value_PList [OF assms(5)] by (simp add: editor_condition_def Let_def)
  consider c' where "it = (''kind'', PStr ''condition'') # c'"
    | logic cs where "it = [(''kind'', PStr ''group''), (''logic'', PStr logic), (''conditions'', PList (map PDict cs))]"
    using assms(1) unfolding item_form_def by blast
  then show ?thesis
  proof cases
    case 1
    then have "c = it" using assms(2) by (simp add: item_conditions_def)
    then show ?thesis using raises 1 by (simp add: editor_item_def words_again)
  next
    case 2
    then have "c \<in> set cs" "cs \<noteq> []" using assms(2) by (auto simp: item_conditions_def)
    then obtain e where "keep_rows (editor_condition L) cs = Inl e"
      using keep_rows_raises [where f = "editor_condition L", OF _ raises] by blast
    then show ?thesis using 2 \<open>cs \<noteq> []\<close>
      by (simp add: editor_item_def words_again normalize_filter_group_def normalize_filter_rows_def
        coerce_editor_rows_def py_or_def)
  qed
qed

text \<open>
  C31. A filter that compares a column with a list of two or more values is accepted by the server
  and cannot be opened in the editor, saved by it or shown as text: pandas refuses the list.
\<close>

theorem list_filters_refused:
  assumes "iso_laws cal" and "normalize_perimeter cal v = Inr (Some n)" and "pandas_laws L"
    and "c \<in> set (filter_conditions n)" and "dget c ''value'' = PList xs" and "2 \<le> length xs"
  shows "(\<exists>e. default_filter_items L (PDict n) = Inl e) \<and> (\<exists>e. saved_unchanged L available n = Inl e) \<and>
    (\<exists>e. build_filter_text L (PDict n) = Inl e)"
proof -
  obtain by_name columns fs sorts where form: "perimeter_form cal by_name columns fs sorts n"
    by (rule perimeter_normal [OF assms(1,2)])
  have fs: "filter_form by_name fs" using form unfolding perimeter_form_def by blast
  note look = perimeter_form_lookups(3) [OF form]
  have "fs \<noteq> []"
  proof
    assume "fs = []"
    then have "filter_conditions n = []"
      by (simp only: filter_conditions_def look) (simp add: dicts_in_def List.map_filter_simps)
    then show False using assms(4) by simp
  qed
  then obtain logic items where it:
      "fs = [(''filter'', PDict [(''logic'', PStr logic), (''items'', PList (map PDict items))])]" "items \<noteq> []"
      "\<forall>it \<in> set items. item_form by_name it"
    using fs unfolding filter_form_def by blast
  have "filter_conditions n = concat (map item_conditions items)"
    using it(1) look by (simp add: filter_conditions_def)
  then obtain i where "i \<in> set items" "c \<in> set (item_conditions i)" using assms(4) by auto
  then obtain e where "keep_rows (editor_item L) items = Inl e"
    using raising_item [OF _ _ assms(5,6,3)] it(3) keep_rows_raises by metis
  then have items: "default_filter_items L (PDict n) = Inl e"
    using it(1,2) look by (simp add: default_filter_items_def normalize_filter_items_def py_or_def)
  then have "\<exists>e. saved_unchanged L available n = Inl e"
    by (simp add: saved_unchanged_def rbind_def split: sum.split)
  then show ?thesis using items by (simp add: build_filter_text_def)
qed

lemma json_text_changes:
  assumes "pandas_laws L" and "el_loads L s = Some w" and "strip s = s" and "s \<noteq> []" and "w \<noteq> PNone"
    and "strip f = f" and "f \<noteq> []"
  shows "editor_condition L [(''field'', PStr f), (''operator'', PStr ''eq''), (''value'', PStr s)] =
    Inr (Some [(''field'', PStr f), (''operator'', PStr ''eq''), (''value'', w)])"
proof -
  have "lower (strip ''eq'') = ''eq''" by code_simp
  then show ?thesis
    using assms by (simp add: editor_condition_def value_PStr parse_text_def Let_def is_parameter_ref_def)
qed

subsection \<open>Orders in the editor\<close>

text \<open>A parser that reads digits and lists as JSON does, and pandas as it is documented.\<close>

definition small_lib :: editor_lib where
  "small_lib =
     \<lparr>el_isna = (\<lambda>v. case v of PNone \<Rightarrow> Inr True | PList xs \<Rightarrow> (if 2 \<le> length xs then Inl ambiguous else Inr False)
        | _ \<Rightarrow> Inr False),
      el_loads = (\<lambda>s. if isdigit s then Some (PInt (int (digits_val s))) else None)\<rparr>"

lemma small_lib_laws: "pandas_laws small_lib"
  by (simp add: pandas_laws_def small_lib_def)

lemma orders_editable: "editable small_lib orders_normal"
  by code_simp


definition listed_orders :: pydict where
  "listed_orders =
     [(''filter'', PDict [(''logic'', PStr ''AND''), (''items'', PList
        [PDict [(''kind'', PStr ''condition''), (''field'', PStr ''status''), (''operator'', PStr ''in''),
                (''value'', PList [PStr ''NEW'', PStr ''PAID''])]])])]"

lemma listed_normal: "normalize_perimeter demo_calendar (PDict listed_orders) = Inr (Some listed_orders)"
  by code_simp

theorem list_filters_refused_witness:
  "\<exists>e. saved_unchanged small_lib [''status''] listed_orders = Inl e"
proof -
  have "[(''kind'', PStr ''condition''), (''field'', PStr ''status''), (''operator'', PStr ''in''),
      (''value'', PList [PStr ''NEW'', PStr ''PAID''])] \<in> set (filter_conditions listed_orders)"
    by code_simp
  from list_filters_refused [OF demo_iso_laws listed_normal small_lib_laws this, where available = "[''status'']"]
  show ?thesis by simp
qed

end
