(* ===== verification/Execution_Stream.thy ===== *)
theory Execution_Stream
  imports Event_Bus
begin

section \<open>The listener of an execution\<close>

text \<open>
  \<open>ui/test_suites/services/execution_stream_service.py\<close>: the thread that reads the event stream of a
  run, the parser of the stream, and the state it keeps of every run. The lines are those \<open>requests\<close>
  delivers, the text of the stream split at line breaks; \<open>json.loads\<close> is an argument. The lock makes
  the handling of one event a step.
\<close>

subsection \<open>The stream\<close>

definition is_break :: "char \<Rightarrow> bool" where
  "is_break c \<longleftrightarrow> code_of c \<in> {10, 11, 12, 13, 28, 29, 30}"

text \<open>\<open>str.splitlines\<close>, with the characters of the current line reversed.\<close>

fun lines_from :: "string \<Rightarrow> string \<Rightarrow> string list" where
  "lines_from acc [] = (if acc = [] then [] else [rev acc])"
| "lines_from acc (c # s) =
     (if is_break c
      then rev acc # lines_from [] (if code_of c = 13 \<and> startswith s newline then drop 1 s else s)
      else lines_from (c # acc) s)"

definition splitlines :: "string \<Rightarrow> string list" where
  "splitlines s = lines_from [] s"

definition sse_payload :: "(string \<Rightarrow> pyval option) \<Rightarrow> string list \<Rightarrow> pyval" where
  "sse_payload loads data =
     (case loads (join newline data) of None \<Rightarrow> PDict [(''raw'', PStr (join newline data))] | Some v \<Rightarrow> v)"

fun iter_sse_events ::
  "(string \<Rightarrow> pyval option) \<Rightarrow> string list \<Rightarrow> string \<Rightarrow> string list \<Rightarrow> (string \<times> pyval) list" where
  "iter_sse_events loads [] name data = []"
| "iter_sse_events loads (raw # lines) name data =
     (let line = strip raw in
      if line = []
      then (if data = [] then [] else [(name, sse_payload loads data)]) @ iter_sse_events loads lines ''message'' []
      else if startswith line '':'' then iter_sse_events loads lines name data
      else if startswith line ''event:''
      then (let n = strip (drop 6 line) in iter_sse_events loads lines (if n = [] then ''message'' else n) data)
      else if startswith line ''data:'' then iter_sse_events loads lines name (data @ [lstrip (drop 5 line)])
      else iter_sse_events loads lines name data)"

subsection \<open>The state of a run\<close>

record execution_state =
  es_execution_id :: string
  es_test_suite_id :: string
  es_running :: bool
  es_status :: string
  es_executed_tests :: int
  es_total_tests :: int
  es_item_status :: "(string \<times> string) list"
  es_item_error :: "(string \<times> string) list"
  es_operation_status :: "(string \<times> string) list"
  es_operation_error :: "(string \<times> string) list"
  es_events :: "(string \<times> pyval) list"
  es_error :: "string option"

definition new_execution_state :: "string \<Rightarrow> string \<Rightarrow> execution_state" where
  "new_execution_state e suite =
     \<lparr>es_execution_id = e, es_test_suite_id = suite, es_running = True, es_status = ''running'',
      es_executed_tests = 0, es_total_tests = 0, es_item_status = [], es_item_error = [],
      es_operation_status = [], es_operation_error = [], es_events = [], es_error = None\<rparr>"

definition operation_key :: "string \<Rightarrow> string \<Rightarrow> string" where
  "operation_key item op = item @ '':'' @ op"

definition append_event :: "string \<Rightarrow> pyval \<Rightarrow> execution_state \<Rightarrow> execution_state" where
  "append_event name data st =
     (let es = es_events st @ [(name, data)] in
      st\<lparr>es_events := (if 1000 < length es then drop (length es - 1000) es else es)\<rparr>)"

definition reset_progress :: "execution_state \<Rightarrow> execution_state" where
  "reset_progress st =
     st\<lparr>es_running := True, es_status := ''running'', es_executed_tests := 0, es_total_tests := 0,
        es_item_status := [], es_item_error := [], es_operation_status := [], es_operation_error := []\<rparr>"

text \<open>The payload of an event, where the code calls its \<open>get\<close>.\<close>

definition event_data :: "pyval \<Rightarrow> pydict result" where
  "event_data v =
     (case v of PDict d \<Rightarrow> Inr d | _ \<Rightarrow> Inl (AttributeError ''object has no attribute get''))"

definition item_started :: "pydict \<Rightarrow> execution_state \<Rightarrow> execution_state" where
  "item_started d st =
     (let item = token (dget d ''suite_item_id'') in
      if item = [] then st else st\<lparr>es_item_status := dset item ''running'' (es_item_status st)\<rparr>)"

definition status_of :: "pydict \<Rightarrow> string" where
  "status_of d = (let s = token (dget d ''status'') in if s = [] then ''idle'' else s)"

definition note_error :: "string \<Rightarrow> pydict \<Rightarrow> (string \<times> string) list \<Rightarrow> (string \<times> string) list" where
  "note_error key d errors =
     (if status_of d = ''error'' then dset key (text_of (dget d ''error'')) errors else ddel key errors)"

definition item_finished :: "pydict \<Rightarrow> execution_state \<Rightarrow> execution_state" where
  "item_finished d st =
     (let item = token (dget d ''suite_item_id'') in
      if item = [] then st
      else st\<lparr>es_item_status := dset item (status_of d) (es_item_status st),
              es_item_error := note_error item d (es_item_error st)\<rparr>)"

definition operation_finished :: "pydict \<Rightarrow> execution_state \<Rightarrow> execution_state" where
  "operation_finished d st =
     (let item = token (dget d ''suite_item_id''); op = token (dget d ''operation_id'') in
      if item = [] \<or> op = [] then st
      else st\<lparr>es_operation_status := dset (operation_key item op) (status_of d) (es_operation_status st),
              es_operation_error := note_error (operation_key item op) d (es_operation_error st)\<rparr>)"

definition progress_count :: "pydict \<Rightarrow> string \<Rightarrow> int result" where
  "progress_count d k = py_int (py_or (dget d k) (PInt 0))"

definition suite_progress :: "pydict \<Rightarrow> (execution_state, unit) eff" where
  "suite_progress d =
     ebind (elift (progress_count d ''executed_tests'')) (\<lambda>n.
     ebind (emodify (\<lambda>st. st\<lparr>es_executed_tests := n\<rparr>)) (\<lambda>_.
     ebind (elift (progress_count d ''total_tests'')) (\<lambda>m.
     emodify (\<lambda>st. st\<lparr>es_total_tests := m\<rparr>))))"

definition suite_finished :: "pydict \<Rightarrow> (execution_state, unit) eff" where
  "suite_finished d =
     emodify (\<lambda>st. st\<lparr>es_status := py_str (py_or (dget d ''status'') (PStr ''finished''))\<rparr>)"

definition with_data :: "pyval \<Rightarrow> (pydict \<Rightarrow> (execution_state, unit) eff) \<Rightarrow> (execution_state, unit) eff" where
  "with_data v f = ebind (elift (event_data v)) f"

definition handle_event :: "string \<Rightarrow> pyval \<Rightarrow> (execution_state, unit) eff" where
  "handle_event name data =
     (if name = ''suite_started'' then emodify reset_progress
      else if name = ''suite_progress'' then with_data data suite_progress
      else if name \<in> {''test_started'', ''hook_started''} then with_data data (\<lambda>d. emodify (item_started d))
      else if name \<in> {''test_finished'', ''hook_finished''} then with_data data (\<lambda>d. emodify (item_finished d))
      else if name = ''operation_finished'' then with_data data (\<lambda>d. emodify (operation_finished d))
      else if name = ''suite_finished''
      then ebind (emodify (\<lambda>st. st\<lparr>es_running := False\<rparr>)) (\<lambda>_. with_data data suite_finished)
      else ereturn ())"

subsection \<open>Listeners\<close>

record stream_hub =
  sh_states :: "(string \<times> execution_state) list"
  sh_listeners :: "string list"

definition apply_event :: "string \<Rightarrow> string \<Rightarrow> pyval \<Rightarrow> (stream_hub, unit) eff" where
  "apply_event e name data = (\<lambda>h.
     case map_of (sh_states h) e of
       None \<Rightarrow> (Inr (), h)
     | Some st \<Rightarrow>
         (case handle_event name data (append_event name data st) of
            (r, st1) \<Rightarrow> (r, h\<lparr>sh_states := dset e st1 (sh_states h)\<rparr>)))"

text \<open>The loop over the events; it breaks at the end of the suite.\<close>

fun follow_events :: "string \<Rightarrow> (string \<times> pyval) list \<Rightarrow> (stream_hub, bool) eff" where
  "follow_events e [] = ereturn False"
| "follow_events e ((name, data) # es) =
     ebind (apply_event e name data) (\<lambda>_.
     if name = ''suite_finished'' then ereturn True else follow_events e es)"

definition listener_failed :: "string \<Rightarrow> exc \<Rightarrow> stream_hub \<Rightarrow> stream_hub" where
  "listener_failed e x h =
     (case map_of (sh_states h) e of
        None \<Rightarrow> h
      | Some st \<Rightarrow> h\<lparr>sh_states := dset e (st\<lparr>es_running := False, es_status := ''error'',
          es_error := Some (exc_message x)\<rparr>) (sh_states h)\<rparr>)"

text \<open>
  The lines that arrive, and the exception that ends the connection if one does: a refused
  connection is one without lines.
\<close>

definition listen_execution_events ::
  "(string \<Rightarrow> pyval option) \<Rightarrow> string \<Rightarrow> string list \<Rightarrow> exc option \<Rightarrow> stream_hub \<Rightarrow> stream_hub" where
  "listen_execution_events loads e lines broken h =
     (let h1 = (case follow_events e (iter_sse_events loads lines ''message'' []) h of
                  (Inl x, t) \<Rightarrow> listener_failed e x t
                | (Inr True, t) \<Rightarrow> t
                | (Inr False, t) \<Rightarrow> (case broken of None \<Rightarrow> t | Some x \<Rightarrow> listener_failed e x t))
      in h1\<lparr>sh_listeners := filter (\<lambda>x. x \<noteq> e) (sh_listeners h1)\<rparr>)"

text \<open>The result says whether a thread is started.\<close>

definition register_execution_listener :: "string \<Rightarrow> string \<Rightarrow> stream_hub \<Rightarrow> bool \<times> stream_hub" where
  "register_execution_listener execution suite h =
     (let e = strip execution; s = strip suite in
      if e = [] \<or> s = [] then (False, h)
      else let h1 = (if map_of (sh_states h) e = None
                     then h\<lparr>sh_states := dset e (new_execution_state e s) (sh_states h)\<rparr> else h)
           in if e \<in> set (sh_listeners h1) then (False, h1)
              else (True, h1\<lparr>sh_listeners := sh_listeners h1 @ [e]\<rparr>))"

definition get_execution_state :: "string \<Rightarrow> stream_hub \<Rightarrow> execution_state option" where
  "get_execution_state execution h =
     (if strip execution = [] then None else map_of (sh_states h) (strip execution))"

end
