(* ===== verification/Execution_Stream_Facts.thy ===== *)
theory Execution_Stream_Facts
  imports Execution_Stream
begin

section \<open>Correctness of the listener\<close>

text \<open>
  The frames of the event bus are read back by the parser of the listener, and the state the
  listener keeps of a run is what the last events about it report.
\<close>

subsection \<open>Frames have no stray line breaks\<close>

fun plain_numbers :: "pyval \<Rightarrow> bool" where
  "plain_numbers (PFloat q s) = list_all (\<lambda>c. \<not> is_break c) s"
| "plain_numbers (PList xs) = list_all plain_numbers xs"
| "plain_numbers (PDict d) = list_all (\<lambda>(k, v). plain_numbers v) d"
| "plain_numbers v = True"

definition unbroken :: "string \<Rightarrow> bool" where
  "unbroken s \<longleftrightarrow> (\<forall>c \<in> set s. \<not> is_break c)"

lemma unbroken_simps [simp]:
  "unbroken []" "unbroken (c # s) \<longleftrightarrow> \<not> is_break c \<and> unbroken s" "unbroken (s @ t) \<longleftrightarrow> unbroken s \<and> unbroken t"
  by (auto simp: unbroken_def)

lemma is_break_code: "is_break (char_of (n :: nat)) \<longleftrightarrow> n mod 256 \<in> {10, 11, 12, 13, 28, 29, 30}"
  by (simp add: is_break_def code_of_def)

lemma unbroken_json_char: "unbroken (json_char c)"
proof -
  have hex: "\<not> is_break (hex_digit (k mod 16))" for k
    using mod_less_divisor [of 16 k] by (auto simp: hex_digit_def is_break_code)
  have "code_of c < 256" by (simp add: code_of_def)
  then have "code_of c div 16 = code_of c div 16 mod 16" by simp
  then have hex': "\<not> is_break (hex_digit (code_of c div 16))" using hex by metis
  have plain: "\<not> is_break (CHR 0x5C)" "\<not> is_break (CHR ''b'')" "\<not> is_break (CHR ''t'')" "\<not> is_break (CHR ''n'')"
      "\<not> is_break (CHR ''f'')" "\<not> is_break (CHR ''r'')" "\<not> is_break (CHR ''u'')" "\<not> is_break (CHR ''0'')"
    by code_simp+
  show ?thesis
    using hex' hex plain by (auto simp: json_char_def Let_def is_break_def)
qed

lemma unbroken_json_string: "unbroken (json_string s)"
proof -
  have "\<not> is_break (CHR 0x22)" by code_simp
  moreover have "unbroken (concat (map json_char s))"
    using unbroken_json_char by (induction s) simp_all
  ultimately show ?thesis by (simp add: json_string_def)
qed

lemma unbroken_digits: "unbroken (show_nat n)"
  using show_nat_digits [of n]
  by (auto simp: unbroken_def isdigit_def list_all_iff is_digit_def is_break_def Let_def)

lemma unbroken_join: "unbroken sep \<Longrightarrow> \<forall>s \<in> set ss. unbroken s \<Longrightarrow> unbroken (join sep ss)"
  by (induction sep ss rule: join.induct) simp_all

lemma unbroken_literals:
  "unbroken '', ''" "unbroken '': ''" "unbroken ''null''" "unbroken ''true''" "unbroken ''false''" "unbroken ''-''"
  "unbroken ''[''" "unbroken '']''" "unbroken ''{''" "unbroken ''}''" "unbroken ''event: ''" "unbroken ''data: ''"
  unfolding unbroken_def by code_simp+

lemma unbroken_json: "plain_numbers v \<Longrightarrow> unbroken (json_text v)"
proof (induction v rule: json_text.induct)
  case (3 i)
  then show ?case using unbroken_digits unbroken_literals(6) by (simp add: show_int_def)
next
  case (6 xs)
  then have "\<forall>s \<in> set (map json_text xs). unbroken s" by (auto simp: list_all_iff)
  then show ?case using unbroken_join [OF unbroken_literals(1)] unbroken_literals(7,8) by simp
next
  case (7 d)
  then have "\<forall>s \<in> set (map (\<lambda>(k, v). json_string k @ '': '' @ json_text v) d). unbroken s"
    using unbroken_json_string unbroken_literals(2) by (fastforce simp: list_all_iff)
  then show ?case using unbroken_join [OF unbroken_literals(1)] unbroken_literals(9,10) by simp
qed (use unbroken_literals unbroken_json_string in \<open>simp_all add: unbroken_def list_all_iff\<close>)

subsection \<open>Frames are read back\<close>

lemma lines_from_line: "unbroken s \<Longrightarrow> lines_from acc (s @ CHR 0x0A # t) = (rev acc @ s) # lines_from [] t"
proof (induction s arbitrary: acc)
  case Nil
  have "is_break (CHR 0x0A)" "code_of (CHR 0x0A) \<noteq> 13" by code_simp+
  then show ?case by simp
qed simp

lemma frame_lines:
  assumes "unbroken n" and "plain_numbers (PDict d)"
  shows "splitlines (serialize_sse_frame n d @ t) =
    (''event: '' @ n) # (''data: '' @ json_text (PDict d)) # [] # splitlines t"
proof -
  have "unbroken (''event: '' @ n)" "unbroken (''data: '' @ json_text (PDict d))"
    unfolding unbroken_simps(3) using assms(1) unbroken_json [OF assms(2)] unbroken_literals(11,12) by blast+
  note lines = this [THEN lines_from_line]
  have "serialize_sse_frame n d @ t =
      (''event: '' @ n) @ CHR 0x0A # (''data: '' @ json_text (PDict d)) @ CHR 0x0A # [] @ CHR 0x0A # t"
    by (simp add: serialize_sse_frame_def newline_def)
  then show ?thesis
    unfolding splitlines_def using lines lines_from_line [of "[]" "[]" t] by (simp only: rev.simps append_Nil unbroken_simps)
qed

lemma strip_prefixed: "\<not> is_ws c \<Longrightarrow> n \<noteq> [] \<Longrightarrow> \<not> is_ws (last n) \<Longrightarrow> strip (c # m @ n) = c # m @ n"
  by (rule strip_id) simp

lemma json_dict_ends:
  "\<exists>m. json_text (PDict d) = CHR 0x7B # m @ [CHR 0x7D]"
  by simp

definition event_name_ok :: "string \<Rightarrow> bool" where
  "event_name_ok n \<longleftrightarrow> n \<noteq> [] \<and> strip n = n \<and> unbroken n"

lemma iter_event_line:
  assumes "strip raw = ''event:'' @ r" and "strip r \<noteq> []"
  shows "iter_sse_events loads (raw # ls) name data = iter_sse_events loads ls (strip r) data"
  using assms(2) by (simp add: assms(1) Let_def startswith_def)

lemma iter_data_line:
  assumes "strip raw = ''data:'' @ r"
  shows "iter_sse_events loads (raw # ls) name data = iter_sse_events loads ls name (data @ [lstrip r])"
  by (simp add: assms Let_def startswith_def)

lemma iter_frame:
  assumes "event_name_ok n" and "loads (json_text (PDict d)) = Some v"
  shows "iter_sse_events loads ((''event: '' @ n) # (''data: '' @ json_text (PDict d)) # [] # ls) ''message'' [] =
    (n, v) # iter_sse_events loads ls ''message'' []"
proof -
  have ends: "\<not> is_ws (last n)" "\<not> is_ws (hd n)"
    using assms(1) strip_ends [of n] by (simp_all add: event_name_ok_def)
  have chars: "\<not> is_ws (CHR ''e'')" "\<not> is_ws (CHR ''d'')" "\<not> is_ws (CHR 0x7B)" "\<not> is_ws (CHR 0x7D)" "is_ws (CHR '' '')"
    by code_simp+
  have "strip (CHR ''e'' # ''vent: '' @ n) = CHR ''e'' # ''vent: '' @ n"
    using assms(1) by (intro strip_prefixed chars ends) (simp add: event_name_ok_def)
  then have 1: "strip (''event: '' @ n) = ''event: '' @ n" by simp
  have 2: "strip ('' '' @ n) = n"
  proof -
    have "last n \<in> set n" using assms(1) by (simp add: event_name_ok_def)
    then have "rstrip ('' '' @ n) = '' '' @ n"
      using assms(1) ends by (auto simp: rstrip_def event_name_ok_def hd_rev dropWhile_id_iff dropWhile_append)
    then show ?thesis using ends chars by (simp add: strip_def lstrip_def dropWhile_id_iff)
  qed
  obtain m where m: "json_text (PDict d) = CHR 0x7B # m @ [CHR 0x7D]" using json_dict_ends by blast
  have "strip (CHR ''d'' # ''ata: '' @ json_text (PDict d)) = CHR ''d'' # ''ata: '' @ json_text (PDict d)"
    by (intro strip_prefixed) (simp_all only: m chars list.simps not_False_eq_True last_snoc last.simps, simp_all add: chars)
  then have 3: "strip (''data: '' @ json_text (PDict d)) = ''data: '' @ json_text (PDict d)" by simp
  have 4: "lstrip ('' '' @ json_text (PDict d)) = json_text (PDict d)"
    using chars by (simp add: lstrip_def m)
  have "iter_sse_events loads ((''event: '' @ n) # (''data: '' @ json_text (PDict d)) # [] # ls) ''message'' [] =
      iter_sse_events loads ((''data: '' @ json_text (PDict d)) # [] # ls) n []"
    using iter_event_line [of "''event: '' @ n" "'' '' @ n"] 1 2 assms(1) by (simp add: event_name_ok_def del: iter_sse_events.simps)
  also have "\<dots> = iter_sse_events loads ([] # ls) n [json_text (PDict d)]"
    using iter_data_line [of "''data: '' @ json_text (PDict d)" "'' '' @ json_text (PDict d)" loads "[] # ls" n "[]"] 3 4
    by (simp del: iter_sse_events.simps json_text.simps)
  also have "\<dots> = (n, v) # iter_sse_events loads ls ''message'' []"
    using assms(2) by (simp add: sse_payload_def del: json_text.simps)
  finally show ?thesis .
qed

lemma read_back:
  assumes "\<forall>(n, d) \<in> set es. event_name_ok n \<and> plain_numbers (PDict d) \<and> loads (json_text (PDict d)) = Some (PDict d)"
  shows "iter_sse_events loads (splitlines (concat (map (\<lambda>(n, d). serialize_sse_frame n d) es))) ''message'' [] =
    map (\<lambda>(n, d). (n, PDict d)) es"
  using assms
proof (induction es)
  case (Cons x es)
  obtain n d where x: "x = (n, d)" by fastforce
  have "event_name_ok n" "unbroken n" "plain_numbers (PDict d)" "loads (json_text (PDict d)) = Some (PDict d)"
    using Cons.prems by (simp_all add: x event_name_ok_def)
  then show ?case
    using Cons frame_lines [of n d] iter_frame [of n loads d "PDict d"] by (simp add: x del: iter_sse_events.simps json_text.simps)
qed (simp add: splitlines_def)

text \<open>
  C25. The listener reads the frames of the event bus back: whatever the events and however many,
  it sees each of them once, in order, with its name and the payload that was published, provided
  that \<open>json.loads\<close> inverts \<open>json.dumps\<close> on those payloads.
\<close>

theorem events_read_back:
  assumes "\<forall>(n, d) \<in> set es. event_name_ok n \<and> plain_numbers (PDict d) \<and> loads (json_text (PDict d)) = Some (PDict d)"
  shows "iter_sse_events loads (splitlines (concat (map (\<lambda>(n, d). serialize_sse_frame n d) es))) ''message'' [] =
    map (\<lambda>(n, d). (n, PDict d)) es"
  by (rule read_back [OF assms])

subsection \<open>What the state reports\<close>

text \<open>What an event says of an item, and the last word on it since the run started.\<close>

definition report :: "string \<Rightarrow> string \<times> pyval \<Rightarrow> string option" where
  "report i ev =
     (let d = dict_or_empty (snd ev) in
      if i = [] \<or> token (dget d ''suite_item_id'') \<noteq> i then None
      else if fst ev \<in> {''test_started'', ''hook_started''} then Some ''running''
      else if fst ev \<in> {''test_finished'', ''hook_finished''} then Some (status_of d)
      else None)"

definition since_start :: "(string \<times> pyval) list \<Rightarrow> (string \<times> pyval) list" where
  "since_start es = rev (takeWhile (\<lambda>ev. fst ev \<noteq> ''suite_started'') (rev es))"

definition last_report :: "string \<Rightarrow> (string \<times> pyval) list \<Rightarrow> string option" where
  "last_report i es =
     (let evs = filter (\<lambda>ev. report i ev \<noteq> None) (since_start es)
      in if evs = [] then None else report i (last evs))"

definition before_end :: "(string \<times> pyval) list \<Rightarrow> (string \<times> pyval) list" where
  "before_end es = takeWhile (\<lambda>ev. fst ev \<noteq> ''suite_finished'') es"

text \<open>Events as the runner publishes them: objects, with whole numbers for the progress.\<close>

definition well_formed :: "string \<times> pyval \<Rightarrow> bool" where
  "well_formed ev \<longleftrightarrow> (\<exists>d. snd ev = PDict d \<and> (fst ev = ''suite_progress'' \<longrightarrow>
     (\<exists>n m. progress_count d ''executed_tests'' = Inr n \<and> progress_count d ''total_tests'' = Inr m)))"

definition step_report :: "string \<Rightarrow> string option \<Rightarrow> string \<times> pyval \<Rightarrow> string option" where
  "step_report i old ev =
     (if fst ev = ''suite_started'' then None
      else case report i ev of None \<Rightarrow> old | Some s \<Rightarrow> Some s)"

lemma report_other:
  "fst ev \<notin> {''test_started'', ''hook_started'', ''test_finished'', ''hook_finished''} \<Longrightarrow> report i ev = None"
  by (simp add: report_def Let_def)

lemma steps_last: "foldl (step_report i) None es = last_report i es"
proof (induction es rule: rev_induct)
  case (snoc ev es)
  show ?case
  proof (cases "fst ev = ''suite_started''")
    case True
    then show ?thesis by (simp add: step_report_def last_report_def since_start_def)
  next
    case False
    then have since: "since_start (es @ [ev]) = since_start es @ [ev]" by (simp add: since_start_def)
    show ?thesis
    proof (cases "report i ev")
      case None
      then show ?thesis using snoc False since by (simp add: step_report_def last_report_def)
    next
      case (Some s)
      then show ?thesis using False since
        by (simp add: step_report_def last_report_def)
    qed
  qed
qed (simp add: last_report_def since_start_def)

lemma handled:
  assumes "well_formed (name, v)"
  shows "\<exists>st1. handle_event name v st = (Inr (), st1) \<and>
    (\<forall>i. map_of (es_item_status st1) i = step_report i (map_of (es_item_status st) i) (name, v)) \<and>
    (es_running st \<longrightarrow> es_running st1 = (name \<noteq> ''suite_finished'')) \<and>
    (name \<noteq> ''operation_finished'' \<longrightarrow> es_operation_status st = [] \<longrightarrow> es_operation_status st1 = [])"
proof -
  obtain d where d: "v = PDict d" "name = ''suite_progress'' \<longrightarrow>
      (\<exists>n m. progress_count d ''executed_tests'' = Inr n \<and> progress_count d ''total_tests'' = Inr m)"
    using assms by (auto simp: well_formed_def)
  note steps = handle_event_def with_data_def event_data_def ebind_def elift_def emodify_def ereturn_def
  consider "name = ''suite_started''" | "name = ''suite_progress''" | "name \<in> {''test_started'', ''hook_started''}"
    | "name \<in> {''test_finished'', ''hook_finished''}" | "name = ''operation_finished''" | "name = ''suite_finished''"
    | "name \<notin> {''suite_started'', ''suite_progress'', ''test_started'', ''hook_started'', ''test_finished'',
        ''hook_finished'', ''operation_finished'', ''suite_finished''}"
    by (simp only: insert_iff empty_iff) argo
  then show ?thesis
  proof cases
    case 1
    then show ?thesis by (simp add: steps reset_progress_def step_report_def)
  next
    case 2
    then obtain k m where "progress_count d ''executed_tests'' = Inr k" "progress_count d ''total_tests'' = Inr m"
      using d(2) by blast
    then show ?thesis using 2 report_other by (simp add: steps d(1) suite_progress_def step_report_def)
  next
    case 3
    then have "name \<noteq> ''suite_started''" "name \<noteq> ''suite_finished''" "report i (name, v) =
        (if i = [] \<or> token (dget d ''suite_item_id'') \<noteq> i then None else Some ''running'')" for i
      by (auto simp: report_def d(1))
    moreover have "handle_event name v st = (Inr (), item_started d st)"
      using 3 by (elim insertE emptyE) (simp_all add: steps d(1))
    ultimately show ?thesis
      by (simp add: item_started_def step_report_def Let_def update_conv)
  next
    case 4
    then have "name \<noteq> ''suite_started''" "name \<noteq> ''suite_finished''" "report i (name, v) =
        (if i = [] \<or> token (dget d ''suite_item_id'') \<noteq> i then None else Some (status_of d))" for i
      by (auto simp: report_def d(1))
    moreover have "handle_event name v st = (Inr (), item_finished d st)"
      using 4 by (elim insertE emptyE) (simp_all add: steps d(1))
    ultimately show ?thesis
      by (simp add: item_finished_def step_report_def Let_def update_conv)
  next
    case 5
    then show ?thesis using report_other by (simp add: steps d(1) operation_finished_def step_report_def Let_def)
  next
    case 6
    then show ?thesis using report_other by (simp add: steps d(1) suite_finished_def step_report_def)
  next
    case 7
    then show ?thesis using report_other by (simp add: steps step_report_def)
  qed
qed

lemma followed:
  assumes "\<forall>ev \<in> set es. well_formed ev" and "map_of (sh_states h) e = Some st" and "es_running st"
  shows "\<exists>t st1. follow_events e es h = (Inr (''suite_finished'' \<in> fst ` set es), t) \<and>
    map_of (sh_states t) e = Some st1 \<and> sh_listeners t = sh_listeners h \<and>
    (\<forall>j. j \<noteq> e \<longrightarrow> map_of (sh_states t) j = map_of (sh_states h) j) \<and>
    (\<forall>i. map_of (es_item_status st1) i = foldl (step_report i) (map_of (es_item_status st) i) (before_end es)) \<and>
    es_running st1 = (''suite_finished'' \<notin> fst ` set es) \<and>
    (''operation_finished'' \<notin> fst ` set es \<longrightarrow> es_operation_status st = [] \<longrightarrow> es_operation_status st1 = [])"
  using assms
proof (induction es arbitrary: h st)
  case Nil
  then show ?case by (simp add: ereturn_def before_end_def)
next
  case (Cons ev es)
  obtain name v where ev: "ev = (name, v)" by fastforce
  have "es_item_status (append_event name v st) = es_item_status st" "es_running (append_event name v st) = es_running st"
      "es_operation_status (append_event name v st) = es_operation_status st"
    by (simp_all add: append_event_def Let_def)
  then obtain st1 where st1: "handle_event name v (append_event name v st) = (Inr (), st1)"
      "\<forall>i. map_of (es_item_status st1) i = step_report i (map_of (es_item_status st) i) (name, v)"
      "es_running st1 = (name \<noteq> ''suite_finished'')"
      "name \<noteq> ''operation_finished'' \<longrightarrow> es_operation_status st = [] \<longrightarrow> es_operation_status st1 = []"
    using handled [of name v "append_event name v st"] Cons.prems by (auto simp: ev)
  define h1 where "h1 = h\<lparr>sh_states := dset e st1 (sh_states h)\<rparr>"
  have h1: "apply_event e name v h = (Inr (), h1)" "map_of (sh_states h1) e = Some st1" "sh_listeners h1 = sh_listeners h"
      "\<forall>j. j \<noteq> e \<longrightarrow> map_of (sh_states h1) j = map_of (sh_states h) j"
    using Cons.prems(2) st1(1) by (simp_all add: apply_event_def h1_def update_conv)
  show ?case
  proof (cases "name = ''suite_finished''")
    case True
    have "step_report i old (name, v) = old" for i old by (simp add: True step_report_def report_def Let_def)
    then show ?thesis using h1 st1 True
      by (simp add: ev ebind_def ereturn_def before_end_def)
  next
    case False
    then have "es_running st1" using st1(3) by simp
    from Cons.IH [OF _ h1(2) this] obtain t st2 where
        "follow_events e es h1 = (Inr (''suite_finished'' \<in> fst ` set es), t)"
        "map_of (sh_states t) e = Some st2" "sh_listeners t = sh_listeners h1"
        "\<forall>j. j \<noteq> e \<longrightarrow> map_of (sh_states t) j = map_of (sh_states h1) j"
        "\<forall>i. map_of (es_item_status st2) i = foldl (step_report i) (map_of (es_item_status st1) i) (before_end es)"
        "es_running st2 = (''suite_finished'' \<notin> fst ` set es)"
        "''operation_finished'' \<notin> fst ` set es \<longrightarrow> es_operation_status st1 = [] \<longrightarrow> es_operation_status st2 = []"
      using Cons.prems(1) by auto
    then show ?thesis using h1 st1 False
      by (intro exI [of _ t] exI [of _ st2]) (auto simp: ev ebind_def before_end_def)
  qed
qed


subsection \<open>A short run\<close>

definition short_run :: "(string \<times> pydict) list" where
  "short_run =
     [(''suite_started'', [(''test_suite_id'', PStr ''shop'')]),
      (''test_started'', [(''suite_item_id'', PStr ''t1'')]),
      (''command_finished'', [(''suite_item_id'', PStr ''t1''), (''command_id'', PStr ''c1''), (''status'', PStr ''success'')]),
      (''test_finished'', [(''suite_item_id'', PStr ''t1''), (''status'', PStr ''success'')]),
      (''suite_finished'', [(''status'', PStr ''success'')])]"

definition short_loads :: "string \<Rightarrow> pyval option" where
  "short_loads s = map_of (map (\<lambda>(n, d). (json_text (PDict d), PDict d)) short_run) s"

lemma short_events:
  "\<forall>(n, d) \<in> set short_run. event_name_ok n \<and> plain_numbers (PDict d) \<and>
     short_loads (json_text (PDict d)) = Some (PDict d)"
  by code_simp

definition short_lines :: "string list" where
  "short_lines = splitlines (concat (map (\<lambda>(n, d). serialize_sse_frame n d) short_run))"

theorem events_read_back_witness:
  "map fst (iter_sse_events short_loads short_lines ''message'' []) =
     [''suite_started'', ''test_started'', ''command_finished'', ''test_finished'', ''suite_finished'']"
  unfolding short_lines_def events_read_back [OF short_events] by (simp add: short_run_def)


end
