(* ===== verification/Spec2Isabelle.thy ===== *)
theory Spec2Isabelle
  imports Command_Facts Context_Props Policy_Facts Registry_Facts Assert_Facts Event_Facts Template_Facts
    Executor_Facts Test_Isolation Suite_Facts Dataset_Facts Mock_Facts
    Registry_History Receive_Facts Mock_Service_Facts
    Schedule_Pass Suite_Handlers Suite_Runs_Api Draft_Facts
    Perimeter_Editor_Facts Execution_Stream_Facts
begin

text \<open>
  Qsmith is a FastAPI application for testing message-driven systems. A test suite is a list of
  tests and hooks made of commands; a run executes the commands on a run context, records every
  item and command in execution tables and publishes events. A mock server answers HTTP requests
  and reads queues, and runs commands of the same kind when it is triggered. A dataset is a table
  of a configured database with a perimeter (columns, filter, sort order, parameters).

  Paths below are under \<open>src/app\<close>; \<open>ela\<close> stands for \<open>elaborations/services\<close>.

  Vocabulary.
  \<^item> \<open>Py_Prelude\<close>: exceptions as a datatype, results as a sum, the state-exception functions
    \<open>eff\<close> (what was written before an exception stays written), ASCII strings with the methods
    of Python's \<open>str\<close> the code calls.
  \<^item> \<open>Py_Value\<close>: JSON values with Python's truth, text, equality and \<open>int\<close>; dictionaries are
    association lists in insertion order. \<open>Object_Heap\<close>: the store of mutable dictionaries and
    lists, since the scopes of a run context share objects.
  \<^item> \<open>Entity_Store\<close>: tables and the contract of \<open>_alembic/services/base_id_service.py\<close> as the
    locale \<open>entity_service\<close>, interpreted on tables.

  Components, with the theory of the definitions and the theory of the facts.
  \<^item> Commands: \<open>Command_Dto\<close>, \<open>Command_Convert\<close>, \<open>Command_Facts\<close>. The command classes of
    \<open>elaborations/models/dtos/configuration_command_dto.py\<close>, their validators and
    \<open>convert_to_config_command_type\<close>; every command it returns satisfies its class invariant.
  \<^item> Run context: \<open>Run_Context\<close>, \<open>Context_Path\<close>, \<open>Context_Store\<close>; \<open>Context_Facts\<close>,
    \<open>Context_Props\<close>. \<open>ela/suite_runs/run_context.py\<close> and \<open>run_context_resolver.py\<close>: creation,
    binding, the two path parsers, assignment, removal, resolution, serialisation. The layout
    invariant, reading back what was written (the locale \<open>constant_store\<close>, interpreted on the
    context), and which scopes a test can change.
  \<^item> Policy: \<open>Command_Policy\<close>, \<open>Policy_Facts\<close>. The contracts of the command codes and
    \<open>command_policy_validator.py\<close>.
  \<^item> Static check of constants: \<open>Constant_Planner\<close>, \<open>Constant_Registry\<close>; \<open>Planner_Facts\<close>,
    \<open>Registry_Facts\<close>. \<open>ela/constants/command_constant_definition_registry.py\<close>: references resolve
    to visible definitions, names are unique, the rebuild of a suite replaces its rows.
  \<^item> Asserts: \<open>Asserts\<close>, \<open>Assert_Facts\<close>. \<open>ela/asserts\<close>: the evaluators; the array asserts compare
    multisets.
  \<^item> Events: \<open>Event_Bus\<close>, \<open>Event_Facts\<close>. \<open>ela/suite_runs/execution_event_bus.py\<close> with its
    interleavings as a step relation; no event is lost or duplicated.
  \<^item> Message templates: \<open>Send_Message_Template\<close>, \<open>Template_Facts\<close>.
  \<^item> Command executors: \<open>Machine\<close> (what a command can reach; brokers, databases, clock and
    threads are the functions of the record \<open>environment\<close>), \<open>Command_Executors\<close>,
    \<open>Action_Executors\<close>, \<open>Command_Composite\<close> (\<open>command_executor_composite.py\<close>). \<open>Executor_Frame\<close> is
    the interface of all executors, the locales \<open>machine_frame\<close> and \<open>run_frame\<close>: a relation that
    holds across the atomic steps holds across every command. They are interpreted on the
    bookkeeping of the tables, the session invariant and the clock (\<open>Executor_Facts\<close>,
    \<open>Suite_Facts\<close>) and on the isolation of tests (\<open>Test_Isolation\<close>). \<open>Receive_Facts\<close>: the loop that
    reads a queue ends.
  \<^item> Suite runs: \<open>Suite_Runner\<close>, \<open>Suite_Facts\<close>. \<open>ela/test_suites/test_suite_executor_thread.py\<close>
    and \<open>suite_item_executor.py\<close>: items, hooks, failure policy, rows, events, the transaction. The
    trace of a run is an abstract specification (\<open>suite_trace\<close>) the code refines.
  \<^item> Datasets: \<open>Dataset_Parameters\<close>, \<open>Dataset_Perimeter\<close>, \<open>Dataset_Facts\<close>.
    \<open>data_sources/services/dataset_parameter_resolver.py\<close> and \<open>dataset_perimeter_compiler.py\<close>: the
    normal form is a fixed point, parameter values have their types, compilation fails only on
    missing columns.
  \<^item> Mock servers: \<open>Mock_Routes\<close>, \<open>Mock_Runtime\<close>, \<open>Mock_Registry\<close>; \<open>Mock_Facts\<close>,
    \<open>Registry_History\<close>. \<open>mock_servers/services/runtime\<close> and \<open>api/mock_runtime_api.py\<close>: the loader,
    route matching, dispatch with the commands before and after the response, the queue
    listeners, the registry of running servers under every history of starts and stops.
  \<^item> Saving mock servers: \<open>Mock_Service\<close>, \<open>Mock_Activation\<close>; \<open>Mock_Service_Facts\<close>.
    \<open>mock_server_payload_service.py\<close>, \<open>rebuild_mock_constant_definitions\<close> and
    \<open>mock_servers/api/mock_server_api.py\<close>: what an update leaves behind, and the agreement of the
    flag of a server with the registry.
  \<^item> Schedules: \<open>Schedules\<close>, \<open>Schedule_Api\<close>; \<open>Schedule_Facts\<close>, \<open>Schedule_Frame\<close>, \<open>Schedule_History\<close>,
    \<open>Schedule_Pass\<close>. \<open>ela/test_suite_schedules\<close>, \<open>ela/alembic/test_suite_schedule_service.py\<close> and
    \<open>elaborations/api/test_suite_schedules_api.py\<close>: the next run of a schedule, the trigger, the
    pass over the due schedules and the API, beside the runs of the started suites (\<open>run_thread\<close>
    of \<open>Suite_Runner\<close>), as one inductive relation with its invariant. The locale \<open>eff_frame\<close> says
    what no step of the scheduler changes.
  \<^item> Test-suite API: \<open>Suite_Api\<close>; \<open>Suite_Save\<close>, \<open>Suite_Reading\<close>, \<open>Suite_Api_Facts\<close>,
    \<open>Suite_Handlers\<close>. \<open>elaborations/api/test_suites_api.py\<close> on the state of the scheduler: a saved
    suite is read back, what a deletion removes and what it leaves, and the references between the
    tables under every history of requests.
  \<^item> Test-suite executions API: \<open>Suite_Runs_Api\<close>. \<open>elaborations/api/test_suite_executions_api.py\<close>
    and the services of the execution tables: the pages of a search partition what it finds.
  \<^item> Suite editor drafts: \<open>Draft_Mapper\<close>, \<open>Draft_Facts\<close>. \<open>ui/test_suites/services/draft_mapper.py\<close>:
    the draft of a suite and the request made of it. An item that was not edited is sent back as it
    was, and the editor offers the constants the planner of the server would accept.
  \<^item> Perimeter editor: \<open>Perimeter_Editor\<close>, \<open>Perimeter_Editor_Facts\<close>.
    \<open>ui/database_datasources/services/perimeter_service.py\<close>: a perimeter that is opened and saved is
    the same for the server, when its values are shown as they are; filters with lists are refused.
  \<^item> Execution listener: \<open>Execution_Stream\<close>, \<open>Execution_Stream_Facts\<close>.
    \<open>ui/test_suites/services/execution_stream_service.py\<close>: the frames of the event bus are read back,
    and the state of a run is what the last events report.

  How the parts interact. A suite run (\<open>execute_suite\<close>) and a mock trigger
  (\<open>execute_mock_operations\<close>) both call \<open>execute_operations\<close> on a \<open>machine\<close>, which converts each
  stored configuration (\<open>convert_to_config_command_type\<close>), checks it (\<open>validate_operation_policy\<close>),
  executes it on the run context and the environment, and writes execution rows and events. The
  definitions the executors look up by id are those the planner stored.

  Bounds and fuel. Every definition is total. \<open>reify\<close> reads an object graph to a depth, and the
  code's use of it has the number of objects as depth, which is enough unless the graph is
  cyclic, where \<open>json.dumps\<close> fails too. The polling loop of a queue ends by its own counters.
  The bus theorem is about executions of at most 500 events, the size of the history.

  What code outside the repository is trusted for. Generated ids are new where a property says so
  (\<open>fresh_ids\<close>); the ISO text of a date parses to itself (\<open>iso_laws\<close>); SQLAlchemy may refuse a
  comparison (\<open>sql_refusal\<close>); \<open>jsonschema\<close>, the brokers and the database engines are functions
  about which nothing is assumed, except \<open>honours_limit\<close> in the bound on received messages. The
  truth of \<open>pandas.isna\<close> is as documented (\<open>pandas_laws\<close>), and \<open>json.loads\<close> inverts \<open>json.dumps\<close> on the
  payloads of a stream that is read back.

  Not modelled. Text is ASCII, and floats have no NaN or infinity. The pydantic coercions of
  request bodies, FastAPI's routing, the SQLAlchemy session and engine setup, the SQS clients and
  the migrations are glue around libraries. The CRUD of data sources and the query service hand
  requests to SQLAlchemy. The legacy scenario runners are superseded by the suite runs. The
  Streamlit user interface, its editors and its listener apart, is rendering and HTTP calls.
\<close>

end
